(* ===== verification/Prelude.thy ===== *)
theory Prelude
  imports Main "HOL-Library.Word" "HOL-Library.Multiset" "HOL-Library.List_Lexorder"
    "HOL-Library.Char_ord"
begin

text \<open>
  Shared ground of the development: the identifiers, times and durations of the Go code,
  its error values, the shape of an operation on a state (a Go method that returns a value
  or an error and leaves the state changed), and the list lemmas the components share.
  The collections \<open>act_simps\<close> (running an operation) and \<open>db_ok_intros\<close>
  (preservation of the integrity of the database) are filled by the component theories.
\<close>

named_theorems act_simps \<open>equations that run an operation on a state\<close>
named_theorems db_ok_intros \<open>an operation keeps the database consistent\<close>

section \<open>Identifiers\<close>

text \<open>\<open>uuid.UUID\<close> is \<open>[16]byte\<close>, compared and hashed as a whole: a 128-bit word.\<close>

type_synonym uuid = "128 word"

abbreviation uuid_Nil :: uuid where
  "uuid_Nil \<equiv> 0"

section \<open>Times and durations\<close>

text \<open>
  A \<open>time.Time\<close> is an instant: the nanoseconds since the zero time (January 1, year 1,
  UTC), so that \<open>IsZero\<close> is equality with 0 and \<open>Before\<close>, \<open>After\<close> are the
  orders of \<open>int\<close>. A \<open>time.Duration\<close> is an \<open>int64\<close> of nanoseconds and
  \<open>Sub\<close> saturates at its ends.
\<close>

type_synonym time = int
type_synonym duration = int

definition max_duration :: duration where
  "max_duration = 2 ^ 63 - 1"

definition min_duration :: duration where
  "min_duration = - (2 ^ 63)"

definition IsZero :: "time \<Rightarrow> bool" where
  "IsZero t \<longleftrightarrow> t = 0"

definition time_Sub :: "time \<Rightarrow> time \<Rightarrow> duration" where
  "time_Sub t u =
     (if t - u > max_duration then max_duration
      else if t - u < min_duration then min_duration else t - u)"

definition Hour :: duration where
  "Hour = 3600 * 1000000000"

lemma time_Sub_le_iff:
  assumes "min_duration \<le> d" and "d < max_duration"
  shows "time_Sub t u \<le> d \<longleftrightarrow> t - u \<le> d"
  using assms by (auto simp: time_Sub_def)

section \<open>Errors\<close>

text \<open>
  The sentinel errors of the packages, the states a Postgres statement can fail with, and
  the wrapping of \<open>fmt.Errorf("...: %w", err)\<close>. \<open>errors_Is\<close> walks the chain of
  wrapped errors, as \<open>errors.Is\<close> does.
\<close>

datatype sentinel =
    ErrCollectionNotFound | ErrUserNotFound | ErrExpiredToken | ErrInvalidToken
  | ErrQRRecordNotExist | ErrJwtIncorrect | ErrDeviceNotFound | ErrUnauthorized | ErrNotAdmin
  | SqlErrNoRows | ErrNilDB | ErrNoTeas | ErrNoTeaCandidates
  | ErrAppleAuth | ErrEmptyBlockDecode | ErrAdminKeyNotECDSA | ErrAdminVerificationKeyAbsent
  | ErrUnexpectedSigningMethod | ErrNotString

datatype sqlstate = UniqueViolation | ForeignKeyViolation | CheckViolation | ConnFault

datatype gerr = Sentinel sentinel | DbErr sqlstate | ExtErr string | Wrap string gerr

fun errors_Is :: "gerr \<Rightarrow> sentinel \<Rightarrow> bool" where
  "errors_Is (Sentinel s) x = (s = x)"
| "errors_Is (DbErr c) x = False"
| "errors_Is (ExtErr m) x = False"
| "errors_Is (Wrap m e) x = errors_Is e x"

fun err_root :: "gerr \<Rightarrow> gerr" where
  "err_root (Wrap m e) = err_root e"
| "err_root e = e"

lemma errors_Is_root: "errors_Is e x \<longleftrightarrow> err_root e = Sentinel x"
  by (induction e) auto

text \<open>The answer of code that may also panic, on a nil pointer or an index out of range.\<close>

datatype 'a call = Panic | Ret "gerr + 'a"

section \<open>Operations on a state\<close>

text \<open>
  A method \<open>func (d *T) Op(...) (R, error)\<close> is a function from the state to a pair of an
  error or a result and the new state. The state is kept on an error too: what an operation
  changed before it failed stays changed.
\<close>

type_synonym ('s, 'a) act = "'s \<Rightarrow> (gerr + 'a) \<times> 's"

definition bindE :: "('s, 'a) act \<Rightarrow> ('a \<Rightarrow> ('s, 'b) act) \<Rightarrow> ('s, 'b) act" where
  "bindE m f s = (case m s of (Inl e, s') \<Rightarrow> (Inl e, s') | (Inr x, s') \<Rightarrow> f x s')"

definition returnE :: "'a \<Rightarrow> ('s, 'a) act" where
  "returnE x s = (Inr x, s)"

definition throwE :: "gerr \<Rightarrow> ('s, 'a) act" where
  "throwE e s = (Inl e, s)"

text \<open>\<open>wrapE\<close> is \<open>if err != nil { return fmt.Errorf("msg: %w", err) }\<close>.\<close>

definition wrapE :: "string \<Rightarrow> ('s, 'a) act \<Rightarrow> ('s, 'a) act" where
  "wrapE msg m s = (case m s of (Inl e, s') \<Rightarrow> (Inl (Wrap msg e), s') | (Inr x, s') \<Rightarrow> (Inr x, s'))"

definition mapE :: "('a \<Rightarrow> 'b) \<Rightarrow> ('s, 'a) act \<Rightarrow> ('s, 'b) act" where
  "mapE f m s = (case m s of (Inl e, s') \<Rightarrow> (Inl e, s') | (Inr x, s') \<Rightarrow> (Inr (f x), s'))"

lemma returnE_run [act_simps, simp]: "returnE x s = (Inr x, s)"
  by (simp add: returnE_def)

lemma throwE_run [act_simps, simp]: "throwE e s = (Inl e, s)"
  by (simp add: throwE_def)

lemma bindE_Inl [simp]: "m s = (Inl e, s') \<Longrightarrow> bindE m f s = (Inl e, s')"
  by (simp add: bindE_def)

lemma bindE_Inr [simp]: "m s = (Inr x, s') \<Longrightarrow> bindE m f s = f x s'"
  by (simp add: bindE_def)

lemma wrapE_Inl [simp]: "m s = (Inl e, s') \<Longrightarrow> wrapE msg m s = (Inl (Wrap msg e), s')"
  by (simp add: wrapE_def)

lemma wrapE_Inr [simp]: "m s = (Inr x, s') \<Longrightarrow> wrapE msg m s = (Inr x, s')"
  by (simp add: wrapE_def)

lemma mapE_Inl [simp]: "m s = (Inl e, s') \<Longrightarrow> mapE f m s = (Inl e, s')"
  by (simp add: mapE_def)

lemma mapE_Inr [simp]: "m s = (Inr x, s') \<Longrightarrow> mapE f m s = (Inr (f x), s')"
  by (simp add: mapE_def)

lemma snd_wrapE [simp]: "snd (wrapE msg m s) = snd (m s)"
  by (simp add: wrapE_def split: prod.splits sum.splits)

lemma snd_mapE [simp]: "snd (mapE f m s) = snd (m s)"
  by (simp add: mapE_def split: prod.splits sum.splits)

lemma wrapE_eq_Inr [simp]: "wrapE msg m s = (Inr x, s') \<longleftrightarrow> m s = (Inr x, s')"
  by (auto simp: wrapE_def split: prod.splits sum.splits)

lemma wrapE_eq_Inl:
  "wrapE msg m s = (Inl e, s') \<longleftrightarrow> (\<exists>e'. e = Wrap msg e' \<and> m s = (Inl e', s'))"
  by (auto simp: wrapE_def split: prod.splits sum.splits)

lemma mapE_eq_Inr:
  "mapE f m s = (Inr y, s') \<longleftrightarrow> (\<exists>x. y = f x \<and> m s = (Inr x, s'))"
  by (auto simp: mapE_def split: prod.splits sum.splits)

lemma bindE_eq_Inr:
  "bindE m f s = (Inr y, s') \<longleftrightarrow> (\<exists>x s1. m s = (Inr x, s1) \<and> f x s1 = (Inr y, s'))"
  by (auto simp: bindE_def split: prod.splits sum.splits)

text \<open>The shape of the adapter's methods: a query with its error wrapped and its rows converted.\<close>

lemma mapE_wrapE_Inr: "mapE f (wrapE msg m) s = (Inr y, s') \<longleftrightarrow> (\<exists>x. m s = (Inr x, s') \<and> y = f x)"
  by (auto simp: mapE_def wrapE_def split: prod.splits sum.splits)

lemma mapE_wrapE_Inl:
  "mapE f (wrapE msg m) s = (Inl e, s') \<longleftrightarrow> (\<exists>e0. m s = (Inl e0, s') \<and> e = Wrap msg e0)"
  by (auto simp: mapE_def wrapE_def split: prod.splits sum.splits)

lemma mapE_mapE_wrapE_Inr:
  "mapE g (mapE f (wrapE msg m)) s = (Inr y, s') \<longleftrightarrow> (\<exists>x. m s = (Inr x, s') \<and> y = g (f x))"
  by (auto simp: mapE_def wrapE_def split: prod.splits sum.splits)

lemma mapE_mapE_wrapE_Inl:
  "mapE g (mapE f (wrapE msg m)) s = (Inl e, s') \<longleftrightarrow> (\<exists>e0. m s = (Inl e0, s') \<and> e = Wrap msg e0)"
  by (auto simp: mapE_def wrapE_def split: prod.splits sum.splits)

lemmas mapE_wrapE_runs = mapE_wrapE_Inr mapE_wrapE_Inl mapE_mapE_wrapE_Inr mapE_mapE_wrapE_Inl

text \<open>A property of the state that both halves keep is kept by their sequence.\<close>

lemma snd_bindE_pres:
  assumes "P s" and "\<And>s. P s \<Longrightarrow> P (snd (m s))" and "\<And>x s. P s \<Longrightarrow> P (snd (f x s))"
  shows "P (snd (bindE m f s))"
proof (cases "m s")
  case (Pair r s1)
  with assms(1,2) have "P s1" by (metis snd_conv)
  with Pair assms(3) show ?thesis by (cases r) (simp_all add: bindE_def)
qed

text \<open>A loop \<open>for _, x := range xs { if err := op(x); err != nil { return err } }\<close>.\<close>

fun forE :: "('a \<Rightarrow> ('s, unit) act) \<Rightarrow> 'a list \<Rightarrow> ('s, unit) act" where
  "forE f [] s = (Inr (), s)"
| "forE f (x # xs) s =
     (case f x s of (Inl e, s') \<Rightarrow> (Inl e, s') | (Inr _, s') \<Rightarrow> forE f xs s')"

lemma forE_pres:
  assumes "\<And>x s. P s \<Longrightarrow> P (snd (f x s))"
  shows "P s \<Longrightarrow> P (snd (forE f xs s))"
proof (induction xs arbitrary: s)
  case Nil
  then show ?case by simp
next
  case (Cons x xs)
  obtain r s1 where f: "f x s = (r, s1)" by fastforce
  with assms Cons.prems have "P s1" by (metis snd_conv)
  with f Cons.IH show ?case by (cases r) simp_all
qed

section \<open>Rows of a table\<close>

text \<open>\<open>UPDATE t SET f WHERE p\<close> on the list of the rows of a table.\<close>

definition update_where :: "('r \<Rightarrow> bool) \<Rightarrow> ('r \<Rightarrow> 'r) \<Rightarrow> 'r list \<Rightarrow> 'r list" where
  "update_where p f rs = map (\<lambda>r. if p r then f r else r) rs"

lemma update_where_simps [simp]:
  "update_where p f [] = []"
  "update_where p f (r # rs) = (if p r then f r else r) # update_where p f rs"
  by (simp_all add: update_where_def)

lemma map_update_where_same:
  assumes "\<And>r. p r \<Longrightarrow> k (f r) = k r"
  shows "map k (update_where p f rs) = map k rs"
  using assms by (simp add: update_where_def)

lemma set_update_where:
  "set (update_where p f rs) = {r \<in> set rs. \<not> p r} \<union> f ` {r \<in> set rs. p r}"
  by (auto simp: update_where_def)

text \<open>
  Changing the unique column \<open>k\<close> of the row with key \<open>i\<close> to a value that no other
  row holds keeps the column unique.
\<close>

lemma distinct_map_update_where:
  assumes "distinct (map pk rs)" and "distinct (map k rs)"
    and "\<And>r r'. r \<in> set rs \<Longrightarrow> r' \<in> set rs \<Longrightarrow> pk r = i \<Longrightarrow> pk r' \<noteq> i \<Longrightarrow> k r' \<noteq> k (f r)"
  shows "distinct (map k (update_where (\<lambda>r. pk r = i) f rs))"
  using assms
proof (induction rs)
  case Nil
  then show ?case by simp
next
  case (Cons r rs)
  have IH: "distinct (map k (update_where (\<lambda>r. pk r = i) f rs))"
    using Cons by (intro Cons.IH) auto
  show ?case
  proof (cases "pk r = i")
    case True
    with Cons.prems(1) have other: "\<forall>r' \<in> set rs. pk r' \<noteq> i"
      by (auto simp: rev_image_eqI)
    then have "update_where (\<lambda>r. pk r = i) f rs = rs"
      by (auto simp: update_where_def intro: map_idI)
    moreover have "k (f r) \<notin> k ` set rs"
      using Cons.prems(3) True other by (metis image_iff list.set_intros)
    ultimately show ?thesis using True IH by simp
  next
    case False
    have "k r \<notin> k ` set (update_where (\<lambda>r. pk r = i) f rs)"
    proof
      assume "k r \<in> k ` set (update_where (\<lambda>r. pk r = i) f rs)"
      then obtain r' where r': "r' \<in> set rs"
        and eq: "k r = (if pk r' = i then k (f r') else k r')"
        by (auto simp: update_where_def split: if_splits)
      then show False
        using Cons.prems(2) Cons.prems(3) [of r' r] False
        by (auto split: if_splits)
    qed
    then show ?thesis using False IH by simp
  qed
qed

lemma find_Some_iff_distinct:
  assumes "distinct (map k rs)"
  shows "find (\<lambda>r. k r = i) rs = Some r \<longleftrightarrow> r \<in> set rs \<and> k r = i"
  using assms by (induction rs) (auto simp: rev_image_eqI)

lemma find_eq_None_iff: "find p rs = None \<longleftrightarrow> (\<forall>r \<in> set rs. \<not> p r)"
  by (auto simp: find_None_iff)

lemma find_SomeD: "find p rs = Some r \<Longrightarrow> r \<in> set rs \<and> p r"
  by (auto simp: find_Some_iff)

end
