(* ===== verification/Key_Builder.thy ===== *)
theory Key_Builder
  imports Prelude "HOL-Library.Sublist"
begin

text \<open>
  The byte keys of the key-value layout (\<open>common/key_value/key_builder\<close>): one letter for the
  data, two letters for the indexes, then identifiers, names and a big-endian timestamp.
  The lemmas show that no two entries share a key, that a scan of a prefix finds exactly the
  entries it is meant for, that a consumption key is parsed back, and that the keys of a
  user's consumptions sort by time.
\<close>

type_synonym byte = "8 word"
type_synonym bytes = "byte list"

section \<open>Bytes of numbers, identifiers and strings\<close>

text \<open>
  \<open>binary.BigEndian.PutUint64\<close> and the array of a UUID: the digits to base 256, most
  significant first, and back.
\<close>

fun be_bytes :: "nat \<Rightarrow> nat \<Rightarrow> bytes" where
  "be_bytes 0 x = []"
| "be_bytes (Suc n) x = be_bytes n (x div 256) @ [word_of_nat (x mod 256)]"

definition be_value :: "bytes \<Rightarrow> nat" where
  "be_value bs = foldl (\<lambda>a b. a * 256 + unat b) 0 bs"

definition uuid_bytes :: "uuid \<Rightarrow> bytes" where
  "uuid_bytes u = be_bytes 16 (unat u)"

definition uuid_of_bytes :: "bytes \<Rightarrow> uuid" where
  "uuid_of_bytes bs = word_of_nat (be_value bs)"

definition byte_of :: "char \<Rightarrow> byte" where
  "byte_of c = word_of_nat (of_char c)"

definition str_bytes :: "string \<Rightarrow> bytes" where
  "str_bytes s = map byte_of s"

lemma length_be_bytes [simp]: "length (be_bytes n x) = n"
  by (induction n arbitrary: x) auto

lemma length_uuid_bytes [simp]: "length (uuid_bytes u) = 16"
  by (simp add: uuid_bytes_def)

lemma be_value_append: "be_value (bs @ [b]) = be_value bs * 256 + unat b"
  by (simp add: be_value_def)

lemma unat_byte: "unat (word_of_nat (x mod 256) :: byte) = x mod 256"
  by (simp add: unat_of_nat)

lemma be_value_be_bytes: "be_value (be_bytes n x) = x mod 256 ^ n"
proof (induction n arbitrary: x)
  case 0
  then show ?case by (simp add: be_value_def)
next
  case (Suc n)
  have "x mod 256 ^ Suc n = 256 * (x div 256 mod 256 ^ n) + x mod 256"
    using mod_mult2_eq [of x 256 "256 ^ n"] by simp
  with Suc show ?case by (simp add: be_value_append unat_byte)
qed

lemma be_bytes_inj: "x < 256 ^ n \<Longrightarrow> y < 256 ^ n \<Longrightarrow> be_bytes n x = be_bytes n y \<longleftrightarrow> x = y"
  by (metis be_value_be_bytes mod_less)

lemma uuid_of_uuid_bytes [simp]: "uuid_of_bytes (uuid_bytes u) = u"
proof -
  have "unat u < 256 ^ 16" using unsigned_less [of u, where ?'a = nat] by simp
  then show ?thesis by (simp add: uuid_of_bytes_def uuid_bytes_def be_value_be_bytes)
qed

lemma uuid_bytes_inj [simp]: "uuid_bytes u = uuid_bytes v \<longleftrightarrow> u = v"
  by (metis uuid_of_uuid_bytes)

lemma byte_of_inj [simp]: "byte_of c = byte_of d \<longleftrightarrow> c = d"
proof
  assume "byte_of c = byte_of d"
  then have "unat (byte_of c) = unat (byte_of d)" by simp
  moreover have "unat (byte_of e) = of_char e" for e
    using of_char_mod_256 [of e, where 'a = nat] by (simp add: byte_of_def unat_of_nat)
  ultimately show "c = d" by simp
qed simp

lemma str_bytes_inj [simp]: "str_bytes s = str_bytes t \<longleftrightarrow> s = t"
  unfolding str_bytes_def by (simp add: inj_map_eq_map inj_def)

section \<open>Prefixes\<close>

definition version :: byte where "version = byte_of CHR ''v''"
definition record_key :: byte where "record_key = byte_of CHR ''r''"
definition qr_key :: byte where "qr_key = byte_of CHR ''q''"
definition tagCategory :: byte where "tagCategory = byte_of CHR ''c''"
definition tag_letter :: byte where "tag_letter = byte_of CHR ''t''"
definition collection :: byte where "collection = byte_of CHR ''l''"
definition user_letter :: byte where "user_letter = byte_of CHR ''u''"
definition notification :: byte where "notification = byte_of CHR ''o''"
definition device :: byte where "device = byte_of CHR ''d''"
definition recordNameIndex :: byte where "recordNameIndex = byte_of CHR ''n''"
definition tagCategoryIndexName :: bytes where "tagCategoryIndexName = str_bytes ''ic''"
definition tagIndexCategoryName :: bytes where "tagIndexCategoryName = str_bytes ''it''"
definition tagIndexName :: bytes where "tagIndexName = str_bytes ''in''"
definition tagIndexTea :: bytes where "tagIndexTea = str_bytes ''ia''"
definition teaIndexTag :: bytes where "teaIndexTag = str_bytes ''ib''"
definition collectionIndexTea :: bytes where "collectionIndexTea = str_bytes ''il''"
definition userIndexAppleID :: bytes where "userIndexAppleID = str_bytes ''ii''"
definition userIndexNotifications :: bytes where "userIndexNotifications = str_bytes ''iu''"
definition userIndexDevices :: bytes where "userIndexDevices = str_bytes ''id''"
definition userIndexConsumption :: bytes where "userIndexConsumption = str_bytes ''ix''"

lemmas letters = version_def record_key_def qr_key_def tagCategory_def tag_letter_def collection_def
  user_letter_def notification_def device_def recordNameIndex_def
lemmas indexes = tagCategoryIndexName_def tagIndexCategoryName_def tagIndexName_def tagIndexTea_def
  teaIndexTag_def collectionIndexTea_def userIndexAppleID_def userIndexNotifications_def
  userIndexDevices_def userIndexConsumption_def

text \<open>\<open>appendPrefix\<close> fills a slice index by index.\<close>

definition appendPrefix :: "byte \<Rightarrow> bytes \<Rightarrow> bytes" where
  "appendPrefix pfx data = map (\<lambda>i. if i = 0 then pfx else data ! (i - 1)) [0..<length data + 1]"

definition appendUUID :: "byte \<Rightarrow> uuid \<Rightarrow> bytes" where
  "appendUUID pfx u = appendPrefix pfx (uuid_bytes u)"

definition appendIndex :: "bytes \<Rightarrow> bytes \<Rightarrow> bytes" where
  "appendIndex pfx data = pfx @ data"

lemma appendPrefix_Cons [simp]: "appendPrefix p bs = p # bs"
proof (rule nth_equalityI)
  fix i assume "i < length (appendPrefix p bs)"
  then have "i < length bs + 1" by (simp add: appendPrefix_def)
  then show "appendPrefix p bs ! i = (p # bs) ! i"
    unfolding appendPrefix_def by (cases i) (simp_all del: upt_Suc)
qed (simp add: appendPrefix_def)

section \<open>The builder\<close>

definition Version :: bytes where "Version = [version]"
definition Records :: bytes where "Records = [record_key]"
definition Record :: "uuid \<Rightarrow> bytes" where "Record i = appendUUID record_key i"
definition RecordsByName :: "string \<Rightarrow> bytes" where
  "RecordsByName name = appendPrefix recordNameIndex (str_bytes name)"
definition QR_key :: "uuid \<Rightarrow> bytes" where "QR_key i = appendUUID qr_key i"
definition TagCategories :: bytes where "TagCategories = [tagCategory]"
definition TagCategory_key :: "uuid \<Rightarrow> bytes" where "TagCategory_key i = appendUUID tagCategory i"
definition TagCategoryByName :: "string \<Rightarrow> bytes" where
  "TagCategoryByName name = appendIndex tagCategoryIndexName (str_bytes name)"
definition Tags :: bytes where "Tags = [tag_letter]"
definition Tag_key :: "uuid \<Rightarrow> bytes" where "Tag_key i = appendUUID tag_letter i"
definition TagsByName :: "string \<Rightarrow> bytes" where
  "TagsByName name = appendIndex tagIndexName (str_bytes name)"
definition TagsByNameAndCategory :: "uuid \<Rightarrow> string \<Rightarrow> bytes" where
  "TagsByNameAndCategory category name = appendIndex tagIndexCategoryName (uuid_bytes category @ str_bytes name)"
definition TagsByCategory :: "uuid \<Rightarrow> bytes" where
  "TagsByCategory category = appendIndex tagIndexCategoryName (uuid_bytes category)"
definition TagsByTea :: "uuid \<Rightarrow> bytes" where "TagsByTea tea = appendIndex teaIndexTag (uuid_bytes tea)"
definition TeasByTag :: "uuid \<Rightarrow> bytes" where "TeasByTag tg = appendIndex tagIndexTea (uuid_bytes tg)"
definition TagTeaPair :: "uuid \<Rightarrow> uuid \<Rightarrow> bytes" where
  "TagTeaPair tg tea = appendIndex tagIndexTea (uuid_bytes tg @ uuid_bytes tea)"
definition TeaTagPair :: "uuid \<Rightarrow> uuid \<Rightarrow> bytes" where
  "TeaTagPair tea tg = appendIndex teaIndexTag (uuid_bytes tea @ uuid_bytes tg)"
definition Collection_key :: "uuid \<Rightarrow> uuid \<Rightarrow> bytes" where
  "Collection_key i userID = appendIndex (appendUUID collection userID) (uuid_bytes i)"
definition UserCollections :: "uuid \<Rightarrow> bytes" where "UserCollections i = appendUUID collection i"
definition CollectionsTeas :: "uuid \<Rightarrow> uuid \<Rightarrow> bytes" where
  "CollectionsTeas i teaID = appendIndex collectionIndexTea (uuid_bytes i @ uuid_bytes teaID)"
definition RecordsByCollection :: "uuid \<Rightarrow> bytes" where
  "RecordsByCollection i = appendIndex collectionIndexTea (uuid_bytes i)"
definition Users :: bytes where "Users = [user_letter]"
definition User_key :: "uuid \<Rightarrow> bytes" where "User_key i = appendUUID user_letter i"
definition UserByAppleID :: "string \<Rightarrow> bytes" where
  "UserByAppleID i = appendIndex userIndexAppleID (str_bytes i)"
definition Device_key :: "uuid \<Rightarrow> bytes" where "Device_key i = appendUUID device i"
definition DevicesByUserID :: "uuid \<Rightarrow> bytes" where
  "DevicesByUserID i = appendIndex userIndexDevices (uuid_bytes i)"
definition Notification_key :: "uuid \<Rightarrow> bytes" where "Notification_key i = appendUUID notification i"
definition NotificationByUserID :: "uuid \<Rightarrow> bytes" where
  "NotificationByUserID i = appendIndex userIndexNotifications (uuid_bytes i)"
definition ConsumptionByUserID :: "uuid \<Rightarrow> bytes" where
  "ConsumptionByUserID i = appendIndex userIndexConsumption (uuid_bytes i)"

text \<open>\<open>uint64(ts.UnixNano())\<close>: 64 bits of the nanoseconds since 1970.\<close>

definition unix_epoch :: time where "unix_epoch = 62135596800 * 1000000000"

definition unix_nano :: "time \<Rightarrow> 64 word" where "unix_nano ts = word_of_int (ts - unix_epoch)"

definition ConsumptionKey :: "uuid \<Rightarrow> time \<Rightarrow> uuid \<Rightarrow> bytes" where
  "ConsumptionKey userID ts teaID =
     ConsumptionByUserID userID @ be_bytes 8 (unat (unix_nano ts)) @ uuid_bytes teaID"

definition uuidSize :: nat where "uuidSize = 16"
definition timestampSize :: nat where "timestampSize = 8"

definition ParseConsumptionKey :: "bytes \<Rightarrow> bytes \<Rightarrow> (time \<times> uuid) option" where
  "ParseConsumptionKey pfx key =
     (let need = length pfx + timestampSize + uuidSize
      in if length key < need then None
         else if \<exists>i \<in> set [0..<length pfx]. key ! i \<noteq> pfx ! i then None
         else
           let u = be_value (take timestampSize (drop (length pfx) key));
               n = (if u > 2 ^ 63 - 1 then 2 ^ 63 - 1 else u)
           in Some (unix_epoch + int n,
                    uuid_of_bytes (take uuidSize (drop (length pfx + timestampSize) key))))"

section \<open>Parsing a consumption key\<close>

lemma ParseConsumptionKey_append:
  "length tail = 24 \<Longrightarrow> ParseConsumptionKey pfx (pfx @ tail) =
     Some (unix_epoch + int (min (2 ^ 63 - 1) (be_value (take 8 tail))), uuid_of_bytes (drop 8 tail))"
  by (simp add: ParseConsumptionKey_def Let_def timestampSize_def uuidSize_def nth_append min_def)

lemma uint_unix_nano: "uint (unix_nano ts) = (ts - unix_epoch) mod 2 ^ 64"
  by (simp add: unix_nano_def uint_word_of_int take_bit_eq_mod del: of_int_diff)

lemma unat_unix_nano:
  "unix_epoch \<le> ts \<Longrightarrow> ts - unix_epoch < 2 ^ 63 \<Longrightarrow> unat (unix_nano ts) = nat (ts - unix_epoch)"
proof -
  assume "unix_epoch \<le> ts" and "ts - unix_epoch < 2 ^ 63"
  then have "(ts - unix_epoch) mod 2 ^ 64 = ts - unix_epoch" by (intro mod_pos_pos_trivial) simp_all
  then show ?thesis by (simp only: unat_eq_nat_uint uint_unix_nano)
qed

lemma be_value_unix_nano: "be_value (be_bytes 8 (unat (unix_nano ts))) = unat (unix_nano ts)"
proof -
  have "unat (unix_nano ts) < 256 ^ 8" using unsigned_less [of "unix_nano ts", where ?'a = nat] by simp
  then show ?thesis by (simp add: be_value_be_bytes)
qed

text \<open>
  C34. A consumption key is parsed back, with the prefix of its user, into exactly the time and
  tea it was built from, for every time from 1970 on that fits the 64-bit nanoseconds; a time
  before 1970 comes back as the largest time, not as itself.
\<close>

theorem ParseConsumptionKey_roundtrip:
  assumes "- (2 ^ 63) \<le> ts - unix_epoch" and "ts - unix_epoch < 2 ^ 63"
  shows "ParseConsumptionKey (ConsumptionByUserID u) (ConsumptionKey u ts tea) =
    Some (if unix_epoch \<le> ts then ts else unix_epoch + (2 ^ 63 - 1), tea)"
proof -
  have p: "ParseConsumptionKey (ConsumptionByUserID u) (ConsumptionKey u ts tea) =
      Some (unix_epoch + int (min (2 ^ 63 - 1) (unat (unix_nano ts))), tea)"
    unfolding ConsumptionKey_def
    by (subst ParseConsumptionKey_append) (simp_all add: be_value_unix_nano)
  show ?thesis
  proof (cases "unix_epoch \<le> ts")
    case True
    then have "unat (unix_nano ts) = nat (ts - unix_epoch)" using assms(2) by (rule unat_unix_nano)
    moreover have "nat (ts - unix_epoch) \<le> 2 ^ 63 - 1"
      using assms(2) by (simp add: nat_le_iff)
    ultimately show ?thesis using True p by (simp add: min_absorb2)
  next
    case False
    have "uint (unix_nano ts) = (ts - unix_epoch) mod 2 ^ 64" by (rule uint_unix_nano)
    also have "\<dots> = ts - unix_epoch + 2 ^ 64"
    proof -
      have "(ts - unix_epoch) mod 2 ^ 64 = (ts - unix_epoch + 2 ^ 64) mod 2 ^ 64"
        by (rule mod_add_self2 [symmetric])
      also have "\<dots> = ts - unix_epoch + 2 ^ 64"
        using False assms(1) by (intro mod_pos_pos_trivial) simp_all
      finally show ?thesis .
    qed
    finally have "2 ^ 63 \<le> uint (unix_nano ts)" using assms(1) by simp
    then have "nat (2 ^ 63) \<le> nat (uint (unix_nano ts))" by (rule nat_mono)
    then have "9223372036854775808 \<le> unat (unix_nano ts)" by (simp only: unat_eq_nat_uint) simp
    then have "min (2 ^ 63 - 1) (unat (unix_nano ts)) = 2 ^ 63 - 1" by (intro min_absorb1) simp
    then show ?thesis unfolding p using False by simp
  qed
qed

theorem ParseConsumptionKey_roundtrip_witness:
  "ParseConsumptionKey (ConsumptionByUserID 3) (ConsumptionKey 3 (unix_epoch + 1234567890) 9) =
     Some (unix_epoch + 1234567890, 9) \<and>
   ParseConsumptionKey (ConsumptionByUserID 3) (ConsumptionKey 3 (unix_epoch - 1) 9) =
     Some (unix_epoch + 9223372036854775807, 9)"
  using ParseConsumptionKey_roundtrip [of "unix_epoch + 1234567890" 3 9]
    ParseConsumptionKey_roundtrip [of "unix_epoch - 1" 3 9]
  by simp

section \<open>Order of the consumption keys\<close>

text \<open>Keys are compared byte by byte, as the store keeps them.\<close>

fun bytes_less :: "bytes \<Rightarrow> bytes \<Rightarrow> bool" where
  "bytes_less [] ys = (ys \<noteq> [])"
| "bytes_less (x # xs) [] = False"
| "bytes_less (x # xs) (y # ys) = (x < y \<or> x = y \<and> bytes_less xs ys)"

lemma bytes_less_same [simp]: "bytes_less (p @ xs) (p @ ys) = bytes_less xs ys"
  by (induction p) auto

lemma bytes_less_append:
  "length xs = length ys \<Longrightarrow> bytes_less (xs @ a) (ys @ b) \<longleftrightarrow> bytes_less xs ys \<or> xs = ys \<and> bytes_less a b"
  by (induction xs ys rule: list_induct2) auto

lemma word_of_nat_less_256: "x < 256 \<Longrightarrow> y < 256 \<Longrightarrow> (word_of_nat x :: byte) < word_of_nat y \<longleftrightarrow> x < y"
  by (simp add: word_less_nat_alt unat_of_nat)

lemma word_of_nat_eq_256: "x < 256 \<Longrightarrow> y < 256 \<Longrightarrow> (word_of_nat x :: byte) = word_of_nat y \<longleftrightarrow> x = y"
  by (metis unat_byte mod_less)

lemma bytes_less_be_bytes:
  "x < 256 ^ n \<Longrightarrow> y < 256 ^ n \<Longrightarrow> bytes_less (be_bytes n x) (be_bytes n y) \<longleftrightarrow> x < y"
proof (induction n arbitrary: x y)
  case (Suc n)
  have div: "x div 256 < 256 ^ n" "y div 256 < 256 ^ n"
    using Suc.prems by (simp_all add: less_mult_imp_div_less mult.commute)
  have "bytes_less (be_bytes (Suc n) x) (be_bytes (Suc n) y) \<longleftrightarrow>
      x div 256 < y div 256 \<or> x div 256 = y div 256 \<and> x mod 256 < y mod 256"
    using Suc.IH [OF div] be_bytes_inj [OF div]
    by (simp add: bytes_less_append word_of_nat_less_256 word_of_nat_eq_256)
  also have "\<dots> \<longleftrightarrow> x < y"
  proof -
    have x: "x = 256 * (x div 256) + x mod 256" and y: "y = 256 * (y div 256) + y mod 256" by simp_all
    have "x mod 256 < 256" "y mod 256 < 256" by simp_all
    with x y show ?thesis by linarith
  qed
  finally show ?case .
qed simp

text \<open>
  Among the keys of one user's consumptions the byte order is the order in time, and for
  equal times the order of the tea identifiers, so a range scan returns them sorted.
\<close>

theorem ConsumptionKey_ordered:
  assumes "unix_epoch \<le> t1" and "t1 - unix_epoch < 2 ^ 63" and "unix_epoch \<le> t2" and "t2 - unix_epoch < 2 ^ 63"
  shows "bytes_less (ConsumptionKey u t1 a) (ConsumptionKey u t2 b) \<longleftrightarrow> t1 < t2 \<or> t1 = t2 \<and> a < b"
proof -
  have n: "unat (unix_nano t1) = nat (t1 - unix_epoch)" "unat (unix_nano t2) = nat (t2 - unix_epoch)"
    using unat_unix_nano assms by simp_all
  have b: "unat (unix_nano t) < 256 ^ 8" for t
    using unsigned_less [of "unix_nano t", where ?'a = nat] by simp
  have u: "unat (i :: uuid) < 256 ^ 16" for i
    using unsigned_less [of i, where ?'a = nat] by simp
  have "bytes_less (ConsumptionKey u t1 a) (ConsumptionKey u t2 b) \<longleftrightarrow>
      unat (unix_nano t1) < unat (unix_nano t2) \<or>
      unat (unix_nano t1) = unat (unix_nano t2) \<and> unat a < unat b"
    unfolding ConsumptionKey_def uuid_bytes_def
    using bytes_less_be_bytes [OF b b] be_bytes_inj [OF b b] bytes_less_be_bytes [OF u u]
    by (simp add: bytes_less_append)
  then show ?thesis
    using assms(1,3) by (auto simp: n word_less_nat_alt)
qed

theorem ConsumptionKey_ordered_witness:
  "bytes_less (ConsumptionKey 3 (unix_epoch + 255) 9) (ConsumptionKey 3 (unix_epoch + 256) 1)"
  using ConsumptionKey_ordered [of "unix_epoch + 255" "unix_epoch + 256" 3 9 1] by simp

section \<open>No two entries share a key\<close>

text \<open>The entries of the store, with what identifies each.\<close>

datatype entry =
    EVersion | ERecord uuid | ERecordName string | EQR uuid | ETagCategory uuid
  | ETagCategoryName string | ETag uuid | ETagName string | ETagCategoryTag uuid string
  | ETagTea uuid uuid | ETeaTag uuid uuid | ECollection uuid uuid | ECollectionTea uuid uuid
  | EUser uuid | EUserAppleID string | EDevice uuid | EDevicesOfUser uuid | ENotification uuid
  | ENotificationsOfUser uuid | EConsumption uuid "64 word" uuid

definition nano_time :: "64 word \<Rightarrow> time" where
  "nano_time w = unix_epoch + sint w"

fun entry_key :: "entry \<Rightarrow> bytes" where
  "entry_key EVersion = Version"
| "entry_key (ERecord i) = Record i"
| "entry_key (ERecordName n) = RecordsByName n"
| "entry_key (EQR i) = QR_key i"
| "entry_key (ETagCategory i) = TagCategory_key i"
| "entry_key (ETagCategoryName n) = TagCategoryByName n"
| "entry_key (ETag i) = Tag_key i"
| "entry_key (ETagName n) = TagsByName n"
| "entry_key (ETagCategoryTag c n) = TagsByNameAndCategory c n"
| "entry_key (ETagTea tg tea) = TagTeaPair tg tea"
| "entry_key (ETeaTag tea tg) = TeaTagPair tea tg"
| "entry_key (ECollection user i) = Collection_key i user"
| "entry_key (ECollectionTea i tea) = CollectionsTeas i tea"
| "entry_key (EUser i) = User_key i"
| "entry_key (EUserAppleID s) = UserByAppleID s"
| "entry_key (EDevice i) = Device_key i"
| "entry_key (EDevicesOfUser i) = DevicesByUserID i"
| "entry_key (ENotification i) = Notification_key i"
| "entry_key (ENotificationsOfUser i) = NotificationByUserID i"
| "entry_key (EConsumption u w tea) = ConsumptionKey u (nano_time w) tea"

lemma unix_nano_time [simp]: "unix_nano (nano_time w) = w"
  by (simp add: unix_nano_def nano_time_def)

lemma be_bytes_word_inj: "be_bytes 8 (unat (v :: 64 word)) = be_bytes 8 (unat w) \<longleftrightarrow> v = w"
proof -
  have b: "unat (x :: 64 word) < 256 ^ 8" for x
    using unsigned_less [of x, where ?'a = nat] by simp
  show ?thesis using be_bytes_inj [OF b b] by (simp add: word_unat_eq_iff)
qed

lemmas key_defs = Version_def Record_def RecordsByName_def QR_key_def TagCategory_key_def
  TagCategoryByName_def Tag_key_def TagsByName_def TagsByNameAndCategory_def TagTeaPair_def
  TeaTagPair_def Collection_key_def CollectionsTeas_def User_key_def UserByAppleID_def Device_key_def
  DevicesByUserID_def Notification_key_def NotificationByUserID_def ConsumptionKey_def
  ConsumptionByUserID_def appendUUID_def appendIndex_def letters indexes

text \<open>The part of a key that names its kind: one letter, or two after the letter \<open>i\<close>.\<close>

fun kind :: "entry \<Rightarrow> string" where
  "kind EVersion = ''v''" | "kind (ERecord _) = ''r''" | "kind (ERecordName _) = ''n''"
| "kind (EQR _) = ''q''" | "kind (ETagCategory _) = ''c''" | "kind (ETagCategoryName _) = ''ic''"
| "kind (ETag _) = ''t''" | "kind (ETagName _) = ''in''" | "kind (ETagCategoryTag _ _) = ''it''"
| "kind (ETagTea _ _) = ''ia''" | "kind (ETeaTag _ _) = ''ib''" | "kind (ECollection _ _) = ''l''"
| "kind (ECollectionTea _ _) = ''il''" | "kind (EUser _) = ''u''" | "kind (EUserAppleID _) = ''ii''"
| "kind (EDevice _) = ''d''" | "kind (EDevicesOfUser _) = ''id''" | "kind (ENotification _) = ''o''"
| "kind (ENotificationsOfUser _) = ''iu''" | "kind (EConsumption _ _ _) = ''ix''"

fun rest :: "entry \<Rightarrow> bytes" where
  "rest EVersion = []" | "rest (ERecord i) = uuid_bytes i" | "rest (ERecordName n) = str_bytes n"
| "rest (EQR i) = uuid_bytes i" | "rest (ETagCategory i) = uuid_bytes i"
| "rest (ETagCategoryName n) = str_bytes n" | "rest (ETag i) = uuid_bytes i"
| "rest (ETagName n) = str_bytes n" | "rest (ETagCategoryTag c n) = uuid_bytes c @ str_bytes n"
| "rest (ETagTea a b) = uuid_bytes a @ uuid_bytes b" | "rest (ETeaTag a b) = uuid_bytes a @ uuid_bytes b"
| "rest (ECollection u i) = uuid_bytes u @ uuid_bytes i"
| "rest (ECollectionTea i t) = uuid_bytes i @ uuid_bytes t" | "rest (EUser i) = uuid_bytes i"
| "rest (EUserAppleID s) = str_bytes s" | "rest (EDevice i) = uuid_bytes i"
| "rest (EDevicesOfUser i) = uuid_bytes i" | "rest (ENotification i) = uuid_bytes i"
| "rest (ENotificationsOfUser i) = uuid_bytes i"
| "rest (EConsumption u w t) = uuid_bytes u @ be_bytes 8 (unat w) @ uuid_bytes t"

lemma entry_key_split: "entry_key e = str_bytes (kind e) @ rest e"
  by (cases e) (simp_all add: key_defs str_bytes_def)

text \<open>No kind is a proper prefix of another, so the kind can be read off the key.\<close>

definition kinds :: "string list" where
  "kinds = [''v'', ''r'', ''n'', ''q'', ''c'', ''ic'', ''t'', ''in'', ''it'', ''ia'', ''ib'', ''l'', ''il'',
     ''u'', ''ii'', ''d'', ''id'', ''o'', ''iu'', ''ix'']"

lemma kind_in_kinds: "kind e \<in> set kinds"
  by (cases e) (simp_all add: kinds_def)

lemma kinds_prefix_free: "\<forall>k \<in> set kinds. \<forall>k' \<in> set kinds. prefix k k' \<longrightarrow> k = k'"
  by (simp add: kinds_def)

lemma prefix_str_bytes: "prefix (str_bytes k) (str_bytes k') \<longleftrightarrow> prefix k k'"
proof
  assume "prefix (str_bytes k) (str_bytes k')"
  then obtain z where "map byte_of k' = map byte_of k @ z" by (auto simp: prefix_def str_bytes_def)
  then obtain k1 k2 where "k' = k1 @ k2" "map byte_of k1 = map byte_of k" by (auto simp: map_eq_append_conv)
  moreover from this(2) have "k1 = k" using str_bytes_inj [of k1 k] by (simp add: str_bytes_def)
  ultimately show "prefix k k'" by simp
next
  assume "prefix k k'"
  then show "prefix (str_bytes k) (str_bytes k')" by (auto simp: prefix_def str_bytes_def)
qed

lemma prefix_kinds:
  assumes "k \<in> set kinds" and "k' \<in> set kinds"
  shows "prefix (str_bytes k @ a) (str_bytes k' @ b) \<longleftrightarrow> k = k' \<and> prefix a b"
proof
  assume p: "prefix (str_bytes k @ a) (str_bytes k' @ b)"
  then have "prefix (str_bytes k) (str_bytes k' @ b)" by (metis append_prefixD)
  then have "prefix (str_bytes k) (str_bytes k') \<or> prefix (str_bytes k') (str_bytes k)"
    by (meson prefixI prefix_same_cases)
  then have "k = k'" using kinds_prefix_free assms prefix_str_bytes by metis
  with p show "k = k' \<and> prefix a b" by simp
qed simp

lemma kind_rest_determine: "kind e = kind f \<Longrightarrow> rest e = rest f \<Longrightarrow> e = f"
  by (cases e; cases f; simp add: be_bytes_word_inj)

text \<open>
  No two entries of the store share a key: equal keys mean the same kind of entry with
  the same identifiers, names and times.
\<close>

theorem entry_key_injective: "entry_key e = entry_key f \<longleftrightarrow> e = f"
proof
  assume eq: "entry_key e = entry_key f"
  then have "prefix (str_bytes (kind e) @ rest e) (str_bytes (kind f) @ rest f)"
    by (simp add: entry_key_split)
  then have "kind e = kind f" using prefix_kinds kind_in_kinds by blast
  moreover from this eq have "rest e = rest f" by (simp add: entry_key_split)
  ultimately show "e = f" by (rule kind_rest_determine)
qed simp

lemma prefix_uuid_bytes [simp]:
  "prefix (uuid_bytes u) (uuid_bytes v @ xs) \<longleftrightarrow> u = v"
  "prefix (uuid_bytes u) (uuid_bytes v) \<longleftrightarrow> u = v"
proof -
  have len: "prefix (uuid_bytes u) zs \<Longrightarrow> take 16 zs = uuid_bytes u" for zs
    by (auto simp: prefix_def)
  show "prefix (uuid_bytes u) (uuid_bytes v @ xs) \<longleftrightarrow> u = v" using len [of "uuid_bytes v @ xs"] by auto
  show "prefix (uuid_bytes u) (uuid_bytes v) \<longleftrightarrow> u = v" using len [of "uuid_bytes v"] by auto
qed

lemma scan_split:
  "k \<in> set kinds \<Longrightarrow> prefix (str_bytes k @ a) (entry_key e) \<longleftrightarrow> k = kind e \<and> prefix a (rest e)"
  using prefix_kinds [OF _ kind_in_kinds] by (simp add: entry_key_split)

text \<open>
  Each scan of a prefix finds exactly the entries it is meant for: the consumptions, the
  collections and the records of one owner, the tags of one tea, the teas of one tag, the
  tags of one category, and all records, never an entry of another owner or kind.
\<close>

theorem prefix_scans_exact:
  "(prefix (ConsumptionByUserID u) (entry_key e) \<longleftrightarrow> (\<exists>w tea. e = EConsumption u w tea)) \<and>
   (prefix (UserCollections u) (entry_key e) \<longleftrightarrow> (\<exists>i. e = ECollection u i)) \<and>
   (prefix (RecordsByCollection c) (entry_key e) \<longleftrightarrow> (\<exists>tea. e = ECollectionTea c tea)) \<and>
   (prefix (TagsByTea t) (entry_key e) \<longleftrightarrow> (\<exists>tg. e = ETeaTag t tg)) \<and>
   (prefix (TeasByTag g) (entry_key e) \<longleftrightarrow> (\<exists>tea. e = ETagTea g tea)) \<and>
   (prefix (TagsByCategory k) (entry_key e) \<longleftrightarrow> (\<exists>n. e = ETagCategoryTag k n)) \<and>
   (prefix Records (entry_key e) \<longleftrightarrow> (\<exists>i. e = ERecord i))"
proof -
  have scans: "ConsumptionByUserID u = str_bytes ''ix'' @ uuid_bytes u"
    "UserCollections u = str_bytes ''l'' @ uuid_bytes u"
    "RecordsByCollection c = str_bytes ''il'' @ uuid_bytes c"
    "TagsByTea t = str_bytes ''ib'' @ uuid_bytes t"
    "TeasByTag g = str_bytes ''ia'' @ uuid_bytes g"
    "TagsByCategory k = str_bytes ''it'' @ uuid_bytes k"
    "Records = str_bytes ''r'' @ []"
    by (simp_all add: key_defs UserCollections_def RecordsByCollection_def TagsByTea_def TeasByTag_def
        TagsByCategory_def Records_def str_bytes_def)
  have ks: "''ix'' \<in> set kinds" "''l'' \<in> set kinds" "''il'' \<in> set kinds" "''ib'' \<in> set kinds"
    "''ia'' \<in> set kinds" "''it'' \<in> set kinds" "''r'' \<in> set kinds"
    by (simp_all add: kinds_def)
  show ?thesis
    unfolding scans scan_split [OF ks(1)] scan_split [OF ks(2)] scan_split [OF ks(3)]
      scan_split [OF ks(4)] scan_split [OF ks(5)] scan_split [OF ks(6)] scan_split [OF ks(7)]
    by (cases e) auto
qed

end
