(* ===== verification/Common_Model.thy ===== *)
theory Common_Model
  imports Prelude
begin

text \<open>
  The domain types of \<open>common/*.go\<close>, the GraphQL types of \<open>pkg/api/v2/models\<close> that
  the managers and resolvers return, and the conversions between the two
  (\<open>pkg/api/v2/models/tea.go\<close>, \<open>pkg/api/v2/models/notification.go\<close>,
  \<open>common/key_value/encoder/encoder.go\<close>). The lemmas show that the conversions lose
  nothing on the values the program produces, and that reading a type label by iterating
  over a Go map does not depend on the order of the iteration.
\<close>

section \<open>Beverage types\<close>

text \<open>
  \<open>BeverageType\<close> is an \<open>int\<close> with four named values; other integers are values of
  the type too, and \<open>String\<close> has a branch for them.
\<close>

type_synonym BeverageType = int

definition TeaBeverageType :: BeverageType where "TeaBeverageType = 0"
definition HerbBeverageType :: BeverageType where "HerbBeverageType = 1"
definition CoffeeBeverageType :: BeverageType where "CoffeeBeverageType = 2"
definition OtherBeverageType :: BeverageType where "OtherBeverageType = 3"

lemmas beverage_defs =
  TeaBeverageType_def HerbBeverageType_def CoffeeBeverageType_def OtherBeverageType_def

definition BeverageTypeStringMap :: "BeverageType \<rightharpoonup> string" where
  "BeverageTypeStringMap =
     [TeaBeverageType \<mapsto> ''tea'', HerbBeverageType \<mapsto> ''herb'',
      CoffeeBeverageType \<mapsto> ''coffee'', OtherBeverageType \<mapsto> ''other'']"

text \<open>
  \<open>for beverage, data := range BeverageTypeStringMap\<close> visits the keys in an order that
  Go leaves open: the order is an argument here.
\<close>

fun StringToBeverageType_over :: "BeverageType list \<Rightarrow> string \<Rightarrow> BeverageType" where
  "StringToBeverageType_over [] str = OtherBeverageType"
| "StringToBeverageType_over (b # bs) str =
     (if BeverageTypeStringMap b = Some str then b else StringToBeverageType_over bs str)"

definition beverage_keys :: "BeverageType list" where
  "beverage_keys = [TeaBeverageType, HerbBeverageType, CoffeeBeverageType, OtherBeverageType]"

definition StringToBeverageType :: "string \<Rightarrow> BeverageType" where
  "StringToBeverageType str = StringToBeverageType_over beverage_keys str"

definition BeverageType_String :: "BeverageType \<Rightarrow> string" where
  "BeverageType_String b =
     (case BeverageTypeStringMap b of
        Some str \<Rightarrow> str
      | None \<Rightarrow> the (BeverageTypeStringMap OtherBeverageType))"

lemma BeverageTypeStringMap_simps [simp]:
  "BeverageTypeStringMap 0 = Some ''tea''"
  "BeverageTypeStringMap 1 = Some ''herb''"
  "BeverageTypeStringMap 2 = Some ''coffee''"
  "BeverageTypeStringMap 3 = Some ''other''"
  by (simp_all add: BeverageTypeStringMap_def beverage_defs)

lemma BeverageTypeStringMap_eq_Some:
  "BeverageTypeStringMap b = Some s \<longleftrightarrow>
     b = 0 \<and> s = ''tea'' \<or> b = 1 \<and> s = ''herb'' \<or> b = 2 \<and> s = ''coffee''
     \<or> b = 3 \<and> s = ''other''"
  by (auto simp: BeverageTypeStringMap_def beverage_defs split: if_splits)

lemma dom_BeverageTypeStringMap: "dom BeverageTypeStringMap = {0, 1, 2, 3}"
  by (auto simp: dom_def BeverageTypeStringMap_eq_Some)

lemma BeverageTypeStringMap_inj:
  "BeverageTypeStringMap a = Some s \<Longrightarrow> BeverageTypeStringMap b = Some s \<Longrightarrow> a = b"
  by (auto simp: BeverageTypeStringMap_eq_Some)

lemma StringToBeverageType_over_found:
  assumes "b \<in> set bs" and "BeverageTypeStringMap b = Some str"
  shows "StringToBeverageType_over bs str = b"
  using assms by (induction bs) (auto dest: BeverageTypeStringMap_inj)

lemma StringToBeverageType_over_absent:
  "\<forall>b \<in> set bs. BeverageTypeStringMap b \<noteq> Some str \<Longrightarrow>
     StringToBeverageType_over bs str = OtherBeverageType"
  by (induction bs) auto

lemma set_beverage_keys: "set beverage_keys = dom BeverageTypeStringMap"
  by (auto simp: beverage_keys_def beverage_defs dom_BeverageTypeStringMap)

lemma StringToBeverageType_order:
  assumes "set order = dom BeverageTypeStringMap"
  shows "StringToBeverageType_over order str = StringToBeverageType str"
proof (cases "\<exists>b. BeverageTypeStringMap b = Some str")
  case True
  then obtain b where b: "BeverageTypeStringMap b = Some str" by blast
  then have "b \<in> set order" and "b \<in> set beverage_keys"
    using assms by (auto simp: set_beverage_keys)
  then show ?thesis
    using b by (simp add: StringToBeverageType_def StringToBeverageType_over_found)
next
  case False
  then show ?thesis
    by (simp add: StringToBeverageType_def StringToBeverageType_over_absent)
qed

lemma BeverageType_String_simps [simp]:
  "BeverageType_String 0 = ''tea''" "BeverageType_String 1 = ''herb''"
  "BeverageType_String 2 = ''coffee''" "BeverageType_String 3 = ''other''"
  by (simp_all add: BeverageType_String_def)

lemma BeverageTypeStringMap_None:
  "b \<notin> {0, 1, 2, 3} \<Longrightarrow> BeverageTypeStringMap b = None"
  using dom_BeverageTypeStringMap by (metis domIff)

lemma BeverageType_String_out:
  "b \<notin> {0, 1, 2, 3} \<Longrightarrow> BeverageType_String b = ''other''"
  using BeverageTypeStringMap_None [of b] by (simp add: BeverageType_String_def OtherBeverageType_def)

lemma String_valid:
  "BeverageType_String b \<in> {''tea'', ''herb'', ''coffee'', ''other''}"
proof (cases "b \<in> {0, 1, 2, 3}")
  case True
  then consider "b = 0" | "b = 1" | "b = 2" | "b = 3" by blast
  then show ?thesis by cases simp_all
next
  case False
  then have "BeverageType_String b = ''other''" by (rule BeverageType_String_out)
  then show ?thesis by simp
qed

lemma StringToBeverageType_labels [simp]:
  "StringToBeverageType ''tea'' = 0" "StringToBeverageType ''herb'' = 1"
  "StringToBeverageType ''coffee'' = 2" "StringToBeverageType ''other'' = 3"
  by (simp_all add: StringToBeverageType_def beverage_keys_def beverage_defs)

lemma StringToBeverageType_String [simp]:
  assumes "b \<in> {0, 1, 2, 3}"
  shows "StringToBeverageType (BeverageType_String b) = b"
proof -
  from assms consider "b = 0" | "b = 1" | "b = 2" | "b = 3" by blast
  then show ?thesis by cases simp_all
qed

lemma StringToBeverageType_String_out:
  "b \<notin> {0, 1, 2, 3} \<Longrightarrow> StringToBeverageType (BeverageType_String b) = OtherBeverageType"
  using BeverageType_String_out [of b] by (simp add: OtherBeverageType_def)

lemma StringToBeverageType_range: "StringToBeverageType s \<in> {0, 1, 2, 3}"
  by (simp add: StringToBeverageType_def beverage_keys_def beverage_defs)

section \<open>Teas, QR records, tags, collections, users\<close>

record TeaData =
  td_Name :: string
  td_Type :: BeverageType
  td_Description :: string

record Tea =
  tea_ID :: uuid
  tea_Data :: TeaData

record QR =
  qr_Tea :: uuid
  qr_BowlingTemp :: "64 word"
  qr_ExpirationDate :: time

record TagCategory =
  cat_ID :: uuid
  cat_Name :: string

record TagData =
  tag_Name :: string
  tag_Color :: string
  tag_CategoryID :: uuid

record Tag =
  tag_ID :: uuid
  tag_Data :: TagData

record Collection =
  col_ID :: uuid
  col_Name :: string

record CollectionRecord =
  cr_ID :: uuid
  cr_Tea :: Tea
  cr_BowlingTemp :: "64 word"
  cr_ExpirationDate :: time

record User =
  user_ID :: uuid
  user_AppleID :: string

type_synonym NotificationType = int

definition NotificationTypeTeaExpiration :: NotificationType where
  "NotificationTypeTeaExpiration = 0"

definition NotificationTypeTeaRecommendation :: NotificationType where
  "NotificationTypeTeaRecommendation = 1"

record Notification =
  notif_UserID :: uuid
  notif_Type :: NotificationType

section \<open>GraphQL types\<close>

text \<open>
  \<open>Type\<close> and \<open>NotificationType\<close> of the GraphQL models are Go strings. A field of
  pointer or slice type that the code leaves out is \<open>nil\<close>: \<open>None\<close> or \<open>[]\<close>.
\<close>

type_synonym GType = string

definition TypeUnknown :: GType where "TypeUnknown = ''unknown''"
definition TypeTea :: GType where "TypeTea = ''tea''"
definition TypeCoffee :: GType where "TypeCoffee = ''coffee''"
definition TypeHerb :: GType where "TypeHerb = ''herb''"
definition TypeOther :: GType where "TypeOther = ''other''"

lemmas gtype_defs = TypeUnknown_def TypeTea_def TypeCoffee_def TypeHerb_def TypeOther_def

definition Type_IsValid :: "GType \<Rightarrow> bool" where
  "Type_IsValid e \<longleftrightarrow> e \<in> {TypeUnknown, TypeTea, TypeCoffee, TypeHerb, TypeOther}"

definition Type_UnmarshalGQL :: "string option \<Rightarrow> gerr + GType" where
  \<comment> \<open>the argument is \<open>None\<close> where the GraphQL value is not a string\<close>
  "Type_UnmarshalGQL v =
     (case v of
        None \<Rightarrow> Inl (ExtErr ''enums must be strings'')
      | Some str \<Rightarrow>
          if Type_IsValid str then Inr str
          else Inl (ExtErr (str @ '' is not a valid Type'')))"

record GTagCategory =
  gcat_ID :: uuid
  gcat_Name :: string

record GTag =
  gtag_ID :: uuid
  gtag_Name :: string
  gtag_Color :: string
  gtag_Category :: "GTagCategory option"

record GTea =
  gtea_ID :: uuid
  gtea_Name :: string
  gtea_Type :: GType
  gtea_Description :: string

record GTeaData =
  gtd_Name :: string
  gtd_Type :: GType
  gtd_Description :: string

record QRRecord =
  qrr_ID :: uuid
  qrr_Tea :: "GTea option"
  qrr_BowlingTemp :: "64 word"
  qrr_ExpirationDate :: time

record QRRecordData =
  qrd_Tea :: uuid
  qrd_BowlingTemp :: "64 word"
  qrd_ExpirationDate :: time

record GCollection =
  gcol_ID :: uuid
  gcol_Name :: string
  gcol_UserID :: uuid

record TeaOfTheDay =
  tod_Tea :: "QRRecord option"
  tod_Date :: time

definition FromBeverageType :: "BeverageType \<Rightarrow> GType" where
  "FromBeverageType bt =
     (if bt = TeaBeverageType then TypeTea
      else if bt = HerbBeverageType then TypeHerb
      else if bt = CoffeeBeverageType then TypeCoffee
      else if bt = OtherBeverageType then TypeOther
      else TypeOther)"

definition ToBeverageType :: "GType \<Rightarrow> BeverageType" where
  "ToBeverageType t =
     (if t = TypeTea then TeaBeverageType
      else if t = TypeHerb then HerbBeverageType
      else if t = TypeCoffee then CoffeeBeverageType
      else if t = TypeOther then OtherBeverageType
      else if t = TypeUnknown then OtherBeverageType
      else OtherBeverageType)"

definition FromCommonTea :: "Tea \<Rightarrow> GTea" where
  "FromCommonTea source =
     \<lparr>gtea_ID = tea_ID source,
      gtea_Name = td_Name (tea_Data source),
      gtea_Type = FromBeverageType (td_Type (tea_Data source)),
      gtea_Description = td_Description (tea_Data source)\<rparr>"

definition ToCommonTea :: "GTea \<Rightarrow> Tea" where
  "ToCommonTea t =
     \<lparr>tea_ID = gtea_ID t,
      tea_Data = \<lparr>td_Name = gtea_Name t,
                  td_Type = ToBeverageType (gtea_Type t),
                  td_Description = gtea_Description t\<rparr>\<rparr>"

definition ToCommonTeaData :: "GTeaData \<Rightarrow> TeaData" where
  "ToCommonTeaData t =
     \<lparr>td_Name = gtd_Name t,
      td_Type = ToBeverageType (gtd_Type t),
      td_Description = gtd_Description t\<rparr>"

definition NotificationType_FromCommon :: "NotificationType \<Rightarrow> string" where
  "NotificationType_FromCommon data =
     (if data = NotificationTypeTeaExpiration then ''teaExpiration''
      else if data = NotificationTypeTeaRecommendation then ''teaRecommendation''
      else ''unknown'')"

definition NotificationType_IsValid :: "string \<Rightarrow> bool" where
  "NotificationType_IsValid e \<longleftrightarrow>
     e \<in> {''unknown'', ''teaExpiration'', ''teaRecommendation''}"

lemma ToBeverageType_range: "ToBeverageType t \<in> {0, 1, 2, 3}"
  by (simp add: ToBeverageType_def beverage_defs)

lemma ToBeverageType_FromBeverageType [simp]:
  "b \<in> {0, 1, 2, 3} \<Longrightarrow> ToBeverageType (FromBeverageType b) = b"
  by (auto simp: ToBeverageType_def FromBeverageType_def beverage_defs gtype_defs)

lemma FromBeverageType_valid: "Type_IsValid (FromBeverageType b)"
  by (simp add: FromBeverageType_def Type_IsValid_def)

lemma FromBeverageType_ToBeverageType:
  "Type_IsValid t \<Longrightarrow>
     FromBeverageType (ToBeverageType t) = (if t = TypeUnknown then TypeOther else t)"
  by (auto simp: Type_IsValid_def ToBeverageType_def FromBeverageType_def beverage_defs
      gtype_defs)

text \<open>The label stored in the database is the label the API shows.\<close>

lemma FromBeverageType_label:
  "FromBeverageType b = BeverageType_String b"
proof (cases "b \<in> {0, 1, 2, 3}")
  case True
  then consider "b = 0" | "b = 1" | "b = 2" | "b = 3" by blast
  then show ?thesis
    by cases (simp_all add: FromBeverageType_def beverage_defs gtype_defs)
next
  case False
  then show ?thesis
    by (simp add: BeverageType_String_out FromBeverageType_def beverage_defs gtype_defs)
qed

section \<open>The JSON shape of a tea\<close>

text \<open>
  \<open>common/key_value/encoder\<close> stores a tea with its type as a label. The JSON codec itself
  is library code; the two conversions around it are the encoder's own. A \<open>nil\<close> pointer
  is \<open>None\<close>.
\<close>

record EncTeaData =
  enc_Name :: string
  enc_Type :: string
  enc_Description :: string

fun FromCommonTeaData :: "TeaData option \<Rightarrow> EncTeaData option" where
  "FromCommonTeaData None = None"
| "FromCommonTeaData (Some td) =
     Some \<lparr>enc_Name = td_Name td, enc_Type = BeverageType_String (td_Type td),
           enc_Description = td_Description td\<rparr>"

fun enc_ToCommonTeaData :: "EncTeaData option \<Rightarrow> TeaData option" where
  "enc_ToCommonTeaData None = None"
| "enc_ToCommonTeaData (Some t) =
     Some \<lparr>td_Name = enc_Name t, td_Type = StringToBeverageType (enc_Type t),
           td_Description = enc_Description t\<rparr>"

text \<open>
  The values whose type is one of the four named constants: the only ones the API can
  create (\<open>ToBeverageType_range\<close>) and the database can return.
\<close>

definition tea_data_ok :: "TeaData \<Rightarrow> bool" where
  "tea_data_ok td \<longleftrightarrow> td_Type td \<in> {0, 1, 2, 3}"

lemma enc_roundtrip:
  "tea_data_ok td \<Longrightarrow> enc_ToCommonTeaData (FromCommonTeaData (Some td)) = Some td"
  unfolding tea_data_ok_def by simp

lemma ToCommonTea_FromCommonTea:
  "tea_data_ok (tea_Data t) \<Longrightarrow> ToCommonTea (FromCommonTea t) = t"
  unfolding tea_data_ok_def by (simp add: ToCommonTea_def FromCommonTea_def)

lemma ToCommonTeaData_ok: "tea_data_ok (ToCommonTeaData t)"
  using ToBeverageType_range by (simp add: tea_data_ok_def ToCommonTeaData_def)

end
