(* ===== verification/Pgstore.thy ===== *)
theory Pgstore
  imports Common_Model
begin

text \<open>
  The query layer \<open>pkg/pgstore/queries.go\<close> over the schema \<open>db/schema.sql\<close>: the state
  of the database as lists of rows in the order of insertion, and one definition per query
  method, which executes the SQL text of the method with the constraints of the schema
  (primary keys, unique columns, foreign keys with their \<open>ON DELETE\<close> action, checks). A
  violated constraint is an error and leaves every table as it was. Any statement can also
  fail for a reason outside the declared constraints (\<open>env_fault\<close>, a function of the number
  of the statement): the connection is lost, the server is down, or it refuses a value it
  cannot store, as a string with a NUL byte or one too long for a key of an index. Where a
  theorem says that no statement fails, all of these are excluded. A statement fails before
  it has an effect; that it is committed and only its answer is lost is not modelled. The
  main results: every query keeps the integrity of the database, so every reachable database
  has it.

  What the SQL leaves to the server is a parameter: \<open>lower\<close> (\<open>env_lower\<close>), the sort
  keys of the collation (\<open>env_collkey\<close>) and the resolution of \<open>timestamptz\<close>
  (\<open>env_round\<close>). Rows that compare equal under an \<open>ORDER BY\<close> come in the order of
  insertion, one of the orders SQL allows.
\<close>

section \<open>The schema\<close>

record user_row =
  u_id :: uuid
  u_apple :: string
  u_created :: time

record tea_row =
  t_id :: uuid
  t_name :: string
  t_type :: string
  t_desc :: "string option"
  t_created :: time

record cat_row =
  c_id :: uuid
  c_name :: string

record tag_row =
  g_id :: uuid
  g_name :: string
  g_color :: string
  g_cat :: uuid

record qr_row =
  r_id :: uuid
  r_tea :: uuid
  r_temp :: "32 word"
  r_exp :: time
  r_created :: time

record coll_row =
  k_id :: uuid
  k_user :: uuid
  k_name :: string
  k_created :: time

record device_row =
  d_id :: uuid
  d_user :: uuid
  d_token :: string
  d_created :: time

record notif_row =
  n_id :: uuid
  n_user :: uuid
  n_type :: "16 word"
  n_created :: time

record cons_row =
  s_user :: uuid
  s_ts :: time
  s_tea :: uuid

text \<open>\<open>db_items\<close> is \<open>collection_qr_items\<close>; \<open>db_clock\<close> is what \<open>now()\<close> returns.\<close>

record pgdb =
  db_users :: "user_row list"
  db_teas :: "tea_row list"
  db_cats :: "cat_row list"
  db_tags :: "tag_row list"
  db_tea_tags :: "(uuid \<times> uuid) list"
  db_qrs :: "qr_row list"
  db_colls :: "coll_row list"
  db_items :: "(uuid \<times> uuid) list"
  db_devices :: "device_row list"
  db_notifs :: "notif_row list"
  db_cons :: "cons_row list"
  db_stmts :: nat
  db_clock :: time

record pg_env =
  env_lower :: "string \<Rightarrow> string"
  env_collkey :: "string \<Rightarrow> string"
  env_round :: "time \<Rightarrow> time"
  env_fault :: "nat \<Rightarrow> bool"

definition empty_db :: pgdb where
  "empty_db =
     \<lparr>db_users = [], db_teas = [], db_cats = [], db_tags = [], db_tea_tags = [], db_qrs = [],
      db_colls = [], db_items = [], db_devices = [], db_notifs = [], db_cons = [],
      db_stmts = 0, db_clock = 0\<rparr>"

type_synonym 'a query = "(pgdb, 'a) act"

text \<open>
  One round trip to the server. A fault is an error before anything is executed, whatever its
  reason: a lost connection, or a parameter that the server does not accept.
\<close>

definition stmt :: "pg_env \<Rightarrow> 'a query \<Rightarrow> 'a query" where
  "stmt env body d =
     (let d1 = d\<lparr>db_stmts := Suc (db_stmts d)\<rparr>
      in if env_fault env (db_stmts d) then (Inl (DbErr ConnFault), d1) else body d1)"

lemma stmt_ok [act_simps]:
  "\<not> env_fault env (db_stmts d) \<Longrightarrow>
     stmt env body d = body (d\<lparr>db_stmts := Suc (db_stmts d)\<rparr>)"
  by (simp add: stmt_def)

lemma stmt_fault [act_simps]:
  "env_fault env (db_stmts d) \<Longrightarrow>
     stmt env body d = (Inl (DbErr ConnFault), d\<lparr>db_stmts := Suc (db_stmts d)\<rparr>)"
  by (simp add: stmt_def)

definition sql_error :: "sqlstate \<Rightarrow> 'a query" where
  "sql_error c d = (Inl (DbErr c), d)"

definition no_rows :: "'a query" where
  "no_rows d = (Inl (Sentinel SqlErrNoRows), d)"

lemma sql_error_run [act_simps, simp]: "sql_error c d = (Inl (DbErr c), d)"
  by (simp add: sql_error_def)

lemma no_rows_run [act_simps, simp]: "no_rows d = (Inl (Sentinel SqlErrNoRows), d)"
  by (simp add: no_rows_def)

definition select_rows :: "(pgdb \<Rightarrow> 'a) \<Rightarrow> 'a query" where
  "select_rows f d = (Inr (f d), d)"

definition select_one :: "(pgdb \<Rightarrow> 'a option) \<Rightarrow> 'a query" where
  "select_one f d = (case f d of None \<Rightarrow> no_rows d | Some r \<Rightarrow> (Inr r, d))"

lemma select_rows_run [act_simps, simp]: "select_rows f d = (Inr (f d), d)"
  by (simp add: select_rows_def)

lemma select_one_run [act_simps]:
  "f d = None \<Longrightarrow> select_one f d = (Inl (Sentinel SqlErrNoRows), d)"
  "f d = Some r \<Longrightarrow> select_one f d = (Inr r, d)"
  by (simp_all add: select_one_def)

section \<open>LIKE\<close>

text \<open>
  \<open>s LIKE p\<close>: \<open>%\<close> stands for any run of characters, \<open>_\<close> for one, and a backslash
  takes the next character literally. A pattern that ends in a lone backslash is an error
  in Postgres; here it matches nothing.
\<close>

function like :: "string \<Rightarrow> string \<Rightarrow> bool" where
  "like [] s = (s = [])"
| "like (c # p) s =
     (if c = CHR ''%'' then like p s \<or> (case s of [] \<Rightarrow> False | _ # s' \<Rightarrow> like (c # p) s')
      else if c = CHR ''_'' then (case s of [] \<Rightarrow> False | _ # s' \<Rightarrow> like p s')
      else if c = CHR 0x5C then
        (case p of [] \<Rightarrow> False
         | e # p' \<Rightarrow> (case s of [] \<Rightarrow> False | x # s' \<Rightarrow> x = e \<and> like p' s'))
      else (case s of [] \<Rightarrow> False | x # s' \<Rightarrow> x = c \<and> like p s'))"
  by pat_completeness auto
termination
  by (relation "measure (\<lambda>(p, s). length p + length s)") auto

declare like.simps(2) [simp del]

definition plain_pattern :: "string \<Rightarrow> bool" where
  "plain_pattern p \<longleftrightarrow> (\<forall>c \<in> set p. c \<noteq> CHR ''%'' \<and> c \<noteq> CHR ''_'' \<and> c \<noteq> CHR 0x5C)"

lemma like_percent [simp]:
  "like (CHR ''%'' # p) s \<longleftrightarrow> like p s \<or> (case s of [] \<Rightarrow> False | _ # s' \<Rightarrow> like (CHR ''%'' # p) s')"
  by (subst like.simps(2)) simp

lemma like_literal:
  "c \<noteq> CHR ''%'' \<Longrightarrow> c \<noteq> CHR ''_'' \<Longrightarrow> c \<noteq> CHR 0x5C \<Longrightarrow>
     like (c # p) s \<longleftrightarrow> (case s of [] \<Rightarrow> False | x # s' \<Rightarrow> x = c \<and> like p s')"
  by (subst like.simps(2)) simp

lemma like_underscore [simp]:
  "like (CHR ''_'' # p) s \<longleftrightarrow> (case s of [] \<Rightarrow> False | _ # s' \<Rightarrow> like p s')"
  by (subst like.simps(2)) simp

lemma like_percent_all: "like ''%'' s"
  by (induction s) simp_all

lemma like_plain_prefix:
  "plain_pattern p \<Longrightarrow> like (p @ ''%'') s \<longleftrightarrow> (\<exists>r. s = p @ r)"
proof (induction p arbitrary: s)
  case Nil
  show ?case using like_percent_all by simp
next
  case (Cons c p)
  then have c: "c \<noteq> CHR ''%''" "c \<noteq> CHR ''_''" "c \<noteq> CHR 0x5C" and p: "plain_pattern p"
    by (auto simp: plain_pattern_def)
  show ?case
    by (cases s) (simp_all add: like_literal [OF c] Cons.IH [OF p])
qed

text \<open>\<open>lower(name) LIKE lower($1) || '%'\<close>, the prefix search of the list queries.\<close>

definition name_like :: "pg_env \<Rightarrow> string \<Rightarrow> string \<Rightarrow> bool" where
  "name_like env name prefix = like (env_lower env prefix @ ''%'') (env_lower env name)"

section \<open>Users\<close>

record UpsertUserParams =
  uup_ID :: uuid
  uup_AppleID :: string

definition q_UpsertUser :: "pg_env \<Rightarrow> UpsertUserParams \<Rightarrow> user_row query" where
  "q_UpsertUser env arg = stmt env (\<lambda>d.
     case find (\<lambda>r. u_apple r = uup_AppleID arg) (db_users d) of
       Some r \<Rightarrow>
         (Inr (r\<lparr>u_apple := uup_AppleID arg\<rparr>),
          d\<lparr>db_users := update_where (\<lambda>r. u_apple r = uup_AppleID arg)
                         (\<lambda>r. r\<lparr>u_apple := uup_AppleID arg\<rparr>) (db_users d)\<rparr>)
     | None \<Rightarrow>
         if uup_ID arg \<in> u_id ` set (db_users d) then sql_error UniqueViolation d
         else
           let r = \<lparr>u_id = uup_ID arg, u_apple = uup_AppleID arg, u_created = db_clock d\<rparr>
           in (Inr r, d\<lparr>db_users := db_users d @ [r]\<rparr>))"

definition q_ListUsers :: "pg_env \<Rightarrow> user_row list query" where
  "q_ListUsers env = stmt env (select_rows (\<lambda>d. sort_key (\<lambda>r. - u_created r) (db_users d)))"

section \<open>Teas\<close>

record TeaParams =
  tp_ID :: uuid
  tp_Name :: string
  tp_Type :: string
  tp_Description :: "string option"

definition tea_type_check :: "string \<Rightarrow> bool" where
  "tea_type_check ty \<longleftrightarrow> ty \<in> {''tea'', ''herb'', ''coffee'', ''other''}"

text \<open>
  The declared constraints are the check on the type and the key. A name or description that
  Postgres cannot store (a NUL byte, a name too long for \<open>teas_name_prefix_idx\<close>) is refused by
  the statement as a whole: that is a fault of the statement, as everywhere.
\<close>

definition q_InsertTea :: "pg_env \<Rightarrow> TeaParams \<Rightarrow> tea_row query" where
  "q_InsertTea env arg = stmt env (\<lambda>d.
     if \<not> tea_type_check (tp_Type arg) then sql_error CheckViolation d
     else if tp_ID arg \<in> t_id ` set (db_teas d) then sql_error UniqueViolation d
     else
       let r = \<lparr>t_id = tp_ID arg, t_name = tp_Name arg, t_type = tp_Type arg,
                t_desc = tp_Description arg, t_created = db_clock d\<rparr>
       in (Inr r, d\<lparr>db_teas := db_teas d @ [r]\<rparr>))"

definition q_UpdateTea :: "pg_env \<Rightarrow> TeaParams \<Rightarrow> tea_row query" where
  "q_UpdateTea env arg = stmt env (\<lambda>d.
     let f = (\<lambda>r. r\<lparr>t_name := tp_Name arg, t_type := tp_Type arg, t_desc := tp_Description arg\<rparr>)
     in case find (\<lambda>r. t_id r = tp_ID arg) (db_teas d) of
          None \<Rightarrow> no_rows d
        | Some r \<Rightarrow>
            if \<not> tea_type_check (tp_Type arg) then sql_error CheckViolation d
            else (Inr (f r), d\<lparr>db_teas := update_where (\<lambda>r. t_id r = tp_ID arg) f (db_teas d)\<rparr>))"

text \<open>
  Deleting a tea cascades to its tags, to its QR records and from them to the collections
  that list them, and to the consumptions.
\<close>

definition q_DeleteTea :: "pg_env \<Rightarrow> uuid \<Rightarrow> unit query" where
  "q_DeleteTea env i = stmt env (\<lambda>d.
     let gone = r_id ` set (filter (\<lambda>r. r_tea r = i) (db_qrs d))
     in (Inr (), d\<lparr>db_teas := filter (\<lambda>r. t_id r \<noteq> i) (db_teas d),
                   db_tea_tags := filter (\<lambda>p. fst p \<noteq> i) (db_tea_tags d),
                   db_qrs := filter (\<lambda>r. r_tea r \<noteq> i) (db_qrs d),
                   db_items := filter (\<lambda>p. snd p \<notin> gone) (db_items d),
                   db_cons := filter (\<lambda>r. s_tea r \<noteq> i) (db_cons d)\<rparr>))"

definition q_GetTea :: "pg_env \<Rightarrow> uuid \<Rightarrow> tea_row query" where
  "q_GetTea env i = stmt env (select_one (\<lambda>d. find (\<lambda>r. t_id r = i) (db_teas d)))"

definition q_ListTeas :: "pg_env \<Rightarrow> tea_row list query" where
  "q_ListTeas env = stmt env (select_rows (\<lambda>d. sort_key (\<lambda>r. - t_created r) (db_teas d)))"

definition q_SearchTeasByPrefix :: "pg_env \<Rightarrow> string \<Rightarrow> nat \<Rightarrow> tea_row list query" where
  "q_SearchTeasByPrefix env name limit = stmt env (select_rows (\<lambda>d.
     take limit (sort_key (\<lambda>r. env_collkey env (t_name r))
       (filter (\<lambda>r. name_like env (t_name r) name) (db_teas d)))))"

section \<open>Tag categories and tags\<close>

definition q_InsertTagCategory :: "pg_env \<Rightarrow> uuid \<Rightarrow> string \<Rightarrow> cat_row query" where
  "q_InsertTagCategory env i name = stmt env (\<lambda>d.
     if i \<in> c_id ` set (db_cats d) \<or> name \<in> c_name ` set (db_cats d)
     then sql_error UniqueViolation d
     else let r = \<lparr>c_id = i, c_name = name\<rparr> in (Inr r, d\<lparr>db_cats := db_cats d @ [r]\<rparr>))"

definition q_UpdateTagCategory :: "pg_env \<Rightarrow> uuid \<Rightarrow> string \<Rightarrow> cat_row query" where
  "q_UpdateTagCategory env i name = stmt env (\<lambda>d.
     case find (\<lambda>r. c_id r = i) (db_cats d) of
       None \<Rightarrow> no_rows d
     | Some r \<Rightarrow>
         if \<exists>r' \<in> set (db_cats d). c_id r' \<noteq> i \<and> c_name r' = name
         then sql_error UniqueViolation d
         else (Inr (r\<lparr>c_name := name\<rparr>),
               d\<lparr>db_cats := update_where (\<lambda>r. c_id r = i) (\<lambda>r. r\<lparr>c_name := name\<rparr>) (db_cats d)\<rparr>))"

text \<open>\<open>ON DELETE RESTRICT\<close>: a category with tags is not deleted.\<close>

definition q_DeleteTagCategory :: "pg_env \<Rightarrow> uuid \<Rightarrow> unit query" where
  "q_DeleteTagCategory env i = stmt env (\<lambda>d.
     if i \<in> c_id ` set (db_cats d) \<and> i \<in> g_cat ` set (db_tags d)
     then sql_error ForeignKeyViolation d
     else (Inr (), d\<lparr>db_cats := filter (\<lambda>r. c_id r \<noteq> i) (db_cats d)\<rparr>))"

definition q_ListTagCategories :: "pg_env \<Rightarrow> cat_row list query" where
  "q_ListTagCategories env = stmt env (select_rows (\<lambda>d.
     sort_key (\<lambda>r. env_collkey env (c_name r)) (db_cats d)))"

definition q_GetTagCategory :: "pg_env \<Rightarrow> uuid \<Rightarrow> cat_row query" where
  "q_GetTagCategory env i = stmt env (select_one (\<lambda>d. find (\<lambda>r. c_id r = i) (db_cats d)))"

definition q_SearchTagCategories :: "pg_env \<Rightarrow> string \<Rightarrow> cat_row list query" where
  "q_SearchTagCategories env prefix = stmt env (select_rows (\<lambda>d.
     sort_key (\<lambda>r. env_collkey env (c_name r))
       (filter (\<lambda>r. name_like env (c_name r) prefix) (db_cats d))))"

definition q_ListTagsByCategory :: "pg_env \<Rightarrow> uuid \<Rightarrow> tag_row list query" where
  "q_ListTagsByCategory env cat = stmt env (select_rows (\<lambda>d.
     sort_key (\<lambda>r. env_collkey env (g_name r)) (filter (\<lambda>r. g_cat r = cat) (db_tags d))))"

text \<open>Deleting tags cascades to \<open>tea_tags\<close>.\<close>

definition delete_tags :: "(tag_row \<Rightarrow> bool) \<Rightarrow> pgdb \<Rightarrow> pgdb" where
  "delete_tags p d =
     (let gone = g_id ` set (filter p (db_tags d))
      in d\<lparr>db_tags := filter (\<lambda>r. \<not> p r) (db_tags d),
           db_tea_tags := filter (\<lambda>q. snd q \<notin> gone) (db_tea_tags d)\<rparr>)"

definition q_DeleteTagsByCategory :: "pg_env \<Rightarrow> uuid \<Rightarrow> unit query" where
  "q_DeleteTagsByCategory env cat =
     stmt env (\<lambda>d. (Inr (), delete_tags (\<lambda>r. g_cat r = cat) d))"

definition tag_key :: "pg_env \<Rightarrow> tag_row \<Rightarrow> uuid \<times> string" where
  "tag_key env r = (g_cat r, env_lower env (g_name r))"

definition q_InsertTag :: "pg_env \<Rightarrow> tag_row \<Rightarrow> tag_row query" where
  "q_InsertTag env arg = stmt env (\<lambda>d.
     if g_id arg \<in> g_id ` set (db_tags d) \<or> tag_key env arg \<in> tag_key env ` set (db_tags d)
     then sql_error UniqueViolation d
     else if g_cat arg \<notin> c_id ` set (db_cats d) then sql_error ForeignKeyViolation d
     else (Inr arg, d\<lparr>db_tags := db_tags d @ [arg]\<rparr>))"

definition q_UpdateTag :: "pg_env \<Rightarrow> uuid \<Rightarrow> string \<Rightarrow> string \<Rightarrow> tag_row query" where
  "q_UpdateTag env i name color = stmt env (\<lambda>d.
     let f = (\<lambda>r. r\<lparr>g_name := name, g_color := color\<rparr>)
     in case find (\<lambda>r. g_id r = i) (db_tags d) of
          None \<Rightarrow> no_rows d
        | Some r \<Rightarrow>
            if \<exists>r' \<in> set (db_tags d). g_id r' \<noteq> i \<and> tag_key env r' = tag_key env (f r)
            then sql_error UniqueViolation d
            else (Inr (f r), d\<lparr>db_tags := update_where (\<lambda>r. g_id r = i) f (db_tags d)\<rparr>))"

definition q_ChangeTagCategory :: "pg_env \<Rightarrow> uuid \<Rightarrow> uuid \<Rightarrow> tag_row query" where
  "q_ChangeTagCategory env i cat = stmt env (\<lambda>d.
     let f = (\<lambda>r. r\<lparr>g_cat := cat\<rparr>)
     in case find (\<lambda>r. g_id r = i) (db_tags d) of
          None \<Rightarrow> no_rows d
        | Some r \<Rightarrow>
            if \<exists>r' \<in> set (db_tags d). g_id r' \<noteq> i \<and> tag_key env r' = tag_key env (f r)
            then sql_error UniqueViolation d
            else if cat \<notin> c_id ` set (db_cats d) then sql_error ForeignKeyViolation d
            else (Inr (f r), d\<lparr>db_tags := update_where (\<lambda>r. g_id r = i) f (db_tags d)\<rparr>))"

definition q_DeleteTag :: "pg_env \<Rightarrow> uuid \<Rightarrow> unit query" where
  "q_DeleteTag env i = stmt env (\<lambda>d. (Inr (), delete_tags (\<lambda>r. g_id r = i) d))"

definition q_GetTag :: "pg_env \<Rightarrow> uuid \<Rightarrow> tag_row query" where
  "q_GetTag env i = stmt env (select_one (\<lambda>d. find (\<lambda>r. g_id r = i) (db_tags d)))"

definition q_ListTags :: "pg_env \<Rightarrow> tag_row list query" where
  "q_ListTags env = stmt env (select_rows (\<lambda>d.
     sort_key (\<lambda>r. env_collkey env (g_name r)) (db_tags d)))"

definition q_ListTagsByName :: "pg_env \<Rightarrow> string \<Rightarrow> tag_row list query" where
  "q_ListTagsByName env prefix = stmt env (select_rows (\<lambda>d.
     sort_key (\<lambda>r. env_collkey env (g_name r))
       (filter (\<lambda>r. name_like env (g_name r) prefix) (db_tags d))))"

definition q_ListTagsByCategoryFilter :: "pg_env \<Rightarrow> uuid \<Rightarrow> tag_row list query" where
  "q_ListTagsByCategoryFilter env cat = stmt env (select_rows (\<lambda>d.
     sort_key (\<lambda>r. env_collkey env (g_name r)) (filter (\<lambda>r. g_cat r = cat) (db_tags d))))"

definition q_ListTagsByNameCategory :: "pg_env \<Rightarrow> string \<Rightarrow> uuid \<Rightarrow> tag_row list query" where
  "q_ListTagsByNameCategory env prefix cat = stmt env (select_rows (\<lambda>d.
     sort_key (\<lambda>r. env_collkey env (g_name r))
       (filter (\<lambda>r. name_like env (g_name r) prefix \<and> g_cat r = cat) (db_tags d))))"

definition q_AddTagToTea :: "pg_env \<Rightarrow> uuid \<Rightarrow> uuid \<Rightarrow> unit query" where
  "q_AddTagToTea env tea tg = stmt env (\<lambda>d.
     if (tea, tg) \<in> set (db_tea_tags d) then (Inr (), d)
     else if tea \<notin> t_id ` set (db_teas d) \<or> tg \<notin> g_id ` set (db_tags d)
     then sql_error ForeignKeyViolation d
     else (Inr (), d\<lparr>db_tea_tags := db_tea_tags d @ [(tea, tg)]\<rparr>))"

definition q_DeleteTagFromTea :: "pg_env \<Rightarrow> uuid \<Rightarrow> uuid \<Rightarrow> unit query" where
  "q_DeleteTagFromTea env tea tg = stmt env (\<lambda>d.
     (Inr (), d\<lparr>db_tea_tags := filter (\<lambda>p. p \<noteq> (tea, tg)) (db_tea_tags d)\<rparr>))"

definition q_ListTagsByTea :: "pg_env \<Rightarrow> uuid \<Rightarrow> tag_row list query" where
  "q_ListTagsByTea env tea = stmt env (select_rows (\<lambda>d.
     sort_key (\<lambda>r. env_collkey env (g_name r))
       (concat (map (\<lambda>p. filter (\<lambda>g. g_id g = snd p) (db_tags d))
         (filter (\<lambda>p. fst p = tea) (db_tea_tags d))))))"

section \<open>QR records\<close>

definition q_UpsertQR :: "pg_env \<Rightarrow> uuid \<Rightarrow> uuid \<Rightarrow> 32 word \<Rightarrow> time \<Rightarrow> unit query" where
  "q_UpsertQR env i tea temp ex = stmt env (\<lambda>d.
     if tea \<notin> t_id ` set (db_teas d) then sql_error ForeignKeyViolation d
     else if i \<in> r_id ` set (db_qrs d)
     then (Inr (), d\<lparr>db_qrs := update_where (\<lambda>r. r_id r = i)
             (\<lambda>r. r\<lparr>r_tea := tea, r_temp := temp, r_exp := env_round env ex\<rparr>) (db_qrs d)\<rparr>)
     else (Inr (), d\<lparr>db_qrs := db_qrs d @
             [\<lparr>r_id = i, r_tea = tea, r_temp = temp, r_exp = env_round env ex,
               r_created = db_clock d\<rparr>]\<rparr>))"

definition q_GetQR :: "pg_env \<Rightarrow> uuid \<Rightarrow> qr_row query" where
  "q_GetQR env i = stmt env (select_one (\<lambda>d. find (\<lambda>r. r_id r = i) (db_qrs d)))"

section \<open>Collections\<close>

definition q_InsertCollection :: "pg_env \<Rightarrow> uuid \<Rightarrow> uuid \<Rightarrow> string \<Rightarrow> coll_row query" where
  "q_InsertCollection env i user name = stmt env (\<lambda>d.
     if i \<in> k_id ` set (db_colls d) then sql_error UniqueViolation d
     else if user \<notin> u_id ` set (db_users d) then sql_error ForeignKeyViolation d
     else
       let r = \<lparr>k_id = i, k_user = user, k_name = name, k_created = db_clock d\<rparr>
       in (Inr r, d\<lparr>db_colls := db_colls d @ [r]\<rparr>))"

text \<open>\<open>ON CONFLICT DO NOTHING\<close> over several rows, each compared with those before it.\<close>

fun insert_new :: "'r list \<Rightarrow> 'r list \<Rightarrow> 'r list" where
  "insert_new rs [] = rs"
| "insert_new rs (x # xs) = insert_new (if x \<in> set rs then rs else rs @ [x]) xs"

lemma set_insert_new [simp]: "set (insert_new rs xs) = set rs \<union> set xs"
  by (induction rs xs rule: insert_new.induct) auto

lemma distinct_insert_new: "distinct rs \<Longrightarrow> distinct (insert_new rs xs)"
  by (induction rs xs rule: insert_new.induct) auto

definition q_InsertCollectionItem :: "pg_env \<Rightarrow> uuid \<Rightarrow> uuid \<Rightarrow> unit query" where
  "q_InsertCollectionItem env col qr = stmt env (\<lambda>d.
     if (col, qr) \<in> set (db_items d) then (Inr (), d)
     else if col \<notin> k_id ` set (db_colls d) \<or> qr \<notin> r_id ` set (db_qrs d)
     then sql_error ForeignKeyViolation d
     else (Inr (), d\<lparr>db_items := db_items d @ [(col, qr)]\<rparr>))"

text \<open>
  \<open>INSERT ... SELECT $1, x FROM unnest($2) JOIN qr_records\<close>: unknown identifiers drop out
  in the join; the collection has to exist if a row is inserted.
\<close>

definition q_InsertCollectionItems :: "pg_env \<Rightarrow> uuid \<Rightarrow> uuid list \<Rightarrow> unit query" where
  "q_InsertCollectionItems env col qrs = stmt env (\<lambda>d.
     let rows = map (Pair col) (filter (\<lambda>x. x \<in> r_id ` set (db_qrs d)) qrs)
     in if (\<exists>p \<in> set rows. p \<notin> set (db_items d)) \<and> col \<notin> k_id ` set (db_colls d)
        then sql_error ForeignKeyViolation d
        else (Inr (), d\<lparr>db_items := insert_new (db_items d) rows\<rparr>))"

definition q_DeleteCollectionItem :: "pg_env \<Rightarrow> uuid \<Rightarrow> uuid \<Rightarrow> unit query" where
  "q_DeleteCollectionItem env col qr = stmt env (\<lambda>d.
     (Inr (), d\<lparr>db_items := filter (\<lambda>p. p \<noteq> (col, qr)) (db_items d)\<rparr>))"

definition q_DeleteCollection :: "pg_env \<Rightarrow> uuid \<Rightarrow> uuid \<Rightarrow> unit query" where
  "q_DeleteCollection env i user = stmt env (\<lambda>d.
     let gone = k_id ` set (filter (\<lambda>r. k_id r = i \<and> k_user r = user) (db_colls d))
     in (Inr (), d\<lparr>db_colls := filter (\<lambda>r. \<not> (k_id r = i \<and> k_user r = user)) (db_colls d),
                   db_items := filter (\<lambda>p. fst p \<notin> gone) (db_items d)\<rparr>))"

definition q_ListCollections :: "pg_env \<Rightarrow> uuid \<Rightarrow> coll_row list query" where
  "q_ListCollections env user = stmt env (select_rows (\<lambda>d.
     sort_key (\<lambda>r. - k_created r) (filter (\<lambda>r. k_user r = user) (db_colls d))))"

definition q_GetCollection :: "pg_env \<Rightarrow> uuid \<Rightarrow> uuid \<Rightarrow> coll_row query" where
  "q_GetCollection env i user = stmt env (select_one (\<lambda>d.
     find (\<lambda>r. k_id r = i \<and> k_user r = user) (db_colls d)))"

definition q_ListCollectionRecords :: "pg_env \<Rightarrow> uuid \<Rightarrow> (qr_row \<times> tea_row) list query" where
  "q_ListCollectionRecords env col = stmt env (select_rows (\<lambda>d.
     sort_key (\<lambda>(r, t). r_exp r)
       (concat (map (\<lambda>p. concat (map (\<lambda>r. map (Pair r) (filter (\<lambda>t. t_id t = r_tea r) (db_teas d)))
                           (filter (\<lambda>r. r_id r = snd p) (db_qrs d))))
         (filter (\<lambda>p. fst p = col) (db_items d))))))"

section \<open>Devices and notifications\<close>

definition q_InsertDevice :: "pg_env \<Rightarrow> uuid \<Rightarrow> uuid \<Rightarrow> string \<Rightarrow> unit query" where
  "q_InsertDevice env i user token = stmt env (\<lambda>d.
     if i \<in> d_id ` set (db_devices d) then (Inr (), d)
     else if token \<in> d_token ` set (db_devices d) then sql_error UniqueViolation d
     else if user \<notin> u_id ` set (db_users d) then sql_error ForeignKeyViolation d
     else (Inr (), d\<lparr>db_devices := db_devices d @
             [\<lparr>d_id = i, d_user = user, d_token = token, d_created = db_clock d\<rparr>]\<rparr>))"

text \<open>Returns \<open>RowsAffected\<close>.\<close>

definition q_UpdateDeviceToken :: "pg_env \<Rightarrow> uuid \<Rightarrow> string \<Rightarrow> nat query" where
  "q_UpdateDeviceToken env i token = stmt env (\<lambda>d.
     if i \<in> d_id ` set (db_devices d)
        \<and> (\<exists>r \<in> set (db_devices d). d_id r \<noteq> i \<and> d_token r = token)
     then sql_error UniqueViolation d
     else (Inr (length (filter (\<lambda>r. d_id r = i) (db_devices d))),
           d\<lparr>db_devices := update_where (\<lambda>r. d_id r = i) (\<lambda>r. r\<lparr>d_token := token\<rparr>)
                            (db_devices d)\<rparr>))"

definition q_ListDeviceTokens :: "pg_env \<Rightarrow> uuid \<Rightarrow> string list query" where
  "q_ListDeviceTokens env user = stmt env (select_rows (\<lambda>d.
     map d_token (sort_key (\<lambda>r. - d_created r)
       (filter (\<lambda>r. d_user r = user) (db_devices d)))))"

definition q_ListNotifications :: "pg_env \<Rightarrow> uuid \<Rightarrow> notif_row list query" where
  "q_ListNotifications env user = stmt env (select_rows (\<lambda>d.
     sort_key (\<lambda>r. - n_created r) (filter (\<lambda>r. n_user r = user) (db_notifs d))))"

section \<open>Consumptions\<close>

definition q_InsertConsumption :: "pg_env \<Rightarrow> uuid \<Rightarrow> time \<Rightarrow> uuid \<Rightarrow> unit query" where
  "q_InsertConsumption env user ts tea = stmt env (\<lambda>d.
     let r = \<lparr>s_user = user, s_ts = env_round env ts, s_tea = tea\<rparr>
     in if r \<in> set (db_cons d) then (Inr (), d)
        else if user \<notin> u_id ` set (db_users d) \<or> tea \<notin> t_id ` set (db_teas d)
        then sql_error ForeignKeyViolation d
        else (Inr (), d\<lparr>db_cons := db_cons d @ [r]\<rparr>))"

definition q_DeleteConsumptionsBefore :: "pg_env \<Rightarrow> uuid \<Rightarrow> time \<Rightarrow> unit query" where
  "q_DeleteConsumptionsBefore env user cutoff = stmt env (\<lambda>d.
     (Inr (), d\<lparr>db_cons :=
        filter (\<lambda>r. \<not> (s_user r = user \<and> s_ts r < env_round env cutoff)) (db_cons d)\<rparr>))"

definition q_ListConsumptionsSince :: "pg_env \<Rightarrow> uuid \<Rightarrow> time \<Rightarrow> cons_row list query" where
  "q_ListConsumptionsSince env user since = stmt env (select_rows (\<lambda>d.
     sort_key (\<lambda>r. - s_ts r)
       (filter (\<lambda>r. s_user r = user \<and> env_round env since \<le> s_ts r) (db_cons d))))"

end
