(* ===== verification/Pgstore_Integrity.thy ===== *)
theory Pgstore_Integrity
  imports Pgstore
begin

text \<open>
  The integrity of the database: primary keys and unique columns are unique, every foreign
  key refers to a row, every tea has one of the four type labels. Each mutating query keeps
  it, also when it fails; so every database reached from the empty one by any sequence of
  queries has it.
\<close>

section \<open>Integrity\<close>

definition keys_ok :: "pg_env \<Rightarrow> pgdb \<Rightarrow> bool" where
  "keys_ok env d \<longleftrightarrow>
     distinct (map u_id (db_users d)) \<and> distinct (map u_apple (db_users d)) \<and>
     distinct (map t_id (db_teas d)) \<and>
     distinct (map c_id (db_cats d)) \<and> distinct (map c_name (db_cats d)) \<and>
     distinct (map g_id (db_tags d)) \<and> distinct (map (tag_key env) (db_tags d)) \<and>
     distinct (db_tea_tags d) \<and>
     distinct (map r_id (db_qrs d)) \<and>
     distinct (map k_id (db_colls d)) \<and> distinct (db_items d) \<and>
     distinct (map d_id (db_devices d)) \<and> distinct (map d_token (db_devices d)) \<and>
     distinct (map n_id (db_notifs d)) \<and> distinct (db_cons d)"

definition refs_ok :: "pgdb \<Rightarrow> bool" where
  "refs_ok d \<longleftrightarrow>
     (\<forall>r \<in> set (db_tags d). g_cat r \<in> c_id ` set (db_cats d)) \<and>
     (\<forall>p \<in> set (db_tea_tags d). fst p \<in> t_id ` set (db_teas d) \<and> snd p \<in> g_id ` set (db_tags d)) \<and>
     (\<forall>r \<in> set (db_qrs d). r_tea r \<in> t_id ` set (db_teas d)) \<and>
     (\<forall>r \<in> set (db_colls d). k_user r \<in> u_id ` set (db_users d)) \<and>
     (\<forall>p \<in> set (db_items d). fst p \<in> k_id ` set (db_colls d) \<and> snd p \<in> r_id ` set (db_qrs d)) \<and>
     (\<forall>r \<in> set (db_devices d). d_user r \<in> u_id ` set (db_users d)) \<and>
     (\<forall>r \<in> set (db_notifs d). n_user r \<in> u_id ` set (db_users d)) \<and>
     (\<forall>r \<in> set (db_cons d). s_user r \<in> u_id ` set (db_users d) \<and> s_tea r \<in> t_id ` set (db_teas d))"

definition types_ok :: "pgdb \<Rightarrow> bool" where
  "types_ok d \<longleftrightarrow> (\<forall>r \<in> set (db_teas d). tea_type_check (t_type r))"

definition db_ok :: "pg_env \<Rightarrow> pgdb \<Rightarrow> bool" where
  "db_ok env d \<longleftrightarrow> keys_ok env d \<and> refs_ok d \<and> types_ok d"

lemmas db_ok_defs = db_ok_def keys_ok_def refs_ok_def types_ok_def

lemma db_ok_empty: "db_ok env empty_db"
  by (simp add: db_ok_defs empty_db_def)

lemma db_ok_stmts [simp]: "db_ok env (d\<lparr>db_stmts := n\<rparr>) \<longleftrightarrow> db_ok env d"
  by (simp add: db_ok_defs)

lemma db_ok_clock [simp]: "db_ok env (d\<lparr>db_clock := t\<rparr>) \<longleftrightarrow> db_ok env d"
  by (simp add: db_ok_defs)

text \<open>A statement keeps the integrity if its body does.\<close>

lemma stmt_db_ok:
  assumes "db_ok env d" and "\<And>d. db_ok env d \<Longrightarrow> db_ok env (snd (body d))"
  shows "db_ok env (snd (stmt env body d))"
  using assms by (simp add: stmt_def Let_def)

lemma map_update_where_key [simp]:
  assumes "\<And>r. k (f r) = k r"
  shows "map k (update_where p f rs) = map k rs"
  using assms by (simp add: update_where_def)

lemma image_update_where [simp]:
  assumes "\<And>r. k (f r) = k r"
  shows "k ` set (update_where p f rs) = k ` set rs"
  using map_update_where_key [of k f p rs] assms by (metis list.set_map)

lemma image_filter_key [simp]:
  "k ` {r \<in> S. k r \<noteq> i} = k ` S - {i}"
  by auto

lemma Ball_update_where [simp]:
  "(\<forall>r \<in> set (update_where p f rs). P r) \<longleftrightarrow> (\<forall>r \<in> set rs. P (if p r then f r else r))"
  unfolding update_where_def by auto

lemma image_remaining:
  "x \<notin> k ` {r \<in> S. P r} \<Longrightarrow> x \<in> k ` {r \<in> S. \<not> P r} \<longleftrightarrow> x \<in> k ` S"
  by auto

lemma distinct_map_filterI [intro]: "distinct (map k rs) \<Longrightarrow> distinct (map k (filter p rs))"
  by (rule distinct_map_filter)

section \<open>Every query keeps it\<close>

lemma q_UpsertUser_ok [db_ok_intros]:
  "db_ok env d \<Longrightarrow> db_ok env (snd (q_UpsertUser env arg d))"
proof -
  have same: "update_where (\<lambda>r. u_apple r = a) (\<lambda>r. r\<lparr>u_apple := a\<rparr>) rs = rs" for a rs
    by (auto simp: update_where_def intro: map_idI)
  show "db_ok env d \<Longrightarrow> db_ok env (snd (q_UpsertUser env arg d))"
    unfolding q_UpsertUser_def
    by (erule stmt_db_ok) (auto simp: db_ok_defs same find_eq_None_iff Let_def split: option.splits)
qed

lemma q_InsertTea_ok [db_ok_intros]:
  "db_ok env d \<Longrightarrow> db_ok env (snd (q_InsertTea env arg d))"
  unfolding q_InsertTea_def
  by (erule stmt_db_ok) (auto simp: db_ok_defs Let_def)

lemma q_UpdateTea_ok [db_ok_intros]:
  "db_ok env d \<Longrightarrow> db_ok env (snd (q_UpdateTea env arg d))"
  unfolding q_UpdateTea_def
  by (erule stmt_db_ok) (auto simp: db_ok_defs Let_def split: option.splits)

lemma q_DeleteTea_ok [db_ok_intros]:
  "db_ok env d \<Longrightarrow> db_ok env (snd (q_DeleteTea env i d))"
  unfolding q_DeleteTea_def
  by (erule stmt_db_ok) (auto simp: db_ok_defs Let_def image_remaining)

lemma q_InsertTagCategory_ok [db_ok_intros]:
  "db_ok env d \<Longrightarrow> db_ok env (snd (q_InsertTagCategory env i name d))"
  unfolding q_InsertTagCategory_def
  by (erule stmt_db_ok) (auto simp: db_ok_defs Let_def)

lemma q_UpdateTagCategory_ok [db_ok_intros]:
  "db_ok env d \<Longrightarrow> db_ok env (snd (q_UpdateTagCategory env i name d))"
  unfolding q_UpdateTagCategory_def
  by (erule stmt_db_ok)
    (auto simp: db_ok_defs Let_def intro!: distinct_map_update_where [where pk = c_id]
      split: option.splits)

lemma q_DeleteTagCategory_ok [db_ok_intros]:
  "db_ok env d \<Longrightarrow> db_ok env (snd (q_DeleteTagCategory env i d))"
  unfolding q_DeleteTagCategory_def
  by (erule stmt_db_ok) (auto simp: db_ok_defs)

lemma delete_tags_ok:
  "db_ok env d \<Longrightarrow> db_ok env (delete_tags p d)"
  by (auto simp: db_ok_defs delete_tags_def Let_def image_remaining)

lemma q_DeleteTagsByCategory_ok [db_ok_intros]:
  "db_ok env d \<Longrightarrow> db_ok env (snd (q_DeleteTagsByCategory env cat d))"
  unfolding q_DeleteTagsByCategory_def by (erule stmt_db_ok) (simp add: delete_tags_ok)

lemma q_DeleteTag_ok [db_ok_intros]:
  "db_ok env d \<Longrightarrow> db_ok env (snd (q_DeleteTag env i d))"
  unfolding q_DeleteTag_def by (erule stmt_db_ok) (simp add: delete_tags_ok)

lemma q_InsertTag_ok [db_ok_intros]:
  "db_ok env d \<Longrightarrow> db_ok env (snd (q_InsertTag env arg d))"
  unfolding q_InsertTag_def by (erule stmt_db_ok) (auto simp: db_ok_defs)

lemma tag_key_upd [simp]:
  "tag_key env (r\<lparr>g_name := n, g_color := c\<rparr>) = (g_cat r, env_lower env n)"
  "tag_key env (r\<lparr>g_cat := k\<rparr>) = (k, env_lower env (g_name r))"
  by (simp_all add: tag_key_def)

text \<open>The row \<open>find\<close> returns is the only one with its key.\<close>

lemma find_key_unique:
  assumes "distinct (map k rs)" and "find (\<lambda>r. k r = i) rs = Some r" and "r' \<in> set rs"
    and "k r' = i"
  shows "r' = r"
proof -
  from assms(2) have "r \<in> set rs" and "k r = i" by (auto dest: find_SomeD)
  with assms(1,3,4) show ?thesis by (metis distinct_map inj_onD)
qed

lemma update_tag_ok:
  assumes ok: "db_ok env d" and r: "find (\<lambda>r. g_id r = i) (db_tags d) = Some r"
    and free: "\<forall>r' \<in> set (db_tags d). g_id r' \<noteq> i \<longrightarrow> tag_key env r' \<noteq> tag_key env (f r)"
    and id: "\<And>r. g_id (f r) = g_id r"
    and cat: "g_cat (f r) \<in> c_id ` set (db_cats d)"
  shows "db_ok env (d\<lparr>db_tags := update_where (\<lambda>r. g_id r = i) f (db_tags d)\<rparr>)"
proof -
  have keys: "distinct (map g_id (db_tags d))" "distinct (map (tag_key env) (db_tags d))"
    using ok by (simp_all add: db_ok_defs)
  have only: "x = r" if "x \<in> set (db_tags d)" "g_id x = i" for x
    using find_key_unique [OF keys(1) r that] .
  have "distinct (map (tag_key env) (update_where (\<lambda>r. g_id r = i) f (db_tags d)))"
  proof (rule distinct_map_update_where [OF keys])
    fix x y assume "x \<in> set (db_tags d)" "y \<in> set (db_tags d)" "g_id x = i" "g_id y \<noteq> i"
    with only [of x] free show "tag_key env y \<noteq> tag_key env (f x)" by auto
  qed
  moreover have "\<forall>x \<in> set (update_where (\<lambda>r. g_id r = i) f (db_tags d)).
      g_cat x \<in> c_id ` set (db_cats d)"
    using ok only cat by (auto simp: db_ok_defs)
  ultimately show ?thesis
    using ok id by (simp add: db_ok_defs)
qed

lemma q_UpdateTag_ok [db_ok_intros]:
  "db_ok env d \<Longrightarrow> db_ok env (snd (q_UpdateTag env i name color d))"
  unfolding q_UpdateTag_def
proof (erule stmt_db_ok)
  fix d assume ok: "db_ok env d"
  have cat: "g_cat r \<in> c_id ` set (db_cats d)"
    if "find (\<lambda>r. g_id r = i) (db_tags d) = Some r" for r
    using ok find_SomeD [OF that] by (simp add: db_ok_defs)
  show "db_ok env (snd (let f = (\<lambda>r. r\<lparr>g_name := name, g_color := color\<rparr>)
     in case find (\<lambda>r. g_id r = i) (db_tags d) of
          None \<Rightarrow> no_rows d
        | Some r \<Rightarrow>
            if \<exists>r' \<in> set (db_tags d). g_id r' \<noteq> i \<and> tag_key env r' = tag_key env (f r)
            then sql_error UniqueViolation d
            else (Inr (f r), d\<lparr>db_tags := update_where (\<lambda>r. g_id r = i) f (db_tags d)\<rparr>)))"
    unfolding Let_def
    using ok cat by (auto split: option.split intro!: update_tag_ok)
qed

lemma q_ChangeTagCategory_ok [db_ok_intros]:
  "db_ok env d \<Longrightarrow> db_ok env (snd (q_ChangeTagCategory env i cat d))"
  unfolding q_ChangeTagCategory_def
proof (erule stmt_db_ok)
  fix d assume ok: "db_ok env d"
  show "db_ok env (snd (let f = (\<lambda>r. r\<lparr>g_cat := cat\<rparr>)
     in case find (\<lambda>r. g_id r = i) (db_tags d) of
          None \<Rightarrow> no_rows d
        | Some r \<Rightarrow>
            if \<exists>r' \<in> set (db_tags d). g_id r' \<noteq> i \<and> tag_key env r' = tag_key env (f r)
            then sql_error UniqueViolation d
            else if cat \<notin> c_id ` set (db_cats d) then sql_error ForeignKeyViolation d
            else (Inr (f r), d\<lparr>db_tags := update_where (\<lambda>r. g_id r = i) f (db_tags d)\<rparr>)))"
    unfolding Let_def
    using ok by (auto split: option.split intro!: update_tag_ok)
qed

lemma q_AddTagToTea_ok [db_ok_intros]:
  "db_ok env d \<Longrightarrow> db_ok env (snd (q_AddTagToTea env tea tg d))"
  unfolding q_AddTagToTea_def by (erule stmt_db_ok) (auto simp: db_ok_defs)

lemma q_DeleteTagFromTea_ok [db_ok_intros]:
  "db_ok env d \<Longrightarrow> db_ok env (snd (q_DeleteTagFromTea env tea tg d))"
  unfolding q_DeleteTagFromTea_def by (erule stmt_db_ok) (auto simp: db_ok_defs)

lemma q_UpsertQR_ok [db_ok_intros]:
  "db_ok env d \<Longrightarrow> db_ok env (snd (q_UpsertQR env i tea temp ex d))"
  unfolding q_UpsertQR_def by (erule stmt_db_ok) (auto simp: db_ok_defs)

lemma q_InsertCollection_ok [db_ok_intros]:
  "db_ok env d \<Longrightarrow> db_ok env (snd (q_InsertCollection env i user name d))"
  unfolding q_InsertCollection_def by (erule stmt_db_ok) (auto simp: db_ok_defs Let_def)

lemma q_InsertCollectionItem_ok [db_ok_intros]:
  "db_ok env d \<Longrightarrow> db_ok env (snd (q_InsertCollectionItem env col qr d))"
  unfolding q_InsertCollectionItem_def by (erule stmt_db_ok) (auto simp: db_ok_defs)

lemma q_InsertCollectionItems_ok [db_ok_intros]:
  "db_ok env d \<Longrightarrow> db_ok env (snd (q_InsertCollectionItems env col qrs d))"
  unfolding q_InsertCollectionItems_def
proof (erule stmt_db_ok)
  fix d assume ok: "db_ok env d"
  have known: "col \<in> k_id ` set (db_colls d)"
    if "(col, x) \<in> set (db_items d)" for x
    using ok that by (force simp: db_ok_def refs_ok_def)
  show "db_ok env (snd (let rows = map (Pair col) (filter (\<lambda>x. x \<in> r_id ` set (db_qrs d)) qrs)
     in if (\<exists>p \<in> set rows. p \<notin> set (db_items d)) \<and> col \<notin> k_id ` set (db_colls d)
        then sql_error ForeignKeyViolation d
        else (Inr (), d\<lparr>db_items := insert_new (db_items d) rows\<rparr>)))"
    using ok known by (auto simp: db_ok_defs Let_def distinct_insert_new)
qed

lemma q_DeleteCollectionItem_ok [db_ok_intros]:
  "db_ok env d \<Longrightarrow> db_ok env (snd (q_DeleteCollectionItem env col qr d))"
  unfolding q_DeleteCollectionItem_def by (erule stmt_db_ok) (auto simp: db_ok_defs)

lemma q_DeleteCollection_ok [db_ok_intros]:
  "db_ok env d \<Longrightarrow> db_ok env (snd (q_DeleteCollection env i user d))"
  unfolding q_DeleteCollection_def
proof (erule stmt_db_ok)
  fix d assume ok: "db_ok env d"
  let ?p = "\<lambda>r. k_id r = i \<and> k_user r = user"
  have "x \<in> k_id ` {r \<in> set (db_colls d). \<not> ?p r}"
    if "x \<in> k_id ` set (db_colls d)" "x \<notin> k_id ` {r \<in> set (db_colls d). ?p r}" for x
    using that by (simp add: image_remaining del: de_Morgan_conj)
  then show "db_ok env (snd (let gone = k_id ` set (filter ?p (db_colls d))
     in (Inr (), d\<lparr>db_colls := filter (\<lambda>r. \<not> ?p r) (db_colls d),
                   db_items := filter (\<lambda>p. fst p \<notin> gone) (db_items d)\<rparr>)))"
    using ok by (auto simp: db_ok_defs Let_def simp del: de_Morgan_conj)
qed

lemma q_InsertDevice_ok [db_ok_intros]:
  "db_ok env d \<Longrightarrow> db_ok env (snd (q_InsertDevice env i user token d))"
  unfolding q_InsertDevice_def by (erule stmt_db_ok) (auto simp: db_ok_defs)

lemma q_UpdateDeviceToken_ok [db_ok_intros]:
  "db_ok env d \<Longrightarrow> db_ok env (snd (q_UpdateDeviceToken env i token d))"
  unfolding q_UpdateDeviceToken_def
  by (erule stmt_db_ok)
    (auto simp: db_ok_defs intro!: distinct_map_update_where [where pk = d_id])

lemma q_InsertConsumption_ok [db_ok_intros]:
  "db_ok env d \<Longrightarrow> db_ok env (snd (q_InsertConsumption env user ts tea d))"
  unfolding q_InsertConsumption_def by (erule stmt_db_ok) (auto simp: db_ok_defs Let_def)

lemma q_DeleteConsumptionsBefore_ok [db_ok_intros]:
  "db_ok env d \<Longrightarrow> db_ok env (snd (q_DeleteConsumptionsBefore env user cutoff d))"
  unfolding q_DeleteConsumptionsBefore_def by (erule stmt_db_ok) (auto simp: db_ok_defs)

text \<open>A query that only reads changes nothing but the count of the statements.\<close>

lemma stmt_select_rows [simp]:
  "snd (stmt env (select_rows f) d) = d\<lparr>db_stmts := Suc (db_stmts d)\<rparr>"
  by (simp add: stmt_def Let_def)

lemma stmt_select_one [simp]:
  "snd (stmt env (select_one f) d) = d\<lparr>db_stmts := Suc (db_stmts d)\<rparr>"
  by (simp add: stmt_def select_one_def Let_def split: option.splits)

section \<open>Reachable databases\<close>

text \<open>
  One step is one query of the program, with any arguments and any outcome, a reading
  query (which only counts), or the clock of the server moving on.
\<close>

inductive db_step :: "pg_env \<Rightarrow> pgdb \<Rightarrow> pgdb \<Rightarrow> bool" for env where
  clock: "db_step env d (d\<lparr>db_clock := t\<rparr>)"
| read: "db_step env d (d\<lparr>db_stmts := n\<rparr>)"
| upsert_user: "db_step env d (snd (q_UpsertUser env ua d))"
| insert_tea: "db_step env d (snd (q_InsertTea env ta d))"
| update_tea: "db_step env d (snd (q_UpdateTea env ta d))"
| delete_tea: "db_step env d (snd (q_DeleteTea env i d))"
| insert_category: "db_step env d (snd (q_InsertTagCategory env i name d))"
| update_category: "db_step env d (snd (q_UpdateTagCategory env i name d))"
| delete_category: "db_step env d (snd (q_DeleteTagCategory env i d))"
| delete_tags_by_category: "db_step env d (snd (q_DeleteTagsByCategory env i d))"
| insert_tag: "db_step env d (snd (q_InsertTag env ga d))"
| update_tag: "db_step env d (snd (q_UpdateTag env i name color d))"
| change_tag_category: "db_step env d (snd (q_ChangeTagCategory env i cat d))"
| delete_tag: "db_step env d (snd (q_DeleteTag env i d))"
| add_tag_to_tea: "db_step env d (snd (q_AddTagToTea env tea tg d))"
| delete_tag_from_tea: "db_step env d (snd (q_DeleteTagFromTea env tea tg d))"
| upsert_qr: "db_step env d (snd (q_UpsertQR env i tea temp ex d))"
| insert_collection: "db_step env d (snd (q_InsertCollection env i user name d))"
| insert_item: "db_step env d (snd (q_InsertCollectionItem env col qr d))"
| insert_items: "db_step env d (snd (q_InsertCollectionItems env col qrs d))"
| delete_item: "db_step env d (snd (q_DeleteCollectionItem env col qr d))"
| delete_collection: "db_step env d (snd (q_DeleteCollection env i user d))"
| insert_device: "db_step env d (snd (q_InsertDevice env i user token d))"
| update_device: "db_step env d (snd (q_UpdateDeviceToken env i token d))"
| insert_consumption: "db_step env d (snd (q_InsertConsumption env user ts tea d))"
| delete_consumptions: "db_step env d (snd (q_DeleteConsumptionsBefore env user ts d))"

inductive db_reach :: "pg_env \<Rightarrow> pgdb \<Rightarrow> bool" for env where
  start: "db_reach env empty_db"
| step: "db_reach env d \<Longrightarrow> db_step env d d' \<Longrightarrow> db_reach env d'"

lemma db_step_ok: "db_step env d d' \<Longrightarrow> db_ok env d \<Longrightarrow> db_ok env d'"
  by (induction rule: db_step.induct) (simp_all add: db_ok_intros)

text \<open>
  C12. Every database the program can reach is consistent: whatever queries ran on it, in
  whatever order, with whatever arguments, and however many of them failed on a constraint
  or a server fault, primary keys and unique columns are unique, every reference points to
  an existing row and every tea has a type label the program knows.
\<close>

theorem reachable_db_ok:
  assumes "db_reach env d"
  shows "db_ok env d"
  using assms
  by (induction rule: db_reach.induct) (auto intro: db_ok_empty db_step_ok)

definition env0 :: pg_env where
  "env0 = \<lparr>env_lower = id, env_collkey = id, env_round = (\<lambda>t. t div 1000 * 1000),
           env_fault = (\<lambda>_. False)\<rparr>"

definition db_one_tea :: pgdb where
  "db_one_tea =
     snd (q_InsertTea env0
       \<lparr>tp_ID = 7, tp_Name = ''sencha'', tp_Type = ''tea'', tp_Description = None\<rparr> empty_db)"

theorem reachable_db_ok_witness:
  "db_reach env0 db_one_tea \<and> map t_name (db_teas db_one_tea) = [''sencha''] \<and> db_ok env0 db_one_tea"
proof -
  have "db_reach env0 db_one_tea"
    unfolding db_one_tea_def by (rule db_reach.step [OF db_reach.start db_step.insert_tea])
  moreover from this have "db_ok env0 db_one_tea" by (rule reachable_db_ok)
  moreover have "map t_name (db_teas db_one_tea) = [''sencha'']"
    by (simp add: db_one_tea_def q_InsertTea_def stmt_def env0_def empty_db_def
        tea_type_check_def Let_def)
  ultimately show ?thesis by simp
qed

end
