(* ===== verification/Pg_Adapter.thy ===== *)
theory Pg_Adapter
  imports Pgstore_Integrity
begin

text \<open>
  The storage adapter \<open>pkg/pg/db.go\<close>, the one implementation behind the storage
  interfaces of the managers, of the authentication and of the alerter: one definition per
  method, which runs the queries of \<open>Pgstore\<close> and wraps their errors. A fresh
  \<open>uuid.New()\<close> is an argument of the methods that call it.
\<close>

section \<open>Rows to domain values\<close>

definition nullableString :: "string option \<Rightarrow> string" where
  "nullableString src = (case src of Some s \<Rightarrow> s | None \<Rightarrow> [])"

definition tea_of_row :: "tea_row \<Rightarrow> Tea" where
  "tea_of_row r =
     \<lparr>tea_ID = t_id r,
      tea_Data = \<lparr>td_Name = t_name r, td_Type = StringToBeverageType (t_type r),
                  td_Description = nullableString (t_desc r)\<rparr>\<rparr>"

definition cat_of_row :: "cat_row \<Rightarrow> TagCategory" where
  "cat_of_row r = \<lparr>cat_ID = c_id r, cat_Name = c_name r\<rparr>"

definition tag_of_row :: "tag_row \<Rightarrow> Tag" where
  "tag_of_row r =
     \<lparr>tag_ID = g_id r,
      tag_Data = \<lparr>tag_Name = g_name r, tag_Color = g_color r, tag_CategoryID = g_cat r\<rparr>\<rparr>"

text \<open>The error branch of a getter that tells a missing row from a failure.\<close>

definition not_found_or :: "string \<Rightarrow> string \<Rightarrow> ('s, 'a) act \<Rightarrow> ('s, 'a) act" where
  "not_found_or missing failed m s =
     (case m s of
        (Inl e, s') \<Rightarrow> (Inl (Wrap (if errors_Is e SqlErrNoRows then missing else failed) e), s')
      | (Inr x, s') \<Rightarrow> (Inr x, s'))"

lemma snd_not_found_or [simp]: "snd (not_found_or a b m s) = snd (m s)"
  by (simp add: not_found_or_def split: prod.splits sum.splits)

section \<open>Users\<close>

definition db_GetOrCreateUser :: "pg_env \<Rightarrow> uuid \<Rightarrow> string \<Rightarrow> uuid query" where
  "db_GetOrCreateUser env fresh unique =
     mapE u_id (wrapE ''upsert user''
       (q_UpsertUser env \<lparr>uup_ID = fresh, uup_AppleID = unique\<rparr>))"

definition db_GetUsers :: "pg_env \<Rightarrow> User list query" where
  "db_GetUsers env =
     mapE (map (\<lambda>u. \<lparr>user_ID = u_id u, user_AppleID = u_apple u\<rparr>))
       (wrapE ''list users'' (q_ListUsers env))"

section \<open>Teas\<close>

definition db_WriteRecord :: "pg_env \<Rightarrow> uuid \<Rightarrow> TeaData \<Rightarrow> Tea query" where
  "db_WriteRecord env fresh rec =
     mapE tea_of_row (wrapE ''insert tea'' (q_InsertTea env
       \<lparr>tp_ID = fresh, tp_Name = td_Name rec, tp_Type = BeverageType_String (td_Type rec),
        tp_Description = Some (td_Description rec)\<rparr>))"

definition db_ReadRecord :: "pg_env \<Rightarrow> uuid \<Rightarrow> Tea query" where
  "db_ReadRecord env i =
     mapE tea_of_row (not_found_or ''tea not found'' ''get tea'' (q_GetTea env i))"

definition db_ReadAllRecords :: "pg_env \<Rightarrow> string \<Rightarrow> Tea list query" where
  "db_ReadAllRecords env search =
     mapE (map tea_of_row) (wrapE ''list teas''
       (if search = [] then q_ListTeas env else q_SearchTeasByPrefix env search (2 ^ 31 - 1)))"

definition db_Update :: "pg_env \<Rightarrow> uuid \<Rightarrow> TeaData \<Rightarrow> Tea query" where
  "db_Update env i rec =
     mapE tea_of_row (wrapE ''update tea'' (q_UpdateTea env
       \<lparr>tp_ID = i, tp_Name = td_Name rec, tp_Type = BeverageType_String (td_Type rec),
        tp_Description = Some (td_Description rec)\<rparr>))"

definition db_Delete :: "pg_env \<Rightarrow> uuid \<Rightarrow> unit query" where
  "db_Delete env i = wrapE ''delete tea'' (q_DeleteTea env i)"

section \<open>QR records\<close>

text \<open>
  \<open>BowlingTemp\<close> is an \<open>int\<close> (64 bits), the column an \<open>int32\<close>: the adapter clamps
  before the conversion, which keeps the low 32 bits.
\<close>

definition MaxInt32 :: "64 word" where "MaxInt32 = 0x7FFFFFFF"
definition MinInt32 :: "64 word" where "MinInt32 = - 0x80000000"

definition clamp_int32 :: "64 word \<Rightarrow> 32 word" where
  "clamp_int32 bt = ucast (if MaxInt32 <s bt then MaxInt32 else if bt <s MinInt32 then MinInt32 else bt)"

definition db_WriteQR :: "pg_env \<Rightarrow> uuid \<Rightarrow> QR \<Rightarrow> unit query" where
  "db_WriteQR env i data =
     wrapE ''upsert qr''
       (q_UpsertQR env i (qr_Tea data) (clamp_int32 (qr_BowlingTemp data)) (qr_ExpirationDate data))"

definition db_ReadQR :: "pg_env \<Rightarrow> uuid \<Rightarrow> QR query" where
  "db_ReadQR env i d =
     (case q_GetQR env i d of
        (Inl e, d') \<Rightarrow>
          (if errors_Is e SqlErrNoRows then (Inl (Sentinel ErrQRRecordNotExist), d')
           else (Inl (Wrap ''get qr'' e), d'))
      | (Inr r, d') \<Rightarrow>
          (Inr \<lparr>qr_Tea = r_tea r, qr_BowlingTemp = scast (r_temp r),
                qr_ExpirationDate = r_exp r\<rparr>, d'))"

section \<open>Tags and categories\<close>

definition db_CreateTagCategory :: "pg_env \<Rightarrow> uuid \<Rightarrow> string \<Rightarrow> TagCategory query" where
  "db_CreateTagCategory env fresh name =
     mapE cat_of_row (wrapE ''insert tag category'' (q_InsertTagCategory env fresh name))"

definition db_UpdateTagCategory :: "pg_env \<Rightarrow> uuid \<Rightarrow> string \<Rightarrow> unit query" where
  "db_UpdateTagCategory env i name =
     mapE (\<lambda>_. ()) (wrapE ''update tag category'' (q_UpdateTagCategory env i name))"

definition db_DeleteTagCategory :: "pg_env \<Rightarrow> uuid \<Rightarrow> uuid list query" where
  "db_DeleteTagCategory env i =
     bindE (wrapE ''list tags by category'' (q_ListTagsByCategory env i)) (\<lambda>rows.
     bindE (wrapE ''delete tags by category'' (q_DeleteTagsByCategory env i)) (\<lambda>_.
     bindE (wrapE ''delete category'' (q_DeleteTagCategory env i)) (\<lambda>_.
     returnE (map g_id rows))))"

definition db_GetTagCategory :: "pg_env \<Rightarrow> uuid \<Rightarrow> TagCategory query" where
  "db_GetTagCategory env i =
     mapE cat_of_row
       (not_found_or ''tag category not found'' ''get tag category'' (q_GetTagCategory env i))"

text \<open>A \<open>nil\<close> pointer argument is \<open>None\<close>.\<close>

definition db_ListTagCategories :: "pg_env \<Rightarrow> string option \<Rightarrow> TagCategory list query" where
  "db_ListTagCategories env search =
     mapE (map cat_of_row) (wrapE ''list tag categories''
       (case search of
          None \<Rightarrow> q_ListTagCategories env
        | Some s \<Rightarrow> if s = [] then q_ListTagCategories env else q_SearchTagCategories env s))"

definition db_CreateTag :: "pg_env \<Rightarrow> uuid \<Rightarrow> string \<Rightarrow> string \<Rightarrow> uuid \<Rightarrow> Tag query" where
  "db_CreateTag env fresh name color categoryID =
     mapE tag_of_row (wrapE ''insert tag'' (q_InsertTag env
       \<lparr>g_id = fresh, g_name = name, g_color = color, g_cat = categoryID\<rparr>))"

definition db_UpdateTag :: "pg_env \<Rightarrow> uuid \<Rightarrow> string \<Rightarrow> string \<Rightarrow> Tag query" where
  "db_UpdateTag env i name color =
     mapE tag_of_row (wrapE ''update tag'' (q_UpdateTag env i name color))"

definition db_ChangeTagCategory :: "pg_env \<Rightarrow> uuid \<Rightarrow> uuid \<Rightarrow> Tag query" where
  "db_ChangeTagCategory env i categoryID =
     mapE tag_of_row (wrapE ''change tag category'' (q_ChangeTagCategory env i categoryID))"

definition db_DeleteTag :: "pg_env \<Rightarrow> uuid \<Rightarrow> unit query" where
  "db_DeleteTag env i = wrapE ''delete tag'' (q_DeleteTag env i)"

definition db_GetTag :: "pg_env \<Rightarrow> uuid \<Rightarrow> Tag query" where
  "db_GetTag env i = mapE tag_of_row (wrapE ''get tag'' (q_GetTag env i))"

definition db_ListTags :: "pg_env \<Rightarrow> string option \<Rightarrow> uuid option \<Rightarrow> Tag list query" where
  "db_ListTags env name categoryID =
     mapE (map tag_of_row) (wrapE ''list tags''
       (case name of
          None \<Rightarrow> (case categoryID of
                    None \<Rightarrow> q_ListTags env
                  | Some c \<Rightarrow> q_ListTagsByCategoryFilter env c)
        | Some n \<Rightarrow>
            if n = [] then (case categoryID of
                    None \<Rightarrow> q_ListTags env
                  | Some c \<Rightarrow> q_ListTagsByCategoryFilter env c)
            else (case categoryID of
                    None \<Rightarrow> q_ListTagsByName env n
                  | Some c \<Rightarrow> q_ListTagsByNameCategory env n c)))"

definition db_AddTagToTea :: "pg_env \<Rightarrow> uuid \<Rightarrow> uuid \<Rightarrow> unit query" where
  "db_AddTagToTea env tea tg = wrapE ''add tag to tea'' (q_AddTagToTea env tea tg)"

definition db_DeleteTagFromTea :: "pg_env \<Rightarrow> uuid \<Rightarrow> uuid \<Rightarrow> unit query" where
  "db_DeleteTagFromTea env tea tg = wrapE ''delete tag from tea'' (q_DeleteTagFromTea env tea tg)"

definition db_ListByTea :: "pg_env \<Rightarrow> uuid \<Rightarrow> Tag list query" where
  "db_ListByTea env i =
     mapE (map tag_of_row) (wrapE ''list tags by tea'' (q_ListTagsByTea env i))"

section \<open>Collections\<close>

definition db_CreateCollection :: "pg_env \<Rightarrow> uuid \<Rightarrow> uuid \<Rightarrow> string \<Rightarrow> uuid query" where
  "db_CreateCollection env fresh userID name =
     mapE k_id (wrapE ''insert collection'' (q_InsertCollection env fresh userID name))"

definition db_AddTeaToCollection :: "pg_env \<Rightarrow> uuid \<Rightarrow> uuid list \<Rightarrow> unit query" where
  "db_AddTeaToCollection env i teas =
     (if teas = [] then returnE ()
      else wrapE ''add qr to collection (batch)'' (q_InsertCollectionItems env i teas))"

definition db_DeleteTeaFromCollection :: "pg_env \<Rightarrow> uuid \<Rightarrow> uuid list \<Rightarrow> unit query" where
  "db_DeleteTeaFromCollection env i teas =
     forE (\<lambda>qrID. wrapE ''delete qr from collection'' (q_DeleteCollectionItem env i qrID)) teas"

definition db_DeleteCollection :: "pg_env \<Rightarrow> uuid \<Rightarrow> uuid \<Rightarrow> unit query" where
  "db_DeleteCollection env i userID = wrapE ''delete collection'' (q_DeleteCollection env i userID)"

definition db_Collections :: "pg_env \<Rightarrow> uuid \<Rightarrow> Collection list query" where
  "db_Collections env userID =
     mapE (map (\<lambda>col. \<lparr>col_ID = k_id col, col_Name = k_name col\<rparr>))
       (wrapE ''list collections'' (q_ListCollections env userID))"

definition db_Collection :: "pg_env \<Rightarrow> uuid \<Rightarrow> uuid \<Rightarrow> Collection query" where
  "db_Collection env i userID =
     mapE (\<lambda>col. \<lparr>col_ID = k_id col, col_Name = k_name col\<rparr>)
       (wrapE ''get collection'' (q_GetCollection env i userID))"

definition record_of_rows :: "qr_row \<times> tea_row \<Rightarrow> CollectionRecord" where
  "record_of_rows row = (case row of (r, t) \<Rightarrow>
     \<lparr>cr_ID = r_id r, cr_Tea = tea_of_row t, cr_BowlingTemp = scast (r_temp r),
      cr_ExpirationDate = r_exp r\<rparr>)"

definition db_CollectionRecords :: "pg_env \<Rightarrow> uuid \<Rightarrow> CollectionRecord list query" where
  "db_CollectionRecords env i =
     mapE (map record_of_rows) (wrapE ''list collection records'' (q_ListCollectionRecords env i))"

section \<open>Devices and notifications\<close>

text \<open>\<open>deviceID.String()\<close> is library code: \<open>show_id\<close>.\<close>

definition db_AddDeviceForUser ::
  "(uuid \<Rightarrow> string) \<Rightarrow> pg_env \<Rightarrow> uuid \<Rightarrow> uuid \<Rightarrow> unit query" where
  "db_AddDeviceForUser show_id env userID deviceID =
     wrapE ''insert device'' (q_InsertDevice env deviceID userID (show_id deviceID))"

definition db_CreateOrUpdateDeviceToken :: "pg_env \<Rightarrow> uuid \<Rightarrow> string \<Rightarrow> unit query" where
  "db_CreateOrUpdateDeviceToken env deviceID deviceToken =
     bindE (wrapE ''update device token'' (q_UpdateDeviceToken env deviceID deviceToken))
       (\<lambda>affected. returnE ())"

definition db_Notifications :: "pg_env \<Rightarrow> uuid \<Rightarrow> Notification list query" where
  "db_Notifications env userID =
     mapE (map (\<lambda>n. \<lparr>notif_UserID = userID, notif_Type = sint (n_type n)\<rparr>))
       (wrapE ''list notifications'' (q_ListNotifications env userID))"

definition db_MapUserIDToDeviceID :: "pg_env \<Rightarrow> uuid \<Rightarrow> string list query" where
  "db_MapUserIDToDeviceID env userID =
     wrapE ''list device tokens'' (q_ListDeviceTokens env userID)"

definition db_GetVersion :: "nat query" where
  "db_GetVersion = returnE 0"

definition db_WriteVersion :: "nat \<Rightarrow> unit query" where
  "db_WriteVersion v = returnE ()"

end
