(* ===== verification/Pg_Adapter_Laws.thy ===== *)
theory Pg_Adapter_Laws
  imports Pg_Adapter
begin

text \<open>
  What the storage adapter promises: what is written is read back (teas, QR records with the
  clamped temperature and the resolution of the server), deleting a category removes exactly
  what it reports, a collection lists all its records, and no method breaks the integrity of
  the database. \<open>no_faults\<close> is the absence of server faults; violated constraints remain
  possible under it.
\<close>

definition no_faults :: "pg_env \<Rightarrow> bool" where
  "no_faults env \<longleftrightarrow> (\<forall>n. \<not> env_fault env n)"

lemma stmt_no_faults [simp]:
  "no_faults env \<Longrightarrow> stmt env body d = body (d\<lparr>db_stmts := Suc (db_stmts d)\<rparr>)"
  by (simp add: no_faults_def stmt_def)

lemma no_faults_env0 [simp]: "no_faults env0"
  by (simp add: no_faults_def env0_def)

text \<open>A statement fails before it is executed or runs its body.\<close>

lemma stmt_cases:
  assumes "stmt env body d = (r, d')"
  shows "r = Inl (DbErr ConnFault) \<and> d' = d\<lparr>db_stmts := Suc (db_stmts d)\<rparr> \<or>
    body (d\<lparr>db_stmts := Suc (db_stmts d)\<rparr>) = (r, d')"
  using assms by (auto simp: stmt_def Let_def split: if_splits)

section \<open>Integrity\<close>

lemma db_ok_select_rows [db_ok_intros]:
  "db_ok env d \<Longrightarrow> db_ok env (snd (stmt env (select_rows f) d))"
  "db_ok env d \<Longrightarrow> db_ok env (snd (stmt env (select_one g) d))"
  by simp_all

lemma db_ok_bindE:
  "db_ok env d \<Longrightarrow> (\<And>d. db_ok env d \<Longrightarrow> db_ok env (snd (m d))) \<Longrightarrow>
     (\<And>x d. db_ok env d \<Longrightarrow> db_ok env (snd (f x d))) \<Longrightarrow> db_ok env (snd (bindE m f d))"
  by (rule snd_bindE_pres)

lemma db_writes_ok [db_ok_intros]:
  assumes "db_ok env d"
  shows "db_ok env (snd (db_GetOrCreateUser env fresh unique d))"
    and "db_ok env (snd (db_WriteRecord env fresh rec d))"
    and "db_ok env (snd (db_Update env i rec d))"
    and "db_ok env (snd (db_Delete env i d))"
    and "db_ok env (snd (db_WriteQR env i data d))"
    and "db_ok env (snd (db_CreateTagCategory env fresh name d))"
    and "db_ok env (snd (db_UpdateTagCategory env i name d))"
    and "db_ok env (snd (db_CreateTag env fresh name color cat d))"
    and "db_ok env (snd (db_UpdateTag env i name color d))"
    and "db_ok env (snd (db_ChangeTagCategory env i cat d))"
    and "db_ok env (snd (db_DeleteTag env i d))"
    and "db_ok env (snd (db_AddTagToTea env tea tg d))"
    and "db_ok env (snd (db_DeleteTagFromTea env tea tg d))"
    and "db_ok env (snd (db_CreateCollection env fresh user name d))"
    and "db_ok env (snd (db_DeleteCollection env i user d))"
    and "db_ok env (snd (db_AddDeviceForUser show_id env user i d))"
  using assms
  by (simp_all add: db_GetOrCreateUser_def db_WriteRecord_def db_Update_def db_Delete_def
      db_WriteQR_def db_CreateTagCategory_def db_UpdateTagCategory_def db_CreateTag_def
      db_UpdateTag_def db_ChangeTagCategory_def db_DeleteTag_def db_AddTagToTea_def
      db_DeleteTagFromTea_def db_CreateCollection_def db_DeleteCollection_def
      db_AddDeviceForUser_def db_ok_intros)

lemma db_DeleteTagCategory_ok [db_ok_intros]:
  "db_ok env d \<Longrightarrow> db_ok env (snd (db_DeleteTagCategory env i d))"
  unfolding db_DeleteTagCategory_def
  by (intro db_ok_bindE) (simp_all add: q_ListTagsByCategory_def db_ok_intros)

lemma db_AddTeaToCollection_ok [db_ok_intros]:
  "db_ok env d \<Longrightarrow> db_ok env (snd (db_AddTeaToCollection env i teas d))"
  by (simp add: db_AddTeaToCollection_def db_ok_intros)

lemma db_DeleteTeaFromCollection_ok [db_ok_intros]:
  "db_ok env d \<Longrightarrow> db_ok env (snd (db_DeleteTeaFromCollection env i teas d))"
  unfolding db_DeleteTeaFromCollection_def
  by (rule forE_pres) (simp_all add: db_ok_intros)

lemma db_CreateOrUpdateDeviceToken_ok [db_ok_intros]:
  "db_ok env d \<Longrightarrow> db_ok env (snd (db_CreateOrUpdateDeviceToken env i token d))"
  unfolding db_CreateOrUpdateDeviceToken_def
  by (intro db_ok_bindE) (simp_all add: db_ok_intros)

section \<open>Teas are read back\<close>

lemma find_snoc_new:
  "i \<notin> k ` set rs \<Longrightarrow> k r = i \<Longrightarrow> find (\<lambda>r. k r = i) (rs @ [r]) = Some r"
  by (induction rs) auto

lemma find_update_where:
  assumes "\<And>r. k (f r) = k r" and "find (\<lambda>r. k r = i) rs = Some r"
  shows "find (\<lambda>r. k r = i) (update_where (\<lambda>r. k r = i) f rs) = Some (f r)"
  using assms by (induction rs) (auto split: if_splits)

lemma tea_type_check_String [simp]: "tea_type_check (BeverageType_String b)"
  unfolding tea_type_check_def by (rule String_valid)

text \<open>
  C14. If neither the statement that writes it nor the one that reads it fails, a tea of one of
  the four types written under a fresh identifier is stored (no declared constraint refuses
  it: only known labels of a type are written), and reading that identifier returns exactly
  its name, type and description. A fault of the first statement is an error that leaves all
  tables as they were. That the server refuses a value, as a string with a NUL byte, is such a
  fault.
\<close>

theorem WriteRecord_ReadRecord:
  assumes "fresh \<notin> t_id ` set (db_teas d)" and "tea_data_ok rec"
    and "\<not> env_fault env (Suc (db_stmts d))"
  shows "if env_fault env (db_stmts d)
    then db_WriteRecord env fresh rec d =
      (Inl (Wrap ''insert tea'' (DbErr ConnFault)), d\<lparr>db_stmts := Suc (db_stmts d)\<rparr>)
    else fst (db_WriteRecord env fresh rec d) = Inr \<lparr>tea_ID = fresh, tea_Data = rec\<rparr> \<and>
      fst (db_ReadRecord env fresh (snd (db_WriteRecord env fresh rec d))) =
        Inr \<lparr>tea_ID = fresh, tea_Data = rec\<rparr>"
proof (cases "env_fault env (db_stmts d)")
  case True
  then show ?thesis
    by (simp add: db_WriteRecord_def mapE_def wrapE_def q_InsertTea_def stmt_fault)
next
  case False
  let ?r = "\<lparr>t_id = fresh, t_name = td_Name rec, t_type = BeverageType_String (td_Type rec),
    t_desc = Some (td_Description rec), t_created = db_clock d\<rparr>"
  have row: "tea_of_row ?r = \<lparr>tea_ID = fresh, tea_Data = rec\<rparr>"
    using assms(2) unfolding tea_data_ok_def
    by (simp add: tea_of_row_def nullableString_def)
  have w: "db_WriteRecord env fresh rec d =
      (Inr (tea_of_row ?r), d\<lparr>db_stmts := Suc (db_stmts d), db_teas := db_teas d @ [?r]\<rparr>)"
    using False assms(1)
    by (simp add: db_WriteRecord_def mapE_def wrapE_def q_InsertTea_def stmt_def Let_def)
  have "find (\<lambda>r. t_id r = fresh) (db_teas d @ [?r]) = Some ?r"
    using assms(1) by (rule find_snoc_new) simp
  then have "fst (db_ReadRecord env fresh (snd (db_WriteRecord env fresh rec d))) = Inr (tea_of_row ?r)"
    using assms(3)
    by (simp add: w db_ReadRecord_def not_found_or_def mapE_def q_GetTea_def select_one_def stmt_def)
  with False w row show ?thesis by simp
qed

theorem WriteRecord_ReadRecord_witness:
  "fst (db_ReadRecord env0 9 (snd (db_WriteRecord env0 9
       \<lparr>td_Name = ''oolong'', td_Type = 0, td_Description = ''dark''\<rparr> db_one_tea)))
     = Inr \<lparr>tea_ID = 9, tea_Data = \<lparr>td_Name = ''oolong'', td_Type = 0, td_Description = ''dark''\<rparr>\<rparr>"
proof -
  have "(9 :: uuid) \<notin> t_id ` set (db_teas db_one_tea)"
    by (simp add: db_one_tea_def q_InsertTea_def empty_db_def tea_type_check_def Let_def)
  then show ?thesis
    using WriteRecord_ReadRecord [of 9 db_one_tea
        "\<lparr>td_Name = ''oolong'', td_Type = 0, td_Description = ''dark''\<rparr>" env0]
    by (simp add: tea_data_ok_def env0_def)
qed

section \<open>QR records are read back\<close>

lemma sint_of_int32:
  "- (2 ^ 31) \<le> k \<Longrightarrow> k < 2 ^ 31 \<Longrightarrow> sint (word_of_int k :: 32 word) = k"
  by (simp add: sint_sbintrunc' signed_take_bit_int_eq_self)

lemma ucast_eq_of_sint: "(ucast (w :: 64 word) :: 32 word) = word_of_int (sint w)"
  by (rule bit_word_eqI) (auto simp: bit_simps)

lemma sint_int32_ends [simp]: "sint MaxInt32 = 2 ^ 31 - 1" "sint MinInt32 = - (2 ^ 31)"
  by (simp_all add: MaxInt32_def MinInt32_def)

lemma sint_clamp_int32:
  "sint (clamp_int32 w) = max (- (2 ^ 31)) (min (2 ^ 31 - 1) (sint w))"
proof -
  have "sint (ucast v :: 32 word) = sint v" if "- (2 ^ 31) \<le> sint v" "sint v < 2 ^ 31"
    for v :: "64 word"
    unfolding ucast_eq_of_sint using that by (rule sint_of_int32)
  from this [of MaxInt32] this [of MinInt32] this [of w] show ?thesis
    by (auto simp: clamp_int32_def word_sless_alt)
qed

lemma sint_scast_32_64 [simp]: "sint (scast (w :: 32 word) :: 64 word) = sint w"
  by (rule sint_up_scast) (simp add: is_up)

definition int32_clamped :: "64 word \<Rightarrow> 64 word" where
  "int32_clamped w = word_of_int (max (- (2 ^ 31)) (min (2 ^ 31 - 1) (sint w)))"

lemma scast_clamp_int32: "scast (clamp_int32 w) = int32_clamped w"
proof -
  have "(scast (clamp_int32 w) :: 64 word) = word_of_int (sint (scast (clamp_int32 w) :: 64 word))"
    by simp
  then show ?thesis by (simp only: sint_scast_32_64 sint_clamp_int32 int32_clamped_def)
qed

text \<open>
  C15. Writing a QR record for an existing tea succeeds, whether the identifier is new or
  already used, and reading it returns the tea, the brewing temperature clamped to the range
  of 32 bits (unchanged when it is in that range) and the expiration date at the resolution
  of the server.
\<close>

theorem WriteQR_ReadQR:
  assumes "no_faults env" and "qr_Tea q \<in> t_id ` set (db_teas d)"
  shows "fst (db_WriteQR env i q d) = Inr () \<and>
    fst (db_ReadQR env i (snd (db_WriteQR env i q d))) =
      Inr \<lparr>qr_Tea = qr_Tea q, qr_BowlingTemp = int32_clamped (qr_BowlingTemp q),
           qr_ExpirationDate = env_round env (qr_ExpirationDate q)\<rparr>"
proof (cases "i \<in> r_id ` set (db_qrs d)")
  case True
  let ?f = "\<lambda>r. r\<lparr>r_tea := qr_Tea q, r_temp := clamp_int32 (qr_BowlingTemp q),
    r_exp := env_round env (qr_ExpirationDate q)\<rparr>"
  from True obtain r where r: "find (\<lambda>r. r_id r = i) (db_qrs d) = Some r"
    by (cases "find (\<lambda>r. r_id r = i) (db_qrs d)") (auto simp: find_eq_None_iff)
  have "find (\<lambda>r. r_id r = i) (update_where (\<lambda>r. r_id r = i) ?f (db_qrs d)) = Some (?f r)"
    using r by (rule find_update_where [rotated]) simp
  with True assms show ?thesis
    by (simp add: db_WriteQR_def wrapE_def q_UpsertQR_def db_ReadQR_def q_GetQR_def
        select_one_def scast_clamp_int32)
next
  case False
  then have "find (\<lambda>r. r_id r = i) (db_qrs d @ [r]) = Some r" if "r_id r = i" for r
    using that by (intro find_snoc_new)
  with False assms show ?thesis
    by (simp add: db_WriteQR_def wrapE_def q_UpsertQR_def db_ReadQR_def q_GetQR_def
        select_one_def scast_clamp_int32)
qed

theorem WriteQR_ReadQR_witness:
  "fst (db_ReadQR env0 3 (snd (db_WriteQR env0 3
     \<lparr>qr_Tea = 7, qr_BowlingTemp = 5000000000, qr_ExpirationDate = 1234567\<rparr> db_one_tea))) =
   Inr \<lparr>qr_Tea = 7, qr_BowlingTemp = 2147483647, qr_ExpirationDate = 1234000\<rparr>"
proof -
  have t: "(7 :: uuid) \<in> t_id ` set (db_teas db_one_tea)"
    by (simp add: db_one_tea_def q_InsertTea_def empty_db_def tea_type_check_def Let_def)
  have "int32_clamped 5000000000 = 2147483647"
    by (simp add: int32_clamped_def)
  then show ?thesis
    using WriteQR_ReadQR [OF no_faults_env0, of
        "\<lparr>qr_Tea = 7, qr_BowlingTemp = 5000000000, qr_ExpirationDate = 1234567\<rparr>" db_one_tea 3] t
    by (simp add: env0_def)
qed

section \<open>Deleting a category\<close>

lemma DeleteTagCategory_run:
  assumes "no_faults env" and "db_ok env d"
  shows "db_DeleteTagCategory env i d =
    (Inr (map g_id (sort_key (\<lambda>r. env_collkey env (g_name r))
        (filter (\<lambda>r. g_cat r = i) (db_tags d)))),
     d\<lparr>db_stmts := db_stmts d + 3,
       db_tags := filter (\<lambda>r. g_cat r \<noteq> i) (db_tags d),
       db_tea_tags := filter (\<lambda>q. snd q \<notin> g_id ` {r \<in> set (db_tags d). g_cat r = i}) (db_tea_tags d),
       db_cats := filter (\<lambda>r. c_id r \<noteq> i) (db_cats d)\<rparr>)"
proof -
  have free: "i \<notin> g_cat ` set (filter (\<lambda>r. g_cat r \<noteq> i) (db_tags d))" by auto
  show ?thesis
    using assms(1) free
    by (simp add: db_DeleteTagCategory_def bindE_def wrapE_def q_ListTagsByCategory_def
        q_DeleteTagsByCategory_def q_DeleteTagCategory_def delete_tags_def Let_def
        numeral_3_eq_3)
qed

text \<open>
  C16. On a consistent database and while no statement fails, deleting a category reports
  exactly the identifiers of the tags that were in it, each once, and the database afterwards
  is the one before without the category, these tags and their links to teas: every other row
  of these three tables and all other tables stay as they were.
\<close>

theorem DeleteTagCategory_exact:
  assumes "no_faults env" and "db_ok env d" and "db_DeleteTagCategory env i d = (res, d')"
  shows "\<exists>removed. res = Inr removed \<and> distinct removed \<and>
    set removed = g_id ` {r \<in> set (db_tags d). g_cat r = i} \<and>
    d' = d\<lparr>db_stmts := db_stmts d + 3,
      db_tags := filter (\<lambda>r. g_cat r \<noteq> i) (db_tags d),
      db_tea_tags := filter (\<lambda>q. snd q \<notin> set removed) (db_tea_tags d),
      db_cats := filter (\<lambda>r. c_id r \<noteq> i) (db_cats d)\<rparr>"
proof -
  have "distinct (map g_id (db_tags d))" using assms(2) by (simp add: db_ok_defs)
  then have "distinct (map g_id (sort_key (\<lambda>r. env_collkey env (g_name r))
      (filter (\<lambda>r. g_cat r = i) (db_tags d))))"
    by (simp add: distinct_map distinct_map_filterI inj_on_def)
  then show ?thesis
    using assms(3) by (auto simp: DeleteTagCategory_run [OF assms(1,2)])
qed

definition db_green_tag :: pgdb where
  "db_green_tag = db_one_tea\<lparr>db_cats := [\<lparr>c_id = 1, c_name = ''color''\<rparr>],
     db_tags := [\<lparr>g_id = 2, g_name = ''green'', g_color = ''g'', g_cat = 1\<rparr>],
     db_tea_tags := [(7, 2)]\<rparr>"

lemma db_one_tea_simps:
  "db_one_tea = empty_db\<lparr>db_teas := [\<lparr>t_id = 7, t_name = ''sencha'', t_type = ''tea'',
      t_desc = None, t_created = 0\<rparr>], db_stmts := 1\<rparr>"
  by (simp add: db_one_tea_def q_InsertTea_def empty_db_def tea_type_check_def Let_def)

lemma db_green_tag_ok: "db_ok env0 db_green_tag"
  by (simp add: db_ok_defs db_green_tag_def db_one_tea_simps empty_db_def tea_type_check_def)

theorem DeleteTagCategory_exact_witness:
  "\<exists>removed. fst (db_DeleteTagCategory env0 1 db_green_tag) = Inr removed \<and> set removed = {2} \<and>
     db_tags (snd (db_DeleteTagCategory env0 1 db_green_tag)) = [] \<and>
     db_teas (snd (db_DeleteTagCategory env0 1 db_green_tag)) = db_teas db_green_tag"
proof -
  obtain res d' where r: "db_DeleteTagCategory env0 1 db_green_tag = (res, d')" by fastforce
  have "g_id ` {r \<in> set (db_tags db_green_tag). g_cat r = 1} = {2}"
    by (force simp: db_green_tag_def)
  moreover have "filter (\<lambda>r. g_cat r \<noteq> 1) (db_tags db_green_tag) = []"
    by (simp add: db_green_tag_def)
  ultimately show ?thesis
    using DeleteTagCategory_exact [OF no_faults_env0 db_green_tag_ok r] r by auto
qed

text \<open>
  C17. The three statements of deleting a category are not one transaction: when the last one
  fails, the method returns an error although every tag of the category is already deleted,
  and the category is still there.
\<close>

theorem DeleteTagCategory_not_atomic:
  assumes "\<not> env_fault env (db_stmts d)" and "\<not> env_fault env (db_stmts d + 1)"
    and "env_fault env (db_stmts d + 2)"
  shows "fst (db_DeleteTagCategory env i d) = Inl (Wrap ''delete category'' (DbErr ConnFault)) \<and>
    db_tags (snd (db_DeleteTagCategory env i d)) = filter (\<lambda>r. g_cat r \<noteq> i) (db_tags d) \<and>
    db_cats (snd (db_DeleteTagCategory env i d)) = db_cats d"
  using assms
  by (simp add: db_DeleteTagCategory_def bindE_def wrapE_def q_ListTagsByCategory_def
      q_DeleteTagsByCategory_def q_DeleteTagCategory_def stmt_def delete_tags_def Let_def)

theorem DeleteTagCategory_not_atomic_witness:
  "let env = env0\<lparr>env_fault := (\<lambda>n. n = 3)\<rparr>; d' = snd (db_DeleteTagCategory env 1 db_green_tag)
   in db_tags d' = [] \<and> map c_name (db_cats d') = [''color'']"
proof -
  let ?env = "env0\<lparr>env_fault := (\<lambda>n. n = 3)\<rparr>"
  have n: "db_stmts db_green_tag = 1" by (simp add: db_green_tag_def db_one_tea_simps)
  show ?thesis
    using DeleteTagCategory_not_atomic [of ?env db_green_tag 1]
    by (simp add: n Let_def) (simp add: db_green_tag_def)
qed

section \<open>The records of a collection\<close>

lemma filter_key_single:
  assumes "distinct (map k rs)" and "i \<in> k ` set rs"
  shows "\<exists>r \<in> set rs. k r = i \<and> filter (\<lambda>r. k r = i) rs = [r]"
  using assms
proof (induction rs)
  case Nil
  then show ?case by simp
next
  case (Cons r rs)
  show ?case
  proof (cases "k r = i")
    case True
    then have "filter (\<lambda>r. k r = i) rs = []"
      using Cons.prems(1) by (auto simp: filter_empty_conv rev_image_eqI)
    with True show ?thesis by simp
  next
    case False
    with Cons show ?thesis by auto
  qed
qed

text \<open>The row of a QR record and of its tea, for the identifier of an item.\<close>

definition the_qr :: "pgdb \<Rightarrow> uuid \<Rightarrow> qr_row" where
  "the_qr d x = hd (filter (\<lambda>r. r_id r = x) (db_qrs d))"

definition the_tea :: "pgdb \<Rightarrow> uuid \<Rightarrow> tea_row" where
  "the_tea d x = hd (filter (\<lambda>t. t_id t = x) (db_teas d))"

lemma join_item:
  assumes "db_ok env d" and "(c, x) \<in> set (db_items d)"
  shows "filter (\<lambda>r. r_id r = x) (db_qrs d) = [the_qr d x]"
    and "filter (\<lambda>t. t_id t = r_tea (the_qr d x)) (db_teas d) = [the_tea d (r_tea (the_qr d x))]"
    and "r_id (the_qr d x) = x" and "the_qr d x \<in> set (db_qrs d)"
    and "the_tea d (r_tea (the_qr d x)) \<in> set (db_teas d)"
    and "t_id (the_tea d (r_tea (the_qr d x))) = r_tea (the_qr d x)"
proof -
  have "distinct (map r_id (db_qrs d))" "x \<in> r_id ` set (db_qrs d)"
    using assms by (auto simp: db_ok_defs)
  from filter_key_single [OF this] obtain r where
    r: "r \<in> set (db_qrs d)" "r_id r = x" "filter (\<lambda>r. r_id r = x) (db_qrs d) = [r]" by blast
  then have q: "the_qr d x = r" by (simp add: the_qr_def)
  have "distinct (map t_id (db_teas d))" "r_tea r \<in> t_id ` set (db_teas d)"
    using assms r(1) by (auto simp: db_ok_defs)
  from filter_key_single [OF this] obtain t where
    t: "t \<in> set (db_teas d)" "t_id t = r_tea r" "filter (\<lambda>t. t_id t = r_tea r) (db_teas d) = [t]"
    by blast
  then have "the_tea d (r_tea r) = t" by (simp add: the_tea_def)
  with q r t show "filter (\<lambda>r. r_id r = x) (db_qrs d) = [the_qr d x]"
    and "filter (\<lambda>t. t_id t = r_tea (the_qr d x)) (db_teas d) = [the_tea d (r_tea (the_qr d x))]"
    and "r_id (the_qr d x) = x" and "the_qr d x \<in> set (db_qrs d)"
    and "the_tea d (r_tea (the_qr d x)) \<in> set (db_teas d)"
    and "t_id (the_tea d (r_tea (the_qr d x))) = r_tea (the_qr d x)"
    by simp_all
qed

definition record_for :: "pgdb \<Rightarrow> uuid \<Rightarrow> CollectionRecord" where
  "record_for d x = record_of_rows (the_qr d x, the_tea d (r_tea (the_qr d x)))"

lemma join_items:
  assumes "db_ok env d"
  shows "concat (map (\<lambda>p. concat (map (\<lambda>r. map (Pair r) (filter (\<lambda>t. t_id t = r_tea r) (db_teas d)))
            (filter (\<lambda>r. r_id r = snd p) (db_qrs d))))
          (filter (\<lambda>p. fst p = c) (db_items d))) =
    map (\<lambda>p. (the_qr d (snd p), the_tea d (r_tea (the_qr d (snd p)))))
      (filter (\<lambda>p. fst p = c) (db_items d))"
proof -
  have "concat (map (\<lambda>p. concat (map (\<lambda>r. map (Pair r) (filter (\<lambda>t. t_id t = r_tea r) (db_teas d)))
            (filter (\<lambda>r. r_id r = snd p) (db_qrs d)))) ps) =
    map (\<lambda>p. (the_qr d (snd p), the_tea d (r_tea (the_qr d (snd p))))) ps"
    if "set ps \<subseteq> set (db_items d)" for ps
    using that
  proof (induction ps)
    case Nil
    then show ?case by simp
  next
    case (Cons p ps)
    then have "(fst p, snd p) \<in> set (db_items d)" by simp
    from join_item(1,2) [OF assms this] Cons show ?case by simp
  qed
  then show ?thesis by simp
qed

lemma sorted_map_key: "sorted (map k (sort_key k xs))"
  by simp

text \<open>
  C18. Listing a collection loses and invents nothing: on a consistent database the two joins
  return one record per item of the collection, ordered by expiration date, each with the
  temperature and date of its QR record and with the tea that QR record refers to.
\<close>

theorem CollectionRecords_complete:
  assumes "no_faults env" and "db_ok env d"
  shows "\<exists>recs. fst (db_CollectionRecords env c d) = Inr recs \<and>
    mset recs = image_mset (record_for d) (mset (map snd (filter (\<lambda>p. fst p = c) (db_items d)))) \<and>
    sorted (map cr_ExpirationDate recs) \<and>
    (\<forall>x. (c, x) \<in> set (db_items d) \<longrightarrow>
       cr_ID (record_for d x) = x \<and> tea_ID (cr_Tea (record_for d x)) = r_tea (the_qr d x))"
proof -
  let ?rows = "map (\<lambda>p. (the_qr d (snd p), the_tea d (r_tea (the_qr d (snd p)))))
    (filter (\<lambda>p. fst p = c) (db_items d))"
  let ?recs = "map record_of_rows (sort_key (\<lambda>(r, t). r_exp r) ?rows)"
  have "fst (db_CollectionRecords env c d) = Inr ?recs"
    using assms(1)
    by (simp add: db_CollectionRecords_def mapE_def wrapE_def q_ListCollectionRecords_def
        join_items [OF assms(2)])
  moreover have "mset ?recs =
      image_mset (record_for d) (mset (map snd (filter (\<lambda>p. fst p = c) (db_items d))))"
    by (simp add: record_for_def image_mset.compositionality comp_def)
  moreover have "map cr_ExpirationDate ?recs = map (\<lambda>(r, t). r_exp r) (sort_key (\<lambda>(r, t). r_exp r) ?rows)"
    by (simp add: record_of_rows_def split_def)
  then have "sorted (map cr_ExpirationDate ?recs)" by (simp only: sorted_map_key)
  moreover have "cr_ID (record_for d x) = x \<and> tea_ID (cr_Tea (record_for d x)) = r_tea (the_qr d x)"
    if "(c, x) \<in> set (db_items d)" for x
    using join_item(3,6) [OF assms(2) that]
    by (simp add: record_for_def record_of_rows_def tea_of_row_def)
  ultimately show ?thesis by blast
qed

definition db_two_records :: pgdb where
  "db_two_records = db_one_tea\<lparr>
     db_users := [\<lparr>u_id = 1, u_apple = ''a'', u_created = 0\<rparr>],
     db_colls := [\<lparr>k_id = 5, k_user = 1, k_name = ''mine'', k_created = 0\<rparr>],
     db_qrs := [\<lparr>r_id = 3, r_tea = 7, r_temp = 90, r_exp = 2000, r_created = 0\<rparr>,
                \<lparr>r_id = 4, r_tea = 7, r_temp = 80, r_exp = 1000, r_created = 0\<rparr>],
     db_items := [(5, 3), (5, 4)]\<rparr>"

lemma db_two_records_ok: "db_ok env0 db_two_records"
  by (simp add: db_ok_defs db_two_records_def db_one_tea_simps empty_db_def tea_type_check_def)

theorem CollectionRecords_complete_witness:
  "\<exists>recs. fst (db_CollectionRecords env0 5 db_two_records) = Inr recs \<and> length recs = 2 \<and>
     sorted (map cr_ExpirationDate recs)"
proof -
  from CollectionRecords_complete [OF no_faults_env0 db_two_records_ok, of 5] obtain recs where
    r: "fst (db_CollectionRecords env0 5 db_two_records) = Inr recs"
      "mset recs = image_mset (record_for db_two_records)
         (mset (map snd (filter (\<lambda>p. fst p = 5) (db_items db_two_records))))"
      "sorted (map cr_ExpirationDate recs)" by blast
  have "length recs = size (mset recs)" by simp
  also have "\<dots> = 2" by (simp only: r(2)) (simp add: db_two_records_def)
  finally show ?thesis using r(1,3) by blast
qed

text \<open>Adding and removing items.\<close>

lemma AddTeaToCollection_run:
  assumes "no_faults env" and "c \<in> k_id ` set (db_colls d)"
  shows "\<exists>n. db_AddTeaToCollection env c xs d =
    (Inr (), d\<lparr>db_stmts := n, db_items :=
       insert_new (db_items d) (map (Pair c) (filter (\<lambda>x. x \<in> r_id ` set (db_qrs d)) xs))\<rparr>)"
proof (cases "xs = []")
  case True
  then show ?thesis
    by (intro exI [of _ "db_stmts d"]) (simp add: db_AddTeaToCollection_def)
next
  case False
  with assms show ?thesis
    by (intro exI [of _ "Suc (db_stmts d)"])
      (simp add: db_AddTeaToCollection_def wrapE_def q_InsertCollectionItems_def Let_def)
qed

lemma DeleteTeaFromCollection_run:
  assumes "no_faults env"
  shows "\<exists>n. db_DeleteTeaFromCollection env c xs d =
    (Inr (), d\<lparr>db_stmts := n, db_items := filter (\<lambda>p. p \<notin> Pair c ` set xs) (db_items d)\<rparr>)"
  unfolding db_DeleteTeaFromCollection_def
proof (induction xs arbitrary: d)
  case Nil
  show ?case by (intro exI [of _ "db_stmts d"]) simp
next
  case (Cons x xs)
  let ?d = "d\<lparr>db_stmts := Suc (db_stmts d), db_items := filter (\<lambda>p. p \<noteq> (c, x)) (db_items d)\<rparr>"
  from Cons [of ?d] obtain n where
    n: "forE (\<lambda>qrID. wrapE ''delete qr from collection'' (q_DeleteCollectionItem env c qrID)) xs ?d =
      (Inr (), ?d\<lparr>db_stmts := n, db_items := filter (\<lambda>p. p \<notin> Pair c ` set xs) (db_items ?d)\<rparr>)"
    by blast
  have "filter (\<lambda>p. p \<notin> Pair c ` set xs) (filter (\<lambda>p. p \<noteq> (c, x)) (db_items d)) =
      filter (\<lambda>p. p \<notin> Pair c ` set (x # xs)) (db_items d)"
    by (auto intro!: filter_cong)
  moreover have "wrapE ''delete qr from collection'' (q_DeleteCollectionItem env c x) d = (Inr (), ?d)"
    using assms by (simp add: q_DeleteCollectionItem_def)
  ultimately show ?case using n by (intro exI [of _ n]) simp
qed

end
