(* ===== verification/Subscribers.thy ===== *)
theory Subscribers
  imports Common_Model
begin

text \<open>
  The subscriber lists: \<open>common/subscribers/generic_subscriber.go\<close> and its six
  typed copies under \<open>internal/managers/tag/subscribers\<close> and
  \<open>internal/managers/tea/subscribers\<close>, which differ in the message type only. A
  subscriber is a context and a channel; \<open>CleanDone\<close> closes the channels of finished
  contexts and compacts the slice in place, from its end; \<open>SendAll\<close> sends on one
  unbuffered channel after the other and waits at each for its receiver. The main lemma:
  the compaction keeps exactly the subscribers whose context is not done.
\<close>

type_synonym chan_id = nat
type_synonym ctx_id = nat

record subscriber =
  sub_ctx :: ctx_id
  sub_ch :: chan_id

section \<open>Buffered channels\<close>

text \<open>
  A channel made with \<open>make(chan T, 100)\<close> is the list of the messages not yet
  received, oldest first. The first 100 are in the buffer; the rest belong to senders that
  wait, in the order they came, and whose \<open>ch <- m\<close> has not returned: a receive takes
  the oldest message and lets the first of them into the buffer.
\<close>

definition defaultChanSize :: nat where
  "defaultChanSize = 100"

definition chan_send :: "'m \<Rightarrow> 'm list \<Rightarrow> 'm list" where
  "chan_send m q = q @ [m]"

text \<open>A call that returned, and one that waits in a send and will then return its value.\<close>

datatype 'r outcome = Returned 'r | Waiting 'r

definition after_send :: "'m list \<Rightarrow> 'r \<Rightarrow> 'r outcome" where
  "after_send q r = (if length q < defaultChanSize then Returned r else Waiting r)"

section \<open>CleanDone\<close>

text \<open>
  \<open>forRemove\<close> collects the indices of the subscribers that are done; the loop runs
  \<open>j\<close> from the last of them down to the first and moves the element at
  \<open>len(subs) - len(forRemove) + j\<close> into the place that becomes free.
\<close>

definition for_remove :: "('s \<Rightarrow> bool) \<Rightarrow> 's list \<Rightarrow> nat list" where
  "for_remove dn subs = filter (\<lambda>i. dn (subs ! i)) [0..<length subs]"

fun swap_down :: "nat \<Rightarrow> nat list \<Rightarrow> 's list \<Rightarrow> 's list" where
  "swap_down 0 fr subs = subs"
| "swap_down (Suc j) fr subs =
     swap_down j fr (subs[fr ! j := subs ! (length subs - length fr + j)])"

definition compact :: "('s \<Rightarrow> bool) \<Rightarrow> 's list \<Rightarrow> 's list" where
  "compact dn subs =
     (let fr = for_remove dn subs
      in take (length subs - length fr) (swap_down (length fr) fr subs))"

text \<open>The new list and the channels that were closed, in the order of closing.\<close>

definition CleanDone ::
  "(ctx_id \<Rightarrow> bool) \<Rightarrow> subscriber list \<Rightarrow> subscriber list \<times> chan_id list" where
  "CleanDone finished subs =
     (compact (\<lambda>s. finished (sub_ctx s)) subs,
      map (\<lambda>i. sub_ch (subs ! i)) (for_remove (\<lambda>s. finished (sub_ctx s)) subs))"

definition Push :: "ctx_id \<Rightarrow> chan_id \<Rightarrow> subscriber list \<Rightarrow> subscriber list" where
  "Push c ch subs = subs @ [\<lparr>sub_ctx = c, sub_ch = ch\<rparr>]"

text \<open>
  \<open>SendAll\<close> with \<open>ready\<close> the channels whose receiver takes the message: the messages
  delivered, in order, and whether the call returned. It does not return when a receiver
  never comes, and then the lock stays held and the later subscribers get nothing.
\<close>

fun SendAll :: "(chan_id \<Rightarrow> bool) \<Rightarrow> subscriber list \<Rightarrow> 'm \<Rightarrow> (chan_id \<times> 'm) list \<times> bool" where
  "SendAll ready [] message = ([], True)"
| "SendAll ready (el # subs) message =
     (if ready (sub_ch el)
      then (case SendAll ready subs message of (out, ret) \<Rightarrow> ((sub_ch el, message) # out, ret))
      else ([], False))"

section \<open>The compaction is a filter\<close>

lemma length_swap_down [simp]: "length (swap_down j fr subs) = length subs"
  by (induction j fr subs rule: swap_down.induct) auto

lemma mset_take_Suc_update:
  assumes "i \<le> L" and "L < length ys"
  shows "add_mset (ys ! i) (mset (take L (ys[i := ys ! L]))) = mset (take (Suc L) ys)"
proof (cases "i = L")
  case True
  with assms show ?thesis by (simp add: take_Suc_conv_app_nth)
next
  case False
  with assms have i: "i < length (take L ys)" by simp
  have "mset (take L (ys[i := ys ! L])) = mset ((take L ys)[i := ys ! L])"
    by (simp add: take_update_swap)
  also have "\<dots> = add_mset (ys ! L) (mset (take L ys) - {#ys ! i#})"
    using i by (simp add: mset_update)
  finally show ?thesis
    using i assms(2) by (simp add: take_Suc_conv_app_nth nth_mem_mset insert_DiffM
        add_mset_commute [of "ys ! i"])
      (metis in_set_conv_nth nth_take length_take insert_DiffM set_mset_mset i)
qed

lemma swap_down_mset:
  assumes "distinct fr" and "j \<le> length fr" and "length fr \<le> length ys"
    and "\<forall>i < length fr. fr ! i \<le> length ys - length fr + i"
  shows "mset (take (length ys - length fr) (swap_down j fr ys)) + mset (map ((!) ys) (take j fr)) =
    mset (take (length ys - length fr + j) ys)"
  using assms
proof (induction j arbitrary: ys)
  case 0
  then show ?case by simp
next
  case (Suc j)
  let ?L = "length ys - length fr + j"
  let ?ys = "ys[fr ! j := ys ! ?L]"
  have L: "?L < length ys" and le: "fr ! j \<le> ?L"
    using Suc.prems by auto
  have same: "map ((!) ?ys) (take j fr) = map ((!) ys) (take j fr)"
  proof (rule map_cong)
    fix x assume "x \<in> set (take j fr)"
    then obtain i where "i < j" "x = fr ! i" using Suc.prems(2) by (auto simp: in_set_conv_nth)
    with Suc.prems(1,2) have "x \<noteq> fr ! j" by (simp add: nth_eq_iff_index_eq)
    then show "?ys ! x = ys ! x" by simp
  qed simp
  have "mset (take (length ys - length fr) (swap_down j fr ?ys)) + mset (map ((!) ys) (take j fr)) =
      mset (take ?L ?ys)"
    using Suc.IH [of ?ys] Suc.prems unfolding same by (simp del: take_update_cancel map_eq_conv)
  moreover have "take (Suc j) fr = take j fr @ [fr ! j]"
    using Suc.prems(2) by (simp add: take_Suc_conv_app_nth)
  moreover have "add_mset (ys ! (fr ! j)) (mset (take ?L ?ys)) = mset (take (Suc ?L) ys)"
    using le L by (rule mset_take_Suc_update)
  ultimately show ?case by simp
qed

lemma filter_upt_bound:
  assumes "i < length (filter P [0..<n])"
  shows "filter P [0..<n] ! i \<le> n - length (filter P [0..<n]) + i"
  using assms
proof (induction n arbitrary: i)
  case 0
  then show ?case by simp
next
  case (Suc n)
  have len: "length (filter P [0..<n]) \<le> n"
    using length_filter_le [of P "[0..<n]"] by simp
  show ?case
  proof (cases "i < length (filter P [0..<n])")
    case True
    with Suc.IH [OF this] len show ?thesis by (auto simp: nth_append)
  next
    case False
    with Suc.prems len show ?thesis by (auto simp: nth_append split: if_splits)
  qed
qed

lemma map_nth_filter_upt: "map ((!) xs) (filter (\<lambda>i. P (xs ! i)) [0..<length xs]) = filter P xs"
  by (metis (no_types, lifting) filter_map comp_apply filter_cong map_nth)

lemma mset_filter_split: "mset (filter (\<lambda>s. \<not> P s) xs) + mset (filter P xs) = mset xs"
  by (induction xs) auto

lemma mset_compact: "mset (compact dn subs) = mset (filter (\<lambda>s. \<not> dn s) subs)"
proof -
  let ?fr = "for_remove dn subs"
  have len: "length ?fr \<le> length subs"
    using length_filter_le [of "\<lambda>i. dn (subs ! i)" "[0..<length subs]"]
    by (simp add: for_remove_def)
  have "\<forall>i < length ?fr. ?fr ! i \<le> length subs - length ?fr + i"
    unfolding for_remove_def using filter_upt_bound by blast
  then have "mset (compact dn subs) + mset (map ((!) subs) ?fr) = mset subs"
    using swap_down_mset [of ?fr "length ?fr" subs] len
    by (simp add: compact_def Let_def) (simp add: for_remove_def)
  moreover have "map ((!) subs) ?fr = filter dn subs"
    unfolding for_remove_def by (rule map_nth_filter_upt)
  ultimately have "mset (compact dn subs) + mset (filter dn subs) = mset subs" by simp
  then show ?thesis using mset_filter_split [of dn subs] by (metis add_right_cancel)
qed

text \<open>
  C19. Compacting the subscriber slice in place, by moving elements from its end into the
  freed places, keeps exactly the subscribers whose context is not done, each as often as it
  was there, and closes exactly the channels of the others, each once and in order.
\<close>

theorem CleanDone_exact:
  "mset (fst (CleanDone finished subs)) = mset (filter (\<lambda>s. \<not> finished (sub_ctx s)) subs) \<and>
   snd (CleanDone finished subs) = map sub_ch (filter (\<lambda>s. finished (sub_ctx s)) subs)"
proof
  show "mset (fst (CleanDone finished subs)) = mset (filter (\<lambda>s. \<not> finished (sub_ctx s)) subs)"
    by (simp add: CleanDone_def mset_compact)
  have "map (\<lambda>i. sub_ch (subs ! i)) (for_remove (\<lambda>s. finished (sub_ctx s)) subs) =
      map sub_ch (map ((!) subs) (for_remove (\<lambda>s. finished (sub_ctx s)) subs))"
    by simp
  moreover have "map ((!) subs) (for_remove (\<lambda>s. finished (sub_ctx s)) subs) =
      filter (\<lambda>s. finished (sub_ctx s)) subs"
    unfolding for_remove_def by (rule map_nth_filter_upt)
  ultimately show "snd (CleanDone finished subs) = map sub_ch (filter (\<lambda>s. finished (sub_ctx s)) subs)"
    by (simp only: CleanDone_def snd_conv)
qed

lemma set_CleanDone [simp]:
  "set (fst (CleanDone finished subs)) = {s \<in> set subs. \<not> finished (sub_ctx s)}"
proof -
  have "set (fst (CleanDone finished subs)) = set_mset (mset (compact (\<lambda>s. finished (sub_ctx s)) subs))"
    by (simp add: CleanDone_def)
  then show ?thesis by (simp only: mset_compact) simp
qed

lemma distinct_CleanDone:
  "distinct (map sub_ch subs) \<Longrightarrow> distinct (map sub_ch (fst (CleanDone finished subs)))"
proof -
  have "mset (map sub_ch (fst (CleanDone finished subs))) =
      mset (map sub_ch (filter (\<lambda>s. \<not> finished (sub_ctx s)) subs))"
    by (simp add: CleanDone_def mset_compact)
  then show "distinct (map sub_ch subs) \<Longrightarrow> ?thesis"
    by (metis distinct_map_filter mset_eq_imp_distinct_iff)
qed

lemma CleanDone_channels:
  "set (map sub_ch (fst (CleanDone finished subs))) \<subseteq> set (map sub_ch subs)"
  by auto

lemma distinct_append3:
  assumes "distinct (a @ b @ c)" and "distinct a'" and "distinct b'" and "distinct c'"
    and "set a' \<subseteq> set a" and "set b' \<subseteq> set b" and "set c' \<subseteq> set c"
  shows "distinct (a' @ b' @ c')"
proof -
  have "set a \<inter> set b = {}" "set a \<inter> set c = {}" "set b \<inter> set c = {}"
    using assms(1) by auto
  then have "set a' \<inter> set b' = {}" "set a' \<inter> set c' = {}" "set b' \<inter> set c' = {}"
    using assms(5-7) by blast+
  then show ?thesis using assms(2-4) by auto
qed

section \<open>Sending\<close>

lemma SendAll_returns_iff: "snd (SendAll ready subs m) \<longleftrightarrow> (\<forall>s \<in> set subs. ready (sub_ch s))"
  by (induction subs) (auto split: prod.splits)

lemma SendAll_delivered:
  "fst (SendAll ready subs m) = map (\<lambda>s. (sub_ch s, m)) (takeWhile (\<lambda>s. ready (sub_ch s)) subs)"
  by (induction subs) (auto split: prod.splits)

lemma SendAll_all:
  "\<forall>s \<in> set subs. ready (sub_ch s) \<Longrightarrow> SendAll ready subs m = (map (\<lambda>s. (sub_ch s, m)) subs, True)"
  by (induction subs) auto

section \<open>The typed copies\<close>

text \<open>
  The files repeat the code above with the message type written out; each list of
  subscribers below runs the operations of one of these files.
\<close>

definition tag_idSubscribers_CleanDone ::
  "(ctx_id \<Rightarrow> bool) \<Rightarrow> subscriber list \<Rightarrow> subscriber list \<times> chan_id list" where
  "tag_idSubscribers_CleanDone = CleanDone"

definition tag_idSubscribers_SendAll ::
  "(chan_id \<Rightarrow> bool) \<Rightarrow> subscriber list \<Rightarrow> uuid \<Rightarrow> (chan_id \<times> uuid) list \<times> bool" where
  "tag_idSubscribers_SendAll = SendAll"

definition tagSubscribers_CleanDone ::
  "(ctx_id \<Rightarrow> bool) \<Rightarrow> subscriber list \<Rightarrow> subscriber list \<times> chan_id list" where
  "tagSubscribers_CleanDone = CleanDone"

definition tagSubscribers_SendAll ::
  "(chan_id \<Rightarrow> bool) \<Rightarrow> subscriber list \<Rightarrow> GTag \<Rightarrow> (chan_id \<times> GTag) list \<times> bool" where
  "tagSubscribers_SendAll = SendAll"

definition tagCategorySubscribers_CleanDone ::
  "(ctx_id \<Rightarrow> bool) \<Rightarrow> subscriber list \<Rightarrow> subscriber list \<times> chan_id list" where
  "tagCategorySubscribers_CleanDone = CleanDone"

definition tagCategorySubscribers_SendAll ::
  "(chan_id \<Rightarrow> bool) \<Rightarrow> subscriber list \<Rightarrow> GTagCategory \<Rightarrow> (chan_id \<times> GTagCategory) list \<times> bool" where
  "tagCategorySubscribers_SendAll = SendAll"

definition tag_teaSubscribers_CleanDone ::
  "(ctx_id \<Rightarrow> bool) \<Rightarrow> subscriber list \<Rightarrow> subscriber list \<times> chan_id list" where
  "tag_teaSubscribers_CleanDone = CleanDone"

definition tag_teaSubscribers_SendAll ::
  "(chan_id \<Rightarrow> bool) \<Rightarrow> subscriber list \<Rightarrow> GTea \<Rightarrow> (chan_id \<times> GTea) list \<times> bool" where
  "tag_teaSubscribers_SendAll = SendAll"

definition tea_idSubscribers_CleanDone ::
  "(ctx_id \<Rightarrow> bool) \<Rightarrow> subscriber list \<Rightarrow> subscriber list \<times> chan_id list" where
  "tea_idSubscribers_CleanDone = CleanDone"

definition tea_idSubscribers_SendAll ::
  "(chan_id \<Rightarrow> bool) \<Rightarrow> subscriber list \<Rightarrow> uuid \<Rightarrow> (chan_id \<times> uuid) list \<times> bool" where
  "tea_idSubscribers_SendAll = SendAll"

definition tea_teaSubscribers_CleanDone ::
  "(ctx_id \<Rightarrow> bool) \<Rightarrow> subscriber list \<Rightarrow> subscriber list \<times> chan_id list" where
  "tea_teaSubscribers_CleanDone = CleanDone"

definition tea_teaSubscribers_SendAll ::
  "(chan_id \<Rightarrow> bool) \<Rightarrow> subscriber list \<Rightarrow> GTea \<Rightarrow> (chan_id \<times> GTea) list \<times> bool" where
  "tea_teaSubscribers_SendAll = SendAll"

lemmas typed_subscribers_defs =
  tag_idSubscribers_CleanDone_def tag_idSubscribers_SendAll_def tagSubscribers_CleanDone_def
  tagSubscribers_SendAll_def tagCategorySubscribers_CleanDone_def
  tagCategorySubscribers_SendAll_def tag_teaSubscribers_CleanDone_def
  tag_teaSubscribers_SendAll_def tea_idSubscribers_CleanDone_def tea_idSubscribers_SendAll_def
  tea_teaSubscribers_CleanDone_def tea_teaSubscribers_SendAll_def

end
