(* ===== verification/Tea_Manager.thy ===== *)
theory Tea_Manager
  imports Pg_Adapter_Laws Subscribers
begin

text \<open>
  The tea manager (\<open>internal/managers/tea\<close>): the operations that write to the storage
  and announce the write on a buffered channel, and the loop that takes the announcements,
  sends them to the subscribers and drops the subscribers whose context is done. The storage
  is the interface \<open>tea_storage\<close>; its laws are the locale \<open>tea_storage_laws\<close>,
  interpreted on the Postgres adapter.
\<close>

section \<open>The storage interface\<close>

text \<open>\<open>ts_WriteRecord\<close> takes the identifier its \<open>uuid.New()\<close> returns.\<close>

record 's tea_storage =
  ts_WriteRecord :: "uuid \<Rightarrow> TeaData \<Rightarrow> ('s, Tea) act"
  ts_ReadRecord :: "uuid \<Rightarrow> ('s, Tea) act"
  ts_ReadAllRecords :: "string \<Rightarrow> ('s, Tea list) act"
  ts_Update :: "uuid \<Rightarrow> TeaData \<Rightarrow> ('s, Tea) act"
  ts_Delete :: "uuid \<Rightarrow> ('s, unit) act"

section \<open>The manager\<close>

record 's tea_manager =
  tm_store :: 's
  tm_createSubscribers :: "subscriber list"
  tm_updateSubscribers :: "subscriber list"
  tm_deleteSubscribers :: "subscriber list"
  tm_create :: "Tea list"
  tm_update :: "Tea list"
  tm_delete :: "uuid list"

definition tea_NewManager :: "'s \<Rightarrow> 's tea_manager" where
  "tea_NewManager s =
     \<lparr>tm_store = s, tm_createSubscribers = [], tm_updateSubscribers = [],
      tm_deleteSubscribers = [], tm_create = [], tm_update = [], tm_delete = []\<rparr>"

definition tea_Create ::
  "'s tea_storage \<Rightarrow> uuid \<Rightarrow> TeaData \<Rightarrow> 's tea_manager \<Rightarrow> (gerr + Tea) outcome \<times> 's tea_manager" where
  "tea_Create st fresh data m =
     (case ts_WriteRecord st fresh data (tm_store m) of
        (Inl err, s) \<Rightarrow> (Returned (Inl err), m\<lparr>tm_store := s\<rparr>)
      | (Inr res, s) \<Rightarrow>
          (after_send (tm_create m) (Inr res),
           m\<lparr>tm_store := s, tm_create := chan_send res (tm_create m)\<rparr>))"

definition tea_Update ::
  "'s tea_storage \<Rightarrow> uuid \<Rightarrow> TeaData \<Rightarrow> 's tea_manager \<Rightarrow> (gerr + Tea) outcome \<times> 's tea_manager" where
  "tea_Update st i rec m =
     (case ts_Update st i rec (tm_store m) of
        (Inl err, s) \<Rightarrow> (Returned (Inl err), m\<lparr>tm_store := s\<rparr>)
      | (Inr res, s) \<Rightarrow>
          (after_send (tm_update m) (Inr res),
           m\<lparr>tm_store := s, tm_update := chan_send res (tm_update m)\<rparr>))"

definition tea_Delete ::
  "'s tea_storage \<Rightarrow> uuid \<Rightarrow> 's tea_manager \<Rightarrow> (gerr + unit) outcome \<times> 's tea_manager" where
  "tea_Delete st i m =
     (case ts_Delete st i (tm_store m) of
        (Inl err, s) \<Rightarrow> (Returned (Inl err), m\<lparr>tm_store := s\<rparr>)
      | (Inr _, s) \<Rightarrow>
          (after_send (tm_delete m) (Inr ()),
           m\<lparr>tm_store := s, tm_delete := chan_send i (tm_delete m)\<rparr>))"

definition tea_Get ::
  "'s tea_storage \<Rightarrow> uuid \<Rightarrow> 's tea_manager \<Rightarrow> (gerr + Tea) \<times> 's tea_manager" where
  "tea_Get st i m =
     (case ts_ReadRecord st i (tm_store m) of (r, s) \<Rightarrow> (r, m\<lparr>tm_store := s\<rparr>))"

definition tea_List ::
  "'s tea_storage \<Rightarrow> string option \<Rightarrow> 's tea_manager \<Rightarrow> (gerr + Tea list) \<times> 's tea_manager" where
  "tea_List st search m =
     (case ts_ReadAllRecords st (case search of None \<Rightarrow> [] | Some s \<Rightarrow> s) (tm_store m) of
        (r, s) \<Rightarrow> (r, m\<lparr>tm_store := s\<rparr>))"

text \<open>The subscriptions: the channel of \<open>make(chan T)\<close> is an argument.\<close>

definition tea_SubscribeOnCreate :: "ctx_id \<Rightarrow> chan_id \<Rightarrow> 's tea_manager \<Rightarrow> 's tea_manager" where
  "tea_SubscribeOnCreate c ch m = m\<lparr>tm_createSubscribers := Push c ch (tm_createSubscribers m)\<rparr>"

definition tea_SubscribeOnUpdate :: "ctx_id \<Rightarrow> chan_id \<Rightarrow> 's tea_manager \<Rightarrow> 's tea_manager" where
  "tea_SubscribeOnUpdate c ch m = m\<lparr>tm_updateSubscribers := Push c ch (tm_updateSubscribers m)\<rparr>"

definition tea_SubscribeOnDelete :: "ctx_id \<Rightarrow> chan_id \<Rightarrow> 's tea_manager \<Rightarrow> 's tea_manager" where
  "tea_SubscribeOnDelete c ch m = m\<lparr>tm_deleteSubscribers := Push c ch (tm_deleteSubscribers m)\<rparr>"

section \<open>The loop\<close>

text \<open>
  One turn of \<open>loop\<close>: \<open>select\<close> takes a message of one of the channels that have
  one (the argument; \<open>None\<close> when it has none, where \<open>select\<close> would not choose it),
  \<open>SendAll\<close> hands it to the subscribers, and \<open>CleanDone\<close> runs on the three lists.
  When \<open>SendAll\<close> does not return (\<open>False\<close>), nothing after it is executed.
\<close>

datatype tea_case = CaseCreate | CaseUpdate | CaseDelete

datatype tea_message = MsgTea GTea | MsgID uuid

definition tea_clean :: "(ctx_id \<Rightarrow> bool) \<Rightarrow> 's tea_manager \<Rightarrow> 's tea_manager" where
  "tea_clean finished m =
     m\<lparr>tm_createSubscribers := fst (tea_teaSubscribers_CleanDone finished (tm_createSubscribers m)),
       tm_updateSubscribers := fst (tea_teaSubscribers_CleanDone finished (tm_updateSubscribers m)),
       tm_deleteSubscribers := fst (tea_idSubscribers_CleanDone finished (tm_deleteSubscribers m))\<rparr>"

definition loop_turn ::
  "(chan_id \<times> 'm) list \<times> bool \<Rightarrow> ('m \<Rightarrow> 'n) \<Rightarrow> ('k \<Rightarrow> 'k) \<Rightarrow> 'k \<Rightarrow> (chan_id \<times> 'n) list \<times> bool \<times> 'k" where
  "loop_turn sent wrap clean m =
     (map (\<lambda>(ch, x). (ch, wrap x)) (fst sent), snd sent, if snd sent then clean m else m)"

fun tea_loop ::
  "(chan_id \<Rightarrow> bool) \<Rightarrow> (ctx_id \<Rightarrow> bool) \<Rightarrow> tea_case \<Rightarrow> 's tea_manager \<Rightarrow>
     ((chan_id \<times> tea_message) list \<times> bool \<times> 's tea_manager) option" where
  "tea_loop ready finished CaseCreate m =
     (case tm_create m of
        [] \<Rightarrow> None
      | tea # q \<Rightarrow> Some (loop_turn
          (tea_teaSubscribers_SendAll ready (tm_createSubscribers m) (FromCommonTea tea))
          MsgTea (tea_clean finished) (m\<lparr>tm_create := q\<rparr>)))"
| "tea_loop ready finished CaseUpdate m =
     (case tm_update m of
        [] \<Rightarrow> None
      | tea # q \<Rightarrow> Some (loop_turn
          (tea_teaSubscribers_SendAll ready (tm_updateSubscribers m) (FromCommonTea tea))
          MsgTea (tea_clean finished) (m\<lparr>tm_update := q\<rparr>)))"
| "tea_loop ready finished CaseDelete m =
     (case tm_delete m of
        [] \<Rightarrow> None
      | i # q \<Rightarrow> Some (loop_turn
          (tea_idSubscribers_SendAll ready (tm_deleteSubscribers m) i)
          MsgID (tea_clean finished) (m\<lparr>tm_delete := q\<rparr>)))"

section \<open>The running system\<close>

text \<open>
  The callers run concurrently with each other and with the loop: a write to the storage and
  the send that announces it are two steps, and other callers may come between them.
  \<open>ty_inflight\<close> holds the announcements of the writes whose caller has not sent yet.

  The loop is interleaved with them too (\<open>ty_loop\<close>): it waits in its \<open>select\<close>; it is in
  \<open>SendAll\<close> with the subscribers it has still to serve; or it cleans the lists that are left to
  clean. Each delivery on the unbuffered channel of a subscriber is a step of its own, which
  happens when the receiver comes; \<open>ty_gone\<close> are the channels whose receiver never comes
  again. While \<open>SendAll\<close> runs it holds the read lock of its list, so \<open>Push\<close> on that list waits:
  the steps that subscribe to it are not enabled.

  The last three fields record the run: the writes in the order the storage executed them, the
  announcements the loop took, and the messages the subscribers received.
\<close>

datatype tea_event = ECreate Tea | EUpdate Tea | EDelete uuid

datatype tea_call = CallCreate uuid TeaData | CallUpdate uuid TeaData | CallDelete uuid

fun tea_write :: "'s tea_storage \<Rightarrow> tea_call \<Rightarrow> ('s, tea_event) act" where
  "tea_write st (CallCreate fresh data) = mapE ECreate (ts_WriteRecord st fresh data)"
| "tea_write st (CallUpdate i rec) = mapE EUpdate (ts_Update st i rec)"
| "tea_write st (CallDelete i) = mapE (\<lambda>_. EDelete i) (ts_Delete st i)"

fun tea_announce :: "tea_event \<Rightarrow> 's tea_manager \<Rightarrow> 's tea_manager" where
  "tea_announce (ECreate t) m = m\<lparr>tm_create := chan_send t (tm_create m)\<rparr>"
| "tea_announce (EUpdate t) m = m\<lparr>tm_update := chan_send t (tm_update m)\<rparr>"
| "tea_announce (EDelete i) m = m\<lparr>tm_delete := chan_send i (tm_delete m)\<rparr>"

fun tea_head :: "tea_case \<Rightarrow> 's tea_manager \<Rightarrow> tea_event" where
  "tea_head CaseCreate m = ECreate (hd (tm_create m))"
| "tea_head CaseUpdate m = EUpdate (hd (tm_update m))"
| "tea_head CaseDelete m = EDelete (hd (tm_delete m))"

fun tm_subscribers :: "tea_case \<Rightarrow> 's tea_manager \<Rightarrow> subscriber list" where
  "tm_subscribers CaseCreate m = tm_createSubscribers m"
| "tm_subscribers CaseUpdate m = tm_updateSubscribers m"
| "tm_subscribers CaseDelete m = tm_deleteSubscribers m"

text \<open>What the receive of a case gives, and \<open>CleanDone\<close> of the list of a case.\<close>

fun tea_receive :: "tea_case \<Rightarrow> 's tea_manager \<Rightarrow> (tea_message \<times> 's tea_manager) option" where
  "tea_receive CaseCreate m =
     (case tm_create m of [] \<Rightarrow> None | tea # q \<Rightarrow> Some (MsgTea (FromCommonTea tea), m\<lparr>tm_create := q\<rparr>))"
| "tea_receive CaseUpdate m =
     (case tm_update m of [] \<Rightarrow> None | tea # q \<Rightarrow> Some (MsgTea (FromCommonTea tea), m\<lparr>tm_update := q\<rparr>))"
| "tea_receive CaseDelete m =
     (case tm_delete m of [] \<Rightarrow> None | i # q \<Rightarrow> Some (MsgID i, m\<lparr>tm_delete := q\<rparr>))"

fun tea_CleanDone :: "tea_case \<Rightarrow> (ctx_id \<Rightarrow> bool) \<Rightarrow> 's tea_manager \<Rightarrow> 's tea_manager" where
  "tea_CleanDone CaseCreate finished m = m\<lparr>tm_createSubscribers :=
     fst (tea_teaSubscribers_CleanDone finished (tm_createSubscribers m))\<rparr>"
| "tea_CleanDone CaseUpdate finished m = m\<lparr>tm_updateSubscribers :=
     fst (tea_teaSubscribers_CleanDone finished (tm_updateSubscribers m))\<rparr>"
| "tea_CleanDone CaseDelete finished m = m\<lparr>tm_deleteSubscribers :=
     fst (tea_idSubscribers_CleanDone finished (tm_deleteSubscribers m))\<rparr>"

datatype loop_state = Selecting | Sending tea_case tea_message "subscriber list" | Cleaning "tea_case list"

fun sends_to :: "loop_state \<Rightarrow> tea_case \<Rightarrow> bool" where
  "sends_to (Sending k msg subs) j = (j = k)"
| "sends_to _ j = False"

fun after_clean :: "tea_case list \<Rightarrow> loop_state" where
  "after_clean [] = Selecting"
| "after_clean ks = Cleaning ks"

record 's tea_system =
  ty_mgr :: "'s tea_manager"
  ty_finished :: "ctx_id list"
  ty_gone :: "chan_id list"
  ty_loop :: loop_state
  ty_inflight :: "tea_event list"
  ty_committed :: "tea_event list"
  ty_taken :: "tea_event list"
  ty_out :: "(chan_id \<times> tea_message) list"

definition tea_channels :: "'s tea_manager \<Rightarrow> chan_id list" where
  "tea_channels m = map sub_ch (tm_createSubscribers m) @ map sub_ch (tm_updateSubscribers m) @
     map sub_ch (tm_deleteSubscribers m)"

definition fresh_chan :: "chan_id \<Rightarrow> 's tea_system \<Rightarrow> bool" where
  "fresh_chan ch y \<longleftrightarrow> ch \<notin> set (tea_channels (ty_mgr y)) \<and> ch \<notin> fst ` set (ty_out y) \<and> ch \<notin> set (ty_gone y)"

inductive tea_step :: "'s tea_storage \<Rightarrow> 's tea_system \<Rightarrow> 's tea_system \<Rightarrow> bool"
  for st :: "'s tea_storage" where
  wrote: "tea_write st call (tm_store (ty_mgr y)) = (Inr ev, s) \<Longrightarrow>
    tea_step st y (y\<lparr>ty_mgr := ty_mgr y\<lparr>tm_store := s\<rparr>,
      ty_inflight := ty_inflight y @ [ev], ty_committed := ty_committed y @ [ev]\<rparr>)"
| failed: "tea_write st call (tm_store (ty_mgr y)) = (Inl err, s) \<Longrightarrow>
    tea_step st y (y\<lparr>ty_mgr := ty_mgr y\<lparr>tm_store := s\<rparr>\<rparr>)"
| send: "ty_inflight y = evs @ ev # evs' \<Longrightarrow>
    tea_step st y (y\<lparr>ty_mgr := tea_announce ev (ty_mgr y), ty_inflight := evs @ evs'\<rparr>)"
| get: "tea_step st y (y\<lparr>ty_mgr := snd (tea_Get st i (ty_mgr y))\<rparr>)"
| listing: "tea_step st y (y\<lparr>ty_mgr := snd (tea_List st search (ty_mgr y))\<rparr>)"
| select: "ty_loop y = Selecting \<Longrightarrow> tea_receive k (ty_mgr y) = Some (msg, m) \<Longrightarrow>
    tea_step st y (y\<lparr>ty_mgr := m, ty_loop := Sending k msg (tm_subscribers k m),
      ty_taken := ty_taken y @ [tea_head k (ty_mgr y)]\<rparr>)"
| deliver: "ty_loop y = Sending k msg (s # subs) \<Longrightarrow> sub_ch s \<notin> set (ty_gone y) \<Longrightarrow>
    tea_step st y (y\<lparr>ty_loop := Sending k msg subs, ty_out := ty_out y @ [(sub_ch s, msg)]\<rparr>)"
| sent: "ty_loop y = Sending k msg [] \<Longrightarrow>
    tea_step st y (y\<lparr>ty_loop := Cleaning [CaseCreate, CaseUpdate, CaseDelete]\<rparr>)"
| clean: "ty_loop y = Cleaning (k # ks) \<Longrightarrow>
    tea_step st y (y\<lparr>ty_mgr := tea_CleanDone k (\<lambda>c. c \<in> set (ty_finished y)) (ty_mgr y),
      ty_loop := after_clean ks\<rparr>)"
| sub_create: "fresh_chan ch y \<Longrightarrow> \<not> sends_to (ty_loop y) CaseCreate \<Longrightarrow>
    tea_step st y (y\<lparr>ty_mgr := tea_SubscribeOnCreate c ch (ty_mgr y)\<rparr>)"
| sub_update: "fresh_chan ch y \<Longrightarrow> \<not> sends_to (ty_loop y) CaseUpdate \<Longrightarrow>
    tea_step st y (y\<lparr>ty_mgr := tea_SubscribeOnUpdate c ch (ty_mgr y)\<rparr>)"
| sub_delete: "fresh_chan ch y \<Longrightarrow> \<not> sends_to (ty_loop y) CaseDelete \<Longrightarrow>
    tea_step st y (y\<lparr>ty_mgr := tea_SubscribeOnDelete c ch (ty_mgr y)\<rparr>)"
| cancel: "tea_step st y (y\<lparr>ty_finished := c # ty_finished y\<rparr>)"
| leave: "tea_step st y (y\<lparr>ty_gone := ch # ty_gone y\<rparr>)"

definition tea_start :: "'s \<Rightarrow> 's tea_system" where
  "tea_start s = \<lparr>ty_mgr = tea_NewManager s, ty_finished = [], ty_gone = [], ty_loop = Selecting,
     ty_inflight = [], ty_committed = [], ty_taken = [], ty_out = []\<rparr>"

text \<open>A whole call is its write followed at once by its send.\<close>

lemma tea_Create_steps:
  "snd (tea_Create st fresh data m) =
     (case tea_write st (CallCreate fresh data) (tm_store m) of
        (Inl err, s) \<Rightarrow> m\<lparr>tm_store := s\<rparr> | (Inr ev, s) \<Rightarrow> tea_announce ev (m\<lparr>tm_store := s\<rparr>))"
  by (simp add: tea_Create_def mapE_def split: prod.splits sum.splits)

lemma tea_Update_steps:
  "snd (tea_Update st i rec m) =
     (case tea_write st (CallUpdate i rec) (tm_store m) of
        (Inl err, s) \<Rightarrow> m\<lparr>tm_store := s\<rparr> | (Inr ev, s) \<Rightarrow> tea_announce ev (m\<lparr>tm_store := s\<rparr>))"
  by (simp add: tea_Update_def mapE_def split: prod.splits sum.splits)

lemma tea_Delete_steps:
  "snd (tea_Delete st i m) =
     (case tea_write st (CallDelete i) (tm_store m) of
        (Inl err, s) \<Rightarrow> m\<lparr>tm_store := s\<rparr> | (Inr ev, s) \<Rightarrow> tea_announce ev (m\<lparr>tm_store := s\<rparr>))"
  by (simp add: tea_Delete_def mapE_def split: prod.splits sum.splits)

section \<open>What the storage promises\<close>

fun apply_event :: "tea_event \<Rightarrow> (uuid \<Rightarrow> TeaData option) \<Rightarrow> uuid \<Rightarrow> TeaData option" where
  "apply_event (ECreate t) c = c(tea_ID t \<mapsto> tea_Data t)"
| "apply_event (EUpdate t) c = c(tea_ID t \<mapsto> tea_Data t)"
| "apply_event (EDelete i) c = c(i := None)"

definition replay :: "tea_event list \<Rightarrow> (uuid \<Rightarrow> TeaData option) \<Rightarrow> uuid \<Rightarrow> TeaData option" where
  "replay evs c = fold apply_event evs c"

lemma replay_simps [simp]:
  "replay [] c = c"
  "replay (evs @ [ev]) c = apply_event ev (replay evs c)"
  by (simp_all add: replay_def)

definition tea_queued :: "'s tea_manager \<Rightarrow> tea_event list" where
  "tea_queued m = map ECreate (tm_create m) @ map EUpdate (tm_update m) @ map EDelete (tm_delete m)"

lemma mset_tea_queued_announce:
  "mset (tea_queued (tea_announce ev m)) = add_mset ev (mset (tea_queued m))"
  by (cases ev) (simp_all add: tea_queued_def chan_send_def)

lemma tm_store_announce [simp]: "tm_store (tea_announce ev m) = tm_store m"
  by (cases ev) simp_all

lemma tea_clean_fields [simp]:
  "tm_store (tea_clean fin m) = tm_store m"
  "tea_queued (tea_clean fin m) = tea_queued m"
  by (simp_all add: tea_clean_def tea_queued_def)

lemma tea_CleanDone_fields [simp]:
  "tm_store (tea_CleanDone k fin m) = tm_store m"
  "tea_queued (tea_CleanDone k fin m) = tea_queued m"
  by (cases k; simp add: tea_queued_def)+

lemma tea_loop_queued:
  assumes "tea_loop ready fin k m = Some (out, ret, m')"
  shows "mset (tea_queued m) = add_mset (tea_head k m) (mset (tea_queued m'))"
    and "tm_store m' = tm_store m"
  using assms
  by (cases k; auto simp: loop_turn_def tea_queued_def tea_clean_def split: list.splits if_splits)+

lemma tea_receive_queued:
  assumes "tea_receive k m = Some (msg, m')"
  shows "mset (tea_queued m) = add_mset (tea_head k m) (mset (tea_queued m'))"
    and "tm_store m' = tm_store m" and "tm_subscribers j m' = tm_subscribers j m"
  using assms by (cases k; cases j; auto simp: tea_queued_def split: list.splits)+

lemma tea_reads_fields [simp]:
  "tea_queued (snd (tea_Get st i m)) = tea_queued m"
  "tea_queued (snd (tea_List st search m)) = tea_queued m"
  "tm_store (snd (tea_Get st i m)) = snd (ts_ReadRecord st i (tm_store m))"
  "tm_store (snd (tea_List st search m)) =
     snd (ts_ReadAllRecords st (case search of None \<Rightarrow> [] | Some s \<Rightarrow> s) (tm_store m))"
  by (simp_all add: tea_Get_def tea_List_def tea_queued_def split: prod.splits)

lemma tea_subscribe_fields [simp]:
  "tea_queued (tea_SubscribeOnCreate c ch m) = tea_queued m"
  "tea_queued (tea_SubscribeOnUpdate c ch m) = tea_queued m"
  "tea_queued (tea_SubscribeOnDelete c ch m) = tea_queued m"
  "tm_store (tea_SubscribeOnCreate c ch m) = tm_store m"
  "tm_store (tea_SubscribeOnUpdate c ch m) = tm_store m"
  "tm_store (tea_SubscribeOnDelete c ch m) = tm_store m"
  by (simp_all add: tea_SubscribeOnCreate_def tea_SubscribeOnUpdate_def
      tea_SubscribeOnDelete_def tea_queued_def)

lemma tea_queued_store [simp]: "tea_queued (m\<lparr>tm_store := s\<rparr>) = tea_queued m"
  by (simp add: tea_queued_def)

text \<open>
  Every write is announced once: the committed writes are those in flight, those queued and
  those taken by the loop. This holds over any storage.
\<close>

definition tea_accounted :: "'s tea_system \<Rightarrow> bool" where
  "tea_accounted y \<longleftrightarrow>
     mset (ty_committed y) =
       mset (ty_inflight y) + mset (tea_queued (ty_mgr y)) + mset (ty_taken y)"

lemma tea_step_accounted: "tea_step st y z \<Longrightarrow> tea_accounted y \<Longrightarrow> tea_accounted z"
proof (induction rule: tea_step.induct)
  case (select y k msg m)
  then show ?case
    using tea_receive_queued(1) [OF select.hyps(2)] by (simp add: tea_accounted_def)
qed (simp_all add: tea_accounted_def mset_tea_queued_announce)

lemma tea_start_accounted: "tea_accounted (tea_start s)"
  by (simp add: tea_accounted_def tea_start_def tea_NewManager_def tea_queued_def)

text \<open>
  The laws of the interface: an invariant, the contents as a finite map, and for each
  operation its effect on the contents, on success and on failure.
\<close>

locale tea_storage_laws =
  fixes st :: "'s tea_storage"
    and invar :: "'s \<Rightarrow> bool"
    and contents :: "'s \<Rightarrow> uuid \<Rightarrow> TeaData option"
  assumes invar_kept: "invar s \<Longrightarrow>
      invar (snd (ts_WriteRecord st i rec s)) \<and> invar (snd (ts_Update st i rec s)) \<and>
      invar (snd (ts_Delete st i s)) \<and> invar (snd (ts_ReadRecord st i s)) \<and>
      invar (snd (ts_ReadAllRecords st name s))"
    and write_ok: "invar s \<Longrightarrow> ts_WriteRecord st i rec s = (Inr t, s') \<Longrightarrow>
      i \<notin> dom (contents s) \<and> tea_ID t = i \<and> contents s' = (contents s)(i \<mapsto> tea_Data t)"
    and update_ok: "invar s \<Longrightarrow> ts_Update st i rec s = (Inr t, s') \<Longrightarrow>
      i \<in> dom (contents s) \<and> tea_ID t = i \<and> contents s' = (contents s)(i \<mapsto> tea_Data t)"
    and stored: "tea_data_ok rec \<Longrightarrow> invar s \<Longrightarrow>
      (ts_WriteRecord st i rec s = (Inr t, s') \<longrightarrow> tea_Data t = rec) \<and>
      (ts_Update st i rec s = (Inr t, s') \<longrightarrow> tea_Data t = rec)"
    and delete_ok: "invar s \<Longrightarrow> ts_Delete st i s = (Inr (), s') \<Longrightarrow>
      contents s' = (contents s)(i := None)"
    and read_ok: "invar s \<Longrightarrow> ts_ReadRecord st i s = (Inr t, s') \<Longrightarrow>
      tea_ID t = i \<and> contents s i = Some (tea_Data t)"
    and reads_only: "contents (snd (ts_ReadRecord st i s)) = contents s \<and>
      contents (snd (ts_ReadAllRecords st name s)) = contents s"
    and failed_write: "invar s \<Longrightarrow> ts_WriteRecord st i rec s = (Inl e, s') \<Longrightarrow> contents s' = contents s"
    and failed_update: "invar s \<Longrightarrow> ts_Update st i rec s = (Inl e, s') \<Longrightarrow> contents s' = contents s"
    and failed_delete: "invar s \<Longrightarrow> ts_Delete st i s = (Inl e, s') \<Longrightarrow> contents s' = contents s"
begin

lemma write_effect:
  assumes "invar s" and "tea_write st call s = (r, s')"
  shows "invar s' \<and> contents s' = (case r of Inl _ \<Rightarrow> contents s | Inr ev \<Rightarrow> apply_event ev (contents s))"
proof (cases call)
  case (CallCreate i rec)
  obtain r0 where r0: "ts_WriteRecord st i rec s = (r0, s')"
    using assms(2) CallCreate by (auto simp: mapE_def split: prod.splits sum.splits)
  with CallCreate assms(2) show ?thesis
    using invar_kept [OF assms(1), of i rec] write_ok [OF assms(1), of i rec]
      failed_write [OF assms(1), of i rec]
    by (cases r0) (auto simp: mapE_def)
next
  case (CallUpdate i rec)
  obtain r0 where r0: "ts_Update st i rec s = (r0, s')"
    using assms(2) CallUpdate by (auto simp: mapE_def split: prod.splits sum.splits)
  with CallUpdate assms(2) show ?thesis
    using invar_kept [OF assms(1), of i rec] update_ok [OF assms(1), of i rec]
      failed_update [OF assms(1), of i rec]
    by (cases r0) (auto simp: mapE_def)
next
  case (CallDelete i)
  obtain r0 where r0: "ts_Delete st i s = (r0, s')"
    using assms(2) CallDelete by (auto simp: mapE_def split: prod.splits sum.splits)
  with CallDelete assms(2) show ?thesis
    using invar_kept [OF assms(1), of i] delete_ok [OF assms(1), of i]
      failed_delete [OF assms(1), of i]
    by (cases r0) (auto simp: mapE_def)
qed

definition in_step :: "'s \<Rightarrow> 's tea_system \<Rightarrow> bool" where
  "in_step s0 y \<longleftrightarrow> invar (tm_store (ty_mgr y)) \<and>
     contents (tm_store (ty_mgr y)) = replay (ty_committed y) (contents s0)"

lemma step_in_step: "tea_step st y z \<Longrightarrow> in_step s0 y \<Longrightarrow> in_step s0 z"
proof (induction rule: tea_step.induct)
  case (wrote call y ev s)
  then show ?case using write_effect [OF _ wrote.hyps] by (auto simp: in_step_def)
next
  case (failed call y err s)
  then show ?case using write_effect [OF _ failed.hyps] by (auto simp: in_step_def)
next
  case (select y k msg m)
  then show ?case using tea_receive_queued(2) [OF select.hyps(2)] by (simp add: in_step_def)
qed (simp_all add: in_step_def invar_kept reads_only)

lemma reachable_in_step:
  assumes "(tea_step st)\<^sup>*\<^sup>* (tea_start s0) y" and "invar s0"
  shows "in_step s0 y \<and> tea_accounted y"
  using assms(1)
proof (induction rule: rtranclp_induct)
  case base
  then show ?case
    using assms(2) by (simp add: tea_start_accounted) (simp add: in_step_def tea_start_def tea_NewManager_def)
next
  case (step y z)
  then show ?case using step_in_step tea_step_accounted by blast
qed

end

section \<open>The Postgres adapter keeps the promises\<close>

definition pg_tea_storage :: "pg_env \<Rightarrow> pgdb tea_storage" where
  "pg_tea_storage env =
     \<lparr>ts_WriteRecord = db_WriteRecord env, ts_ReadRecord = db_ReadRecord env,
      ts_ReadAllRecords = db_ReadAllRecords env, ts_Update = db_Update env,
      ts_Delete = db_Delete env\<rparr>"

text \<open>The teas of a database, as the map the API shows.\<close>

definition row_entry :: "tea_row \<Rightarrow> uuid \<times> TeaData" where
  "row_entry r = (t_id r, tea_Data (tea_of_row r))"

definition pg_teas :: "pgdb \<Rightarrow> uuid \<Rightarrow> TeaData option" where
  "pg_teas d = map_of (map row_entry (db_teas d))"

lemma fst_row_entry [simp]: "fst (row_entry r) = t_id r"
  by (simp add: row_entry_def)

lemma pg_teas_stmts [simp]: "pg_teas (d\<lparr>db_stmts := n\<rparr>) = pg_teas d"
  by (simp add: pg_teas_def)

lemma map_of_snoc_new: "fst p \<notin> fst ` set xs \<Longrightarrow> map_of (xs @ [p]) = (map_of xs)(fst p \<mapsto> snd p)"
  by (induction xs) (auto simp: fun_eq_iff)

lemma map_of_update_rows:
  assumes "\<And>r. k (f r) = k r" and "find (\<lambda>r. k r = i) rs = Some r"
    and "distinct (map k rs)"
  shows "map_of (map (\<lambda>r. (k r, v r)) (update_where (\<lambda>r. k r = i) f rs)) =
    (map_of (map (\<lambda>r. (k r, v r)) rs))(i \<mapsto> v (f r))"
  using assms(2,3)
proof (induction rs)
  case Nil
  then show ?case by simp
next
  case (Cons x xs)
  show ?case
  proof (cases "k x = i")
    case True
    with Cons.prems have "\<forall>r \<in> set xs. k r \<noteq> i" by (auto simp: image_iff)
    then have "update_where (\<lambda>r. k r = i) f xs = xs"
      by (auto simp: update_where_def intro: map_idI)
    with True Cons.prems assms(1) show ?thesis by (simp add: fun_eq_iff)
  next
    case False
    with Cons show ?thesis by (auto simp: fun_eq_iff)
  qed
qed

lemma map_of_filter_key:
  "map_of (map (\<lambda>r. (k r, v r)) (filter (\<lambda>r. k r \<noteq> i) rs)) = (map_of (map (\<lambda>r. (k r, v r)) rs))(i := None)"
  by (induction rs) (auto simp: fun_eq_iff)

lemma row_entry_eta: "row_entry = (\<lambda>r. (t_id r, tea_Data (tea_of_row r)))"
  by (simp add: row_entry_def fun_eq_iff)

lemma tea_ID_of_row [simp]: "tea_ID (tea_of_row r) = t_id r"
  by (simp add: tea_of_row_def)

lemma dom_pg_teas: "dom (pg_teas d) = t_id ` set (db_teas d)"
  by (simp add: pg_teas_def dom_map_of_conv_image_fst image_image)

lemma stmt_teas:
  assumes "stmt env body d = (r, d')"
    and "\<And>d1. db_teas d1 = db_teas d \<Longrightarrow> body d1 = (r, d') \<Longrightarrow> P r d'"
    and "\<And>d1. db_teas d1 = db_teas d \<Longrightarrow> P (Inl (DbErr ConnFault)) d1"
  shows "P r d'"
proof (cases "env_fault env (db_stmts d)")
  case True
  with assms(1) have "r = Inl (DbErr ConnFault)" "d' = d\<lparr>db_stmts := Suc (db_stmts d)\<rparr>"
    by (simp_all add: stmt_def Let_def)
  then show ?thesis using assms(3) [of d'] by simp
next
  case False
  with assms(1) have "body (d\<lparr>db_stmts := Suc (db_stmts d)\<rparr>) = (r, d')" by (simp add: stmt_def Let_def)
  then show ?thesis by (rule assms(2) [rotated]) simp
qed

text \<open>What each query on teas does to them.\<close>

lemma q_InsertTea_effect:
  "q_InsertTea env arg d = (r, d') \<Longrightarrow>
     (case r of
        Inl e \<Rightarrow> db_teas d' = db_teas d
      | Inr row \<Rightarrow> t_id row = tp_ID arg \<and> t_name row = tp_Name arg \<and> t_type row = tp_Type arg \<and>
          t_desc row = tp_Description arg \<and> tp_ID arg \<notin> t_id ` set (db_teas d) \<and>
          db_teas d' = db_teas d @ [row])"
  unfolding q_InsertTea_def
  by (erule stmt_teas) (auto simp: Let_def split: if_splits)

lemma q_UpdateTea_effect:
  "q_UpdateTea env arg d = (r, d') \<Longrightarrow>
     (case r of
        Inl e \<Rightarrow> db_teas d' = db_teas d
      | Inr row \<Rightarrow> \<exists>old f. find (\<lambda>r. t_id r = tp_ID arg) (db_teas d) = Some old \<and> row = f old \<and>
          (\<forall>r. t_id (f r) = t_id r) \<and> t_name row = tp_Name arg \<and> t_type row = tp_Type arg \<and>
          t_desc row = tp_Description arg \<and>
          db_teas d' = update_where (\<lambda>r. t_id r = tp_ID arg) f (db_teas d))"
  unfolding q_UpdateTea_def
  apply (erule stmt_teas)
   apply (auto simp: Let_def split: if_splits option.splits)
  apply (rule exI [of _ "\<lambda>r. r\<lparr>t_name := tp_Name arg, t_type := tp_Type arg, t_desc := tp_Description arg\<rparr>"])
  apply simp
  done

lemma q_DeleteTea_effect:
  "q_DeleteTea env i d = (r, d') \<Longrightarrow>
     (case r of
        Inl e \<Rightarrow> db_teas d' = db_teas d
      | Inr _ \<Rightarrow> db_teas d' = filter (\<lambda>r. t_id r \<noteq> i) (db_teas d))"
  unfolding q_DeleteTea_def
  by (erule stmt_teas) (auto simp: Let_def)

lemma q_GetTea_effect:
  "q_GetTea env i d = (r, d') \<Longrightarrow>
     (case r of Inl e \<Rightarrow> True | Inr row \<Rightarrow> find (\<lambda>r. t_id r = i) (db_teas d) = Some row)"
  unfolding q_GetTea_def
  by (erule stmt_teas) (auto simp: select_one_def split: option.splits)

lemma tea_of_written:
  "t_name row = td_Name rec \<Longrightarrow> t_type row = BeverageType_String (td_Type rec) \<Longrightarrow>
     t_desc row = Some (td_Description rec) \<Longrightarrow> tea_data_ok rec \<Longrightarrow> tea_Data (tea_of_row row) = rec"
  unfolding tea_data_ok_def by (simp add: tea_of_row_def nullableString_def)

lemma pg_teas_snoc:
  "db_teas d' = db_teas d @ [row] \<Longrightarrow> t_id row \<notin> t_id ` set (db_teas d) \<Longrightarrow>
     pg_teas d' = (pg_teas d)(t_id row \<mapsto> tea_Data (tea_of_row row))"
  using map_of_snoc_new [of "row_entry row" "map row_entry (db_teas d)"]
  by (simp add: pg_teas_def image_image) (simp add: row_entry_def)

lemma db_WriteRecord_effect:
  assumes "db_WriteRecord env i rec d = (Inr t, d')"
  shows "i \<notin> dom (pg_teas d) \<and> tea_ID t = i \<and> pg_teas d' = (pg_teas d)(i \<mapsto> tea_Data t) \<and>
     (tea_data_ok rec \<longrightarrow> tea_Data t = rec)"
proof -
  obtain row where q: "q_InsertTea env \<lparr>tp_ID = i, tp_Name = td_Name rec,
      tp_Type = BeverageType_String (td_Type rec), tp_Description = Some (td_Description rec)\<rparr> d = (Inr row, d')"
    and t: "t = tea_of_row row"
    using assms unfolding db_WriteRecord_def mapE_wrapE_Inr by blast
  from q_InsertTea_effect [OF q] t show ?thesis
    using pg_teas_snoc [of d' d row] by (auto simp: dom_pg_teas tea_of_written)
qed

lemma db_Update_effect:
  assumes "distinct (map t_id (db_teas d))" and "db_Update env i rec d = (Inr t, d')"
  shows "i \<in> dom (pg_teas d) \<and> tea_ID t = i \<and> pg_teas d' = (pg_teas d)(i \<mapsto> tea_Data t) \<and>
     (tea_data_ok rec \<longrightarrow> tea_Data t = rec)"
proof -
  obtain row where q: "q_UpdateTea env \<lparr>tp_ID = i, tp_Name = td_Name rec,
      tp_Type = BeverageType_String (td_Type rec), tp_Description = Some (td_Description rec)\<rparr> d = (Inr row, d')"
    and t: "t = tea_of_row row"
    using assms(2) unfolding db_Update_def mapE_wrapE_Inr by blast
  from q_UpdateTea_effect [OF q] obtain old f where
    old: "find (\<lambda>r. t_id r = i) (db_teas d) = Some old" "row = f old" "\<And>r. t_id (f r) = t_id r"
    and new: "t_name row = td_Name rec" "t_type row = BeverageType_String (td_Type rec)"
      "t_desc row = Some (td_Description rec)"
    and d': "db_teas d' = update_where (\<lambda>r. t_id r = i) f (db_teas d)"
    by auto
  have "pg_teas d' = (pg_teas d)(i \<mapsto> tea_Data (tea_of_row (f old)))"
    unfolding pg_teas_def row_entry_eta d' using old(3,1) assms(1) by (rule map_of_update_rows)
  moreover have "t_id old = i" "old \<in> set (db_teas d)" using find_SomeD [OF old(1)] by auto
  ultimately show ?thesis
    using old new t by (auto simp: dom_pg_teas tea_of_written)
qed

lemma db_Delete_effect: "db_Delete env i d = (Inr u, d') \<Longrightarrow> pg_teas d' = (pg_teas d)(i := None)"
  by (auto simp: db_Delete_def pg_teas_def row_entry_eta map_of_filter_key dest!: q_DeleteTea_effect)

lemma db_ReadRecord_effect:
  "db_ReadRecord env i d = (Inr t, d') \<Longrightarrow> distinct (map t_id (db_teas d)) \<Longrightarrow>
     tea_ID t = i \<and> pg_teas d i = Some (tea_Data t)"
proof -
  assume a: "db_ReadRecord env i d = (Inr t, d')" and dist: "distinct (map t_id (db_teas d))"
  then obtain row where row: "q_GetTea env i d = (Inr row, d')" "t = tea_of_row row"
    by (auto simp: db_ReadRecord_def mapE_eq_Inr not_found_or_def split: prod.splits sum.splits)
  then have "find (\<lambda>r. t_id r = i) (db_teas d) = Some row"
    using q_GetTea_effect [OF row(1)] by simp
  then have "row \<in> set (db_teas d)" "t_id row = i" using find_SomeD by fast+
  moreover from this have "map_of (map row_entry (db_teas d)) i = Some (tea_Data (tea_of_row row))"
    using dist by (intro map_of_is_SomeI) (auto simp: comp_def row_entry_def image_iff)
  ultimately show ?thesis using row(2) by (simp add: pg_teas_def)
qed

lemma db_tea_failures:
  "db_WriteRecord env i rec d = (Inl e, d') \<Longrightarrow> pg_teas d' = pg_teas d"
  "db_Update env i rec d = (Inl e, d') \<Longrightarrow> pg_teas d' = pg_teas d"
  "db_Delete env i d = (Inl e, d') \<Longrightarrow> pg_teas d' = pg_teas d"
  by (auto simp: db_WriteRecord_def db_Update_def db_Delete_def mapE_wrapE_Inl wrapE_eq_Inl pg_teas_def
      dest!: q_InsertTea_effect q_UpdateTea_effect q_DeleteTea_effect)

lemma db_tea_reads:
  "pg_teas (snd (db_ReadRecord env i d)) = pg_teas d"
  "pg_teas (snd (db_ReadAllRecords env name d)) = pg_teas d"
  "db_ok env (snd (db_ReadRecord env i d)) = db_ok env d"
  "db_ok env (snd (db_ReadAllRecords env name d)) = db_ok env d"
  by (simp_all add: db_ReadRecord_def db_ReadAllRecords_def q_GetTea_def q_ListTeas_def
      q_SearchTeasByPrefix_def)

lemma db_ok_teas_distinct: "db_ok env d \<Longrightarrow> distinct (map t_id (db_teas d))"
  by (simp add: db_ok_defs)

interpretation pg_tea: tea_storage_laws "pg_tea_storage env" "db_ok env" pg_teas
proof
  fix s s' :: pgdb and i :: uuid and rec t name e
  show "db_ok env s \<Longrightarrow> db_ok env (snd (ts_WriteRecord (pg_tea_storage env) i rec s)) \<and>
      db_ok env (snd (ts_Update (pg_tea_storage env) i rec s)) \<and>
      db_ok env (snd (ts_Delete (pg_tea_storage env) i s)) \<and>
      db_ok env (snd (ts_ReadRecord (pg_tea_storage env) i s)) \<and>
      db_ok env (snd (ts_ReadAllRecords (pg_tea_storage env) name s))"
    by (simp add: pg_tea_storage_def db_writes_ok db_tea_reads)
  show "pg_teas (snd (ts_ReadRecord (pg_tea_storage env) i s)) = pg_teas s \<and>
      pg_teas (snd (ts_ReadAllRecords (pg_tea_storage env) name s)) = pg_teas s"
    by (simp add: pg_tea_storage_def db_tea_reads)
qed (auto simp: pg_tea_storage_def dest: db_WriteRecord_effect db_Update_effect [rotated]
    db_Delete_effect db_ReadRecord_effect db_tea_failures db_ok_teas_distinct)

section \<open>Writes and announcements\<close>

text \<open>
  C20. In every run of the tea manager over the Postgres store, whatever the interleaving of
  callers, loop, subscriptions and server faults: the teas in the store are exactly the
  result of replaying the writes that the callers still have to announce, that wait in a
  channel or that the loop has taken. No write goes unannounced, none is announced twice,
  and a write that failed is never announced and changed nothing.
\<close>

theorem tea_writes_announced:
  assumes "db_ok env d0" and "(tea_step (pg_tea_storage env))\<^sup>*\<^sup>* (tea_start d0) y"
  shows "db_ok env (tm_store (ty_mgr y)) \<and>
    (\<exists>writes. pg_teas (tm_store (ty_mgr y)) = replay writes (pg_teas d0) \<and>
       mset writes = mset (ty_inflight y) + mset (tea_queued (ty_mgr y)) + mset (ty_taken y))"
  using pg_tea.reachable_in_step [OF assms(2,1)]
  by (auto simp: pg_tea.in_step_def tea_accounted_def)

lemma tea_start_fields [simp]:
  "tm_store (ty_mgr (tea_start s)) = s" "ty_inflight (tea_start s) = []"
  "ty_committed (tea_start s) = []" "ty_taken (tea_start s) = []" "ty_out (tea_start s) = []"
  "ty_finished (tea_start s) = []" "tea_queued (ty_mgr (tea_start s)) = []"
  "ty_gone (tea_start s) = []" "ty_loop (tea_start s) = Selecting"
  "tm_subscribers k (ty_mgr (tea_start s)) = []" "tea_channels (ty_mgr (tea_start s)) = []"
  by (simp_all add: tea_start_def tea_NewManager_def tea_queued_def tea_channels_def) (cases k; simp)

definition oolong :: TeaData where
  "oolong = \<lparr>td_Name = ''oolong'', td_Type = 0, td_Description = ''dark''\<rparr>"

definition db_oolong :: pgdb where
  "db_oolong = snd (db_WriteRecord env0 1 oolong empty_db)"

definition tea_demo :: "pgdb tea_system" where
  "tea_demo = (tea_start empty_db)
     \<lparr>ty_mgr := ty_mgr (tea_start empty_db)\<lparr>tm_store := db_oolong\<rparr>,
      ty_inflight := [ECreate \<lparr>tea_ID = 1, tea_Data = oolong\<rparr>],
      ty_committed := [ECreate \<lparr>tea_ID = 1, tea_Data = oolong\<rparr>]\<rparr>"

lemma oolong_written: "db_WriteRecord env0 1 oolong empty_db = (Inr \<lparr>tea_ID = 1, tea_Data = oolong\<rparr>, db_oolong)"
  by (simp add: db_oolong_def oolong_def db_WriteRecord_def mapE_def wrapE_def q_InsertTea_def
      tea_type_check_def empty_db_def Let_def tea_of_row_def nullableString_def)

lemma tea_demo_step: "tea_step (pg_tea_storage env0) (tea_start empty_db) tea_demo"
proof -
  have "tea_write (pg_tea_storage env0) (CallCreate 1 oolong) (tm_store (ty_mgr (tea_start empty_db))) =
      (Inr (ECreate \<lparr>tea_ID = 1, tea_Data = oolong\<rparr>), db_oolong)"
    by (simp add: pg_tea_storage_def oolong_written)
  from tea_step.wrote [OF this] show ?thesis by (simp add: tea_demo_def)
qed

lemma tea_demo_reach: "(tea_step (pg_tea_storage env0))\<^sup>*\<^sup>* (tea_start empty_db) tea_demo"
  using tea_demo_step by (rule r_into_rtranclp)

theorem tea_writes_announced_witness:
  "\<exists>writes. pg_teas db_oolong = replay writes (pg_teas empty_db) \<and>
     mset writes = {#ECreate \<lparr>tea_ID = 1, tea_Data = oolong\<rparr>#}"
  using tea_writes_announced [OF db_ok_empty tea_demo_reach] by (simp add: tea_demo_def)

section \<open>What a subscriber receives\<close>

text \<open>The messages one channel received.\<close>

definition received :: "chan_id \<Rightarrow> (chan_id \<times> tea_message) list \<Rightarrow> tea_message list" where
  "received ch out = map snd (filter (\<lambda>p. fst p = ch) out)"

fun created_messages :: "tea_event list \<Rightarrow> tea_message list" where
  "created_messages [] = []"
| "created_messages (ECreate t # evs) = MsgTea (FromCommonTea t) # created_messages evs"
| "created_messages (ev # evs) = created_messages evs"

lemma created_messages_append [simp]:
  "created_messages (evs @ evs') = created_messages evs @ created_messages evs'"
  by (induction evs rule: created_messages.induct) auto

lemma received_append [simp]: "received ch (out @ out') = received ch out @ received ch out'"
  by (simp add: received_def)

text \<open>
  A subscriber to created teas in a state in which no channel is used twice and \<open>SendAll\<close>, where
  it runs, has served a prefix of its list; and the message \<open>SendAll\<close> has still to hand to it.
\<close>

definition loop_ok :: "'s tea_system \<Rightarrow> bool" where
  "loop_ok y \<longleftrightarrow> distinct (tea_channels (ty_mgr y)) \<and>
     (case ty_loop y of
        Sending k msg subs \<Rightarrow> \<exists>served. tm_subscribers k (ty_mgr y) = served @ subs
      | _ \<Rightarrow> True)"

definition watching :: "subscriber \<Rightarrow> 's tea_system \<Rightarrow> bool" where
  "watching s y \<longleftrightarrow> s \<in> set (tm_createSubscribers (ty_mgr y)) \<and> loop_ok y"

fun pending :: "subscriber \<Rightarrow> loop_state \<Rightarrow> tea_message list" where
  "pending s (Sending CaseCreate msg subs) = (if s \<in> set subs then [msg] else [])"
| "pending s _ = []"

lemma tea_channels_owner:
  "distinct (tea_channels m) \<Longrightarrow> s \<in> set (tm_subscribers j m) \<Longrightarrow> s' \<in> set (tm_subscribers k m) \<Longrightarrow>
     sub_ch s = sub_ch s' \<Longrightarrow> j = k \<and> s = s'"
  by (cases j; cases k) (auto simp: tea_channels_def distinct_map dest: inj_onD)

lemma tm_subscribers_kept [simp]:
  "tm_subscribers k (tea_announce ev m) = tm_subscribers k m"
  "tm_subscribers k (m\<lparr>tm_store := x\<rparr>) = tm_subscribers k m"
  "tm_subscribers k (snd (tea_Get st i m)) = tm_subscribers k m"
  "tm_subscribers k (snd (tea_List st search m)) = tm_subscribers k m"
  by (cases k; cases ev; simp) (cases k; simp add: tea_Get_def tea_List_def split: prod.splits)+

lemma tm_createSubscribers_kept [simp]:
  "tm_createSubscribers (tea_announce ev m) = tm_createSubscribers m"
  "tm_createSubscribers (snd (tea_Get st i m)) = tm_createSubscribers m"
  "tm_createSubscribers (snd (tea_List st search m)) = tm_createSubscribers m"
  by (cases ev; simp) (simp_all add: tea_Get_def tea_List_def split: prod.splits)

lemma tm_subscribers_pushed:
  "tm_subscribers k (tea_SubscribeOnCreate c ch m) =
     (if k = CaseCreate then Push c ch (tm_subscribers k m) else tm_subscribers k m)"
  "tm_subscribers k (tea_SubscribeOnUpdate c ch m) =
     (if k = CaseUpdate then Push c ch (tm_subscribers k m) else tm_subscribers k m)"
  "tm_subscribers k (tea_SubscribeOnDelete c ch m) =
     (if k = CaseDelete then Push c ch (tm_subscribers k m) else tm_subscribers k m)"
  by (cases k; simp add: tea_SubscribeOnCreate_def tea_SubscribeOnUpdate_def tea_SubscribeOnDelete_def)+

lemma tea_channels_alt:
  "tea_channels m = map sub_ch (tm_subscribers CaseCreate m) @ map sub_ch (tm_subscribers CaseUpdate m) @
     map sub_ch (tm_subscribers CaseDelete m)"
  by (simp add: tea_channels_def)

lemma tea_channels_kept [simp]:
  "tea_channels (tea_announce ev m) = tea_channels m"
  "tea_channels (m\<lparr>tm_store := x\<rparr>) = tea_channels m"
  "tea_channels (snd (tea_Get st i m)) = tea_channels m"
  "tea_channels (snd (tea_List st search m)) = tea_channels m"
  by (simp_all only: tea_channels_alt tm_subscribers_kept)

lemma tea_channels_received: "tea_receive k m = Some (msg, m') \<Longrightarrow> tea_channels m' = tea_channels m"
  by (simp only: tea_channels_alt tea_receive_queued(3))

lemma tea_channels_pushed:
  assumes "distinct (tea_channels m)" and "ch \<notin> set (tea_channels m)"
  shows "distinct (tea_channels (tea_SubscribeOnCreate c ch m))"
    and "distinct (tea_channels (tea_SubscribeOnUpdate c ch m))"
    and "distinct (tea_channels (tea_SubscribeOnDelete c ch m))"
  using assms by (auto simp: tea_channels_alt tm_subscribers_pushed Push_def)

lemma tm_subscribers_clean:
  "set (tm_subscribers j (tea_CleanDone k fin m)) =
     (if j = k then {s \<in> set (tm_subscribers j m). \<not> fin (sub_ctx s)} else set (tm_subscribers j m))"
  by (cases j; cases k; simp add: typed_subscribers_defs)

lemma tea_channels_clean:
  assumes "distinct (tea_channels m)"
  shows "distinct (tea_channels (tea_CleanDone k fin m))"
proof -
  have d: "distinct (map sub_ch (tm_subscribers j m))" for j
    using assms by (cases j) (simp_all add: tea_channels_def)
  have "distinct (map sub_ch (tm_subscribers j (tea_CleanDone k fin m)))" for j
    using d [of j] distinct_CleanDone by (cases j; cases k) (simp_all add: typed_subscribers_defs)
  moreover have "set (map sub_ch (tm_subscribers j (tea_CleanDone k fin m))) \<subseteq> set (map sub_ch (tm_subscribers j m))" for j
    by (auto simp: tm_subscribers_clean)
  ultimately show ?thesis
    unfolding tea_channels_alt by (intro distinct_append3 [OF assms [unfolded tea_channels_alt]])
qed

lemma after_clean_not_Sending [simp]: "after_clean ks \<noteq> Sending k msg subs" "pending s (after_clean ks) = []"
  by (cases ks; simp)+

lemma tea_step_loop_ok: "tea_step st y z \<Longrightarrow> loop_ok y \<Longrightarrow> loop_ok z"
proof (induction rule: tea_step.induct)
  case (select y k msg m)
  then show ?case
    using tea_receive_queued(3) [OF select.hyps(2)] tea_channels_received [OF select.hyps(2)]
    by (auto simp: loop_ok_def)
next
  case (deliver y k msg s subs)
  then obtain served where "tm_subscribers k (ty_mgr y) = (served @ [s]) @ subs" by (auto simp: loop_ok_def)
  then have "\<exists>served. tm_subscribers k (ty_mgr y) = served @ subs" by blast
  with deliver show ?case by (simp add: loop_ok_def)
next
  case (clean y k ks)
  then show ?case by (cases ks) (simp_all add: loop_ok_def tea_channels_clean)
next
  case (sub_create ch y c)
  then show ?case
    by (auto simp: loop_ok_def tea_channels_pushed fresh_chan_def tm_subscribers_pushed split: loop_state.splits)
next
  case (sub_update ch y c)
  then show ?case
    by (auto simp: loop_ok_def tea_channels_pushed fresh_chan_def tm_subscribers_pushed split: loop_state.splits)
next
  case (sub_delete ch y c)
  then show ?case
    by (auto simp: loop_ok_def tea_channels_pushed fresh_chan_def tm_subscribers_pushed split: loop_state.splits)
qed (auto simp: loop_ok_def split: loop_state.splits)

lemma reachable_loop_ok: "(tea_step st)\<^sup>*\<^sup>* (tea_start s0) y \<Longrightarrow> loop_ok y"
proof (induction rule: rtranclp_induct)
  case base
  then show ?case by (simp add: loop_ok_def)
qed (rule tea_step_loop_ok)

lemma tea_step_finished: "tea_step st y z \<Longrightarrow> set (ty_finished y) \<subseteq> set (ty_finished z)"
  by (induction rule: tea_step.induct) auto

text \<open>What one step does to a subscriber: it stays, and gets or still has to get its message.\<close>

lemma tea_step_stays:
  "tea_step st y z \<Longrightarrow> s \<in> set (tm_createSubscribers (ty_mgr y)) \<Longrightarrow> sub_ctx s \<notin> set (ty_finished y) \<Longrightarrow>
     s \<in> set (tm_createSubscribers (ty_mgr z))"
proof (induction rule: tea_step.induct)
  case (select y k msg m)
  then show ?case using tea_receive_queued(3) [OF select.hyps(2), of CaseCreate] by simp
next
  case (clean y k ks)
  then show ?case
    using tm_subscribers_clean [of CaseCreate k "\<lambda>c. c \<in> set (ty_finished y)" "ty_mgr y"]
    by (simp split: if_splits)
qed (auto simp: tea_SubscribeOnCreate_def tea_SubscribeOnUpdate_def tea_SubscribeOnDelete_def Push_def)

lemma tea_step_receives:
  assumes "tea_step st y z" and "watching s y"
  shows "\<exists>new. ty_taken z = ty_taken y @ new \<and>
    received (sub_ch s) (ty_out z) @ pending s (ty_loop z) =
      received (sub_ch s) (ty_out y) @ pending s (ty_loop y) @ created_messages new"
  using assms
proof (induction rule: tea_step.induct)
  case (select y k msg m)
  then have "s \<in> set (tm_subscribers CaseCreate m)"
    using tea_receive_queued(3) [OF select.hyps(2), of CaseCreate] by (simp add: watching_def)
  with select show ?case by (cases k) (auto split: list.splits)
next
  case (deliver y k msg s' subs)
  then obtain served where subs: "tm_subscribers k (ty_mgr y) = served @ s' # subs"
    and dist: "distinct (tea_channels (ty_mgr y))" and s: "s \<in> set (tm_subscribers CaseCreate (ty_mgr y))"
    by (auto simp: watching_def loop_ok_def)
  have own: "k = CaseCreate \<and> s = s'" if "sub_ch s = sub_ch s'"
    using tea_channels_owner [OF dist s, of s' k] subs that by auto
  show ?case
  proof (cases "sub_ch s = sub_ch s'")
    case True
    then have k: "k = CaseCreate" "s' = s" using own by auto
    have "distinct (tm_subscribers k (ty_mgr y))"
      using dist by (cases k) (auto simp: tea_channels_def distinct_map)
    then have "s \<notin> set subs" using subs k by simp
    with deliver k show ?thesis by (simp add: received_def)
  next
    case False
    then have "s \<noteq> s'" by auto
    with False deliver show ?thesis by (cases k) (simp_all add: received_def)
  qed
next
  case (sent y k msg)
  then show ?case by (cases k) simp_all
qed simp_all

text \<open>
  C21. A subscriber to created teas whose context stays open receives a message for every created
  tea that the loop takes after it subscribed: each exactly once, in the order in which the loop
  takes them, and nothing else; only the message that \<open>SendAll\<close> is just handing out may still be
  on its way to it. This holds in every interleaving, also when other receivers never come.
\<close>

theorem tea_subscriber_receives_all:
  assumes "(tea_step st)\<^sup>*\<^sup>* y z" and "watching s y" and "sub_ctx s \<notin> set (ty_finished z)"
  shows "watching s z \<and> (\<exists>new. ty_taken z = ty_taken y @ new \<and>
    received (sub_ch s) (ty_out z) @ pending s (ty_loop z) =
      received (sub_ch s) (ty_out y) @ pending s (ty_loop y) @ created_messages new)"
  using assms
proof (induction rule: rtranclp_induct)
  case base
  then show ?case by auto
next
  case (step z z')
  with tea_step_finished [OF step.hyps(2)] have open_ctx: "sub_ctx s \<notin> set (ty_finished z)" by auto
  with step.IH step.prems(1) obtain new where w: "watching s z" and new: "ty_taken z = ty_taken y @ new"
    "received (sub_ch s) (ty_out z) @ pending s (ty_loop z) =
      received (sub_ch s) (ty_out y) @ pending s (ty_loop y) @ created_messages new"
    by blast
  have "watching s z'"
    using w tea_step_stays [OF step.hyps(2) _ open_ctx] tea_step_loop_ok [OF step.hyps(2)]
    by (simp add: watching_def)
  with new tea_step_receives [OF step.hyps(2) w] show ?case by auto
qed

text \<open>
  A run of the demonstration: the tea is written, a client subscribes, the write is announced
  and the loop takes it; then the receiver comes.
\<close>

definition watcher :: subscriber where
  "watcher = \<lparr>sub_ctx = 4, sub_ch = 5\<rparr>"

definition watch_msg :: tea_message where
  "watch_msg = MsgTea (FromCommonTea \<lparr>tea_ID = 1, tea_Data = oolong\<rparr>)"

definition watch_subscribed :: "pgdb tea_system" where
  "watch_subscribed = tea_demo\<lparr>ty_mgr := tea_SubscribeOnCreate 4 5 (ty_mgr tea_demo)\<rparr>"

definition watch_announced :: "pgdb tea_system" where
  "watch_announced = watch_subscribed
     \<lparr>ty_mgr := tea_announce (ECreate \<lparr>tea_ID = 1, tea_Data = oolong\<rparr>) (ty_mgr watch_subscribed), ty_inflight := []\<rparr>"

definition watch_taken :: "pgdb tea_system" where
  "watch_taken = watch_announced\<lparr>ty_mgr := (ty_mgr watch_announced)\<lparr>tm_create := []\<rparr>,
     ty_loop := Sending CaseCreate watch_msg [watcher], ty_taken := [ECreate \<lparr>tea_ID = 1, tea_Data = oolong\<rparr>]\<rparr>"

definition watch_received :: "pgdb tea_system" where
  "watch_received = watch_taken\<lparr>ty_loop := Sending CaseCreate watch_msg [], ty_out := [(5, watch_msg)]\<rparr>"

lemmas watch_defs = watch_received_def watch_taken_def watch_announced_def watch_subscribed_def tea_demo_def
  watcher_def watch_msg_def tea_SubscribeOnCreate_def Push_def chan_send_def tea_start_def tea_NewManager_def

lemma watch_steps:
  "tea_step st tea_demo watch_subscribed" "tea_step st watch_subscribed watch_announced"
  "tea_step st watch_taken watch_received"
proof -
  show "tea_step st tea_demo watch_subscribed"
    using tea_step.sub_create [of 5 tea_demo st 4]
    by (simp add: watch_defs fresh_chan_def tea_channels_def)
  show "tea_step st watch_subscribed watch_announced"
    using tea_step.send [of watch_subscribed "[]" "ECreate \<lparr>tea_ID = 1, tea_Data = oolong\<rparr>" "[]" st]
    by (simp add: watch_defs)
  show "tea_step st watch_taken watch_received"
    using tea_step.deliver [of watch_taken CaseCreate watch_msg watcher "[]" st]
    by (simp add: watch_defs)
qed

lemma watch_select:
  "tea_step st (watch_announced\<lparr>ty_gone := g\<rparr>) (watch_taken\<lparr>ty_gone := g\<rparr>)"
  using tea_step.select [of "watch_announced\<lparr>ty_gone := g\<rparr>" CaseCreate watch_msg
      "(ty_mgr watch_announced)\<lparr>tm_create := []\<rparr>" st]
  by (simp add: watch_defs)

lemma watch_reach: "(tea_step (pg_tea_storage env0))\<^sup>*\<^sup>* (tea_start empty_db) watch_announced"
  using tea_demo_step watch_steps(1,2) by (meson converse_rtranclp_into_rtranclp r_into_rtranclp)

theorem tea_subscriber_receives_all_witness:
  "(tea_step (pg_tea_storage env0))\<^sup>*\<^sup>* (tea_start empty_db) watch_received \<and>
   received 5 (ty_out watch_received) = [MsgTea (FromCommonTea \<lparr>tea_ID = 1, tea_Data = oolong\<rparr>)]"
proof -
  have none: "watch_announced\<lparr>ty_gone := []\<rparr> = watch_announced" "watch_taken\<lparr>ty_gone := []\<rparr> = watch_taken"
    by (simp_all add: watch_defs)
  have w: "watching watcher watch_announced"
    using reachable_loop_ok [OF watch_reach] by (simp add: watching_def watch_defs)
  have run: "(tea_step (pg_tea_storage env0))\<^sup>*\<^sup>* watch_announced watch_received"
    using watch_select [of _ "[]", unfolded none] watch_steps(3)
    by (meson converse_rtranclp_into_rtranclp r_into_rtranclp)
  have "sub_ctx watcher \<notin> set (ty_finished watch_received)" by (simp add: watch_defs)
  from tea_subscriber_receives_all [OF run w this]
  have "received 5 (ty_out watch_received) = [watch_msg]" by (simp add: watch_defs received_def)
  with watch_reach run show ?thesis by (auto simp: watch_msg_def)
qed

section \<open>The turn of the loop as steps\<close>

text \<open>
  \<open>tea_loop\<close> is a turn that nothing interrupts: with the receivers that have not left, its
  receive, its deliveries and its cleaning are steps of the running system.
\<close>

lemma deliver_steps:
  "ty_loop y = Sending k msg subs \<Longrightarrow> SendAll (\<lambda>ch. ch \<notin> set (ty_gone y)) subs msg = (out, True) \<Longrightarrow>
     (tea_step st)\<^sup>*\<^sup>* y (y\<lparr>ty_loop := Sending k msg [], ty_out := ty_out y @ out\<rparr>)"
proof (induction subs arbitrary: y out)
  case Nil
  then have "y\<lparr>ty_loop := Sending k msg [], ty_out := ty_out y @ out\<rparr> = y" by (cases y) simp
  then show ?case by simp
next
  case (Cons s subs)
  then obtain out1 where s: "sub_ch s \<notin> set (ty_gone y)" "SendAll (\<lambda>ch. ch \<notin> set (ty_gone y)) subs msg = (out1, True)"
      "out = (sub_ch s, msg) # out1"
    by (auto split: if_splits prod.splits)
  let ?y = "y\<lparr>ty_loop := Sending k msg subs, ty_out := ty_out y @ [(sub_ch s, msg)]\<rparr>"
  have "(tea_step st)\<^sup>*\<^sup>* ?y (?y\<lparr>ty_loop := Sending k msg [], ty_out := ty_out ?y @ out1\<rparr>)"
    using Cons.IH [of ?y out1] s(2) by simp
  from converse_rtranclp_into_rtranclp [OF tea_step.deliver [OF Cons.prems(1) s(1)] this] s(3)
  show ?case by simp
qed

lemma clean_steps:
  assumes "ty_loop y = Cleaning [CaseCreate, CaseUpdate, CaseDelete]"
  shows "(tea_step st)\<^sup>*\<^sup>* y (y\<lparr>ty_mgr := tea_clean (\<lambda>c. c \<in> set (ty_finished y)) (ty_mgr y), ty_loop := Selecting\<rparr>)"
proof -
  let ?c = "\<lambda>k y. y\<lparr>ty_mgr := tea_CleanDone k (\<lambda>c. c \<in> set (ty_finished y)) (ty_mgr y)\<rparr>"
  let ?y1 = "(?c CaseCreate y)\<lparr>ty_loop := Cleaning [CaseUpdate, CaseDelete]\<rparr>"
  let ?y2 = "(?c CaseUpdate ?y1)\<lparr>ty_loop := Cleaning [CaseDelete]\<rparr>"
  let ?y3 = "(?c CaseDelete ?y2)\<lparr>ty_loop := Selecting\<rparr>"
  have "tea_step st y ?y1" "tea_step st ?y1 ?y2" "tea_step st ?y2 ?y3"
    using tea_step.clean [OF assms, of st] tea_step.clean [of ?y1 CaseUpdate "[CaseDelete]" st]
      tea_step.clean [of ?y2 CaseDelete "[]" st] by simp_all
  then have "(tea_step st)\<^sup>*\<^sup>* y ?y3" by (meson converse_rtranclp_into_rtranclp r_into_rtranclp)
  then show ?thesis by (simp add: tea_clean_def)
qed

lemma tea_loop_receive:
  assumes "tea_loop ready fin k m = Some (out, True, m')"
  shows "\<exists>msg m1. tea_receive k m = Some (msg, m1) \<and> SendAll ready (tm_subscribers k m1) msg = (out, True) \<and>
    m' = tea_clean fin m1"
proof -
  have wrapped: "SendAll ready subs (w x) = (map (\<lambda>(ch, x). (ch, w x)) (fst (SendAll ready subs x)), True)"
    if "snd (SendAll ready subs x)" for w :: "'x \<Rightarrow> tea_message" and subs x
  proof -
    have "\<forall>s \<in> set subs. ready (sub_ch s)" using that by (simp add: SendAll_returns_iff)
    then show ?thesis by (simp add: SendAll_all)
  qed
  show ?thesis
    using assms by (cases k) (auto simp: loop_turn_def typed_subscribers_defs wrapped split: list.splits if_splits)
qed

lemma tea_loop_steps:
  assumes "ty_loop y = Selecting"
    and "tea_loop (\<lambda>ch. ch \<notin> set (ty_gone y)) (\<lambda>c. c \<in> set (ty_finished y)) k (ty_mgr y) = Some (out, True, m)"
  shows "(tea_step st)\<^sup>*\<^sup>* y (y\<lparr>ty_mgr := m, ty_out := ty_out y @ out,
    ty_taken := ty_taken y @ [tea_head k (ty_mgr y)]\<rparr>)"
proof -
  obtain msg m1 where rec: "tea_receive k (ty_mgr y) = Some (msg, m1)"
      "SendAll (\<lambda>ch. ch \<notin> set (ty_gone y)) (tm_subscribers k m1) msg = (out, True)"
      "m = tea_clean (\<lambda>c. c \<in> set (ty_finished y)) m1"
    using tea_loop_receive [OF assms(2)] by blast
  let ?y1 = "y\<lparr>ty_mgr := m1, ty_loop := Sending k msg (tm_subscribers k m1),
    ty_taken := ty_taken y @ [tea_head k (ty_mgr y)]\<rparr>"
  let ?y2 = "?y1\<lparr>ty_loop := Sending k msg [], ty_out := ty_out y @ out\<rparr>"
  let ?y3 = "?y2\<lparr>ty_loop := Cleaning [CaseCreate, CaseUpdate, CaseDelete]\<rparr>"
  have "tea_step st y ?y1" by (rule tea_step.select [OF assms(1) rec(1)])
  moreover have "(tea_step st)\<^sup>*\<^sup>* ?y1 ?y2" using deliver_steps [of ?y1 k msg _ out st] rec(2) by simp
  moreover have "tea_step st ?y2 ?y3" by (rule tea_step.sent) simp
  moreover have "(tea_step st)\<^sup>*\<^sup>* ?y3 (?y3\<lparr>ty_mgr := m, ty_loop := Selecting\<rparr>)"
    using clean_steps [of ?y3 st] rec(3) by simp
  ultimately have "(tea_step st)\<^sup>*\<^sup>* y (?y3\<lparr>ty_mgr := m, ty_loop := Selecting\<rparr>)"
    by (meson converse_rtranclp_into_rtranclp r_into_rtranclp rtranclp_trans)
  moreover have "?y3\<lparr>ty_mgr := m, ty_loop := Selecting\<rparr> =
      y\<lparr>ty_mgr := m, ty_out := ty_out y @ out, ty_taken := ty_taken y @ [tea_head k (ty_mgr y)]\<rparr>"
    using assms(1) by (cases y) simp
  ultimately show ?thesis by simp
qed

section \<open>A receiver that is gone\<close>

text \<open>
  A later state \<open>z\<close> of a loop that is handing out \<open>msg\<close> and waits for \<open>s\<close>: only subscribers before
  \<open>s\<close> have been served, nothing was taken, dropped or drained.
\<close>

definition stuck_at :: "subscriber \<Rightarrow> tea_case \<Rightarrow> tea_message \<Rightarrow> subscriber list \<Rightarrow> 's tea_system \<Rightarrow> 's tea_system \<Rightarrow> bool" where
  "stuck_at s k msg subs y z \<longleftrightarrow>
     (\<exists>served left. subs = served @ left \<and> s \<in> set left \<and> ty_loop z = Sending k msg left \<and>
        ty_out z = ty_out y @ map (\<lambda>s. (sub_ch s, msg)) served) \<and>
     sub_ch s \<in> set (ty_gone z) \<and> ty_taken z = ty_taken y \<and>
     tm_subscribers k (ty_mgr z) = tm_subscribers k (ty_mgr y) \<and>
     (\<forall>j. set (tm_subscribers j (ty_mgr y)) \<subseteq> set (tm_subscribers j (ty_mgr z))) \<and>
     mset (tea_queued (ty_mgr y)) \<subseteq># mset (tea_queued (ty_mgr z))"

lemma stuck_at_step: "tea_step st z z' \<Longrightarrow> stuck_at s k msg subs y z \<Longrightarrow> stuck_at s k msg subs y z'"
proof (induction rule: tea_step.induct)
  case (send z evs ev evs')
  then show ?case
    by (auto simp: stuck_at_def mset_tea_queued_announce intro: subset_mset.order_trans)
next
  case (deliver z k' msg' s' subs')
  from deliver.prems obtain served left where l: "subs = served @ left" "s \<in> set left" "ty_loop z = Sending k msg left"
      "ty_out z = ty_out y @ map (\<lambda>s. (sub_ch s, msg)) served" "sub_ch s \<in> set (ty_gone z)"
    by (auto simp: stuck_at_def)
  with deliver.hyps have now: "left = s' # subs'" "k' = k" "msg' = msg" "s \<noteq> s'" by auto
  with l have "subs = (served @ [s']) @ subs' \<and> s \<in> set subs' \<and>
      ty_out y @ map (\<lambda>s. (sub_ch s, msg)) (served @ [s']) = ty_out z @ [(sub_ch s', msg)]" by simp
  with deliver.prems now show ?case
    unfolding stuck_at_def by (intro conjI exI [of _ "served @ [s']"] exI [of _ subs']) simp_all
next
  case (sub_create ch z c)
  then show ?case by (auto simp: stuck_at_def tm_subscribers_pushed Push_def simp del: tm_subscribers.simps)
next
  case (sub_update ch z c)
  then show ?case by (auto simp: stuck_at_def tm_subscribers_pushed Push_def simp del: tm_subscribers.simps)
next
  case (sub_delete ch z c)
  then show ?case by (auto simp: stuck_at_def tm_subscribers_pushed Push_def simp del: tm_subscribers.simps)
qed (auto simp: stuck_at_def)

lemma stuck_at_reach: "(tea_step st)\<^sup>*\<^sup>* z z' \<Longrightarrow> stuck_at s k msg subs y z \<Longrightarrow> stuck_at s k msg subs y z'"
  by (induction rule: rtranclp_induct) (auto dest: stuck_at_step)

inductive_cases tea_step_casesE: "tea_step st y z"

lemma selected_state:
  assumes "tea_step st y y'" and "ty_loop y = Selecting" and "ty_loop y' = Sending k msg subs"
  shows "subs = tm_subscribers k (ty_mgr y') \<and> tm_subscribers k (ty_mgr y') = tm_subscribers k (ty_mgr y) \<and>
    ty_gone y' = ty_gone y"
  using assms(1) by (rule tea_step_casesE) (use assms(2,3) tea_receive_queued(3) in auto)

text \<open>
  C23. When the loop takes an announcement while the receiver of one of the subscribers of its
  kind never comes again (its connection ended), the loop stops for good: in every continuation,
  whatever the callers, the other receivers and new clients do, it takes no further announcement;
  only subscribers before that one get the message, and nobody gets anything else; no channel is
  drained, and no subscriber is ever dropped, that one least of all, although \<open>CleanDone\<close> was to
  drop it: \<open>SendAll\<close> does not return to it.
\<close>

theorem tea_gone_receiver_stops_loop:
  assumes "ty_loop y = Selecting" and "tea_step st y y'" and "ty_loop y' = Sending k msg subs"
    and "s \<in> set (tm_subscribers k (ty_mgr y))" and "sub_ch s \<in> set (ty_gone y)"
    and "(tea_step st)\<^sup>*\<^sup>* y' z"
  shows "(\<exists>served left. tm_subscribers k (ty_mgr y) = served @ left \<and> s \<in> set left \<and> ty_loop z = Sending k msg left \<and>
      ty_out z = ty_out y' @ map (\<lambda>s. (sub_ch s, msg)) served) \<and>
    ty_taken z = ty_taken y' \<and> tm_subscribers k (ty_mgr z) = tm_subscribers k (ty_mgr y) \<and>
    (\<forall>j. set (tm_subscribers j (ty_mgr y')) \<subseteq> set (tm_subscribers j (ty_mgr z))) \<and>
    mset (tea_queued (ty_mgr y')) \<subseteq># mset (tea_queued (ty_mgr z))"
proof -
  note now = selected_state [OF assms(2,1,3)]
  have "stuck_at s k msg subs y' y'"
    unfolding stuck_at_def using now assms(3-5)
    by (intro conjI exI [of _ "[]"] exI [of _ subs]) simp_all
  from stuck_at_reach [OF assms(6) this] now show ?thesis by (auto simp: stuck_at_def)
qed

text \<open>
  Reached from the start: the receiver of the only subscriber leaves, the loop takes the tea; from
  then on no run of the system gets out of this one \<open>SendAll\<close>.
\<close>

theorem tea_gone_receiver_stops_loop_witness:
  "(tea_step (pg_tea_storage env0))\<^sup>*\<^sup>* (tea_start empty_db) (watch_taken\<lparr>ty_gone := [5]\<rparr>) \<and>
   {z. (tea_step (pg_tea_storage env0))\<^sup>*\<^sup>* (watch_taken\<lparr>ty_gone := [5]\<rparr>) z} \<subseteq>
     {z. ty_loop z = Sending CaseCreate watch_msg [watcher] \<and> ty_out z = [] \<and>
         ty_taken z = [ECreate \<lparr>tea_ID = 1, tea_Data = oolong\<rparr>]}"
proof -
  let ?y = "watch_announced\<lparr>ty_gone := [5]\<rparr>" and ?y' = "watch_taken\<lparr>ty_gone := [5]\<rparr>"
  have "tea_step st watch_announced ?y" for st :: "pgdb tea_storage"
    using tea_step.leave [of st watch_announced 5] by (simp add: watch_defs)
  with watch_reach watch_select have reach: "(tea_step (pg_tea_storage env0))\<^sup>*\<^sup>* (tea_start empty_db) ?y'"
    by (meson rtranclp.rtrancl_into_rtrancl)
  have y: "ty_loop ?y = Selecting" "ty_loop ?y' = Sending CaseCreate watch_msg [watcher]"
      "tm_subscribers CaseCreate (ty_mgr ?y) = [watcher]" "sub_ch watcher \<in> set (ty_gone ?y)"
      "ty_out ?y' = []" "ty_taken ?y' = [ECreate \<lparr>tea_ID = 1, tea_Data = oolong\<rparr>]"
    by (simp_all add: watch_defs)
  have in_subs: "watcher \<in> set (tm_subscribers CaseCreate (ty_mgr ?y))" using y(3) by simp
  have "ty_loop z = Sending CaseCreate watch_msg [watcher] \<and> ty_out z = [] \<and>
      ty_taken z = [ECreate \<lparr>tea_ID = 1, tea_Data = oolong\<rparr>]"
    if "(tea_step (pg_tea_storage env0))\<^sup>*\<^sup>* ?y' z" for z
  proof -
    from tea_gone_receiver_stops_loop [OF y(1) watch_select y(2) in_subs y(4) that] obtain served left where
      "[watcher] = served @ left" "watcher \<in> set left" "ty_loop z = Sending CaseCreate watch_msg left"
      "ty_out z = ty_out ?y' @ map (\<lambda>s. (sub_ch s, watch_msg)) served" "ty_taken z = ty_taken ?y'"
      unfolding y(3) by blast
    then show ?thesis using y(5,6) by (cases served) auto
  qed
  with reach show ?thesis by blast
qed

section \<open>Concurrent updates\<close>

lemma update_order_rows:
  "db_Update env0 1 (oolong\<lparr>td_Name := n\<rparr>) (db_oolong\<lparr>db_teas := [r\<lparr>t_id := 1\<rparr>], db_stmts := k\<rparr>) =
     (Inr \<lparr>tea_ID = 1, tea_Data = oolong\<lparr>td_Name := n\<rparr>\<rparr>,
      db_oolong\<lparr>db_teas := [r\<lparr>t_id := 1, t_name := n, t_type := ''tea'', t_desc := Some ''dark''\<rparr>],
        db_stmts := Suc k\<rparr>)"
  by (simp add: db_Update_def mapE_def wrapE_def q_UpdateTea_def tea_type_check_def Let_def
      tea_of_row_def nullableString_def oolong_def env0_def stmt_def)

text \<open>
  The order of the announcements is not the order of the writes: two callers that update
  one tea at the same time can leave the store with the second value while the channel, and
  so every subscriber, gets the second value first and the first value last.
\<close>

theorem tea_updates_announced_out_of_order:
  "\<exists>y first second. (tea_step (pg_tea_storage env0))\<^sup>*\<^sup>* (tea_start db_oolong) y \<and>
     ty_committed y = [EUpdate first, EUpdate second] \<and> tm_update (ty_mgr y) = [second, first] \<and>
     tea_ID first = tea_ID second \<and> tea_Data first \<noteq> tea_Data second \<and>
     pg_teas (tm_store (ty_mgr y)) (tea_ID second) = Some (tea_Data second)"
proof -
  let ?t = "\<lambda>n. \<lparr>tea_ID = 1, tea_Data = oolong\<lparr>td_Name := n\<rparr>\<rparr>"
  let ?r = "\<lparr>t_id = 1, t_name = ''oolong'', t_type = ''tea'', t_desc = Some ''dark'', t_created = 0\<rparr>"
  let ?d = "\<lambda>k n. db_oolong\<lparr>db_teas := [?r\<lparr>t_name := n\<rparr>], db_stmts := k\<rparr>"
  have d0: "db_oolong = ?d 1 ''oolong''"
    by (simp add: db_oolong_def db_WriteRecord_def q_InsertTea_def oolong_def env0_def stmt_def
        tea_type_check_def Let_def empty_db_def)
  let ?sys = "\<lambda>d fl com q. (tea_start db_oolong)\<lparr>ty_mgr := (ty_mgr (tea_start db_oolong))\<lparr>tm_store := d,
     tm_update := q\<rparr>, ty_inflight := fl, ty_committed := com\<rparr>"
  let ?y1 = "?sys (?d 2 ''a'') [EUpdate (?t ''a'')] [EUpdate (?t ''a'')] []"
  let ?com = "[EUpdate (?t ''a''), EUpdate (?t ''b'')]"
  let ?y2 = "?sys (?d 3 ''b'') ?com ?com []"
  let ?y3 = "?sys (?d 3 ''b'') [EUpdate (?t ''a'')] ?com [?t ''b'']"
  let ?y4 = "?sys (?d 3 ''b'') [] ?com [?t ''b'', ?t ''a'']"
  let ?st = "pg_tea_storage env0"
  have "tea_write ?st (CallUpdate 1 (oolong\<lparr>td_Name := ''a''\<rparr>)) (tm_store (ty_mgr (tea_start db_oolong))) =
      (Inr (EUpdate (?t ''a'')), ?d 2 ''a'')"
    using update_order_rows [where n = "''a''" and r = ?r and k = 1] d0 by (simp add: pg_tea_storage_def mapE_def)
  from tea_step.wrote [OF this] have s1: "tea_step ?st (tea_start db_oolong) ?y1"
    by (simp add: tea_start_def tea_NewManager_def)
  have "tea_write ?st (CallUpdate 1 (oolong\<lparr>td_Name := ''b''\<rparr>)) (tm_store (ty_mgr ?y1)) =
      (Inr (EUpdate (?t ''b'')), ?d 3 ''b'')"
    using update_order_rows [where n = "''b''" and r = "?r\<lparr>t_name := ''a''\<rparr>" and k = 2]
    by (simp add: pg_tea_storage_def mapE_def)
  from tea_step.wrote [OF this] have s2: "tea_step ?st ?y1 ?y2"
    by (simp add: tea_start_def tea_NewManager_def)
  have s3: "tea_step ?st ?y2 ?y3"
    using tea_step.send [of ?y2 "[EUpdate (?t ''a'')]" "EUpdate (?t ''b'')" "[]"]
    by (simp add: chan_send_def tea_start_def tea_NewManager_def)
  have s4: "tea_step ?st ?y3 ?y4"
    using tea_step.send [of ?y3 "[]" "EUpdate (?t ''a'')" "[]"]
    by (simp add: chan_send_def tea_start_def tea_NewManager_def)
  have "(tea_step ?st)\<^sup>*\<^sup>* (tea_start db_oolong) ?y4"
    using s1 s2 s3 s4 by (meson converse_rtranclp_into_rtranclp r_into_rtranclp)
  moreover have "pg_teas (?d 3 ''b'') 1 = Some (oolong\<lparr>td_Name := ''b''\<rparr>)"
    by (simp add: pg_teas_def row_entry_def tea_of_row_def nullableString_def oolong_def)
  ultimately show ?thesis
    by (intro exI [of _ ?y4] exI [of _ "?t ''a''"] exI [of _ "?t ''b''"]) (simp add: oolong_def)
qed

section \<open>The loop drains\<close>

text \<open>
  The turns for a list of the cases that \<open>select\<close> chose; \<open>None\<close> when a channel had no message
  or \<open>SendAll\<close> did not return.
\<close>

fun tea_run ::
  "(chan_id \<Rightarrow> bool) \<Rightarrow> (ctx_id \<Rightarrow> bool) \<Rightarrow> tea_case list \<Rightarrow> 's tea_manager \<Rightarrow> 's tea_manager option" where
  "tea_run ready finished [] m = Some m"
| "tea_run ready finished (k # ks) m =
     (case tea_loop ready finished k m of
        None \<Rightarrow> None
      | Some (out, ret, m') \<Rightarrow> if ret then tea_run ready finished ks m' else None)"

lemma tea_loop_enabled:
  assumes "\<forall>ch. ready ch" and "tea_queued m \<noteq> []"
  shows "\<exists>k out m'. tea_loop ready finished k m = Some (out, True, m')"
proof -
  consider "tm_create m \<noteq> []" | "tm_update m \<noteq> []" | "tm_delete m \<noteq> []"
    using assms(2) by (auto simp: tea_queued_def)
  then show ?thesis
  proof cases
    case 1
    then show ?thesis
      by (intro exI [of _ CaseCreate])
        (auto simp: loop_turn_def typed_subscribers_defs SendAll_returns_iff assms(1) neq_Nil_conv)
  next
    case 2
    then show ?thesis
      by (intro exI [of _ CaseUpdate])
        (auto simp: loop_turn_def typed_subscribers_defs SendAll_returns_iff assms(1) neq_Nil_conv)
  next
    case 3
    then show ?thesis
      by (intro exI [of _ CaseDelete])
        (auto simp: loop_turn_def typed_subscribers_defs SendAll_returns_iff assms(1) neq_Nil_conv)
  qed
qed

lemma tea_loop_shorter:
  "tea_loop ready finished k m = Some (out, ret, m') \<Longrightarrow> length (tea_queued m) = Suc (length (tea_queued m'))"
  using arg_cong [OF tea_loop_queued(1), of ready finished k m out ret m' size] by simp

lemma tea_run_length:
  "tea_run ready finished ks m = Some m' \<Longrightarrow> length (tea_queued m) = length ks + length (tea_queued m')"
proof (induction ks arbitrary: m)
  case (Cons k ks)
  then show ?case
    by (auto dest: tea_loop_shorter split: option.splits prod.splits if_splits)
qed simp

text \<open>
  C22. The loop empties its channels: as long as the receivers take what they are sent, it can
  always take another turn until no announcement is left, and however \<open>select\<close> chooses, the
  channels are empty after exactly as many turns as there were announcements.
\<close>

theorem tea_loop_drains:
  assumes "\<forall>ch. ready ch"
  shows "(\<exists>ks m'. tea_run ready finished ks m = Some m' \<and> tea_queued m' = [] \<and> length ks = length (tea_queued m)) \<and>
    (\<forall>ks m'. tea_run ready finished ks m = Some m' \<longrightarrow>
       length ks \<le> length (tea_queued m) \<and>
       (tea_queued m' = [] \<longleftrightarrow> length ks = length (tea_queued m)) \<and>
       (tea_queued m' \<noteq> [] \<longrightarrow> (\<exists>k out m2. tea_loop ready finished k m' = Some (out, True, m2))))"
proof -
  have "\<exists>ks m'. tea_run ready finished ks m = Some m' \<and> tea_queued m' = []"
  proof (induction "length (tea_queued m)" arbitrary: m)
    case 0
    then show ?case by (intro exI [of _ "[]"]) simp
  next
    case (Suc n)
    then have "tea_queued m \<noteq> []" by auto
    from tea_loop_enabled [OF assms this] obtain k out m1 where
      k: "tea_loop ready finished k m = Some (out, True, m1)" by blast
    with Suc.hyps(2) have "n = length (tea_queued m1)" by (simp add: tea_loop_shorter)
    from Suc.hyps(1) [OF this] obtain ks m' where
      "tea_run ready finished ks m1 = Some m'" "tea_queued m' = []" by blast
    with k show ?case by (intro exI [of _ "k # ks"] exI [of _ m']) simp
  qed
  then show ?thesis using tea_run_length tea_loop_enabled [OF assms] by fastforce
qed

theorem tea_loop_drains_witness:
  "\<exists>ks m'. tea_run (\<lambda>_. True) (\<lambda>_. False) ks
      (tea_announce (EDelete 7) (tea_announce (EDelete 8) (tea_NewManager ()))) = Some m' \<and>
     tea_queued m' = [] \<and> length ks = 2"
proof -
  let ?m = "tea_announce (EDelete 7) (tea_announce (EDelete 8) (tea_NewManager ()))"
  have "length (tea_queued ?m) = 2" by (simp add: tea_queued_def tea_NewManager_def chan_send_def)
  with tea_loop_drains [of "\<lambda>_. True" "\<lambda>_. False" ?m] show ?thesis by simp
qed

end
