(* ===== verification/Tag_Manager.thy ===== *)
theory Tag_Manager
  imports Tea_Manager
begin

text \<open>
  The tag manager (\<open>internal/managers/tag\<close>): tags and their categories, the links of tags
  to teas, and eight channels of announcements. Its loop reads the storage again while it
  handles an announcement (the category of a tag, the tea of a link) and drops the
  announcement when that read fails.
\<close>

section \<open>The storage interface\<close>

record 's tag_storage =
  gs_CreateTagCategory :: "uuid \<Rightarrow> string \<Rightarrow> ('s, TagCategory) act"
  gs_UpdateTagCategory :: "uuid \<Rightarrow> string \<Rightarrow> ('s, unit) act"
  gs_DeleteTagCategory :: "uuid \<Rightarrow> ('s, uuid list) act"
  gs_GetTagCategory :: "uuid \<Rightarrow> ('s, TagCategory) act"
  gs_ListTagCategories :: "string option \<Rightarrow> ('s, TagCategory list) act"
  gs_CreateTag :: "uuid \<Rightarrow> string \<Rightarrow> string \<Rightarrow> uuid \<Rightarrow> ('s, Tag) act"
  gs_UpdateTag :: "uuid \<Rightarrow> string \<Rightarrow> string \<Rightarrow> ('s, Tag) act"
  gs_ChangeTagCategory :: "uuid \<Rightarrow> uuid \<Rightarrow> ('s, Tag) act"
  gs_DeleteTag :: "uuid \<Rightarrow> ('s, unit) act"
  gs_GetTag :: "uuid \<Rightarrow> ('s, Tag) act"
  gs_ListTags :: "string option \<Rightarrow> uuid option \<Rightarrow> ('s, Tag list) act"
  gs_AddTagToTea :: "uuid \<Rightarrow> uuid \<Rightarrow> ('s, unit) act"
  gs_DeleteTagFromTea :: "uuid \<Rightarrow> uuid \<Rightarrow> ('s, unit) act"
  gs_ListByTea :: "uuid \<Rightarrow> ('s, Tag list) act"

section \<open>The manager\<close>

record 's tag_manager =
  gm_store :: 's
  gm_createSubscribers :: "subscriber list"
  gm_updateSubscribers :: "subscriber list"
  gm_deleteSubscribers :: "subscriber list"
  gm_create :: "Tag list"
  gm_update :: "Tag list"
  gm_delete :: "uuid list"
  gm_createSubscribersCategory :: "subscriber list"
  gm_updateSubscribersCategory :: "subscriber list"
  gm_deleteSubscribersCategory :: "subscriber list"
  gm_createCategory :: "TagCategory list"
  gm_updateCategory :: "TagCategory list"
  gm_deleteCategory :: "uuid list"
  gm_addTagToTea :: "uuid list"
  gm_deleteTagFromTea :: "uuid list"
  gm_addTagToTeaSubscribers :: "subscriber list"
  gm_deleteTagToTeaSubscribers :: "subscriber list"

definition tag_NewManager :: "'s \<Rightarrow> 's tag_manager" where
  "tag_NewManager s =
     \<lparr>gm_store = s, gm_createSubscribers = [], gm_updateSubscribers = [],
      gm_deleteSubscribers = [], gm_create = [], gm_update = [], gm_delete = [],
      gm_createSubscribersCategory = [], gm_updateSubscribersCategory = [],
      gm_deleteSubscribersCategory = [], gm_createCategory = [], gm_updateCategory = [],
      gm_deleteCategory = [], gm_addTagToTea = [], gm_deleteTagFromTea = [],
      gm_addTagToTeaSubscribers = [], gm_deleteTagToTeaSubscribers = []\<rparr>"

text \<open>The announcements, one constructor per channel, and the send \<open>ch <- x\<close> of each.\<close>

datatype tag_event =
    GCreate Tag | GUpdate Tag | GDelete uuid
  | GCreateCategory TagCategory | GUpdateCategory TagCategory | GDeleteCategory uuid
  | GAddTagToTea uuid | GDeleteTagFromTea uuid

fun tag_announce :: "tag_event \<Rightarrow> 's tag_manager \<Rightarrow> 's tag_manager" where
  "tag_announce (GCreate x) m = m\<lparr>gm_create := chan_send x (gm_create m)\<rparr>"
| "tag_announce (GUpdate x) m = m\<lparr>gm_update := chan_send x (gm_update m)\<rparr>"
| "tag_announce (GDelete x) m = m\<lparr>gm_delete := chan_send x (gm_delete m)\<rparr>"
| "tag_announce (GCreateCategory x) m = m\<lparr>gm_createCategory := chan_send x (gm_createCategory m)\<rparr>"
| "tag_announce (GUpdateCategory x) m = m\<lparr>gm_updateCategory := chan_send x (gm_updateCategory m)\<rparr>"
| "tag_announce (GDeleteCategory x) m = m\<lparr>gm_deleteCategory := chan_send x (gm_deleteCategory m)\<rparr>"
| "tag_announce (GAddTagToTea x) m = m\<lparr>gm_addTagToTea := chan_send x (gm_addTagToTea m)\<rparr>"
| "tag_announce (GDeleteTagFromTea x) m = m\<lparr>gm_deleteTagFromTea := chan_send x (gm_deleteTagFromTea m)\<rparr>"

text \<open>Whether the buffer of the channel of an announcement has room.\<close>

fun tag_room :: "tag_event \<Rightarrow> 's tag_manager \<Rightarrow> bool" where
  "tag_room (GCreate _) m \<longleftrightarrow> length (gm_create m) < defaultChanSize"
| "tag_room (GUpdate _) m \<longleftrightarrow> length (gm_update m) < defaultChanSize"
| "tag_room (GDelete _) m \<longleftrightarrow> length (gm_delete m) < defaultChanSize"
| "tag_room (GCreateCategory _) m \<longleftrightarrow> length (gm_createCategory m) < defaultChanSize"
| "tag_room (GUpdateCategory _) m \<longleftrightarrow> length (gm_updateCategory m) < defaultChanSize"
| "tag_room (GDeleteCategory _) m \<longleftrightarrow> length (gm_deleteCategory m) < defaultChanSize"
| "tag_room (GAddTagToTea _) m \<longleftrightarrow> length (gm_addTagToTea m) < defaultChanSize"
| "tag_room (GDeleteTagFromTea _) m \<longleftrightarrow> length (gm_deleteTagFromTea m) < defaultChanSize"

text \<open>
  A call sends its announcements one after the other. When a buffer is full it waits with
  that message in the channel, and the list is what it has still to send afterwards.
\<close>

fun tag_sends :: "'r \<Rightarrow> tag_event list \<Rightarrow> 's tag_manager \<Rightarrow> 'r outcome \<times> tag_event list \<times> 's tag_manager" where
  "tag_sends r [] m = (Returned r, [], m)"
| "tag_sends r (ev # evs) m =
     (if tag_room ev m then tag_sends r evs (tag_announce ev m)
      else (Waiting r, evs, tag_announce ev m))"

text \<open>
  An operation that writes: the storage's error is returned as it is; otherwise the
  announcements of the result are sent and the result is returned.
\<close>

definition tag_op ::
  "('s, 'a) act \<Rightarrow> ('a \<Rightarrow> tag_event list) \<Rightarrow> ('a \<Rightarrow> 'r) \<Rightarrow> 's tag_manager \<Rightarrow>
     (gerr + 'r) outcome \<times> tag_event list \<times> 's tag_manager" where
  "tag_op act evs res m =
     (case act (gm_store m) of
        (Inl err, s) \<Rightarrow> (Returned (Inl err), [], m\<lparr>gm_store := s\<rparr>)
      | (Inr x, s) \<Rightarrow> tag_sends (Inr (res x)) (evs x) (m\<lparr>gm_store := s\<rparr>))"

definition tag_read :: "('s, 'a) act \<Rightarrow> 's tag_manager \<Rightarrow> (gerr + 'a) \<times> 's tag_manager" where
  "tag_read act m = (case act (gm_store m) of (r, s) \<Rightarrow> (r, m\<lparr>gm_store := s\<rparr>))"

type_synonym ('s, 'r) tag_method =
  "'s tag_manager \<Rightarrow> (gerr + 'r) outcome \<times> tag_event list \<times> 's tag_manager"

definition tag_AddTagToTea :: "'s tag_storage \<Rightarrow> uuid \<Rightarrow> uuid \<Rightarrow> ('s, unit) tag_method" where
  "tag_AddTagToTea st tea tg = tag_op (gs_AddTagToTea st tea tg) (\<lambda>_. [GAddTagToTea tea]) id"

definition tag_DeleteTagFromTea :: "'s tag_storage \<Rightarrow> uuid \<Rightarrow> uuid \<Rightarrow> ('s, unit) tag_method" where
  "tag_DeleteTagFromTea st tea tg =
     tag_op (gs_DeleteTagFromTea st tea tg) (\<lambda>_. [GDeleteTagFromTea tea]) id"

definition tag_CreateCategory :: "'s tag_storage \<Rightarrow> uuid \<Rightarrow> string \<Rightarrow> ('s, TagCategory) tag_method" where
  "tag_CreateCategory st fresh name =
     tag_op (gs_CreateTagCategory st fresh name) (\<lambda>cat. [GCreateCategory cat]) id"

definition tag_DeleteCategory :: "'s tag_storage \<Rightarrow> uuid \<Rightarrow> ('s, unit) tag_method" where
  "tag_DeleteCategory st i =
     tag_op (gs_DeleteTagCategory st i) (\<lambda>tags. map GDelete tags @ [GDeleteCategory i]) (\<lambda>_. ())"

definition tag_UpdateCategory :: "'s tag_storage \<Rightarrow> uuid \<Rightarrow> string \<Rightarrow> ('s, TagCategory) tag_method" where
  "tag_UpdateCategory st i name =
     tag_op (gs_UpdateTagCategory st i name)
       (\<lambda>_. [GUpdateCategory \<lparr>cat_ID = i, cat_Name = name\<rparr>]) (\<lambda>_. \<lparr>cat_ID = i, cat_Name = name\<rparr>)"

definition tag_Create :: "'s tag_storage \<Rightarrow> uuid \<Rightarrow> string \<Rightarrow> string \<Rightarrow> uuid \<Rightarrow> ('s, Tag) tag_method" where
  "tag_Create st fresh name color categoryID =
     tag_op (gs_CreateTag st fresh name color categoryID) (\<lambda>tg. [GCreate tg]) id"

definition tag_Update :: "'s tag_storage \<Rightarrow> uuid \<Rightarrow> string \<Rightarrow> string \<Rightarrow> ('s, Tag) tag_method" where
  "tag_Update st i name color = tag_op (gs_UpdateTag st i name color) (\<lambda>tg. [GUpdate tg]) id"

definition tag_ChangeCategory :: "'s tag_storage \<Rightarrow> uuid \<Rightarrow> uuid \<Rightarrow> ('s, Tag) tag_method" where
  "tag_ChangeCategory st i categoryID =
     tag_op (gs_ChangeTagCategory st i categoryID) (\<lambda>tg. [GUpdate tg]) id"

definition tag_Delete :: "'s tag_storage \<Rightarrow> uuid \<Rightarrow> ('s, unit) tag_method" where
  "tag_Delete st i = tag_op (gs_DeleteTag st i) (\<lambda>_. [GDelete i]) id"

definition tag_ListByTea :: "'s tag_storage \<Rightarrow> uuid \<Rightarrow> 's tag_manager \<Rightarrow> (gerr + Tag list) \<times> 's tag_manager" where
  "tag_ListByTea st i = tag_read (gs_ListByTea st i)"

definition tag_GetCategory :: "'s tag_storage \<Rightarrow> uuid \<Rightarrow> 's tag_manager \<Rightarrow> (gerr + TagCategory) \<times> 's tag_manager" where
  "tag_GetCategory st i = tag_read (gs_GetTagCategory st i)"

definition tag_ListCategory ::
  "'s tag_storage \<Rightarrow> string option \<Rightarrow> 's tag_manager \<Rightarrow> (gerr + TagCategory list) \<times> 's tag_manager" where
  "tag_ListCategory st search = tag_read (gs_ListTagCategories st search)"

definition tag_Get :: "'s tag_storage \<Rightarrow> uuid \<Rightarrow> 's tag_manager \<Rightarrow> (gerr + Tag) \<times> 's tag_manager" where
  "tag_Get st i = tag_read (gs_GetTag st i)"

definition tag_List ::
  "'s tag_storage \<Rightarrow> string option \<Rightarrow> uuid option \<Rightarrow> 's tag_manager \<Rightarrow> (gerr + Tag list) \<times> 's tag_manager" where
  "tag_List st name categoryID = tag_read (gs_ListTags st name categoryID)"

section \<open>Subscriptions\<close>

definition tag_SubscribeOnCreateCategory :: "ctx_id \<Rightarrow> chan_id \<Rightarrow> 's tag_manager \<Rightarrow> 's tag_manager" where
  "tag_SubscribeOnCreateCategory c ch m =
     m\<lparr>gm_createSubscribersCategory := Push c ch (gm_createSubscribersCategory m)\<rparr>"

definition tag_SubscribeOnUpdateCategory :: "ctx_id \<Rightarrow> chan_id \<Rightarrow> 's tag_manager \<Rightarrow> 's tag_manager" where
  "tag_SubscribeOnUpdateCategory c ch m =
     m\<lparr>gm_updateSubscribersCategory := Push c ch (gm_updateSubscribersCategory m)\<rparr>"

definition tag_SubscribeOnDeleteCategory :: "ctx_id \<Rightarrow> chan_id \<Rightarrow> 's tag_manager \<Rightarrow> 's tag_manager" where
  "tag_SubscribeOnDeleteCategory c ch m =
     m\<lparr>gm_deleteSubscribersCategory := Push c ch (gm_deleteSubscribersCategory m)\<rparr>"

definition tag_SubscribeOnCreate :: "ctx_id \<Rightarrow> chan_id \<Rightarrow> 's tag_manager \<Rightarrow> 's tag_manager" where
  "tag_SubscribeOnCreate c ch m = m\<lparr>gm_createSubscribers := Push c ch (gm_createSubscribers m)\<rparr>"

definition tag_SubscribeOnUpdate :: "ctx_id \<Rightarrow> chan_id \<Rightarrow> 's tag_manager \<Rightarrow> 's tag_manager" where
  "tag_SubscribeOnUpdate c ch m = m\<lparr>gm_updateSubscribers := Push c ch (gm_updateSubscribers m)\<rparr>"

definition tag_SubscribeOnDelete :: "ctx_id \<Rightarrow> chan_id \<Rightarrow> 's tag_manager \<Rightarrow> 's tag_manager" where
  "tag_SubscribeOnDelete c ch m = m\<lparr>gm_deleteSubscribers := Push c ch (gm_deleteSubscribers m)\<rparr>"

definition tag_SubscribeOnAddTagToTea :: "ctx_id \<Rightarrow> chan_id \<Rightarrow> 's tag_manager \<Rightarrow> 's tag_manager" where
  "tag_SubscribeOnAddTagToTea c ch m =
     m\<lparr>gm_addTagToTeaSubscribers := Push c ch (gm_addTagToTeaSubscribers m)\<rparr>"

definition tag_SubscribeOnDeleteTagToTea :: "ctx_id \<Rightarrow> chan_id \<Rightarrow> 's tag_manager \<Rightarrow> 's tag_manager" where
  "tag_SubscribeOnDeleteTagToTea c ch m =
     m\<lparr>gm_deleteTagToTeaSubscribers := Push c ch (gm_deleteTagToTeaSubscribers m)\<rparr>"

section \<open>The loop\<close>

datatype tag_message = MsgTag GTag | MsgCategory GTagCategory | MsgTagID uuid | MsgTagTea GTea

type_synonym sent = "(chan_id \<times> tag_message) list \<times> bool"

definition as_msg :: "('m \<Rightarrow> tag_message) \<Rightarrow> (chan_id \<times> 'm) list \<times> bool \<Rightarrow> sent" where
  "as_msg f r = (map (\<lambda>(ch, x). (ch, f x)) (fst r), snd r)"

definition graph_tag :: "Tag \<Rightarrow> TagCategory \<Rightarrow> GTag" where
  "graph_tag tg cat =
     \<lparr>gtag_ID = tag_ID tg, gtag_Name = tag_Name (tag_Data tg), gtag_Color = tag_Color (tag_Data tg),
      gtag_Category = Some \<lparr>gcat_ID = cat_ID cat, gcat_Name = cat_Name cat\<rparr>\<rparr>"

definition graph_category :: "TagCategory \<Rightarrow> GTagCategory" where
  "graph_category tg = \<lparr>gcat_ID = cat_ID tg, gcat_Name = cat_Name tg\<rparr>"

text \<open>
  A handler: what was sent and whether every send returned, and the manager. A failed read
  is logged and the handler returns without sending.
\<close>

definition handleCreateTag ::
  "'s tag_storage \<Rightarrow> (chan_id \<Rightarrow> bool) \<Rightarrow> Tag \<Rightarrow> 's tag_manager \<Rightarrow> sent \<times> 's tag_manager" where
  "handleCreateTag st ready tg m =
     (case gs_GetTagCategory st (tag_CategoryID (tag_Data tg)) (gm_store m) of
        (Inl err, s) \<Rightarrow> (([], True), m\<lparr>gm_store := s\<rparr>)
      | (Inr cat, s) \<Rightarrow>
          (as_msg MsgTag (tagSubscribers_SendAll ready (gm_createSubscribers m) (graph_tag tg cat)),
           m\<lparr>gm_store := s\<rparr>))"

definition handleUpdateTag ::
  "'s tag_storage \<Rightarrow> (chan_id \<Rightarrow> bool) \<Rightarrow> Tag \<Rightarrow> 's tag_manager \<Rightarrow> sent \<times> 's tag_manager" where
  "handleUpdateTag st ready tg m =
     (case gs_GetTagCategory st (tag_CategoryID (tag_Data tg)) (gm_store m) of
        (Inl err, s) \<Rightarrow> (([], True), m\<lparr>gm_store := s\<rparr>)
      | (Inr cat, s) \<Rightarrow>
          (as_msg MsgTag (tagSubscribers_SendAll ready (gm_updateSubscribers m) (graph_tag tg cat)),
           m\<lparr>gm_store := s\<rparr>))"

definition handleTeaTagChange ::
  "(uuid \<Rightarrow> ('s, Tea) act) \<Rightarrow> (chan_id \<Rightarrow> bool) \<Rightarrow> uuid \<Rightarrow> bool \<Rightarrow> 's tag_manager \<Rightarrow> sent \<times> 's tag_manager" where
  "handleTeaTagChange tea_get ready i added m =
     (case tea_get i (gm_store m) of
        (Inl err, s) \<Rightarrow> (([], True), m\<lparr>gm_store := s\<rparr>)
      | (Inr tea, s) \<Rightarrow>
          (if added
           then (as_msg MsgTagTea (tag_teaSubscribers_SendAll ready (gm_addTagToTeaSubscribers m)
                   (FromCommonTea tea)), m\<lparr>gm_store := s\<rparr>)
           else (as_msg MsgTagTea (tag_teaSubscribers_SendAll ready (gm_deleteTagToTeaSubscribers m)
                   (FromCommonTea tea)), m\<lparr>gm_store := s\<rparr>)))"

definition cleanAll :: "(ctx_id \<Rightarrow> bool) \<Rightarrow> 's tag_manager \<Rightarrow> 's tag_manager" where
  "cleanAll finished m =
     m\<lparr>gm_createSubscribersCategory :=
         fst (tagCategorySubscribers_CleanDone finished (gm_createSubscribersCategory m)),
       gm_updateSubscribersCategory :=
         fst (tagCategorySubscribers_CleanDone finished (gm_updateSubscribersCategory m)),
       gm_deleteSubscribersCategory :=
         fst (tag_idSubscribers_CleanDone finished (gm_deleteSubscribersCategory m)),
       gm_deleteSubscribers := fst (tag_idSubscribers_CleanDone finished (gm_deleteSubscribers m)),
       gm_createSubscribers := fst (tagSubscribers_CleanDone finished (gm_createSubscribers m)),
       gm_updateSubscribers := fst (tagSubscribers_CleanDone finished (gm_updateSubscribers m)),
       gm_addTagToTeaSubscribers :=
         fst (tag_teaSubscribers_CleanDone finished (gm_addTagToTeaSubscribers m)),
       gm_deleteTagToTeaSubscribers :=
         fst (tag_teaSubscribers_CleanDone finished (gm_deleteTagToTeaSubscribers m))\<rparr>"

text \<open>The receive of each case of the \<open>select\<close>, and the handler of what was received.\<close>

datatype tag_case =
    OnCreate | OnUpdate | OnDelete | OnCreateCategory | OnUpdateCategory | OnDeleteCategory
  | OnAddTagToTea | OnDeleteTagFromTea

fun pop_with :: "('a \<Rightarrow> 'e) \<Rightarrow> 'a list \<Rightarrow> ('a list \<Rightarrow> 'm) \<Rightarrow> ('e \<times> 'm) option" where
  "pop_with ev [] upd = None"
| "pop_with ev (x # q) upd = Some (ev x, upd q)"

fun tag_receive :: "tag_case \<Rightarrow> 's tag_manager \<Rightarrow> (tag_event \<times> 's tag_manager) option" where
  "tag_receive OnCreate m = pop_with GCreate (gm_create m) (\<lambda>q. m\<lparr>gm_create := q\<rparr>)"
| "tag_receive OnUpdate m = pop_with GUpdate (gm_update m) (\<lambda>q. m\<lparr>gm_update := q\<rparr>)"
| "tag_receive OnDelete m = pop_with GDelete (gm_delete m) (\<lambda>q. m\<lparr>gm_delete := q\<rparr>)"
| "tag_receive OnCreateCategory m =
     pop_with GCreateCategory (gm_createCategory m) (\<lambda>q. m\<lparr>gm_createCategory := q\<rparr>)"
| "tag_receive OnUpdateCategory m =
     pop_with GUpdateCategory (gm_updateCategory m) (\<lambda>q. m\<lparr>gm_updateCategory := q\<rparr>)"
| "tag_receive OnDeleteCategory m =
     pop_with GDeleteCategory (gm_deleteCategory m) (\<lambda>q. m\<lparr>gm_deleteCategory := q\<rparr>)"
| "tag_receive OnAddTagToTea m =
     pop_with GAddTagToTea (gm_addTagToTea m) (\<lambda>q. m\<lparr>gm_addTagToTea := q\<rparr>)"
| "tag_receive OnDeleteTagFromTea m =
     pop_with GDeleteTagFromTea (gm_deleteTagFromTea m) (\<lambda>q. m\<lparr>gm_deleteTagFromTea := q\<rparr>)"

fun tag_handle ::
  "'s tag_storage \<Rightarrow> (uuid \<Rightarrow> ('s, Tea) act) \<Rightarrow> (chan_id \<Rightarrow> bool) \<Rightarrow> tag_event \<Rightarrow> 's tag_manager \<Rightarrow>
     sent \<times> 's tag_manager" where
  "tag_handle st tea_get ready (GCreate tg) m = handleCreateTag st ready tg m"
| "tag_handle st tea_get ready (GUpdate tg) m = handleUpdateTag st ready tg m"
| "tag_handle st tea_get ready (GDelete i) m =
     (as_msg MsgTagID (tag_idSubscribers_SendAll ready (gm_deleteSubscribers m) i), m)"
| "tag_handle st tea_get ready (GCreateCategory c) m =
     (as_msg MsgCategory (tagCategorySubscribers_SendAll ready (gm_createSubscribersCategory m)
        (graph_category c)), m)"
| "tag_handle st tea_get ready (GUpdateCategory c) m =
     (as_msg MsgCategory (tagCategorySubscribers_SendAll ready (gm_updateSubscribersCategory m)
        (graph_category c)), m)"
| "tag_handle st tea_get ready (GDeleteCategory i) m =
     (as_msg MsgTagID (tag_idSubscribers_SendAll ready (gm_deleteSubscribersCategory m) i), m)"
| "tag_handle st tea_get ready (GAddTagToTea i) m = handleTeaTagChange tea_get ready i True m"
| "tag_handle st tea_get ready (GDeleteTagFromTea i) m = handleTeaTagChange tea_get ready i False m"

definition tag_loop ::
  "'s tag_storage \<Rightarrow> (uuid \<Rightarrow> ('s, Tea) act) \<Rightarrow> (chan_id \<Rightarrow> bool) \<Rightarrow> (ctx_id \<Rightarrow> bool) \<Rightarrow> tag_case \<Rightarrow>
     's tag_manager \<Rightarrow> (tag_event \<times> sent \<times> 's tag_manager) option" where
  "tag_loop st tea_get ready finished k m =
     (case tag_receive k m of
        None \<Rightarrow> None
      | Some (ev, m1) \<Rightarrow>
          (case tag_handle st tea_get ready ev m1 of
             ((out, ret), m2) \<Rightarrow> Some (ev, (out, ret), if ret then cleanAll finished m2 else m2)))"

section \<open>Calls and what they mean\<close>

text \<open>
  The calls that write, the storage part of each with the announcements it leads to, and
  the execution of the method: the error it returned (if any), what it has still to send
  and the manager.
\<close>

datatype tag_call =
    CCreateCategory uuid string | CUpdateCategory uuid string | CDeleteCategory uuid
  | CCreate uuid string string uuid | CUpdate uuid string string | CChangeCategory uuid uuid
  | CDelete uuid | CAddTagToTea uuid uuid | CDeleteTagFromTea uuid uuid

fun tag_write :: "'s tag_storage \<Rightarrow> tag_call \<Rightarrow> ('s, tag_event list) act" where
  "tag_write st (CCreateCategory i name) =
     mapE (\<lambda>c. [GCreateCategory c]) (gs_CreateTagCategory st i name)"
| "tag_write st (CUpdateCategory i name) =
     mapE (\<lambda>_. [GUpdateCategory \<lparr>cat_ID = i, cat_Name = name\<rparr>]) (gs_UpdateTagCategory st i name)"
| "tag_write st (CDeleteCategory i) =
     mapE (\<lambda>tags. map GDelete tags @ [GDeleteCategory i]) (gs_DeleteTagCategory st i)"
| "tag_write st (CCreate i name color cat) = mapE (\<lambda>t. [GCreate t]) (gs_CreateTag st i name color cat)"
| "tag_write st (CUpdate i name color) = mapE (\<lambda>t. [GUpdate t]) (gs_UpdateTag st i name color)"
| "tag_write st (CChangeCategory i cat) = mapE (\<lambda>t. [GUpdate t]) (gs_ChangeTagCategory st i cat)"
| "tag_write st (CDelete i) = mapE (\<lambda>_. [GDelete i]) (gs_DeleteTag st i)"
| "tag_write st (CAddTagToTea tea tg) = mapE (\<lambda>_. [GAddTagToTea tea]) (gs_AddTagToTea st tea tg)"
| "tag_write st (CDeleteTagFromTea tea tg) =
     mapE (\<lambda>_. [GDeleteTagFromTea tea]) (gs_DeleteTagFromTea st tea tg)"

fun outcome_error :: "(gerr + 'r) outcome \<Rightarrow> gerr option" where
  "outcome_error (Returned (Inl e)) = Some e"
| "outcome_error (Waiting (Inl e)) = Some e"
| "outcome_error _ = None"

fun tag_exec :: "'s tag_storage \<Rightarrow> tag_call \<Rightarrow> 's tag_manager \<Rightarrow> gerr option \<times> tag_event list \<times> 's tag_manager" where
  "tag_exec st (CCreateCategory i name) m = map_prod outcome_error id (tag_CreateCategory st i name m)"
| "tag_exec st (CUpdateCategory i name) m = map_prod outcome_error id (tag_UpdateCategory st i name m)"
| "tag_exec st (CDeleteCategory i) m = map_prod outcome_error id (tag_DeleteCategory st i m)"
| "tag_exec st (CCreate i name color cat) m = map_prod outcome_error id (tag_Create st i name color cat m)"
| "tag_exec st (CUpdate i name color) m = map_prod outcome_error id (tag_Update st i name color m)"
| "tag_exec st (CChangeCategory i cat) m = map_prod outcome_error id (tag_ChangeCategory st i cat m)"
| "tag_exec st (CDelete i) m = map_prod outcome_error id (tag_Delete st i m)"
| "tag_exec st (CAddTagToTea tea tg) m = map_prod outcome_error id (tag_AddTagToTea st tea tg m)"
| "tag_exec st (CDeleteTagFromTea tea tg) m =
     map_prod outcome_error id (tag_DeleteTagFromTea st tea tg m)"

definition tag_queued :: "'s tag_manager \<Rightarrow> tag_event list" where
  "tag_queued m =
     map GCreate (gm_create m) @ map GUpdate (gm_update m) @ map GDelete (gm_delete m) @
     map GCreateCategory (gm_createCategory m) @ map GUpdateCategory (gm_updateCategory m) @
     map GDeleteCategory (gm_deleteCategory m) @ map GAddTagToTea (gm_addTagToTea m) @
     map GDeleteTagFromTea (gm_deleteTagFromTea m)"

lemma tag_queued_store [simp]: "tag_queued (m\<lparr>gm_store := s\<rparr>) = tag_queued m"
  by (simp add: tag_queued_def)

lemma tag_announce_store [simp]: "gm_store (tag_announce ev m) = gm_store m"
  by (cases ev) simp_all

lemma mset_tag_announce: "mset (tag_queued (tag_announce ev m)) = add_mset ev (mset (tag_queued m))"
  by (cases ev) (simp_all add: tag_queued_def chan_send_def)

lemma tag_sends_result:
  "tag_sends r evs m = (out, rest, m') \<Longrightarrow>
     (out = Returned r \<or> out = Waiting r) \<and> gm_store m' = gm_store m \<and>
     mset (tag_queued m') + mset rest = mset (tag_queued m) + mset evs"
proof (induction r evs m rule: tag_sends.induct)
  case (2 r ev evs m)
  then show ?case
    by (auto simp: mset_tag_announce split: if_splits)
qed simp

lemma tag_op_result:
  fixes res :: "'a \<Rightarrow> 'r"
  assumes "map_prod outcome_error id (tag_op act evs res m) = (err, rest, m')"
  shows "case mapE evs act (gm_store m) of
      (Inl e, s) \<Rightarrow> err = Some e \<and> rest = [] \<and> m' = m\<lparr>gm_store := s\<rparr>
    | (Inr es, s) \<Rightarrow> err = None \<and> gm_store m' = s \<and>
        mset (tag_queued m') + mset rest = mset (tag_queued m) + mset es"
proof (cases "act (gm_store m)")
  case (Pair r s)
  show ?thesis
  proof (cases r)
    case (Inl e)
    with Pair assms show ?thesis by (simp add: tag_op_def mapE_def)
  next
    case (Inr x)
    obtain out rest' m1 where o: "tag_sends (Inr (res x) :: gerr + 'r) (evs x) (m\<lparr>gm_store := s\<rparr>) = (out, rest', m1)"
      by (metis prod_cases3)
    with Inr Pair assms have "err = outcome_error out" "rest = rest'" "m' = m1"
      by (simp_all add: tag_op_def)
    with tag_sends_result [OF o] Inr Pair show ?thesis by (auto simp: mapE_def)
  qed
qed

lemma tag_exec_result:
  assumes "tag_exec st call m = (err, rest, m')"
  shows "case tag_write st call (gm_store m) of
      (Inl e, s) \<Rightarrow> err = Some e \<and> rest = [] \<and> m' = m\<lparr>gm_store := s\<rparr>
    | (Inr es, s) \<Rightarrow> err = None \<and> gm_store m' = s \<and>
        mset (tag_queued m') + mset rest = mset (tag_queued m) + mset es"
  using assms
  by (cases call; simp only: tag_exec.simps tag_write.simps tag_CreateCategory_def
      tag_UpdateCategory_def tag_DeleteCategory_def tag_Create_def tag_Update_def
      tag_ChangeCategory_def tag_Delete_def tag_AddTagToTea_def tag_DeleteTagFromTea_def)
    (erule tag_op_result)+

section \<open>The abstract tags\<close>

record tag_view =
  tv_cats :: "uuid \<Rightarrow> string option"
  tv_tags :: "uuid \<Rightarrow> TagData option"
  tv_links :: "(uuid \<times> uuid) set"

definition tags_in :: "tag_view \<Rightarrow> uuid \<Rightarrow> uuid set" where
  "tags_in v c = {t. \<exists>d. tv_tags v t = Some d \<and> tag_CategoryID d = c}"

definition drop_tags :: "uuid set \<Rightarrow> tag_view \<Rightarrow> tag_view" where
  "drop_tags gone v =
     v\<lparr>tv_tags := tv_tags v |` (- gone), tv_links := {l \<in> tv_links v. snd l \<notin> gone}\<rparr>"

fun tag_spec :: "tag_call \<Rightarrow> tag_view \<Rightarrow> tag_view" where
  "tag_spec (CCreateCategory i name) v = v\<lparr>tv_cats := (tv_cats v)(i \<mapsto> name)\<rparr>"
| "tag_spec (CUpdateCategory i name) v = v\<lparr>tv_cats := (tv_cats v)(i \<mapsto> name)\<rparr>"
| "tag_spec (CDeleteCategory i) v =
     (drop_tags (tags_in v i) v)\<lparr>tv_cats := (tv_cats v)(i := None)\<rparr>"
| "tag_spec (CCreate i name color cat) v =
     v\<lparr>tv_tags := (tv_tags v)(i \<mapsto> \<lparr>tag_Name = name, tag_Color = color, tag_CategoryID = cat\<rparr>)\<rparr>"
| "tag_spec (CUpdate i name color) v =
     v\<lparr>tv_tags := (tv_tags v)(i := map_option (\<lambda>d. d\<lparr>tag_Name := name, tag_Color := color\<rparr>) (tv_tags v i))\<rparr>"
| "tag_spec (CChangeCategory i cat) v =
     v\<lparr>tv_tags := (tv_tags v)(i := map_option (\<lambda>d. d\<lparr>tag_CategoryID := cat\<rparr>) (tv_tags v i))\<rparr>"
| "tag_spec (CDelete i) v = drop_tags {i} v"
| "tag_spec (CAddTagToTea tea tg) v = v\<lparr>tv_links := insert (tea, tg) (tv_links v)\<rparr>"
| "tag_spec (CDeleteTagFromTea tea tg) v = v\<lparr>tv_links := tv_links v - {(tea, tg)}\<rparr>"

text \<open>When a call may succeed, and what it then announces, given the view after it.\<close>

fun tag_pre :: "tag_call \<Rightarrow> tag_view \<Rightarrow> bool" where
  "tag_pre (CCreateCategory i name) v \<longleftrightarrow> i \<notin> dom (tv_cats v) \<and> name \<notin> ran (tv_cats v)"
| "tag_pre (CUpdateCategory i name) v \<longleftrightarrow> i \<in> dom (tv_cats v)"
| "tag_pre (CDeleteCategory i) v \<longleftrightarrow> True"
| "tag_pre (CCreate i name color cat) v \<longleftrightarrow> i \<notin> dom (tv_tags v) \<and> cat \<in> dom (tv_cats v)"
| "tag_pre (CUpdate i name color) v \<longleftrightarrow> i \<in> dom (tv_tags v)"
| "tag_pre (CChangeCategory i cat) v \<longleftrightarrow> i \<in> dom (tv_tags v) \<and> cat \<in> dom (tv_cats v)"
| "tag_pre (CDelete i) v \<longleftrightarrow> True"
| "tag_pre (CAddTagToTea tea tg) v \<longleftrightarrow> tg \<in> dom (tv_tags v)"
| "tag_pre (CDeleteTagFromTea tea tg) v \<longleftrightarrow> True"

fun tag_events_ok :: "tag_call \<Rightarrow> tag_view \<Rightarrow> tag_event list \<Rightarrow> bool" where
  "tag_events_ok (CCreateCategory i name) v evs \<longleftrightarrow> evs = [GCreateCategory \<lparr>cat_ID = i, cat_Name = name\<rparr>]"
| "tag_events_ok (CUpdateCategory i name) v evs \<longleftrightarrow> evs = [GUpdateCategory \<lparr>cat_ID = i, cat_Name = name\<rparr>]"
| "tag_events_ok (CDeleteCategory i) v evs \<longleftrightarrow>
     (\<exists>removed. evs = map GDelete removed @ [GDeleteCategory i] \<and> distinct removed \<and>
        set removed = tags_in v i)"
| "tag_events_ok (CCreate i name color cat) v evs \<longleftrightarrow>
     evs = [GCreate \<lparr>tag_ID = i, tag_Data = \<lparr>tag_Name = name, tag_Color = color, tag_CategoryID = cat\<rparr>\<rparr>]"
| "tag_events_ok (CUpdate i name color) v evs \<longleftrightarrow>
     evs = [GUpdate \<lparr>tag_ID = i, tag_Data = (the (tv_tags v i))\<lparr>tag_Name := name, tag_Color := color\<rparr>\<rparr>]"
| "tag_events_ok (CChangeCategory i cat) v evs \<longleftrightarrow>
     evs = [GUpdate \<lparr>tag_ID = i, tag_Data = (the (tv_tags v i))\<lparr>tag_CategoryID := cat\<rparr>\<rparr>]"
| "tag_events_ok (CDelete i) v evs \<longleftrightarrow> evs = [GDelete i]"
| "tag_events_ok (CAddTagToTea tea tg) v evs \<longleftrightarrow> evs = [GAddTagToTea tea]"
| "tag_events_ok (CDeleteTagFromTea tea tg) v evs \<longleftrightarrow> evs = [GDeleteTagFromTea tea]"

text \<open>The laws of the interface: the storage implements the abstract tags.\<close>

locale tag_storage_laws =
  fixes st :: "'s tag_storage"
    and invar :: "'s \<Rightarrow> bool"
    and view :: "'s \<Rightarrow> tag_view"
  assumes written: "invar s \<Longrightarrow> tag_write st call s = (Inr evs, s') \<Longrightarrow>
      invar s' \<and> tag_pre call (view s) \<and> view s' = tag_spec call (view s) \<and>
      tag_events_ok call (view s) evs"
    and refused: "invar s \<Longrightarrow> tag_write st call s = (Inl e, s') \<Longrightarrow>
      invar s' \<and> tv_cats (view s') = tv_cats (view s) \<and>
      (view s' = view s \<or> (\<exists>i. call = CDeleteCategory i \<and>
        view s' = drop_tags (tags_in (view s) i) (view s)))"
    and category_found: "invar s \<Longrightarrow> gs_GetTagCategory st i s = (Inr c, s') \<Longrightarrow>
      cat_ID c = i \<and> tv_cats (view s) i = Some (cat_Name c)"
begin

lemma exec_refines:
  assumes "invar (gm_store m)" and "tag_exec st call m = (err, rest, m')"
  shows "case err of
      None \<Rightarrow> invar (gm_store m') \<and> tag_pre call (view (gm_store m)) \<and>
        view (gm_store m') = tag_spec call (view (gm_store m)) \<and>
        (\<exists>evs. tag_events_ok call (view (gm_store m)) evs \<and>
           mset (tag_queued m') + mset rest = mset (tag_queued m) + mset evs)
    | Some e \<Rightarrow> invar (gm_store m') \<and> rest = [] \<and> tag_queued m' = tag_queued m \<and>
        (view (gm_store m') = view (gm_store m) \<or> (\<exists>i. call = CDeleteCategory i \<and>
           view (gm_store m') = drop_tags (tags_in (view (gm_store m)) i) (view (gm_store m))))"
proof -
  obtain r s where w: "tag_write st call (gm_store m) = (r, s)" by fastforce
  with tag_exec_result [OF assms(2)] written [OF assms(1)] refused [OF assms(1)]
  show ?thesis by (cases r) fastforce+
qed

end

section \<open>The Postgres adapter implements the abstract tags\<close>

definition pg_tag_storage :: "pg_env \<Rightarrow> pgdb tag_storage" where
  "pg_tag_storage env =
     \<lparr>gs_CreateTagCategory = db_CreateTagCategory env, gs_UpdateTagCategory = db_UpdateTagCategory env,
      gs_DeleteTagCategory = db_DeleteTagCategory env, gs_GetTagCategory = db_GetTagCategory env,
      gs_ListTagCategories = db_ListTagCategories env, gs_CreateTag = db_CreateTag env,
      gs_UpdateTag = db_UpdateTag env, gs_ChangeTagCategory = db_ChangeTagCategory env,
      gs_DeleteTag = db_DeleteTag env, gs_GetTag = db_GetTag env, gs_ListTags = db_ListTags env,
      gs_AddTagToTea = db_AddTagToTea env, gs_DeleteTagFromTea = db_DeleteTagFromTea env,
      gs_ListByTea = db_ListByTea env\<rparr>"

definition cat_entry :: "cat_row \<Rightarrow> uuid \<times> string" where
  "cat_entry r = (c_id r, c_name r)"

definition tag_entry :: "tag_row \<Rightarrow> uuid \<times> TagData" where
  "tag_entry r = (g_id r, tag_Data (tag_of_row r))"

definition pg_tag_view :: "pgdb \<Rightarrow> tag_view" where
  "pg_tag_view d =
     \<lparr>tv_cats = map_of (map cat_entry (db_cats d)), tv_tags = map_of (map tag_entry (db_tags d)),
      tv_links = set (db_tea_tags d)\<rparr>"

lemma pg_tag_view_stmts [simp]: "pg_tag_view (d\<lparr>db_stmts := n\<rparr>) = pg_tag_view d"
  by (simp add: pg_tag_view_def)

lemma dom_map_entry:
  "dom (map_of (map cat_entry rs)) = c_id ` set rs"
  "dom (map_of (map tag_entry rs')) = g_id ` set rs'"
  by (simp_all add: dom_map_of_conv_image_fst image_image cat_entry_def tag_entry_def)

lemma dom_pg_tag_view [simp]:
  "dom (tv_cats (pg_tag_view d)) = c_id ` set (db_cats d)"
  "dom (tv_tags (pg_tag_view d)) = g_id ` set (db_tags d)"
  by (simp_all add: pg_tag_view_def dom_map_entry)

lemma ran_pg_cats: "ran (tv_cats (pg_tag_view d)) \<subseteq> c_name ` set (db_cats d)"
  by (auto simp: pg_tag_view_def ran_def cat_entry_def dest!: map_of_SomeD)

lemma pg_tag_found:
  assumes "db_ok env d" and "r \<in> set (db_tags d)"
  shows "tv_tags (pg_tag_view d) (g_id r) = Some (tag_Data (tag_of_row r))"
proof -
  have "distinct (map g_id (db_tags d))" using assms(1) by (simp add: db_ok_defs)
  with assms(2) have "map_of (map tag_entry (db_tags d)) (g_id r) = Some (tag_Data (tag_of_row r))"
    by (intro map_of_is_SomeI) (auto simp: comp_def tag_entry_def image_iff)
  then show ?thesis by (simp add: pg_tag_view_def)
qed

lemma tags_in_pg:
  assumes "db_ok env d"
  shows "tags_in (pg_tag_view d) c = g_id ` {r \<in> set (db_tags d). g_cat r = c}"
proof (intro equalityI subsetI)
  fix x assume "x \<in> tags_in (pg_tag_view d) c"
  then obtain dt where "map_of (map tag_entry (db_tags d)) x = Some dt" "tag_CategoryID dt = c"
    by (auto simp: tags_in_def pg_tag_view_def)
  then show "x \<in> g_id ` {r \<in> set (db_tags d). g_cat r = c}"
    by (auto simp: tag_entry_def tag_of_row_def dest!: map_of_SomeD)
next
  fix x assume "x \<in> g_id ` {r \<in> set (db_tags d). g_cat r = c}"
  then show "x \<in> tags_in (pg_tag_view d) c"
    using pg_tag_found [OF assms] by (auto simp: tags_in_def tag_of_row_def)
qed

lemma map_of_drop_rows:
  assumes "distinct (map k rs)"
  shows "map_of (map (\<lambda>r. (k r, v r)) (filter (\<lambda>r. \<not> p r) rs)) =
    map_of (map (\<lambda>r. (k r, v r)) rs) |` (- (k ` {r \<in> set rs. p r}))"
  using assms
proof (induction rs)
  case (Cons x xs)
  then have x: "k x \<notin> k ` {r \<in> set xs. p r}" by auto
  have s: "k ` {r \<in> set (x # xs). p r} =
      (if p x then insert (k x) (k ` {r \<in> set xs. p r}) else k ` {r \<in> set xs. p r})"
    by auto
  show ?case
  proof (cases "p x")
    case True
    have "map_of (map (\<lambda>r. (k r, v r)) xs) (k x) = None"
      using Cons.prems by (auto simp: map_of_eq_None_iff)
    with True Cons show ?thesis unfolding s
      by (auto simp: restrict_map_def fun_eq_iff)
  next
    case False
    with Cons x show ?thesis unfolding s
      by (auto simp: restrict_map_def fun_eq_iff)
  qed
qed simp

lemma pg_view_delete_tags:
  assumes "db_ok env d"
  shows "pg_tag_view (delete_tags p d) = drop_tags (g_id ` {r \<in> set (db_tags d). p r}) (pg_tag_view d)"
proof -
  have "distinct (map g_id (db_tags d))" using assms by (simp add: db_ok_defs)
  from map_of_drop_rows [OF this, of "\<lambda>r. tag_Data (tag_of_row r)" p] show ?thesis
    by (simp add: pg_tag_view_def delete_tags_def drop_tags_def Let_def tag_entry_def [abs_def])
qed

lemma db_ok_Suc: "db_ok env d \<Longrightarrow> db_ok env (d\<lparr>db_stmts := Suc (db_stmts d)\<rparr>)"
  by simp

text \<open>The effect of each query on the view.\<close>

lemma pg_cats_snoc:
  "i \<notin> c_id ` set (db_cats d) \<Longrightarrow>
     pg_tag_view (d\<lparr>db_cats := db_cats d @ [\<lparr>c_id = i, c_name = name\<rparr>]\<rparr>) =
     (pg_tag_view d)\<lparr>tv_cats := (tv_cats (pg_tag_view d))(i \<mapsto> name)\<rparr>"
  using map_of_snoc_new [of "(i, name)" "map cat_entry (db_cats d)"]
  by (simp add: pg_tag_view_def image_image) (simp add: cat_entry_def)

lemma pg_tags_snoc:
  "g_id r \<notin> g_id ` set (db_tags d) \<Longrightarrow>
     pg_tag_view (d\<lparr>db_tags := db_tags d @ [r]\<rparr>) =
     (pg_tag_view d)\<lparr>tv_tags := (tv_tags (pg_tag_view d))(g_id r \<mapsto> tag_Data (tag_of_row r))\<rparr>"
  using map_of_snoc_new [of "tag_entry r" "map tag_entry (db_tags d)"]
  by (simp add: pg_tag_view_def image_image) (simp add: tag_entry_def)

lemma pg_cats_update:
  assumes "db_ok env d" and "find (\<lambda>r. c_id r = i) (db_cats d) = Some r"
  shows "pg_tag_view (d\<lparr>db_cats := update_where (\<lambda>r. c_id r = i) (\<lambda>r. r\<lparr>c_name := name\<rparr>) (db_cats d)\<rparr>) =
     (pg_tag_view d)\<lparr>tv_cats := (tv_cats (pg_tag_view d))(i \<mapsto> name)\<rparr>"
  using map_of_update_rows [of c_id "\<lambda>r. r\<lparr>c_name := name\<rparr>" i "db_cats d" r c_name] assms
  by (simp add: pg_tag_view_def cat_entry_def [abs_def] db_ok_defs)

lemma pg_tags_update:
  assumes "db_ok env d" and "find (\<lambda>r. g_id r = i) (db_tags d) = Some r"
    and "\<And>r. g_id (f r) = g_id r"
  shows "pg_tag_view (d\<lparr>db_tags := update_where (\<lambda>r. g_id r = i) f (db_tags d)\<rparr>) =
     (pg_tag_view d)\<lparr>tv_tags := (tv_tags (pg_tag_view d))(i \<mapsto> tag_Data (tag_of_row (f r)))\<rparr>"
  using map_of_update_rows [of g_id f i "db_tags d" r "\<lambda>r. tag_Data (tag_of_row r)"] assms
  by (simp add: pg_tag_view_def tag_entry_def [abs_def] db_ok_defs)

lemma q_InsertTagCategory_effect:
  assumes "q_InsertTagCategory env i name d = (r, d')"
  shows "case r of
      Inl e \<Rightarrow> pg_tag_view d' = pg_tag_view d
    | Inr row \<Rightarrow> row = \<lparr>c_id = i, c_name = name\<rparr> \<and> i \<notin> c_id ` set (db_cats d) \<and>
        name \<notin> c_name ` set (db_cats d) \<and>
        pg_tag_view d' = (pg_tag_view d)\<lparr>tv_cats := (tv_cats (pg_tag_view d))(i \<mapsto> name)\<rparr>"
  using stmt_cases [OF assms [unfolded q_InsertTagCategory_def]]
    pg_cats_snoc [of i "d\<lparr>db_stmts := Suc (db_stmts d)\<rparr>" name]
  by (auto simp: Let_def split: if_splits)

lemma q_UpdateTagCategory_effect:
  assumes "db_ok env d" and "q_UpdateTagCategory env i name d = (r, d')"
  shows "case r of
      Inl e \<Rightarrow> pg_tag_view d' = pg_tag_view d
    | Inr row \<Rightarrow> i \<in> c_id ` set (db_cats d) \<and>
        pg_tag_view d' = (pg_tag_view d)\<lparr>tv_cats := (tv_cats (pg_tag_view d))(i \<mapsto> name)\<rparr>"
proof -
  let ?d = "d\<lparr>db_stmts := Suc (db_stmts d)\<rparr>"
  have "db_ok env ?d" using assms(1) by simp
  from pg_cats_update [OF this, of i] stmt_cases [OF assms(2) [unfolded q_UpdateTagCategory_def]]
  show ?thesis
    by (auto simp: Let_def split: if_splits option.splits dest: find_SomeD)
qed

lemma q_DeleteTagCategory_effect:
  assumes "q_DeleteTagCategory env i d = (r, d')"
  shows "case r of
      Inl e \<Rightarrow> pg_tag_view d' = pg_tag_view d
    | Inr _ \<Rightarrow> pg_tag_view d' = (pg_tag_view d)\<lparr>tv_cats := (tv_cats (pg_tag_view d))(i := None)\<rparr>"
  using stmt_cases [OF assms [unfolded q_DeleteTagCategory_def]]
  by (auto simp: pg_tag_view_def cat_entry_def [abs_def] map_of_filter_key split: if_splits)

lemma q_DeleteTagsByCategory_effect:
  assumes "db_ok env d" and "q_DeleteTagsByCategory env c d = (r, d')"
  shows "case r of
      Inl e \<Rightarrow> pg_tag_view d' = pg_tag_view d
    | Inr _ \<Rightarrow> pg_tag_view d' = drop_tags (tags_in (pg_tag_view d) c) (pg_tag_view d)"
  using stmt_cases [OF assms(2) [unfolded q_DeleteTagsByCategory_def]]
    pg_view_delete_tags [OF db_ok_Suc [OF assms(1)]] tags_in_pg [OF assms(1)]
  by auto

lemma q_DeleteTag_effect:
  assumes "db_ok env d" and "q_DeleteTag env i d = (r, d')"
  shows "case r of
      Inl e \<Rightarrow> pg_tag_view d' = pg_tag_view d
    | Inr _ \<Rightarrow> pg_tag_view d' = drop_tags {i} (pg_tag_view d)"
proof -
  have gone: "drop_tags (g_id ` {r \<in> set (db_tags d). g_id r = i}) (pg_tag_view d) = drop_tags {i} (pg_tag_view d)"
  proof (cases "i \<in> g_id ` set (db_tags d)")
    case True
    then have "g_id ` {r \<in> set (db_tags d). g_id r = i} = {i}" by auto
    then show ?thesis by simp
  next
    case False
    then have e: "g_id ` {r \<in> set (db_tags d). g_id r = i} = {}" by auto
    have n: "tv_tags (pg_tag_view d) i = None" using False dom_pg_tag_view(2) [of d] by (metis domIff)
    have l: "\<forall>l \<in> tv_links (pg_tag_view d). snd l \<noteq> i"
      using assms(1) False by (auto simp: pg_tag_view_def db_ok_defs)
    from n have "tv_tags (pg_tag_view d) |` (- {i}) = tv_tags (pg_tag_view d)"
      by (auto simp: restrict_map_def fun_eq_iff)
    moreover from l have "{l \<in> tv_links (pg_tag_view d). snd l \<noteq> i} = tv_links (pg_tag_view d)" by auto
    moreover have "tv_tags (pg_tag_view d) |` UNIV = tv_tags (pg_tag_view d)"
      by (simp add: restrict_map_def)
    ultimately show ?thesis unfolding e by (simp add: drop_tags_def)
  qed
  show ?thesis
    using stmt_cases [OF assms(2) [unfolded q_DeleteTag_def]]
      pg_view_delete_tags [OF db_ok_Suc [OF assms(1)]] gone
    by auto
qed

lemma q_InsertTag_effect:
  assumes "q_InsertTag env row0 d = (r, d')"
  shows "case r of
      Inl e \<Rightarrow> pg_tag_view d' = pg_tag_view d
    | Inr row \<Rightarrow> row = row0 \<and> g_id row0 \<notin> g_id ` set (db_tags d) \<and> g_cat row0 \<in> c_id ` set (db_cats d) \<and>
        pg_tag_view d' = (pg_tag_view d)\<lparr>tv_tags := (tv_tags (pg_tag_view d))(g_id row0 \<mapsto> tag_Data (tag_of_row row0))\<rparr>"
  using stmt_cases [OF assms [unfolded q_InsertTag_def]]
    pg_tags_snoc [of row0 "d\<lparr>db_stmts := Suc (db_stmts d)\<rparr>"]
  by (auto simp: Let_def split: if_splits)

lemma q_UpdateTag_effect:
  assumes "db_ok env d" and "q_UpdateTag env i name color d = (r, d')"
  shows "case r of
      Inl e \<Rightarrow> pg_tag_view d' = pg_tag_view d
    | Inr row \<Rightarrow> \<exists>old. find (\<lambda>r. g_id r = i) (db_tags d) = Some old \<and>
        row = old\<lparr>g_name := name, g_color := color\<rparr> \<and>
        pg_tag_view d' = (pg_tag_view d)\<lparr>tv_tags := (tv_tags (pg_tag_view d))(i \<mapsto> tag_Data (tag_of_row row))\<rparr>"
proof -
  let ?d = "d\<lparr>db_stmts := Suc (db_stmts d)\<rparr>"
  have "db_ok env ?d" using assms(1) by simp
  from pg_tags_update [OF this, of i _ "\<lambda>r. r\<lparr>g_name := name, g_color := color\<rparr>"]
    stmt_cases [OF assms(2) [unfolded q_UpdateTag_def]]
  show ?thesis by (auto simp: Let_def split: if_splits option.splits)
qed

lemma q_ChangeTagCategory_effect:
  assumes "db_ok env d" and "q_ChangeTagCategory env i cat d = (r, d')"
  shows "case r of
      Inl e \<Rightarrow> pg_tag_view d' = pg_tag_view d
    | Inr row \<Rightarrow> \<exists>old. find (\<lambda>r. g_id r = i) (db_tags d) = Some old \<and> cat \<in> c_id ` set (db_cats d) \<and>
        row = old\<lparr>g_cat := cat\<rparr> \<and>
        pg_tag_view d' = (pg_tag_view d)\<lparr>tv_tags := (tv_tags (pg_tag_view d))(i \<mapsto> tag_Data (tag_of_row row))\<rparr>"
proof -
  let ?d = "d\<lparr>db_stmts := Suc (db_stmts d)\<rparr>"
  have "db_ok env ?d" using assms(1) by simp
  from pg_tags_update [OF this, of i _ "\<lambda>r. r\<lparr>g_cat := cat\<rparr>"]
    stmt_cases [OF assms(2) [unfolded q_ChangeTagCategory_def]]
  show ?thesis by (auto simp: Let_def split: if_splits option.splits)
qed

lemma q_AddTagToTea_effect:
  assumes "db_ok env d" and "q_AddTagToTea env tea tg d = (r, d')"
  shows "case r of
      Inl e \<Rightarrow> pg_tag_view d' = pg_tag_view d
    | Inr _ \<Rightarrow> tg \<in> g_id ` set (db_tags d) \<and>
        pg_tag_view d' = (pg_tag_view d)\<lparr>tv_links := insert (tea, tg) (tv_links (pg_tag_view d))\<rparr>"
proof -
  have "(tea, tg) \<in> set (db_tea_tags d) \<Longrightarrow> tg \<in> g_id ` set (db_tags d)"
    using assms(1) by (fastforce simp: db_ok_defs)
  then show ?thesis
    using stmt_cases [OF assms(2) [unfolded q_AddTagToTea_def]]
    by (auto simp: pg_tag_view_def insert_absorb split: if_splits)
qed

lemma q_DeleteTagFromTea_effect:
  assumes "q_DeleteTagFromTea env tea tg d = (r, d')"
  shows "case r of
      Inl e \<Rightarrow> pg_tag_view d' = pg_tag_view d
    | Inr _ \<Rightarrow> pg_tag_view d' = (pg_tag_view d)\<lparr>tv_links := tv_links (pg_tag_view d) - {(tea, tg)}\<rparr>"
  using stmt_cases [OF assms [unfolded q_DeleteTagFromTea_def]]
  by (auto simp: pg_tag_view_def)

text \<open>The adapter's methods over these queries.\<close>

lemma db_DeleteTagCategory_effect:
  assumes "db_ok env d" and "db_DeleteTagCategory env i d = (r, d')"
  shows "case r of
      Inl e \<Rightarrow> tv_cats (pg_tag_view d') = tv_cats (pg_tag_view d) \<and> (pg_tag_view d' = pg_tag_view d \<or>
        pg_tag_view d' = drop_tags (tags_in (pg_tag_view d) i) (pg_tag_view d))
    | Inr removed \<Rightarrow> distinct removed \<and> set removed = tags_in (pg_tag_view d) i \<and>
        pg_tag_view d' = tag_spec (CDeleteCategory i) (pg_tag_view d)"
proof -
  obtain r1 d1 where q1: "q_ListTagsByCategory env i d = (r1, d1)" by fastforce
  have d1: "d1 = d\<lparr>db_stmts := Suc (db_stmts d)\<rparr>"
    using q1 by (metis q_ListTagsByCategory_def snd_conv stmt_select_rows)
  then have ok1: "db_ok env d1" using assms(1) by simp
  obtain r2 d2 where q2: "q_DeleteTagsByCategory env i d1 = (r2, d2)" by fastforce
  obtain r3 d3 where q3: "q_DeleteTagCategory env i d2 = (r3, d3)" by fastforce
  note e2 = q_DeleteTagsByCategory_effect [OF ok1 q2]
  note e3 = q_DeleteTagCategory_effect [OF q3]
  show ?thesis
  proof (cases r1)
    case (Inl e)
    with assms(2) q1 d1 show ?thesis by (auto simp: db_DeleteTagCategory_def wrapE_def bindE_def)
  next
    case (Inr rows)
    then have rows: "rows = sort_key (\<lambda>r. env_collkey env (g_name r)) (filter (\<lambda>r. g_cat r = i) (db_tags d))"
      using stmt_cases [OF q1 [unfolded q_ListTagsByCategory_def]] by auto
    have "distinct (map g_id (db_tags d))" using assms(1) by (simp add: db_ok_defs)
    then have dist: "distinct (map g_id rows)"
      unfolding rows by (simp add: distinct_map inj_on_def)
    have ids: "set (map g_id rows) = tags_in (pg_tag_view d) i"
      unfolding rows tags_in_pg [OF assms(1)] by auto
    show ?thesis
    proof (cases r2)
      case (Inl e)
      with assms(2) q1 q2 Inr e2 d1 show ?thesis
        by (auto simp: db_DeleteTagCategory_def wrapE_def bindE_def)
    next
      case (Inr u)
      with e2 d1 have v2: "pg_tag_view d2 = drop_tags (tags_in (pg_tag_view d) i) (pg_tag_view d)" by simp
      show ?thesis
        using assms(2) q1 q2 q3 \<open>r1 = Inr rows\<close> Inr e3 v2 dist ids
        by (cases r3) (auto simp: db_DeleteTagCategory_def wrapE_def bindE_def drop_tags_def)
    qed
  qed
qed

lemma pg_tag_ok:
  assumes "db_ok env d" and "tag_write (pg_tag_storage env) call d = (r, d')"
  shows "db_ok env d'"
proof -
  have "d' = snd (tag_write (pg_tag_storage env) call d)" using assms(2) by simp
  then show ?thesis
    using assms(1) by (cases call) (simp_all add: pg_tag_storage_def db_ok_intros)
qed

lemma tag_Data_old:
  assumes "db_ok env d" and "find (\<lambda>r. g_id r = i) (db_tags d) = Some old"
  shows "g_id old = i" and "i \<in> g_id ` set (db_tags d)"
    and "tv_tags (pg_tag_view d) i = Some (tag_Data (tag_of_row old))"
  using find_SomeD [OF assms(2)] pg_tag_found [OF assms(1), of old] by auto

lemma pg_tag_written:
  assumes ok: "db_ok env d" and w: "tag_write (pg_tag_storage env) call d = (Inr evs, d')"
  shows "tag_pre call (pg_tag_view d) \<and> pg_tag_view d' = tag_spec call (pg_tag_view d) \<and>
    tag_events_ok call (pg_tag_view d) evs"
proof (cases call)
  case (CCreateCategory i name)
  with w show ?thesis using ran_pg_cats [of d]
    by (auto simp: pg_tag_storage_def db_CreateTagCategory_def mapE_wrapE_runs cat_of_row_def
        dest!: q_InsertTagCategory_effect)
next
  case (CUpdateCategory i name)
  with w show ?thesis
    by (auto simp: pg_tag_storage_def db_UpdateTagCategory_def mapE_wrapE_runs
        dest!: q_UpdateTagCategory_effect [OF ok])
next
  case (CDeleteCategory i)
  with w show ?thesis
    by (auto simp: pg_tag_storage_def mapE_eq_Inr dest!: db_DeleteTagCategory_effect [OF ok])
next
  case (CCreate i name color cat)
  with w show ?thesis
    by (auto simp: pg_tag_storage_def db_CreateTag_def mapE_wrapE_runs tag_of_row_def
        dest!: q_InsertTag_effect)
next
  case (CUpdate i name color)
  with w obtain row where q: "q_UpdateTag env i name color d = (Inr row, d')"
    and evs: "evs = [GUpdate (tag_of_row row)]"
    by (auto simp: pg_tag_storage_def db_UpdateTag_def mapE_wrapE_runs)
  then obtain old where old: "find (\<lambda>r. g_id r = i) (db_tags d) = Some old"
    and row: "row = old\<lparr>g_name := name, g_color := color\<rparr>"
    and view: "pg_tag_view d' = (pg_tag_view d)\<lparr>tv_tags := (tv_tags (pg_tag_view d))(i \<mapsto> tag_Data (tag_of_row row))\<rparr>"
    using q_UpdateTag_effect [OF ok q] by auto
  from CUpdate evs row view tag_Data_old [OF ok old] show ?thesis
    by (simp add: tag_of_row_def)
next
  case (CChangeCategory i cat)
  with w obtain row where q: "q_ChangeTagCategory env i cat d = (Inr row, d')"
    and evs: "evs = [GUpdate (tag_of_row row)]"
    by (auto simp: pg_tag_storage_def db_ChangeTagCategory_def mapE_wrapE_runs)
  then obtain old where old: "find (\<lambda>r. g_id r = i) (db_tags d) = Some old"
    and row: "row = old\<lparr>g_cat := cat\<rparr>" and cat: "cat \<in> c_id ` set (db_cats d)"
    and view: "pg_tag_view d' = (pg_tag_view d)\<lparr>tv_tags := (tv_tags (pg_tag_view d))(i \<mapsto> tag_Data (tag_of_row row))\<rparr>"
    using q_ChangeTagCategory_effect [OF ok q] by auto
  from CChangeCategory evs row view cat tag_Data_old [OF ok old] show ?thesis
    by (simp add: tag_of_row_def)
next
  case (CDelete i)
  with w show ?thesis
    by (auto simp: pg_tag_storage_def db_DeleteTag_def mapE_wrapE_runs dest!: q_DeleteTag_effect [OF ok])
next
  case (CAddTagToTea tea tg)
  with w show ?thesis
    by (auto simp: pg_tag_storage_def db_AddTagToTea_def mapE_wrapE_runs
        dest!: q_AddTagToTea_effect [OF ok])
next
  case (CDeleteTagFromTea tea tg)
  with w show ?thesis
    by (auto simp: pg_tag_storage_def db_DeleteTagFromTea_def mapE_wrapE_runs
        dest!: q_DeleteTagFromTea_effect)
qed

lemma pg_tag_refused:
  assumes ok: "db_ok env d" and w: "tag_write (pg_tag_storage env) call d = (Inl e, d')"
  shows "tv_cats (pg_tag_view d') = tv_cats (pg_tag_view d) \<and> (pg_tag_view d' = pg_tag_view d \<or>
    (\<exists>i. call = CDeleteCategory i \<and> pg_tag_view d' = drop_tags (tags_in (pg_tag_view d) i) (pg_tag_view d)))"
proof (cases "\<exists>i. call = CDeleteCategory i")
  case True
  with w show ?thesis
    by (auto simp: pg_tag_storage_def mapE_def split: prod.splits sum.splits
        dest!: db_DeleteTagCategory_effect [OF ok])
next
  case False
  with w have "pg_tag_view d' = pg_tag_view d"
    by (cases call) (auto simp: pg_tag_storage_def db_CreateTagCategory_def db_UpdateTagCategory_def
        db_CreateTag_def db_UpdateTag_def db_ChangeTagCategory_def db_DeleteTag_def db_AddTagToTea_def
        db_DeleteTagFromTea_def mapE_wrapE_runs
        dest!: q_InsertTagCategory_effect q_UpdateTagCategory_effect [OF ok] q_InsertTag_effect
          q_UpdateTag_effect [OF ok] q_ChangeTagCategory_effect [OF ok] q_DeleteTag_effect [OF ok]
          q_AddTagToTea_effect [OF ok] q_DeleteTagFromTea_effect)
  then show ?thesis by simp
qed

lemma db_GetTagCategory_effect:
  assumes "db_ok env d" and "db_GetTagCategory env i d = (Inr c, d')"
  shows "cat_ID c = i \<and> tv_cats (pg_tag_view d) i = Some (cat_Name c)"
proof -
  obtain row where "q_GetTagCategory env i d = (Inr row, d')" and c: "c = cat_of_row row"
    using assms(2)
    by (auto simp: db_GetTagCategory_def mapE_eq_Inr not_found_or_def split: prod.splits sum.splits)
  then have "find (\<lambda>r. c_id r = i) (db_cats d) = Some row"
    using stmt_cases [of env _ d "Inr row" d'] unfolding q_GetTagCategory_def
    by (fastforce simp: select_one_def split: option.splits)
  then have "row \<in> set (db_cats d)" "c_id row = i" using find_SomeD by fast+
  moreover have "distinct (map c_id (db_cats d))" using assms(1) by (simp add: db_ok_defs)
  ultimately have "map_of (map cat_entry (db_cats d)) i = Some (c_name row)"
    by (intro map_of_is_SomeI) (auto simp: comp_def cat_entry_def image_iff)
  with c \<open>c_id row = i\<close> show ?thesis by (simp add: pg_tag_view_def cat_of_row_def)
qed

interpretation pg_tag: tag_storage_laws "pg_tag_storage env" "db_ok env" pg_tag_view
proof
  show "db_ok env s \<Longrightarrow> tag_write (pg_tag_storage env) call s = (Inr evs, s') \<Longrightarrow>
      db_ok env s' \<and> tag_pre call (pg_tag_view s) \<and> pg_tag_view s' = tag_spec call (pg_tag_view s) \<and>
      tag_events_ok call (pg_tag_view s) evs" for s call evs s'
    using pg_tag_ok pg_tag_written by blast
  show "db_ok env s \<Longrightarrow> tag_write (pg_tag_storage env) call s = (Inl e, s') \<Longrightarrow>
      db_ok env s' \<and> tv_cats (pg_tag_view s') = tv_cats (pg_tag_view s) \<and>
      (pg_tag_view s' = pg_tag_view s \<or> (\<exists>i. call = CDeleteCategory i \<and>
        pg_tag_view s' = drop_tags (tags_in (pg_tag_view s) i) (pg_tag_view s)))" for s call e s'
    using pg_tag_ok pg_tag_refused by blast
  show "db_ok env s \<Longrightarrow> gs_GetTagCategory (pg_tag_storage env) i s = (Inr c, s') \<Longrightarrow>
      cat_ID c = i \<and> tv_cats (pg_tag_view s) i = Some (cat_Name c)" for s i c s'
    using db_GetTagCategory_effect by (simp add: pg_tag_storage_def)
qed

section \<open>Calls of the manager\<close>

text \<open>
  C24. Every writing call of the tag manager over the Postgres store either succeeds, and
  then the tags, categories and links change as specified and exactly the announcements of
  that change are queued or left to the waiting caller (for a deleted category one per tag
  it had and one for the category), or fails, and then nothing is announced and nothing
  changed, except that a failed deletion of a category may have removed its tags.
\<close>

theorem tag_call_refines:
  assumes "db_ok env (gm_store m)" and "tag_exec (pg_tag_storage env) call m = (err, rest, m')"
  shows "db_ok env (gm_store m') \<and>
    (case err of
      None \<Rightarrow> tag_pre call (pg_tag_view (gm_store m)) \<and>
        pg_tag_view (gm_store m') = tag_spec call (pg_tag_view (gm_store m)) \<and>
        (\<exists>evs. tag_events_ok call (pg_tag_view (gm_store m)) evs \<and>
           mset (tag_queued m') + mset rest = mset (tag_queued m) + mset evs)
    | Some e \<Rightarrow> rest = [] \<and> tag_queued m' = tag_queued m \<and>
        (pg_tag_view (gm_store m') = pg_tag_view (gm_store m) \<or> (\<exists>i. call = CDeleteCategory i \<and>
           pg_tag_view (gm_store m') =
             drop_tags (tags_in (pg_tag_view (gm_store m)) i) (pg_tag_view (gm_store m)))))"
  using pg_tag.exec_refines [OF assms] by (cases err) auto

theorem tag_call_refines_witness:
  "tv_cats (pg_tag_view (gm_store (snd (snd (tag_exec (pg_tag_storage env0)
     (CCreateCategory 1 ''color'') (tag_NewManager empty_db)))))) 1 = Some ''color''"
proof -
  let ?m = "tag_NewManager empty_db"
  obtain err rest m' where e: "tag_exec (pg_tag_storage env0) (CCreateCategory 1 ''color'') ?m = (err, rest, m')"
    by (metis prod_cases3)
  moreover have "db_ok env0 (gm_store ?m)" by (simp add: tag_NewManager_def db_ok_empty)
  moreover have "err = None"
    using e by (simp add: tag_CreateCategory_def tag_op_def pg_tag_storage_def db_CreateTagCategory_def
        mapE_def wrapE_def q_InsertTagCategory_def Let_def tag_NewManager_def empty_db_def defaultChanSize_def)
  ultimately have "pg_tag_view (gm_store m') = tag_spec (CCreateCategory 1 ''color'') (pg_tag_view (gm_store ?m))"
    using tag_call_refines [of env0 ?m "CCreateCategory 1 ''color''" err rest m'] by simp
  with e show ?thesis by simp
qed

section \<open>Turns of the loop\<close>

fun tag_audience :: "tag_event \<Rightarrow> 's tag_manager \<Rightarrow> subscriber list" where
  "tag_audience (GCreate _) m = gm_createSubscribers m"
| "tag_audience (GUpdate _) m = gm_updateSubscribers m"
| "tag_audience (GDelete _) m = gm_deleteSubscribers m"
| "tag_audience (GCreateCategory _) m = gm_createSubscribersCategory m"
| "tag_audience (GUpdateCategory _) m = gm_updateSubscribersCategory m"
| "tag_audience (GDeleteCategory _) m = gm_deleteSubscribersCategory m"
| "tag_audience (GAddTagToTea _) m = gm_addTagToTeaSubscribers m"
| "tag_audience (GDeleteTagFromTea _) m = gm_deleteTagToTeaSubscribers m"

text \<open>The message of an announcement, read from the storage at the time of the turn.\<close>

fun tag_content ::
  "'s tag_storage \<Rightarrow> (uuid \<Rightarrow> ('s, Tea) act) \<Rightarrow> tag_event \<Rightarrow> 's \<Rightarrow> tag_message option" where
  "tag_content st tea_get (GCreate tg) s =
     (case fst (gs_GetTagCategory st (tag_CategoryID (tag_Data tg)) s) of
        Inl _ \<Rightarrow> None | Inr cat \<Rightarrow> Some (MsgTag (graph_tag tg cat)))"
| "tag_content st tea_get (GUpdate tg) s =
     (case fst (gs_GetTagCategory st (tag_CategoryID (tag_Data tg)) s) of
        Inl _ \<Rightarrow> None | Inr cat \<Rightarrow> Some (MsgTag (graph_tag tg cat)))"
| "tag_content st tea_get (GDelete i) s = Some (MsgTagID i)"
| "tag_content st tea_get (GCreateCategory c) s = Some (MsgCategory (graph_category c))"
| "tag_content st tea_get (GUpdateCategory c) s = Some (MsgCategory (graph_category c))"
| "tag_content st tea_get (GDeleteCategory i) s = Some (MsgTagID i)"
| "tag_content st tea_get (GAddTagToTea i) s =
     (case fst (tea_get i s) of Inl _ \<Rightarrow> None | Inr tea \<Rightarrow> Some (MsgTagTea (FromCommonTea tea)))"
| "tag_content st tea_get (GDeleteTagFromTea i) s =
     (case fst (tea_get i s) of Inl _ \<Rightarrow> None | Inr tea \<Rightarrow> Some (MsgTagTea (FromCommonTea tea)))"

definition tag_subscriptions :: "'s tag_manager \<Rightarrow> subscriber list list" where
  "tag_subscriptions m =
     [gm_createSubscribers m, gm_updateSubscribers m, gm_deleteSubscribers m,
      gm_createSubscribersCategory m, gm_updateSubscribersCategory m, gm_deleteSubscribersCategory m,
      gm_addTagToTeaSubscribers m, gm_deleteTagToTeaSubscribers m]"

lemma tag_receive_result:
  assumes "tag_receive k m = Some (ev, m1)"
  shows "mset (tag_queued m) = add_mset ev (mset (tag_queued m1)) \<and> gm_store m1 = gm_store m \<and>
    tag_subscriptions m1 = tag_subscriptions m \<and> tag_audience e m1 = tag_audience e m"
proof -
  have pop: "pop_with f q upd = Some (ev, m1) \<Longrightarrow> \<exists>x q'. q = x # q' \<and> ev = f x \<and> m1 = upd q'" for f q and upd :: "_ \<Rightarrow> 'a tag_manager"
    by (cases q) auto
  have "mset (tag_queued m) = add_mset ev (mset (tag_queued m1)) \<and> gm_store m1 = gm_store m \<and>
      tag_subscriptions m1 = tag_subscriptions m"
    using assms by (cases k) (auto dest!: pop simp: tag_queued_def tag_subscriptions_def)
  moreover from this have "tag_audience e m1 = tag_audience e m"
    by (cases e) (simp_all add: tag_subscriptions_def)
  ultimately show ?thesis by blast
qed

text \<open>
  What a turn sends when the content of the message is known: the audience is served in order up
  to the first receiver that does not come, which holds the loop.
\<close>

definition tag_sent :: "(chan_id \<Rightarrow> bool) \<Rightarrow> tag_message option \<Rightarrow> subscriber list \<Rightarrow> sent" where
  "tag_sent ready content subs =
     (case content of
        None \<Rightarrow> ([], True)
      | Some msg \<Rightarrow> (map (\<lambda>s. (sub_ch s, msg)) (takeWhile (\<lambda>s. ready (sub_ch s)) subs),
                    \<forall>s \<in> set subs. ready (sub_ch s)))"

lemma as_msg_SendAll: "as_msg f (SendAll ready subs m) = tag_sent ready (Some (f m)) subs"
  by (simp add: as_msg_def tag_sent_def SendAll_delivered SendAll_returns_iff)

lemma tag_handle_result:
  assumes "tag_handle st tea_get ready ev m = (r, m')"
  shows "r = tag_sent ready (tag_content st tea_get ev (gm_store m)) (tag_audience ev m) \<and>
    tag_queued m' = tag_queued m \<and> tag_subscriptions m' = tag_subscriptions m"
  using assms
  by (cases ev) (auto simp: handleCreateTag_def handleUpdateTag_def handleTeaTagChange_def
      typed_subscribers_defs as_msg_SendAll tag_subscriptions_def tag_sent_def
      split: prod.splits sum.splits)

lemma cleanAll_result:
  "tag_queued (cleanAll fin m) = tag_queued m"
  "map set (tag_subscriptions (cleanAll fin m)) =
     map (\<lambda>l. {s \<in> set l. \<not> fin (sub_ctx s)}) (tag_subscriptions m)"
  by (simp_all add: cleanAll_def tag_queued_def tag_subscriptions_def typed_subscribers_defs)

text \<open>
  C25. One turn of the loop takes exactly one announcement, of the channel it chose, and hands the
  message to the subscribers of its kind, in order, up to the first whose receiver does not
  come, and to nobody else. The message of a created or updated tag carries the category as it
  is stored at that moment, and where the category or the tea is gone the announcement is
  dropped. The turn returns exactly if the announcement was dropped or every receiver came; then
  each of the eight lists has lost exactly the subscribers whose context is done, otherwise the
  loop is held there and all lists are as they were.
\<close>

theorem tag_turn_delivers:
  assumes "tag_loop st tea_get ready fin k m = Some (ev, (out, ret), m')"
  shows "mset (tag_queued m) = add_mset ev (mset (tag_queued m')) \<and>
    out = (case tag_content st tea_get ev (gm_store m) of
      None \<Rightarrow> []
    | Some msg \<Rightarrow> map (\<lambda>s. (sub_ch s, msg)) (takeWhile (\<lambda>s. ready (sub_ch s)) (tag_audience ev m))) \<and>
    (ret \<longleftrightarrow> tag_content st tea_get ev (gm_store m) = None \<or>
       takeWhile (\<lambda>s. ready (sub_ch s)) (tag_audience ev m) = tag_audience ev m) \<and>
    map set (tag_subscriptions m') =
      map (\<lambda>l. if ret then {s \<in> set l. \<not> fin (sub_ctx s)} else set l) (tag_subscriptions m)"
proof -
  obtain m1 where r: "tag_receive k m = Some (ev, m1)"
    using assms by (auto simp: tag_loop_def split: option.splits prod.splits)
  obtain m2 where h: "tag_handle st tea_get ready ev m1 = ((out, ret), m2)"
    and m': "m' = (if ret then cleanAll fin m2 else m2)"
    using assms r by (auto simp: tag_loop_def split: prod.splits)
  note q = tag_receive_result [OF r, of ev] and s = tag_handle_result [OF h]
  have "(out, ret) = tag_sent ready (tag_content st tea_get ev (gm_store m)) (tag_audience ev m)"
    using q s by simp
  then have "out = (case tag_content st tea_get ev (gm_store m) of None \<Rightarrow> []
      | Some msg \<Rightarrow> map (\<lambda>s. (sub_ch s, msg)) (takeWhile (\<lambda>s. ready (sub_ch s)) (tag_audience ev m)))"
    and "ret \<longleftrightarrow> tag_content st tea_get ev (gm_store m) = None \<or>
      takeWhile (\<lambda>s. ready (sub_ch s)) (tag_audience ev m) = tag_audience ev m"
    by (auto simp: tag_sent_def takeWhile_eq_all_conv split: option.splits)
  moreover have "map set (tag_subscriptions m') =
      map (\<lambda>l. if ret then {s \<in> set l. \<not> fin (sub_ctx s)} else set l) (tag_subscriptions m)"
    using q s m' by (cases ret) (simp_all add: cleanAll_result)
  moreover have "mset (tag_queued m) = add_mset ev (mset (tag_queued m'))"
    using q s m' by (simp add: cleanAll_result)
  ultimately show ?thesis by blast
qed

text \<open>Of three subscribers the second has no receiver: the first is served, the loop is held.\<close>

theorem tag_turn_delivers_witness:
  "\<exists>m'. tag_loop (pg_tag_storage env0) (db_ReadRecord env0) (\<lambda>ch. ch \<noteq> 4) (\<lambda>_. True) OnDelete
     ((tag_NewManager empty_db)\<lparr>gm_delete := [3], gm_deleteSubscribers :=
        [\<lparr>sub_ctx = 1, sub_ch = 2\<rparr>, \<lparr>sub_ctx = 3, sub_ch = 4\<rparr>, \<lparr>sub_ctx = 5, sub_ch = 6\<rparr>]\<rparr>) =
     Some (GDelete 3, ([(2, MsgTagID 3)], False), m') \<and> sub_ch ` (\<Union> (set (map set (tag_subscriptions m')))) = {2, 4, 6}"
proof -
  let ?subs = "[\<lparr>sub_ctx = 1, sub_ch = 2\<rparr>, \<lparr>sub_ctx = 3, sub_ch = 4\<rparr>, \<lparr>sub_ctx = 5, sub_ch = 6\<rparr>]"
  let ?m = "(tag_NewManager empty_db)\<lparr>gm_delete := [3], gm_deleteSubscribers := ?subs\<rparr>"
  obtain out ret m' where l: "tag_loop (pg_tag_storage env0) (db_ReadRecord env0) (\<lambda>ch. ch \<noteq> 4) (\<lambda>_. True)
      OnDelete ?m = Some (GDelete 3, (out, ret), m')"
    by (simp add: tag_loop_def as_msg_def split: prod.splits)
  note t = tag_turn_delivers [OF l]
  then have "out = [(2, MsgTagID 3)]" and r: "\<not> ret" by simp_all
  moreover have "sub_ch ` (\<Union> (set (map set (tag_subscriptions m')))) = {2, 4, 6}"
    using t r by (simp add: tag_subscriptions_def tag_NewManager_def)
  ultimately show ?thesis using l by simp
qed

end
