(* ===== verification/Collection_Manager.thy ===== *)
theory Collection_Manager
  imports Tag_Manager
begin

text \<open>
  The collection manager (\<open>internal/managers/collection\<close>): a collection belongs to a user
  and lists QR records. The manager checks that the collection belongs to the user before it
  changes or lists its records. The storage is the interface \<open>collection_storage\<close> with
  the locale \<open>collection_storage_laws\<close>, interpreted on the Postgres adapter; the main
  lemma is that a call of one user never touches a collection of another.
\<close>

record 's collection_storage =
  cs_CreateCollection :: "uuid \<Rightarrow> uuid \<Rightarrow> string \<Rightarrow> ('s, uuid) act"
  cs_AddTeaToCollection :: "uuid \<Rightarrow> uuid list \<Rightarrow> ('s, unit) act"
  cs_DeleteTeaFromCollection :: "uuid \<Rightarrow> uuid list \<Rightarrow> ('s, unit) act"
  cs_DeleteCollection :: "uuid \<Rightarrow> uuid \<Rightarrow> ('s, unit) act"
  cs_Collections :: "uuid \<Rightarrow> ('s, Collection list) act"
  cs_Collection :: "uuid \<Rightarrow> uuid \<Rightarrow> ('s, Collection) act"
  cs_CollectionRecords :: "uuid \<Rightarrow> ('s, CollectionRecord list) act"

section \<open>The manager\<close>

definition graph_record :: "CollectionRecord \<Rightarrow> QRRecord" where
  "graph_record r =
     \<lparr>qrr_ID = cr_ID r, qrr_Tea = Some (FromCommonTea (cr_Tea r)),
      qrr_BowlingTemp = cr_BowlingTemp r, qrr_ExpirationDate = cr_ExpirationDate r\<rparr>"

definition coll_ListRecords :: "'s collection_storage \<Rightarrow> uuid \<Rightarrow> uuid \<Rightarrow> ('s, QRRecord list) act" where
  "coll_ListRecords st i userID =
     bindE (cs_Collection st i userID) (\<lambda>_.
     bindE (cs_CollectionRecords st i) (\<lambda>records.
     returnE (map graph_record records)))"

definition coll_Create ::
  "'s collection_storage \<Rightarrow> uuid \<Rightarrow> uuid \<Rightarrow> string \<Rightarrow> ('s, GCollection) act" where
  "coll_Create st fresh userID name =
     bindE (cs_CreateCollection st fresh userID name) (\<lambda>i.
     returnE \<lparr>gcol_ID = i, gcol_Name = name, gcol_UserID = userID\<rparr>)"

definition coll_AddRecords ::
  "'s collection_storage \<Rightarrow> uuid \<Rightarrow> uuid \<Rightarrow> uuid list \<Rightarrow> ('s, GCollection) act" where
  "coll_AddRecords st userID i teas =
     bindE (cs_Collection st i userID) (\<lambda>_.
     bindE (cs_AddTeaToCollection st i teas) (\<lambda>_.
     bindE (cs_Collection st i userID) (\<lambda>collection.
     returnE \<lparr>gcol_ID = i, gcol_Name = col_Name collection, gcol_UserID = userID\<rparr>)))"

definition coll_DeleteRecords ::
  "'s collection_storage \<Rightarrow> uuid \<Rightarrow> uuid \<Rightarrow> uuid list \<Rightarrow> ('s, GCollection) act" where
  "coll_DeleteRecords st userID i teas =
     bindE (cs_Collection st i userID) (\<lambda>_.
     bindE (cs_DeleteTeaFromCollection st i teas) (\<lambda>_.
     bindE (cs_Collection st i userID) (\<lambda>collection.
     returnE \<lparr>gcol_ID = i, gcol_Name = col_Name collection, gcol_UserID = userID\<rparr>)))"

definition coll_Delete :: "'s collection_storage \<Rightarrow> uuid \<Rightarrow> uuid \<Rightarrow> ('s, unit) act" where
  "coll_Delete st userID i = cs_DeleteCollection st i userID"

definition coll_List :: "'s collection_storage \<Rightarrow> uuid \<Rightarrow> ('s, GCollection list) act" where
  "coll_List st userID =
     bindE (cs_Collections st userID) (\<lambda>list.
     returnE (map (\<lambda>col. \<lparr>gcol_ID = col_ID col, gcol_Name = col_Name col, gcol_UserID = userID\<rparr>) list))"

text \<open>The calls of a user.\<close>

datatype coll_call =
    CollCreate uuid string | CollAdd uuid "uuid list" | CollRemove uuid "uuid list"
  | CollDelete uuid | CollList | CollRecords uuid

fun coll_exec :: "'s collection_storage \<Rightarrow> uuid \<Rightarrow> coll_call \<Rightarrow> 's \<Rightarrow> 's" where
  "coll_exec st user (CollCreate fresh name) s = snd (coll_Create st fresh user name s)"
| "coll_exec st user (CollAdd i teas) s = snd (coll_AddRecords st user i teas s)"
| "coll_exec st user (CollRemove i teas) s = snd (coll_DeleteRecords st user i teas s)"
| "coll_exec st user (CollDelete i) s = snd (coll_Delete st user i s)"
| "coll_exec st user CollList s = snd (coll_List st user s)"
| "coll_exec st user (CollRecords i) s = snd (coll_ListRecords st i user s)"

section \<open>What the storage promises\<close>

text \<open>
  The abstract collections: each with its owner and name, and the records it lists. The laws
  hold whether the operation succeeds or fails.
\<close>

record coll_view =
  cv_colls :: "uuid \<Rightarrow> (uuid \<times> string) option"
  cv_items :: "(uuid \<times> uuid) set"

definition same_for :: "(uuid \<Rightarrow> bool) \<Rightarrow> coll_view \<Rightarrow> coll_view \<Rightarrow> bool" where
  "same_for P v w \<longleftrightarrow>
     (\<forall>c. P c \<longrightarrow> cv_colls w c = cv_colls v c \<and> (\<forall>x. (c, x) \<in> cv_items w \<longleftrightarrow> (c, x) \<in> cv_items v))"

lemma same_for_refl [simp]: "same_for P v v"
  by (simp add: same_for_def)

lemma same_for_trans: "same_for P u v \<Longrightarrow> same_for P v w \<Longrightarrow> same_for P u w"
  by (simp add: same_for_def)

locale collection_storage_laws =
  fixes st :: "'s collection_storage"
    and invar :: "'s \<Rightarrow> bool"
    and view :: "'s \<Rightarrow> coll_view"
  assumes reads_only: "view (snd (cs_Collection st i u s)) = view s"
      "view (snd (cs_Collections st u s)) = view s"
      "view (snd (cs_CollectionRecords st i s)) = view s"
    and owned: "invar s \<Longrightarrow> cs_Collection st i u s = (Inr c, s') \<Longrightarrow>
      col_ID c = i \<and> cv_colls (view s) i = Some (u, col_Name c)"
    and create_local: "cs_CreateCollection st i u name s = (r, s') \<Longrightarrow>
      same_for (\<lambda>c. c \<noteq> i \<or> c \<in> dom (cv_colls (view s))) (view s) (view s')"
    and created: "cs_CreateCollection st i u name s = (Inr j, s') \<Longrightarrow>
      j = i \<and> i \<notin> dom (cv_colls (view s)) \<and> cv_colls (view s') = (cv_colls (view s))(i \<mapsto> (u, name))"
    and add_local: "same_for (\<lambda>c. c \<noteq> i) (view s) (view (snd (cs_AddTeaToCollection st i teas s)))"
    and remove_local: "same_for (\<lambda>c. c \<noteq> i) (view s) (view (snd (cs_DeleteTeaFromCollection st i teas s)))"
    and delete_local: "invar s \<Longrightarrow> same_for (\<lambda>c. c \<noteq> i \<or> (\<nexists>name. cv_colls (view s) i = Some (u, name)))
      (view s) (view (snd (cs_DeleteCollection st i u s)))"
begin

text \<open>An operation after the check that the collection is the user's.\<close>

lemma guarded_local:
  assumes "\<And>s. same_for (\<lambda>c. c \<noteq> i) (view s) (view (snd (body s)))"
    and "\<And>x s. view (snd (rest x s)) = view s" and "invar s"
    and "\<And>name. cv_colls (view s) c \<noteq> Some (u, name)"
  shows "same_for (\<lambda>d. d = c) (view s)
    (view (snd (bindE (cs_Collection st i u) (\<lambda>_. bindE body rest) s)))"
proof -
  obtain r s1 where g: "cs_Collection st i u s = (r, s1)" by fastforce
  have v1: "view s1 = view s" using reads_only(1) [of i u s] g by simp
  show ?thesis
  proof (cases r)
    case (Inl e)
    with g v1 show ?thesis by simp
  next
    case (Inr x)
    with g owned assms(3) have "cv_colls (view s) i = Some (u, col_Name x)" by blast
    with assms(4) have ic: "c \<noteq> i" by auto
    obtain r2 s2 where b: "body s1 = (r2, s2)" by fastforce
    have "same_for (\<lambda>c. c \<noteq> i) (view s1) (view s2)" using assms(1) [of s1] b by simp
    with ic have "same_for (\<lambda>d. d = c) (view s) (view s2)" by (auto simp: same_for_def v1)
    moreover have "view (snd (bindE (cs_Collection st i u) (\<lambda>_. bindE body rest) s)) = view s2"
      using g Inr b assms(2) by (cases r2) simp_all
    ultimately show ?thesis by simp
  qed
qed

lemma reload_view: "view (snd (bindE (cs_Collection st i u) (\<lambda>x. returnE (f x)) s)) = view s"
  using reads_only(1) [of i u s] by (auto simp: bindE_def split: prod.splits sum.splits)

lemma foreign_untouched:
  assumes "invar s" and "c \<in> dom (cv_colls (view s))" and "\<And>name. cv_colls (view s) c \<noteq> Some (u, name)"
  shows "same_for (\<lambda>d. d = c) (view s) (view (coll_exec st u call s))"
proof (cases call)
  case (CollCreate i name)
  obtain r s' where r: "cs_CreateCollection st i u name s = (r, s')" by fastforce
  from create_local [OF r] assms(2) have "same_for (\<lambda>d. d = c) (view s) (view s')"
    by (auto simp: same_for_def)
  moreover have "coll_exec st u call s = s'"
    using CollCreate r by (cases r) (simp_all add: coll_Create_def)
  ultimately show ?thesis by simp
next
  case (CollAdd i teas)
  then show ?thesis
    using guarded_local [OF add_local [of i _ teas] reload_view assms(1,3)]
    by (simp add: coll_AddRecords_def)
next
  case (CollRemove i teas)
  then show ?thesis
    using guarded_local [OF remove_local [of i _ teas] reload_view assms(1,3)]
    by (simp add: coll_DeleteRecords_def)
next
  case (CollDelete i)
  have "c \<noteq> i \<or> (\<nexists>name. cv_colls (view s) i = Some (u, name))" using assms(3) by auto
  with delete_local [OF assms(1), where i = i and u = u] CollDelete show ?thesis
    by (simp add: same_for_def coll_Delete_def)
next
  case CollList
  have "view (snd (coll_List st u s)) = view s"
    using reads_only(2) [of u s] by (auto simp: coll_List_def bindE_def split: prod.splits sum.splits)
  with CollList show ?thesis by simp
next
  case (CollRecords i)
  have "view (snd (coll_ListRecords st i u s)) = view s"
    using reads_only(1) [of i u s] reads_only(3) [of i]
    by (auto simp: coll_ListRecords_def bindE_def split: prod.splits sum.splits)
      (metis snd_conv)+
  with CollRecords show ?thesis by simp
qed

text \<open>What a user lists belongs to the user.\<close>

lemma listed_owned:
  assumes "invar s" and "coll_ListRecords st i u s = (Inr recs, s')"
  shows "\<exists>name. cv_colls (view s) i = Some (u, name)"
proof -
  obtain c s1 where "cs_Collection st i u s = (Inr c, s1)"
    using assms(2) by (auto simp: coll_ListRecords_def bindE_eq_Inr)
  with owned assms(1) show ?thesis by blast
qed

end

section \<open>The Postgres adapter\<close>

definition pg_collection_storage :: "pg_env \<Rightarrow> pgdb collection_storage" where
  "pg_collection_storage env =
     \<lparr>cs_CreateCollection = db_CreateCollection env, cs_AddTeaToCollection = db_AddTeaToCollection env,
      cs_DeleteTeaFromCollection = db_DeleteTeaFromCollection env,
      cs_DeleteCollection = db_DeleteCollection env, cs_Collections = db_Collections env,
      cs_Collection = db_Collection env, cs_CollectionRecords = db_CollectionRecords env\<rparr>"

definition coll_entry :: "coll_row \<Rightarrow> uuid \<times> uuid \<times> string" where
  "coll_entry r = (k_id r, k_user r, k_name r)"

definition pg_coll_view :: "pgdb \<Rightarrow> coll_view" where
  "pg_coll_view d = \<lparr>cv_colls = map_of (map coll_entry (db_colls d)), cv_items = set (db_items d)\<rparr>"

lemma pg_coll_view_stmts [simp]: "pg_coll_view (d\<lparr>db_stmts := n\<rparr>) = pg_coll_view d"
  by (simp add: pg_coll_view_def)

lemma dom_pg_colls: "dom (cv_colls (pg_coll_view d)) = k_id ` set (db_colls d)"
  by (simp add: pg_coll_view_def dom_map_of_conv_image_fst image_image coll_entry_def)

lemma pg_coll_reads:
  "pg_coll_view (snd (db_Collection env i u d)) = pg_coll_view d"
  "pg_coll_view (snd (db_Collections env u d)) = pg_coll_view d"
  "pg_coll_view (snd (db_CollectionRecords env i d)) = pg_coll_view d"
  by (simp_all add: db_Collection_def db_Collections_def db_CollectionRecords_def q_GetCollection_def
      q_ListCollections_def q_ListCollectionRecords_def)

lemma pg_coll_found:
  assumes "db_ok env d" and "r \<in> set (db_colls d)"
  shows "cv_colls (pg_coll_view d) (k_id r) = Some (k_user r, k_name r)"
proof -
  have "distinct (map k_id (db_colls d))" using assms(1) by (simp add: db_ok_defs)
  with assms(2) have "map_of (map coll_entry (db_colls d)) (k_id r) = Some (k_user r, k_name r)"
    by (intro map_of_is_SomeI) (auto simp: comp_def coll_entry_def image_iff)
  then show ?thesis by (simp add: pg_coll_view_def)
qed

lemma db_Collection_effect:
  assumes "db_ok env d" and "db_Collection env i u d = (Inr c, d')"
  shows "col_ID c = i \<and> cv_colls (pg_coll_view d) i = Some (u, col_Name c)"
proof -
  obtain row where "q_GetCollection env i u d = (Inr row, d')"
    and c: "c = \<lparr>col_ID = k_id row, col_Name = k_name row\<rparr>"
    using assms(2) unfolding db_Collection_def mapE_wrapE_Inr by blast
  then have "find (\<lambda>r. k_id r = i \<and> k_user r = u) (db_colls d) = Some row"
    using stmt_cases [of env _ d "Inr row" d'] unfolding q_GetCollection_def
    by (fastforce simp: select_one_def split: option.splits)
  from find_SomeD [OF this] pg_coll_found [OF assms(1), of row] c show ?thesis by auto
qed

lemma db_CreateCollection_effect:
  assumes "db_CreateCollection env i u name d = (r, d')"
  shows "case r of
      Inl e \<Rightarrow> pg_coll_view d' = pg_coll_view d
    | Inr j \<Rightarrow> j = i \<and> i \<notin> dom (cv_colls (pg_coll_view d)) \<and> cv_items (pg_coll_view d') = cv_items (pg_coll_view d) \<and>
        cv_colls (pg_coll_view d') = (cv_colls (pg_coll_view d))(i \<mapsto> (u, name))"
proof -
  obtain r0 where q: "q_InsertCollection env i u name d = (r0, d')"
    and r: "r = (case r0 of Inl e \<Rightarrow> Inl (Wrap ''insert collection'' e) | Inr row \<Rightarrow> Inr (k_id row))"
    using assms by (auto simp: db_CreateCollection_def mapE_def wrapE_def split: prod.splits sum.splits)
  have snoc: "i \<notin> k_id ` set (db_colls d) \<Longrightarrow> map_of (map coll_entry (db_colls d) @ [(i, u, name)]) =
      (map_of (map coll_entry (db_colls d)))(i \<mapsto> (u, name))"
    using map_of_snoc_new [of "(i, u, name)" "map coll_entry (db_colls d)"]
    by (simp add: image_image coll_entry_def)
  have none: "i \<notin> k_id ` set (db_colls d) \<Longrightarrow> map_of (map coll_entry (db_colls d)) i = None"
    by (simp add: map_of_eq_None_iff image_image coll_entry_def)
  from stmt_cases [OF q [unfolded q_InsertCollection_def]] r snoc none show ?thesis
    by (auto simp: Let_def dom_pg_colls pg_coll_view_def coll_entry_def split: if_splits simp del: map_of_append)
qed

lemma db_AddTeaToCollection_local:
  "same_for (\<lambda>c. c \<noteq> i) (pg_coll_view d) (pg_coll_view (snd (db_AddTeaToCollection env i teas d)))"
  by (auto simp: db_AddTeaToCollection_def q_InsertCollectionItems_def stmt_def Let_def same_for_def
      pg_coll_view_def)

lemma db_DeleteTeaFromCollection_local:
  "same_for (\<lambda>c. c \<noteq> i) (pg_coll_view d) (pg_coll_view (snd (db_DeleteTeaFromCollection env i teas d)))"
  unfolding db_DeleteTeaFromCollection_def
proof (rule forE_pres [where P = "\<lambda>d'. same_for (\<lambda>c. c \<noteq> i) (pg_coll_view d) (pg_coll_view d')"])
  show "same_for (\<lambda>c. c \<noteq> i) (pg_coll_view d)
      (pg_coll_view (snd (wrapE ''delete qr from collection'' (q_DeleteCollectionItem env i x) s)))"
    if "same_for (\<lambda>c. c \<noteq> i) (pg_coll_view d) (pg_coll_view s)" for x s
    using that by (auto simp: q_DeleteCollectionItem_def stmt_def Let_def same_for_def pg_coll_view_def)
qed simp

lemma db_DeleteCollection_local:
  assumes "db_ok env d"
  shows "same_for (\<lambda>c. c \<noteq> i \<or> (\<nexists>name. cv_colls (pg_coll_view d) i = Some (u, name)))
    (pg_coll_view d) (pg_coll_view (snd (db_DeleteCollection env i u d)))"
proof -
  have dist: "distinct (map k_id (db_colls d))" using assms by (simp add: db_ok_defs)
  let ?gone = "k_id ` {r \<in> set (db_colls d). k_id r = i \<and> k_user r = u}"
  have gone: "c \<notin> ?gone" if "c \<noteq> i \<or> (\<nexists>name. cv_colls (pg_coll_view d) i = Some (u, name))" for c
    using that pg_coll_found [OF assms] by auto
  have m: "map_of (map coll_entry (filter (\<lambda>r. \<not> (k_id r = i \<and> k_user r = u)) (db_colls d))) =
      map_of (map coll_entry (db_colls d)) |` (- ?gone)"
    using map_of_drop_rows [OF dist, of "\<lambda>r. (k_user r, k_name r)" "\<lambda>r. k_id r = i \<and> k_user r = u"]
    by (simp add: coll_entry_def [abs_def])
  have "pg_coll_view (snd (db_DeleteCollection env i u d)) = pg_coll_view d \<or>
      cv_colls (pg_coll_view (snd (db_DeleteCollection env i u d))) = map_of (map coll_entry (db_colls d)) |` (- ?gone) \<and>
      cv_items (pg_coll_view (snd (db_DeleteCollection env i u d))) = {p \<in> set (db_items d). fst p \<notin> ?gone}"
    using m by (simp add: db_DeleteCollection_def q_DeleteCollection_def stmt_def Let_def pg_coll_view_def)
  with gone show ?thesis
    by (auto simp: same_for_def restrict_map_def pg_coll_view_def)
qed

interpretation pg_coll: collection_storage_laws "pg_collection_storage env" "db_ok env" pg_coll_view
proof
  fix s s' :: pgdb and i u j c name teas r
  show "pg_coll_view (snd (cs_Collection (pg_collection_storage env) i u s)) = pg_coll_view s"
    "pg_coll_view (snd (cs_Collections (pg_collection_storage env) u s)) = pg_coll_view s"
    "pg_coll_view (snd (cs_CollectionRecords (pg_collection_storage env) i s)) = pg_coll_view s"
    by (simp_all add: pg_collection_storage_def pg_coll_reads)
  show "db_ok env s \<Longrightarrow> cs_Collection (pg_collection_storage env) i u s = (Inr c, s') \<Longrightarrow>
      col_ID c = i \<and> cv_colls (pg_coll_view s) i = Some (u, col_Name c)"
    using db_Collection_effect by (simp add: pg_collection_storage_def)
  show "same_for (\<lambda>c. c \<noteq> i \<or> c \<in> dom (cv_colls (pg_coll_view s))) (pg_coll_view s) (pg_coll_view s')"
    if "cs_CreateCollection (pg_collection_storage env) i u name s = (r, s')"
    using db_CreateCollection_effect [of env i u name s r s'] that
    by (cases r) (auto simp: pg_collection_storage_def same_for_def)
  show "j = i \<and> i \<notin> dom (cv_colls (pg_coll_view s)) \<and>
      cv_colls (pg_coll_view s') = (cv_colls (pg_coll_view s))(i \<mapsto> (u, name))"
    if "cs_CreateCollection (pg_collection_storage env) i u name s = (Inr j, s')"
    using db_CreateCollection_effect [of env i u name s "Inr j" s'] that
    by (simp add: pg_collection_storage_def)
  show "same_for (\<lambda>c. c \<noteq> i) (pg_coll_view s)
      (pg_coll_view (snd (cs_AddTeaToCollection (pg_collection_storage env) i teas s)))"
    "same_for (\<lambda>c. c \<noteq> i) (pg_coll_view s)
      (pg_coll_view (snd (cs_DeleteTeaFromCollection (pg_collection_storage env) i teas s)))"
    by (simp_all add: pg_collection_storage_def db_AddTeaToCollection_local db_DeleteTeaFromCollection_local)
  show "db_ok env s \<Longrightarrow> same_for (\<lambda>c. c \<noteq> i \<or> (\<nexists>name. cv_colls (pg_coll_view s) i = Some (u, name)))
      (pg_coll_view s) (pg_coll_view (snd (cs_DeleteCollection (pg_collection_storage env) i u s)))"
    using db_DeleteCollection_local by (simp add: pg_collection_storage_def)
qed

section \<open>Privacy of collections\<close>

lemma bindE_ok:
  "db_ok env d \<Longrightarrow> (\<And>d. db_ok env d \<Longrightarrow> db_ok env (snd (m d))) \<Longrightarrow>
     (\<And>x d. db_ok env d \<Longrightarrow> db_ok env (snd (f x d))) \<Longrightarrow> db_ok env (snd (bindE m f d))"
  by (rule snd_bindE_pres)

lemma db_Collection_ok [db_ok_intros]:
  "db_ok env d \<Longrightarrow> db_ok env (snd (db_Collection env i u d))"
  "db_ok env d \<Longrightarrow> db_ok env (snd (db_Collections env u d))"
  "db_ok env d \<Longrightarrow> db_ok env (snd (db_CollectionRecords env i d))"
  by (simp_all add: db_Collection_def db_Collections_def db_CollectionRecords_def q_GetCollection_def
      q_ListCollections_def q_ListCollectionRecords_def)

lemma coll_exec_ok:
  "db_ok env d \<Longrightarrow> db_ok env (coll_exec (pg_collection_storage env) u call d)"
  by (cases call) (auto simp: coll_Create_def coll_AddRecords_def coll_DeleteRecords_def coll_Delete_def
      coll_List_def coll_ListRecords_def pg_collection_storage_def db_ok_intros intro!: bindE_ok)

definition coll_run ::
  "'s collection_storage \<Rightarrow> (uuid \<times> coll_call) list \<Rightarrow> 's \<Rightarrow> 's" where
  "coll_run st calls s = fold (\<lambda>(u, call). coll_exec st u call) calls s"

text \<open>
  Whatever other users call, with any identifiers and with any server faults, a
  collection keeps its owner, its name and exactly its records.
\<close>

theorem collections_private:
  assumes "db_ok env d" and "cv_colls (pg_coll_view d) c = Some (owner, name)"
    and "\<forall>(u, call) \<in> set calls. u \<noteq> owner"
  shows "cv_colls (pg_coll_view (coll_run (pg_collection_storage env) calls d)) c = Some (owner, name) \<and>
    (\<forall>x. (c, x) \<in> cv_items (pg_coll_view (coll_run (pg_collection_storage env) calls d)) \<longleftrightarrow>
      (c, x) \<in> cv_items (pg_coll_view d))"
  using assms
proof (induction calls arbitrary: d)
  case Nil
  then show ?case by (simp add: coll_run_def)
next
  case (Cons p calls)
  obtain u call where p: "p = (u, call)" by fastforce
  let ?d = "coll_exec (pg_collection_storage env) u call d"
  have "same_for (\<lambda>e. e = c) (pg_coll_view d) (pg_coll_view ?d)"
    using Cons.prems p by (intro pg_coll.foreign_untouched) auto
  then have same: "cv_colls (pg_coll_view ?d) c = cv_colls (pg_coll_view d) c"
    "\<forall>x. (c, x) \<in> cv_items (pg_coll_view ?d) \<longleftrightarrow> (c, x) \<in> cv_items (pg_coll_view d)"
    by (simp_all add: same_for_def)
  have "coll_run (pg_collection_storage env) (p # calls) d = coll_run (pg_collection_storage env) calls ?d"
    by (simp add: coll_run_def p)
  then show ?case
    using Cons.IH [OF coll_exec_ok [OF Cons.prems(1)], of u call] Cons.prems(2,3) same by auto
qed

theorem collections_private_witness:
  "(5, 3) \<in> cv_items (pg_coll_view (coll_run (pg_collection_storage env0)
     [(2, CollDelete 5), (2, CollRemove 5 [3])] db_two_records))"
proof -
  have "cv_colls (pg_coll_view db_two_records) 5 = Some (1, ''mine'')"
    "(5, 3) \<in> cv_items (pg_coll_view db_two_records)"
    by (simp_all add: pg_coll_view_def db_two_records_def coll_entry_def)
  with collections_private [OF db_two_records_ok, of 5 1 "''mine''" "[(2, CollDelete 5), (2, CollRemove 5 [3])]"]
  show ?thesis by simp
qed

section \<open>Adding and removing records\<close>

lemma db_Collection_run:
  assumes "no_faults env" and "db_ok env d" and "cv_colls (pg_coll_view d) c = Some (u, name)"
  shows "db_Collection env c u d =
    (Inr \<lparr>col_ID = c, col_Name = name\<rparr>, d\<lparr>db_stmts := Suc (db_stmts d)\<rparr>)"
proof -
  from assms(3) obtain r where r: "r \<in> set (db_colls d)" "k_id r = c" "k_user r = u" "k_name r = name"
    by (auto simp: pg_coll_view_def coll_entry_def dest!: map_of_SomeD)
  then obtain r' where f: "find (\<lambda>r. k_id r = c \<and> k_user r = u) (db_colls d) = Some r'"
    by (cases "find (\<lambda>r. k_id r = c \<and> k_user r = u) (db_colls d)") (auto simp: find_eq_None_iff)
  from find_SomeD [OF f] have "r' = r"
    using r assms(2) by (auto simp: db_ok_defs distinct_map inj_on_def)
  with f r assms(1) show ?thesis
    by (simp add: db_Collection_def mapE_def wrapE_def q_GetCollection_def select_one_def)
qed

lemma ListRecords_ids:
  assumes "no_faults env" and "db_ok env d" and "cv_colls (pg_coll_view d) c = Some (u, name)"
  shows "\<exists>recs. fst (coll_ListRecords (pg_collection_storage env) c u d) = Inr recs \<and>
    mset (map qrr_ID recs) = mset (map snd (filter (\<lambda>p. fst p = c) (db_items d)))"
proof -
  let ?d = "d\<lparr>db_stmts := Suc (db_stmts d)\<rparr>"
  let ?rows = "map (\<lambda>p. (the_qr ?d (snd p), the_tea ?d (r_tea (the_qr ?d (snd p)))))
    (filter (\<lambda>p. fst p = c) (db_items ?d))"
  let ?recs = "map record_of_rows (sort_key (\<lambda>(r, t). r_exp r) ?rows)"
  have ok: "db_ok env ?d" using assms(2) by simp
  have rows: "fst (db_CollectionRecords env c ?d) = Inr ?recs"
    using assms(1)
    by (simp add: db_CollectionRecords_def mapE_def wrapE_def q_ListCollectionRecords_def
        join_items [OF assms(2)] the_qr_def the_tea_def)
  then have run: "fst (coll_ListRecords (pg_collection_storage env) c u d) = Inr (map graph_record ?recs)"
    by (cases "db_CollectionRecords env c ?d")
      (simp add: coll_ListRecords_def pg_collection_storage_def db_Collection_run [OF assms])
  have "mset (map qrr_ID (map graph_record ?recs)) = image_mset (\<lambda>(r, t). r_id r) (mset ?rows)"
    by (simp add: graph_record_def record_of_rows_def image_mset.compositionality comp_def split_def)
  also have "\<dots> = mset (map (\<lambda>p. r_id (the_qr ?d (snd p))) (filter (\<lambda>p. fst p = c) (db_items ?d)))"
    by (simp add: image_mset.compositionality comp_def)
  also have "map (\<lambda>p. r_id (the_qr ?d (snd p))) (filter (\<lambda>p. fst p = c) (db_items ?d)) =
      map snd (filter (\<lambda>p. fst p = c) (db_items ?d))"
    using join_item(3) [OF ok, of c] by (intro map_cong) auto
  finally have "mset (map qrr_ID (map graph_record ?recs)) =
      mset (map snd (filter (\<lambda>p. fst p = c) (db_items ?d)))" .
  moreover have "db_items ?d = db_items d" by simp
  ultimately have ids: "mset (map qrr_ID (map graph_record ?recs)) =
      mset (map snd (filter (\<lambda>p. fst p = c) (db_items d)))" by (simp only:)
  show ?thesis
    by (rule exI [of _ "map graph_record ?recs"], rule conjI, rule run, rule ids)
qed

text \<open>
  C26. Adding records to an own collection succeeds and lists them from then on, next to the
  records it had: every identifier that has a QR record is in, each once, and identifiers
  without a QR record are left out without an error.
\<close>

theorem AddRecords_exact:
  assumes "no_faults env" and "db_ok env d" and "cv_colls (pg_coll_view d) c = Some (u, name)"
    and "coll_AddRecords (pg_collection_storage env) u c xs d = (res, d')"
  shows "res = Inr \<lparr>gcol_ID = c, gcol_Name = name, gcol_UserID = u\<rparr> \<and>
    (\<exists>recs. fst (coll_ListRecords (pg_collection_storage env) c u d') = Inr recs \<and>
       distinct (map qrr_ID recs) \<and>
       set (map qrr_ID recs) =
         {x. (c, x) \<in> set (db_items d)} \<union> {x \<in> set xs. x \<in> r_id ` set (db_qrs d)})"
proof -
  let ?d1 = "d\<lparr>db_stmts := Suc (db_stmts d)\<rparr>"
  have c: "c \<in> k_id ` set (db_colls ?d1)"
    using assms(3) dom_pg_colls [of d] by auto
  from AddTeaToCollection_run [OF assms(1) c, of xs] obtain n where
    a: "db_AddTeaToCollection env c xs ?d1 = (Inr (), ?d1\<lparr>db_stmts := n, db_items :=
       insert_new (db_items d) (map (Pair c) (filter (\<lambda>x. x \<in> r_id ` set (db_qrs d)) xs))\<rparr>)"
    by auto
  let ?d2 = "snd (db_AddTeaToCollection env c xs ?d1)"
  have ok2: "db_ok env ?d2" by (rule db_AddTeaToCollection_ok) (use assms(2) in simp)
  have v2: "cv_colls (pg_coll_view ?d2) c = Some (u, name)"
    using assms(3) by (simp add: a pg_coll_view_def)
  have run: "coll_AddRecords (pg_collection_storage env) u c xs d =
      (Inr \<lparr>gcol_ID = c, gcol_Name = name, gcol_UserID = u\<rparr>, ?d2\<lparr>db_stmts := Suc (db_stmts ?d2)\<rparr>)"
    using a db_Collection_run [OF assms(1) ok2 v2]
    by (simp add: coll_AddRecords_def pg_collection_storage_def db_Collection_run [OF assms(1-3)])
  have d': "d' = ?d2\<lparr>db_stmts := Suc (db_stmts ?d2)\<rparr>" and res: "res = Inr \<lparr>gcol_ID = c, gcol_Name = name, gcol_UserID = u\<rparr>"
    using run assms(4) by auto
  have ok': "db_ok env d'" "cv_colls (pg_coll_view d') c = Some (u, name)" using ok2 v2 d' by simp_all
  from ListRecords_ids [OF assms(1) ok'] obtain recs where
    recs: "fst (coll_ListRecords (pg_collection_storage env) c u d') = Inr recs"
      "mset (map qrr_ID recs) = mset (map snd (filter (\<lambda>p. fst p = c) (db_items d')))" by blast
  have items: "set (db_items d') = set (db_items d) \<union> Pair c ` {x \<in> set xs. x \<in> r_id ` set (db_qrs d)}"
    by (auto simp: d' a)
  have "distinct (db_items d')" using ok'(1) by (simp add: db_ok_defs)
  then have "distinct (map snd (filter (\<lambda>p. fst p = c) (db_items d')))"
    by (auto simp: distinct_map inj_on_def)
  then have "distinct (map qrr_ID recs)" using recs(2) by (metis mset_eq_imp_distinct_iff)
  moreover have "set (map qrr_ID recs) = {x. (c, x) \<in> set (db_items d')}"
    using mset_eq_setD [OF recs(2)] by force
  ultimately show ?thesis using res recs(1) items by auto
qed

theorem AddRecords_exact_witness:
  "\<exists>recs. fst (coll_ListRecords (pg_collection_storage env0) 5 1
       (snd (coll_AddRecords (pg_collection_storage env0) 1 5 [3, 9] db_two_records))) = Inr recs \<and>
     set (map qrr_ID recs) = {3, 4}"
proof -
  obtain res d' where r: "coll_AddRecords (pg_collection_storage env0) 1 5 [3, 9] db_two_records = (res, d')"
    by fastforce
  have v: "cv_colls (pg_coll_view db_two_records) 5 = Some (1, ''mine'')"
    by (simp add: pg_coll_view_def db_two_records_def coll_entry_def)
  have s: "{x. (5, x) \<in> set (db_items db_two_records)} \<union>
      {x \<in> set [3, 9]. x \<in> r_id ` set (db_qrs db_two_records)} = {3, 4}"
    by (auto simp: db_two_records_def)
  from AddRecords_exact [OF no_faults_env0 db_two_records_ok v r] s r show ?thesis by auto
qed

end
