(* ===== verification/Qr_Notification.thy ===== *)
theory Qr_Notification
  imports Collection_Manager
begin

text \<open>
  The QR manager (\<open>internal/managers/qr\<close>), which writes and reads the record behind a QR
  code, and the notification manager (\<open>internal/managers/notification\<close>), which binds
  devices to users and keeps their push tokens. Devices are the interface
  \<open>device_repository\<close> with the locale \<open>device_repository_laws\<close>, interpreted on the
  Postgres adapter: a device keeps its first owner, and a token is only ever set on the
  device it was registered for.
\<close>

section \<open>QR records\<close>

record 's qr_storage =
  qs_WriteQR :: "uuid \<Rightarrow> QR \<Rightarrow> ('s, unit) act"
  qs_ReadQR :: "uuid \<Rightarrow> ('s, QR) act"

definition qr_Set :: "'s qr_storage \<Rightarrow> uuid \<Rightarrow> QRRecordData \<Rightarrow> ('s, unit) act" where
  "qr_Set st i data = qs_WriteQR st i
     \<lparr>qr_Tea = qrd_Tea data, qr_BowlingTemp = qrd_BowlingTemp data,
      qr_ExpirationDate = qrd_ExpirationDate data\<rparr>"

definition qr_Get :: "'s qr_storage \<Rightarrow> uuid \<Rightarrow> ('s, QRRecordData) act" where
  "qr_Get st i =
     bindE (qs_ReadQR st i) (\<lambda>data.
     returnE \<lparr>qrd_Tea = qr_Tea data, qrd_BowlingTemp = qr_BowlingTemp data,
              qrd_ExpirationDate = qr_ExpirationDate data\<rparr>)"

definition pg_qr_storage :: "pg_env \<Rightarrow> pgdb qr_storage" where
  "pg_qr_storage env = \<lparr>qs_WriteQR = db_WriteQR env, qs_ReadQR = db_ReadQR env\<rparr>"

text \<open>The laws: an entry is written as its clamped and rounded form and read back.\<close>

locale qr_storage_laws =
  fixes st :: "'s qr_storage"
    and entries :: "'s \<Rightarrow> uuid \<Rightarrow> QR option"
    and stored :: "QR \<Rightarrow> QR"
    and invar :: "'s \<Rightarrow> bool"
  assumes wrote: "invar s \<Longrightarrow> qs_WriteQR st i q s = (Inr (), s') \<Longrightarrow>
      invar s' \<and> entries s' = (entries s)(i \<mapsto> stored q)"
    and write_failed: "invar s \<Longrightarrow> qs_WriteQR st i q s = (Inl e, s') \<Longrightarrow> invar s' \<and> entries s' = entries s"
    and read: "invar s \<Longrightarrow> qs_ReadQR st i s = (Inr q, s') \<Longrightarrow> entries s i = Some q"
    and missing: "invar s \<Longrightarrow> entries s i = None \<Longrightarrow> qs_ReadQR st i s = (r, s') \<Longrightarrow> \<exists>e. r = Inl e"
begin

lemma set_get:
  assumes "invar s" and "qr_Set st i data s = (Inr (), s1)" and "qr_Get st i s1 = (Inr data', s2)"
  shows "\<lparr>qr_Tea = qrd_Tea data', qr_BowlingTemp = qrd_BowlingTemp data',
      qr_ExpirationDate = qrd_ExpirationDate data'\<rparr> =
    stored \<lparr>qr_Tea = qrd_Tea data, qr_BowlingTemp = qrd_BowlingTemp data,
      qr_ExpirationDate = qrd_ExpirationDate data\<rparr>"
proof -
  from wrote [OF assms(1) assms(2) [unfolded qr_Set_def]] have i: "invar s1"
    and e: "entries s1 i = Some (stored \<lparr>qr_Tea = qrd_Tea data, qr_BowlingTemp = qrd_BowlingTemp data,
      qr_ExpirationDate = qrd_ExpirationDate data\<rparr>)" by simp_all
  obtain q s where q: "qs_ReadQR st i s1 = (Inr q, s)" "data' = \<lparr>qrd_Tea = qr_Tea q,
      qrd_BowlingTemp = qr_BowlingTemp q, qrd_ExpirationDate = qr_ExpirationDate q\<rparr>"
    using assms(3) by (auto simp: qr_Get_def bindE_eq_Inr)
  with read [OF i q(1)] e show ?thesis by simp
qed

lemma set_other:
  assumes "invar s" and "qr_Set st i data s = (r, s1)" and "j \<noteq> i"
  shows "entries s1 j = entries s j"
  using assms wrote [OF assms(1), of i _ s1] write_failed [OF assms(1), of i]
  by (cases r) (auto simp: qr_Set_def)

end

definition qr_of_row :: "qr_row \<Rightarrow> QR" where
  "qr_of_row r = \<lparr>qr_Tea = r_tea r, qr_BowlingTemp = scast (r_temp r), qr_ExpirationDate = r_exp r\<rparr>"

definition pg_qrs :: "pgdb \<Rightarrow> uuid \<Rightarrow> QR option" where
  "pg_qrs d = map_of (map (\<lambda>r. (r_id r, qr_of_row r)) (db_qrs d))"

definition pg_qr_stored :: "pg_env \<Rightarrow> QR \<Rightarrow> QR" where
  "pg_qr_stored env q =
     \<lparr>qr_Tea = qr_Tea q, qr_BowlingTemp = int32_clamped (qr_BowlingTemp q),
      qr_ExpirationDate = env_round env (qr_ExpirationDate q)\<rparr>"

lemma pg_qrs_stmts [simp]: "pg_qrs (d\<lparr>db_stmts := n\<rparr>) = pg_qrs d"
  by (simp add: pg_qrs_def)

lemma q_UpsertQR_effect:
  assumes "db_ok env d" and "q_UpsertQR env i tea (clamp_int32 t) ex d = (r, d')"
  shows "case r of
      Inl e \<Rightarrow> pg_qrs d' = pg_qrs d
    | Inr _ \<Rightarrow> pg_qrs d' = (pg_qrs d)(i \<mapsto> \<lparr>qr_Tea = tea, qr_BowlingTemp = int32_clamped t,
        qr_ExpirationDate = env_round env ex\<rparr>)"
proof (cases "i \<in> r_id ` set (db_qrs d)")
  case True
  let ?f = "\<lambda>r. r\<lparr>r_tea := tea, r_temp := clamp_int32 t, r_exp := env_round env ex\<rparr>"
  from True obtain row where row: "find (\<lambda>r. r_id r = i) (db_qrs d) = Some row"
    by (cases "find (\<lambda>r. r_id r = i) (db_qrs d)") (auto simp: find_eq_None_iff)
  have "distinct (map r_id (db_qrs d))" using assms(1) by (simp add: db_ok_defs)
  then have "map_of (map (\<lambda>r. (r_id r, qr_of_row r)) (update_where (\<lambda>r. r_id r = i) ?f (db_qrs d))) =
      (map_of (map (\<lambda>r. (r_id r, qr_of_row r)) (db_qrs d)))(i \<mapsto> qr_of_row (?f row))"
    using row by (intro map_of_update_rows) simp_all
  with True stmt_cases [OF assms(2) [unfolded q_UpsertQR_def]] show ?thesis
    by (auto simp: pg_qrs_def qr_of_row_def scast_clamp_int32 split: if_splits)
next
  case False
  then have "map_of (map (\<lambda>r. (r_id r, qr_of_row r)) (db_qrs d) @ [(i, v)]) =
      (map_of (map (\<lambda>r. (r_id r, qr_of_row r)) (db_qrs d)))(i \<mapsto> v)" for v
    using map_of_snoc_new [of "(i, v)" "map (\<lambda>r. (r_id r, qr_of_row r)) (db_qrs d)"]
    by (simp add: image_image)
  with False stmt_cases [OF assms(2) [unfolded q_UpsertQR_def]] show ?thesis
    by (auto simp: pg_qrs_def qr_of_row_def scast_clamp_int32 simp del: map_of_append split: if_splits)
qed

lemma db_ReadQR_effect:
  assumes "db_ok env d" and "db_ReadQR env i d = (r, d')"
  shows "case r of Inl e \<Rightarrow> True | Inr q \<Rightarrow> pg_qrs d i = Some q"
proof (cases "q_GetQR env i d")
  case (Pair r0 d0)
  show ?thesis
  proof (cases r0)
    case (Inl e)
    with Pair assms(2) show ?thesis by (auto simp: db_ReadQR_def split: if_splits)
  next
    case (Inr row)
    with Pair have "find (\<lambda>r. r_id r = i) (db_qrs d) = Some row"
      using stmt_cases [of env _ d "Inr row" d0] unfolding q_GetQR_def
      by (fastforce simp: select_one_def split: option.splits)
    then have "row \<in> set (db_qrs d)" "r_id row = i" using find_SomeD by fast+
    moreover have "distinct (map r_id (db_qrs d))" using assms(1) by (simp add: db_ok_defs)
    ultimately have "pg_qrs d i = Some (qr_of_row row)"
      unfolding pg_qrs_def by (intro map_of_is_SomeI) (auto simp: comp_def image_iff)
    with Pair Inr assms(2) show ?thesis by (auto simp: db_ReadQR_def qr_of_row_def)
  qed
qed

interpretation pg_qr: qr_storage_laws "pg_qr_storage env" pg_qrs "pg_qr_stored env" "db_ok env"
proof
  fix s s' :: pgdb and i q e r
  assume ok: "db_ok env s"
  show "db_ok env s' \<and> pg_qrs s' = (pg_qrs s)(i \<mapsto> pg_qr_stored env q)"
    if w: "qs_WriteQR (pg_qr_storage env) i q s = (Inr (), s')"
  proof -
    have "q_UpsertQR env i (qr_Tea q) (clamp_int32 (qr_BowlingTemp q)) (qr_ExpirationDate q) s = (Inr (), s')"
      using w by (simp add: pg_qr_storage_def db_WriteQR_def)
    moreover have "s' = snd (db_WriteQR env i q s)" using w by (simp add: pg_qr_storage_def)
    ultimately show ?thesis
      using q_UpsertQR_effect [OF ok] db_writes_ok(5) [OF ok] by (fastforce simp: pg_qr_stored_def)
  qed
  show "db_ok env s' \<and> pg_qrs s' = pg_qrs s"
    if w: "qs_WriteQR (pg_qr_storage env) i q s = (Inl e, s')"
  proof -
    obtain e0 where "q_UpsertQR env i (qr_Tea q) (clamp_int32 (qr_BowlingTemp q)) (qr_ExpirationDate q) s = (Inl e0, s')"
      using w by (auto simp: pg_qr_storage_def db_WriteQR_def wrapE_eq_Inl)
    moreover have "s' = snd (db_WriteQR env i q s)" using w by (simp add: pg_qr_storage_def)
    ultimately show ?thesis
      using q_UpsertQR_effect [OF ok] db_writes_ok(5) [OF ok] by fastforce
  qed
  show "pg_qrs s i = Some q" if "qs_ReadQR (pg_qr_storage env) i s = (Inr q, s')"
    using db_ReadQR_effect [OF ok, of i "Inr q" s'] that by (simp add: pg_qr_storage_def)
  show "\<exists>e. r = Inl e" if "pg_qrs s i = None" "qs_ReadQR (pg_qr_storage env) i s = (r, s')"
    using db_ReadQR_effect [OF ok, of i r s'] that by (cases r) (auto simp: pg_qr_storage_def)
qed

section \<open>Devices\<close>

record 's device_repository =
  dr_CreateOrUpdateDeviceToken :: "uuid \<Rightarrow> string \<Rightarrow> ('s, unit) act"
  dr_AddDeviceForUser :: "uuid \<Rightarrow> uuid \<Rightarrow> ('s, unit) act"
  dr_Notifications :: "uuid \<Rightarrow> ('s, Notification list) act"

definition BindDevice :: "'s device_repository \<Rightarrow> uuid \<Rightarrow> uuid \<Rightarrow> ('s, unit) act" where
  "BindDevice st userID deviceID = dr_AddDeviceForUser st userID deviceID"

definition RegisterDeviceToken :: "'s device_repository \<Rightarrow> uuid \<Rightarrow> string \<Rightarrow> ('s, unit) act" where
  "RegisterDeviceToken st deviceID deviceToken = dr_CreateOrUpdateDeviceToken st deviceID deviceToken"

definition pg_device_repository :: "(uuid \<Rightarrow> string) \<Rightarrow> pg_env \<Rightarrow> pgdb device_repository" where
  "pg_device_repository show_id env =
     \<lparr>dr_CreateOrUpdateDeviceToken = db_CreateOrUpdateDeviceToken env,
      dr_AddDeviceForUser = db_AddDeviceForUser show_id env,
      dr_Notifications = db_Notifications env\<rparr>"

datatype device_call = CallBind uuid uuid | CallToken uuid string | CallNotifications uuid

fun device_exec :: "'s device_repository \<Rightarrow> device_call \<Rightarrow> 's \<Rightarrow> 's" where
  "device_exec st (CallBind user dev) s = snd (BindDevice st user dev s)"
| "device_exec st (CallToken dev token) s = snd (RegisterDeviceToken st dev token s)"
| "device_exec st (CallNotifications user) s = snd (dr_Notifications st user s)"

text \<open>The devices with their owner and token.\<close>

locale device_repository_laws =
  fixes st :: "'s device_repository"
    and devices :: "'s \<Rightarrow> uuid \<Rightarrow> (uuid \<times> string) option"
    and invar :: "'s \<Rightarrow> bool"
  assumes kept: "invar s \<Longrightarrow> invar (device_exec st call s)"
    and bind: "invar s \<Longrightarrow> dr_AddDeviceForUser st user dev s = (r, s') \<Longrightarrow>
      devices s' = devices s \<or>
      r = Inr () \<and> devices s dev = None \<and> (\<exists>token. devices s' = (devices s)(dev \<mapsto> (user, token)))"
    and bound: "invar s \<Longrightarrow> dr_AddDeviceForUser st user dev s = (Inr (), s') \<Longrightarrow> dev \<in> dom (devices s')"
    and token: "invar s \<Longrightarrow> dr_CreateOrUpdateDeviceToken st dev token s = (r, s') \<Longrightarrow>
      (case r of
         Inl e \<Rightarrow> devices s' = devices s
       | Inr _ \<Rightarrow> devices s' = (devices s)(dev := map_option (\<lambda>(owner, _). (owner, token)) (devices s dev)))"
    and reads: "devices (snd (dr_Notifications st user s)) = devices s"
begin

lemma owner_kept:
  assumes "invar s" and "devices s dev = Some (owner, t)"
  shows "\<exists>t'. devices (device_exec st call s) dev = Some (owner, t')"
proof (cases call)
  case (CallBind user d)
  obtain r s' where r: "dr_AddDeviceForUser st user d s = (r, s')" by fastforce
  with bind [OF assms(1) r] assms(2) CallBind show ?thesis by (auto simp: BindDevice_def)
next
  case (CallToken d token')
  obtain r s' where r: "dr_CreateOrUpdateDeviceToken st d token' s = (r, s')" by fastforce
  with token [OF assms(1) r] assms(2) CallToken show ?thesis
    by (cases r) (auto simp: RegisterDeviceToken_def)
next
  case (CallNotifications user)
  with reads assms(2) show ?thesis by simp
qed

lemma owner_kept_run:
  assumes "invar s" and "devices s dev = Some (owner, t)"
  shows "\<exists>t'. devices (fold (device_exec st) calls s) dev = Some (owner, t')"
  using assms
proof (induction calls arbitrary: s t)
  case (Cons call calls)
  from owner_kept [OF Cons.prems] kept [OF Cons.prems(1)] Cons.IH show ?case by fastforce
qed simp

end

definition device_entry :: "device_row \<Rightarrow> uuid \<times> uuid \<times> string" where
  "device_entry r = (d_id r, d_user r, d_token r)"

definition pg_devices :: "pgdb \<Rightarrow> uuid \<Rightarrow> (uuid \<times> string) option" where
  "pg_devices d = map_of (map device_entry (db_devices d))"

lemma pg_devices_stmts [simp]: "pg_devices (d\<lparr>db_stmts := n\<rparr>) = pg_devices d"
  by (simp add: pg_devices_def)

lemma pg_devices_None: "pg_devices d i = None \<longleftrightarrow> i \<notin> d_id ` set (db_devices d)"
  by (simp add: pg_devices_def map_of_eq_None_iff image_image device_entry_def)

lemma q_InsertDevice_effect:
  assumes "q_InsertDevice env i user token d = (r, d')"
  shows "pg_devices d' = pg_devices d \<and> (r = Inr () \<longrightarrow> i \<in> d_id ` set (db_devices d)) \<or>
    r = Inr () \<and> pg_devices d i = None \<and> pg_devices d' = (pg_devices d)(i \<mapsto> (user, token))"
proof -
  have new: "i \<notin> d_id ` set (db_devices d) \<Longrightarrow> map_of (map device_entry (db_devices d) @ [(i, v)]) =
      (map_of (map device_entry (db_devices d)))(i \<mapsto> v)" for v
    using map_of_snoc_new [of "(i, v)" "map device_entry (db_devices d)"]
    by (simp add: image_image device_entry_def)
  have none: "i \<notin> d_id ` set (db_devices d) \<Longrightarrow> map_of (map device_entry (db_devices d)) i = None"
    using pg_devices_None [of d i] by (simp add: pg_devices_def)
  show ?thesis
    using stmt_cases [OF assms [unfolded q_InsertDevice_def]] new none
    by (auto simp: pg_devices_def device_entry_def simp del: map_of_append split: if_splits)
qed

lemma map_of_token_rows:
  "map_of (map device_entry (update_where (\<lambda>r. d_id r = i) (\<lambda>r. r\<lparr>d_token := token\<rparr>) rs)) =
     (map_of (map device_entry rs))(i := map_option (\<lambda>(owner, _). (owner, token)) (map_of (map device_entry rs) i))"
  by (induction rs) (auto simp: device_entry_def fun_eq_iff)

lemma q_UpdateDeviceToken_effect:
  assumes "db_ok env d" and "q_UpdateDeviceToken env i token d = (r, d')"
  shows "case r of
      Inl e \<Rightarrow> pg_devices d' = pg_devices d
    | Inr _ \<Rightarrow> pg_devices d' = (pg_devices d)(i := map_option (\<lambda>(owner, _). (owner, token)) (pg_devices d i))"
proof -
  have upd: "map_of (map device_entry (update_where (\<lambda>r. d_id r = i) (\<lambda>r. r\<lparr>d_token := token\<rparr>) (db_devices d))) =
      (pg_devices d)(i := map_option (\<lambda>(owner, _). (owner, token)) (pg_devices d i))"
    unfolding pg_devices_def by (rule map_of_token_rows)
  show ?thesis
    using stmt_cases [OF assms(2) [unfolded q_UpdateDeviceToken_def]] upd
    by (auto simp: pg_devices_def split: if_splits)
qed

lemma device_exec_ok:
  "db_ok env d \<Longrightarrow> db_ok env (device_exec (pg_device_repository show_id env) call d)"
  by (cases call) (simp_all add: BindDevice_def RegisterDeviceToken_def pg_device_repository_def
      db_ok_intros db_Notifications_def q_ListNotifications_def)

lemma db_CreateOrUpdateDeviceToken_result:
  "db_CreateOrUpdateDeviceToken env i token d = (r, d') \<Longrightarrow>
     \<exists>r0. q_UpdateDeviceToken env i token d = (r0, d') \<and> (\<forall>e. r = Inl e \<longrightarrow> (\<exists>e0. r0 = Inl e0)) \<and>
       (r = Inr () \<longrightarrow> (\<exists>n. r0 = Inr n))"
  by (auto simp: db_CreateOrUpdateDeviceToken_def bindE_def wrapE_def split: prod.splits sum.splits)

interpretation pg_device: device_repository_laws "pg_device_repository show_id env" pg_devices "db_ok env"
proof
  fix s s' :: pgdb and call user dev r token
  show "db_ok env s \<Longrightarrow> db_ok env (device_exec (pg_device_repository show_id env) call s)"
    by (rule device_exec_ok)
  show "pg_devices s' = pg_devices s \<or> r = Inr () \<and> pg_devices s dev = None \<and>
      (\<exists>token. pg_devices s' = (pg_devices s)(dev \<mapsto> (user, token)))"
    if "dr_AddDeviceForUser (pg_device_repository show_id env) user dev s = (r, s')"
    using that
    by (auto simp: pg_device_repository_def db_AddDeviceForUser_def wrapE_def
        split: prod.splits sum.splits dest!: q_InsertDevice_effect)
  show "dev \<in> dom (pg_devices s')"
    if "dr_AddDeviceForUser (pg_device_repository show_id env) user dev s = (Inr (), s')"
  proof -
    have "q_InsertDevice env dev user (show_id dev) s = (Inr (), s')"
      using that by (simp add: pg_device_repository_def db_AddDeviceForUser_def)
    from q_InsertDevice_effect [OF this] show ?thesis
      using pg_devices_None [of s dev] by (auto simp: dom_def)
  qed
  show "case r of
      Inl e \<Rightarrow> pg_devices s' = pg_devices s
    | Inr _ \<Rightarrow> pg_devices s' = (pg_devices s)(dev := map_option (\<lambda>(owner, _). (owner, token)) (pg_devices s dev))"
    if ok: "db_ok env s"
      and u: "dr_CreateOrUpdateDeviceToken (pg_device_repository show_id env) dev token s = (r, s')"
  proof -
    from u db_CreateOrUpdateDeviceToken_result obtain r0 where
      "q_UpdateDeviceToken env dev token s = (r0, s')" "\<forall>e. r = Inl e \<longrightarrow> (\<exists>e0. r0 = Inl e0)"
      "r = Inr () \<longrightarrow> (\<exists>n. r0 = Inr n)"
      by (fastforce simp: pg_device_repository_def)
    with q_UpdateDeviceToken_effect [OF ok, of dev token r0 s'] show ?thesis
      by (cases r; cases r0) auto
  qed
  show "pg_devices (snd (dr_Notifications (pg_device_repository show_id env) user s)) = pg_devices s"
    by (simp add: pg_device_repository_def db_Notifications_def q_ListNotifications_def)
qed

text \<open>
  C27. A device keeps the user it was first bound to: no sequence of later sign-ins and token
  registrations, by whomever, moves it. The second user who signs in on the same device
  gets no notifications on it.
\<close>

theorem device_keeps_first_owner:
  assumes "db_ok env d" and "pg_devices d dev = Some (owner, token)"
  shows "\<exists>token'. pg_devices (fold (device_exec (pg_device_repository show_id env)) calls d) dev =
    Some (owner, token')"
  using assms by (rule pg_device.owner_kept_run)

definition db_one_device :: pgdb where
  "db_one_device = db_one_tea\<lparr>db_users := [\<lparr>u_id = 1, u_apple = ''a'', u_created = 0\<rparr>,
       \<lparr>u_id = 2, u_apple = ''b'', u_created = 0\<rparr>],
     db_devices := [\<lparr>d_id = 5, d_user = 1, d_token = ''t'', d_created = 0\<rparr>]\<rparr>"

lemma db_one_device_ok: "db_ok env0 db_one_device"
  by (simp add: db_ok_defs db_one_device_def db_one_tea_simps empty_db_def tea_type_check_def)

theorem device_keeps_first_owner_witness:
  "\<exists>token'. pg_devices (fold (device_exec (pg_device_repository (\<lambda>_. ''x'') env0))
     [CallBind 2 5, CallToken 5 ''new''] db_one_device) 5 = Some (1, token')"
proof -
  have "pg_devices db_one_device 5 = Some (1, ''t'')"
    by (simp add: pg_devices_def db_one_device_def device_entry_def)
  with db_one_device_ok show ?thesis by (rule device_keeps_first_owner)
qed

text \<open>
  Registering a token never creates a device: for a device that is not bound to a user
  the call reports success although no token is stored anywhere, and for a bound one it
  sets the token of that device and of no other.
\<close>

theorem RegisterDeviceToken_exact:
  assumes "db_ok env d"
    and "RegisterDeviceToken (pg_device_repository show_id env) dev token d = (Inr (), d')"
  shows "pg_devices d' = (pg_devices d)(dev := map_option (\<lambda>(owner, _). (owner, token)) (pg_devices d dev)) \<and>
    (dev \<notin> d_id ` set (db_devices d) \<longrightarrow> pg_devices d' = pg_devices d)"
proof -
  have "pg_devices d' = (pg_devices d)(dev := map_option (\<lambda>(owner, _). (owner, token)) (pg_devices d dev))"
    using pg_device.token [OF assms(1) assms(2) [unfolded RegisterDeviceToken_def]] by simp
  then show ?thesis using pg_devices_None [of d dev] by (auto simp: fun_eq_iff)
qed

theorem RegisterDeviceToken_exact_witness:
  "fst (RegisterDeviceToken (pg_device_repository (\<lambda>_. ''x'') env0) 9 ''tok'' db_one_device) = Inr () \<and>
   pg_devices (snd (RegisterDeviceToken (pg_device_repository (\<lambda>_. ''x'') env0) 9 ''tok'' db_one_device)) 9 = None"
proof -
  let ?st = "pg_device_repository (\<lambda>_. ''x'') env0"
  obtain d' where r: "RegisterDeviceToken ?st 9 ''tok'' db_one_device = (Inr (), d')"
    by (simp add: RegisterDeviceToken_def pg_device_repository_def db_CreateOrUpdateDeviceToken_def
        bindE_def wrapE_def q_UpdateDeviceToken_def db_one_device_def)
  have n: "9 \<notin> d_id ` set (db_devices db_one_device)" by (simp add: db_one_device_def)
  from RegisterDeviceToken_exact [OF db_one_device_ok r] n have "pg_devices d' = pg_devices db_one_device"
    by blast
  moreover have "pg_devices db_one_device 9 = None" using n pg_devices_None by blast
  ultimately show ?thesis using r by simp
qed

end
