(* ===== verification/Consumption.thy ===== *)
theory Consumption
  imports Pg_Adapter_Laws
begin

text \<open>
  The stores of recent tea consumption (\<open>internal/consumption\<close>): the interface
  \<open>consumption_store\<close>, its in-memory implementation and the one on Postgres. Both are
  shown to keep the laws of the locale \<open>consumption_laws\<close>, and to hold the same events,
  at the resolution of the server,
  except those that lie exactly on a retention boundary, which only Postgres keeps.
\<close>

record Consumption =
  con_TeaID :: uuid
  con_Time :: time

text \<open>\<open>Record\<close> of the user, the tea and the time; \<open>Recent\<close> of the user since a time.\<close>

record 's consumption_store =
  st_Record :: "uuid \<Rightarrow> uuid \<Rightarrow> time \<Rightarrow> ('s, unit) act"
  st_Recent :: "uuid \<Rightarrow> time \<Rightarrow> ('s, Consumption list) act"

definition defaultRetention :: duration where
  "defaultRetention = 30 * 24 * Hour"

section \<open>In memory\<close>

text \<open>
  The map of the events by user and the retention. \<open>sort.Slice\<close> leaves the order of equal
  times open: the sorting function is an argument.
\<close>

record MemoryStore =
  ms_data :: "uuid \<Rightarrow> Consumption list option"
  ms_retention :: duration

definition NewMemoryStore :: "duration \<Rightarrow> MemoryStore" where
  "NewMemoryStore retention =
     \<lparr>ms_data = Map.empty, ms_retention = (if retention \<le> 0 then defaultRetention else retention)\<rparr>"

definition ms_events :: "MemoryStore \<Rightarrow> uuid \<Rightarrow> Consumption list" where
  "ms_events m user = (case ms_data m user of None \<Rightarrow> [] | Some es \<Rightarrow> es)"

definition ms_Record :: "uuid \<Rightarrow> uuid \<Rightarrow> time \<Rightarrow> (MemoryStore, unit) act" where
  "ms_Record user tea ts m =
     (let events = ms_events m user @ [\<lparr>con_TeaID = tea, con_Time = ts\<rparr>];
          cutoff = ts - ms_retention m
      in (Inr (), m\<lparr>ms_data := (ms_data m)(user \<mapsto> filter (\<lambda>e. cutoff < con_Time e) events)\<rparr>))"

definition ms_Recent ::
  "(Consumption list \<Rightarrow> Consumption list) \<Rightarrow> uuid \<Rightarrow> time \<Rightarrow> (MemoryStore, Consumption list) act" where
  "ms_Recent arrange user since m =
     (Inr (arrange (filter (\<lambda>e. \<not> con_Time e < since) (ms_events m user))), m)"

definition memory_store ::
  "(Consumption list \<Rightarrow> Consumption list) \<Rightarrow> MemoryStore consumption_store" where
  "memory_store arrange = \<lparr>st_Record = ms_Record, st_Recent = ms_Recent arrange\<rparr>"

section \<open>On Postgres\<close>

text \<open>A store without a database handle has \<open>queries == nil\<close>.\<close>

record PGStore =
  ps_queries :: bool
  ps_retention :: duration

definition NewPGStore :: "duration \<Rightarrow> PGStore" where
  "NewPGStore retention =
     \<lparr>ps_queries = True, ps_retention = (if retention \<le> 0 then defaultRetention else retention)\<rparr>"

definition ps_Record :: "pg_env \<Rightarrow> PGStore \<Rightarrow> uuid \<Rightarrow> uuid \<Rightarrow> time \<Rightarrow> unit query" where
  "ps_Record env s user tea ts =
     (if \<not> ps_queries s then throwE (Sentinel ErrNilDB)
      else
        bindE (wrapE ''pg consumption.Record: insert'' (q_InsertConsumption env user ts tea)) (\<lambda>_.
        bindE (wrapE ''pg consumption.Record: retention delete''
          (q_DeleteConsumptionsBefore env user (ts - ps_retention s))) (\<lambda>_.
        returnE ())))"

definition ps_Recent :: "pg_env \<Rightarrow> PGStore \<Rightarrow> uuid \<Rightarrow> time \<Rightarrow> Consumption list query" where
  "ps_Recent env s user since =
     (if \<not> ps_queries s then throwE (Sentinel ErrNilDB)
      else
        mapE (map (\<lambda>row. \<lparr>con_TeaID = s_tea row, con_Time = s_ts row\<rparr>))
          (wrapE ''pg consumption.Recent: query'' (q_ListConsumptionsSince env user since)))"

definition ps_Ping :: "(unit + gerr) \<Rightarrow> PGStore \<Rightarrow> gerr option" where
  \<comment> \<open>the first argument is what the driver's ping answers\<close>
  "ps_Ping answer s =
     (if \<not> ps_queries s then Some (Sentinel ErrNilDB)
      else case answer of Inr e \<Rightarrow> Some (Wrap ''pg consumption.Ping'' e) | Inl _ \<Rightarrow> None)"

definition postgres_store :: "pg_env \<Rightarrow> PGStore \<Rightarrow> pgdb consumption_store" where
  "postgres_store env s = \<lparr>st_Record = ps_Record env s, st_Recent = ps_Recent env s\<rparr>"

section \<open>The interface\<close>

text \<open>
  The events of a user as a set of times and teas, at the resolution \<open>rnd\<close> of the store.
  A successful \<open>Record\<close> adds its event and drops what is older than the retention: an
  event after the cutoff stays, one before it goes, one exactly on it may do either.
\<close>

type_synonym event = "time \<times> uuid"

definition event_of :: "Consumption \<Rightarrow> event" where
  "event_of c = (con_Time c, con_TeaID c)"

definition newest_first :: "Consumption list \<Rightarrow> bool" where
  "newest_first cs \<longleftrightarrow> sorted (map (\<lambda>c. - con_Time c) cs)"

locale consumption_laws =
  fixes st :: "'s consumption_store"
    and events :: "'s \<Rightarrow> uuid \<Rightarrow> event set"
    and rnd :: "time \<Rightarrow> time"
    and retention :: duration
    and invar :: "'s \<Rightarrow> bool"
  assumes kept: "invar s \<Longrightarrow> invar (snd (st_Record st user tea ts s))"
    and recorded: "invar s \<Longrightarrow> st_Record st user tea ts s = (Inr (), s') \<Longrightarrow>
      {e \<in> insert (rnd ts, tea) (events s user). rnd (ts - retention) < fst e} \<subseteq> events s' user \<and>
      events s' user \<subseteq> {e \<in> insert (rnd ts, tea) (events s user). rnd (ts - retention) \<le> fst e}"
    and others: "u \<noteq> user \<Longrightarrow> events (snd (st_Record st user tea ts s)) u = events s u"
    and recent: "st_Recent st user since s = (Inr cs, s') \<Longrightarrow>
      event_of ` set cs = {e \<in> events s user. rnd since \<le> fst e} \<and> newest_first cs"
    and recent_reads: "events (snd (st_Recent st user since s)) = events s"
begin

lemma record_recent:
  assumes "invar s" and "st_Record st user tea ts s = (Inr (), s1)" and "st_Recent st user since s1 = (Inr cs, s2)"
    and "rnd (ts - retention) < rnd since"
  shows "event_of ` set cs = {e \<in> insert (rnd ts, tea) (events s user). rnd since \<le> fst e} \<and> newest_first cs"
  using recorded [OF assms(1,2)] recent [OF assms(3)] assms(4) by auto

text \<open>Recording for one user leaves what the others see.\<close>

lemma record_other:
  assumes "u \<noteq> user" and "st_Recent st u since (snd (st_Record st user tea ts s)) = (Inr cs, s2)"
  shows "event_of ` set cs = {e \<in> events s u. rnd since \<le> fst e}"
  using recent [OF assms(2)] others [OF assms(1)] by simp

end

section \<open>The two implementations keep the laws\<close>

definition sorts_newest :: "(Consumption list \<Rightarrow> Consumption list) \<Rightarrow> bool" where
  "sorts_newest arrange \<longleftrightarrow> (\<forall>cs. mset (arrange cs) = mset cs \<and> newest_first (arrange cs))"

lemma sorts_newest_stable: "sorts_newest (sort_key (\<lambda>c. - con_Time c))"
  by (simp add: sorts_newest_def newest_first_def)

definition memory_events :: "MemoryStore \<Rightarrow> uuid \<Rightarrow> event set" where
  "memory_events m user = event_of ` set (ms_events m user)"

lemma memory_laws:
  assumes "sorts_newest arrange"
  shows "memory_events (snd (ms_Record user tea ts m)) user =
      {e \<in> insert (ts, tea) (memory_events m user). ts - ms_retention m < fst e}"
    and "u \<noteq> user \<Longrightarrow> memory_events (snd (ms_Record user tea ts m)) u = memory_events m u"
    and "fst (ms_Recent arrange user since m) = Inr cs \<Longrightarrow>
      event_of ` set cs = {e \<in> memory_events m user. since \<le> fst e} \<and> newest_first cs"
    and "ms_retention (snd (ms_Record user tea ts m)) = ms_retention m"
proof -
  show "memory_events (snd (ms_Record user tea ts m)) user =
      {e \<in> insert (ts, tea) (memory_events m user). ts - ms_retention m < fst e}"
    by (auto simp: memory_events_def ms_Record_def Let_def ms_events_def event_of_def)
  show "u \<noteq> user \<Longrightarrow> memory_events (snd (ms_Record user tea ts m)) u = memory_events m u"
    by (simp add: memory_events_def ms_Record_def Let_def ms_events_def)
  show "ms_retention (snd (ms_Record user tea ts m)) = ms_retention m"
    by (simp add: ms_Record_def Let_def)
  assume r: "fst (ms_Recent arrange user since m) = Inr cs"
  then have cs: "cs = arrange (filter (\<lambda>e. \<not> con_Time e < since) (ms_events m user))"
    by (simp add: ms_Recent_def)
  then have "set cs = set (filter (\<lambda>e. \<not> con_Time e < since) (ms_events m user))" "newest_first cs"
    using assms by (metis sorts_newest_def set_mset_mset, simp add: sorts_newest_def)
  then show "event_of ` set cs = {e \<in> memory_events m user. since \<le> fst e} \<and> newest_first cs"
    by (auto simp: memory_events_def event_of_def)
qed

definition pg_events :: "pgdb \<Rightarrow> uuid \<Rightarrow> event set" where
  "pg_events d user = (\<lambda>r. (s_ts r, s_tea r)) ` set (filter (\<lambda>r. s_user r = user) (db_cons d))"

lemma pg_events_stmts [simp]: "pg_events (d\<lparr>db_stmts := n\<rparr>) = pg_events d"
  by (simp add: pg_events_def fun_eq_iff)

lemma q_InsertConsumption_events:
  assumes "q_InsertConsumption env user ts tea d = (r, d')"
  shows "(r = Inr () \<longrightarrow> pg_events d' = (pg_events d)(user := insert (env_round env ts, tea) (pg_events d user))) \<and>
    (r \<noteq> Inr () \<longrightarrow> pg_events d' = pg_events d)"
proof -
  let ?r = "\<lparr>s_user = user, s_ts = env_round env ts, s_tea = tea\<rparr>"
  have old: "pg_events d = (pg_events d)(user := insert (env_round env ts, tea) (pg_events d user))"
    if "?r \<in> set (db_cons d)"
  proof -
    have "(env_round env ts, tea) \<in> pg_events d user"
      unfolding pg_events_def using that by (intro image_eqI [where x = ?r]) simp_all
    then show ?thesis by (simp add: insert_absorb)
  qed
  have new: "pg_events (d\<lparr>db_cons := db_cons d @ [?r]\<rparr>) =
      (pg_events d)(user := insert (env_round env ts, tea) (pg_events d user))"
    by (auto simp: pg_events_def fun_eq_iff)
  from stmt_cases [OF assms [unfolded q_InsertConsumption_def]] old
    new [unfolded pg_events_def] show ?thesis
    by (auto simp: Let_def pg_events_def split: if_splits)
qed

lemma q_DeleteConsumptionsBefore_events:
  assumes "q_DeleteConsumptionsBefore env user cutoff d = (r, d')"
  shows "(r = Inr () \<longrightarrow> pg_events d' = (pg_events d)(user := {e \<in> pg_events d user. env_round env cutoff \<le> fst e})) \<and>
    (r \<noteq> Inr () \<longrightarrow> pg_events d' = pg_events d)"
  using stmt_cases [OF assms [unfolded q_DeleteConsumptionsBefore_def]]
  by (auto simp: pg_events_def fun_eq_iff not_less)

lemma ps_Record_events:
  assumes "ps_Record env s user tea ts d = (r, d')"
  shows "(r = Inr () \<longrightarrow> pg_events d' =
      (pg_events d)(user := {e \<in> insert (env_round env ts, tea) (pg_events d user).
        env_round env (ts - ps_retention s) \<le> fst e})) \<and>
    (\<forall>u. u \<noteq> user \<longrightarrow> pg_events d' u = pg_events d u)"
proof (cases "ps_queries s")
  case False
  with assms show ?thesis by (auto simp: ps_Record_def)
next
  case True
  obtain r1 d1 where i: "q_InsertConsumption env user ts tea d = (r1, d1)" by fastforce
  obtain r2 d2 where e: "q_DeleteConsumptionsBefore env user (ts - ps_retention s) d1 = (r2, d2)" by fastforce
  show ?thesis
  proof (cases r1)
    case (Inl x)
    with assms True i q_InsertConsumption_events [OF i] show ?thesis
      by (auto simp: ps_Record_def bindE_def wrapE_def)
  next
    case (Inr x)
    with assms True i e q_InsertConsumption_events [OF i] q_DeleteConsumptionsBefore_events [OF e]
    show ?thesis
      by (cases r2) (auto simp: ps_Record_def bindE_def wrapE_def)
  qed
qed

lemma ps_Recent_events:
  assumes "ps_Recent env s user since d = (Inr cs, d')"
  shows "event_of ` set cs = {e \<in> pg_events d user. env_round env since \<le> fst e} \<and> newest_first cs"
proof -
  let ?f = "\<lambda>row. \<lparr>con_TeaID = s_tea row, con_Time = s_ts row\<rparr>"
  obtain rows where q: "q_ListConsumptionsSince env user since d = (Inr rows, d')" and cs: "cs = map ?f rows"
    using assms by (auto simp: ps_Recent_def mapE_wrapE_Inr split: if_splits)
  then have rows: "rows = sort_key (\<lambda>r. - s_ts r)
      (filter (\<lambda>r. s_user r = user \<and> env_round env since \<le> s_ts r) (db_cons d))"
    using stmt_cases [OF q [unfolded q_ListConsumptionsSince_def]] by auto
  have "map (\<lambda>c. - con_Time c) cs = map (\<lambda>r. - s_ts r) rows" by (simp add: cs)
  then have "newest_first cs" by (simp only: newest_first_def rows sorted_map_key)
  moreover have "event_of ` set cs = {e \<in> pg_events d user. env_round env since \<le> fst e}"
  proof -
    have "event_of ` set cs = (\<lambda>r. (s_ts r, s_tea r)) ` set rows"
      by (simp add: cs image_image event_of_def)
    then show ?thesis by (auto simp: rows pg_events_def)
  qed
  ultimately show ?thesis by simp
qed

interpretation memory: consumption_laws "memory_store (sort_key (\<lambda>c. - con_Time c))" memory_events
  "\<lambda>t. t" R "\<lambda>m. ms_retention m = R"
proof
  fix m m' :: MemoryStore and u user tea ts since cs
  let ?st = "memory_store (sort_key (\<lambda>c. - con_Time c))"
  note laws = memory_laws [OF sorts_newest_stable]
  show "ms_retention m = R \<Longrightarrow> ms_retention (snd (st_Record ?st user tea ts m)) = R"
    using laws(4) by (simp add: memory_store_def)
  show "{e \<in> insert (ts, tea) (memory_events m user). ts - R < fst e} \<subseteq> memory_events m' user \<and>
      memory_events m' user \<subseteq> {e \<in> insert (ts, tea) (memory_events m user). ts - R \<le> fst e}"
    if "ms_retention m = R" "st_Record ?st user tea ts m = (Inr (), m')"
  proof -
    have "m' = snd (ms_Record user tea ts m)" using that(2) by (simp add: memory_store_def)
    then have "memory_events m' user = {e \<in> insert (ts, tea) (memory_events m user). ts - R < fst e}"
      using laws(1) that(1) by simp
    then show ?thesis by auto
  qed
  show "u \<noteq> user \<Longrightarrow> memory_events (snd (st_Record ?st user tea ts m)) u = memory_events m u"
    using laws(2) by (simp add: memory_store_def)
  show "event_of ` set cs = {e \<in> memory_events m user. since \<le> fst e} \<and> newest_first cs"
    if "st_Recent ?st user since m = (Inr cs, m')"
    by (rule laws(3)) (use that in \<open>simp add: memory_store_def\<close>)
  show "memory_events (snd (st_Recent ?st user since m)) = memory_events m"
    by (simp add: memory_store_def ms_Recent_def)
qed

interpretation pg: consumption_laws "postgres_store env s" pg_events "env_round env" "ps_retention s" "\<lambda>_. True"
proof
  fix d d' :: pgdb and u user tea ts since cs
  show "{e \<in> insert (env_round env ts, tea) (pg_events d user). env_round env (ts - ps_retention s) < fst e}
        \<subseteq> pg_events d' user \<and>
      pg_events d' user \<subseteq> {e \<in> insert (env_round env ts, tea) (pg_events d user).
        env_round env (ts - ps_retention s) \<le> fst e}"
    if "st_Record (postgres_store env s) user tea ts d = (Inr (), d')"
    using ps_Record_events [of env s user tea ts d "Inr ()" d'] that by (auto simp: postgres_store_def)
  show "u \<noteq> user \<Longrightarrow> pg_events (snd (st_Record (postgres_store env s) user tea ts d)) u = pg_events d u"
    using ps_Record_events [of env s user tea ts d] by (cases "ps_Record env s user tea ts d") (auto simp: postgres_store_def)
  show "event_of ` set cs = {e \<in> pg_events d user. env_round env since \<le> fst e} \<and> newest_first cs"
    if "st_Recent (postgres_store env s) user since d = (Inr cs, d')"
    using ps_Recent_events that by (simp add: postgres_store_def)
  show "pg_events (snd (st_Recent (postgres_store env s) user since d)) = pg_events d"
    by (simp add: postgres_store_def ps_Recent_def q_ListConsumptionsSince_def)
qed simp

section \<open>What Record and Recent promise\<close>

text \<open>
  On Postgres, a consumption that was recorded is returned by every later question that
  reaches back within the retention, together with exactly the earlier consumptions of the
  user in that time, newest first.
\<close>

theorem Record_Recent:
  assumes "ps_Record env s user tea ts d = (Inr (), d1)" and "ps_Recent env s user since d1 = (Inr cs, d2)"
    and "env_round env (ts - ps_retention s) < env_round env since"
  shows "event_of ` set cs =
      {e \<in> insert (env_round env ts, tea) (pg_events d user). env_round env since \<le> fst e} \<and> newest_first cs"
proof -
  have "st_Record (postgres_store env s) user tea ts d = (Inr (), d1)"
    "st_Recent (postgres_store env s) user since d1 = (Inr cs, d2)"
    using assms(1,2) by (simp_all add: postgres_store_def)
  from pg.record_recent [OF TrueI this assms(3)] show ?thesis .
qed

definition db_drinker :: pgdb where
  "db_drinker = db_one_tea\<lparr>db_users := [\<lparr>u_id = 1, u_apple = ''a'', u_created = 0\<rparr>]\<rparr>"

theorem Record_Recent_witness:
  "let (r1, d1) = ps_Record env0 (NewPGStore 0) 1 7 5000000000000000 db_drinker;
       (r2, d2) = ps_Recent env0 (NewPGStore 0) 1 4000000000000000 d1
   in r1 = Inr () \<and> (\<exists>cs. r2 = Inr cs \<and> event_of ` set cs = {(5000000000000000, 7)})"
proof -
  let ?s = "NewPGStore 0"
  obtain d1 where r: "ps_Record env0 ?s 1 7 5000000000000000 db_drinker = (Inr (), d1)"
    by (simp add: ps_Record_def NewPGStore_def bindE_def wrapE_def q_InsertConsumption_def
        q_DeleteConsumptionsBefore_def db_drinker_def db_one_tea_simps empty_db_def Let_def)
  obtain cs d2 where q: "ps_Recent env0 ?s 1 4000000000000000 d1 = (Inr cs, d2)"
    by (simp add: ps_Recent_def NewPGStore_def mapE_def wrapE_def q_ListConsumptionsSince_def)
  have "pg_events db_drinker 1 = {}"
    by (simp add: pg_events_def db_drinker_def db_one_tea_simps empty_db_def)
  with Record_Recent [OF r q] have "event_of ` set cs = {(5000000000000000, 7)}"
    by (auto simp: env0_def NewPGStore_def defaultRetention_def Hour_def)
  with r q show ?thesis by simp
qed

section \<open>The two stores agree\<close>

type_synonym con_call = "uuid \<times> uuid \<times> time"

definition memory_run :: "con_call list \<Rightarrow> MemoryStore \<Rightarrow> MemoryStore" where
  "memory_run calls m = fold (\<lambda>(user, tea, ts) m. snd (ms_Record user tea ts m)) calls m"

definition pg_run :: "pg_env \<Rightarrow> PGStore \<Rightarrow> con_call list \<Rightarrow> pgdb \<Rightarrow> pgdb" where
  "pg_run env s calls d = fold (\<lambda>(user, tea, ts) d. snd (ps_Record env s user tea ts d)) calls d"

lemma ps_Record_succeeds:
  assumes "\<not> env_fault env (db_stmts d)" and "\<not> env_fault env (Suc (db_stmts d))"
    and "ps_queries s" and "user \<in> u_id ` set (db_users d)" and "tea \<in> t_id ` set (db_teas d)"
  shows "fst (ps_Record env s user tea ts d) = Inr () \<and>
    db_users (snd (ps_Record env s user tea ts d)) = db_users d \<and>
    db_teas (snd (ps_Record env s user tea ts d)) = db_teas d"
  using assms
  by (auto simp: ps_Record_def bindE_def wrapE_def q_InsertConsumption_def q_DeleteConsumptionsBefore_def
      stmt_def Let_def)

text \<open>
  The boundary times of the calls of a user, and an event of the memory store as the database
  keeps it: with the time at the resolution of the server.
\<close>

definition cutoffs :: "duration \<Rightarrow> con_call list \<Rightarrow> uuid \<Rightarrow> time set" where
  "cutoffs R calls user = {ts - R | tea ts. (user, tea, ts) \<in> set calls}"

definition stored :: "pg_env \<Rightarrow> event \<Rightarrow> event" where
  "stored env e = (env_round env (fst e), snd e)"

lemma stored_simps [simp]:
  "fst (stored env e) = env_round env (fst e)" "stored env (ts, tea) = (env_round env ts, tea)"
  by (simp_all add: stored_def)

lemma cutoffs_Cons: "cutoffs R calls u \<subseteq> cutoffs R (call # calls) u"
  by (auto simp: cutoffs_def)

text \<open>
  The database holds the stored events of the memory, and beside them only events at the
  times \<open>B\<close>. One call on both sides keeps this for one user.
\<close>

definition covers :: "pg_env \<Rightarrow> time set \<Rightarrow> event set \<Rightarrow> event set \<Rightarrow> bool" where
  "covers env B M P \<longleftrightarrow> stored env ` M \<subseteq> P \<and> fst ` (P - stored env ` M) \<subseteq> env_round env ` B"

lemma covers_mono: "covers env B M P \<Longrightarrow> B \<subseteq> B' \<Longrightarrow> covers env B' M P"
  unfolding covers_def by blast

lemma covers_step:
  assumes "mono (env_round env)" and "covers env B M P" and "bound \<in> B" and "bound = ts - R"
  shows "covers env B {e \<in> insert (ts, tea) M. bound < fst e}
    {e \<in> insert (env_round env ts, tea) P. env_round env bound \<le> fst e}"
    (is "covers env B ?M ?P")
proof -
  have le: "env_round env x \<le> env_round env y" if "x \<le> y" for x y
    using assms(1) that by (rule monoD)
  have "stored env ` ?M \<subseteq> ?P"
    using assms(2) le by (auto simp: covers_def)
  moreover have "fst x \<in> env_round env ` B" if x: "x \<in> ?P" "x \<notin> stored env ` ?M" for x
  proof (cases "x \<in> stored env ` insert (ts, tea) M")
    case True
    then obtain e where e: "e \<in> insert (ts, tea) M" "x = stored env e" by blast
    with x have "fst e \<le> bound" by (metis (no_types, lifting) image_eqI mem_Collect_eq not_le)
    with x(1) e(2) le [of "fst e" bound] have "fst x = env_round env bound" by simp
    with assms(3) show ?thesis by simp
  next
    case False
    with x(1) have "x \<in> P - stored env ` M" by auto
    with assms(2) show ?thesis unfolding covers_def by blast
  qed
  ultimately show ?thesis unfolding covers_def by blast
qed

definition agree :: "pg_env \<Rightarrow> (uuid \<Rightarrow> time set) \<Rightarrow> MemoryStore \<Rightarrow> pgdb \<Rightarrow> bool" where
  "agree env B m d \<longleftrightarrow> (\<forall>u. covers env (B u) (memory_events m u) (pg_events d u))"

lemma agree_step:
  assumes "mono (env_round env)" and "agree env B m d" and "fst (ps_Record env s user tea ts d) = Inr ()"
    and "ps_retention s = ms_retention m" and "ts - ms_retention m \<in> B user"
  shows "agree env B (snd (ms_Record user tea ts m)) (snd (ps_Record env s user tea ts d))"
  unfolding agree_def
proof
  fix u
  obtain d' where d': "ps_Record env s user tea ts d = (Inr (), d')"
    using assms(3) by (metis prod.collapse)
  have p: "pg_events d' user = {e \<in> insert (env_round env ts, tea) (pg_events d user).
      env_round env (ts - ms_retention m) \<le> fst e}"
    "\<forall>u. u \<noteq> user \<longrightarrow> pg_events d' u = pg_events d u"
    using ps_Record_events [OF d'] assms(4) by simp_all
  have m: "memory_events (snd (ms_Record user tea ts m)) user =
      {e \<in> insert (ts, tea) (memory_events m user). ts - ms_retention m < fst e}"
    "\<And>u. u \<noteq> user \<Longrightarrow> memory_events (snd (ms_Record user tea ts m)) u = memory_events m u"
    using memory_laws(1,2) [OF sorts_newest_stable] by blast+
  have old: "covers env (B u) (memory_events m u) (pg_events d u)" for u
    using assms(2) by (simp add: agree_def)
  show "covers env (B u) (memory_events (snd (ms_Record user tea ts m)) u)
      (pg_events (snd (ps_Record env s user tea ts d)) u)"
    using covers_step [OF assms(1) old assms(5) refl] old p m by (cases "u = user") (simp_all add: d')
qed

text \<open>
  C28. After the same records of users and teas the database has, while no statement fails and
  whatever the resolution of the server's times (it rounds, keeping the order), Postgres holds
  every event that the memory store holds, at that resolution, and beside them only events
  that lie, at that resolution, exactly on the retention boundary of one of the calls: it
  deletes what is before the cutoff, the memory store keeps only what is after it.
\<close>

theorem memory_and_postgres_agree:
  assumes "no_faults env" and "mono (env_round env)" and "ps_queries s" and "ps_retention s = ms_retention m"
    and "\<forall>u. stored env ` memory_events m u = pg_events d u"
    and "\<forall>(user, tea, ts) \<in> set calls. user \<in> u_id ` set (db_users d) \<and> tea \<in> t_id ` set (db_teas d)"
  shows "stored env ` memory_events (memory_run calls m) u \<subseteq> pg_events (pg_run env s calls d) u \<and>
    fst ` (pg_events (pg_run env s calls d) u - stored env ` memory_events (memory_run calls m) u)
      \<subseteq> env_round env ` cutoffs (ms_retention m) calls u"
proof -
  have "agree env B (memory_run calls m) (pg_run env s calls d)"
    if "agree env B m d" and "\<forall>u. cutoffs (ms_retention m) calls u \<subseteq> B u" for B
    using that assms(4,6)
  proof (induction calls arbitrary: m d)
    case Nil
    then show ?case by (simp add: memory_run_def pg_run_def)
  next
    case (Cons call calls)
    obtain user tea ts where call: "call = (user, tea, ts)" by (cases call)
    let ?m = "snd (ms_Record user tea ts m)" and ?d = "snd (ps_Record env s user tea ts d)"
    have ok: "fst (ps_Record env s user tea ts d) = Inr ()" "db_users ?d = db_users d" "db_teas ?d = db_teas d"
      using ps_Record_succeeds [OF _ _ assms(3), of env d user tea] assms(1) Cons.prems(4) call
      by (auto simp: no_faults_def)
    have ret: "ms_retention ?m = ms_retention m" by (rule memory_laws(4) [OF sorts_newest_stable])
    have "ts - ms_retention m \<in> B user"
      using Cons.prems(2) call by (auto simp: cutoffs_def)
    then have "agree env B ?m ?d"
      using Cons.prems(1,3) ok assms(2) by (intro agree_step)
    moreover have "\<forall>u. cutoffs (ms_retention ?m) calls u \<subseteq> B u"
      using Cons.prems(2) cutoffs_Cons ret by (metis subset_trans)
    moreover have "ps_retention s = ms_retention ?m" using Cons.prems(3) ret by simp
    moreover have "\<forall>(user, tea, ts) \<in> set calls. user \<in> u_id ` set (db_users ?d) \<and> tea \<in> t_id ` set (db_teas ?d)"
      using Cons.prems(4) ok by auto
    ultimately have "agree env B (memory_run calls ?m) (pg_run env s calls ?d)" by (rule Cons.IH)
    then show ?case by (simp add: memory_run_def pg_run_def call)
  qed
  from this [of "cutoffs (ms_retention m) calls"] assms(5) show ?thesis
    by (simp add: agree_def covers_def)
qed

text \<open>A tea recorded 1234 ns after 9000 ns: the server keeps microseconds.\<close>

theorem memory_and_postgres_agree_witness:
  "{(10000, 7)} \<subseteq> pg_events (pg_run env0 (NewPGStore 5000) [(1, 7, 10234)] db_drinker) 1 \<and>
   fst ` (pg_events (pg_run env0 (NewPGStore 5000) [(1, 7, 10234)] db_drinker) 1 - {(10000, 7)}) \<subseteq> {5000}"
proof -
  have none: "\<forall>u. stored env0 ` memory_events (NewMemoryStore 5000) u = pg_events db_drinker u"
    by (simp add: memory_events_def ms_events_def NewMemoryStore_def pg_events_def db_drinker_def
        db_one_tea_simps empty_db_def)
  have round: "mono (env_round env0)" "env_round env0 10234 = 10000" "env_round env0 5234 = 5000"
    by (auto simp: env0_def mono_def intro: zdiv_mono1)
  have mem: "stored env0 ` memory_events (memory_run [(1, 7, 10234)] (NewMemoryStore 5000)) 1 = {(10000, 7)}"
    by (simp add: memory_run_def ms_Record_def NewMemoryStore_def memory_events_def ms_events_def event_of_def round)
  have cuts: "cutoffs 5000 [(1, 7, 10234)] 1 = {5234}" by (auto simp: cutoffs_def)
  have db: "1 \<in> u_id ` set (db_users db_drinker)" "7 \<in> t_id ` set (db_teas db_drinker)"
    by (simp_all add: db_drinker_def db_one_tea_simps)
  show ?thesis
    using memory_and_postgres_agree [OF no_faults_env0 round(1), of "NewPGStore 5000" "NewMemoryStore 5000" db_drinker
        "[(1, 7, 10234)]" 1] none mem cuts db round
    by (simp add: NewPGStore_def) (simp add: NewMemoryStore_def)
qed

end
