(* ===== verification/Authentication.thy ===== *)
theory Authentication
  imports Qr_Notification
begin

text \<open>
  Sign-in and the checking of tokens (\<open>internal/auth/auth.go\<close>): the session token of a
  user, the editor's admin token, the context the two middlewares leave for the resolvers.
  The JWT, PEM, key-parsing, UUID and Apple libraries are a record of functions; what the code
  relies on of them is stated as the predicates \<open>parse_checks\<close> and \<open>session_reads_back\<close>.
  The store behind a sign-in is the interface \<open>user_storage\<close>, with its laws
  interpreted on the Postgres adapter.
\<close>

section \<open>Values of the libraries\<close>

text \<open>An interface value in a claim or header: only its dynamic type and value matter.\<close>

datatype gval = GStr string | GBool bool | GNum int | GOther

type_synonym claims = "string \<rightharpoonup> gval"

text \<open>\<open>ecdsa.PublicKey\<close> is a point, \<open>ecdsa.PrivateKey\<close> a point and its exponent.\<close>

type_synonym public_key = "nat \<times> nat"

record private_key =
  PublicKey :: public_key
  priv_D :: nat

datatype gokey = KeyPrivate private_key | KeyPublic public_key | KeyOther nat

text \<open>
  \<open>jwt.Token\<close>: whether its method is of the ECDSA type, the name of the method, the \<open>kid\<close>
  of the header, the claims where they are \<open>jwt.MapClaims\<close>, and the verdict of the parser.
\<close>

record jwt_token =
  tok_MethodECDSA :: bool
  tok_Alg :: string
  tok_kid :: "gval option"
  tok_Claims :: "claims option"
  tok_Valid :: bool

record parser_options =
  opt_ValidMethods :: "string list option"
  opt_Issuer :: "string option"
  opt_Audience :: "string option"
  opt_Leeway :: duration

record registered_claims =
  rc_Issuer :: string
  rc_ExpiresAt :: time
  rc_ID :: string

record apple_response =
  ar_Error :: string
  ar_ErrorDescription :: string
  ar_IDToken :: string

record libraries =
  jwt_Parse :: "string \<Rightarrow> (jwt_token \<Rightarrow> gerr + gokey) \<Rightarrow> parser_options \<Rightarrow> time \<Rightarrow> gerr + jwt_token"
  jwt_SignedString :: "string \<Rightarrow> registered_claims \<Rightarrow> gokey \<Rightarrow> gerr + string"
  jwt_NewNumericDate :: "time \<Rightarrow> time"
  GetExpirationTime :: "claims \<Rightarrow> gerr + time option"
  GetIssuedAt :: "claims \<Rightarrow> gerr + time option"
  GetIssuer :: "claims \<Rightarrow> gerr + string"
  uuid_Parse :: "string \<Rightarrow> gerr + uuid"
  uuid_String :: "uuid \<Rightarrow> string"
  pem_Decode :: "string \<Rightarrow> string option"
  ParsePKCS8PrivateKey :: "string \<Rightarrow> gerr + gokey"
  ParsePKIXPublicKey :: "string \<Rightarrow> gerr + gokey"
  os_ReadFile :: "string \<Rightarrow> gerr + string"
  GenerateClientSecret :: "string \<Rightarrow> string \<Rightarrow> string \<Rightarrow> string \<Rightarrow> string \<times> gerr option"
  VerifyAppToken :: "string \<Rightarrow> string \<Rightarrow> string \<Rightarrow> gerr + apple_response"
  apple_GetClaims :: "string \<Rightarrow> gerr + claims"
  apple_GetUniqueID :: "string \<Rightarrow> gerr + string"

section \<open>State and constants\<close>

record Configuration =
  cfg_SecretPath :: string
  cfg_Secret :: string
  cfg_TeamID :: string
  cfg_ClientID :: string
  cfg_KeyID :: string
  cfg_AdminPublicKeyPath :: string

record auth =
  au_cfg :: Configuration
  au_secret :: string
  au_adminKeys :: "string \<rightharpoonup> public_key"

record Session =
  ses_JWT :: string
  ses_User :: "User option"
  ses_ExpiredAt :: time

record AuthUser = User +
  usr_Session :: Session

record AdminPrincipal =
  JTI :: string
  IssuedAt :: time
  ExpiresAt :: time

text \<open>The request's context: the values under \<open>userCtxKey\<close> and \<open>adminCtxKey\<close>.\<close>

record request_ctx =
  ctx_user :: "AuthUser option"
  ctx_admin :: "AdminPrincipal option"

definition JwtDurationHour :: int where "JwtDurationHour = 24"
definition signingMethod :: string where "signingMethod = ''ES256''"
definition bearerPrefix :: string where "bearerPrefix = ''Bearer ''"
definition AdminClaimKey :: string where "AdminClaimKey = ''admin''"
definition AdminIssuer :: string where "AdminIssuer = ''TeaElephantEditor''"
definition AdminAudience :: string where "AdminAudience = ''tea-elephant-api''"
definition ClockSkewSeconds :: int where "ClockSkewSeconds = 300"

definition no_options :: parser_options where
  "no_options = \<lparr>opt_ValidMethods = None, opt_Issuer = None, opt_Audience = None, opt_Leeway = 0\<rparr>"

definition admin_options :: parser_options where
  "admin_options =
     \<lparr>opt_ValidMethods = Some [signingMethod], opt_Issuer = Some AdminIssuer,
      opt_Audience = Some AdminAudience, opt_Leeway = ClockSkewSeconds * 1000000000\<rparr>"

section \<open>Session tokens\<close>

definition getSecret :: "libraries \<Rightarrow> auth \<Rightarrow> gerr + gokey" where
  "getSecret L a =
     (case pem_Decode L (cfg_Secret (au_cfg a)) of
        None \<Rightarrow> Inl (Sentinel ErrEmptyBlockDecode)
      | Some block \<Rightarrow>
          (case ParsePKCS8PrivateKey L block of
             Inl e \<Rightarrow> Inl (Wrap ''parse pkcs8 private key'' e)
           | Inr key \<Rightarrow> Inr key))"

fun public_part :: "gokey \<Rightarrow> gokey" where
  "public_part (KeyPrivate k) = KeyPublic (PublicKey k)"
| "public_part k = k"

definition verificationKey :: "libraries \<Rightarrow> auth \<Rightarrow> jwt_token \<Rightarrow> gerr + gokey" where
  "verificationKey L a t =
     (if \<not> tok_MethodECDSA t then Inl (Wrap ''alg'' (Sentinel ErrUnexpectedSigningMethod))
      else
        (case getSecret L a of
           Inl e \<Rightarrow> Inl (Wrap ''get secret'' e)
         | Inr key \<Rightarrow> Inr (public_part key)))"

definition extractValidClaims :: "libraries \<Rightarrow> jwt_token \<Rightarrow> time \<Rightarrow> (claims \<times> time) call" where
  "extractValidClaims L result now =
     (case tok_Claims result of
        None \<Rightarrow> Ret (Inl (Sentinel ErrInvalidToken))
      | Some claims \<Rightarrow>
          if \<not> tok_Valid result then Ret (Inl (Sentinel ErrInvalidToken))
          else
            (case GetExpirationTime L claims of
               Inl e \<Rightarrow> Ret (Inl (Wrap ''get expiration time'' e))
             | Inr None \<Rightarrow> Panic
             | Inr (Some exp) \<Rightarrow>
                 if now > exp then Ret (Inl (Sentinel ErrExpiredToken))
                 else Ret (Inr (claims, exp))))"

definition issuerUUID :: "libraries \<Rightarrow> claims \<Rightarrow> gerr + uuid" where
  "issuerUUID L claims =
     (case GetIssuer L claims of
        Inl e \<Rightarrow> Inl (Wrap ''get issuer'' e)
      | Inr userIDStr \<Rightarrow>
          (case uuid_Parse L userIDStr of
             Inl e \<Rightarrow> Inl (Wrap ''parse uuid'' e)
           | Inr userID \<Rightarrow> Inr userID))"

text \<open>
  \<open>Validate\<close> reads the clock twice: the library at \<open>now0\<close>, the code itself at \<open>now\<close>.
\<close>

definition Validate :: "libraries \<Rightarrow> auth \<Rightarrow> string \<Rightarrow> time \<Rightarrow> time \<Rightarrow> AuthUser call" where
  "Validate L a jwtToken now0 now =
     (case jwt_Parse L jwtToken (verificationKey L a) no_options now0 of
        Inl e \<Rightarrow> Ret (Inl (Wrap ''parse jwt'' e))
      | Inr result \<Rightarrow>
          (case extractValidClaims L result now of
             Panic \<Rightarrow> Panic
           | Ret (Inl e) \<Rightarrow> Ret (Inl e)
           | Ret (Inr (claims, exp)) \<Rightarrow>
               (case issuerUUID L claims of
                  Inl e \<Rightarrow> Ret (Inl e)
                | Inr userID \<Rightarrow>
                    Ret (Inr \<lparr>user_ID = userID, user_AppleID = '''',
                      usr_Session = \<lparr>ses_JWT = jwtToken, ses_User = None, ses_ExpiredAt = exp\<rparr>\<rparr>))))"

section \<open>Admin tokens\<close>

definition loadPublicKeyFromFile :: "libraries \<Rightarrow> string \<Rightarrow> gerr + public_key" where
  "loadPublicKeyFromFile L path =
     (case os_ReadFile L path of
        Inl e \<Rightarrow> Inl (Wrap ''read admin public key'' e)
      | Inr b \<Rightarrow>
          (case pem_Decode L b of
             None \<Rightarrow> Inl (Sentinel ErrEmptyBlockDecode)
           | Some block \<Rightarrow>
               (case ParsePKIXPublicKey L block of
                  Inl e \<Rightarrow> Inl (Wrap ''parse admin public key'' e)
                | Inr (KeyPublic k) \<Rightarrow> Inr k
                | Inr _ \<Rightarrow> Inl (Sentinel ErrAdminKeyNotECDSA))))"

definition loadAdminKeys :: "libraries \<Rightarrow> (auth, unit) act" where
  "loadAdminKeys L a =
     (case loadPublicKeyFromFile L (cfg_AdminPublicKeyPath (au_cfg a)) of
        Inl e \<Rightarrow> (Inl e, a)
      | Inr key \<Rightarrow> (Inr (), a\<lparr>au_adminKeys := (au_adminKeys a)('''' \<mapsto> key)\<rparr>))"

definition Start :: "libraries \<Rightarrow> (auth, unit) act" where
  "Start L a =
     (case GenerateClientSecret L (cfg_Secret (au_cfg a)) (cfg_TeamID (au_cfg a))
             (cfg_ClientID (au_cfg a)) (cfg_KeyID (au_cfg a)) of
        (secret, Some e) \<Rightarrow> (Inl (Wrap ''generate apple client secret'' e), a\<lparr>au_secret := secret\<rparr>)
      | (secret, None) \<Rightarrow> wrapE ''load admin keys'' (loadAdminKeys L) (a\<lparr>au_secret := secret\<rparr>))"

definition NewAuth :: "Configuration \<Rightarrow> auth" where
  "NewAuth cfg = \<lparr>au_cfg = cfg, au_secret = '''', au_adminKeys = Map.empty\<rparr>"

definition header_kid :: "jwt_token \<Rightarrow> string" where
  "header_kid t = (case tok_kid t of Some (GStr s) \<Rightarrow> s | _ \<Rightarrow> '''')"

definition adminVerificationKey :: "auth \<Rightarrow> jwt_token \<Rightarrow> gerr + gokey" where
  "adminVerificationKey a t =
     (if tok_Alg t \<noteq> signingMethod then Inl (Wrap ''alg'' (Sentinel ErrUnexpectedSigningMethod))
      else
        let key = (case au_adminKeys a (header_kid t) of Some k \<Rightarrow> Some k | None \<Rightarrow> au_adminKeys a '''')
        in (case key of
              None \<Rightarrow> Inl (Sentinel ErrAdminVerificationKeyAbsent)
            | Some k \<Rightarrow> Inr (KeyPublic k)))"

definition claim_bool :: "claims \<Rightarrow> string \<Rightarrow> bool" where
  "claim_bool claims k = (case claims k of Some (GBool b) \<Rightarrow> b | _ \<Rightarrow> False)"

definition claim_string :: "claims \<Rightarrow> string \<Rightarrow> string" where
  "claim_string claims k = (case claims k of Some (GStr s) \<Rightarrow> s | _ \<Rightarrow> '''')"

definition ValidateAdmin :: "libraries \<Rightarrow> auth \<Rightarrow> string \<Rightarrow> time \<Rightarrow> AdminPrincipal call" where
  "ValidateAdmin L a jwtToken now =
     (case jwt_Parse L jwtToken (adminVerificationKey a) admin_options now of
        Inl e \<Rightarrow> Ret (Inl (Wrap ''parse admin jwt'' e))
      | Inr parsed \<Rightarrow>
          (case tok_Claims parsed of
             None \<Rightarrow> Ret (Inl (Sentinel ErrInvalidToken))
           | Some claims \<Rightarrow>
               if \<not> tok_Valid parsed then Ret (Inl (Sentinel ErrInvalidToken))
               else if \<not> claim_bool claims AdminClaimKey then Ret (Inl (Sentinel ErrNotAdmin))
               else
                 (case GetIssuedAt L claims of
                    Inl e \<Rightarrow> Ret (Inl (Wrap ''missing iat'' e))
                  | Inr issuedAt \<Rightarrow>
                      (case GetExpirationTime L claims of
                         Inl e \<Rightarrow> Ret (Inl (Wrap ''missing exp'' e))
                       | Inr exp \<Rightarrow>
                           (case (issuedAt, exp) of
                              (Some i, Some x) \<Rightarrow>
                                Ret (Inr \<lparr>JTI = claim_string claims ''jti'', IssuedAt = i, ExpiresAt = x\<rparr>)
                            | _ \<Rightarrow> Panic)))))"

section \<open>The middlewares\<close>

text \<open>\<open>strings.Replace(s, old, "", 1)\<close>: the first occurrence is removed, wherever it is.\<close>

fun remove_first :: "string \<Rightarrow> string \<Rightarrow> string" where
  "remove_first old [] = []"
| "remove_first old (c # cs) =
     (if take (length old) (c # cs) = old then drop (length old) (c # cs)
      else c # remove_first old cs)"

text \<open>
  \<open>InterceptResponse\<close> gives the context the resolvers run in and whether an
  \<open>UNAUTHENTICATED\<close> error was added; \<open>WsInitFunc\<close> refuses the connection instead.
\<close>

definition InterceptResponse ::
    "libraries \<Rightarrow> auth \<Rightarrow> string \<Rightarrow> time \<Rightarrow> time \<Rightarrow> time \<Rightarrow> request_ctx \<Rightarrow> (request_ctx \<times> bool) call" where
  "InterceptResponse L a header now0 now now2 ctx =
     (if header = '''' then Ret (Inr (ctx, False))
      else
        let token = remove_first bearerPrefix header
        in (case Validate L a token now0 now of
              Panic \<Rightarrow> Panic
            | Ret (Inr user) \<Rightarrow> Ret (Inr (ctx\<lparr>ctx_user := Some user\<rparr>, False))
            | Ret (Inl _) \<Rightarrow>
                (case ValidateAdmin L a token now2 of
                   Panic \<Rightarrow> Panic
                 | Ret (Inr p) \<Rightarrow> Ret (Inr (ctx\<lparr>ctx_admin := Some p\<rparr>, False))
                 | Ret (Inl _) \<Rightarrow> Ret (Inr (ctx, True)))))"

definition WsInitFunc ::
    "libraries \<Rightarrow> auth \<Rightarrow> string \<Rightarrow> time \<Rightarrow> time \<Rightarrow> time \<Rightarrow> request_ctx \<Rightarrow> request_ctx call" where
  "WsInitFunc L a authHeader now0 now now2 ctx =
     (if authHeader = '''' then Ret (Inr ctx)
      else
        let token = remove_first bearerPrefix authHeader
        in (case Validate L a token now0 now of
              Panic \<Rightarrow> Panic
            | Ret (Inr user) \<Rightarrow> Ret (Inr (ctx\<lparr>ctx_user := Some user\<rparr>))
            | Ret (Inl _) \<Rightarrow>
                (case ValidateAdmin L a token now2 of
                   Panic \<Rightarrow> Panic
                 | Ret (Inr p) \<Rightarrow> Ret (Inr (ctx\<lparr>ctx_admin := Some p\<rparr>))
                 | Ret (Inl _) \<Rightarrow> Ret (Inl (Sentinel ErrJwtIncorrect)))))"

definition GetUser :: "request_ctx \<Rightarrow> gerr + AuthUser" where
  "GetUser ctx = (case ctx_user ctx of Some u \<Rightarrow> Inr u | None \<Rightarrow> Inl (Sentinel ErrUserNotFound))"

definition AdminPrincipalFrom :: "request_ctx \<Rightarrow> AdminPrincipal option" where
  "AdminPrincipalFrom ctx = ctx_admin ctx"

definition RequireAdmin :: "request_ctx \<Rightarrow> gerr + unit" where
  "RequireAdmin ctx =
     (case AdminPrincipalFrom ctx of None \<Rightarrow> Inl (Sentinel ErrUnauthorized) | Some _ \<Rightarrow> Inr ())"

definition empty_ctx :: request_ctx where
  "empty_ctx = \<lparr>ctx_user = None, ctx_admin = None\<rparr>"

section \<open>Signing in\<close>

record 's user_storage =
  us_GetOrCreateUser :: "uuid \<Rightarrow> string \<Rightarrow> ('s, uuid) act"

text \<open>
  The identifiers the code draws with \<open>uuid.New\<close> (of a new user, of the token) and the
  time are arguments.
\<close>

record signin =
  si_user :: uuid
  si_jti :: uuid
  si_now :: time
  si_code :: string

text \<open>The token of a session: \<open>new_session\<close> is the part of \<open>Auth\<close> after the store answered.\<close>

definition new_session :: "libraries \<Rightarrow> auth \<Rightarrow> signin \<Rightarrow> string \<Rightarrow> uuid \<Rightarrow> gerr + Session" where
  "new_session L a i unique user =
     (let exp = si_now i + Hour * JwtDurationHour;
          newClaims = \<lparr>rc_Issuer = uuid_String L user, rc_ExpiresAt = jwt_NewNumericDate L exp,
            rc_ID = uuid_String L (si_jti i)\<rparr>
      in (case getSecret L a of
            Inl e \<Rightarrow> Inl (Wrap ''get secret'' e)
          | Inr privKey \<Rightarrow>
              (case jwt_SignedString L signingMethod newClaims privKey of
                 Inl e \<Rightarrow> Inl (Wrap ''sign jwt'' e)
               | Inr signedJWT \<Rightarrow>
                   Inr \<lparr>ses_JWT = signedJWT,
                     ses_User = Some \<lparr>user_ID = user, user_AppleID = unique\<rparr>,
                     ses_ExpiredAt = exp\<rparr>)))"

definition Auth :: "libraries \<Rightarrow> 's user_storage \<Rightarrow> auth \<Rightarrow> signin \<Rightarrow> ('s, Session) act" where
  "Auth L st a i s =
     (case VerifyAppToken L (cfg_ClientID (au_cfg a)) (au_secret a) (si_code i) of
        Inl e \<Rightarrow> (Inl (Wrap ''verify apple app token'' e), s)
      | Inr resp \<Rightarrow>
          if ar_Error resp \<noteq> '''' then (Inl (Wrap (ar_ErrorDescription resp) (Sentinel ErrAppleAuth)), s)
          else
            (case apple_GetClaims L (ar_IDToken resp) of
               Inl e \<Rightarrow> (Inl (Wrap ''get claims'' e), s)
             | Inr _ \<Rightarrow>
                 (case apple_GetUniqueID L (ar_IDToken resp) of
                    Inl e \<Rightarrow> (Inl (Wrap ''get unique id'' e), s)
                  | Inr unique \<Rightarrow>
                      bindE (wrapE ''get or create user'' (us_GetOrCreateUser st (si_user i) unique))
                        (\<lambda>user s. (new_session L a i unique user, s)) s)))"

definition sign_ins :: "libraries \<Rightarrow> 's user_storage \<Rightarrow> auth \<Rightarrow> signin list \<Rightarrow> 's \<Rightarrow> 's" where
  "sign_ins L st a is s = fold (\<lambda>i s. snd (Auth L st a i s)) is s"

text \<open>What a successful sign-in did: it asked the store for the user and signed a token for it.\<close>

lemma Auth_success:
  assumes "Auth L st a i s = (Inr ses, s')"
  obtains unique user where "us_GetOrCreateUser st (si_user i) unique s = (Inr user, s')"
    and "new_session L a i unique user = Inr ses"
  using assms by (auto simp: Auth_def bindE_eq_Inr split: sum.splits if_splits)

lemma new_session_Inr:
  assumes "new_session L a i unique user = Inr ses"
  obtains key where "getSecret L a = Inr key"
    and "jwt_SignedString L signingMethod \<lparr>rc_Issuer = uuid_String L user,
        rc_ExpiresAt = jwt_NewNumericDate L (si_now i + Hour * JwtDurationHour),
        rc_ID = uuid_String L (si_jti i)\<rparr> key = Inr (ses_JWT ses)"
    and "ses_User ses = Some \<lparr>user_ID = user, user_AppleID = unique\<rparr>"
    and "ses_ExpiredAt ses = si_now i + Hour * JwtDurationHour"
proof (cases "getSecret L a")
  case (Inr key)
  show thesis
    using assms Inr that [OF Inr]
    by (cases "jwt_SignedString L signingMethod \<lparr>rc_Issuer = uuid_String L user,
        rc_ExpiresAt = jwt_NewNumericDate L (si_now i + Hour * JwtDurationHour),
        rc_ID = uuid_String L (si_jti i)\<rparr> key") (auto simp: new_session_def Let_def)
qed (use assms in \<open>simp add: new_session_def Let_def\<close>)

text \<open>A sign-in changes the store by at most one call for the Apple identity of its code.\<close>

lemma Auth_state:
  "snd (Auth L st a i s) = s \<or> (\<exists>unique. snd (Auth L st a i s) = snd (us_GetOrCreateUser st (si_user i) unique s))"
proof -
  have b: "snd (bindE (wrapE m q) f s) = snd (q s)" if "\<And>x s. snd (f x s) = s"
    for m q s and f :: "uuid \<Rightarrow> ('s, Session) act"
    using that by (simp add: bindE_def wrapE_def split: prod.splits sum.splits)
  show ?thesis
    by (auto simp: Auth_def b split: sum.splits if_splits)
qed

locale user_storage_laws =
  fixes st :: "'s user_storage"
    and users :: "'s \<Rightarrow> string \<Rightarrow> uuid option"
    and invar :: "'s \<Rightarrow> bool"
  assumes got: "invar s \<Longrightarrow> us_GetOrCreateUser st fresh unique s = (Inr i, s') \<Longrightarrow>
      users s' = (users s)(unique \<mapsto> i) \<and> (\<forall>j. users s unique = Some j \<longrightarrow> i = j)"
    and failed: "invar s \<Longrightarrow> us_GetOrCreateUser st fresh unique s = (Inl e, s') \<Longrightarrow> users s' = users s"
    and kept: "invar s \<Longrightarrow> invar (snd (us_GetOrCreateUser st fresh unique s))"
    and one_identity: "invar s \<Longrightarrow> users s x = Some i \<Longrightarrow> users s y = Some i \<Longrightarrow> x = y"
begin

lemma Auth_invar: "invar s \<Longrightarrow> invar (snd (Auth L st a i s))"
  using Auth_state [of L st a i s] kept by metis

lemma call_keeps:
  assumes "invar s" and "users s x = Some j"
  shows "users (snd (us_GetOrCreateUser st fresh unique s)) x = Some j"
proof (cases "us_GetOrCreateUser st fresh unique s")
  case (Pair r s')
  show ?thesis
  proof (cases r)
    case (Inl e)
    with failed [OF assms(1), of fresh unique e s'] Pair assms(2) show ?thesis by simp
  next
    case (Inr i)
    with got [OF assms(1), of fresh unique i s'] Pair assms(2) show ?thesis by auto
  qed
qed

lemma Auth_keeps: "invar s \<Longrightarrow> users s x = Some j \<Longrightarrow> users (snd (Auth L st a i s)) x = Some j"
  using Auth_state [of L st a i s] call_keeps by metis

lemma sign_ins_keep:
  "invar s \<Longrightarrow> users s x = Some j \<Longrightarrow> invar (sign_ins L st a is s) \<and> users (sign_ins L st a is s) x = Some j"
  unfolding sign_ins_def by (induction "is" arbitrary: s) (simp_all add: Auth_invar Auth_keeps)

lemma Auth_user:
  assumes "invar s" and "Auth L st a i s = (Inr ses, s')" and "ses_User ses = Some u"
  shows "invar s' \<and> users s' = (users s)(user_AppleID u \<mapsto> user_ID u) \<and>
    (\<forall>j. users s (user_AppleID u) = Some j \<longrightarrow> user_ID u = j)"
proof -
  obtain unique user where g: "us_GetOrCreateUser st (si_user i) unique s = (Inr user, s')"
    and n: "new_session L a i unique user = Inr ses" using Auth_success [OF assms(2)] by blast
  from n have "ses_User ses = Some \<lparr>user_ID = user, user_AppleID = unique\<rparr>"
    by (rule new_session_Inr)
  with assms(3) have "user_ID u = user" "user_AppleID u = unique" by auto
  with got [OF assms(1) g] kept [OF assms(1), of "si_user i" unique] g show ?thesis by simp
qed

lemma same_user:
  assumes "invar s" and "Auth L st a i s = (Inr ses, s')" and "ses_User ses = Some u"
    and "Auth L st a j (sign_ins L st a is s') = (Inr ses2, s2)" and "ses_User ses2 = Some v"
  shows "user_ID u = user_ID v \<longleftrightarrow> user_AppleID u = user_AppleID v"
proof -
  have s': "invar s'" "users s' (user_AppleID u) = Some (user_ID u)"
    using Auth_user [OF assms(1-3)] by simp_all
  note m = sign_ins_keep [OF s', of L a "is"]
  note g = Auth_user [OF conjunct1 [OF m] assms(4,5)]
  have s2: "users s2 (user_AppleID u) = Some (user_ID u)"
    using Auth_keeps [OF conjunct1 [OF m] conjunct2 [OF m], of L a j] assms(4) by simp
  show ?thesis
  proof
    assume "user_ID u = user_ID v"
    moreover have "users s2 (user_AppleID v) = Some (user_ID v)" using g by simp
    ultimately show "user_AppleID u = user_AppleID v"
      using one_identity [OF conjunct1 [OF g] s2] by simp
  next
    assume "user_AppleID u = user_AppleID v"
    then show "user_ID u = user_ID v" using g m by simp
  qed
qed

end

section \<open>The users in Postgres\<close>

definition pg_user_storage :: "pg_env \<Rightarrow> pgdb user_storage" where
  "pg_user_storage env = \<lparr>us_GetOrCreateUser = db_GetOrCreateUser env\<rparr>"

definition pg_users :: "pgdb \<Rightarrow> string \<Rightarrow> uuid option" where
  "pg_users d = map_of (map (\<lambda>r. (u_apple r, u_id r)) (db_users d))"

lemma pg_users_stmts [simp]: "pg_users (d\<lparr>db_stmts := n\<rparr>) = pg_users d"
  by (simp add: pg_users_def)

lemma q_UpsertUser_effect:
  assumes "db_ok env d" and "q_UpsertUser env arg d = (r, d')"
  shows "case r of
      Inl e \<Rightarrow> pg_users d' = pg_users d
    | Inr u \<Rightarrow> pg_users d' = (pg_users d)(uup_AppleID arg \<mapsto> u_id u) \<and>
        (\<forall>j. pg_users d (uup_AppleID arg) = Some j \<longrightarrow> u_id u = j)"
proof (cases "find (\<lambda>r. u_apple r = uup_AppleID arg) (db_users d)")
  case None
  then have new: "uup_AppleID arg \<notin> u_apple ` set (db_users d)" by (auto simp: find_eq_None_iff)
  then have "map_of (map (\<lambda>r. (u_apple r, u_id r)) (db_users d) @ [(uup_AppleID arg, v)]) =
      (pg_users d)(uup_AppleID arg \<mapsto> v)" for v
    using map_of_snoc_new [of "(uup_AppleID arg, v)" "map (\<lambda>r. (u_apple r, u_id r)) (db_users d)"]
    by (simp add: pg_users_def image_image)
  moreover have "pg_users d (uup_AppleID arg) = None"
    using new by (auto simp: pg_users_def map_of_eq_None_iff image_iff)
  ultimately show ?thesis
    using None stmt_cases [OF assms(2) [unfolded q_UpsertUser_def]]
    by (auto simp: Let_def pg_users_def simp del: map_of_append split: if_splits)
next
  case (Some row)
  then have row: "row \<in> set (db_users d)" "u_apple row = uup_AppleID arg" using find_SomeD by fast+
  moreover have "distinct (map u_apple (db_users d))" using assms(1) by (simp add: db_ok_defs)
  ultimately have old: "pg_users d (uup_AppleID arg) = Some (u_id row)"
    unfolding pg_users_def by (intro map_of_is_SomeI) (force simp: comp_def image_iff)+
  have same: "update_where (\<lambda>r. u_apple r = x) (\<lambda>r. r\<lparr>u_apple := x\<rparr>) rs = rs" for x rs
    by (auto simp: update_where_def intro: map_idI)
  show ?thesis
    using Some old stmt_cases [OF assms(2) [unfolded q_UpsertUser_def]]
    by (auto simp: same pg_users_def map_upd_triv)
qed

interpretation pg_user: user_storage_laws "pg_user_storage env" pg_users "db_ok env"
proof
  fix s s' :: pgdb and fresh unique i e x y
  assume ok: "db_ok env s"
  show "pg_users s' = (pg_users s)(unique \<mapsto> i) \<and> (\<forall>j. pg_users s unique = Some j \<longrightarrow> i = j)"
    if w: "us_GetOrCreateUser (pg_user_storage env) fresh unique s = (Inr i, s')"
  proof -
    obtain u where "q_UpsertUser env \<lparr>uup_ID = fresh, uup_AppleID = unique\<rparr> s = (Inr u, s')" "i = u_id u"
      using w by (auto simp: pg_user_storage_def db_GetOrCreateUser_def mapE_wrapE_runs)
    with q_UpsertUser_effect [OF ok] show ?thesis by fastforce
  qed
  show "pg_users s' = pg_users s" if w: "us_GetOrCreateUser (pg_user_storage env) fresh unique s = (Inl e, s')"
  proof -
    obtain e0 where "q_UpsertUser env \<lparr>uup_ID = fresh, uup_AppleID = unique\<rparr> s = (Inl e0, s')"
      using w by (auto simp: pg_user_storage_def db_GetOrCreateUser_def mapE_wrapE_runs)
    with q_UpsertUser_effect [OF ok] show ?thesis by fastforce
  qed
  show "db_ok env (snd (us_GetOrCreateUser (pg_user_storage env) fresh unique s))"
    by (simp add: pg_user_storage_def db_GetOrCreateUser_def q_UpsertUser_ok [OF ok])
  show "x = y" if w: "pg_users s x = Some i" "pg_users s y = Some i"
  proof -
    obtain p q where "p \<in> set (db_users s)" "u_apple p = x" "u_id p = i"
      "q \<in> set (db_users s)" "u_apple q = y" "u_id q = i"
      using w by (auto simp: pg_users_def dest!: map_of_SomeD)
    moreover have "distinct (map u_id (db_users s))" using ok by (simp add: db_ok_defs)
    ultimately show ?thesis by (metis find_Some_iff_distinct option.inject)
  qed
qed

section \<open>What the code relies on of the JWT library\<close>

text \<open>
  A token the parser accepts is valid, is signed under the key the key function gave for it,
  was made with an allowed method and for the required issuer and audience, and has not
  expired, up to the leeway. \<open>sig_ok\<close> and \<open>aud\<close> are the signature check and
  the audience check of the library.
\<close>

definition parse_checks ::
    "libraries \<Rightarrow> (string \<Rightarrow> gokey \<Rightarrow> bool) \<Rightarrow> (claims \<Rightarrow> string \<Rightarrow> bool) \<Rightarrow> bool" where
  "parse_checks L sig_ok aud \<longleftrightarrow>
     (\<forall>tok kf opts now t. jwt_Parse L tok kf opts now = Inr t \<longrightarrow>
        (\<exists>k. kf (t\<lparr>tok_Valid := False\<rparr>) = Inr k \<and> sig_ok tok k) \<and>
        (\<forall>c. tok_Claims t = Some c \<longrightarrow>
           (\<forall>i. opt_Issuer opts = Some i \<longrightarrow> GetIssuer L c = Inr i) \<and>
           (\<forall>a. opt_Audience opts = Some a \<longrightarrow> aud c a) \<and>
           (\<forall>x. GetExpirationTime L c = Inr (Some x) \<longrightarrow> now < x + opt_Leeway opts)))"

text \<open>
  What the code relies on for its own tokens. \<open>jwt.NewNumericDate\<close> cuts a date down to whole
  seconds (\<open>jwt.TimePrecision\<close> is a second, and the package leaves it so). A token that names a
  user as its issuer and expires on a whole second that a \<open>float64\<close> holds exactly (the parser
  reads dates as such), signed with a parsed private key, is read back by a parser that is given
  the public part of that key, with the issuer and the expiration it was made of, and refused
  when it has expired.
\<close>

definition token_reads_back :: "libraries \<Rightarrow> registered_claims \<Rightarrow> gokey \<Rightarrow> string \<Rightarrow> bool" where
  "token_reads_back L rc key tok \<longleftrightarrow>
     (\<exists>t c. tok_MethodECDSA t \<and> tok_Claims t = Some c \<and> tok_Valid t \<and>
        GetIssuer L c = Inr (rc_Issuer rc) \<and>
        GetExpirationTime L c = Inr (Some (rc_ExpiresAt rc)) \<and>
        (\<forall>kf now. kf (t\<lparr>tok_Valid := False\<rparr>) = Inr (public_part key) \<longrightarrow>
           (if now < rc_ExpiresAt rc then jwt_Parse L tok kf no_options now = Inr t
            else (\<exists>e. jwt_Parse L tok kf no_options now = Inl e))))"

definition session_reads_back :: "libraries \<Rightarrow> bool" where
  "session_reads_back L \<longleftrightarrow>
     (\<forall>d. jwt_NewNumericDate L d = d - d mod 1000000000) \<and>
     (\<forall>u. uuid_Parse L (uuid_String L u) = Inr u) \<and>
     (\<forall>rc block key u tok. ParsePKCS8PrivateKey L block = Inr key \<longrightarrow> rc_Issuer rc = uuid_String L u \<longrightarrow>
        rc_ExpiresAt rc mod 1000000000 = 0 \<longrightarrow> 0 \<le> rc_ExpiresAt rc \<longrightarrow>
        rc_ExpiresAt rc < 1000000000 * 2 ^ 53 \<longrightarrow>
        jwt_SignedString L signingMethod rc key = Inr tok \<longrightarrow> token_reads_back L rc key tok)"

lemma session_reads_backD:
  assumes "session_reads_back L"
  shows "jwt_NewNumericDate L d = d - d mod 1000000000" and "uuid_Parse L (uuid_String L u) = Inr u"
    and "ParsePKCS8PrivateKey L block = Inr key \<Longrightarrow> rc_Issuer rc = uuid_String L u \<Longrightarrow>
      rc_ExpiresAt rc mod 1000000000 = 0 \<Longrightarrow> 0 \<le> rc_ExpiresAt rc \<Longrightarrow>
      rc_ExpiresAt rc < 1000000000 * 2 ^ 53 \<Longrightarrow>
      jwt_SignedString L signingMethod rc key = Inr tok \<Longrightarrow> token_reads_back L rc key tok"
proof -
  note s = assms [unfolded session_reads_back_def]
  show "jwt_NewNumericDate L d = d - d mod 1000000000" "uuid_Parse L (uuid_String L u) = Inr u"
    using s by simp_all
qed (rule assms [unfolded session_reads_back_def, THEN conjunct2, THEN conjunct2, rule_format])

text \<open>The expiration of a session cut to the second is a date that is read back exactly.\<close>

lemma whole_second:
  fixes x :: int
  assumes "0 \<le> x" and "x < 1000000000 * 2 ^ 53"
  shows "(x - x mod 1000000000) mod 1000000000 = 0" and "0 \<le> x - x mod 1000000000"
    and "x - x mod 1000000000 < 1000000000 * 2 ^ 53"
proof -
  have "0 \<le> x mod 1000000000" "x mod 1000000000 \<le> x" using assms by (simp_all add: zmod_le_nonneg_dividend)
  with assms show "0 \<le> x - x mod 1000000000" "x - x mod 1000000000 < 1000000000 * 2 ^ 53" by linarith+
  show "(x - x mod 1000000000) mod 1000000000 = 0" by (metis mod_0 mod_diff_right_eq cancel_comm_monoid_add_class.diff_cancel)
qed

section \<open>A small instance of the libraries\<close>

text \<open>
  Three tokens: a session of user 3, a token of the editor, and one of the editor without dates.
  The parser checks key, issuer, audience and expiration, so the two statements on the JWT
  library hold of it; the theorems below are applied to it.
\<close>

definition demo_key :: private_key where "demo_key = \<lparr>PublicKey = (1, 2), priv_D = 3\<rparr>"

definition demo_claims :: "claims" where
  "demo_claims = [''iss'' \<mapsto> GStr ''xxx'', ''exp'' \<mapsto> GNum 86400000000000]"

definition editor_claims :: "claims" where
  "editor_claims = [''iss'' \<mapsto> GStr ''TeaElephantEditor'', ''aud'' \<mapsto> GStr ''tea-elephant-api'',
     ''admin'' \<mapsto> GBool True]"

definition demo_token :: "claims \<Rightarrow> jwt_token" where
  "demo_token c = \<lparr>tok_MethodECDSA = True, tok_Alg = ''ES256'', tok_kid = Some (GStr ''any''),
     tok_Claims = Some c, tok_Valid = True\<rparr>"

definition demo_tokens :: "string \<Rightarrow> (claims \<times> gokey) option" where
  "demo_tokens =
     [''session'' \<mapsto> (demo_claims, KeyPublic (1, 2)),
      ''editor'' \<mapsto> (editor_claims(''iat'' \<mapsto> GNum 0, ''exp'' \<mapsto> GNum 60), KeyPublic (5, 6)),
      ''undated'' \<mapsto> (editor_claims, KeyPublic (5, 6))]"

definition demo_date :: "string \<Rightarrow> claims \<Rightarrow> gerr + time option" where
  "demo_date k c = (case c k of None \<Rightarrow> Inr None | Some (GNum n) \<Rightarrow> Inr (Some n) | _ \<Rightarrow> Inl (ExtErr k))"

definition demo_issuer :: "claims \<Rightarrow> gerr + string" where
  "demo_issuer c = (case c ''iss'' of Some (GStr s) \<Rightarrow> Inr s | _ \<Rightarrow> Inr '''')"

definition demo_aud :: "claims \<Rightarrow> string \<Rightarrow> bool" where
  "demo_aud c x \<longleftrightarrow> c ''aud'' = Some (GStr x)"

definition demo_sig :: "string \<Rightarrow> gokey \<Rightarrow> bool" where
  "demo_sig tok k \<longleftrightarrow> map_option snd (demo_tokens tok) = Some k"

definition demo_Parse ::
    "string \<Rightarrow> (jwt_token \<Rightarrow> gerr + gokey) \<Rightarrow> parser_options \<Rightarrow> time \<Rightarrow> gerr + jwt_token" where
  "demo_Parse tok kf opts now =
     (case demo_tokens tok of
        None \<Rightarrow> Inl (ExtErr ''malformed'')
      | Some (c, key) \<Rightarrow>
          if kf ((demo_token c)\<lparr>tok_Valid := False\<rparr>) \<noteq> Inr key then Inl (ExtErr ''signature'')
          else if opt_Issuer opts \<noteq> None \<and> demo_issuer c \<noteq> Inr (the (opt_Issuer opts))
          then Inl (ExtErr ''issuer'')
          else if opt_Audience opts \<noteq> None \<and> \<not> demo_aud c (the (opt_Audience opts))
          then Inl (ExtErr ''audience'')
          else (case demo_date ''exp'' c of
                  Inl e \<Rightarrow> Inl e
                | Inr None \<Rightarrow> Inr (demo_token c)
                | Inr (Some x) \<Rightarrow>
                    if now < x + opt_Leeway opts then Inr (demo_token c) else Inl (ExtErr ''expired'')))"

definition demo_lib :: libraries where
  "demo_lib =
     \<lparr>jwt_Parse = demo_Parse,
      jwt_SignedString = (\<lambda>alg rc key.
        if key = KeyPrivate demo_key \<and> rc_Issuer rc = ''xxx'' \<and> rc_ExpiresAt rc = 86400000000000
        then Inr ''session'' else Inl (ExtErr ''sign'')),
      jwt_NewNumericDate = (\<lambda>t. t - t mod 1000000000),
      GetExpirationTime = demo_date ''exp'', GetIssuedAt = demo_date ''iat'', GetIssuer = demo_issuer,
      uuid_Parse = (\<lambda>s. Inr (word_of_nat (length s))),
      uuid_String = (\<lambda>u. replicate (unat u) CHR ''x''),
      pem_Decode = Some,
      ParsePKCS8PrivateKey = (\<lambda>_. Inr (KeyPrivate demo_key)),
      ParsePKIXPublicKey = (\<lambda>_. Inr (KeyPublic (5, 6))),
      os_ReadFile = Inr,
      GenerateClientSecret = (\<lambda>_ _ _ _. (''secret'', None)),
      VerifyAppToken = (\<lambda>_ _ code. Inr \<lparr>ar_Error = '''', ar_ErrorDescription = '''', ar_IDToken = code\<rparr>),
      apple_GetClaims = (\<lambda>_. Inr Map.empty),
      apple_GetUniqueID = Inr\<rparr>"

definition demo_cfg :: Configuration where
  "demo_cfg = \<lparr>cfg_SecretPath = ''pem'', cfg_Secret = ''pem'', cfg_TeamID = ''t'', cfg_ClientID = ''c'',
     cfg_KeyID = ''k'', cfg_AdminPublicKeyPath = ''path''\<rparr>"

definition demo_auth :: auth where
  "demo_auth = \<lparr>au_cfg = demo_cfg, au_secret = ''secret'', au_adminKeys = ['''' \<mapsto> (5, 6)]\<rparr>"

lemmas demo_defs = demo_lib_def demo_Parse_def demo_tokens_def demo_token_def demo_claims_def
  editor_claims_def demo_date_def demo_issuer_def demo_aud_def demo_sig_def demo_key_def demo_cfg_def

lemma demo_parse_checks: "parse_checks demo_lib demo_sig demo_aud"
  unfolding parse_checks_def
  by (auto simp: demo_lib_def demo_Parse_def demo_sig_def demo_token_def
      split: option.splits if_splits sum.splits)

lemma demo_session_reads_back: "session_reads_back demo_lib"
  unfolding session_reads_back_def
proof (intro conjI allI impI)
  fix rc key tok
  assume "jwt_SignedString demo_lib signingMethod rc key = Inr tok"
  then have "key = KeyPrivate demo_key" "rc_Issuer rc = ''xxx''" "rc_ExpiresAt rc = 86400000000000" "tok = ''session''"
    by (auto simp: demo_lib_def split: if_splits)
  then show "token_reads_back demo_lib rc key tok"
    unfolding token_reads_back_def
    by (intro exI [of _ "demo_token demo_claims"] exI [of _ demo_claims])
      (simp add: demo_lib_def demo_Parse_def demo_tokens_def demo_date_def demo_issuer_def no_options_def
        demo_key_def demo_token_def demo_claims_def)
qed (simp_all add: demo_lib_def)

lemma demo_start: "Start demo_lib (NewAuth demo_cfg) = (Inr (), demo_auth)"
  by (simp add: Start_def NewAuth_def loadAdminKeys_def loadPublicKeyFromFile_def demo_lib_def demo_auth_def
      demo_cfg_def)

lemma demo_getSecret: "getSecret demo_lib demo_auth = Inr (KeyPrivate demo_key)"
  by (simp add: getSecret_def demo_lib_def)

lemma demo_sel [simp]:
  "jwt_Parse demo_lib = demo_Parse" "GetExpirationTime demo_lib = demo_date ''exp''"
  "GetIssuedAt demo_lib = demo_date ''iat''" "GetIssuer demo_lib = demo_issuer"
  "uuid_Parse demo_lib s = Inr (word_of_nat (length s))"
  by (simp_all add: demo_lib_def)

lemma demo_user_key:
  "verificationKey demo_lib demo_auth (demo_token c\<lparr>tok_Valid := False\<rparr>) = Inr (KeyPublic (1, 2))"
  by (simp add: verificationKey_def demo_getSecret demo_token_def demo_key_def)

lemmas demo_parser = demo_Parse_def demo_tokens_def demo_token_def demo_date_def demo_issuer_def
  demo_aud_def demo_claims_def editor_claims_def

lemma demo_parse_session:
  "demo_Parse ''session'' (verificationKey demo_lib demo_auth) no_options 0 = Inr (demo_token demo_claims)"
  by (simp add: demo_Parse_def demo_tokens_def demo_user_key) (simp add: demo_parser no_options_def)

lemma demo_parse_editor:
  "demo_Parse ''editor'' (adminVerificationKey demo_auth) admin_options 0 =
     Inr (demo_token (editor_claims(''iat'' \<mapsto> GNum 0, ''exp'' \<mapsto> GNum 60)))"
  "demo_Parse ''undated'' (adminVerificationKey demo_auth) admin_options 0 = Inr (demo_token editor_claims)"
proof -
  have k: "adminVerificationKey demo_auth (demo_token c\<lparr>tok_Valid := False\<rparr>) = Inr (KeyPublic (5, 6))" for c
    by (simp add: adminVerificationKey_def demo_auth_def demo_token_def signingMethod_def)
  note opts = admin_options_def AdminIssuer_def AdminAudience_def ClockSkewSeconds_def
  show "demo_Parse ''editor'' (adminVerificationKey demo_auth) admin_options 0 =
      Inr (demo_token (editor_claims(''iat'' \<mapsto> GNum 0, ''exp'' \<mapsto> GNum 60)))"
    by (simp add: demo_Parse_def demo_tokens_def k) (simp add: demo_parser opts)
  show "demo_Parse ''undated'' (adminVerificationKey demo_auth) admin_options 0 = Inr (demo_token editor_claims)"
    by (simp add: demo_Parse_def demo_tokens_def k) (simp add: demo_parser opts)
qed

definition demo_user :: AuthUser where
  "demo_user = \<lparr>user_ID = 3, user_AppleID = '''',
     usr_Session = \<lparr>ses_JWT = ''session'', ses_User = None, ses_ExpiredAt = 86400000000000\<rparr>\<rparr>"

lemma demo_validate: "Validate demo_lib demo_auth ''session'' 0 0 = Ret (Inr demo_user)"
proof -
  have "extractValidClaims demo_lib (demo_token demo_claims) 0 = Ret (Inr (demo_claims, 86400000000000))"
    by (simp add: extractValidClaims_def demo_token_def demo_claims_def demo_date_def)
  moreover have "issuerUUID demo_lib demo_claims = Inr 3"
    by (simp add: issuerUUID_def demo_claims_def demo_issuer_def)
  ultimately show ?thesis by (simp add: Validate_def demo_parse_session demo_user_def)
qed

lemma demo_validate_editor:
  "Validate demo_lib demo_auth ''editor'' 0 0 = Ret (Inl (Wrap ''parse jwt'' (ExtErr ''signature'')))"
  "Validate demo_lib demo_auth ''undated'' 0 0 = Ret (Inl (Wrap ''parse jwt'' (ExtErr ''signature'')))"
  by (simp_all add: Validate_def demo_Parse_def demo_tokens_def demo_user_key)

definition demo_principal :: AdminPrincipal where
  "demo_principal = \<lparr>JTI = '''', IssuedAt = 0, ExpiresAt = 60\<rparr>"

lemma demo_admin: "ValidateAdmin demo_lib demo_auth ''editor'' 0 = Ret (Inr demo_principal)"
  by (simp add: ValidateAdmin_def demo_parse_editor)
    (simp add: demo_token_def demo_date_def editor_claims_def claim_bool_def claim_string_def
      AdminClaimKey_def demo_principal_def)

lemma demo_intercept:
  "InterceptResponse demo_lib demo_auth ''Bearer editor'' 0 0 0 empty_ctx =
     Ret (Inr (\<lparr>ctx_user = None, ctx_admin = Some demo_principal\<rparr>, False))"
  by (simp add: InterceptResponse_def bearerPrefix_def demo_validate_editor demo_admin empty_ctx_def)

section \<open>Accepting tokens\<close>

lemma extractValidClaims_Inr:
  "extractValidClaims L t now = Ret (Inr (c, exp)) \<longleftrightarrow>
     tok_Claims t = Some c \<and> tok_Valid t \<and> GetExpirationTime L c = Inr (Some exp) \<and> now \<le> exp"
  by (auto simp: extractValidClaims_def split: option.splits sum.splits)

lemma Validate_Inr:
  assumes "Validate L a tok now0 now = Ret (Inr u)"
  obtains t c where "jwt_Parse L tok (verificationKey L a) no_options now0 = Inr t"
    and "tok_Claims t = Some c" and "tok_Valid t"
    and "GetExpirationTime L c = Inr (Some (ses_ExpiredAt (usr_Session u)))"
    and "now \<le> ses_ExpiredAt (usr_Session u)"
    and "issuerUUID L c = Inr (user_ID u)" and "ses_JWT (usr_Session u) = tok"
proof -
  obtain t where t: "jwt_Parse L tok (verificationKey L a) no_options now0 = Inr t"
    using assms by (auto simp: Validate_def split: sum.splits)
  with assms obtain c exp where x: "extractValidClaims L t now = Ret (Inr (c, exp))"
    by (auto simp: Validate_def split: call.splits sum.splits)
  with assms t have "issuerUUID L c = Inr (user_ID u)" "usr_Session u =
      \<lparr>ses_JWT = tok, ses_User = None, ses_ExpiredAt = exp\<rparr>"
    by (auto simp: Validate_def split: sum.splits)
  with that [OF t] x show thesis by (simp add: extractValidClaims_Inr)
qed

text \<open>
  C30. A token is accepted as a user's only if it is signed under the server's own key with an
  ECDSA method, names that user as its issuer, and has not expired on either clock reading;
  the session carries the token and its expiration.
\<close>

theorem Validate_sound:
  assumes "parse_checks L sig_ok aud" and "Validate L a tok now0 now = Ret (Inr u)"
  shows "\<exists>key c t. getSecret L a = Inr key \<and> sig_ok tok (public_part key) \<and>
    jwt_Parse L tok (verificationKey L a) no_options now0 = Inr t \<and> tok_Claims t = Some c \<and>
    issuerUUID L c = Inr (user_ID u) \<and>
    GetExpirationTime L c = Inr (Some (ses_ExpiredAt (usr_Session u))) \<and>
    now0 < ses_ExpiredAt (usr_Session u) \<and> now \<le> ses_ExpiredAt (usr_Session u) \<and>
    ses_JWT (usr_Session u) = tok"
proof -
  obtain t c where t: "jwt_Parse L tok (verificationKey L a) no_options now0 = Inr t"
    and c: "tok_Claims t = Some c" "GetExpirationTime L c = Inr (Some (ses_ExpiredAt (usr_Session u)))"
      "now \<le> ses_ExpiredAt (usr_Session u)" "issuerUUID L c = Inr (user_ID u)"
      "ses_JWT (usr_Session u) = tok"
    using Validate_Inr [OF assms(2)] by metis
  note checks = assms(1) [unfolded parse_checks_def, rule_format, OF t]
  obtain k where k: "verificationKey L a (t\<lparr>tok_Valid := False\<rparr>) = Inr k" "sig_ok tok k"
    using checks by blast
  then obtain key where "getSecret L a = Inr key" "k = public_part key"
    by (auto simp: verificationKey_def split: if_splits sum.splits)
  moreover have "now0 < ses_ExpiredAt (usr_Session u)"
    using checks c by (auto simp: no_options_def)
  ultimately show ?thesis using k c t by blast
qed


theorem Validate_sound_witness:
  "\<exists>key c. getSecret demo_lib demo_auth = Inr key \<and> demo_sig ''session'' (public_part key) \<and>
    issuerUUID demo_lib c = Inr 3 \<and> GetExpirationTime demo_lib c = Inr (Some 86400000000000)"
  using Validate_sound [OF demo_parse_checks demo_validate] by (auto simp: demo_user_def)

text \<open>An admin principal is only made of a token of the editor.\<close>

lemma ValidateAdmin_sound:
  assumes "parse_checks L sig_ok aud" and "ValidateAdmin L a tok now = Ret (Inr p)"
  shows "\<exists>k c t t'. adminVerificationKey a t' = Inr (KeyPublic k) \<and> sig_ok tok (KeyPublic k) \<and>
    jwt_Parse L tok (adminVerificationKey a) admin_options now = Inr t \<and> tok_Claims t = Some c \<and>
    GetIssuer L c = Inr AdminIssuer \<and> aud c AdminAudience \<and>
    c AdminClaimKey = Some (GBool True) \<and> now < ExpiresAt p + 300000000000"
proof -
  obtain t where t: "jwt_Parse L tok (adminVerificationKey a) admin_options now = Inr t"
    using assms(2) by (auto simp: ValidateAdmin_def split: sum.splits)
  with assms(2) obtain c where c: "tok_Claims t = Some c" "claim_bool c AdminClaimKey"
    "GetExpirationTime L c = Inr (Some (ExpiresAt p))"
    by (auto simp: ValidateAdmin_def split: option.splits sum.splits if_splits)
  note checks = assms(1) [unfolded parse_checks_def, rule_format, OF t]
  obtain k0 where k: "adminVerificationKey a (t\<lparr>tok_Valid := False\<rparr>) = Inr k0" "sig_ok tok k0"
    using checks by blast
  moreover from k(1) obtain k where "k0 = KeyPublic k"
    by (auto simp: adminVerificationKey_def Let_def split: if_splits option.splits)
  moreover have "c AdminClaimKey = Some (GBool True)"
    using c(2) by (auto simp: claim_bool_def split: option.splits gval.splits)
  moreover have "GetIssuer L c = Inr AdminIssuer" "aud c AdminAudience" "now < ExpiresAt p + 300000000000"
    using checks c by (auto simp: admin_options_def ClockSkewSeconds_def)
  ultimately show ?thesis using t c(1) by blast
qed

text \<open>After \<open>Start\<close> the only admin key is the one of the configured file, for every \<open>kid\<close>.\<close>

lemma Start_keys:
  assumes "Start L (NewAuth cfg) = (Inr (), a)"
  shows "\<exists>k. loadPublicKeyFromFile L (cfg_AdminPublicKeyPath cfg) = Inr k \<and> au_adminKeys a = ['''' \<mapsto> k]"
  using assms
  by (auto simp: Start_def NewAuth_def loadAdminKeys_def split: prod.splits option.splits sum.splits)

lemma adminVerificationKey_any_kid:
  assumes "au_adminKeys a = ['''' \<mapsto> k]"
  shows "adminVerificationKey a t =
    (if tok_Alg t = signingMethod then Inr (KeyPublic k)
     else Inl (Wrap ''alg'' (Sentinel ErrUnexpectedSigningMethod)))"
  using assms by (simp add: adminVerificationKey_def Let_def)

lemma middleware_admin:
  assumes "ctx_admin ctx0 = None"
    and "InterceptResponse L a header now0 now now2 ctx0 = Ret (Inr (ctx, err)) \<or>
      WsInitFunc L a header now0 now now2 ctx0 = Ret (Inr ctx) \<and> \<not> err"
    and "ctx_admin ctx = Some p"
  shows "ValidateAdmin L a (remove_first bearerPrefix header) now2 = Ret (Inr p) \<and>
    ctx_user ctx = ctx_user ctx0 \<and> \<not> err"
  using assms
  by (auto simp: InterceptResponse_def WsInitFunc_def Let_def
      split: if_splits call.splits sum.splits)

text \<open>
  C31. A request or connection whose context has no admin before the middleware acts as admin
  after it only with a token that is signed under the public key of the configured file, whatever
  key id its header names, was issued by the editor for this API with the admin claim true, and
  has not expired or expired less than five minutes ago (the leeway of the parser); the
  middleware then gives it no user too.
\<close>

theorem admin_only_by_editor_token:
  assumes "parse_checks L sig_ok aud" and "Start L (NewAuth cfg) = (Inr (), a)"
    and "ctx_admin ctx0 = None"
    and "InterceptResponse L a header now0 now now2 ctx0 = Ret (Inr (ctx, err)) \<or>
      WsInitFunc L a header now0 now now2 ctx0 = Ret (Inr ctx) \<and> \<not> err"
    and "RequireAdmin ctx = Inr ()"
  shows "\<exists>k c t p. loadPublicKeyFromFile L (cfg_AdminPublicKeyPath cfg) = Inr k \<and>
    sig_ok (remove_first bearerPrefix header) (KeyPublic k) \<and>
    jwt_Parse L (remove_first bearerPrefix header) (adminVerificationKey a) admin_options now2 = Inr t \<and>
    tok_Claims t = Some c \<and>
    GetIssuer L c = Inr AdminIssuer \<and> aud c AdminAudience \<and> c AdminClaimKey = Some (GBool True) \<and>
    ctx_admin ctx = Some p \<and> now2 < ExpiresAt p + 300000000000 \<and> ctx_user ctx = ctx_user ctx0"
proof -
  obtain p where p: "ctx_admin ctx = Some p"
    using assms(5) by (auto simp: RequireAdmin_def AdminPrincipalFrom_def split: option.splits)
  note m = middleware_admin [OF assms(3,4) p]
  obtain k where k: "loadPublicKeyFromFile L (cfg_AdminPublicKeyPath cfg) = Inr k" "au_adminKeys a = ['''' \<mapsto> k]"
    using Start_keys [OF assms(2)] by blast
  obtain k1 c t t' where c: "adminVerificationKey a t' = Inr (KeyPublic k1)"
      "sig_ok (remove_first bearerPrefix header) (KeyPublic k1)"
      "jwt_Parse L (remove_first bearerPrefix header) (adminVerificationKey a) admin_options now2 = Inr t"
      "tok_Claims t = Some c" "GetIssuer L c = Inr AdminIssuer"
      "aud c AdminAudience" "c AdminClaimKey = Some (GBool True)" "now2 < ExpiresAt p + 300000000000"
    using ValidateAdmin_sound [OF assms(1) conjunct1 [OF m]] by blast
  have "k1 = k" using c(1) by (auto simp: adminVerificationKey_any_kid [OF k(2)] split: if_splits)
  with k c p m show ?thesis by blast
qed

theorem admin_only_by_editor_token_witness:
  "\<exists>k c. loadPublicKeyFromFile demo_lib ''path'' = Inr k \<and> demo_sig ''editor'' (KeyPublic k) \<and>
    demo_aud c AdminAudience \<and> c AdminClaimKey = Some (GBool True)"
proof -
  have r: "RequireAdmin \<lparr>ctx_user = None, ctx_admin = Some demo_principal\<rparr> = Inr ()"
    by (simp add: RequireAdmin_def AdminPrincipalFrom_def)
  have e: "ctx_admin empty_ctx = None" by (simp add: empty_ctx_def)
  have b: "remove_first bearerPrefix ''Bearer editor'' = ''editor''" by (simp add: bearerPrefix_def)
  have c: "cfg_AdminPublicKeyPath demo_cfg = ''path''" by (simp add: demo_cfg_def)
  show ?thesis
    using admin_only_by_editor_token [OF demo_parse_checks demo_start e disjI1 [OF demo_intercept] r, unfolded b c]
    by blast
qed

text \<open>
  C32. The token of a sign-in over Postgres, at a time between 1970 and the last second a
  \<open>float64\<close> counts exactly, is accepted as the signed-in user, with the identifier the database
  holds for the Apple identity, before the full second in which 24 hours have passed, and
  refused from then on.
\<close>

theorem Auth_then_Validate:
  assumes "session_reads_back L" and "db_ok env d"
    and "0 \<le> si_now i" and "si_now i + 24 * Hour < 1000000000 * 2 ^ 53"
    and "Auth L (pg_user_storage env) a i d = (Inr ses, d')"
  shows "\<exists>u. ses_User ses = Some u \<and> pg_users d' (user_AppleID u) = Some (user_ID u) \<and>
    ses_ExpiredAt ses = si_now i + 24 * Hour \<and>
    (let x = (si_now i + 24 * Hour) - (si_now i + 24 * Hour) mod 1000000000 in
       if now0 < x \<and> now \<le> x
       then Validate L a (ses_JWT ses) now0 now =
         Ret (Inr \<lparr>user_ID = user_ID u, user_AppleID = '''',
           usr_Session = \<lparr>ses_JWT = ses_JWT ses, ses_User = None, ses_ExpiredAt = x\<rparr>\<rparr>)
       else \<exists>e. Validate L a (ses_JWT ses) now0 now = Ret (Inl e))"
proof -
  let ?x = "jwt_NewNumericDate L (ses_ExpiredAt ses)"
  obtain unique user where n: "new_session L a i unique user = Inr ses"
    using Auth_success [OF assms(5)] by blast
  obtain key where key: "getSecret L a = Inr key"
    and s: "jwt_SignedString L signingMethod \<lparr>rc_Issuer = uuid_String L user,
        rc_ExpiresAt = jwt_NewNumericDate L (si_now i + Hour * JwtDurationHour),
        rc_ID = uuid_String L (si_jti i)\<rparr> key = Inr (ses_JWT ses)"
    and u: "ses_User ses = Some \<lparr>user_ID = user, user_AppleID = unique\<rparr>"
    and x: "ses_ExpiredAt ses = si_now i + Hour * JwtDurationHour"
    using new_session_Inr [OF n] by blast
  note L = session_reads_backD [OF assms(1)]
  obtain block where block: "ParsePKCS8PrivateKey L block = Inr key"
    using key by (auto simp: getSecret_def split: option.splits sum.splits)
  have xe: "ses_ExpiredAt ses = si_now i + 24 * Hour" using x by (simp add: JwtDurationHour_def)
  have xd: "?x = (si_now i + 24 * Hour) - (si_now i + 24 * Hour) mod 1000000000" by (simp add: L(1) xe)
  have pos: "0 \<le> si_now i + 24 * Hour" using assms(3) by (simp add: Hour_def)
  obtain t c where t: "tok_MethodECDSA t" "tok_Claims t = Some c" "tok_Valid t"
    "GetIssuer L c = Inr (uuid_String L user)" "GetExpirationTime L c = Inr (Some ?x)"
    and p: "\<And>kf now. kf (t\<lparr>tok_Valid := False\<rparr>) = Inr (public_part key) \<Longrightarrow>
      (if now < ?x then jwt_Parse L (ses_JWT ses) kf no_options now = Inr t
       else (\<exists>e. jwt_Parse L (ses_JWT ses) kf no_options now = Inl e))"
    using L(3) [OF block _ _ _ _ s, of user] whole_second [OF pos assms(4)] x xd
    unfolding token_reads_back_def by auto
  have vk: "verificationKey L a (t\<lparr>tok_Valid := False\<rparr>) = Inr (public_part key)"
    using t(1) key by (simp add: verificationKey_def)
  note parse = p [of "verificationKey L a" now0, OF vk]
  have iss: "issuerUUID L c = Inr user" using L(2) t(4) by (simp add: issuerUUID_def)
  have "if now0 < ?x \<and> now \<le> ?x
      then Validate L a (ses_JWT ses) now0 now =
        Ret (Inr \<lparr>user_ID = user, user_AppleID = '''',
          usr_Session = \<lparr>ses_JWT = ses_JWT ses, ses_User = None, ses_ExpiredAt = ?x\<rparr>\<rparr>)
      else \<exists>e. Validate L a (ses_JWT ses) now0 now = Ret (Inl e)"
    using parse t iss by (auto simp: Validate_def extractValidClaims_def split: if_splits)
  moreover have "pg_users d' unique = Some user"
    using pg_user.Auth_user [OF assms(2,5) u] by simp
  ultimately show ?thesis unfolding xd using u xe by (auto simp: Let_def split: if_splits)
qed


definition demo_signin :: signin where
  "demo_signin = \<lparr>si_user = 3, si_jti = 9, si_now = 0, si_code = ''apple''\<rparr>"

definition demo_session :: Session where
  "demo_session = \<lparr>ses_JWT = ''session'', ses_User = Some \<lparr>user_ID = 3, user_AppleID = ''apple''\<rparr>,
     ses_ExpiredAt = 86400000000000\<rparr>"

definition demo_env :: pg_env where
  "demo_env = \<lparr>env_lower = id, env_collkey = id, env_round = id, env_fault = (\<lambda>_. False)\<rparr>"

definition demo_db :: pgdb where
  "demo_db = empty_db\<lparr>db_stmts := 1, db_users := [\<lparr>u_id = 3, u_apple = ''apple'', u_created = 0\<rparr>]\<rparr>"

lemma demo_new_session:
  "si_now i = 0 \<Longrightarrow> new_session demo_lib demo_auth i ''apple'' 3 = Inr demo_session"
proof -
  have "replicate 3 CHR ''x'' = ''xxx''" by (simp add: numeral_3_eq_3)
  then have "uuid_String demo_lib 3 = ''xxx''" by (simp add: demo_lib_def)
  moreover have "jwt_NewNumericDate demo_lib 86400000000000 = 86400000000000" by (simp add: demo_lib_def)
  ultimately show "si_now i = 0 \<Longrightarrow> ?thesis"
    by (simp add: new_session_def demo_getSecret demo_session_def JwtDurationHour_def Hour_def Let_def)
      (simp add: demo_lib_def)
qed

lemma demo_Auth:
  assumes "db_GetOrCreateUser demo_env (si_user i) ''apple'' d = (Inr u, d')" and "si_code i = ''apple''"
    and "new_session demo_lib demo_auth i ''apple'' u = Inr ses"
  shows "Auth demo_lib (pg_user_storage demo_env) demo_auth i d = (Inr ses, d')"
proof -
  have "VerifyAppToken demo_lib x y z = Inr \<lparr>ar_Error = '''', ar_ErrorDescription = '''', ar_IDToken = z\<rparr>"
    "apple_GetClaims demo_lib z = Inr Map.empty" "apple_GetUniqueID demo_lib z = Inr z" for x y z
    by (simp_all add: demo_lib_def)
  with assms show ?thesis by (simp add: Auth_def pg_user_storage_def)
qed

lemma demo_sign_in:
  "Auth demo_lib (pg_user_storage demo_env) demo_auth demo_signin empty_db = (Inr demo_session, demo_db)"
proof -
  have "db_GetOrCreateUser demo_env 3 ''apple'' empty_db = (Inr 3, demo_db)"
    by (simp add: db_GetOrCreateUser_def q_UpsertUser_def stmt_def demo_env_def empty_db_def demo_db_def
        mapE_def wrapE_def Let_def)
  moreover have "new_session demo_lib demo_auth demo_signin ''apple'' 3 = Inr demo_session"
    by (rule demo_new_session) (simp add: demo_signin_def)
  ultimately show ?thesis by (intro demo_Auth) (simp_all add: demo_signin_def)
qed

theorem Auth_then_Validate_witness:
  "Validate demo_lib demo_auth (ses_JWT demo_session) 0 0 =
     Ret (Inr \<lparr>user_ID = 3, user_AppleID = '''',
       usr_Session = \<lparr>ses_JWT = ''session'', ses_User = None, ses_ExpiredAt = 86400000000000\<rparr>\<rparr>)"
proof -
  have n: "0 \<le> si_now demo_signin" "si_now demo_signin + 24 * Hour = 86400000000000"
    by (simp_all add: demo_signin_def Hour_def)
  show ?thesis
    using Auth_then_Validate [OF demo_session_reads_back db_ok_empty n(1) _ demo_sign_in, where now = 0 and ?now0.0 = 0]
    by (auto simp: demo_session_def n Let_def)
qed

text \<open>
  C33. Over Postgres two sign-ins, however many others lie between them, give the same user
  exactly if they are of the same Apple identity.
\<close>

theorem sign_in_same_user:
  assumes "db_ok env d" and "Auth L (pg_user_storage env) a i d = (Inr ses, d1)"
    and "Auth L (pg_user_storage env) a j (sign_ins L (pg_user_storage env) a is d1) = (Inr ses2, d2)"
  shows "\<exists>u v. ses_User ses = Some u \<and> ses_User ses2 = Some v \<and>
    (user_ID u = user_ID v \<longleftrightarrow> user_AppleID u = user_AppleID v)"
proof -
  obtain u v where "ses_User ses = Some u" "ses_User ses2 = Some v"
    using Auth_success [OF assms(2)] Auth_success [OF assms(3)] new_session_Inr by metis
  with pg_user.same_user [OF assms(1,2) _ assms(3)] show ?thesis by blast
qed


theorem sign_in_same_user_witness:
  "\<exists>ses2 d2 v. Auth demo_lib (pg_user_storage demo_env) demo_auth (demo_signin\<lparr>si_user := 4\<rparr>) demo_db =
     (Inr ses2, d2) \<and> ses_User ses2 = Some v \<and> user_ID v = 3"
proof -
  let ?j = "demo_signin\<lparr>si_user := 4\<rparr>" and ?st = "pg_user_storage demo_env"
  have "\<exists>d2. db_GetOrCreateUser demo_env 4 ''apple'' demo_db = (Inr 3, d2)"
    by (simp add: db_GetOrCreateUser_def q_UpsertUser_def stmt_def demo_env_def empty_db_def demo_db_def
        mapE_def wrapE_def Let_def)
  then obtain d2 where d2: "db_GetOrCreateUser demo_env 4 ''apple'' demo_db = (Inr 3, d2)" by blast
  have "new_session demo_lib demo_auth ?j ''apple'' 3 = Inr demo_session"
    by (rule demo_new_session) (simp add: demo_signin_def)
  with d2 have r: "Auth demo_lib ?st demo_auth ?j demo_db = (Inr demo_session, d2)"
    by (intro demo_Auth) (simp_all add: demo_signin_def)
  then have "Auth demo_lib ?st demo_auth ?j (sign_ins demo_lib ?st demo_auth [] demo_db) = (Inr demo_session, d2)"
    by (simp add: sign_ins_def)
  with sign_in_same_user [OF db_ok_empty demo_sign_in this] r show ?thesis
    by (auto simp: demo_session_def)
qed

text \<open>
  An admin token that passes every check but has no issue date, or no expiration, is not
  answered with an error: the handler panics on the missing date, in both middlewares.
\<close>

theorem admin_token_without_dates_panics:
  assumes "jwt_Parse L tok (adminVerificationKey a) admin_options now2 = Inr t"
    and "tok_Claims t = Some c" and "tok_Valid t" and "c AdminClaimKey = Some (GBool True)"
    and "GetIssuedAt L c = Inr i" and "GetExpirationTime L c = Inr x" and "i = None \<or> x = None"
    and "Validate L a tok now0 now = Ret (Inl e)" and "tok = remove_first bearerPrefix header"
    and "header \<noteq> ''''"
  shows "ValidateAdmin L a tok now2 = Panic \<and>
    InterceptResponse L a header now0 now now2 ctx = Panic \<and>
    WsInitFunc L a header now0 now now2 ctx = Panic"
proof -
  have "claim_bool c AdminClaimKey" using assms(4) by (simp add: claim_bool_def)
  with assms(1-7) have "ValidateAdmin L a tok now2 = Panic"
    by (auto simp: ValidateAdmin_def split: option.splits)
  with assms(8-10) show ?thesis by (simp add: InterceptResponse_def WsInitFunc_def Let_def)
qed


theorem admin_token_without_dates_panics_witness:
  "InterceptResponse demo_lib demo_auth ''Bearer undated'' 0 0 0 empty_ctx = Panic"
proof -
  have p: "jwt_Parse demo_lib ''undated'' (adminVerificationKey demo_auth) admin_options 0 =
      Inr (demo_token editor_claims)"
    by (simp add: demo_parse_editor)
  show ?thesis
    by (rule admin_token_without_dates_panics [OF p _ _ _ _ _ _ demo_validate_editor(2),
          of editor_claims None None, THEN conjunct2, THEN conjunct1])
      (simp_all add: demo_token_def editor_claims_def AdminClaimKey_def demo_lib_def demo_date_def bearerPrefix_def)
qed

end
