(* ===== verification/Tod_Cache.thy ===== *)
theory Tod_Cache
  imports Common_Model
begin

text \<open>
  The cache of the tea of the day (\<open>pkg/api/v2/graphql/teaoftheday_cache.go\<close>): one entry
  per user that ends at the next local midnight. The two critical sections of \<open>Get\<close> are
  separate operations, so that what other goroutines do between them is covered: the lemmas
  show that an entry is served for exactly the rest of its day and that a late deletion never
  removes a fresh entry.
\<close>

text \<open>
  A location is its offset from UTC in nanoseconds, without changes of the offset: the local
  reading of \<open>t\<close> is \<open>t + off\<close>, and the calendar of \<open>Date\<close> is the count of days.
\<close>

definition Day :: duration where "Day = 24 * Hour"

definition local_day :: "duration \<Rightarrow> time \<Rightarrow> int" where
  "local_day off t = (t + off) div Day"

definition nextMidnight :: "duration \<Rightarrow> time \<Rightarrow> time" where
  "nextMidnight off t = (local_day off t + 1) * Day - off"

record cachedTeaOfTheDay =
  ce_val :: TeaOfTheDay
  ce_expiresAt :: time

type_synonym teaOfTheDayCache = "uuid \<rightharpoonup> cachedTeaOfTheDay"

definition newTeaOfTheDayCache :: teaOfTheDayCache where
  "newTeaOfTheDayCache = Map.empty"

text \<open>The section under the read lock, and the one under the write lock that checks again.\<close>

definition cache_read :: "uuid \<Rightarrow> teaOfTheDayCache \<Rightarrow> cachedTeaOfTheDay option" where
  "cache_read userID items = items userID"

definition cache_drop :: "uuid \<Rightarrow> time \<Rightarrow> teaOfTheDayCache \<Rightarrow> teaOfTheDayCache" where
  "cache_drop userID now items =
     (case items userID of
        None \<Rightarrow> items
      | Some entry2 \<Rightarrow> if \<not> now < ce_expiresAt entry2 then items(userID := None) else items)"

text \<open>\<open>Get\<close> with what the other goroutines do to the map between the two sections.\<close>

definition cache_Get_with ::
    "(teaOfTheDayCache \<Rightarrow> teaOfTheDayCache) \<Rightarrow> uuid \<Rightarrow> time \<Rightarrow> teaOfTheDayCache \<Rightarrow>
       TeaOfTheDay option \<times> teaOfTheDayCache" where
  "cache_Get_with others userID now items =
     (case cache_read userID items of
        None \<Rightarrow> (None, items)
      | Some entry \<Rightarrow>
          if \<not> now < ce_expiresAt entry then (None, cache_drop userID now (others items))
          else (Some (ce_val entry), items))"

definition cache_Get :: "uuid \<Rightarrow> time \<Rightarrow> teaOfTheDayCache \<Rightarrow> TeaOfTheDay option \<times> teaOfTheDayCache" where
  "cache_Get = cache_Get_with (\<lambda>items. items)"

definition cache_Set :: "duration \<Rightarrow> uuid \<Rightarrow> TeaOfTheDay \<Rightarrow> time \<Rightarrow> teaOfTheDayCache \<Rightarrow> teaOfTheDayCache" where
  "cache_Set off userID v now items =
     items(userID \<mapsto> \<lparr>ce_val = v, ce_expiresAt = nextMidnight off now\<rparr>)"

section \<open>Midnight\<close>

lemma Day_pos: "0 < Day"
  by (simp add: Day_def Hour_def)

lemma nextMidnight_bounds: "t < nextMidnight off t \<and> nextMidnight off t \<le> t + Day"
proof -
  let ?l = "t + off"
  have "?l = Day * (?l div Day) + ?l mod Day" by simp
  moreover have "0 \<le> ?l mod Day" "?l mod Day < Day" using Day_pos by simp_all
  moreover have "nextMidnight off t = Day * (?l div Day) + Day - off"
    by (simp add: nextMidnight_def local_day_def algebra_simps)
  ultimately show ?thesis by linarith
qed

lemma div_le_iff:
  assumes "0 < (b :: int)"
  shows "a div b \<le> n \<longleftrightarrow> a < (n + 1) * b"
proof
  assume "a div b \<le> n"
  then have "b * (a div b) \<le> b * n" using assms by simp
  moreover have "a = b * (a div b) + a mod b" "a mod b < b" using assms by simp_all
  moreover have "(n + 1) * b = b * n + b" by (simp add: algebra_simps)
  ultimately show "a < (n + 1) * b" by linarith
next
  assume "a < (n + 1) * b"
  then have "a \<le> (n + 1) * b - 1" by simp
  then have "a div b \<le> ((n + 1) * b - 1) div b" using assms by (rule zdiv_mono1)
  also have "(n + 1) * b - 1 = (b - 1) + n * b" by (simp add: algebra_simps)
  also have "((b - 1) + n * b) div b = n" using assms by simp
  finally show "a div b \<le> n" .
qed

text \<open>An instant lies before the next midnight exactly if its local day is not a later one.\<close>

lemma before_nextMidnight_iff: "now' < nextMidnight off now \<longleftrightarrow> local_day off now' \<le> local_day off now"
proof -
  have "now' < nextMidnight off now \<longleftrightarrow> now' + off < (local_day off now + 1) * Day"
    by (simp add: nextMidnight_def algebra_simps)
  also have "\<dots> \<longleftrightarrow> (now' + off) div Day \<le> local_day off now" by (rule div_le_iff [OF Day_pos, symmetric])
  finally show ?thesis by (simp add: local_day_def)
qed

lemma local_day_mono: "t \<le> t' \<Longrightarrow> local_day off t \<le> local_day off t'"
  using Day_pos by (simp add: local_day_def zdiv_mono1)

section \<open>The cache\<close>

lemma cache_Get_Some:
  "fst (cache_Get user now items) = Some v \<longleftrightarrow>
     (\<exists>e. items user = Some e \<and> now < ce_expiresAt e \<and> ce_val e = v)"
  by (auto simp: cache_Get_def cache_Get_with_def cache_read_def split: option.splits)

lemma cache_Get_hit: "fst (cache_Get user now items) = Some v \<Longrightarrow> snd (cache_Get user now items) = items"
  by (auto simp: cache_Get_def cache_Get_with_def cache_read_def split: option.splits if_splits)

lemma cache_Get_other: "u \<noteq> user \<Longrightarrow> snd (cache_Get user now items) u = items u"
  by (auto simp: cache_Get_def cache_Get_with_def cache_read_def cache_drop_def split: option.splits)

text \<open>The operations of the goroutines that share the cache, in any order.\<close>

datatype cache_op = OpDrop uuid time | OpSet uuid TeaOfTheDay time

fun cache_op_run :: "duration \<Rightarrow> cache_op \<Rightarrow> teaOfTheDayCache \<Rightarrow> teaOfTheDayCache" where
  "cache_op_run off (OpDrop user now) items = cache_drop user now items"
| "cache_op_run off (OpSet user v now) items = cache_Set off user v now items"

definition cache_run :: "duration \<Rightarrow> cache_op list \<Rightarrow> teaOfTheDayCache \<Rightarrow> teaOfTheDayCache" where
  "cache_run off ops items = fold (cache_op_run off) ops items"

text \<open>The clock of an operation on the entry of \<open>user\<close> has not passed the local day of \<open>now\<close>.\<close>

fun harmless :: "duration \<Rightarrow> uuid \<Rightarrow> time \<Rightarrow> cache_op \<Rightarrow> bool" where
  "harmless off user now (OpDrop u t) \<longleftrightarrow> u \<noteq> user \<or> local_day off t \<le> local_day off now"
| "harmless off user now (OpSet u v t) \<longleftrightarrow> u \<noteq> user"

lemma cache_run_keeps:
  assumes "list_all (harmless off user now) ops"
    and "items user = Some \<lparr>ce_val = v, ce_expiresAt = nextMidnight off now\<rparr>"
  shows "cache_run off ops items user = Some \<lparr>ce_val = v, ce_expiresAt = nextMidnight off now\<rparr>"
  using assms unfolding cache_run_def
proof (induction ops arbitrary: items)
  case Nil
  then show ?case by simp
next
  case (Cons op ops)
  have "cache_op_run off op items user = Some \<lparr>ce_val = v, ce_expiresAt = nextMidnight off now\<rparr>"
    using Cons.prems
    by (cases op) (auto simp: cache_drop_def cache_Set_def before_nextMidnight_iff split: option.splits)
  with Cons show ?case by simp
qed

text \<open>
  C35. What was stored for a user is served, whatever deletions and stores of other users other
  goroutines run in between, even the second half of a \<open>Get\<close> that had seen an expired
  entry, to exactly the questions of the same local day, and to none of a later one.
\<close>

theorem cache_serves_the_day:
  assumes "list_all (harmless off user now) ops" and "now \<le> now'"
  shows "fst (cache_Get user now' (cache_run off ops (cache_Set off user v now items))) =
    (if local_day off now' = local_day off now then Some v else None)"
proof -
  let ?e = "\<lparr>ce_val = v, ce_expiresAt = nextMidnight off now\<rparr>"
  have e: "cache_run off ops (cache_Set off user v now items) user = Some ?e"
    using assms(1) by (rule cache_run_keeps) (simp add: cache_Set_def)
  have "now' < nextMidnight off now \<longleftrightarrow> local_day off now' = local_day off now"
    using local_day_mono [OF assms(2), of off] by (auto simp: before_nextMidnight_iff)
  with e show ?thesis by (simp add: cache_Get_def cache_Get_with_def cache_read_def)
qed

definition demo_tod :: TeaOfTheDay where
  "demo_tod = \<lparr>tod_Tea = None, tod_Date = 0\<rparr>"

theorem cache_serves_the_day_witness:
  "fst (cache_Get 7 1000 (cache_run 0 [OpDrop 7 500, OpSet 8 demo_tod 600] (cache_Set 0 7 demo_tod 0 Map.empty))) =
     Some demo_tod \<and>
   fst (cache_Get 7 86400000000000
     (cache_run 0 [OpDrop 7 500, OpSet 8 demo_tod 600] (cache_Set 0 7 demo_tod 0 Map.empty))) = None"
proof -
  have "list_all (harmless 0 7 0) [OpDrop 7 500, OpSet 8 demo_tod 600]"
    by (simp add: local_day_def Day_def Hour_def)
  from cache_serves_the_day [OF this, of 1000 demo_tod Map.empty]
    cache_serves_the_day [OF this, of 86400000000000 demo_tod Map.empty]
  show ?thesis by (simp add: local_day_def Day_def Hour_def)
qed

end
