(* ===== verification/Expiration.thy ===== *)
theory Expiration
  imports Pg_Adapter_Laws
begin

text \<open>
  Push notifications about expired teas: the sender of \<open>internal/apns/sender.go\<close>, which
  pushes to every device of a user, and the alerter of \<open>internal/expiration/alerter.go\<close>,
  which walks through users, collections and records. The push service is a parameter that
  answers the n-th push; the pushes requested so far are part of the state, and so is the number
  of readings of the clock: each \<open>time.Now()\<close> of a record or a push is a reading of its own.
  The main lemma is that a run alerts exactly the devices of the owners of expired records.
\<close>

section \<open>The sender\<close>

record push =
  push_DeviceToken :: string
  push_Topic :: string
  push_Expiration :: time
  push_Title :: string
  push_Body :: string
  push_Badge :: int
  push_Category :: string
  push_ThreadID :: string

record 's alert_state =
  al_store :: 's
  al_pushes :: "push list"
  al_clock :: nat

text \<open>An error of the transport, or whether the service accepted the push.\<close>

type_synonym push_client = "nat \<Rightarrow> push \<Rightarrow> gerr + bool"

record 's alert_storage =
  as_GetUsers :: "('s, User list) act"
  as_Collections :: "uuid \<Rightarrow> ('s, Collection list) act"
  as_CollectionRecords :: "uuid \<Rightarrow> ('s, CollectionRecord list) act"
  as_MapUserIDToDeviceID :: "uuid \<Rightarrow> ('s, string list) act"

text \<open>
  What the alerter works with: the time that the n-th reading of the clock gives, and how
  identifiers and times are printed.
\<close>

record alert_env =
  ae_client :: push_client
  ae_topic :: string
  ae_now :: "nat \<Rightarrow> time"
  ae_show_id :: "uuid \<Rightarrow> string"
  ae_show_time :: "time \<Rightarrow> string"

definition on_store :: "('s, 'a) act \<Rightarrow> ('s alert_state, 'a) act" where
  "on_store m st = (case m (al_store st) of (r, s) \<Rightarrow> (r, st\<lparr>al_store := s\<rparr>))"

definition notification_for :: "alert_env \<Rightarrow> time \<Rightarrow> uuid \<Rightarrow> string \<Rightarrow> string \<Rightarrow> string \<Rightarrow> push" where
  "notification_for ae now itemID title body dev =
     \<lparr>push_DeviceToken = dev, push_Topic = ae_topic ae,
      push_Expiration = now + 15 * 60 * 1000000000,
      push_Title = title, push_Body = body, push_Badge = 1, push_Category = ''showCard'',
      push_ThreadID = ae_show_id ae itemID\<rparr>"

definition push_one :: "alert_env \<Rightarrow> uuid \<Rightarrow> string \<Rightarrow> string \<Rightarrow> string \<Rightarrow> ('s alert_state, unit) act" where
  "push_one ae itemID title body dev st =
     (let n = notification_for ae (ae_now ae (al_clock st)) itemID title body dev;
          st' = st\<lparr>al_clock := Suc (al_clock st), al_pushes := al_pushes st @ [n]\<rparr>
      in (case ae_client ae (length (al_pushes st)) n of
            Inl e \<Rightarrow> (Inl (Wrap ''push apns'' e), st')
          | Inr sent \<Rightarrow> (Inr (), st')))"

definition Send ::
    "alert_env \<Rightarrow> 's alert_storage \<Rightarrow> uuid \<Rightarrow> uuid \<Rightarrow> string \<Rightarrow> string \<Rightarrow> ('s alert_state, unit) act" where
  "Send ae st userID itemID title body =
     bindE (wrapE ''map user id to device id'' (on_store (as_MapUserIDToDeviceID st userID)))
       (\<lambda>deviceTokens. forE (push_one ae itemID title body) deviceTokens)"

section \<open>The alerter\<close>

definition expired_body :: "alert_env \<Rightarrow> Collection \<Rightarrow> CollectionRecord \<Rightarrow> string" where
  "expired_body ae col rec =
     ''tea '' @ td_Name (tea_Data (cr_Tea rec)) @ '' from collection '' @ col_Name col @
     '' expired '' @ ae_show_time ae (cr_ExpirationDate rec)"

definition processRecord ::
    "alert_env \<Rightarrow> 's alert_storage \<Rightarrow> uuid \<Rightarrow> Collection \<Rightarrow> CollectionRecord \<Rightarrow> ('s alert_state, unit) act" where
  "processRecord ae st userID col rec s =
     (let s1 = s\<lparr>al_clock := Suc (al_clock s)\<rparr>
      in if \<not> cr_ExpirationDate rec < ae_now ae (al_clock s) then returnE () s1
         else Send ae st userID (cr_ID rec) ''tea expired'' (expired_body ae col rec) s1)"

definition processCollectionRecords ::
    "alert_env \<Rightarrow> 's alert_storage \<Rightarrow> uuid \<Rightarrow> Collection \<Rightarrow> ('s alert_state, unit) act" where
  "processCollectionRecords ae st userID col =
     bindE (on_store (as_CollectionRecords st (col_ID col))) (\<lambda>records.
     forE (processRecord ae st userID col) records)"

definition processUserCollections ::
    "alert_env \<Rightarrow> 's alert_storage \<Rightarrow> uuid \<Rightarrow> ('s alert_state, unit) act" where
  "processUserCollections ae st userID =
     bindE (on_store (as_Collections st userID)) (\<lambda>collections.
     forE (processCollectionRecords ae st userID) collections)"

definition Run :: "alert_env \<Rightarrow> 's alert_storage \<Rightarrow> ('s alert_state, unit) act" where
  "Run ae st =
     bindE (on_store (as_GetUsers st)) (\<lambda>users.
     forE (\<lambda>user. processUserCollections ae st (user_ID user)) users)"

text \<open>
  The weekly loop: a tick runs the alerter and drops its error, a message on the stop channel
  ends the loop. The answer is whether the loop still runs. \<open>ae\<close> is the environment at
  the time of the tick.
\<close>

datatype loop_event = Tick alert_env | StopReceived

fun alerter_loop :: "'s alert_storage \<Rightarrow> loop_event list \<Rightarrow> 's alert_state \<Rightarrow> bool \<times> 's alert_state" where
  "alerter_loop st [] s = (True, s)"
| "alerter_loop st (StopReceived # evs) s = (False, s)"
| "alerter_loop st (Tick ae # evs) s = alerter_loop st evs (snd (Run ae st s))"

definition pg_alert_storage :: "pg_env \<Rightarrow> pgdb alert_storage" where
  "pg_alert_storage env =
     \<lparr>as_GetUsers = db_GetUsers env, as_Collections = db_Collections env,
      as_CollectionRecords = db_CollectionRecords env,
      as_MapUserIDToDeviceID = db_MapUserIDToDeviceID env\<rparr>"

section \<open>Loops that only read and push\<close>

text \<open>
  Which device is told about which record: the token and the thread of a push. \<open>reads ok view v f L H\<close>:
  on every state that shows \<open>v\<close> the operation succeeds, still shows \<open>v\<close> afterwards, and
  appends pushes that tell everything of \<open>L\<close> and nothing outside \<open>H\<close>.
\<close>

definition told :: "push list \<Rightarrow> (string \<times> string) set" where
  "told ps = (\<lambda>p. (push_DeviceToken p, push_ThreadID p)) ` set ps"

lemma told_simps [simp]: "told [] = {}" "told (ps @ qs) = told ps \<union> told qs"
  by (auto simp: told_def)

definition reads ::
    "('s \<Rightarrow> bool) \<Rightarrow> ('s \<Rightarrow> 'v) \<Rightarrow> 'v \<Rightarrow> ('s alert_state, unit) act \<Rightarrow>
     (string \<times> string) set \<Rightarrow> (string \<times> string) set \<Rightarrow> bool" where
  "reads ok view v f L H \<longleftrightarrow>
     (\<forall>st. ok (al_store st) \<and> view (al_store st) = v \<longrightarrow> (\<exists>s' ps n. ok s' \<and> view s' = v \<and>
        L \<subseteq> told ps \<and> told ps \<subseteq> H \<and>
        f st = (Inr (), \<lparr>al_store = s', al_pushes = al_pushes st @ ps, al_clock = n\<rparr>)))"

lemma readsI:
  assumes "\<And>st. ok (al_store st) \<Longrightarrow> view (al_store st) = v \<Longrightarrow> \<exists>s' ps n. ok s' \<and> view s' = v \<and>
     L \<subseteq> told ps \<and> told ps \<subseteq> H \<and>
     f st = (Inr (), \<lparr>al_store = s', al_pushes = al_pushes st @ ps, al_clock = n\<rparr>)"
  shows "reads ok view v f L H"
  using assms by (simp add: reads_def)

lemma readsE:
  assumes "reads ok view v f L H" and "ok (al_store st)" and "view (al_store st) = v"
  obtains s' ps n where "ok s'" and "view s' = v" and "L \<subseteq> told ps" and "told ps \<subseteq> H"
    and "f st = (Inr (), \<lparr>al_store = s', al_pushes = al_pushes st @ ps, al_clock = n\<rparr>)"
  using assms unfolding reads_def by blast

lemma reads_return: "reads ok view v (returnE ()) {} H"
proof (rule readsI)
  fix st :: "_ alert_state" assume "ok (al_store st)" "view (al_store st) = v"
  then show "\<exists>s' ps n. ok s' \<and> view s' = v \<and> {} \<subseteq> told ps \<and> told ps \<subseteq> H \<and>
      returnE () st = (Inr (), \<lparr>al_store = s', al_pushes = al_pushes st @ ps, al_clock = n\<rparr>)"
    by (intro exI [of _ "al_store st"] exI [of _ "[]"] exI [of _ "al_clock st"]) simp
qed

lemma reads_forE:
  assumes "\<And>x. x \<in> set xs \<Longrightarrow> reads ok view v (f x) (lo x) (hi x)"
  shows "reads ok view v (forE f xs) (\<Union>x \<in> set xs. lo x) (\<Union>x \<in> set xs. hi x)"
  using assms
proof (induction xs)
  case Nil
  have "forE f [] = returnE ()" by (rule ext) simp
  then show ?case unfolding \<open>forE f [] = returnE ()\<close> by (simp add: reads_return del: returnE_run)
next
  case (Cons x xs)
  show ?case
  proof (rule readsI)
    fix st :: "_ alert_state" assume s: "ok (al_store st)" "view (al_store st) = v"
    have x: "reads ok view v (f x) (lo x) (hi x)"
      and r: "reads ok view v (forE f xs) (\<Union>x \<in> set xs. lo x) (\<Union>x \<in> set xs. hi x)"
      using Cons.IH Cons.prems by simp_all
    obtain s1 ps n where s1: "ok s1" "view s1 = v" "lo x \<subseteq> told ps" "told ps \<subseteq> hi x"
      "f x st = (Inr (), \<lparr>al_store = s1, al_pushes = al_pushes st @ ps, al_clock = n\<rparr>)"
      using readsE [OF x s] .
    let ?st1 = "\<lparr>al_store = s1, al_pushes = al_pushes st @ ps, al_clock = n\<rparr>"
    have at: "ok (al_store ?st1)" "view (al_store ?st1) = v" using s1(1,2) by simp_all
    obtain s2 ps2 n2 where "ok s2" "view s2 = v" "(\<Union>x \<in> set xs. lo x) \<subseteq> told ps2"
      "told ps2 \<subseteq> (\<Union>x \<in> set xs. hi x)"
      "forE f xs ?st1 = (Inr (), \<lparr>al_store = s2, al_pushes = al_pushes ?st1 @ ps2, al_clock = n2\<rparr>)"
      using readsE [OF r at] .
    with s1 show "\<exists>s' ps n. ok s' \<and> view s' = v \<and> (\<Union>x \<in> set (x # xs). lo x) \<subseteq> told ps \<and>
        told ps \<subseteq> (\<Union>x \<in> set (x # xs). hi x) \<and>
        forE f (x # xs) st = (Inr (), \<lparr>al_store = s', al_pushes = al_pushes st @ ps, al_clock = n\<rparr>)"
      by (intro exI [of _ s2] exI [of _ "ps @ ps2"] exI [of _ n2]) auto
  qed
qed

lemma reads_bindE:
  assumes "\<And>s. ok s \<Longrightarrow> view s = v \<Longrightarrow> \<exists>s'. q s = (Inr x, s') \<and> ok s' \<and> view s' = v"
    and "reads ok view v (f x) L H"
  shows "reads ok view v (bindE (on_store q) f) L H"
proof (rule readsI)
  fix st :: "_ alert_state" assume "ok (al_store st)" "view (al_store st) = v"
  with assms(1) obtain s1 where s1: "q (al_store st) = (Inr x, s1)" "ok s1" "view s1 = v" by blast
  have at: "ok (al_store (st\<lparr>al_store := s1\<rparr>))" "view (al_store (st\<lparr>al_store := s1\<rparr>)) = v"
    using s1 by simp_all
  obtain s2 ps n where "ok s2" "view s2 = v" "L \<subseteq> told ps" "told ps \<subseteq> H"
      "f x (st\<lparr>al_store := s1\<rparr>) =
        (Inr (), \<lparr>al_store = s2, al_pushes = al_pushes (st\<lparr>al_store := s1\<rparr>) @ ps, al_clock = n\<rparr>)"
    using readsE [OF assms(2) at] .
  with s1(1) show "\<exists>s' ps n. ok s' \<and> view s' = v \<and> L \<subseteq> told ps \<and> told ps \<subseteq> H \<and>
      bindE (on_store q) f st = (Inr (), \<lparr>al_store = s', al_pushes = al_pushes st @ ps, al_clock = n\<rparr>)"
    by (auto simp: on_store_def bindE_def)
qed

lemma wrapE_on_store: "wrapE m (on_store q) = on_store (wrapE m q)"
  by (rule ext) (simp add: wrapE_def on_store_def split: prod.splits sum.splits)

section \<open>What a run pushes\<close>

text \<open>Whom a record's alert is for, if its date is past at \<open>now\<close>.\<close>

definition record_due :: "alert_env \<Rightarrow> time \<Rightarrow> string list \<Rightarrow> CollectionRecord \<Rightarrow> (string \<times> string) set" where
  "record_due ae now tokens rec =
     (if cr_ExpirationDate rec < now then (\<lambda>tok. (tok, ae_show_id ae (cr_ID rec))) ` set tokens else {})"

text \<open>Whom the alerts of a run are for, over all users, collections and records.\<close>

definition all_due :: "alert_env \<Rightarrow> time \<Rightarrow> User list \<Rightarrow> (uuid \<Rightarrow> Collection list) \<Rightarrow>
    (uuid \<Rightarrow> CollectionRecord list) \<Rightarrow> (uuid \<Rightarrow> string list) \<Rightarrow> (string \<times> string) set" where
  "all_due ae now users collections records tokens =
     (\<Union>u \<in> set users. \<Union>col \<in> set (collections (user_ID u)).
        \<Union>rec \<in> set (records (col_ID col)). record_due ae now (tokens (user_ID u)) rec)"

text \<open>
  The contract of the alerter's storage: the four reads answer from the view \<open>v\<close> of the
  state and leave it alone, as long as statements go through (\<open>ok\<close>).
\<close>

locale alert_storage_laws =
  fixes st :: "'s alert_storage"
    and ok :: "'s \<Rightarrow> bool"
    and view :: "'s \<Rightarrow> 'v"
    and users :: "'v \<Rightarrow> User list"
    and collections :: "'v \<Rightarrow> uuid \<Rightarrow> Collection list"
    and records :: "'v \<Rightarrow> uuid \<Rightarrow> CollectionRecord list"
    and tokens :: "'v \<Rightarrow> uuid \<Rightarrow> string list"
  assumes got_users: "ok s \<Longrightarrow> view s = v \<Longrightarrow>
      \<exists>s'. as_GetUsers st s = (Inr (users v), s') \<and> ok s' \<and> view s' = v"
    and got_collections: "ok s \<Longrightarrow> view s = v \<Longrightarrow>
      \<exists>s'. as_Collections st u s = (Inr (collections v u), s') \<and> ok s' \<and> view s' = v"
    and got_records: "ok s \<Longrightarrow> view s = v \<Longrightarrow>
      \<exists>s'. as_CollectionRecords st c s = (Inr (records v c), s') \<and> ok s' \<and> view s' = v"
    and got_tokens: "ok s \<Longrightarrow> view s = v \<Longrightarrow>
      \<exists>s'. as_MapUserIDToDeviceID st u s = (Inr (tokens v u), s') \<and> ok s' \<and> view s' = v"
begin

lemma reads_Send:
  assumes "\<And>n p. \<exists>b. ae_client ae n p = Inr b"
  shows "reads ok view v (Send ae st user item title body)
    ((\<lambda>tok. (tok, ae_show_id ae item)) ` set (tokens v user))
    ((\<lambda>tok. (tok, ae_show_id ae item)) ` set (tokens v user))"
proof -
  have one: "reads ok view v (push_one ae item title body dev) {(dev, ae_show_id ae item)} {(dev, ae_show_id ae item)}"
    for dev
  proof (rule readsI)
    fix s :: "'s alert_state" assume "ok (al_store s)" "view (al_store s) = v"
    let ?n = "notification_for ae (ae_now ae (al_clock s)) item title body dev"
    obtain b where "ae_client ae (length (al_pushes s)) ?n = Inr b" using assms by blast
    moreover have "told [?n] = {(dev, ae_show_id ae item)}" by (simp add: told_def notification_for_def)
    ultimately show "\<exists>s' ps n. ok s' \<and> view s' = v \<and> {(dev, ae_show_id ae item)} \<subseteq> told ps \<and>
        told ps \<subseteq> {(dev, ae_show_id ae item)} \<and>
        push_one ae item title body dev s = (Inr (), \<lparr>al_store = s', al_pushes = al_pushes s @ ps, al_clock = n\<rparr>)"
      using \<open>ok (al_store s)\<close> \<open>view (al_store s) = v\<close>
      by (intro exI [of _ "al_store s"] exI [of _ "[?n]"] exI [of _ "Suc (al_clock s)"])
        (simp add: push_one_def Let_def)
  qed
  have "reads ok view v (forE (push_one ae item title body) (tokens v user))
      (\<Union>dev \<in> set (tokens v user). {(dev, ae_show_id ae item)})
      (\<Union>dev \<in> set (tokens v user). {(dev, ae_show_id ae item)})"
    by (rule reads_forE) (rule one)
  then have "reads ok view v (forE (push_one ae item title body) (tokens v user))
      ((\<lambda>tok. (tok, ae_show_id ae item)) ` set (tokens v user))
      ((\<lambda>tok. (tok, ae_show_id ae item)) ` set (tokens v user))"
    by (simp add: image_UN [symmetric] UNION_singleton_eq_range)
  moreover have "\<exists>s'. wrapE msg (as_MapUserIDToDeviceID st user) s = (Inr (tokens v user), s') \<and> ok s' \<and> view s' = v"
    if s: "ok s" "view s = v" for s msg
    using got_tokens [OF s, of user] by auto
  ultimately show ?thesis
    unfolding Send_def wrapE_on_store by (intro reads_bindE [where x = "tokens v user"]) simp_all
qed

lemma reads_processRecord:
  assumes "\<And>n p. \<exists>b. ae_client ae n p = Inr b" and "\<And>n. t0 \<le> ae_now ae n \<and> ae_now ae n \<le> t1"
  shows "reads ok view v (processRecord ae st user col r)
    (record_due ae t0 (tokens v user) r) (record_due ae t1 (tokens v user) r)"
proof (rule readsI)
  fix s :: "'s alert_state" assume s: "ok (al_store s)" "view (al_store s) = v"
  let ?s1 = "s\<lparr>al_clock := Suc (al_clock s)\<rparr>" and ?now = "ae_now ae (al_clock s)"
  let ?all = "(\<lambda>tok. (tok, ae_show_id ae (cr_ID r))) ` set (tokens v user)"
  have now: "t0 \<le> ?now" "?now \<le> t1" using assms(2) by simp_all
  have s1: "ok (al_store ?s1)" "view (al_store ?s1) = v" using s by simp_all
  show "\<exists>s' ps n. ok s' \<and> view s' = v \<and> record_due ae t0 (tokens v user) r \<subseteq> told ps \<and>
      told ps \<subseteq> record_due ae t1 (tokens v user) r \<and>
      processRecord ae st user col r s = (Inr (), \<lparr>al_store = s', al_pushes = al_pushes s @ ps, al_clock = n\<rparr>)"
  proof (cases "cr_ExpirationDate r < ?now")
    case True
    then have due: "record_due ae t1 (tokens v user) r = ?all" "record_due ae t0 (tokens v user) r \<subseteq> ?all"
      using now by (simp_all add: record_due_def)
    obtain s' ps n where "ok s'" "view s' = v" "?all \<subseteq> told ps" "told ps \<subseteq> ?all"
      "Send ae st user (cr_ID r) ''tea expired'' (expired_body ae col r) ?s1 =
        (Inr (), \<lparr>al_store = s', al_pushes = al_pushes ?s1 @ ps, al_clock = n\<rparr>)"
      using readsE [OF reads_Send [OF assms(1)] s1] .
    with True due show ?thesis
      by (intro exI [of _ s'] exI [of _ ps] exI [of _ n]) (auto simp: processRecord_def)
  next
    case False
    then have "record_due ae t0 (tokens v user) r = {}" using now by (simp add: record_due_def)
    with False s show ?thesis
      by (intro exI [of _ "al_store s"] exI [of _ "[]"] exI [of _ "Suc (al_clock s)"])
        (simp add: processRecord_def)
  qed
qed

lemma reads_Run:
  assumes "\<And>n p. \<exists>b. ae_client ae n p = Inr b" and "\<And>n. t0 \<le> ae_now ae n \<and> ae_now ae n \<le> t1"
  shows "reads ok view v (Run ae st)
    (all_due ae t0 (users v) (collections v) (records v) (tokens v))
    (all_due ae t1 (users v) (collections v) (records v) (tokens v))"
proof -
  note rec = reads_processRecord [OF assms]
  have col: "reads ok view v (processCollectionRecords ae st user col)
      (\<Union>r \<in> set (records v (col_ID col)). record_due ae t0 (tokens v user) r)
      (\<Union>r \<in> set (records v (col_ID col)). record_due ae t1 (tokens v user) r)" for user col
    unfolding processCollectionRecords_def
    by (rule reads_bindE, rule got_records) (assumption, assumption, rule reads_forE, rule rec)
  have user: "reads ok view v (processUserCollections ae st user)
      (\<Union>col \<in> set (collections v user). \<Union>r \<in> set (records v (col_ID col)). record_due ae t0 (tokens v user) r)
      (\<Union>col \<in> set (collections v user). \<Union>r \<in> set (records v (col_ID col)). record_due ae t1 (tokens v user) r)"
    for user
    unfolding processUserCollections_def
    by (rule reads_bindE, rule got_collections) (assumption, assumption, rule reads_forE, rule col)
  show ?thesis
    unfolding Run_def all_due_def
    by (rule reads_bindE, rule got_users) (assumption, assumption, rule reads_forE, rule user)
qed

end

section \<open>A run on Postgres\<close>

definition user_tokens :: "pgdb \<Rightarrow> uuid \<Rightarrow> string list" where
  "user_tokens d user = map d_token (sort_key (\<lambda>r. - d_created r) (filter (\<lambda>r. d_user r = user) (db_devices d)))"

definition user_collections :: "pgdb \<Rightarrow> uuid \<Rightarrow> Collection list" where
  "user_collections d user = map (\<lambda>col. \<lparr>col_ID = k_id col, col_Name = k_name col\<rparr>)
     (sort_key (\<lambda>r. - k_created r) (filter (\<lambda>r. k_user r = user) (db_colls d)))"

definition collection_rows :: "pgdb \<Rightarrow> uuid \<Rightarrow> (qr_row \<times> tea_row) list" where
  "collection_rows d col = concat (map (\<lambda>p. concat (map (\<lambda>r. map (Pair r) (filter (\<lambda>t. t_id t = r_tea r) (db_teas d)))
     (filter (\<lambda>r. r_id r = snd p) (db_qrs d)))) (filter (\<lambda>p. fst p = col) (db_items d)))"

definition collection_records :: "pgdb \<Rightarrow> uuid \<Rightarrow> CollectionRecord list" where
  "collection_records d col = map record_of_rows (sort_key (\<lambda>(r, t). r_exp r) (collection_rows d col))"

definition all_users :: "pgdb \<Rightarrow> User list" where
  "all_users d = map (\<lambda>u. \<lparr>user_ID = u_id u, user_AppleID = u_apple u\<rparr>) (sort_key (\<lambda>r. - u_created r) (db_users d))"

text \<open>The view: everything but the counter of the statements.\<close>

definition tables :: "pgdb \<Rightarrow> pgdb" where
  "tables d = d\<lparr>db_stmts := 0\<rparr>"

lemma tables_run:
  assumes "no_faults env" and "tables d = v" and "\<And>n. f (d\<lparr>db_stmts := n\<rparr>) = f v"
  shows "\<exists>d'. stmt env (select_rows f) d = (Inr (f v), d') \<and> no_faults env \<and> tables d' = v"
  using assms by (auto simp: tables_def)

interpretation pg_alert: alert_storage_laws "pg_alert_storage env" "\<lambda>_. no_faults env" tables
  all_users user_collections collection_records user_tokens
proof
  fix s v u c
  assume nf: "no_faults env" and v: "tables s = v"
  have d: "v = s\<lparr>db_stmts := 0\<rparr>" using v by (simp add: tables_def)
  show "\<exists>s'. as_GetUsers (pg_alert_storage env) s = (Inr (all_users v), s') \<and> no_faults env \<and> tables s' = v"
    using nf by (simp add: d tables_def pg_alert_storage_def db_GetUsers_def q_ListUsers_def mapE_def all_users_def)
  show "\<exists>s'. as_Collections (pg_alert_storage env) u s = (Inr (user_collections v u), s') \<and> no_faults env \<and> tables s' = v"
    using nf by (simp add: d tables_def pg_alert_storage_def db_Collections_def q_ListCollections_def mapE_def
        user_collections_def)
  show "\<exists>s'. as_CollectionRecords (pg_alert_storage env) c s = (Inr (collection_records v c), s') \<and> no_faults env \<and> tables s' = v"
    using nf by (simp add: d tables_def pg_alert_storage_def db_CollectionRecords_def q_ListCollectionRecords_def
        mapE_def collection_records_def collection_rows_def)
  show "\<exists>s'. as_MapUserIDToDeviceID (pg_alert_storage env) u s = (Inr (user_tokens v u), s') \<and> no_faults env \<and> tables s' = v"
    using nf by (simp add: d tables_def pg_alert_storage_def db_MapUserIDToDeviceID_def q_ListDeviceTokens_def
        user_tokens_def)
qed

lemma collection_rows_iff:
  "db_ok env d \<Longrightarrow> (\<exists>t. (r, t) \<in> set (collection_rows d c)) \<longleftrightarrow> r \<in> set (db_qrs d) \<and> (c, r_id r) \<in> set (db_items d)"
  by (fastforce simp: collection_rows_def db_ok_defs)

lemma expired_records_iff:
  assumes "db_ok env d"
  shows "(\<exists>rec \<in> set (collection_records d c). cr_ExpirationDate rec < now \<and> cr_ID rec = item) \<longleftrightarrow>
    (\<exists>r \<in> set (db_qrs d). (c, item) \<in> set (db_items d) \<and> r_id r = item \<and> r_exp r < now)"
proof -
  have "(\<exists>rec \<in> set (collection_records d c). cr_ExpirationDate rec < now \<and> cr_ID rec = item) \<longleftrightarrow>
      (\<exists>r. (\<exists>t. (r, t) \<in> set (collection_rows d c)) \<and> r_exp r < now \<and> r_id r = item)"
    unfolding collection_records_def by (simp add: record_of_rows_def split_beta) force
  then show ?thesis by (auto simp: collection_rows_iff [OF assms])
qed

text \<open>
  The owners of an expired record and their devices, on the tables.
\<close>

definition owed :: "pgdb \<Rightarrow> time \<Rightarrow> string \<Rightarrow> uuid \<Rightarrow> bool" where
  "owed d now tok item \<longleftrightarrow>
     (\<exists>u \<in> set (db_users d). \<exists>dev \<in> set (db_devices d). \<exists>c \<in> set (db_colls d). \<exists>r \<in> set (db_qrs d).
        d_user dev = u_id u \<and> d_token dev = tok \<and> k_user c = u_id u \<and>
        (k_id c, item) \<in> set (db_items d) \<and> r_id r = item \<and> r_exp r < now)"

definition tables_due :: "alert_env \<Rightarrow> time \<Rightarrow> pgdb \<Rightarrow> (string \<times> string) set" where
  "tables_due ae now d = all_due ae now (all_users d) (user_collections d) (collection_records d) (user_tokens d)"

lemma tables_due_owed:
  assumes "db_ok env d" and "inj (ae_show_id ae)"
  shows "(tok, ae_show_id ae item) \<in> tables_due ae now d \<longleftrightarrow> owed d now tok item"
proof -
  have mem: "(tok, ae_show_id ae item) \<in> record_due ae now toks rec
      \<longleftrightarrow> cr_ExpirationDate rec < now \<and> cr_ID rec = item \<and> tok \<in> set toks" for toks rec
    using inj_eq [OF assms(2)] by (auto simp: record_due_def)
  have "(tok, ae_show_id ae item) \<in> tables_due ae now d \<longleftrightarrow>
      (\<exists>u \<in> set (all_users d). \<exists>col \<in> set (user_collections d (user_ID u)).
         (\<exists>rec \<in> set (collection_records d (col_ID col)). cr_ExpirationDate rec < now \<and> cr_ID rec = item) \<and>
         tok \<in> set (user_tokens d (user_ID u)))"
    using mem unfolding tables_due_def all_due_def by blast
  also have "\<dots> \<longleftrightarrow> owed d now tok item"
    unfolding expired_records_iff [OF assms(1)] owed_def
    by (auto simp: all_users_def user_collections_def user_tokens_def)
  finally show ?thesis .
qed

text \<open>
  C36. On a consistent database, while no statement fails and no push ends in an error, and with
  all readings of the clock between \<open>t0\<close> and \<open>t1\<close>: a run pushes to every device of every user of
  whom some collection holds a record that has expired at \<open>t0\<close>, and to a device about a record
  only if the device belongs to such a user and the record has expired at \<open>t1\<close>; so with a clock
  that stands still exactly the owners of expired records are alerted. It changes no table. (A
  push that ends in an error ends the run: lemma \<open>push_one_fails\<close>.)
\<close>

theorem Run_alerts_owners:
  assumes "no_faults env" and "db_ok env d" and "\<And>n p. \<exists>b. ae_client ae n p = Inr b"
    and "inj (ae_show_id ae)" and "\<And>n. t0 \<le> ae_now ae n \<and> ae_now ae n \<le> t1"
  shows "\<exists>d' ps k. Run ae (pg_alert_storage env) \<lparr>al_store = d, al_pushes = qs, al_clock = n\<rparr> =
      (Inr (), \<lparr>al_store = d', al_pushes = qs @ ps, al_clock = k\<rparr>) \<and> tables d' = tables d \<and>
    {(tok, item). owed d t0 tok item} \<subseteq> {(tok, item). (tok, ae_show_id ae item) \<in> told ps} \<and>
    {(tok, item). (tok, ae_show_id ae item) \<in> told ps} \<subseteq> {(tok, item). owed d t1 tok item}"
proof -
  let ?st = "\<lparr>al_store = d, al_pushes = qs, al_clock = n\<rparr>"
  have at: "no_faults env" "tables (al_store ?st) = tables d" using assms(1) by simp_all
  obtain d' ps k where run: "tables d' = tables d"
      "tables_due ae t0 (tables d) \<subseteq> told ps" "told ps \<subseteq> tables_due ae t1 (tables d)"
      "Run ae (pg_alert_storage env) ?st = (Inr (), \<lparr>al_store = d', al_pushes = al_pushes ?st @ ps, al_clock = k\<rparr>)"
    using readsE [OF pg_alert.reads_Run [OF assms(3,5), folded tables_due_def] at] .
  have "(tok, ae_show_id ae item) \<in> tables_due ae now (tables d) \<longleftrightarrow> owed d now tok item" for now tok item
    using assms(2,4) tables_due_owed [of env "tables d" ae tok item now] by (simp add: tables_def owed_def)
  with run show ?thesis by auto
qed

text \<open>In the demonstration the clock advances by one unit per reading, up to 1600.\<close>

definition demo_alert :: alert_env where
  "demo_alert = \<lparr>ae_client = (\<lambda>_ _. Inr True), ae_topic = ''tea'',
     ae_now = (\<lambda>n. 1500 + int (min n 100)),
     ae_show_id = (\<lambda>u. replicate (unat u) CHR ''x''), ae_show_time = (\<lambda>_. ''then'')\<rparr>"

definition db_alert :: pgdb where
  "db_alert = db_two_records\<lparr>db_devices := [\<lparr>d_id = 5, d_user = 1, d_token = ''tok'', d_created = 0\<rparr>]\<rparr>"

lemma db_alert_ok: "db_ok env0 db_alert"
  by (simp add: db_ok_defs db_alert_def db_two_records_def db_one_tea_simps empty_db_def tea_type_check_def)

theorem Run_alerts_owners_witness:
  "\<exists>d' ps k. Run demo_alert (pg_alert_storage env0) \<lparr>al_store = db_alert, al_pushes = [], al_clock = 0\<rparr> =
      (Inr (), \<lparr>al_store = d', al_pushes = ps, al_clock = k\<rparr>) \<and>
    (''tok'', ''xxxx'') \<in> told ps \<and> (''tok'', ''xxx'') \<notin> told ps"
proof -
  have inj: "inj (ae_show_id demo_alert)"
    by (rule injI) (metis alert_env.select_convs(4) demo_alert_def length_replicate word_unat_eq_iff)
  have client: "\<exists>b. ae_client demo_alert n p = Inr b" for n p
    by (rule exI [of _ True]) (simp add: demo_alert_def)
  have clock: "1500 \<le> ae_now demo_alert n \<and> ae_now demo_alert n \<le> 1600" for n
    by (simp add: demo_alert_def)
  have ids: "ae_show_id demo_alert 4 = ''xxxx''" "ae_show_id demo_alert 3 = ''xxx''"
    by (simp_all add: demo_alert_def) (simp_all add: eval_nat_numeral)
  obtain d' ps k where run: "Run demo_alert (pg_alert_storage env0)
        \<lparr>al_store = db_alert, al_pushes = [], al_clock = 0\<rparr> =
      (Inr (), \<lparr>al_store = d', al_pushes = [] @ ps, al_clock = k\<rparr>)"
    and owed: "{(tok, item). owed db_alert 1500 tok item} \<subseteq> {(tok, item). (tok, ae_show_id demo_alert item) \<in> told ps}"
      "{(tok, item). (tok, ae_show_id demo_alert item) \<in> told ps} \<subseteq> {(tok, item). owed db_alert 1600 tok item}"
    using Run_alerts_owners [OF no_faults_env0 db_alert_ok client inj clock, of "[]" 0] by blast
  have "owed db_alert 1500 ''tok'' 4" "\<not> owed db_alert 1600 ''tok'' 3"
    by (simp_all add: owed_def db_alert_def db_two_records_def)
  then have "(''tok'', ae_show_id demo_alert 4) \<in> told ps" "(''tok'', ae_show_id demo_alert 3) \<notin> told ps"
    using owed by auto
  then have "(''tok'', ''xxxx'') \<in> told ps" "(''tok'', ''xxx'') \<notin> told ps"
    unfolding ids .
  with run show ?thesis by auto
qed

text \<open>A push that fails ends the run: nothing is pushed to the users after it.\<close>

lemma push_one_fails:
  "ae_client ae (length (al_pushes st)) (notification_for ae (ae_now ae (al_clock st)) item title body dev) = Inl e \<Longrightarrow>
     forE (push_one ae item title body) (dev # devs) st =
       (Inl (Wrap ''push apns'' e), st\<lparr>al_clock := Suc (al_clock st),
          al_pushes := al_pushes st @ [notification_for ae (ae_now ae (al_clock st)) item title body dev]\<rparr>)"
  by (simp add: push_one_def Let_def)

end
