(* ===== verification/Ai_Services.thy ===== *)
theory Ai_Services
  imports Common_Model
begin

text \<open>
  The two services that ask a language model: the adviser (\<open>internal/adviser\<close>), which
  recommends a tea and scores teas for the day, and the generator of descriptions
  (\<open>internal/descrgen\<close>) with its cache. The model's client, the template engine, the JSON
  decoder and the cache are parameters. The lemmas show how teas are sorted into the prompt,
  that scores lie between 0 and 15, what a reader of a stream receives, and that a failed
  generation is remembered as an empty description.
\<close>

section \<open>Requests\<close>

text \<open>
  A completion is the contents of its choices, of which the code takes the first without
  looking whether there is one. The first argument of the client is the model, here by the name of the library's constant for it.
\<close>

type_synonym chat_client = "string \<Rightarrow> string \<Rightarrow> gerr + string list"

definition first_choice :: "string list \<Rightarrow> string call" where
  "first_choice choices = (case choices of [] \<Rightarrow> Panic | c # _ \<Rightarrow> Ret (Inr c))"

definition GPT5 :: string where "GPT5 = ''openai.GPT5''"
definition GPT4oLatest :: string where "GPT4oLatest = ''openai.GPT4oLatest''"

section \<open>The adviser\<close>

text \<open>\<open>float64\<close> is the type parameter \<open>'f\<close>.\<close>

record 'f Weather =
  w_Temperature :: 'f
  w_Clouds :: int
  w_Rain :: 'f
  w_Humidity :: int
  w_WindSpeed :: 'f
  w_Visibility :: int

type_synonym Feelings = string

definition NotEmpty :: "Feelings \<Rightarrow> bool" where
  "NotEmpty f \<longleftrightarrow> f \<noteq> ''''"

record 'f Template =
  tpl_Teas :: "Tea list"
  tpl_Additives :: "Tea list"
  tpl_Weather :: "'f Weather"
  tpl_TimeOfDay :: string
  tpl_Feelings :: Feelings

definition sort_step :: "Tea \<Rightarrow> 'f Template \<Rightarrow> 'f Template" where
  "sort_step tea t =
     (if td_Type (tea_Data tea) = TeaBeverageType then t\<lparr>tpl_Teas := tpl_Teas t @ [tea]\<rparr>
      else if td_Type (tea_Data tea) = HerbBeverageType then t\<lparr>tpl_Additives := tpl_Additives t @ [tea]\<rparr>
      else t)"

text \<open>\<open>time_of_day\<close> prints the time of day of an instant.\<close>

definition sortTeas ::
    "(time \<Rightarrow> string) \<Rightarrow> time \<Rightarrow> Tea list \<Rightarrow> 'f Weather \<Rightarrow> string \<Rightarrow> 'f Template" where
  "sortTeas time_of_day now teas weather feelings =
     fold sort_step teas
       \<lparr>tpl_Teas = [], tpl_Additives = [], tpl_Weather = weather,
        tpl_TimeOfDay = time_of_day (now + 3 * Hour), tpl_Feelings = feelings\<rparr>"

lemma fold_sort_step:
  "fold sort_step teas t = t\<lparr>
     tpl_Teas := tpl_Teas t @ filter (\<lambda>x. td_Type (tea_Data x) = TeaBeverageType) teas,
     tpl_Additives := tpl_Additives t @ filter (\<lambda>x. td_Type (tea_Data x) = HerbBeverageType) teas\<rparr>"
  by (induction teas arbitrary: t) (simp_all add: sort_step_def beverage_defs)

lemma sortTeas_split:
  "tpl_Teas (sortTeas f now teas w feelings) = filter (\<lambda>x. td_Type (tea_Data x) = TeaBeverageType) teas"
  "tpl_Additives (sortTeas f now teas w feelings) = filter (\<lambda>x. td_Type (tea_Data x) = HerbBeverageType) teas"
  by (simp_all add: sortTeas_def fold_sort_step)

text \<open>The prompt template, its engine a parameter; its error is wrapped here and by the caller.\<close>

definition execute :: "('f Template \<Rightarrow> gerr + string) \<Rightarrow> 'f Template \<Rightarrow> gerr + string" where
  "execute tmpl params =
     (case tmpl params of Inl e \<Rightarrow> Inl (Wrap ''execute template'' e) | Inr s \<Rightarrow> Inr s)"

definition RecommendTea ::
    "chat_client \<Rightarrow> ('f Template \<Rightarrow> gerr + string) \<Rightarrow> (time \<Rightarrow> string) \<Rightarrow> time \<Rightarrow>
       Tea list \<Rightarrow> 'f Weather \<Rightarrow> string \<Rightarrow> string call" where
  "RecommendTea chat tmpl time_of_day now teas weather feelings =
     (case execute tmpl (sortTeas time_of_day now teas weather feelings) of
        Inl e \<Rightarrow> Ret (Inl (Wrap ''execute template'' e))
      | Inr content \<Rightarrow>
          (case chat GPT5 content of
             Inl e \<Rightarrow> Ret (Inl (Wrap ''create chat completion'' e))
           | Inr choices \<Rightarrow> first_choice choices))"

text \<open>
  A stream answers one \<open>Recv\<close> after the other: the contents of a chunk's choices or an
  error, the end of the stream among them. \<open>readStream\<close> gives what it sends on the channel
  and whether it closes the channel or panics on a chunk without choices.
\<close>

datatype stream_end = Closed | Crashed

fun readStream :: "(gerr + string list) list \<Rightarrow> string list \<times> stream_end" where
  "readStream [] = ([], Closed)"
| "readStream (Inl e # rs) = ([], Closed)"
| "readStream (Inr [] # rs) = ([], Crashed)"
| "readStream (Inr (c # _) # rs) = (case readStream rs of (sent, e) \<Rightarrow> (c # sent, e))"

definition RecommendTeaStream ::
    "(string \<Rightarrow> string \<Rightarrow> gerr + (gerr + string list) list) \<Rightarrow> ('f Template \<Rightarrow> gerr + string) \<Rightarrow>
       (time \<Rightarrow> string) \<Rightarrow> time \<Rightarrow> Tea list \<Rightarrow> 'f Weather \<Rightarrow> string \<Rightarrow> gerr + (string list \<times> stream_end)" where
  "RecommendTeaStream open_stream tmpl time_of_day now teas weather feelings =
     (case execute tmpl (sortTeas time_of_day now teas weather feelings) of
        Inl e \<Rightarrow> Inl (Wrap ''execute template'' e)
      | Inr content \<Rightarrow>
          (case open_stream GPT4oLatest content of
             Inl e \<Rightarrow> Inl (Wrap ''create chat completion stream'' e)
           | Inr rs \<Rightarrow> Inr (readStream rs)))"

section \<open>Scores for the day\<close>

text \<open>
  A decoded JSON value: only whether it is a number matters. The decoder gives the keys once
  each, in the order the loop over the map visits them. \<open>trunc\<close> is Go's conversion
  \<open>int(t)\<close>, which is implementation-defined out of range.
\<close>

datatype 'f json = JNumber 'f | JOther

definition clamp_score :: "int \<Rightarrow> int" where
  "clamp_score s = (let s1 = (if s < 0 then 0 else s) in if s1 > 15 then 15 else s1)"

definition score_step :: "('f \<Rightarrow> int) \<Rightarrow> string \<times> 'f json \<Rightarrow> (string \<rightharpoonup> int) \<Rightarrow> (string \<rightharpoonup> int)" where
  "score_step trunc kv res =
     (case kv of (k, v) \<Rightarrow>
        (case v of JNumber t \<Rightarrow> res(k \<mapsto> clamp_score (trunc t)) | JOther \<Rightarrow> res))"

definition getCompletion :: "chat_client \<Rightarrow> string \<Rightarrow> string call" where
  "getCompletion chat content =
     (case chat GPT5 content of
        Inl e \<Rightarrow> Ret (Inl (Wrap ''create chat completion'' e))
      | Inr choices \<Rightarrow> first_choice choices)"

definition ContextScores ::
    "chat_client \<Rightarrow> (string list \<Rightarrow> 'f Weather \<Rightarrow> string \<Rightarrow> gerr + string) \<Rightarrow>
       (string \<Rightarrow> gerr + (string \<times> 'f json) list) \<Rightarrow> ('f \<Rightarrow> int) \<Rightarrow>
       string list \<Rightarrow> 'f Weather \<Rightarrow> string \<Rightarrow> (string \<rightharpoonup> int) call" where
  "ContextScores chat contextTmpl unmarshal trunc teas weather day =
     (case contextTmpl teas weather day of
        Inl e \<Rightarrow> Ret (Inl (Wrap ''execute context template'' e))
      | Inr tpl \<Rightarrow>
          (case getCompletion chat tpl of
             Panic \<Rightarrow> Panic
           | Ret (Inl e) \<Rightarrow> Ret (Inl (Wrap ''get completion'' e))
           | Ret (Inr resp) \<Rightarrow>
               (case unmarshal resp of
                  Inl e \<Rightarrow> Ret (Inl (Wrap ''unmarshal completion'' e))
                | Inr raw \<Rightarrow> Ret (Inr (fold (score_step trunc) raw Map.empty)))))"

lemma clamp_score_bounds: "0 \<le> clamp_score s \<and> clamp_score s \<le> 15"
  by (simp add: clamp_score_def Let_def)

lemma clamp_score_id: "0 \<le> s \<Longrightarrow> s \<le> 15 \<Longrightarrow> clamp_score s = s"
  by (simp add: clamp_score_def)

lemma fold_score_step:
  "(\<forall>k s. m k = Some s \<longrightarrow> 0 \<le> s \<and> s \<le> 15) \<Longrightarrow>
     fold (score_step trunc) raw m k = Some s \<Longrightarrow> 0 \<le> s \<and> s \<le> 15"
proof (induction raw arbitrary: m)
  case Nil
  then show ?case by simp
next
  case (Cons kv raw)
  have "\<forall>k s. score_step trunc kv m k = Some s \<longrightarrow> 0 \<le> s \<and> s \<le> 15"
    using Cons.prems(1) clamp_score_bounds
    by (auto simp: score_step_def split: prod.splits json.splits if_splits)
  then show ?case using Cons.IH Cons.prems(2) by simp
qed

lemma ContextScores_bounds:
  assumes "ContextScores chat tmpl unmarshal trunc teas w day = Ret (Inr m)" and "m k = Some s"
  shows "0 \<le> s \<and> s \<le> 15"
proof -
  obtain raw where "m = fold (score_step trunc) raw Map.empty"
    using assms(1) by (auto simp: ContextScores_def split: sum.splits call.splits)
  with assms(2) fold_score_step [of Map.empty trunc raw k s] show ?thesis by simp
qed

section \<open>Descriptions\<close>

text \<open>
  The cache is library code: \<open>cache_get\<close> and \<open>cache_set\<close> act on its state \<open>'c\<close>.
  \<open>NotFound\<close> is the one error the generator tells apart.
\<close>

record 'c description_cache =
  dc_Get :: "string \<Rightarrow> ('c, string) act"
  dc_Set :: "string \<Rightarrow> string \<Rightarrow> ('c, unit) act"
  dc_NotFound :: "gerr \<Rightarrow> bool"

definition requestTemplate :: "(string \<Rightarrow> string) \<Rightarrow> string \<Rightarrow> string" where
  "requestTemplate fmt name = fmt name"

definition GenerateDescription :: "chat_client \<Rightarrow> (string \<Rightarrow> string) \<Rightarrow> string \<Rightarrow> string call" where
  "GenerateDescription chat fmt productName =
     (case chat GPT5 (requestTemplate fmt productName) of
        Inl e \<Rightarrow> Ret (Inl e)
      | Inr choices \<Rightarrow> first_choice choices)"

text \<open>
  \<open>generateDescription\<close> runs in its own goroutine: it gives the message it sends before it
  closes the channel, or \<open>None\<close> where it panics. On an error the result is the empty string.
\<close>

definition generateDescription ::
    "chat_client \<Rightarrow> (string \<Rightarrow> string) \<Rightarrow> 'c description_cache \<Rightarrow> string \<Rightarrow> 'c \<Rightarrow> string option \<times> 'c" where
  "generateDescription chat fmt dc name s =
     (case GenerateDescription chat fmt name of
        Panic \<Rightarrow> (None, s)
      | Ret r \<Rightarrow>
          let res = (case r of Inl _ \<Rightarrow> '''' | Inr t \<Rightarrow> t)
          in (Some res, snd (dc_Set dc name res s)))"

datatype description_start = Answered string | Started | CacheError gerr

definition StartGenerateDescription ::
    "'c description_cache \<Rightarrow> string \<Rightarrow> 'c \<Rightarrow> description_start \<times> 'c" where
  "StartGenerateDescription dc name s =
     (case dc_Get dc name s of
        (Inl e, s') \<Rightarrow> (if dc_NotFound dc e then (Started, s') else (CacheError e, s'))
      | (Inr res, s') \<Rightarrow> (Answered res, s'))"

text \<open>A subscription with the goroutine it may start, run to its end: what the client reads.\<close>

definition description_request ::
    "chat_client \<Rightarrow> (string \<Rightarrow> string) \<Rightarrow> 'c description_cache \<Rightarrow> string \<Rightarrow> 'c \<Rightarrow> (gerr + string option) \<times> 'c" where
  "description_request chat fmt dc name s =
     (case StartGenerateDescription dc name s of
        (Answered res, s') \<Rightarrow> (Inr (Some res), s')
      | (CacheError e, s') \<Rightarrow> (Inl e, s')
      | (Started, s') \<Rightarrow> (case generateDescription chat fmt dc name s' of (m, s2) \<Rightarrow> (Inr m, s2)))"

text \<open>
  A cache that keeps what it is given: a \<open>Get\<close> answers the last value \<open>Set\<close> for the name,
  and changes nothing.
\<close>

definition cache_keeps :: "'c description_cache \<Rightarrow> bool" where
  "cache_keeps dc \<longleftrightarrow> (\<forall>name v s. dc_Get dc name (snd (dc_Set dc name v s)) = (Inr v, snd (dc_Set dc name v s)))"

text \<open>
  When the model fails once for a name that is not cached, the client is sent an empty
  description without an error, and every later request for the name is answered with the
  empty description, without asking the model again, as long as the cache keeps it.
\<close>

theorem failed_description_is_kept:
  assumes "cache_keeps dc" and "dc_Get dc name s = (Inl miss, s1)" and "dc_NotFound dc miss"
    and "chat GPT5 (requestTemplate fmt name) = Inl e"
  shows "\<exists>s2. description_request chat fmt dc name s = (Inr (Some ''''), s2) \<and>
    description_request chat' fmt dc name s2 = (Inr (Some ''''), s2)"
proof -
  let ?s2 = "snd (dc_Set dc name '''' s1)"
  have "description_request chat fmt dc name s = (Inr (Some ''''), ?s2)"
    using assms(2-4)
    by (simp add: description_request_def StartGenerateDescription_def generateDescription_def
        GenerateDescription_def Let_def)
  moreover have "dc_Get dc name ?s2 = (Inr '''', ?s2)" using assms(1) unfolding cache_keeps_def by blast
  then have "description_request chat' fmt dc name ?s2 = (Inr (Some ''''), ?s2)"
    by (simp add: description_request_def StartGenerateDescription_def)
  ultimately show ?thesis by blast
qed

definition map_cache :: "(string \<rightharpoonup> string) description_cache" where
  "map_cache =
     \<lparr>dc_Get = (\<lambda>k m. (case m k of None \<Rightarrow> Inl (ExtErr ''not found'') | Some v \<Rightarrow> Inr v, m)),
      dc_Set = (\<lambda>k v m. (Inr (), m(k \<mapsto> v))), dc_NotFound = (\<lambda>e. e = ExtErr ''not found'')\<rparr>"

theorem failed_description_is_kept_witness:
  "\<exists>s2. description_request (\<lambda>_ _. Inl (ExtErr ''down'')) (\<lambda>n. n) map_cache ''oolong'' Map.empty =
      (Inr (Some ''''), s2) \<and>
    description_request (\<lambda>_ _. Inr [''dark'']) (\<lambda>n. n) map_cache ''oolong'' s2 = (Inr (Some ''''), s2)"
  by (rule failed_description_is_kept [where miss = "ExtErr ''not found''" and ?s1.0 = Map.empty
        and e = "ExtErr ''down''"])
    (simp_all add: cache_keeps_def map_cache_def)

end
