(* ===== verification/Resolvers.thy ===== *)
theory Resolvers
  imports Qr_Notification Consumption Authentication Tod_Cache Expiration Ai_Services
begin

text \<open>
  The GraphQL resolvers (\<open>pkg/api/v2/graphql/schema.resolvers.go\<close>, \<open>errors.go\<close>,
  \<open>resolver.go\<close>) over the managers and the Postgres adapter, but for the tea of the day,
  which has its own theory. The lemmas show which errors carry a code for the client; what the
  mutations keep is shown in \<open>Resolver_Laws\<close>.
\<close>

section \<open>State and answers\<close>

text \<open>
  What the process holds: the database, the two managers with their channels, the cache of the
  tea of the day, the pushes requested, and the cache of descriptions. The managers' own copy
  of the store is replaced by the database before each call and read back after it.
\<close>

record 'c app =
  ap_db :: pgdb
  ap_teas :: "pgdb tea_manager"
  ap_tags :: "pgdb tag_manager"
  ap_cache :: teaOfTheDayCache
  ap_pushes :: "push list"
  ap_descr :: 'c

text \<open>The parts a resolver is built of, and what the outside answers during a request.\<close>

record ('f, 'c) server =
  sv_pg :: pg_env
  sv_libs :: libraries
  sv_auth :: auth
  sv_alert :: alert_env
  sv_show_id :: "uuid \<Rightarrow> string"
  sv_prompt :: "'f Template \<Rightarrow> gerr + string"
  sv_contextTmpl :: "string list \<Rightarrow> 'f Weather \<Rightarrow> string \<Rightarrow> gerr + string"
  sv_unmarshal :: "string \<Rightarrow> gerr + (string \<times> 'f json) list"
  sv_trunc :: "'f \<Rightarrow> int"
  sv_time_of_day :: "time \<Rightarrow> string"
  sv_weekday :: "time \<Rightarrow> string"
  sv_fmt_name :: "string \<Rightarrow> string"
  sv_descr :: "'c description_cache"
  sv_consumption :: PGStore
  sv_offset :: duration

record 'f world =
  wd_now :: time
  wd_weather :: "gerr + 'f Weather"
  wd_chat :: chat_client
  wd_stream :: "string \<Rightarrow> string \<Rightarrow> gerr + (gerr + string list) list"

text \<open>
  An error for the client with the code of its extensions, or one that was not converted. A
  call that waits for room in a manager's channel has not answered yet: \<open>Held\<close>.
\<close>

datatype gql_code = CodeText string | CodeInt nat

datatype gql_error = GQLError gerr "gql_code option" | PlainError gerr

datatype 'a reply = Reply "gql_error + 'a" | Held | Panicked

type_synonym ('c, 'a) resolver = "'c app \<Rightarrow> 'a reply \<times> 'c app"

section \<open>Errors\<close>

text \<open>
  \<open>errorsMap\<close> is indexed by the error value itself: a wrapped error is another value. The
  codes are the positions in the list of constants.
\<close>

definition errorsMap :: "gerr \<Rightarrow> nat option" where
  "errorsMap =
     [Sentinel ErrQRRecordNotExist \<mapsto> 0, Sentinel ErrExpiredToken \<mapsto> 1, Sentinel ErrInvalidToken \<mapsto> 2,
      Sentinel ErrUserNotFound \<mapsto> 3, Sentinel ErrCollectionNotFound \<mapsto> 4, Sentinel ErrDeviceNotFound \<mapsto> 5]"

definition castGQLError :: "gerr \<Rightarrow> gql_error" where
  "castGQLError e = GQLError e
     (if errors_Is e ErrUnauthorized then Some (CodeText ''UNAUTHENTICATED'')
      else if errors_Is e ErrNotAdmin then Some (CodeText ''FORBIDDEN'')
      else map_option CodeInt (errorsMap e))"

lemma errorsMap_wrapped [simp]: "errorsMap (Wrap m e) = None"
  by (simp add: errorsMap_def)

lemma castGQLError_simps [simp]:
  "castGQLError (Sentinel ErrUnauthorized) = GQLError (Sentinel ErrUnauthorized) (Some (CodeText ''UNAUTHENTICATED''))"
  "castGQLError (Sentinel ErrUserNotFound) = GQLError (Sentinel ErrUserNotFound) (Some (CodeInt 3))"
  "castGQLError (Sentinel ErrQRRecordNotExist) = GQLError (Sentinel ErrQRRecordNotExist) (Some (CodeInt 0))"
  by (simp_all add: castGQLError_def errorsMap_def)

section \<open>Composition\<close>

definition okR :: "'a \<Rightarrow> ('c, 'a) resolver" where
  "okR x a = (Reply (Inr x), a)"

definition failR :: "gql_error \<Rightarrow> ('c, 'a) resolver" where
  "failR e a = (Reply (Inl e), a)"

definition bindR :: "('c, 'a) resolver \<Rightarrow> ('a \<Rightarrow> ('c, 'b) resolver) \<Rightarrow> ('c, 'b) resolver" where
  "bindR m f a =
     (case m a of
        (Reply (Inr x), a') \<Rightarrow> f x a'
      | (Reply (Inl e), a') \<Rightarrow> (Reply (Inl e), a')
      | (Held, a') \<Rightarrow> (Held, a')
      | (Panicked, a') \<Rightarrow> (Panicked, a'))"

definition checkR :: "gerr + 'a \<Rightarrow> ('c, 'a) resolver" where
  "checkR r a = (case r of Inl e \<Rightarrow> (Reply (Inl (castGQLError e)), a) | Inr x \<Rightarrow> (Reply (Inr x), a))"

definition callR :: "'a call \<Rightarrow> ('c, 'a) resolver" where
  "callR r a = (case r of Panic \<Rightarrow> (Panicked, a) | Ret r \<Rightarrow> checkR r a)"

text \<open>A call of the adapter, its error converted by \<open>f\<close>; of the tea manager; of the tag manager.\<close>

definition db_call :: "(gerr \<Rightarrow> gql_error) \<Rightarrow> 'a query \<Rightarrow> ('c, 'a) resolver" where
  "db_call f m a =
     (case m (ap_db a) of
        (Inl e, d) \<Rightarrow> (Reply (Inl (f e)), a\<lparr>ap_db := d\<rparr>)
      | (Inr x, d) \<Rightarrow> (Reply (Inr x), a\<lparr>ap_db := d\<rparr>))"

definition outcome_reply :: "(gerr + 'a) outcome \<Rightarrow> 'a reply" where
  "outcome_reply o1 =
     (case o1 of
        Returned (Inl e) \<Rightarrow> Reply (Inl (castGQLError e))
      | Returned (Inr x) \<Rightarrow> Reply (Inr x)
      | Waiting _ \<Rightarrow> Held)"

definition on_teas ::
    "(pgdb tea_manager \<Rightarrow> (gerr + 'a) outcome \<times> pgdb tea_manager) \<Rightarrow> ('c, 'a) resolver" where
  "on_teas m a =
     (case m ((ap_teas a)\<lparr>tm_store := ap_db a\<rparr>) of
        (r, tm) \<Rightarrow> (outcome_reply r, a\<lparr>ap_teas := tm, ap_db := tm_store tm\<rparr>))"

definition on_tags :: "(pgdb, 'a) tag_method \<Rightarrow> ('c, 'a) resolver" where
  "on_tags m a =
     (case m ((ap_tags a)\<lparr>gm_store := ap_db a\<rparr>) of
        (r, _, gm) \<Rightarrow> (outcome_reply r, a\<lparr>ap_tags := gm, ap_db := gm_store gm\<rparr>))"

text \<open>Reads of the two managers answer at once.\<close>

definition tea_read ::
    "(pgdb tea_manager \<Rightarrow> (gerr + 'a) \<times> pgdb tea_manager) \<Rightarrow> ('c, 'a) resolver" where
  "tea_read m = on_teas (\<lambda>tm. case m tm of (r, tm') \<Rightarrow> (Returned r, tm'))"

definition tags_read ::
    "(pgdb tag_manager \<Rightarrow> (gerr + 'a) \<times> pgdb tag_manager) \<Rightarrow> ('c, 'a) resolver" where
  "tags_read m = on_tags (\<lambda>gm. case m gm of (r, gm') \<Rightarrow> (Returned r, [], gm'))"

text \<open>The guards at the top of the resolvers.\<close>

definition as_admin :: "request_ctx \<Rightarrow> ('c, 'a) resolver \<Rightarrow> ('c, 'a) resolver" where
  "as_admin ctx m = bindR (checkR (RequireAdmin ctx)) (\<lambda>_. m)"

definition as_user :: "request_ctx \<Rightarrow> (AuthUser \<Rightarrow> ('c, 'a) resolver) \<Rightarrow> ('c, 'a) resolver" where
  "as_user ctx m = bindR (checkR (GetUser ctx)) m"

abbreviation sv_teas :: "('f, 'c) server \<Rightarrow> pgdb tea_storage" where
  "sv_teas sv \<equiv> pg_tea_storage (sv_pg sv)"

abbreviation sv_tags :: "('f, 'c) server \<Rightarrow> pgdb tag_storage" where
  "sv_tags sv \<equiv> pg_tag_storage (sv_pg sv)"

abbreviation sv_colls :: "('f, 'c) server \<Rightarrow> pgdb collection_storage" where
  "sv_colls sv \<equiv> pg_collection_storage (sv_pg sv)"

abbreviation sv_qrs :: "('f, 'c) server \<Rightarrow> pgdb qr_storage" where
  "sv_qrs sv \<equiv> pg_qr_storage (sv_pg sv)"

abbreviation sv_devices :: "('f, 'c) server \<Rightarrow> pgdb device_repository" where
  "sv_devices sv \<equiv> pg_device_repository (sv_show_id sv) (sv_pg sv)"

section \<open>Mutations\<close>

record GSession =
  gses_Token :: string
  gses_ExpiredAt :: time

definition r_AuthApple :: "('f, 'c) server \<Rightarrow> signin \<Rightarrow> uuid \<Rightarrow> ('c, GSession) resolver" where
  "r_AuthApple sv i deviceID =
     bindR (db_call (\<lambda>e. GQLError e None) (Auth (sv_libs sv) (pg_user_storage (sv_pg sv)) (sv_auth sv) i)) (\<lambda>session.
     (case ses_User session of
        None \<Rightarrow> (\<lambda>a. (Panicked, a))
      | Some user \<Rightarrow>
          bindR (db_call PlainError (BindDevice (sv_devices sv) (user_ID user) deviceID)) (\<lambda>_.
          okR \<lparr>gses_Token = ses_JWT session, gses_ExpiredAt = ses_ExpiredAt session\<rparr>)))"

definition r_NewTea :: "('f, 'c) server \<Rightarrow> request_ctx \<Rightarrow> uuid \<Rightarrow> GTeaData \<Rightarrow> ('c, GTea) resolver" where
  "r_NewTea sv ctx fresh tea = as_admin ctx
     (bindR (on_teas (tea_Create (sv_teas sv) fresh (ToCommonTeaData tea))) (\<lambda>res. okR (FromCommonTea res)))"

definition r_UpdateTea :: "('f, 'c) server \<Rightarrow> request_ctx \<Rightarrow> uuid \<Rightarrow> GTeaData \<Rightarrow> ('c, GTea) resolver" where
  "r_UpdateTea sv ctx i tea = as_admin ctx
     (bindR (on_teas (tea_Update (sv_teas sv) i (ToCommonTeaData tea))) (\<lambda>res. okR (FromCommonTea res)))"

definition r_AddTagToTea :: "('f, 'c) server \<Rightarrow> request_ctx \<Rightarrow> uuid \<Rightarrow> uuid \<Rightarrow> ('c, GTea) resolver" where
  "r_AddTagToTea sv ctx teaID tagID = as_admin ctx
     (bindR (on_tags (tag_AddTagToTea (sv_tags sv) teaID tagID)) (\<lambda>_.
      bindR (tea_read (tea_Get (sv_teas sv) teaID)) (\<lambda>t. okR (FromCommonTea t))))"

definition r_DeleteTagFromTea :: "('f, 'c) server \<Rightarrow> request_ctx \<Rightarrow> uuid \<Rightarrow> uuid \<Rightarrow> ('c, GTea) resolver" where
  "r_DeleteTagFromTea sv ctx teaID tagID = as_admin ctx
     (bindR (on_tags (tag_DeleteTagFromTea (sv_tags sv) teaID tagID)) (\<lambda>_.
      bindR (tea_read (tea_Get (sv_teas sv) teaID)) (\<lambda>t. okR (FromCommonTea t))))"

definition r_DeleteTea :: "('f, 'c) server \<Rightarrow> request_ctx \<Rightarrow> uuid \<Rightarrow> ('c, uuid) resolver" where
  "r_DeleteTea sv ctx i = as_admin ctx
     (bindR (on_teas (tea_Delete (sv_teas sv) i)) (\<lambda>_. okR i))"

definition r_WriteToQR :: "('f, 'c) server \<Rightarrow> uuid \<Rightarrow> QRRecordData \<Rightarrow> ('c, QRRecord) resolver" where
  "r_WriteToQR sv i data =
     bindR (db_call castGQLError (qr_Set (sv_qrs sv) i data)) (\<lambda>_.
     bindR (tea_read (tea_Get (sv_teas sv) (qrd_Tea data))) (\<lambda>tea.
     okR \<lparr>qrr_ID = i,
          qrr_Tea = Some \<lparr>gtea_ID = tea_ID tea, gtea_Name = td_Name (tea_Data tea),
            gtea_Type = FromBeverageType (td_Type (tea_Data tea)),
            gtea_Description = td_Description (tea_Data tea)\<rparr>,
          qrr_BowlingTemp = qrd_BowlingTemp data, qrr_ExpirationDate = qrd_ExpirationDate data\<rparr>))"

definition r_CreateTagCategory ::
    "('f, 'c) server \<Rightarrow> request_ctx \<Rightarrow> uuid \<Rightarrow> string \<Rightarrow> ('c, GTagCategory) resolver" where
  "r_CreateTagCategory sv ctx fresh name = as_admin ctx
     (bindR (on_tags (tag_CreateCategory (sv_tags sv) fresh name)) (\<lambda>c.
      okR \<lparr>gcat_ID = cat_ID c, gcat_Name = cat_Name c\<rparr>))"

definition r_UpdateTagCategory ::
    "('f, 'c) server \<Rightarrow> request_ctx \<Rightarrow> uuid \<Rightarrow> string \<Rightarrow> ('c, GTagCategory) resolver" where
  "r_UpdateTagCategory sv ctx i name = as_admin ctx
     (bindR (on_tags (tag_UpdateCategory (sv_tags sv) i name)) (\<lambda>c.
      okR \<lparr>gcat_ID = cat_ID c, gcat_Name = cat_Name c\<rparr>))"

definition r_DeleteTagCategory :: "('f, 'c) server \<Rightarrow> request_ctx \<Rightarrow> uuid \<Rightarrow> ('c, uuid) resolver" where
  "r_DeleteTagCategory sv ctx i = as_admin ctx
     (bindR (on_tags (tag_DeleteCategory (sv_tags sv) i)) (\<lambda>_. okR i))"

definition plain_tag :: "Tag \<Rightarrow> GTag" where
  "plain_tag t = \<lparr>gtag_ID = tag_ID t, gtag_Name = tag_Name (tag_Data t), gtag_Color = tag_Color (tag_Data t),
     gtag_Category = None\<rparr>"

definition r_CreateTag ::
    "('f, 'c) server \<Rightarrow> request_ctx \<Rightarrow> uuid \<Rightarrow> string \<Rightarrow> string \<Rightarrow> uuid \<Rightarrow> ('c, GTag) resolver" where
  "r_CreateTag sv ctx fresh name color category = as_admin ctx
     (bindR (on_tags (tag_Create (sv_tags sv) fresh name color category)) (\<lambda>t. okR (plain_tag t)))"

definition r_UpdateTag ::
    "('f, 'c) server \<Rightarrow> request_ctx \<Rightarrow> uuid \<Rightarrow> string \<Rightarrow> string \<Rightarrow> ('c, GTag) resolver" where
  "r_UpdateTag sv ctx i name color = as_admin ctx
     (bindR (on_tags (tag_Update (sv_tags sv) i name color)) (\<lambda>t. okR (plain_tag t)))"

definition r_ChangeTagCategory :: "('f, 'c) server \<Rightarrow> request_ctx \<Rightarrow> uuid \<Rightarrow> uuid \<Rightarrow> ('c, GTag) resolver" where
  "r_ChangeTagCategory sv ctx i category = as_admin ctx
     (bindR (on_tags (tag_ChangeCategory (sv_tags sv) i category)) (\<lambda>t. okR (plain_tag t)))"

definition r_DeleteTag :: "('f, 'c) server \<Rightarrow> request_ctx \<Rightarrow> uuid \<Rightarrow> ('c, uuid) resolver" where
  "r_DeleteTag sv ctx i = as_admin ctx
     (bindR (on_tags (tag_Delete (sv_tags sv) i)) (\<lambda>_. okR i))"

definition r_CreateCollection :: "('f, 'c) server \<Rightarrow> request_ctx \<Rightarrow> uuid \<Rightarrow> string \<Rightarrow> ('c, GCollection) resolver" where
  "r_CreateCollection sv ctx fresh name = as_user ctx (\<lambda>user.
     db_call castGQLError (coll_Create (sv_colls sv) fresh (user_ID user) name))"

definition r_AddRecordsToCollection ::
    "('f, 'c) server \<Rightarrow> request_ctx \<Rightarrow> uuid \<Rightarrow> uuid list \<Rightarrow> ('c, GCollection) resolver" where
  "r_AddRecordsToCollection sv ctx i records = as_user ctx (\<lambda>user.
     db_call castGQLError (coll_AddRecords (sv_colls sv) (user_ID user) i records))"

definition r_DeleteRecordsFromCollection ::
    "('f, 'c) server \<Rightarrow> request_ctx \<Rightarrow> uuid \<Rightarrow> uuid list \<Rightarrow> ('c, GCollection) resolver" where
  "r_DeleteRecordsFromCollection sv ctx i records = as_user ctx (\<lambda>user.
     db_call castGQLError (coll_DeleteRecords (sv_colls sv) (user_ID user) i records))"

definition r_DeleteCollection :: "('f, 'c) server \<Rightarrow> request_ctx \<Rightarrow> uuid \<Rightarrow> ('c, uuid) resolver" where
  "r_DeleteCollection sv ctx i = as_user ctx (\<lambda>user.
     bindR (db_call castGQLError (coll_Delete (sv_colls sv) (user_ID user) i)) (\<lambda>_. okR i))"

definition r_RegisterDeviceToken :: "('f, 'c) server \<Rightarrow> uuid \<Rightarrow> string \<Rightarrow> ('c, bool) resolver" where
  "r_RegisterDeviceToken sv deviceID deviceToken =
     bindR (db_call castGQLError (RegisterDeviceToken (sv_devices sv) deviceID deviceToken)) (\<lambda>_. okR True)"

text \<open>
  \<open>send\<close> runs the alerter for all users, once there is some user in the context. The readings
  of the clock in the run are \<open>now\<close> and the times that pass (\<open>ae_now\<close> of the server's alerter);
  they are numbered on from the statements executed so far.
\<close>

definition run_alerter :: "('f, 'c) server \<Rightarrow> time \<Rightarrow> ('c, unit) resolver" where
  "run_alerter sv now a =
     (case Run ((sv_alert sv)\<lparr>ae_now := (\<lambda>n. now + ae_now (sv_alert sv) n)\<rparr>) (pg_alert_storage (sv_pg sv))
             \<lparr>al_store = ap_db a, al_pushes = ap_pushes a, al_clock = db_stmts (ap_db a)\<rparr> of
        (r, st) \<Rightarrow> checkR r (a\<lparr>ap_db := al_store st, ap_pushes := al_pushes st\<rparr>))"

definition r_Send :: "('f, 'c) server \<Rightarrow> request_ctx \<Rightarrow> time \<Rightarrow> ('c, bool) resolver" where
  "r_Send sv ctx now = as_user ctx (\<lambda>_. bindR (run_alerter sv now) (\<lambda>_. okR True))"

text \<open>The records of a collection as common teas; a record without a tea would be a nil pointer.\<close>

fun common_teas :: "QRRecord list \<Rightarrow> Tea list option" where
  "common_teas [] = Some []"
| "common_teas (rec # recs) =
     (case qrr_Tea rec of
        None \<Rightarrow> None
      | Some t \<Rightarrow> map_option (Cons (ToCommonTea t)) (common_teas recs))"

definition own_teas :: "('f, 'c) server \<Rightarrow> AuthUser \<Rightarrow> uuid \<Rightarrow> ('c, Tea list) resolver" where
  "own_teas sv user collectionID =
     bindR (db_call castGQLError (coll_ListRecords (sv_colls sv) collectionID (user_ID user))) (\<lambda>records.
     if records = [] then failR (PlainError (Sentinel ErrNoTeas))
     else (case common_teas records of None \<Rightarrow> (\<lambda>a. (Panicked, a)) | Some teas \<Rightarrow> okR teas))"

definition r_TeaRecommendation ::
    "('f, 'c) server \<Rightarrow> request_ctx \<Rightarrow> 'f world \<Rightarrow> uuid \<Rightarrow> string \<Rightarrow> ('c, string) resolver" where
  "r_TeaRecommendation sv ctx wd collectionID feelings = as_user ctx (\<lambda>user.
     bindR (checkR (wd_weather wd)) (\<lambda>wth.
     bindR (own_teas sv user collectionID) (\<lambda>teas.
     callR (RecommendTea (wd_chat wd) (sv_prompt sv) (sv_time_of_day sv) (wd_now wd) teas wth feelings))))"

section \<open>Queries and fields\<close>

definition r_Me :: "request_ctx \<Rightarrow> ('c, time) resolver" where
  "r_Me ctx = as_user ctx (\<lambda>user. okR (ses_ExpiredAt (usr_Session user)))"

definition r_Teas :: "('f, 'c) server \<Rightarrow> string option \<Rightarrow> ('c, GTea list) resolver" where
  "r_Teas sv pfx = bindR (tea_read (tea_List (sv_teas sv) pfx)) (\<lambda>res. okR (map FromCommonTea res))"

definition r_Tea :: "('f, 'c) server \<Rightarrow> uuid \<Rightarrow> ('c, GTea) resolver" where
  "r_Tea sv i = bindR (tea_read (tea_Get (sv_teas sv) i)) (\<lambda>res. okR (FromCommonTea res))"

definition r_GenerateDescription :: "('f, 'c) server \<Rightarrow> 'f world \<Rightarrow> string \<Rightarrow> ('c, string) resolver" where
  "r_GenerateDescription sv wd name = callR (GenerateDescription (wd_chat wd) (sv_fmt_name sv) name)"

definition r_QRRecord :: "('f, 'c) server \<Rightarrow> uuid \<Rightarrow> ('c, QRRecord) resolver" where
  "r_QRRecord sv i =
     bindR (db_call castGQLError (qr_Get (sv_qrs sv) i)) (\<lambda>qr.
     bindR (tea_read (tea_Get (sv_teas sv) (qrd_Tea qr))) (\<lambda>res.
     okR \<lparr>qrr_ID = i, qrr_Tea = Some (FromCommonTea res), qrr_BowlingTemp = qrd_BowlingTemp qr,
          qrr_ExpirationDate = qrd_ExpirationDate qr\<rparr>))"

text \<open>A tag with its category by identifier only: the name is filled in by \<open>r_Tag_Category\<close>.\<close>

definition tag_with_id :: "Tag \<Rightarrow> GTag" where
  "tag_with_id t = (plain_tag t)\<lparr>gtag_Category :=
     Some \<lparr>gcat_ID = tag_CategoryID (tag_Data t), gcat_Name = ''''\<rparr>\<rparr>"

definition r_Tag :: "('f, 'c) server \<Rightarrow> uuid \<Rightarrow> ('c, GTag) resolver" where
  "r_Tag sv i = bindR (tags_read (tag_Get (sv_tags sv) i)) (\<lambda>t. okR (tag_with_id t))"

definition r_TagsCategories :: "('f, 'c) server \<Rightarrow> string option \<Rightarrow> ('c, GTagCategory list) resolver" where
  "r_TagsCategories sv name =
     bindR (tags_read (tag_ListCategory (sv_tags sv) name)) (\<lambda>categories. okR (map graph_category categories))"

definition r_Collections :: "('f, 'c) server \<Rightarrow> request_ctx \<Rightarrow> ('c, GCollection list) resolver" where
  "r_Collections sv ctx = as_user ctx (\<lambda>user. db_call castGQLError (coll_List (sv_colls sv) (user_ID user)))"

definition r_Collection_Records :: "('f, 'c) server \<Rightarrow> GCollection \<Rightarrow> ('c, QRRecord list) resolver" where
  "r_Collection_Records sv obj = db_call PlainError (coll_ListRecords (sv_colls sv) (gcol_ID obj) (gcol_UserID obj))"

definition r_Tag_Category :: "('f, 'c) server \<Rightarrow> GTag \<Rightarrow> ('c, GTagCategory option) resolver" where
  "r_Tag_Category sv obj =
     (case gtag_Category obj of
        None \<Rightarrow> okR None
      | Some c \<Rightarrow>
          if gcat_Name c \<noteq> '''' then okR (Some c)
          else bindR (tags_read (tag_GetCategory (sv_tags sv) (gcat_ID c))) (\<lambda>cat. okR (Some (graph_category cat))))"

definition r_TagCategory_Tags ::
    "('f, 'c) server \<Rightarrow> GTagCategory option \<Rightarrow> string option \<Rightarrow> ('c, GTag list) resolver" where
  "r_TagCategory_Tags sv obj name =
     (let cat = (case obj of None \<Rightarrow> uuid_Nil | Some c \<Rightarrow> gcat_ID c)
      in bindR (tags_read (tag_List (sv_tags sv) name (Some cat))) (\<lambda>tags.
         if tags = [] then okR []
         else
           bindR (tags_read (tag_ListCategory (sv_tags sv) None)) (\<lambda>categories.
           let catMap = fold (\<lambda>c m. m(cat_ID c \<mapsto> graph_category c)) categories Map.empty
           in okR (map (\<lambda>t. (plain_tag t)\<lparr>gtag_Category := catMap (tag_CategoryID (tag_Data t))\<rparr>) tags))))"

definition r_Tea_Tags :: "('f, 'c) server \<Rightarrow> GTea \<Rightarrow> ('c, GTag list) resolver" where
  "r_Tea_Tags sv obj =
     bindR (tags_read (tag_ListByTea (sv_tags sv) (gtea_ID obj))) (\<lambda>tags. okR (map tag_with_id tags))"

text \<open>
  The collections of a user object are those of the user of the request; the error of the query
  is converted a second time, which keeps it as an error without a code.
\<close>

definition recast :: "gql_error \<Rightarrow> gql_error" where
  "recast e = (case e of GQLError g _ \<Rightarrow> GQLError (Wrap ''input:'' g) None | PlainError g \<Rightarrow> castGQLError g)"

definition r_User_Collections :: "('f, 'c) server \<Rightarrow> request_ctx \<Rightarrow> ('c, GCollection list) resolver" where
  "r_User_Collections sv ctx a =
     (case r_Collections sv ctx a of
        (Reply (Inl e), a') \<Rightarrow> (Reply (Inl (recast e)), a')
      | (r, a') \<Rightarrow> (r, a'))"

definition r_User_Notifications :: "('f, 'c) server \<Rightarrow> request_ctx \<Rightarrow> ('c, string list) resolver" where
  "r_User_Notifications sv ctx = as_user ctx (\<lambda>user.
     bindR (db_call castGQLError (dr_Notifications (sv_devices sv) (user_ID user))) (\<lambda>notifications.
     okR (map (\<lambda>n. NotificationType_FromCommon (notif_Type n)) notifications)))"

section \<open>Subscriptions\<close>

text \<open>
  The subscriptions to the managers answer the channel the manager registered; the managers
  never fail here. The subscriptions to the services answer what the channel delivers, or that
  a goroutine was started whose message is that of \<open>run_generation\<close>.
\<close>

definition sub_teas ::
    "(ctx_id \<Rightarrow> chan_id \<Rightarrow> pgdb tea_manager \<Rightarrow> pgdb tea_manager) \<Rightarrow> ctx_id \<Rightarrow> chan_id \<Rightarrow> ('c, chan_id) resolver" where
  "sub_teas f c ch a = (Reply (Inr ch), a\<lparr>ap_teas := f c ch (ap_teas a)\<rparr>)"

definition sub_tags ::
    "(ctx_id \<Rightarrow> chan_id \<Rightarrow> pgdb tag_manager \<Rightarrow> pgdb tag_manager) \<Rightarrow> ctx_id \<Rightarrow> chan_id \<Rightarrow> ('c, chan_id) resolver" where
  "sub_tags f c ch a = (Reply (Inr ch), a\<lparr>ap_tags := f c ch (ap_tags a)\<rparr>)"

definition r_OnCreateTea :: "ctx_id \<Rightarrow> chan_id \<Rightarrow> ('c, chan_id) resolver" where
  "r_OnCreateTea = sub_teas tea_SubscribeOnCreate"

definition r_OnUpdateTea :: "ctx_id \<Rightarrow> chan_id \<Rightarrow> ('c, chan_id) resolver" where
  "r_OnUpdateTea = sub_teas tea_SubscribeOnUpdate"

definition r_OnDeleteTea :: "ctx_id \<Rightarrow> chan_id \<Rightarrow> ('c, chan_id) resolver" where
  "r_OnDeleteTea = sub_teas tea_SubscribeOnDelete"

definition r_OnCreateTagCategory :: "ctx_id \<Rightarrow> chan_id \<Rightarrow> ('c, chan_id) resolver" where
  "r_OnCreateTagCategory = sub_tags tag_SubscribeOnCreateCategory"

definition r_OnUpdateTagCategory :: "ctx_id \<Rightarrow> chan_id \<Rightarrow> ('c, chan_id) resolver" where
  "r_OnUpdateTagCategory = sub_tags tag_SubscribeOnUpdateCategory"

definition r_OnDeleteTagCategory :: "ctx_id \<Rightarrow> chan_id \<Rightarrow> ('c, chan_id) resolver" where
  "r_OnDeleteTagCategory = sub_tags tag_SubscribeOnDeleteCategory"

definition r_OnCreateTag :: "ctx_id \<Rightarrow> chan_id \<Rightarrow> ('c, chan_id) resolver" where
  "r_OnCreateTag = sub_tags tag_SubscribeOnCreate"

definition r_OnUpdateTag :: "ctx_id \<Rightarrow> chan_id \<Rightarrow> ('c, chan_id) resolver" where
  "r_OnUpdateTag = sub_tags tag_SubscribeOnUpdate"

definition r_OnDeleteTag :: "ctx_id \<Rightarrow> chan_id \<Rightarrow> ('c, chan_id) resolver" where
  "r_OnDeleteTag = sub_tags tag_SubscribeOnDelete"

definition r_OnAddTagToTea :: "ctx_id \<Rightarrow> chan_id \<Rightarrow> ('c, chan_id) resolver" where
  "r_OnAddTagToTea = sub_tags tag_SubscribeOnAddTagToTea"

definition r_OnDeleteTagFromTea :: "ctx_id \<Rightarrow> chan_id \<Rightarrow> ('c, chan_id) resolver" where
  "r_OnDeleteTagFromTea = sub_tags tag_SubscribeOnDeleteTagToTea"

definition r_StartGenerateDescription :: "('f, 'c) server \<Rightarrow> string \<Rightarrow> ('c, string option) resolver" where
  "r_StartGenerateDescription sv name a =
     (case StartGenerateDescription (sv_descr sv) name (ap_descr a) of
        (CacheError e, s) \<Rightarrow> (Reply (Inl (castGQLError e)), a\<lparr>ap_descr := s\<rparr>)
      | (Answered res, s) \<Rightarrow> (Reply (Inr (Some res)), a\<lparr>ap_descr := s\<rparr>)
      | (Started, s) \<Rightarrow> (Reply (Inr None), a\<lparr>ap_descr := s\<rparr>))"

definition run_generation :: "('f, 'c) server \<Rightarrow> 'f world \<Rightarrow> string \<Rightarrow> 'c app \<Rightarrow> string option \<times> 'c app" where
  "run_generation sv wd name a =
     (case generateDescription (wd_chat wd) (sv_fmt_name sv) (sv_descr sv) name (ap_descr a) of
        (m, s) \<Rightarrow> (m, a\<lparr>ap_descr := s\<rparr>))"

definition r_RecommendTea ::
    "('f, 'c) server \<Rightarrow> request_ctx \<Rightarrow> 'f world \<Rightarrow> uuid \<Rightarrow> string \<Rightarrow> ('c, string list \<times> stream_end) resolver" where
  "r_RecommendTea sv ctx wd collectionID feelings = as_user ctx (\<lambda>user.
     bindR (checkR (wd_weather wd)) (\<lambda>wth.
     bindR (own_teas sv user collectionID) (\<lambda>teas.
     checkR (RecommendTeaStream (wd_stream wd) (sv_prompt sv) (sv_time_of_day sv) (wd_now wd) teas wth feelings))))"

section \<open>All mutations\<close>

text \<open>
  The mutations of the schema with their arguments and the identifiers drawn for them, run as
  one operation that answers the error, if any.
\<close>

datatype 'f mutation =
    MAuthApple signin uuid
  | MNewTea uuid GTeaData | MUpdateTea uuid GTeaData | MDeleteTea uuid
  | MAddTagToTea uuid uuid | MDeleteTagFromTea uuid uuid
  | MWriteToQR uuid QRRecordData
  | MCreateTagCategory uuid string | MUpdateTagCategory uuid string | MDeleteTagCategory uuid
  | MCreateTag uuid string string uuid | MUpdateTag uuid string string
  | MChangeTagCategory uuid uuid | MDeleteTag uuid
  | MCreateCollection uuid string | MAddRecords uuid "uuid list" | MDeleteRecords uuid "uuid list"
  | MDeleteCollection uuid
  | MRegisterDeviceToken uuid string
  | MSend time
  | MTeaRecommendation "'f world" uuid string

definition dropR :: "('c, 'a) resolver \<Rightarrow> ('c, unit) resolver" where
  "dropR m = bindR m (\<lambda>_. okR ())"

fun mutate :: "('f, 'c) server \<Rightarrow> request_ctx \<Rightarrow> 'f mutation \<Rightarrow> ('c, unit) resolver" where
  "mutate sv ctx (MAuthApple i dev) = dropR (r_AuthApple sv i dev)"
| "mutate sv ctx (MNewTea i tea) = dropR (r_NewTea sv ctx i tea)"
| "mutate sv ctx (MUpdateTea i tea) = dropR (r_UpdateTea sv ctx i tea)"
| "mutate sv ctx (MDeleteTea i) = dropR (r_DeleteTea sv ctx i)"
| "mutate sv ctx (MAddTagToTea tea tg) = dropR (r_AddTagToTea sv ctx tea tg)"
| "mutate sv ctx (MDeleteTagFromTea tea tg) = dropR (r_DeleteTagFromTea sv ctx tea tg)"
| "mutate sv ctx (MWriteToQR i data) = dropR (r_WriteToQR sv i data)"
| "mutate sv ctx (MCreateTagCategory i name) = dropR (r_CreateTagCategory sv ctx i name)"
| "mutate sv ctx (MUpdateTagCategory i name) = dropR (r_UpdateTagCategory sv ctx i name)"
| "mutate sv ctx (MDeleteTagCategory i) = dropR (r_DeleteTagCategory sv ctx i)"
| "mutate sv ctx (MCreateTag i name color cat) = dropR (r_CreateTag sv ctx i name color cat)"
| "mutate sv ctx (MUpdateTag i name color) = dropR (r_UpdateTag sv ctx i name color)"
| "mutate sv ctx (MChangeTagCategory i cat) = dropR (r_ChangeTagCategory sv ctx i cat)"
| "mutate sv ctx (MDeleteTag i) = dropR (r_DeleteTag sv ctx i)"
| "mutate sv ctx (MCreateCollection i name) = dropR (r_CreateCollection sv ctx i name)"
| "mutate sv ctx (MAddRecords i recs) = dropR (r_AddRecordsToCollection sv ctx i recs)"
| "mutate sv ctx (MDeleteRecords i recs) = dropR (r_DeleteRecordsFromCollection sv ctx i recs)"
| "mutate sv ctx (MDeleteCollection i) = dropR (r_DeleteCollection sv ctx i)"
| "mutate sv ctx (MRegisterDeviceToken dev token) = dropR (r_RegisterDeviceToken sv dev token)"
| "mutate sv ctx (MSend now) = dropR (r_Send sv ctx now)"
| "mutate sv ctx (MTeaRecommendation wd i feelings) = dropR (r_TeaRecommendation sv ctx wd i feelings)"

definition mutate_all :: "('f, 'c) server \<Rightarrow> (request_ctx \<times> 'f mutation) list \<Rightarrow> 'c app \<Rightarrow> 'c app" where
  "mutate_all sv ms a = fold (\<lambda>(ctx, m) a. snd (mutate sv ctx m a)) ms a"

end
