(* ===== verification/Resolver_Laws.thy ===== *)
theory Resolver_Laws
  imports Resolvers
begin

text \<open>
  What the mutations of the GraphQL API keep. A predicate on the process is followed through
  the combinators the resolvers are built of (\<open>keeps\<close>), so that a resolver needs only what
  the adapter's methods keep: \<open>unprivileged\<close> collects that for the requests that do not act
  as admin, \<open>privileged\<close> for all. They are interpreted three times: on the integrity of the
  database, on the catalogue of teas and tags, and on a collection of another user.
\<close>

section \<open>Following a predicate through a resolver\<close>

definition keeps :: "('c app \<Rightarrow> bool) \<Rightarrow> ('c, 'a) resolver \<Rightarrow> bool" where
  "keeps P m \<longleftrightarrow> (\<forall>a. P a \<longrightarrow> P (snd (m a)))"

named_theorems keeps_intros \<open>a resolver keeps a predicate\<close>

text \<open>
  The predicates followed: one of the database, and one of the announcements the managers
  hold for their subscribers.
\<close>

definition app_sat ::
    "(pgdb \<Rightarrow> bool) \<Rightarrow> (tea_event list \<Rightarrow> tag_event list \<Rightarrow> bool) \<Rightarrow> 'c app \<Rightarrow> bool" where
  "app_sat D Q a \<longleftrightarrow> D (ap_db a) \<and> Q (tea_queued (ap_teas a)) (tag_queued (ap_tags a))"

lemma keeps_same [keeps_intros]:
  "keeps P (okR x)" "keeps P (failR e)" "keeps P (checkR r)" "keeps P (callR c)" "keeps P (\<lambda>a. (Panicked, a))"
  by (simp_all add: keeps_def okR_def failR_def checkR_def callR_def split: sum.splits call.splits)

lemma keeps_bindR [keeps_intros]:
  assumes "keeps P m" and "\<And>x. keeps P (f x)"
  shows "keeps P (bindR m f)"
  unfolding keeps_def
proof (intro allI impI)
  fix a assume "P a"
  obtain r a' where m: "m a = (r, a')" by fastforce
  with assms(1) \<open>P a\<close> have "P a'" by (metis keeps_def snd_conv)
  with assms(2) m show "P (snd (bindR m f a))"
    by (auto simp: bindR_def keeps_def split: reply.splits sum.splits)
qed

lemma keeps_dropR [keeps_intros]: "keeps P m \<Longrightarrow> keeps P (dropR m)"
  unfolding dropR_def by (intro keeps_intros)

lemma keeps_as_user [keeps_intros]:
  "(\<And>user. ctx_user ctx = Some user \<Longrightarrow> keeps P (m user)) \<Longrightarrow> keeps P (as_user ctx m)"
  by (cases "ctx_user ctx")
    (simp_all add: keeps_def as_user_def bindR_def checkR_def GetUser_def)

lemma keeps_as_admin [keeps_intros]:
  "(ctx_admin ctx \<noteq> None \<Longrightarrow> keeps P m) \<Longrightarrow> keeps P (as_admin ctx m)"
  by (cases "ctx_admin ctx")
    (simp_all add: keeps_def as_admin_def bindR_def checkR_def RequireAdmin_def AdminPrincipalFrom_def)

lemma keeps_db_call [keeps_intros]:
  assumes "\<And>d. D d \<Longrightarrow> D (snd (m d))"
  shows "keeps (app_sat D Q) (db_call f m)"
  unfolding keeps_def
proof (intro allI impI)
  fix a assume a: "app_sat D Q a"
  obtain r d where m: "m (ap_db a) = (r, d)" by fastforce
  with assms a have "D d" by (metis app_sat_def snd_conv)
  with a m show "app_sat D Q (snd (db_call f m a))"
    by (cases r) (simp_all add: db_call_def app_sat_def)
qed

text \<open>The managers: an operation on the store, and what it announces.\<close>

lemma keeps_tea_read [keeps_intros]:
  assumes "\<And>d. D d \<Longrightarrow> D (snd (ts_ReadRecord st i d))"
  shows "keeps (app_sat D Q) (tea_read (tea_Get st i))"
  using assms
  by (auto simp: keeps_def tea_read_def on_teas_def tea_Get_def app_sat_def split: prod.splits)
    (metis snd_conv)

lemma keeps_on_teas [keeps_intros]:
  assumes "\<And>tm. D (tm_store tm) \<Longrightarrow> D (tm_store (snd (m tm)))"
  shows "keeps (app_sat D (\<lambda>_ _. True)) (on_teas m)"
  unfolding keeps_def
proof (intro allI impI)
  fix a :: "'c app" assume a: "app_sat D (\<lambda>_ _. True) a"
  obtain r tm where m: "m ((ap_teas a)\<lparr>tm_store := ap_db a\<rparr>) = (r, tm)" by fastforce
  have "D (tm_store ((ap_teas a)\<lparr>tm_store := ap_db a\<rparr>))" using a by (simp add: app_sat_def)
  from assms [OF this] m show "app_sat D (\<lambda>_ _. True) (snd (on_teas m a))"
    by (simp add: on_teas_def app_sat_def)
qed

lemma keeps_on_tags [keeps_intros]:
  assumes "\<And>gm. D (gm_store gm) \<Longrightarrow> D (gm_store (snd (snd (m gm))))"
  shows "keeps (app_sat D (\<lambda>_ _. True)) (on_tags m)"
  unfolding keeps_def
proof (intro allI impI)
  fix a :: "'c app" assume a: "app_sat D (\<lambda>_ _. True) a"
  obtain r evs gm where m: "m ((ap_tags a)\<lparr>gm_store := ap_db a\<rparr>) = (r, evs, gm)"
    by (metis prod_cases3)
  have "D (gm_store ((ap_tags a)\<lparr>gm_store := ap_db a\<rparr>))" using a by (simp add: app_sat_def)
  from assms [OF this] m show "app_sat D (\<lambda>_ _. True) (snd (on_tags m a))"
    by (simp add: on_tags_def app_sat_def)
qed

lemma tag_sends_store: "gm_store (snd (snd (tag_sends r evs m))) = gm_store m"
  by (induction r evs m rule: tag_sends.induct) simp_all

lemma tag_op_store: "gm_store (snd (snd (tag_op act evs res m))) = snd (act (gm_store m))"
  by (simp add: tag_op_def tag_sends_store split: prod.splits sum.splits)

lemma tea_ops_store:
  "tm_store (snd (tea_Create st fresh data m)) = snd (ts_WriteRecord st fresh data (tm_store m))"
  "tm_store (snd (tea_Update st i data m)) = snd (ts_Update st i data (tm_store m))"
  "tm_store (snd (tea_Delete st i m)) = snd (ts_Delete st i (tm_store m))"
  by (simp_all add: tea_Create_def tea_Update_def tea_Delete_def split: prod.splits sum.splits)

lemma keeps_all:
  assumes "\<And>ctx m. (ctx, m) \<in> set ms \<Longrightarrow> keeps P (mutate sv ctx m)" and "P a"
  shows "P (mutate_all sv ms a)"
  using assms
proof (induction ms arbitrary: a)
  case Nil
  then show ?case by (simp add: mutate_all_def)
next
  case (Cons p ms)
  obtain ctx m where p: "p = (ctx, m)" by fastforce
  have "keeps P (mutate sv ctx m)" using Cons.prems(1) p by simp
  then have "P (snd (mutate sv ctx m a))" using Cons.prems(2) by (simp add: keeps_def)
  moreover have "mutate_all sv (p # ms) a = mutate_all sv ms (snd (mutate sv ctx m a))"
    by (simp add: mutate_all_def p)
  ultimately show ?case using Cons.IH Cons.prems(1) by simp
qed

section \<open>Requests that do not act as admin\<close>

text \<open>
  A predicate of the database that is kept by every method of the adapter such a request can
  reach, where \<open>may\<close> are the users it can come from.
\<close>

locale unprivileged =
  fixes env :: pg_env
    and show_id :: "uuid \<Rightarrow> string"
    and D :: "pgdb \<Rightarrow> bool"
    and may :: "uuid \<Rightarrow> bool"
  assumes reads: "D d \<Longrightarrow> D (snd (db_ReadRecord env i d))"
      "D d \<Longrightarrow> D (snd (db_GetUsers env d))"
      "D d \<Longrightarrow> D (snd (db_Collections env u d))"
      "D d \<Longrightarrow> D (snd (db_CollectionRecords env i d))"
      "D d \<Longrightarrow> D (snd (db_MapUserIDToDeviceID env u d))"
    and sign_in: "D d \<Longrightarrow> D (snd (db_GetOrCreateUser env fresh unique d))"
    and device: "D d \<Longrightarrow> D (snd (db_AddDeviceForUser show_id env u dev d))"
    and token: "D d \<Longrightarrow> D (snd (db_CreateOrUpdateDeviceToken env dev tok d))"
    and qr: "D d \<Longrightarrow> D (snd (db_WriteQR env i data d))"
    and collections: "may u \<Longrightarrow> D d \<Longrightarrow> D (coll_exec (pg_collection_storage env) u call d)"
begin

lemma collection_calls:
  assumes "may u" and "D d"
  shows "D (snd (coll_Create (pg_collection_storage env) i u name d))"
    and "D (snd (coll_AddRecords (pg_collection_storage env) u i recs d))"
    and "D (snd (coll_DeleteRecords (pg_collection_storage env) u i recs d))"
    and "D (snd (coll_Delete (pg_collection_storage env) u i d))"
    and "D (snd (coll_ListRecords (pg_collection_storage env) i u d))"
  using collections [OF assms, of "CollCreate i name"] collections [OF assms, of "CollAdd i recs"]
    collections [OF assms, of "CollRemove i recs"] collections [OF assms, of "CollDelete i"]
    collections [OF assms, of "CollRecords i"] by simp_all

lemma Auth_keeps_D: "D d \<Longrightarrow> D (snd (Auth L (pg_user_storage env) au i d))"
  using Auth_state [of L "pg_user_storage env" au i d] sign_in
  by (auto simp: pg_user_storage_def)

lemma push_one_store: "al_store (snd (push_one ae i title body dev st)) = al_store st"
  by (simp add: push_one_def Let_def split: sum.splits)

lemma on_store_D:
  assumes "\<And>d. D d \<Longrightarrow> D (snd (m d))" and "D (al_store st)"
  shows "D (al_store (snd (on_store m st)))"
  using assms by (simp add: on_store_def split: prod.splits) (metis snd_conv)

lemma Run_keeps_D: "D (al_store st) \<Longrightarrow> D (al_store (snd (Run ae (pg_alert_storage env) st)))"
proof -
  let ?P = "\<lambda>st. D (al_store st)"
  have send: "?P (snd (Send ae (pg_alert_storage env) u i title body st))" if d: "?P st" for st u i title body
    unfolding Send_def
    by (rule snd_bindE_pres [where P = ?P, OF d])
      (auto simp: pg_alert_storage_def push_one_store reads intro!: on_store_D forE_pres [where P = ?P])
  have rec: "?P (snd (processRecord ae (pg_alert_storage env) u col r st))" if d: "?P st" for st u col r
    using d by (simp add: processRecord_def Let_def send)
  have col: "?P (snd (processCollectionRecords ae (pg_alert_storage env) u col st))" if d: "?P st" for st u col
    unfolding processCollectionRecords_def
    by (rule snd_bindE_pres [where P = ?P, OF d])
      (auto simp: pg_alert_storage_def reads rec [unfolded pg_alert_storage_def]
        intro!: on_store_D forE_pres [where P = ?P])
  have user: "?P (snd (processUserCollections ae (pg_alert_storage env) u st))" if d: "?P st" for st u
    unfolding processUserCollections_def
    by (rule snd_bindE_pres [where P = ?P, OF d])
      (auto simp: pg_alert_storage_def reads col [unfolded pg_alert_storage_def]
        intro!: on_store_D forE_pres [where P = ?P])
  show "?P (snd (Run ae (pg_alert_storage env) st))" if d: "?P st"
    unfolding Run_def
    by (rule snd_bindE_pres [where P = ?P, OF d])
      (auto simp: pg_alert_storage_def reads user [unfolded pg_alert_storage_def]
        intro!: on_store_D forE_pres [where P = ?P])
qed

lemma run_alerter_keeps: "sv_pg sv = env \<Longrightarrow> keeps (app_sat D Q) (run_alerter sv now)"
  unfolding keeps_def
proof (intro allI impI)
  fix a :: "'b app" assume env: "sv_pg sv = env" and a: "app_sat D Q a"
  let ?st = "\<lparr>al_store = ap_db a, al_pushes = ap_pushes a, al_clock = db_stmts (ap_db a)\<rparr>"
    and ?ae = "(sv_alert sv)\<lparr>ae_now := (\<lambda>n. now + ae_now (sv_alert sv) n)\<rparr>"
  obtain r st where r: "Run ?ae (pg_alert_storage (sv_pg sv)) ?st = (r, st)" by fastforce
  have "D (al_store ?st)" using a by (simp add: app_sat_def)
  from Run_keeps_D [OF this, of ?ae] r env have "D (al_store st)" by simp
  with a r show "app_sat D Q (snd (run_alerter sv now a))"
    by (simp add: run_alerter_def checkR_def app_sat_def split: sum.splits)
qed

lemma own_teas_keeps:
  assumes "sv_pg sv = env" and "may (user_ID user)"
  shows "keeps (app_sat D Q) (own_teas sv user i)"
  unfolding own_teas_def assms(1)
  using collection_calls(5) [OF assms(2)]
  by (auto intro!: keeps_intros split: option.split)

lemma AuthApple_keeps:
  assumes "sv_pg sv = env" and "sv_show_id sv = show_id"
  shows "keeps (app_sat D Q) (r_AuthApple sv i dev)"
  unfolding r_AuthApple_def assms
  by (auto simp: BindDevice_def pg_device_repository_def Auth_keeps_D device
      intro!: keeps_intros split: option.split)

lemma mutate_keeps:
  assumes env: "sv_pg sv = env" "sv_show_id sv = show_id"
    and ctx: "ctx_admin ctx = None" "\<And>user. ctx_user ctx = Some user \<Longrightarrow> may (user_ID user)"
  shows "keeps (app_sat D Q) (mutate sv ctx m)"
proof (cases m)
  case (MAuthApple i dev)
  then show ?thesis using AuthApple_keeps [OF env] by (auto intro!: keeps_dropR)
next
  case (MWriteToQR i data)
  have "keeps (app_sat D Q) (r_WriteToQR sv i data)"
    unfolding r_WriteToQR_def env
    by (auto simp: qr_Set_def pg_qr_storage_def pg_tea_storage_def qr reads intro!: keeps_intros)
  with MWriteToQR show ?thesis by (auto intro!: keeps_dropR)
next
  case (MCreateCollection i name)
  with ctx(2) show ?thesis
    by (auto simp: r_CreateCollection_def env collection_calls intro!: keeps_intros)
next
  case (MAddRecords i recs)
  with ctx(2) show ?thesis
    by (auto simp: r_AddRecordsToCollection_def env collection_calls intro!: keeps_intros)
next
  case (MDeleteRecords i recs)
  with ctx(2) show ?thesis
    by (auto simp: r_DeleteRecordsFromCollection_def env collection_calls intro!: keeps_intros)
next
  case (MDeleteCollection i)
  with ctx(2) show ?thesis
    by (auto simp: r_DeleteCollection_def env collection_calls intro!: keeps_intros)
next
  case (MRegisterDeviceToken dev tok)
  then show ?thesis
    by (auto simp: r_RegisterDeviceToken_def env RegisterDeviceToken_def pg_device_repository_def token
        intro!: keeps_intros)
next
  case (MSend now)
  then show ?thesis by (auto simp: r_Send_def intro!: keeps_intros run_alerter_keeps env)
next
  case (MTeaRecommendation wd i feelings)
  with ctx(2) show ?thesis
    by (auto simp: r_TeaRecommendation_def intro!: keeps_intros own_teas_keeps env)
qed (use ctx(1) in \<open>auto simp: r_NewTea_def r_UpdateTea_def r_DeleteTea_def r_AddTagToTea_def
      r_DeleteTagFromTea_def r_CreateTagCategory_def r_UpdateTagCategory_def r_DeleteTagCategory_def
      r_CreateTag_def r_UpdateTag_def r_ChangeTagCategory_def r_DeleteTag_def
      intro!: keeps_dropR keeps_as_admin\<close>)

end

section \<open>All requests\<close>

locale privileged = unprivileged env show_id D "\<lambda>_. True"
  for env show_id D +
  assumes tea_writes: "D d \<Longrightarrow> D (snd (db_WriteRecord env i data d))"
      "D d \<Longrightarrow> D (snd (db_Update env i data d))"
      "D d \<Longrightarrow> D (snd (db_Delete env i d))"
    and tag_writes: "D d \<Longrightarrow> D (snd (db_CreateTagCategory env i name d))"
      "D d \<Longrightarrow> D (snd (db_UpdateTagCategory env i name d))"
      "D d \<Longrightarrow> D (snd (db_DeleteTagCategory env i d))"
      "D d \<Longrightarrow> D (snd (db_CreateTag env i name color cat d))"
      "D d \<Longrightarrow> D (snd (db_UpdateTag env i name color d))"
      "D d \<Longrightarrow> D (snd (db_ChangeTagCategory env i cat d))"
      "D d \<Longrightarrow> D (snd (db_DeleteTag env i d))"
      "D d \<Longrightarrow> D (snd (db_AddTagToTea env tea i d))"
      "D d \<Longrightarrow> D (snd (db_DeleteTagFromTea env tea i d))"
begin

lemma admin_keeps:
  assumes "sv_pg sv = env"
  shows "keeps (app_sat D (\<lambda>_ _. True)) (on_teas (tea_Create (sv_teas sv) i data))"
    and "keeps (app_sat D (\<lambda>_ _. True)) (on_teas (tea_Update (sv_teas sv) i data))"
    and "keeps (app_sat D (\<lambda>_ _. True)) (on_teas (tea_Delete (sv_teas sv) i))"
    and "keeps (app_sat D (\<lambda>_ _. True)) (tea_read (tea_Get (sv_teas sv) i))"
    and "keeps (app_sat D (\<lambda>_ _. True)) (on_tags (tag_CreateCategory (sv_tags sv) i name))"
    and "keeps (app_sat D (\<lambda>_ _. True)) (on_tags (tag_UpdateCategory (sv_tags sv) i name))"
    and "keeps (app_sat D (\<lambda>_ _. True)) (on_tags (tag_DeleteCategory (sv_tags sv) i))"
    and "keeps (app_sat D (\<lambda>_ _. True)) (on_tags (tag_Create (sv_tags sv) i name color cat))"
    and "keeps (app_sat D (\<lambda>_ _. True)) (on_tags (tag_Update (sv_tags sv) i name color))"
    and "keeps (app_sat D (\<lambda>_ _. True)) (on_tags (tag_ChangeCategory (sv_tags sv) i cat))"
    and "keeps (app_sat D (\<lambda>_ _. True)) (on_tags (tag_Delete (sv_tags sv) i))"
    and "keeps (app_sat D (\<lambda>_ _. True)) (on_tags (tag_AddTagToTea (sv_tags sv) tea i))"
    and "keeps (app_sat D (\<lambda>_ _. True)) (on_tags (tag_DeleteTagFromTea (sv_tags sv) tea i))"
  unfolding assms
  by (simp_all add: tea_ops_store tag_op_store pg_tea_storage_def pg_tag_storage_def tea_writes tag_writes
      reads keeps_on_teas keeps_on_tags keeps_tea_read tag_CreateCategory_def tag_UpdateCategory_def
      tag_DeleteCategory_def tag_Create_def tag_Update_def tag_ChangeCategory_def tag_Delete_def
      tag_AddTagToTea_def tag_DeleteTagFromTea_def)

lemma mutate_keeps_any:
  assumes env: "sv_pg sv = env" "sv_show_id sv = show_id"
  shows "keeps (app_sat D (\<lambda>_ _. True)) (mutate sv ctx m)"
proof (cases "ctx_admin ctx")
  case None
  then show ?thesis using env by (intro mutate_keeps) simp_all
next
  case (Some p)
  let ?ctx = "ctx\<lparr>ctx_admin := None\<rparr>"
  have same: "keeps (app_sat D (\<lambda>_ _. True)) (mutate sv ?ctx m)"
    using env by (intro mutate_keeps) simp_all
  have user: "GetUser ctx = GetUser ?ctx" by (simp add: GetUser_def)
  show ?thesis
    using same
    by (cases m; auto simp: r_NewTea_def r_UpdateTea_def r_DeleteTea_def r_AddTagToTea_def
        r_DeleteTagFromTea_def r_CreateTagCategory_def r_UpdateTagCategory_def r_DeleteTagCategory_def
        r_CreateTag_def r_UpdateTag_def r_ChangeTagCategory_def r_DeleteTag_def r_CreateCollection_def
        r_AddRecordsToCollection_def r_DeleteRecordsFromCollection_def r_DeleteCollection_def
        r_Send_def r_TeaRecommendation_def as_user_def user
        intro!: keeps_dropR keeps_as_admin keeps_bindR keeps_same admin_keeps env)
qed

end

section \<open>Three predicates that are kept\<close>

definition catalogue :: "pgdb \<Rightarrow> tea_row list \<times> cat_row list \<times> tag_row list \<times> (uuid \<times> uuid) list" where
  "catalogue d = (db_teas d, db_cats d, db_tags d, db_tea_tags d)"

lemma catalogue_stmts [simp]: "catalogue (d\<lparr>db_stmts := n\<rparr>) = catalogue d"
  by (simp add: catalogue_def)

text \<open>A statement touches the tables its body touches.\<close>

lemma stmt_keeps:
  assumes "\<And>d n. f (d\<lparr>db_stmts := n\<rparr>) = f d" and "\<And>d. f (snd (body d)) = f d"
  shows "f (snd (stmt env body d)) = f d"
  using assms by (simp add: stmt_def Let_def)

lemma bindE_keeps:
  assumes "\<And>s. f (snd (m s)) = f s" and "\<And>x s. f (snd (g x s)) = f s"
  shows "f (snd (bindE m g s)) = f s"
  using snd_bindE_pres [of "\<lambda>s'. f s' = f s" s m g] assms by simp

lemma select_one_state [simp]: "snd (select_one g d) = d"
  by (simp add: select_one_def split: option.split)

lemmas other_methods = db_ReadRecord_def db_GetUsers_def db_Collections_def db_Collection_def
  db_CollectionRecords_def db_MapUserIDToDeviceID_def db_GetOrCreateUser_def db_AddDeviceForUser_def
  db_WriteQR_def db_CreateCollection_def db_DeleteCollection_def

lemmas other_queries = q_GetTea_def q_ListUsers_def q_ListCollections_def q_GetCollection_def
  q_ListCollectionRecords_def q_ListDeviceTokens_def q_UpsertUser_def q_InsertDevice_def q_UpsertQR_def
  q_UpdateDeviceToken_def q_InsertCollection_def q_DeleteCollection_def q_InsertCollectionItems_def
  q_DeleteCollectionItem_def

lemma other_catalogue:
  "catalogue (snd (db_ReadRecord env i d)) = catalogue d"
  "catalogue (snd (db_GetUsers env d)) = catalogue d"
  "catalogue (snd (db_Collections env u d)) = catalogue d"
  "catalogue (snd (db_Collection env i u d)) = catalogue d"
  "catalogue (snd (db_CollectionRecords env i d)) = catalogue d"
  "catalogue (snd (db_MapUserIDToDeviceID env u d)) = catalogue d"
  "catalogue (snd (db_GetOrCreateUser env fresh unique d)) = catalogue d"
  "catalogue (snd (db_AddDeviceForUser show_id env u dev d)) = catalogue d"
  "catalogue (snd (db_WriteQR env i data d)) = catalogue d"
  "catalogue (snd (db_CreateCollection env i u name d)) = catalogue d"
  "catalogue (snd (db_DeleteCollection env i u d)) = catalogue d"
  by (simp_all add: other_methods other_queries stmt_def Let_def catalogue_def split: option.split)

lemma item_catalogue:
  "catalogue (snd (db_CreateOrUpdateDeviceToken env dev tok d)) = catalogue d"
  "catalogue (snd (db_AddTeaToCollection env i recs d)) = catalogue d"
  "catalogue (snd (db_DeleteTeaFromCollection env i recs d)) = catalogue d"
proof -
  show "catalogue (snd (db_CreateOrUpdateDeviceToken env dev tok d)) = catalogue d"
    unfolding db_CreateOrUpdateDeviceToken_def
    by (rule bindE_keeps) (simp_all add: other_queries stmt_def Let_def catalogue_def)
  show "catalogue (snd (db_AddTeaToCollection env i recs d)) = catalogue d"
    by (simp add: db_AddTeaToCollection_def other_queries stmt_def Let_def catalogue_def)
  show "catalogue (snd (db_DeleteTeaFromCollection env i recs d)) = catalogue d"
    unfolding db_DeleteTeaFromCollection_def
    by (rule forE_pres [where P = "\<lambda>d'. catalogue d' = catalogue d"])
      (simp_all add: other_queries stmt_def Let_def catalogue_def)
qed

lemma coll_catalogue: "catalogue (coll_exec (pg_collection_storage env) u call d) = catalogue d"
  by (cases call) (simp_all add: coll_Create_def coll_AddRecords_def coll_DeleteRecords_def
      coll_Delete_def coll_List_def coll_ListRecords_def pg_collection_storage_def bindE_keeps
      other_catalogue item_catalogue)

interpretation kept_catalogue: unprivileged env show_id "\<lambda>d. catalogue d = C" "\<lambda>_. True"
  by unfold_locales (simp_all add: other_catalogue item_catalogue coll_catalogue)

lemma other_collections:
  "pg_coll_view (snd (db_ReadRecord env i d)) = pg_coll_view d"
  "pg_coll_view (snd (db_GetUsers env d)) = pg_coll_view d"
  "pg_coll_view (snd (db_MapUserIDToDeviceID env u d)) = pg_coll_view d"
  "pg_coll_view (snd (db_GetOrCreateUser env fresh unique d)) = pg_coll_view d"
  "pg_coll_view (snd (db_AddDeviceForUser show_id env u dev d)) = pg_coll_view d"
  "pg_coll_view (snd (db_WriteQR env i data d)) = pg_coll_view d"
  by (simp_all add: other_methods other_queries stmt_def Let_def pg_coll_view_def split: option.split)

lemma token_collections: "pg_coll_view (snd (db_CreateOrUpdateDeviceToken env dev tok d)) = pg_coll_view d"
  unfolding db_CreateOrUpdateDeviceToken_def
  by (rule bindE_keeps) (simp_all add: other_queries stmt_def Let_def pg_coll_view_def)

lemma db_reads_ok [db_ok_intros]:
  "db_ok env d \<Longrightarrow> db_ok env (snd (db_GetUsers env d))"
  "db_ok env d \<Longrightarrow> db_ok env (snd (db_MapUserIDToDeviceID env u d))"
  by (simp_all add: db_GetUsers_def db_MapUserIDToDeviceID_def q_ListUsers_def q_ListDeviceTokens_def)

interpretation kept_ok: privileged env show_id "db_ok env"
  by unfold_locales (simp_all add: db_ok_intros db_tea_reads(3) coll_exec_ok)

text \<open>A collection with its owner, its name and its records.\<close>

definition holds :: "uuid \<Rightarrow> uuid \<Rightarrow> string \<Rightarrow> uuid set \<Rightarrow> pgdb \<Rightarrow> bool" where
  "holds c owner name X d \<longleftrightarrow>
     cv_colls (pg_coll_view d) c = Some (owner, name) \<and> {x. (c, x) \<in> cv_items (pg_coll_view d)} = X"

lemma other_holds:
  "holds c owner name X (snd (db_ReadRecord env i d)) = holds c owner name X d"
  "holds c owner name X (snd (db_GetUsers env d)) = holds c owner name X d"
  "holds c owner name X (snd (db_Collections env u d)) = holds c owner name X d"
  "holds c owner name X (snd (db_CollectionRecords env i d)) = holds c owner name X d"
  "holds c owner name X (snd (db_MapUserIDToDeviceID env u d)) = holds c owner name X d"
  "holds c owner name X (snd (db_GetOrCreateUser env fresh unique d)) = holds c owner name X d"
  "holds c owner name X (snd (db_AddDeviceForUser show_id env u dev d)) = holds c owner name X d"
  "holds c owner name X (snd (db_CreateOrUpdateDeviceToken env dev tok d)) = holds c owner name X d"
  "holds c owner name X (snd (db_WriteQR env i data d)) = holds c owner name X d"
  by (simp_all add: holds_def other_collections token_collections pg_coll_reads)

lemma coll_holds:
  assumes "u \<noteq> owner" and "db_ok env d" and "holds c owner name X d"
  shows "holds c owner name X (coll_exec (pg_collection_storage env) u call d)"
proof -
  have "same_for (\<lambda>e. e = c) (pg_coll_view d) (pg_coll_view (coll_exec (pg_collection_storage env) u call d))"
    using assms by (intro pg_coll.foreign_untouched) (auto simp: holds_def)
  with assms(3) show ?thesis by (simp add: same_for_def holds_def)
qed

interpretation kept_collection: unprivileged env show_id
    "\<lambda>d. db_ok env d \<and> holds c owner name X d" "\<lambda>u. u \<noteq> owner"
  by unfold_locales
    (simp_all add: db_ok_intros db_tea_reads(3) coll_exec_ok coll_holds other_holds)

section \<open>An instance\<close>

definition demo_server :: "(int, string \<rightharpoonup> string) server" where
  "demo_server =
     \<lparr>sv_pg = env0, sv_libs = demo_lib, sv_auth = demo_auth, sv_alert = demo_alert,
      sv_show_id = (\<lambda>i. replicate (unat i) CHR ''x''), sv_prompt = (\<lambda>_. Inr ''prompt''),
      sv_contextTmpl = (\<lambda>_ _ _. Inr ''context''), sv_unmarshal = (\<lambda>_. Inr []), sv_trunc = id,
      sv_time_of_day = (\<lambda>_. ''noon''), sv_weekday = (\<lambda>_. ''Monday''), sv_fmt_name = id,
      sv_descr = map_cache, sv_consumption = NewPGStore 0, sv_offset = 0\<rparr>"

definition demo_app :: "pgdb \<Rightarrow> (string \<rightharpoonup> string) app" where
  "demo_app d = \<lparr>ap_db = d, ap_teas = tea_NewManager d, ap_tags = tag_NewManager d, ap_cache = Map.empty,
     ap_pushes = [], ap_descr = Map.empty\<rparr>"

lemma demo_server_sel [simp]:
  "sv_pg demo_server = env0" "sv_consumption demo_server = NewPGStore 0" "sv_offset demo_server = 0"
  by (simp_all add: demo_server_def)

lemma demo_app_sel [simp]: "ap_db (demo_app d) = d" "ap_cache (demo_app d) = Map.empty"
  by (simp_all add: demo_app_def)

definition user_ctx :: "uuid \<Rightarrow> request_ctx" where
  "user_ctx u = \<lparr>ctx_user = Some \<lparr>user_ID = u, user_AppleID = '''',
     usr_Session = \<lparr>ses_JWT = '''', ses_User = None, ses_ExpiredAt = 0\<rparr>\<rparr>, ctx_admin = None\<rparr>"

lemma user_ctx_sel [simp]: "ctx_admin (user_ctx u) = None" "GetUser (user_ctx u) = Inr (the (ctx_user (user_ctx u)))"
  "ctx_user (user_ctx u) = Some v \<Longrightarrow> user_ID v = u" "user_ID (the (ctx_user (user_ctx u))) = u"
  by (auto simp: user_ctx_def GetUser_def)

section \<open>Who may change what\<close>

text \<open>The mutations of the catalogue.\<close>

fun of_catalogue :: "'f mutation \<Rightarrow> bool" where
  "of_catalogue (MNewTea _ _) = True"
| "of_catalogue (MUpdateTea _ _) = True"
| "of_catalogue (MDeleteTea _) = True"
| "of_catalogue (MAddTagToTea _ _) = True"
| "of_catalogue (MDeleteTagFromTea _ _) = True"
| "of_catalogue (MCreateTagCategory _ _) = True"
| "of_catalogue (MUpdateTagCategory _ _) = True"
| "of_catalogue (MDeleteTagCategory _) = True"
| "of_catalogue (MCreateTag _ _ _ _) = True"
| "of_catalogue (MUpdateTag _ _ _) = True"
| "of_catalogue (MChangeTagCategory _ _) = True"
| "of_catalogue (MDeleteTag _) = True"
| "of_catalogue _ = False"

lemma as_admin_refused:
  "ctx_admin ctx = None \<Longrightarrow> dropR (as_admin ctx m) a =
     (Reply (Inl (GQLError (Sentinel ErrUnauthorized) (Some (CodeText ''UNAUTHENTICATED'')))), a)"
  by (simp add: dropR_def as_admin_def bindR_def checkR_def RequireAdmin_def AdminPrincipalFrom_def)

lemma admin_mutations_refused:
  assumes "of_catalogue m" and "ctx_admin ctx = None"
  shows "mutate sv ctx m a =
    (Reply (Inl (GQLError (Sentinel ErrUnauthorized) (Some (CodeText ''UNAUTHENTICATED'')))), a)"
  using assms(1)
  by (cases m) (simp_all add: as_admin_refused [OF assms(2)] r_NewTea_def r_UpdateTea_def r_DeleteTea_def
      r_AddTagToTea_def r_DeleteTagFromTea_def r_CreateTagCategory_def r_UpdateTagCategory_def
      r_DeleteTagCategory_def r_CreateTag_def r_UpdateTag_def r_ChangeTagCategory_def r_DeleteTag_def)

text \<open>
  Without an admin principal nothing changes the catalogue: whatever mutations are requested,
  by users or by nobody, in whatever order and with whatever server faults, the teas, the
  categories, the tags and their links to teas stay as they are, and the managers announce
  nothing to their subscribers. Those of the catalogue are answered with the code for a missing
  authentication and leave the whole process as it was.
\<close>

theorem catalogue_only_by_admin:
  assumes "\<forall>(ctx, m) \<in> set ms. ctx_admin ctx = None"
  shows "catalogue (ap_db (mutate_all sv ms a)) = catalogue (ap_db a) \<and>
    tea_queued (ap_teas (mutate_all sv ms a)) = tea_queued (ap_teas a) \<and>
    tag_queued (ap_tags (mutate_all sv ms a)) = tag_queued (ap_tags a) \<and>
    (\<forall>(ctx, m) \<in> set ms. of_catalogue m \<longrightarrow> (\<forall>b. mutate sv ctx m b =
      (Reply (Inl (GQLError (Sentinel ErrUnauthorized) (Some (CodeText ''UNAUTHENTICATED'')))), b)))"
proof -
  let ?P = "app_sat (\<lambda>d. catalogue d = catalogue (ap_db a))
    (\<lambda>q r. q = tea_queued (ap_teas a) \<and> r = tag_queued (ap_tags a))"
  have "?P (mutate_all sv ms a)"
  proof (rule keeps_all)
    show "keeps ?P (mutate sv ctx m)" if "(ctx, m) \<in> set ms" for ctx m
      using assms that by (intro kept_catalogue.mutate_keeps) auto
  qed (simp add: app_sat_def)
  moreover have "mutate sv ctx m b =
      (Reply (Inl (GQLError (Sentinel ErrUnauthorized) (Some (CodeText ''UNAUTHENTICATED'')))), b)"
    if "(ctx, m) \<in> set ms" "of_catalogue m" for ctx m b
    using assms that by (intro admin_mutations_refused) auto
  ultimately show ?thesis unfolding app_sat_def by blast
qed

theorem catalogue_only_by_admin_witness:
  "catalogue (ap_db (mutate_all demo_server
     [(empty_ctx, MDeleteTea 7), (user_ctx 1, MRegisterDeviceToken 9 ''t''), (user_ctx 1, MDeleteTag 2)]
     (demo_app db_green_tag))) = catalogue db_green_tag \<and>
   mutate demo_server (user_ctx 1) (MDeleteTag 2) (demo_app db_green_tag) =
     (Reply (Inl (GQLError (Sentinel ErrUnauthorized) (Some (CodeText ''UNAUTHENTICATED'')))), demo_app db_green_tag)"
proof -
  let ?ms = "[(empty_ctx, MDeleteTea 7), (user_ctx 1, MRegisterDeviceToken 9 ''t''), (user_ctx 1, MDeleteTag 2)]"
  have "\<forall>(ctx, m) \<in> set ?ms. ctx_admin ctx = None" by (simp add: empty_ctx_def)
  from catalogue_only_by_admin [OF this, of demo_server "demo_app db_green_tag"] show ?thesis by simp
qed

text \<open>
  A collection is its owner's alone at the level of the API: whatever mutations are requested
  without an admin principal by other users or by nobody, it keeps its owner, its name and
  exactly its records.
\<close>

theorem collection_of_another_user:
  assumes "db_ok (sv_pg sv) (ap_db a)" and "cv_colls (pg_coll_view (ap_db a)) c = Some (owner, name)"
    and "\<forall>(ctx, m) \<in> set ms. ctx_admin ctx = None \<and> (\<forall>user. ctx_user ctx = Some user \<longrightarrow> user_ID user \<noteq> owner)"
  shows "cv_colls (pg_coll_view (ap_db (mutate_all sv ms a))) c = Some (owner, name) \<and>
    (\<forall>x. (c, x) \<in> cv_items (pg_coll_view (ap_db (mutate_all sv ms a))) \<longleftrightarrow>
      (c, x) \<in> cv_items (pg_coll_view (ap_db a)))"
proof -
  let ?X = "{x. (c, x) \<in> cv_items (pg_coll_view (ap_db a))}"
  let ?P = "app_sat (\<lambda>d. db_ok (sv_pg sv) d \<and> holds c owner name ?X d) (\<lambda>_ _. True)"
  have "?P (mutate_all sv ms a)"
  proof (rule keeps_all)
    show "keeps ?P (mutate sv ctx m)" if "(ctx, m) \<in> set ms" for ctx m
      using assms(3) that by (intro kept_collection.mutate_keeps) auto
  qed (use assms(1,2) in \<open>simp add: app_sat_def holds_def\<close>)
  then show ?thesis by (auto simp: app_sat_def holds_def)
qed

theorem collection_of_another_user_witness:
  "(5, 3) \<in> cv_items (pg_coll_view (ap_db (mutate_all demo_server
     [(user_ctx 2, MDeleteCollection 5), (user_ctx 2, MDeleteRecords 5 [3]), (empty_ctx, MSend 0)]
     (demo_app db_two_records))))"
proof -
  let ?ms = "[(user_ctx 2, MDeleteCollection 5), (user_ctx 2, MDeleteRecords 5 [3]), (empty_ctx, MSend 0)]"
  have "\<forall>(ctx, m) \<in> set ?ms. ctx_admin ctx = None \<and> (\<forall>user. ctx_user ctx = Some user \<longrightarrow> user_ID user \<noteq> 1)"
    by (auto simp: empty_ctx_def)
  moreover have "cv_colls (pg_coll_view (ap_db (demo_app db_two_records))) 5 = Some (1, ''mine'')"
    "(5, 3) \<in> cv_items (pg_coll_view db_two_records)"
    by (simp_all add: pg_coll_view_def db_two_records_def coll_entry_def)
  moreover have "db_ok (sv_pg demo_server) (ap_db (demo_app db_two_records))"
    by (simp add: db_two_records_ok)
  ultimately show ?thesis
    using collection_of_another_user [of demo_server "demo_app db_two_records" 5 1 "''mine''" ?ms] by simp
qed

text \<open>
  Whatever mutations are requested, also as admin, in whatever order and with whatever server
  faults and panics, the database stays consistent: unique keys, references to existing rows,
  valid types of teas.
\<close>

theorem mutations_keep_integrity:
  assumes "db_ok (sv_pg sv) (ap_db a)"
  shows "db_ok (sv_pg sv) (ap_db (mutate_all sv ms a))"
proof -
  let ?P = "app_sat (db_ok (sv_pg sv)) (\<lambda>_ _. True)"
  have "?P (mutate_all sv ms a)"
  proof (rule keeps_all)
    show "keeps ?P (mutate sv ctx m)" for ctx m by (intro kept_ok.mutate_keeps_any) simp_all
  qed (use assms in \<open>simp add: app_sat_def\<close>)
  then show ?thesis by (simp add: app_sat_def)
qed

theorem mutations_keep_integrity_witness:
  "db_ok env0 (ap_db (mutate_all demo_server
     [(\<lparr>ctx_user = None, ctx_admin = Some demo_principal\<rparr>, MDeleteTea 7), (user_ctx 1, MAddRecords 5 [3, 8])]
     (demo_app db_two_records)))"
  using mutations_keep_integrity [of demo_server "demo_app db_two_records"] by (simp add: db_two_records_ok)

section \<open>A QR record needs no user\<close>

lemma WriteQR_succeeds:
  assumes "no_faults env" and "qr_Tea q \<in> t_id ` set (db_teas d)"
  shows "\<exists>d'. db_WriteQR env i q d = (Inr (), d') \<and> db_teas d' = db_teas d"
  using assms by (simp add: db_WriteQR_def wrapE_def q_UpsertQR_def)

lemma ReadRecord_succeeds:
  assumes "no_faults env" and "i \<in> t_id ` set (db_teas d)"
  shows "\<exists>t d'. db_ReadRecord env i d = (Inr t, d')"
proof -
  from assms(2) obtain row where "find (\<lambda>r. t_id r = i) (db_teas d) = Some row"
    by (cases "find (\<lambda>r. t_id r = i) (db_teas d)") (auto simp: find_eq_None_iff)
  then show ?thesis
    using assms(1) by (simp add: db_ReadRecord_def mapE_def not_found_or_def q_GetTea_def select_one_def)
qed

lemma ReadRecord_qrs: "db_qrs (snd (db_ReadRecord env i d)) = db_qrs d"
  by (simp add: db_ReadRecord_def q_GetTea_def stmt_def Let_def)

lemma the_qr_of: "pg_qrs d i = Some q \<Longrightarrow> qr_of_row (the_qr d i) = q"
proof -
  have "map_of (map (\<lambda>r. (r_id r, qr_of_row r)) rs) i = Some q \<Longrightarrow> qr_of_row (hd (filter (\<lambda>r. r_id r = i) rs)) = q"
    for rs by (induction rs) (auto split: if_splits)
  then show "pg_qrs d i = Some q \<Longrightarrow> ?thesis" by (simp add: pg_qrs_def the_qr_def)
qed

text \<open>
  Writing a QR record asks for no user: without any authentication the record with a given
  identifier is overwritten, so that whoever has it in a collection is shown the new tea, date
  and temperature.
\<close>

theorem qr_write_needs_no_user:
  assumes "no_faults (sv_pg sv)" and "db_ok (sv_pg sv) (ap_db a)"
    and "qrd_Tea data \<in> t_id ` set (db_teas (ap_db a))"
  shows "\<exists>a'. mutate sv empty_ctx (MWriteToQR i data) a = (Reply (Inr ()), a') \<and>
    pg_qrs (ap_db a') = (pg_qrs (ap_db a))(i \<mapsto> pg_qr_stored (sv_pg sv)
      \<lparr>qr_Tea = qrd_Tea data, qr_BowlingTemp = qrd_BowlingTemp data, qr_ExpirationDate = qrd_ExpirationDate data\<rparr>) \<and>
    cr_ExpirationDate (record_for (ap_db a') i) = env_round (sv_pg sv) (qrd_ExpirationDate data) \<and>
    cr_BowlingTemp (record_for (ap_db a') i) = int32_clamped (qrd_BowlingTemp data)"
proof -
  let ?q = "\<lparr>qr_Tea = qrd_Tea data, qr_BowlingTemp = qrd_BowlingTemp data,
    qr_ExpirationDate = qrd_ExpirationDate data\<rparr>"
  obtain d1 where w: "db_WriteQR (sv_pg sv) i ?q (ap_db a) = (Inr (), d1)" "db_teas d1 = db_teas (ap_db a)"
    using WriteQR_succeeds [OF assms(1), of ?q "ap_db a" i] assms(3) by auto
  obtain t d2 where r: "db_ReadRecord (sv_pg sv) (qrd_Tea data) d1 = (Inr t, d2)"
    using ReadRecord_succeeds [OF assms(1), of "qrd_Tea data" d1] assms(3) w(2) by auto
  have "pg_qrs d1 = (pg_qrs (ap_db a))(i \<mapsto> pg_qr_stored (sv_pg sv) ?q)"
    using pg_qr.wrote [OF assms(2), of i ?q d1] w(1) by (simp add: pg_qr_storage_def)
  moreover have "pg_qrs d2 = pg_qrs d1"
    using ReadRecord_qrs [of "sv_pg sv" "qrd_Tea data" d1] r by (simp add: pg_qrs_def)
  ultimately have q: "pg_qrs d2 = (pg_qrs (ap_db a))(i \<mapsto> pg_qr_stored (sv_pg sv) ?q)" by simp
  then have "qr_of_row (the_qr d2 i) = pg_qr_stored (sv_pg sv) ?q" by (intro the_qr_of) simp
  then have rec: "cr_ExpirationDate (record_for d2 i) = env_round (sv_pg sv) (qrd_ExpirationDate data)"
    "cr_BowlingTemp (record_for d2 i) = int32_clamped (qrd_BowlingTemp data)"
    by (simp_all add: record_for_def record_of_rows_def qr_of_row_def pg_qr_stored_def)
  have "\<exists>a'. mutate sv empty_ctx (MWriteToQR i data) a = (Reply (Inr ()), a') \<and> ap_db a' = d2"
    using w(1) r
    by (simp add: dropR_def r_WriteToQR_def bindR_def db_call_def qr_Set_def pg_qr_storage_def
        tea_read_def on_teas_def tea_Get_def pg_tea_storage_def outcome_reply_def okR_def)
  with q rec show ?thesis by auto
qed

theorem qr_write_needs_no_user_witness:
  "\<exists>a'. mutate demo_server empty_ctx (MWriteToQR 3
       \<lparr>qrd_Tea = 7, qrd_BowlingTemp = 100, qrd_ExpirationDate = 9000\<rparr>) (demo_app db_two_records) =
      (Reply (Inr ()), a') \<and> cr_ExpirationDate (record_for (ap_db a') 3) = 9000"
proof -
  let ?data = "\<lparr>qrd_Tea = 7, qrd_BowlingTemp = 100, qrd_ExpirationDate = 9000\<rparr>"
  have "qrd_Tea ?data \<in> t_id ` set (db_teas (ap_db (demo_app db_two_records)))"
    by (simp add: db_two_records_def db_one_tea_simps)
  from qr_write_needs_no_user [OF _ _ this, of demo_server 3] show ?thesis
    by (auto simp: db_two_records_ok) (simp add: env0_def)
qed

section \<open>Errors the client can tell apart\<close>

lemma db_Collection_none:
  assumes "no_faults env" and "\<forall>row \<in> set (db_colls d). \<not> (k_id row = i \<and> k_user row = u)"
  shows "db_Collection env i u d =
    (Inl (Wrap ''get collection'' (Sentinel SqlErrNoRows)), d\<lparr>db_stmts := Suc (db_stmts d)\<rparr>)"
proof -
  have "find (\<lambda>r. k_id r = i \<and> k_user r = u) (db_colls d) = None"
    using assms(2) by (simp add: find_eq_None_iff)
  then show ?thesis
    using assms(1) by (simp add: db_Collection_def mapE_def wrapE_def q_GetCollection_def select_one_def)
qed

text \<open>
  For a collection that does not exist or belongs to another user, adding and removing records
  answer an error without any code, although the list of codes has one for a missing
  collection; deleting it answers success and deletes nothing.
\<close>

theorem missing_collection_has_no_code:
  assumes "no_faults (sv_pg sv)" and "GetUser ctx = Inr user"
    and "\<forall>row \<in> set (db_colls (ap_db a)). \<not> (k_id row = i \<and> k_user row = user_ID user)"
  shows "fst (mutate sv ctx (MAddRecords i recs) a) =
      Reply (Inl (GQLError (Wrap ''get collection'' (Sentinel SqlErrNoRows)) None)) \<and>
    fst (mutate sv ctx (MDeleteRecords i recs) a) =
      Reply (Inl (GQLError (Wrap ''get collection'' (Sentinel SqlErrNoRows)) None)) \<and>
    fst (mutate sv ctx (MDeleteCollection i) a) = Reply (Inr ()) \<and>
    db_colls (ap_db (snd (mutate sv ctx (MDeleteCollection i) a))) = db_colls (ap_db a)"
proof -
  note c = db_Collection_none [OF assms(1,3)]
  have cast: "castGQLError (Wrap ''get collection'' (Sentinel SqlErrNoRows)) =
      GQLError (Wrap ''get collection'' (Sentinel SqlErrNoRows)) None"
    by (simp add: castGQLError_def)
  have "filter (\<lambda>r. \<not> (k_id r = i \<and> k_user r = user_ID user)) (db_colls (ap_db a)) = db_colls (ap_db a)"
    using assms(3) by (simp add: filter_id_conv)
  then obtain d' where d: "db_DeleteCollection (sv_pg sv) i (user_ID user) (ap_db a) = (Inr (), d')"
      "db_colls d' = db_colls (ap_db a)"
    using assms(1) by (simp add: db_DeleteCollection_def wrapE_def q_DeleteCollection_def Let_def)
  have "mutate sv ctx (MDeleteCollection i) a = (Reply (Inr ()), a\<lparr>ap_db := d'\<rparr>)"
    using d(1)
    by (simp add: dropR_def r_DeleteCollection_def as_user_def checkR_def assms(2) bindR_def db_call_def
        coll_Delete_def pg_collection_storage_def okR_def)
  with d(2) show ?thesis
    by (simp add: dropR_def r_AddRecordsToCollection_def r_DeleteRecordsFromCollection_def as_user_def
        checkR_def assms(2) bindR_def db_call_def coll_AddRecords_def coll_DeleteRecords_def
        pg_collection_storage_def bindE_def c cast)
qed

theorem missing_collection_has_no_code_witness:
  "fst (mutate demo_server (user_ctx 2) (MAddRecords 5 [3]) (demo_app db_two_records)) =
      Reply (Inl (GQLError (Wrap ''get collection'' (Sentinel SqlErrNoRows)) None)) \<and>
    fst (mutate demo_server (user_ctx 2) (MDeleteCollection 5) (demo_app db_two_records)) = Reply (Inr ())"
proof -
  have "\<forall>row \<in> set (db_colls (ap_db (demo_app db_two_records))).
      \<not> (k_id row = 5 \<and> k_user row = user_ID (the (ctx_user (user_ctx 2))))"
    by (simp add: db_two_records_def)
  note missing = missing_collection_has_no_code [OF _ user_ctx_sel(2) this, of demo_server]
  show ?thesis using missing by simp
qed

section \<open>Types of the answers\<close>

lemma bindR_Inr:
  "fst (bindR m f a) = Reply (Inr y) \<longleftrightarrow>
     (\<exists>x a'. m a = (Reply (Inr x), a') \<and> fst (f x a') = Reply (Inr y))"
  by (auto simp: bindR_def split: prod.splits reply.splits sum.splits)

lemma okR_Inr: "fst (okR x a) = Reply (Inr y) \<longleftrightarrow> y = x"
  by (auto simp: okR_def)

lemma common_valid: "Type_IsValid (gtea_Type (FromCommonTea t))"
  by (simp add: FromCommonTea_def FromBeverageType_valid)

text \<open>
  Every tea that a query or a mutation answers has a type of the schema's enumeration, whatever
  is stored, so that the answer can always be encoded.
\<close>

theorem answered_teas_have_a_type:
  "(fst (r_Tea sv i a) = Reply (Inr t) \<longrightarrow> Type_IsValid (gtea_Type t)) \<and>
   (fst (r_Teas sv pfx a) = Reply (Inr ts) \<longrightarrow> (\<forall>t \<in> set ts. Type_IsValid (gtea_Type t))) \<and>
   (fst (r_NewTea sv ctx i data a) = Reply (Inr t) \<longrightarrow> Type_IsValid (gtea_Type t)) \<and>
   (fst (r_UpdateTea sv ctx i data a) = Reply (Inr t) \<longrightarrow> Type_IsValid (gtea_Type t)) \<and>
   (fst (r_AddTagToTea sv ctx i tg a) = Reply (Inr t) \<longrightarrow> Type_IsValid (gtea_Type t)) \<and>
   (fst (r_DeleteTagFromTea sv ctx i tg a) = Reply (Inr t) \<longrightarrow> Type_IsValid (gtea_Type t)) \<and>
   (fst (r_QRRecord sv i a) = Reply (Inr rec) \<longrightarrow> (\<exists>t. qrr_Tea rec = Some t \<and> Type_IsValid (gtea_Type t))) \<and>
   (fst (r_WriteToQR sv i q a) = Reply (Inr rec) \<longrightarrow> (\<exists>t. qrr_Tea rec = Some t \<and> Type_IsValid (gtea_Type t)))"
  by (auto simp: r_Tea_def r_Teas_def r_NewTea_def r_UpdateTea_def r_AddTagToTea_def r_DeleteTagFromTea_def
      r_QRRecord_def r_WriteToQR_def as_admin_def bindR_Inr okR_Inr common_valid FromBeverageType_valid)

theorem answered_teas_have_a_type_witness:
  "\<exists>t. fst (r_Tea demo_server 7 (demo_app db_one_tea)) = Reply (Inr t) \<and> gtea_Name t = ''sencha'' \<and>
     Type_IsValid (gtea_Type t)"
proof -
  obtain t where t: "fst (r_Tea demo_server 7 (demo_app db_one_tea)) = Reply (Inr t)" "gtea_Name t = ''sencha''"
    by (simp add: r_Tea_def bindR_def tea_read_def on_teas_def tea_Get_def pg_tea_storage_def db_ReadRecord_def
        mapE_def not_found_or_def q_GetTea_def select_one_def db_one_tea_simps outcome_reply_def okR_def
        FromCommonTea_def tea_of_row_def)
  with answered_teas_have_a_type [of demo_server 7 "demo_app db_one_tea" t] show ?thesis by blast
qed

end
