(* ===== verification/Scoring.thy ===== *)
theory Scoring
  imports Prelude
begin

text \<open>
  Choosing the tea of the day (\<open>internal/scoring/scoring.go\<close>): a score per candidate from
  the clamped context score, a penalty for recent consumption and a bonus for an approaching
  expiration; the best candidate of a list with its tie-breakers; and the variant that logs.
  The lemmas show that the result has the highest score, when the tie-breakers define an
  order, and when they do not.
\<close>

section \<open>The score\<close>

definition aiScoreMin :: int where "aiScoreMin = 0"
definition aiScoreMax :: int where "aiScoreMax = 15"
definition recent24h :: duration where "recent24h = 24 * Hour"
definition recent48h :: duration where "recent48h = 48 * Hour"
definition penaltyWithin24h :: int where "penaltyWithin24h = 5"
definition penaltyWithin48h :: int where "penaltyWithin48h = 3"
definition expSoonThreshold :: duration where "expSoonThreshold = 7 * 24 * Hour"
definition expUpcomingThreshold :: duration where "expUpcomingThreshold = 30 * 24 * Hour"
definition bonusExpSoon :: int where "bonusExpSoon = 3"
definition bonusExpUpcoming :: int where "bonusExpUpcoming = 1"
definition initialBestScore :: int where "initialBestScore = - (2 ^ 30)"

lemmas scoring_consts = aiScoreMin_def aiScoreMax_def penaltyWithin24h_def penaltyWithin48h_def
  bonusExpSoon_def bonusExpUpcoming_def

record Candidate =
  cand_ID :: uuid
  cand_Name :: string
  cand_Expiration :: time

definition clampedAIScore :: "(uuid \<rightharpoonup> int) \<Rightarrow> uuid \<Rightarrow> int" where
  "clampedAIScore aiScores i =
     (case aiScores i of
        None \<Rightarrow> 0
      | Some v \<Rightarrow> if v < aiScoreMin then aiScoreMin else if v > aiScoreMax then aiScoreMax else v)"

definition recentPenalty :: "(uuid \<rightharpoonup> time) \<Rightarrow> uuid \<Rightarrow> time \<Rightarrow> int" where
  "recentPenalty lastByTea i now =
     (case lastByTea i of
        None \<Rightarrow> 0
      | Some prev \<Rightarrow>
          let diff = time_Sub now prev
          in if diff \<le> recent24h then - penaltyWithin24h
             else if diff \<le> recent48h then - penaltyWithin48h else 0)"

definition expirationBonus :: "time \<Rightarrow> time \<Rightarrow> int" where
  "expirationBonus ex now =
     (if IsZero ex then 0
      else
        let delta = time_Sub ex now
        in if delta \<le> expSoonThreshold then bonusExpSoon
           else if delta \<le> expUpcomingThreshold then bonusExpUpcoming else 0)"

section \<open>Choosing\<close>

fun candidateName :: "Candidate list \<Rightarrow> uuid \<Rightarrow> string" where
  "candidateName [] i = []"
| "candidateName (c # cands) i = (if cand_ID c = i then cand_Name c else candidateName cands i)"

text \<open>The order of \<open>strings.Compare\<close> is the lexicographic order of the bytes.\<close>

definition betterCandidate ::
  "Candidate \<Rightarrow> int \<Rightarrow> Candidate \<Rightarrow> int \<Rightarrow> Candidate list \<Rightarrow> bool" where
  "betterCandidate cur currScore best bestScore candidates =
     (if currScore > bestScore then True
      else if currScore < bestScore then False
      else if \<not> IsZero (cand_Expiration cur)
              \<and> (IsZero (cand_Expiration best) \<or> cand_Expiration cur < cand_Expiration best) then True
      else if \<not> IsZero (cand_Expiration cur) \<and> cand_Expiration cur > cand_Expiration best then False
      else cand_Name cur < candidateName candidates (cand_ID best))"

definition candidate_score ::
  "(uuid \<rightharpoonup> int) \<Rightarrow> (uuid \<rightharpoonup> time) \<Rightarrow> time \<Rightarrow> Candidate \<Rightarrow> int" where
  "candidate_score aiScores lastByTea now c =
     0 + clampedAIScore aiScores (cand_ID c) + recentPenalty lastByTea (cand_ID c) now
       + expirationBonus (cand_Expiration c) now"

text \<open>The zero value \<open>Candidate{}\<close>.\<close>

definition zero_candidate :: Candidate where
  "zero_candidate = \<lparr>cand_ID = uuid_Nil, cand_Name = [], cand_Expiration = 0\<rparr>"

definition best_step ::
  "(Candidate \<Rightarrow> int) \<Rightarrow> Candidate list \<Rightarrow> Candidate \<Rightarrow> Candidate \<times> int \<Rightarrow> Candidate \<times> int" where
  "best_step score candidates c best =
     (if cand_ID (fst best) = uuid_Nil \<or> betterCandidate c (score c) (fst best) (snd best) candidates
      then (c, score c) else best)"

definition SelectBest ::
  "(uuid \<rightharpoonup> int) \<Rightarrow> Candidate list \<Rightarrow> (uuid \<rightharpoonup> time) \<Rightarrow> time \<Rightarrow> uuid \<times> int" where
  "SelectBest aiScores candidates lastByTea now =
     (case fold (best_step (candidate_score aiScores lastByTea now) candidates) candidates
             (zero_candidate, initialBestScore) of
        (best, bestScore) \<Rightarrow> (cand_ID best, bestScore))"

section \<open>The variant with logging\<close>

text \<open>
  The fields of a log call; \<open>show_id\<close> and \<open>fmt\<close> stand for \<open>ID.String\<close> and
  \<open>Format(time.RFC3339)\<close>. Reading a missing key of a Go map gives the zero value.
\<close>

record log_fields =
  lf_name :: string
  lf_id :: string
  lf_aiRaw :: int
  lf_aiClamped :: int
  lf_recentPenalty :: int
  lf_expirationBonus :: int
  lf_total :: int
  lf_lastConsumption :: string
  lf_expiration :: string

type_synonym log_call = "log_fields \<times> string"

definition formatTimeRFC3339OrDash :: "(time \<Rightarrow> string) \<Rightarrow> time \<Rightarrow> string" where
  "formatTimeRFC3339OrDash fmt t = (if IsZero t then ''-'' else fmt t)"

definition map_get :: "'v \<Rightarrow> ('k \<rightharpoonup> 'v) \<Rightarrow> 'k \<Rightarrow> 'v" where
  "map_get zero m k = (case m k of None \<Rightarrow> zero | Some v \<Rightarrow> v)"

definition candidate_fields ::
  "(uuid \<Rightarrow> string) \<Rightarrow> (time \<Rightarrow> string) \<Rightarrow> (uuid \<rightharpoonup> int) \<Rightarrow> (uuid \<rightharpoonup> time) \<Rightarrow> time \<Rightarrow> Candidate \<Rightarrow> log_fields" where
  "candidate_fields show_id fmt aiScores lastByTea now c =
     (let aiClamped = clampedAIScore aiScores (cand_ID c);
          recent = recentPenalty lastByTea (cand_ID c) now;
          expBonus = expirationBonus (cand_Expiration c) now
      in \<lparr>lf_name = cand_Name c, lf_id = show_id (cand_ID c),
          lf_aiRaw = map_get 0 aiScores (cand_ID c), lf_aiClamped = aiClamped,
          lf_recentPenalty = recent, lf_expirationBonus = expBonus,
          lf_total = aiClamped + recent + expBonus,
          lf_lastConsumption = formatTimeRFC3339OrDash fmt (map_get 0 lastByTea (cand_ID c)),
          lf_expiration = formatTimeRFC3339OrDash fmt (cand_Expiration c)\<rparr>)"

definition logging_step ::
  "(Candidate \<Rightarrow> log_fields) \<Rightarrow> (Candidate \<Rightarrow> int) \<Rightarrow> bool \<Rightarrow> Candidate list \<Rightarrow> Candidate \<Rightarrow>
     (Candidate \<times> int) \<times> log_call list \<Rightarrow> (Candidate \<times> int) \<times> log_call list" where
  "logging_step fld tot logs candidates c st =
     (let out = (if logs then snd st @ [(fld c, ''tea_of_day candidate'')] else snd st)
      in (if cand_ID (fst (fst st)) = uuid_Nil
             \<or> betterCandidate c (tot c) (fst (fst st)) (snd (fst st)) candidates
          then ((c, tot c), out) else (fst st, out)))"

definition SelectBestWithLogging ::
  "(uuid \<Rightarrow> string) \<Rightarrow> (time \<Rightarrow> string) \<Rightarrow> bool \<Rightarrow> (uuid \<rightharpoonup> int) \<Rightarrow> Candidate list \<Rightarrow>
     (uuid \<rightharpoonup> time) \<Rightarrow> time \<Rightarrow> (uuid \<times> int) \<times> log_call list" where
  "SelectBestWithLogging show_id fmt logs aiScores candidates lastByTea now =
     (let fld = candidate_fields show_id fmt aiScores lastByTea now;
          tot = (\<lambda>c. clampedAIScore aiScores (cand_ID c) + recentPenalty lastByTea (cand_ID c) now
                       + expirationBonus (cand_Expiration c) now)
      in case fold (logging_step fld tot logs candidates) candidates
                ((zero_candidate, initialBestScore), []) of
           ((best, bestScore), out) \<Rightarrow>
             ((cand_ID best, bestScore),
              if logs \<and> cand_ID best \<noteq> uuid_Nil then out @ [(fld best, ''tea_of_day selected'')]
              else out))"

section \<open>Bounds\<close>

lemma clampedAIScore_bounds: "0 \<le> clampedAIScore ai i \<and> clampedAIScore ai i \<le> 15"
  by (auto simp: clampedAIScore_def scoring_consts split: option.splits)

lemma recentPenalty_values: "recentPenalty l i now \<in> {-5, -3, 0}"
  by (auto simp: recentPenalty_def scoring_consts Let_def split: option.splits)

lemma expirationBonus_values: "expirationBonus ex now \<in> {0, 1, 3}"
  by (auto simp: expirationBonus_def scoring_consts Let_def)

lemma candidate_score_bounds:
  "- 5 \<le> candidate_score ai l now c \<and> candidate_score ai l now c \<le> 18"
  using clampedAIScore_bounds [of ai "cand_ID c"] recentPenalty_values [of l "cand_ID c" now]
    expirationBonus_values [of "cand_Expiration c" now]
  unfolding candidate_score_def by auto

text \<open>The saturation of \<open>Sub\<close> does not matter: the thresholds are within its range.\<close>

lemma recentPenalty_iff:
  "recentPenalty l i now =
     (case l i of None \<Rightarrow> 0 | Some prev \<Rightarrow>
        if now - prev \<le> recent24h then -5 else if now - prev \<le> recent48h then -3 else 0)"
  using time_Sub_le_iff [of recent24h now] time_Sub_le_iff [of recent48h now]
  by (simp add: recentPenalty_def scoring_consts Let_def recent24h_def recent48h_def Hour_def
      min_duration_def max_duration_def split: option.split)

section \<open>The best score wins\<close>

lemma betterCandidate_score:
  "betterCandidate c sc b sb cs \<Longrightarrow> sb \<le> sc"
  "\<not> betterCandidate c sc b sb cs \<Longrightarrow> sc \<le> sb"
  by (auto simp: betterCandidate_def split: if_splits)

lemma fold_best:
  assumes "\<forall>c \<in> set xs. cand_ID c \<noteq> uuid_Nil" and "cand_ID b \<noteq> uuid_Nil"
  shows "\<exists>c \<in> insert b (set xs). fold (best_step score cs) xs (b, score b) = (c, score c) \<and>
    (\<forall>x \<in> insert b (set xs). score x \<le> score c)"
  using assms
proof (induction xs arbitrary: b)
  case Nil
  then show ?case by simp
next
  case (Cons x xs)
  show ?case
  proof (cases "betterCandidate x (score x) b (score b) cs")
    case True
    then have step: "best_step score cs x (b, score b) = (x, score x)" by (simp add: best_step_def)
    have "score b \<le> score x" using True by (rule betterCandidate_score)
    moreover obtain c where "c \<in> insert x (set xs)" "fold (best_step score cs) xs (x, score x) = (c, score c)"
      "\<forall>y \<in> insert x (set xs). score y \<le> score c"
      using Cons.IH [of x] Cons.prems by auto
    ultimately show ?thesis using step by (auto intro!: bexI [of _ c])
  next
    case False
    with Cons.prems(2) have step: "best_step score cs x (b, score b) = (b, score b)"
      by (simp add: best_step_def)
    have "score x \<le> score b" using False by (rule betterCandidate_score)
    moreover obtain c where "c \<in> insert b (set xs)" "fold (best_step score cs) xs (b, score b) = (c, score c)"
      "\<forall>y \<in> insert b (set xs). score y \<le> score c"
      using Cons.IH [of b] Cons.prems by auto
    ultimately show ?thesis using step by (auto intro!: bexI [of _ c])
  qed
qed

text \<open>The first candidate replaces the zero value, whatever its score.\<close>

lemma SelectBest_Cons:
  "SelectBest ai (x # xs) l now =
     (case fold (best_step (candidate_score ai l now) (x # xs)) xs (x, candidate_score ai l now x) of
        (best, bestScore) \<Rightarrow> (cand_ID best, bestScore))"
  by (simp add: SelectBest_def best_step_def zero_candidate_def)

lemma SelectBest_Nil [simp]: "SelectBest ai [] l now = (uuid_Nil, initialBestScore)"
  by (simp add: SelectBest_def zero_candidate_def)

lemma SelectBest_best:
  assumes "cands \<noteq> []" and "\<forall>c \<in> set cands. cand_ID c \<noteq> uuid_Nil"
  shows "\<exists>c \<in> set cands. SelectBest ai cands l now = (cand_ID c, candidate_score ai l now c) \<and>
    (\<forall>x \<in> set cands. candidate_score ai l now x \<le> candidate_score ai l now c) \<and>
    - 5 \<le> candidate_score ai l now c \<and> candidate_score ai l now c \<le> 18"
proof -
  obtain x xs where cands: "cands = x # xs" using assms(1) by (cases cands) auto
  have "\<forall>c \<in> set xs. cand_ID c \<noteq> uuid_Nil" "cand_ID x \<noteq> uuid_Nil" using assms(2) cands by auto
  from fold_best [OF this, of "candidate_score ai l now" cands] obtain c where
    "c \<in> set cands" "fold (best_step (candidate_score ai l now) cands) xs (x, candidate_score ai l now x) =
      (c, candidate_score ai l now c)" "\<forall>y \<in> set cands. candidate_score ai l now y \<le> candidate_score ai l now c"
    using cands by auto
  with candidate_score_bounds [of ai l now c] show ?thesis
    by (intro bexI [of _ c]) (auto simp: cands SelectBest_Cons)
qed

text \<open>
  C29. Over a nonempty list of candidates with real identifiers, the selection returns one of
  them with its total score, no candidate has a higher total, and the total lies between -5
  and 18 whatever the AI answered.
\<close>

theorem SelectBest_maximal:
  assumes "cands \<noteq> []" and "\<forall>c \<in> set cands. cand_ID c \<noteq> uuid_Nil"
  shows "\<exists>c \<in> set cands. SelectBest ai cands l now = (cand_ID c, candidate_score ai l now c) \<and>
    (\<forall>x \<in> set cands. candidate_score ai l now x \<le> candidate_score ai l now c) \<and>
    - 5 \<le> candidate_score ai l now c \<and> candidate_score ai l now c \<le> 18"
  using assms by (rule SelectBest_best)

theorem SelectBest_maximal_witness:
  "let cands = [\<lparr>cand_ID = 1, cand_Name = ''a'', cand_Expiration = 0\<rparr>,
     \<lparr>cand_ID = 2, cand_Name = ''b'', cand_Expiration = 0\<rparr>]
   in \<exists>c \<in> set cands. SelectBest [2 \<mapsto> 9] cands Map.empty 1000 =
       (cand_ID c, candidate_score [2 \<mapsto> 9] Map.empty 1000 c) \<and> 9 \<le> candidate_score [2 \<mapsto> 9] Map.empty 1000 c"
proof -
  let ?cands = "[\<lparr>cand_ID = 1, cand_Name = ''a'', cand_Expiration = 0\<rparr>,
     \<lparr>cand_ID = 2, cand_Name = ''b'', cand_Expiration = 0\<rparr>]"
  have "?cands \<noteq> []" "\<forall>c \<in> set ?cands. cand_ID c \<noteq> uuid_Nil" by simp_all
  from SelectBest_maximal [OF this, of "[2 \<mapsto> 9]" Map.empty 1000] obtain c where c: "c \<in> set ?cands"
    "SelectBest [2 \<mapsto> 9] ?cands Map.empty 1000 = (cand_ID c, candidate_score [2 \<mapsto> 9] Map.empty 1000 c)"
    "\<forall>x \<in> set ?cands. candidate_score [2 \<mapsto> 9] Map.empty 1000 x \<le> candidate_score [2 \<mapsto> 9] Map.empty 1000 c"
    by blast
  have "candidate_score [2 \<mapsto> 9] Map.empty 1000 \<lparr>cand_ID = 2, cand_Name = ''b'', cand_Expiration = 0\<rparr> = 9"
    by (simp add: candidate_score_def clampedAIScore_def recentPenalty_def expirationBonus_def
        IsZero_def scoring_consts)
  with c(3) have "9 \<le> candidate_score [2 \<mapsto> 9] Map.empty 1000 c" by auto
  with c(1,2) show ?thesis unfolding Let_def by blast
qed

section \<open>Tie-breakers\<close>

text \<open>The order the tie-breakers are meant to be: score, then expiration, then name.\<close>

definition cand_le :: "(Candidate \<Rightarrow> int) \<Rightarrow> Candidate \<Rightarrow> Candidate \<Rightarrow> bool" where
  "cand_le score c d \<longleftrightarrow>
     score c > score d \<or> score c = score d \<and>
       (cand_Expiration c < cand_Expiration d \<or>
        cand_Expiration c = cand_Expiration d \<and> cand_Name c \<le> cand_Name d)"

lemma cand_le_refl [simp]: "cand_le score c c"
  by (simp add: cand_le_def)

lemma cand_le_trans: "cand_le score a b \<Longrightarrow> cand_le score b c \<Longrightarrow> cand_le score a c"
  by (auto simp: cand_le_def)

definition uniform_expiration :: "Candidate list \<Rightarrow> bool" where
  "uniform_expiration cands \<longleftrightarrow>
     (\<forall>c \<in> set cands. IsZero (cand_Expiration c)) \<or> (\<forall>c \<in> set cands. \<not> IsZero (cand_Expiration c))"

lemma candidateName_found:
  "distinct (map cand_ID cs) \<Longrightarrow> c \<in> set cs \<Longrightarrow> candidateName cs (cand_ID c) = cand_Name c"
  by (induction cs) (auto simp: image_iff)

lemma betterCandidate_order:
  assumes "uniform_expiration cs" and "distinct (map cand_ID cs)" and "c \<in> set cs" and "b \<in> set cs"
  shows "betterCandidate c (score c) b (score b) cs \<longleftrightarrow> \<not> cand_le score b c"
proof -
  have "IsZero (cand_Expiration c) \<longleftrightarrow> IsZero (cand_Expiration b)"
    using assms(1,3,4) by (auto simp: uniform_expiration_def)
  then show ?thesis
    using candidateName_found [OF assms(2,4)]
    by (auto simp: betterCandidate_def cand_le_def IsZero_def)
qed

lemma cand_le_total: "cand_le score b c \<or> cand_le score c b"
  by (auto simp: cand_le_def)

lemma fold_least:
  assumes "uniform_expiration cs" and "distinct (map cand_ID cs)"
    and "\<forall>c \<in> set cs. cand_ID c \<noteq> uuid_Nil" and "set xs \<subseteq> set cs" and "b \<in> set cs"
  shows "\<exists>c \<in> insert b (set xs). fold (best_step score cs) xs (b, score b) = (c, score c) \<and>
    (\<forall>x \<in> insert b (set xs). cand_le score c x)"
  using assms(4,5)
proof (induction xs arbitrary: b)
  case Nil
  then show ?case by simp
next
  case (Cons x xs)
  have b: "cand_ID b \<noteq> uuid_Nil" using Cons.prems(2) assms(3) by auto
  show ?case
  proof (cases "cand_le score b x")
    case False
    then have step: "best_step score cs x (b, score b) = (x, score x)"
      using betterCandidate_order [OF assms(1,2), of x b score] Cons.prems by (simp add: best_step_def)
    obtain c where "c \<in> insert x (set xs)" "fold (best_step score cs) xs (x, score x) = (c, score c)"
      "\<forall>y \<in> insert x (set xs). cand_le score c y"
      using Cons.IH [of x] Cons.prems by auto
    moreover have "cand_le score x b" using False cand_le_total by blast
    ultimately show ?thesis using step cand_le_trans by (auto intro!: bexI [of _ c])
  next
    case True
    then have step: "best_step score cs x (b, score b) = (b, score b)"
      using betterCandidate_order [OF assms(1,2), of x b score] Cons.prems b by (simp add: best_step_def)
    obtain c where "c \<in> insert b (set xs)" "fold (best_step score cs) xs (b, score b) = (c, score c)"
      "\<forall>y \<in> insert b (set xs). cand_le score c y"
      using Cons.IH [of b] Cons.prems by auto
    with True step cand_le_trans show ?thesis by (auto intro!: bexI [of _ c])
  qed
qed

text \<open>
  When either all candidates have an expiration date or none has, the selection is the
  least candidate in the intended order (highest score, then earliest expiration, then
  smallest name), so it does not depend on the order of the list except between candidates
  that agree in all three.
\<close>

theorem SelectBest_tie_breakers:
  assumes "cands \<noteq> []" and "\<forall>c \<in> set cands. cand_ID c \<noteq> uuid_Nil" and "distinct (map cand_ID cands)"
    and "uniform_expiration cands"
  shows "\<exists>c \<in> set cands. fst (SelectBest ai cands l now) = cand_ID c \<and>
    (\<forall>x \<in> set cands. cand_le (candidate_score ai l now) c x)"
proof -
  obtain x xs where cands: "cands = x # xs" using assms(1) by (cases cands) auto
  have sub: "set xs \<subseteq> set cands" "x \<in> set cands" using cands by auto
  from fold_least [OF assms(4,3,2) sub, of "candidate_score ai l now"] obtain c where
    "c \<in> set cands" "fold (best_step (candidate_score ai l now) cands) xs (x, candidate_score ai l now x) =
      (c, candidate_score ai l now c)" "\<forall>y \<in> set cands. cand_le (candidate_score ai l now) c y"
    using cands by auto
  then show ?thesis by (intro bexI [of _ c]) (auto simp: cands SelectBest_Cons)
qed

theorem SelectBest_tie_breakers_witness:
  "fst (SelectBest Map.empty [\<lparr>cand_ID = 1, cand_Name = ''b'', cand_Expiration = 0\<rparr>,
     \<lparr>cand_ID = 2, cand_Name = ''a'', cand_Expiration = 0\<rparr>] Map.empty 1000) = 2"
proof -
  let ?b = "\<lparr>cand_ID = 1, cand_Name = ''b'', cand_Expiration = 0\<rparr>"
  let ?a = "\<lparr>cand_ID = 2, cand_Name = ''a'', cand_Expiration = 0\<rparr>"
  have "[?b, ?a] \<noteq> []" "\<forall>c \<in> set [?b, ?a]. cand_ID c \<noteq> uuid_Nil" "distinct (map cand_ID [?b, ?a])"
    "uniform_expiration [?b, ?a]"
    by (simp_all add: uniform_expiration_def IsZero_def)
  from SelectBest_tie_breakers [OF this, of Map.empty Map.empty 1000] obtain c where
    c: "c \<in> set [?b, ?a]" "fst (SelectBest Map.empty [?b, ?a] Map.empty 1000) = cand_ID c"
      "\<forall>x \<in> set [?b, ?a]. cand_le (candidate_score Map.empty Map.empty 1000) c x"
    by blast
  have "\<not> cand_le (candidate_score Map.empty Map.empty 1000) ?b ?a"
    by (simp add: cand_le_def candidate_score_def clampedAIScore_def recentPenalty_def
        expirationBonus_def IsZero_def less_list_code less_char_def)
  with c show ?thesis by auto
qed

text \<open>
  With mixed candidates the tie-breakers are not an order: two candidates of equal score,
  one with and one without an expiration date, can each win, depending on which comes first
  in the list, because the comparison falls through to the names when the current candidate
  has no date and the best one has.
\<close>

theorem SelectBest_order_dependent:
  "\<exists>a b now. fst (SelectBest Map.empty [a, b] Map.empty now) = cand_ID b \<and>
     fst (SelectBest Map.empty [b, a] Map.empty now) = cand_ID a \<and>
     candidate_score Map.empty Map.empty now a = candidate_score Map.empty Map.empty now b \<and>
     cand_ID a \<noteq> cand_ID b \<and> cand_ID a \<noteq> uuid_Nil \<and> cand_ID b \<noteq> uuid_Nil"
proof -
  let ?a = "\<lparr>cand_ID = 1, cand_Name = ''a'', cand_Expiration = 0\<rparr>"
  let ?b = "\<lparr>cand_ID = 2, cand_Name = ''b'', cand_Expiration = 60 * 24 * Hour\<rparr>"
  have s: "candidate_score Map.empty Map.empty 1 ?a = 0" "candidate_score Map.empty Map.empty 1 ?b = 0"
    by (simp_all add: candidate_score_def clampedAIScore_def recentPenalty_def expirationBonus_def
        IsZero_def time_Sub_def max_duration_def min_duration_def expSoonThreshold_def
        expUpcomingThreshold_def Hour_def)
  have "betterCandidate ?b 0 ?a 0 cs" for cs
    by (simp add: betterCandidate_def IsZero_def Hour_def)
  moreover have "betterCandidate ?a 0 ?b 0 [?b, ?a]"
    by (simp add: betterCandidate_def IsZero_def Hour_def less_list_code less_char_def)
  ultimately show ?thesis
    using s by (intro exI [of _ ?a] exI [of _ ?b] exI [of _ 1]) (simp add: SelectBest_Cons best_step_def)
qed

section \<open>Logging changes nothing\<close>

lemma fold_logging:
  "fst (fold (logging_step fld tot logs cs) xs (p, out)) = fold (best_step tot cs) xs p \<and>
   snd (fold (logging_step fld tot logs cs) xs (p, out)) =
     out @ (if logs then map (\<lambda>c. (fld c, ''tea_of_day candidate'')) xs else [])"
proof (induction xs arbitrary: p out)
  case (Cons x xs)
  have "logging_step fld tot logs cs x (p, out) =
      (best_step tot cs x p, out @ (if logs then [(fld x, ''tea_of_day candidate'')] else []))"
    by (cases p) (simp add: logging_step_def best_step_def Let_def)
  with Cons.IH show ?case by simp
qed simp

text \<open>
  The logging variant selects the same tea with the same score as the plain one, with or
  without a log function, and with one it logs every candidate once in order and then the
  selected one.
\<close>

lemma SelectBestWithLogging_same:
  "fst (SelectBestWithLogging show_id fmt logs ai cands l now) = SelectBest ai cands l now \<and>
   map snd (snd (SelectBestWithLogging show_id fmt logs ai cands l now)) =
     (if logs then replicate (length cands) ''tea_of_day candidate'' @
        (if fst (SelectBest ai cands l now) \<noteq> uuid_Nil then [''tea_of_day selected''] else []) else [])"
proof -
  have tot: "(\<lambda>c. clampedAIScore ai (cand_ID c) + recentPenalty l (cand_ID c) now +
      expirationBonus (cand_Expiration c) now) = candidate_score ai l now"
    by (simp add: candidate_score_def fun_eq_iff)
  let ?f = "candidate_fields show_id fmt ai l now"
  have "fst (fold (logging_step ?f (candidate_score ai l now) logs cands) cands ((zero_candidate, initialBestScore), [])) =
      fold (best_step (candidate_score ai l now) cands) cands (zero_candidate, initialBestScore)"
    and "snd (fold (logging_step ?f (candidate_score ai l now) logs cands) cands ((zero_candidate, initialBestScore), [])) =
      (if logs then map (\<lambda>c. (?f c, ''tea_of_day candidate'')) cands else [])"
    by (simp_all add: fold_logging)
  then show ?thesis
    by (auto simp: SelectBestWithLogging_def SelectBest_def tot Let_def comp_def map_replicate_const
        split: prod.splits)
qed

end
