(* ===== verification/Tea_Of_The_Day.thy ===== *)
theory Tea_Of_The_Day
  imports Resolver_Laws Scoring
begin

text \<open>
  The query \<open>teaOfTheDay\<close> (\<open>pkg/api/v2/graphql/schema.resolvers.go\<close>), which composes the
  cache, the collections, the weather, the consumption store, the adviser and the scoring, and
  the weather service (\<open>internal/openweather\<close>). The lemmas show that the loop over the records
  keeps one candidate per tea with its earliest expiration, that the answer is a record of the
  user's own collections whatever the best-effort services do, that it is the same for the rest
  of the day, and that teas whose names agree share one score.
\<close>

section \<open>Weather\<close>

text \<open>The library's answer to \<open>NewCurrent\<close> and \<open>CurrentByName\<close>; \<open>z\<close> is the zero of \<open>float64\<close>.\<close>

record 'f owm_data =
  Main_Temp :: 'f
  Clouds_All :: int
  Rain_OneH :: 'f
  Main_Humidity :: int
  Wind_Speed :: 'f
  Visibility :: int

definition zero_weather :: "'f \<Rightarrow> 'f Weather" where
  "zero_weather z = \<lparr>w_Temperature = z, w_Clouds = 0, w_Rain = z, w_Humidity = 0, w_WindSpeed = z, w_Visibility = 0\<rparr>"

text \<open>A Go function with two results: the value is there also when there is an error.\<close>

definition CurrentCyprus ::
    "'f \<Rightarrow> (string \<Rightarrow> gerr + 'd) \<Rightarrow> (string \<Rightarrow> 'd \<Rightarrow> gerr + 'f owm_data) \<Rightarrow> string \<Rightarrow> 'f Weather \<times> gerr option" where
  "CurrentCyprus z NewCurrent CurrentByName key =
     (case NewCurrent key of
        Inl err \<Rightarrow> (zero_weather z, Some err)
      | Inr d \<Rightarrow>
          (case CurrentByName ''Pegeia'' d of
             Inl err \<Rightarrow> (zero_weather z, Some err)
           | Inr x \<Rightarrow>
               (\<lparr>w_Temperature = Main_Temp x, w_Clouds = Clouds_All x, w_Rain = Rain_OneH x,
                 w_Humidity = Main_Humidity x, w_WindSpeed = Wind_Speed x, w_Visibility = Visibility x\<rparr>, None)))"

text \<open>The text of the weather; \<open>fmt_f\<close> and \<open>fmt_d\<close> are the verbs \<open>%f\<close> and \<open>%d\<close>.\<close>

definition Rain_String :: "('f \<Rightarrow> bool) \<Rightarrow> ('f \<Rightarrow> string) \<Rightarrow> 'f \<Rightarrow> string" where
  "Rain_String positive fmt_f r = (if positive r then ''rain is '' @ fmt_f r @ '' mm/h'' else ''no rain'')"

definition Weather_String :: "('f \<Rightarrow> bool) \<Rightarrow> ('f \<Rightarrow> string) \<Rightarrow> (int \<Rightarrow> string) \<Rightarrow> 'f Weather \<Rightarrow> string" where
  "Weather_String positive fmt_f fmt_d w =
     ''temperature is '' @ fmt_f (w_Temperature w) @ '', clouds percent is '' @ fmt_d (w_Clouds w) @ '', '' @
     Rain_String positive fmt_f (w_Rain w) @ '', humidity level is '' @ fmt_d (w_Humidity w) @
     '', wind speed is '' @ fmt_f (w_WindSpeed w) @ '' meter/sec,, visibility is '' @
     fmt_d (w_Visibility w) @ '' meters''"

section \<open>Candidates\<close>

text \<open>The five variables the loop over the records fills.\<close>

record tod_acc =
  acc_earliestRec :: "uuid \<rightharpoonup> QRRecord"
  acc_candidates :: "Candidate list"
  acc_names :: "string list"
  acc_nameToID :: "string \<rightharpoonup> uuid"
  acc_idToIdx :: "uuid \<rightharpoonup> nat"

definition tod_empty :: tod_acc where
  "tod_empty = \<lparr>acc_earliestRec = Map.empty, acc_candidates = [], acc_names = [],
     acc_nameToID = Map.empty, acc_idToIdx = Map.empty\<rparr>"

text \<open>\<open>norm\<close> is \<open>strings.ToLower(strings.TrimSpace(name))\<close>.\<close>

definition tod_step :: "(string \<Rightarrow> string) \<Rightarrow> QRRecord \<Rightarrow> tod_acc \<Rightarrow> tod_acc" where
  "tod_step norm rec acc =
     (case qrr_Tea rec of
        None \<Rightarrow> acc
      | Some tea \<Rightarrow>
          let uid = gtea_ID tea; name = gtea_Name tea
          in (case acc_earliestRec acc uid of
                None \<Rightarrow>
                  acc\<lparr>acc_earliestRec := (acc_earliestRec acc)(uid \<mapsto> rec),
                    acc_candidates := acc_candidates acc @
                      [\<lparr>cand_ID = uid, cand_Name = name, cand_Expiration = qrr_ExpirationDate rec\<rparr>],
                    acc_idToIdx := (acc_idToIdx acc)(uid \<mapsto> length (acc_candidates acc)),
                    acc_names := acc_names acc @ [name],
                    acc_nameToID := (acc_nameToID acc)(norm name \<mapsto> uid)\<rparr>
              | Some prev \<Rightarrow>
                  if qrr_ExpirationDate rec < qrr_ExpirationDate prev then
                    acc\<lparr>acc_earliestRec := (acc_earliestRec acc)(uid \<mapsto> rec),
                      acc_candidates :=
                        (case acc_idToIdx acc uid of
                           None \<Rightarrow> acc_candidates acc
                         | Some idx \<Rightarrow> (acc_candidates acc)
                             [idx := (acc_candidates acc ! idx)\<lparr>cand_Expiration := qrr_ExpirationDate rec\<rparr>])\<rparr>
                  else acc))"

fun collect_teas ::
    "(string \<Rightarrow> string) \<Rightarrow> ('f, 'c) server \<Rightarrow> AuthUser \<Rightarrow> GCollection list \<Rightarrow> tod_acc \<Rightarrow> ('c, tod_acc) resolver" where
  "collect_teas norm sv user [] acc = okR acc"
| "collect_teas norm sv user (c # cols) acc =
     bindR (db_call castGQLError (coll_ListRecords (sv_colls sv) (gcol_ID c) (user_ID user))) (\<lambda>records.
     collect_teas norm sv user cols (fold (tod_step norm) records acc))"

section \<open>The query\<close>

text \<open>
  What else the resolver uses: the zero of \<open>float64\<close>, whether there is a logger, and the order
  in which \<open>range\<close> visits the keys of the map of scores.
\<close>

record 'f tod_env =
  te_norm :: "string \<Rightarrow> string"
  te_order :: "(string \<rightharpoonup> int) \<Rightarrow> string list"
  te_zero :: 'f
  te_log :: bool
  te_show_id :: "uuid \<Rightarrow> string"
  te_fmt :: "time \<Rightarrow> string"

definition last_by :: "Consumption list \<Rightarrow> uuid \<rightharpoonup> time" where
  "last_by recent = fold (\<lambda>c m.
     (case m (con_TeaID c) of
        None \<Rightarrow> m(con_TeaID c \<mapsto> con_Time c)
      | Some t \<Rightarrow> if t < con_Time c then m(con_TeaID c \<mapsto> con_Time c) else m)) recent Map.empty"

definition ai_scores :: "'f tod_env \<Rightarrow> (string \<rightharpoonup> uuid) \<Rightarrow> (string \<rightharpoonup> int) \<Rightarrow> uuid \<rightharpoonup> int" where
  "ai_scores te nameToID ctxScores = fold (\<lambda>name m.
     (case ctxScores name of
        None \<Rightarrow> m
      | Some score \<Rightarrow>
          (case nameToID (te_norm te name) of None \<Rightarrow> m | Some i \<Rightarrow> m(i \<mapsto> score))))
     (te_order te ctxScores) Map.empty"

text \<open>A call whose error is logged and replaced by a default.\<close>

definition best_effort :: "'a \<Rightarrow> 'a query \<Rightarrow> ('c, 'a) resolver" where
  "best_effort dflt m a =
     (case m (ap_db a) of
        (Inl _, d) \<Rightarrow> (Reply (Inr dflt), a\<lparr>ap_db := d\<rparr>)
      | (Inr x, d) \<Rightarrow> (Reply (Inr x), a\<lparr>ap_db := d\<rparr>))"

definition best_scores :: "(string \<rightharpoonup> int) call \<Rightarrow> ('c, string \<rightharpoonup> int) resolver" where
  "best_scores c a =
     (case c of
        Panic \<Rightarrow> (Panicked, a)
      | Ret (Inl _) \<Rightarrow> (Reply (Inr Map.empty), a)
      | Ret (Inr m) \<Rightarrow> (Reply (Inr m), a))"

definition tod_weather :: "'f tod_env \<Rightarrow> 'f world \<Rightarrow> 'f Weather" where
  "tod_weather te wd = (case wd_weather wd of Inl _ \<Rightarrow> zero_weather (te_zero te) | Inr w \<Rightarrow> w)"

definition select_tea ::
    "'f tod_env \<Rightarrow> (uuid \<rightharpoonup> int) \<Rightarrow> Candidate list \<Rightarrow> (uuid \<rightharpoonup> time) \<Rightarrow> time \<Rightarrow> uuid" where
  "select_tea te aiScores candidates lastBy now =
     (if te_log te
      then fst (fst (SelectBestWithLogging (te_show_id te) (te_fmt te) True aiScores candidates lastBy now))
      else fst (SelectBest aiScores candidates lastBy now))"

definition tod_get :: "uuid \<Rightarrow> time \<Rightarrow> ('c, TeaOfTheDay option) resolver" where
  "tod_get user now a =
     (case cache_Get user now (ap_cache a) of (r, items) \<Rightarrow> (Reply (Inr r), a\<lparr>ap_cache := items\<rparr>))"

definition tod_set :: "duration \<Rightarrow> uuid \<Rightarrow> TeaOfTheDay \<Rightarrow> time \<Rightarrow> ('c, unit) resolver" where
  "tod_set off user v now a = (Reply (Inr ()), a\<lparr>ap_cache := cache_Set off user v now (ap_cache a)\<rparr>)"

text \<open>The log entry of a cached answer reads the name of its tea.\<close>

definition tod_cached :: "'f tod_env \<Rightarrow> TeaOfTheDay \<Rightarrow> ('c, TeaOfTheDay) resolver" where
  "tod_cached te v =
     (case tod_Tea v of
        None \<Rightarrow> if te_log te then (\<lambda>a. (Panicked, a)) else okR v
      | Some rec \<Rightarrow> if te_log te \<and> qrr_Tea rec = None then (\<lambda>a. (Panicked, a)) else okR v)"

text \<open>The end of the query, once the best tea is known.\<close>

definition tod_finish ::
    "('f, 'c) server \<Rightarrow> AuthUser \<Rightarrow> time \<Rightarrow> tod_acc \<Rightarrow> uuid \<Rightarrow> ('c, TeaOfTheDay) resolver" where
  "tod_finish sv user now acc bestID =
     (if bestID = uuid_Nil then failR (PlainError (Sentinel ErrNoTeaCandidates))
      else
        bindR (best_effort () (ps_Record (sv_pg sv) (sv_consumption sv) (user_ID user) bestID now)) (\<lambda>_.
        (case acc_earliestRec acc bestID of
           None \<Rightarrow> failR (PlainError (Sentinel ErrNoTeaCandidates))
         | Some qrr \<Rightarrow>
             let res = \<lparr>tod_Tea = Some qrr, tod_Date = now\<rparr>
             in bindR (tod_set (sv_offset sv) (user_ID user) res now) (\<lambda>_. okR res))))"

definition tod_choose ::
    "'f tod_env \<Rightarrow> ('f, 'c) server \<Rightarrow> 'f world \<Rightarrow> AuthUser \<Rightarrow> ('c, TeaOfTheDay) resolver" where
  "tod_choose te sv wd user =
     bindR (db_call castGQLError (coll_List (sv_colls sv) (user_ID user))) (\<lambda>cols.
     bindR (collect_teas (te_norm te) sv user cols tod_empty) (\<lambda>acc.
     if acc_earliestRec acc = Map.empty then failR (PlainError (Sentinel ErrNoTeas))
     else
       bindR (best_effort [] (ps_Recent (sv_pg sv) (sv_consumption sv) (user_ID user) (wd_now wd - 96 * Hour))) (\<lambda>recent.
       bindR (best_scores (ContextScores (wd_chat wd) (sv_contextTmpl sv) (sv_unmarshal sv) (sv_trunc sv)
                (acc_names acc) (tod_weather te wd) (sv_weekday sv (wd_now wd)))) (\<lambda>ctxScores.
       tod_finish sv user (wd_now wd) acc
         (select_tea te (ai_scores te (acc_nameToID acc) ctxScores) (acc_candidates acc)
            (last_by recent) (wd_now wd))))))"

definition r_TeaOfTheDay ::
    "'f tod_env \<Rightarrow> ('f, 'c) server \<Rightarrow> request_ctx \<Rightarrow> 'f world \<Rightarrow> ('c, TeaOfTheDay) resolver" where
  "r_TeaOfTheDay te sv ctx wd = as_user ctx (\<lambda>user.
     bindR (tod_get (user_ID user) (wd_now wd)) (\<lambda>cached.
     (case cached of
        Some v \<Rightarrow> tod_cached te v
      | None \<Rightarrow> tod_choose te sv wd user)))"

section \<open>One candidate per tea\<close>

text \<open>The records of a tea, and what the variables hold after some records.\<close>

definition of_tea :: "uuid \<Rightarrow> QRRecord \<Rightarrow> bool" where
  "of_tea i rec \<longleftrightarrow> (\<exists>t. qrr_Tea rec = Some t \<and> gtea_ID t = i)"

definition earliest_of :: "QRRecord list \<Rightarrow> uuid \<Rightarrow> QRRecord \<Rightarrow> bool" where
  "earliest_of recs i rec \<longleftrightarrow> rec \<in> set recs \<and> of_tea i rec \<and>
     (\<forall>r \<in> set recs. of_tea i r \<longrightarrow> qrr_ExpirationDate rec \<le> qrr_ExpirationDate r)"

definition tod_inv :: "(string \<Rightarrow> string) \<Rightarrow> QRRecord list \<Rightarrow> tod_acc \<Rightarrow> bool" where
  "tod_inv norm recs acc \<longleftrightarrow>
     distinct (map cand_ID (acc_candidates acc)) \<and>
     cand_ID ` set (acc_candidates acc) = dom (acc_earliestRec acc) \<and>
     (\<forall>i rec. acc_earliestRec acc i = Some rec \<longrightarrow> earliest_of recs i rec) \<and>
     (\<forall>r \<in> set recs. \<forall>i. of_tea i r \<longrightarrow> i \<in> dom (acc_earliestRec acc)) \<and>
     (\<forall>c \<in> set (acc_candidates acc). \<forall>rec. acc_earliestRec acc (cand_ID c) = Some rec \<longrightarrow>
        cand_Expiration c = qrr_ExpirationDate rec) \<and>
     (\<forall>i k. acc_idToIdx acc i = Some k \<longleftrightarrow>
        k < length (acc_candidates acc) \<and> cand_ID (acc_candidates acc ! k) = i) \<and>
     (\<forall>n i. acc_nameToID acc n = Some i \<longrightarrow>
        (\<exists>c \<in> set (acc_candidates acc). cand_ID c = i \<and> norm (cand_Name c) = n)) \<and>
     acc_names acc = map cand_Name (acc_candidates acc)"

lemma tod_inv_empty: "tod_inv norm [] tod_empty"
  by (simp add: tod_inv_def tod_empty_def)

lemma of_tea_unique: "of_tea i r \<Longrightarrow> of_tea j r \<Longrightarrow> i = j"
  by (auto simp: of_tea_def)

lemma earliest_of_snoc:
  "earliest_of recs i rec \<Longrightarrow> (of_tea i r \<Longrightarrow> qrr_ExpirationDate rec \<le> qrr_ExpirationDate r) \<Longrightarrow>
     earliest_of (recs @ [r]) i rec"
  by (auto simp: earliest_of_def)

lemma earliest_of_new:
  "of_tea i r \<Longrightarrow> (\<forall>r' \<in> set recs. \<not> of_tea i r') \<Longrightarrow> earliest_of (recs @ [r]) i r"
  by (auto simp: earliest_of_def)

lemma earliest_of_less:
  "earliest_of recs i prev \<Longrightarrow> of_tea i r \<Longrightarrow> qrr_ExpirationDate r < qrr_ExpirationDate prev \<Longrightarrow>
     earliest_of (recs @ [r]) i r"
  by (force simp: earliest_of_def)

text \<open>The three branches of the loop body.\<close>

lemma tod_step_none: "qrr_Tea rec = None \<Longrightarrow> tod_step norm rec acc = acc"
  by (simp add: tod_step_def)

lemma tod_inv_none:
  "tod_inv norm recs acc \<Longrightarrow> qrr_Tea rec = None \<Longrightarrow> tod_inv norm (recs @ [rec]) acc"
  unfolding tod_inv_def by (auto simp: of_tea_def intro!: earliest_of_snoc)

lemma tod_inv_first:
  assumes inv: "tod_inv norm recs acc" and tea: "qrr_Tea rec = Some tea"
    and new: "acc_earliestRec acc (gtea_ID tea) = None"
  shows "tod_inv norm (recs @ [rec]) (tod_step norm rec acc)"
proof -
  let ?i = "gtea_ID tea"
  have i: "of_tea j rec \<longleftrightarrow> j = ?i" for j using tea by (auto simp: of_tea_def)
  have fresh: "\<forall>c \<in> set (acc_candidates acc). cand_ID c \<noteq> ?i" "\<forall>r \<in> set recs. \<not> of_tea ?i r"
    using inv new unfolding tod_inv_def by (metis domIff image_eqI)+
  have step: "tod_step norm rec acc =
      acc\<lparr>acc_earliestRec := (acc_earliestRec acc)(?i \<mapsto> rec),
        acc_candidates := acc_candidates acc @
          [\<lparr>cand_ID = ?i, cand_Name = gtea_Name tea, cand_Expiration = qrr_ExpirationDate rec\<rparr>],
        acc_idToIdx := (acc_idToIdx acc)(?i \<mapsto> length (acc_candidates acc)),
        acc_names := acc_names acc @ [gtea_Name tea],
        acc_nameToID := (acc_nameToID acc)(norm (gtea_Name tea) \<mapsto> ?i)\<rparr>"
    using tea new by (simp add: tod_step_def Let_def)
  have idx: "(if j = ?i then Some (length (acc_candidates acc)) else acc_idToIdx acc j) = Some k \<longleftrightarrow>
      k < Suc (length (acc_candidates acc)) \<and>
      cand_ID ((acc_candidates acc @
        [\<lparr>cand_ID = ?i, cand_Name = gtea_Name tea, cand_Expiration = qrr_ExpirationDate rec\<rparr>]) ! k) = j" for j k
  proof -
    have "acc_idToIdx acc j = Some k \<longleftrightarrow> k < length (acc_candidates acc) \<and> cand_ID (acc_candidates acc ! k) = j"
      using inv by (simp add: tod_inv_def)
    moreover have "k < length (acc_candidates acc) \<Longrightarrow> cand_ID (acc_candidates acc ! k) \<noteq> ?i"
      using fresh(1) nth_mem by blast
    ultimately show ?thesis by (auto simp: nth_append less_Suc_eq)
  qed
  show ?thesis
    unfolding tod_inv_def
  proof (intro conjI)
    show "\<forall>i r. acc_earliestRec (tod_step norm rec acc) i = Some r \<longrightarrow> earliest_of (recs @ [rec]) i r"
      using inv fresh(2) by (auto simp: step tod_inv_def i intro!: earliest_of_snoc earliest_of_new)
    show "\<forall>c \<in> set (acc_candidates (tod_step norm rec acc)). \<forall>r.
        acc_earliestRec (tod_step norm rec acc) (cand_ID c) = Some r \<longrightarrow> cand_Expiration c = qrr_ExpirationDate r"
      using inv fresh(1) by (auto simp: step tod_inv_def image_iff)
    show "\<forall>j k. acc_idToIdx (tod_step norm rec acc) j = Some k \<longleftrightarrow>
        k < length (acc_candidates (tod_step norm rec acc)) \<and>
        cand_ID (acc_candidates (tod_step norm rec acc) ! k) = j"
      using idx by (simp add: step)
  qed (use inv fresh new in \<open>auto simp: step tod_inv_def i\<close>)
qed

text \<open>The candidate of a tea takes over an earlier expiration; candidates have distinct teas.\<close>

definition expires :: "uuid \<Rightarrow> time \<Rightarrow> Candidate \<Rightarrow> Candidate" where
  "expires i e c = (if cand_ID c = i then c\<lparr>cand_Expiration := e\<rparr> else c)"

lemma expires_sel [simp]:
  "cand_ID (expires i e c) = cand_ID c" "cand_Name (expires i e c) = cand_Name c"
  "cand_Expiration (expires i e c) = (if cand_ID c = i then e else cand_Expiration c)"
  by (simp_all add: expires_def)

lemma update_by_id:
  assumes "distinct (map cand_ID cs)" and "k < length cs" and "cand_ID (cs ! k) = i"
  shows "cs[k := (cs ! k)\<lparr>cand_Expiration := e\<rparr>] = map (expires i e) cs"
proof (rule nth_equalityI)
  fix j assume j: "j < length (cs[k := (cs ! k)\<lparr>cand_Expiration := e\<rparr>])"
  show "cs[k := (cs ! k)\<lparr>cand_Expiration := e\<rparr>] ! j = map (expires i e) cs ! j"
  proof (cases "j = k")
    case False
    with j assms have "cand_ID (cs ! j) \<noteq> i" by (metis length_list_update length_map nth_eq_iff_index_eq nth_map)
    with False j show ?thesis by (simp add: expires_def)
  qed (use assms j in \<open>simp add: expires_def\<close>)
qed simp

lemma tod_step_earlier:
  assumes inv: "tod_inv norm recs acc" and tea: "qrr_Tea rec = Some tea"
    and old: "acc_earliestRec acc (gtea_ID tea) = Some prev"
    and less: "qrr_ExpirationDate rec < qrr_ExpirationDate prev"
  shows "tod_step norm rec acc =
    acc\<lparr>acc_earliestRec := (acc_earliestRec acc)(gtea_ID tea \<mapsto> rec),
      acc_candidates := map (expires (gtea_ID tea) (qrr_ExpirationDate rec)) (acc_candidates acc)\<rparr>"
proof -
  have "gtea_ID tea \<in> cand_ID ` set (acc_candidates acc)" using inv old by (auto simp: tod_inv_def)
  then obtain k where k: "k < length (acc_candidates acc)" "cand_ID (acc_candidates acc ! k) = gtea_ID tea"
    by (auto simp: in_set_conv_nth)
  then have "acc_idToIdx acc (gtea_ID tea) = Some k" using inv by (simp add: tod_inv_def)
  moreover have "distinct (map cand_ID (acc_candidates acc))" using inv by (simp add: tod_inv_def)
  ultimately show ?thesis
    using tea old less update_by_id [OF _ k] by (simp add: tod_step_def Let_def)
qed

lemma tod_inv_earlier:
  assumes inv: "tod_inv norm recs acc" and tea: "qrr_Tea rec = Some tea"
    and old: "acc_earliestRec acc (gtea_ID tea) = Some prev"
    and less: "qrr_ExpirationDate rec < qrr_ExpirationDate prev"
  shows "tod_inv norm (recs @ [rec]) (tod_step norm rec acc)"
proof -
  let ?i = "gtea_ID tea"
  have i: "of_tea j rec \<longleftrightarrow> j = ?i" for j using tea by (auto simp: of_tea_def)
  note step = tod_step_earlier [OF assms]
  have "earliest_of (recs @ [rec]) j r" if "acc_earliestRec (tod_step norm rec acc) j = Some r" for j r
  proof (cases "j = ?i")
    case True
    with that have "r = rec" by (simp add: step)
    moreover have "earliest_of recs ?i prev" using inv old by (simp add: tod_inv_def)
    ultimately show ?thesis using True earliest_of_less [of recs ?i prev rec] i less by simp
  next
    case False
    with that inv have "earliest_of recs j r" by (simp add: step tod_inv_def)
    then show ?thesis using False i by (intro earliest_of_snoc) simp_all
  qed
  moreover have "\<exists>c \<in> set (acc_candidates (tod_step norm rec acc)). cand_ID c = j \<and> norm (cand_Name c) = n"
    if "acc_nameToID acc n = Some j" for n j
  proof -
    from inv that obtain c where "c \<in> set (acc_candidates acc)" "cand_ID c = j" "norm (cand_Name c) = n"
      unfolding tod_inv_def by blast
    then show ?thesis
      by (intro bexI [where x = "expires ?i (qrr_ExpirationDate rec) c"]) (auto simp: step)
  qed
  ultimately show ?thesis
    using inv old by (auto simp: tod_inv_def step comp_def i image_image)
qed

lemma tod_inv_again:
  assumes inv: "tod_inv norm recs acc" and tea: "qrr_Tea rec = Some tea"
    and old: "acc_earliestRec acc (gtea_ID tea) = Some prev"
  shows "tod_inv norm (recs @ [rec]) (tod_step norm rec acc)"
proof (cases "qrr_ExpirationDate rec < qrr_ExpirationDate prev")
  case False
  have "of_tea j rec \<longleftrightarrow> j = gtea_ID tea" for j using tea by (auto simp: of_tea_def)
  moreover have "tod_step norm rec acc = acc" using tea old False by (simp add: tod_step_def Let_def)
  ultimately show ?thesis using inv old False by (auto simp: tod_inv_def intro!: earliest_of_snoc)
qed (use assms tod_inv_earlier in blast)

lemma tod_inv_step: "tod_inv norm recs acc \<Longrightarrow> tod_inv norm (recs @ [rec]) (tod_step norm rec acc)"
  by (cases "qrr_Tea rec"; cases "acc_earliestRec acc (gtea_ID (the (qrr_Tea rec)))")
    (auto simp: tod_step_none tod_inv_none tod_inv_first tod_inv_again)

lemma tod_inv_fold: "tod_inv norm recs acc \<Longrightarrow> tod_inv norm (recs @ recs') (fold (tod_step norm) recs' acc)"
proof (induction recs' arbitrary: recs acc)
  case Nil
  then show ?case by simp
next
  case (Cons r recs')
  from Cons.IH [OF tod_inv_step [OF Cons.prems, of r]] show ?case by simp
qed

section \<open>What the query reads\<close>

text \<open>An item of one of the user's collections, and the record the query sees for it.\<close>

definition own_item :: "pgdb \<Rightarrow> uuid \<Rightarrow> uuid \<Rightarrow> bool" where
  "own_item d u x \<longleftrightarrow> (\<exists>c \<in> set (db_colls d). k_user c = u \<and> (k_id c, x) \<in> set (db_items d))"

definition tod_records :: "pgdb \<Rightarrow> uuid \<Rightarrow> QRRecord list" where
  "tod_records d u = concat (map (\<lambda>col. map graph_record (collection_records d (col_ID col))) (user_collections d u))"

lemma tables_sel [simp]:
  "db_colls (tables d) = db_colls d" "db_items (tables d) = db_items d" "db_teas (tables d) = db_teas d"
  "db_qrs (tables d) = db_qrs d" "db_users (tables d) = db_users d" "db_cons (tables d) = db_cons d"
  "tables (d\<lparr>db_stmts := n\<rparr>) = tables d"
  by (simp_all add: tables_def)

lemma db_ok_tables [simp]: "db_ok env (tables d) = db_ok env d"
  by (simp add: tables_def)

lemma tables_eqD: "tables d' = tables d \<Longrightarrow> d' = d\<lparr>db_stmts := db_stmts d'\<rparr>"
  by (cases d; cases d') (simp add: tables_def)

lemma views_stmts [simp]:
  "collection_records (d\<lparr>db_stmts := n\<rparr>) = collection_records d"
  "user_collections (d\<lparr>db_stmts := n\<rparr>) = user_collections d"
  "own_item (d\<lparr>db_stmts := n\<rparr>) u = own_item d u"
  "record_for (d\<lparr>db_stmts := n\<rparr>) = record_for d"
  "tod_records (d\<lparr>db_stmts := n\<rparr>) = tod_records d"
  by (simp_all add: fun_eq_iff collection_records_def collection_rows_def user_collections_def own_item_def
      record_for_def the_qr_def the_tea_def tod_records_def)

lemma collection_records_set:
  assumes "db_ok env d"
  shows "set (collection_records d c) = record_for d ` {x. (c, x) \<in> set (db_items d)}"
proof -
  have "set (collection_records d c) = record_of_rows ` set (collection_rows d c)"
    by (simp add: collection_records_def)
  also have "\<dots> = record_for d ` snd ` {p \<in> set (db_items d). fst p = c}"
    unfolding collection_rows_def join_items [OF assms] by (simp add: image_image record_for_def)
  also have "snd ` {p \<in> set (db_items d). fst p = c} = {x. (c, x) \<in> set (db_items d)}" by force
  finally show ?thesis .
qed

lemma tod_records_set:
  assumes "db_ok env d"
  shows "set (tod_records d u) = (\<lambda>x. graph_record (record_for d x)) ` {x. own_item d u x}"
proof -
  have "set (tod_records d u) =
      (\<Union>c \<in> {c \<in> set (db_colls d). k_user c = u}. graph_record ` set (collection_records d (k_id c)))"
    by (simp add: tod_records_def user_collections_def)
  also have "\<dots> = (\<lambda>x. graph_record (record_for d x)) ` {x. own_item d u x}"
    by (auto simp: collection_records_set [OF assms] own_item_def)
  finally show ?thesis .
qed

lemma of_tea_record: "of_tea i (graph_record (record_for d x)) \<longleftrightarrow> i = t_id (the_tea d (r_tea (the_qr d x)))"
  by (auto simp: of_tea_def graph_record_def record_for_def record_of_rows_def FromCommonTea_def)

lemma exp_record: "qrr_ExpirationDate (graph_record (record_for d x)) = r_exp (the_qr d x)"
  by (simp add: graph_record_def record_for_def record_of_rows_def)

section \<open>The reads of the query\<close>

text \<open>
  The next \<open>k\<close> statements go through. Listing the collections is one statement, listing the
  records of one of them two.
\<close>

definition next_ok :: "pg_env \<Rightarrow> nat \<Rightarrow> pgdb \<Rightarrow> bool" where
  "next_ok env k d \<longleftrightarrow> (\<forall>i < k. \<not> env_fault env (db_stmts d + i))"

lemma next_ok_no_faults: "no_faults env \<Longrightarrow> next_ok env k d"
  by (simp add: next_ok_def no_faults_def)

lemma next_ok_split:
  "next_ok env (j + k) d \<longleftrightarrow> next_ok env j d \<and> next_ok env k (d\<lparr>db_stmts := db_stmts d + j\<rparr>)"
  unfolding next_ok_def by (induction k) (auto simp: All_less_Suc add.assoc)

lemma next_ok_simps:
  "next_ok env 0 d" "next_ok env (Suc 0) d \<longleftrightarrow> \<not> env_fault env (db_stmts d)"
  "next_ok env 2 d \<longleftrightarrow> \<not> env_fault env (db_stmts d) \<and> \<not> env_fault env (Suc (db_stmts d))"
  by (auto simp: next_ok_def numeral_2_eq_2 All_less_Suc)

lemma coll_List_run:
  assumes "next_ok env 1 d"
  shows "coll_List (pg_collection_storage env) u d =
    (Inr (map (\<lambda>col. \<lparr>gcol_ID = col_ID col, gcol_Name = col_Name col, gcol_UserID = u\<rparr>) (user_collections d u)),
     d\<lparr>db_stmts := db_stmts d + 1\<rparr>)"
  using assms
  by (simp add: coll_List_def pg_collection_storage_def db_Collections_def q_ListCollections_def bindE_def
      mapE_def user_collections_def next_ok_simps stmt_def Let_def)

lemma coll_ListRecords_run:
  assumes "next_ok env 2 d" and "\<exists>row \<in> set (db_colls d). k_id row = i \<and> k_user row = u"
  shows "coll_ListRecords (pg_collection_storage env) i u d =
    (Inr (map graph_record (collection_records d i)), d\<lparr>db_stmts := db_stmts d + 2\<rparr>)"
proof -
  let ?d = "d\<lparr>db_stmts := Suc (db_stmts d)\<rparr>"
  from assms(2) obtain row where "find (\<lambda>r. k_id r = i \<and> k_user r = u) (db_colls d) = Some row"
    by (cases "find (\<lambda>r. k_id r = i \<and> k_user r = u) (db_colls d)") (auto simp: find_eq_None_iff)
  then have "\<exists>c. db_Collection env i u d = (Inr c, ?d)"
    using assms(1)
    by (simp add: db_Collection_def mapE_def wrapE_def q_GetCollection_def select_one_def next_ok_simps stmt_def Let_def)
  moreover have "db_CollectionRecords env i ?d = (Inr (collection_records d i), d\<lparr>db_stmts := db_stmts d + 2\<rparr>)"
    using assms(1)
    by (simp add: db_CollectionRecords_def q_ListCollectionRecords_def mapE_def collection_records_def
        collection_rows_def next_ok_simps stmt_def Let_def)
  ultimately show ?thesis
    by (auto simp: coll_ListRecords_def pg_collection_storage_def)
qed

lemma collect_run:
  assumes "next_ok (sv_pg sv) (2 * length cols) (ap_db a)"
    and "\<forall>c \<in> set cols. \<exists>row \<in> set (db_colls (ap_db a)). k_id row = gcol_ID c \<and> k_user row = user_ID user"
  shows "collect_teas norm sv user cols acc a =
    (Reply (Inr (fold (tod_step norm)
       (concat (map (\<lambda>c. map graph_record (collection_records (ap_db a) (gcol_ID c))) cols)) acc)),
     a\<lparr>ap_db := (ap_db a)\<lparr>db_stmts := db_stmts (ap_db a) + 2 * length cols\<rparr>\<rparr>)"
  using assms
proof (induction cols arbitrary: acc a)
  case Nil
  show ?case by (simp add: okR_def)
next
  case (Cons c cols)
  let ?d = "(ap_db a)\<lparr>db_stmts := db_stmts (ap_db a) + 2\<rparr>"
  let ?acc = "fold (tod_step norm) (map graph_record (collection_records (ap_db a) (gcol_ID c))) acc"
  have ok: "next_ok (sv_pg sv) 2 (ap_db a)" "next_ok (sv_pg sv) (2 * length cols) ?d"
    using Cons.prems(1) next_ok_split [of "sv_pg sv" 2 "2 * length cols"] by simp_all
  have d1: "coll_ListRecords (sv_colls sv) (gcol_ID c) (user_ID user) (ap_db a) =
      (Inr (map graph_record (collection_records (ap_db a) (gcol_ID c))), ?d)"
    using coll_ListRecords_run [OF ok(1), of "gcol_ID c" "user_ID user"] Cons.prems(2) by simp
  have "collect_teas norm sv user cols ?acc (a\<lparr>ap_db := ?d\<rparr>) =
      (Reply (Inr (fold (tod_step norm)
        (concat (map (\<lambda>c. map graph_record (collection_records (ap_db a) (gcol_ID c))) cols)) ?acc)),
       a\<lparr>ap_db := (ap_db a)\<lparr>db_stmts := db_stmts (ap_db a) + 2 * length (c # cols)\<rparr>\<rparr>)"
    using Cons.IH [of "a\<lparr>ap_db := ?d\<rparr>" ?acc] ok(2) Cons.prems(2) by simp
  then show ?case by (simp add: bindR_def db_call_def d1)
qed

text \<open>How many statements the query needs to know the user's teas.\<close>

definition tod_reads :: "pgdb \<Rightarrow> uuid \<Rightarrow> nat" where
  "tod_reads d u = 1 + 2 * length (user_collections d u)"

lemma collect_all:
  assumes "next_ok (sv_pg sv) (tod_reads (ap_db a) (user_ID user)) (ap_db a)"
  shows "\<exists>cols d1. coll_List (sv_colls sv) (user_ID user) (ap_db a) = (Inr cols, d1) \<and>
    collect_teas norm sv user cols tod_empty (a\<lparr>ap_db := d1\<rparr>) =
      (Reply (Inr (fold (tod_step norm) (tod_records (ap_db a) (user_ID user)) tod_empty)),
       a\<lparr>ap_db := (ap_db a)\<lparr>db_stmts := db_stmts (ap_db a) + tod_reads (ap_db a) (user_ID user)\<rparr>\<rparr>)"
proof -
  let ?cols = "map (\<lambda>col. \<lparr>gcol_ID = col_ID col, gcol_Name = col_Name col, gcol_UserID = user_ID user\<rparr>)
    (user_collections (ap_db a) (user_ID user))"
  let ?d = "(ap_db a)\<lparr>db_stmts := db_stmts (ap_db a) + 1\<rparr>"
  have ok: "next_ok (sv_pg sv) 1 (ap_db a)" "next_ok (sv_pg sv) (2 * length ?cols) ?d"
    using assms next_ok_split [of "sv_pg sv" 1 "2 * length ?cols"] by (simp_all add: tod_reads_def)
  have l: "coll_List (sv_colls sv) (user_ID user) (ap_db a) = (Inr ?cols, ?d)"
    using coll_List_run [OF ok(1)] by simp
  have own: "\<forall>c \<in> set ?cols. \<exists>row \<in> set (db_colls (ap_db (a\<lparr>ap_db := ?d\<rparr>))).
      k_id row = gcol_ID c \<and> k_user row = user_ID user"
    by (auto simp: user_collections_def)
  have "collect_teas norm sv user ?cols tod_empty (a\<lparr>ap_db := ?d\<rparr>) =
      (Reply (Inr (fold (tod_step norm) (tod_records (ap_db a) (user_ID user)) tod_empty)),
       a\<lparr>ap_db := (ap_db a)\<lparr>db_stmts := db_stmts (ap_db a) + tod_reads (ap_db a) (user_ID user)\<rparr>\<rparr>)"
    using collect_run [of sv ?cols "a\<lparr>ap_db := ?d\<rparr>" user norm tod_empty] ok(2) own
    by (simp add: tod_records_def tod_reads_def comp_def)
  with l show ?thesis by blast
qed

section \<open>The answer\<close>

lemma best_effort_run:
  "best_effort dflt m a =
     (Reply (Inr (case fst (m (ap_db a)) of Inl _ \<Rightarrow> dflt | Inr x \<Rightarrow> x)), a\<lparr>ap_db := snd (m (ap_db a))\<rparr>)"
  by (simp add: best_effort_def split: prod.splits sum.splits)

lemma ContextScores_no_panic:
  assumes "\<And>m p. chat m p \<noteq> Inr []"
  shows "ContextScores chat tmpl unmarshal trunc names w day \<noteq> Panic"
proof -
  have "first_choice cs \<noteq> Panic" if "cs \<noteq> []" for cs
    using that by (cases cs) (simp_all add: first_choice_def)
  with assms show ?thesis
    by (auto simp: ContextScores_def getCompletion_def split: sum.splits call.splits) (metis call.distinct(1))
qed

lemma best_scores_run: "c \<noteq> Panic \<Longrightarrow> \<exists>m. \<forall>a. best_scores c a = (Reply (Inr m), a)"
proof (cases c)
  case (Ret r)
  then show ?thesis by (cases r) (simp_all add: best_scores_def)
qed simp

lemma select_tea_in:
  assumes "cands \<noteq> []" and "\<forall>c \<in> set cands. cand_ID c \<noteq> uuid_Nil"
  shows "\<exists>c \<in> set cands. select_tea te ai cands l now = cand_ID c \<and>
    (\<forall>x \<in> set cands. candidate_score ai l now x \<le> candidate_score ai l now c)"
  using SelectBest_best [OF assms, of ai l now] SelectBestWithLogging_same [of "te_show_id te" "te_fmt te" True ai cands l now]
  by (auto simp: select_tea_def)

lemma ps_Recent_state:
  "snd (ps_Recent env s u since d) = (if ps_queries s then d\<lparr>db_stmts := Suc (db_stmts d)\<rparr> else d)"
  by (simp add: ps_Recent_def q_ListConsumptionsSince_def stmt_def Let_def)

lemma tod_finish_run:
  assumes "acc_earliestRec acc best = Some rec" and "best \<noteq> uuid_Nil"
  shows "tod_finish sv user now acc best a =
    (Reply (Inr \<lparr>tod_Tea = Some rec, tod_Date = now\<rparr>),
     a\<lparr>ap_db := snd (ps_Record (sv_pg sv) (sv_consumption sv) (user_ID user) best now (ap_db a)),
       ap_cache := cache_Set (sv_offset sv) (user_ID user) \<lparr>tod_Tea = Some rec, tod_Date = now\<rparr> now (ap_cache a)\<rparr>)"
  using assms by (simp add: tod_finish_def bindR_def best_effort_run tod_set_def okR_def Let_def)

text \<open>What the loop over the records leaves for the selection.\<close>

lemma tod_acc_final:
  assumes "db_ok env d" and "own_item d u x0" and "uuid_Nil \<notin> t_id ` set (db_teas d)"
    and acc: "acc = fold (tod_step norm) (tod_records d u) tod_empty"
  shows "acc_earliestRec acc \<noteq> Map.empty" and "acc_candidates acc \<noteq> []"
    and "\<forall>c \<in> set (acc_candidates acc). cand_ID c \<noteq> uuid_Nil"
    and "\<forall>c \<in> set (acc_candidates acc). \<exists>x. own_item d u x \<and> cand_ID c = t_id (the_tea d (r_tea (the_qr d x))) \<and>
      acc_earliestRec acc (cand_ID c) = Some (graph_record (record_for d x)) \<and>
      (\<forall>y. own_item d u y \<longrightarrow> r_tea (the_qr d y) = r_tea (the_qr d x) \<longrightarrow> r_exp (the_qr d x) \<le> r_exp (the_qr d y))"
proof -
  have inv: "tod_inv norm (tod_records d u) acc"
    using tod_inv_fold [OF tod_inv_empty, of norm "tod_records d u"] acc by simp
  have item: "t_id (the_tea d (r_tea (the_qr d x))) = r_tea (the_qr d x)"
      "the_tea d (r_tea (the_qr d x)) \<in> set (db_teas d)" if "own_item d u x" for x
    using that join_item(5,6) [OF assms(1)] by (auto simp: own_item_def)
  have "t_id (the_tea d (r_tea (the_qr d x0))) \<in> dom (acc_earliestRec acc)"
    using inv assms(2) unfolding tod_inv_def tod_records_set [OF assms(1)] by (auto simp: of_tea_record)
  then show "acc_earliestRec acc \<noteq> Map.empty" and "acc_candidates acc \<noteq> []"
    using inv by (auto simp: tod_inv_def)
  show each: "\<forall>c \<in> set (acc_candidates acc). \<exists>x. own_item d u x \<and> cand_ID c = t_id (the_tea d (r_tea (the_qr d x))) \<and>
      acc_earliestRec acc (cand_ID c) = Some (graph_record (record_for d x)) \<and>
      (\<forall>y. own_item d u y \<longrightarrow> r_tea (the_qr d y) = r_tea (the_qr d x) \<longrightarrow> r_exp (the_qr d x) \<le> r_exp (the_qr d y))"
  proof
    fix c assume "c \<in> set (acc_candidates acc)"
    with inv obtain rec where rec: "acc_earliestRec acc (cand_ID c) = Some rec"
      unfolding tod_inv_def by (metis domD image_eqI)
    with inv have e: "earliest_of (tod_records d u) (cand_ID c) rec" by (simp add: tod_inv_def)
    then obtain x where x: "own_item d u x" "rec = graph_record (record_for d x)"
      by (auto simp: earliest_of_def tod_records_set [OF assms(1)])
    have c: "cand_ID c = t_id (the_tea d (r_tea (the_qr d x)))"
      using e x(2) by (simp add: earliest_of_def of_tea_record)
    have "r_exp (the_qr d x) \<le> r_exp (the_qr d y)" if y: "own_item d u y" "r_tea (the_qr d y) = r_tea (the_qr d x)" for y
    proof -
      have "graph_record (record_for d y) \<in> set (tod_records d u)" using y(1) tod_records_set [OF assms(1)] by auto
      moreover have "of_tea (cand_ID c) (graph_record (record_for d y))" using y(2) c by (simp add: of_tea_record)
      ultimately show ?thesis using e x(2) by (auto simp: earliest_of_def exp_record)
    qed
    with x c rec show "\<exists>x. own_item d u x \<and> cand_ID c = t_id (the_tea d (r_tea (the_qr d x))) \<and>
      acc_earliestRec acc (cand_ID c) = Some (graph_record (record_for d x)) \<and>
      (\<forall>y. own_item d u y \<longrightarrow> r_tea (the_qr d y) = r_tea (the_qr d x) \<longrightarrow> r_exp (the_qr d x) \<le> r_exp (the_qr d y))"
      by blast
  qed
  show "\<forall>c \<in> set (acc_candidates acc). cand_ID c \<noteq> uuid_Nil"
    using each item(2) assms(3) by (metis image_eqI)
qed

lemma tod_choose_run:
  assumes "next_ok (sv_pg sv) (tod_reads (ap_db a) (user_ID user)) (ap_db a)" and "db_ok (sv_pg sv) (ap_db a)" and "\<And>m p. wd_chat wd m p \<noteq> Inr []"
    and "own_item (ap_db a) (user_ID user) x0" and "uuid_Nil \<notin> t_id ` set (db_teas (ap_db a))"
  shows "\<exists>x v d3. own_item (ap_db a) (user_ID user) x \<and>
    d3 = (ap_db a)\<lparr>db_stmts := db_stmts (ap_db a) + tod_reads (ap_db a) (user_ID user) +
      (if ps_queries (sv_consumption sv) then 1 else 0)\<rparr> \<and>
    v = \<lparr>tod_Tea = Some (graph_record (record_for (ap_db a) x)), tod_Date = wd_now wd\<rparr> \<and>
    (\<forall>y. own_item (ap_db a) (user_ID user) y \<longrightarrow> r_tea (the_qr (ap_db a) y) = r_tea (the_qr (ap_db a) x) \<longrightarrow>
       r_exp (the_qr (ap_db a) x) \<le> r_exp (the_qr (ap_db a) y)) \<and>
    tod_choose te sv wd user a = (Reply (Inr v),
      a\<lparr>ap_db := snd (ps_Record (sv_pg sv) (sv_consumption sv) (user_ID user) (r_tea (the_qr (ap_db a) x)) (wd_now wd) d3),
        ap_cache := cache_Set (sv_offset sv) (user_ID user) v (wd_now wd) (ap_cache a)\<rparr>)"
proof -
  let ?u = "user_ID user" and ?now = "wd_now wd"
  let ?acc = "fold (tod_step (te_norm te)) (tod_records (ap_db a) ?u) tod_empty"
  note final = tod_acc_final [OF assms(2,4,5) refl, of "te_norm te"]
  let ?d2 = "(ap_db a)\<lparr>db_stmts := db_stmts (ap_db a) + tod_reads (ap_db a) ?u\<rparr>"
  let ?d3 = "(ap_db a)\<lparr>db_stmts := db_stmts (ap_db a) + tod_reads (ap_db a) ?u +
    (if ps_queries (sv_consumption sv) then 1 else 0)\<rparr>"
  obtain cols d1 where reads: "coll_List (sv_colls sv) ?u (ap_db a) = (Inr cols, d1)"
      "collect_teas (te_norm te) sv user cols tod_empty (a\<lparr>ap_db := d1\<rparr>) = (Reply (Inr ?acc), a\<lparr>ap_db := ?d2\<rparr>)"
    using collect_all [OF assms(1), of "te_norm te"] by auto
  let ?recent = "ps_Recent (sv_pg sv) (sv_consumption sv) ?u (?now - 96 * Hour) ?d2"
  let ?l = "last_by (case fst ?recent of Inl _ \<Rightarrow> [] | Inr x \<Rightarrow> x)"
  have d3: "snd ?recent = ?d3" by (simp add: ps_Recent_state)
  obtain scores where scores: "best_scores (ContextScores (wd_chat wd) (sv_contextTmpl sv) (sv_unmarshal sv) (sv_trunc sv)
      (acc_names ?acc) (tod_weather te wd) (sv_weekday sv ?now)) b = (Reply (Inr scores), b)" for b :: "'b app"
    using best_scores_run [OF ContextScores_no_panic [of "wd_chat wd", OF assms(3)]] by blast
  let ?best = "select_tea te (ai_scores te (acc_nameToID ?acc) scores) (acc_candidates ?acc) ?l ?now"
  obtain c where c: "c \<in> set (acc_candidates ?acc)" "?best = cand_ID c"
    using select_tea_in [OF final(2,3)] by blast
  with final(4) obtain x where x: "own_item (ap_db a) ?u x"
      "cand_ID c = t_id (the_tea (ap_db a) (r_tea (the_qr (ap_db a) x)))"
      "acc_earliestRec ?acc (cand_ID c) = Some (graph_record (record_for (ap_db a) x))"
      "\<forall>y. own_item (ap_db a) ?u y \<longrightarrow> r_tea (the_qr (ap_db a) y) = r_tea (the_qr (ap_db a) x) \<longrightarrow>
        r_exp (the_qr (ap_db a) x) \<le> r_exp (the_qr (ap_db a) y)" by blast
  have nil: "cand_ID c \<noteq> uuid_Nil" using final(3) c(1) by blast
  have tea: "cand_ID c = r_tea (the_qr (ap_db a) x)"
    using x(1,2) join_item(6) [OF assms(2)] by (auto simp: own_item_def)
  have "tod_choose te sv wd user a =
      tod_finish sv user ?now ?acc (cand_ID c) (a\<lparr>ap_db := ?d3\<rparr>)"
    using reads final(1) c(2)
    by (simp add: bindR_def tod_choose_def db_call_def best_effort_run d3 scores)
  then show ?thesis
    using x(1,4)
    by (intro exI [of _ x] exI [of _ "\<lparr>tod_Tea = Some (graph_record (record_for (ap_db a) x)), tod_Date = ?now\<rparr>"]
        exI [of _ ?d3])
      (simp add: tod_finish_run [OF x(3) nil, unfolded tea] tea)
qed

text \<open>
  C37. On a consistent database without a tea of the nil identifier, a user with a record in a
  collection and without a cached answer gets a tea of the day as soon as the statements that
  list the user's collections and their records go through, whether or not the weather service,
  the model and the statements of the consumption store fail; only an answer of the model with an
  empty list of choices is excluded, on which the code panics. The answer is a record of one of
  the user's own collections, of all records of its tea there one that expires first; it is dated
  now and cached until midnight, and the tea is recorded as drunk where there is a consumption
  store whose two statements go through.
\<close>

theorem TeaOfTheDay_answers:
  assumes "next_ok (sv_pg sv) (tod_reads (ap_db a) (user_ID user)) (ap_db a)"
    and "db_ok (sv_pg sv) (ap_db a)" and "GetUser ctx = Inr user"
    and "fst (cache_Get (user_ID user) (wd_now wd) (ap_cache a)) = None"
    and "\<And>m p. wd_chat wd m p \<noteq> Inr []"
    and "own_item (ap_db a) (user_ID user) x0" and "uuid_Nil \<notin> t_id ` set (db_teas (ap_db a))"
  shows "\<exists>x v a'. own_item (ap_db a) (user_ID user) x \<and>
    v = \<lparr>tod_Tea = Some (graph_record (record_for (ap_db a) x)), tod_Date = wd_now wd\<rparr> \<and>
    r_TeaOfTheDay te sv ctx wd a = (Reply (Inr v), a') \<and>
    (\<forall>y. own_item (ap_db a) (user_ID user) y \<longrightarrow> r_tea (the_qr (ap_db a) y) = r_tea (the_qr (ap_db a) x) \<longrightarrow>
       r_exp (the_qr (ap_db a) x) \<le> r_exp (the_qr (ap_db a) y)) \<and>
    ap_cache a' (user_ID user) = Some \<lparr>ce_val = v, ce_expiresAt = nextMidnight (sv_offset sv) (wd_now wd)\<rparr> \<and>
    (ps_queries (sv_consumption sv) \<longrightarrow>
       next_ok (sv_pg sv) 2 ((ap_db a)\<lparr>db_stmts :=
         db_stmts (ap_db a) + tod_reads (ap_db a) (user_ID user) + 1\<rparr>) \<longrightarrow>
       env_round (sv_pg sv) (wd_now wd - ps_retention (sv_consumption sv)) \<le> env_round (sv_pg sv) (wd_now wd) \<longrightarrow>
       (env_round (sv_pg sv) (wd_now wd), r_tea (the_qr (ap_db a) x)) \<in> pg_events (ap_db a') (user_ID user))"
proof -
  let ?u = "user_ID user" and ?now = "wd_now wd"
  let ?a = "a\<lparr>ap_cache := snd (cache_Get ?u ?now (ap_cache a))\<rparr>"
  let ?d3 = "(ap_db a)\<lparr>db_stmts := db_stmts (ap_db a) + tod_reads (ap_db a) ?u +
    (if ps_queries (sv_consumption sv) then 1 else 0)\<rparr>"
  have "next_ok (sv_pg sv) (tod_reads (ap_db ?a) ?u) (ap_db ?a)"
    "db_ok (sv_pg sv) (ap_db ?a)" "own_item (ap_db ?a) ?u x0" "uuid_Nil \<notin> t_id ` set (db_teas (ap_db ?a))"
    using assms(1,2,6,7) by simp_all
  from tod_choose_run [OF this(1,2) assms(5) this(3,4), of te] obtain x v where
    x: "own_item (ap_db a) ?u x"
      "v = \<lparr>tod_Tea = Some (graph_record (record_for (ap_db a) x)), tod_Date = ?now\<rparr>"
      "\<forall>y. own_item (ap_db a) ?u y \<longrightarrow> r_tea (the_qr (ap_db a) y) = r_tea (the_qr (ap_db a) x) \<longrightarrow>
         r_exp (the_qr (ap_db a) x) \<le> r_exp (the_qr (ap_db a) y)"
    and run: "tod_choose te sv wd user ?a = (Reply (Inr v),
      ?a\<lparr>ap_db := snd (ps_Record (sv_pg sv) (sv_consumption sv) ?u (r_tea (the_qr (ap_db a) x)) ?now ?d3),
        ap_cache := cache_Set (sv_offset sv) ?u v ?now (ap_cache ?a)\<rparr>)"
    by auto
  let ?tea = "r_tea (the_qr (ap_db a) x)"
  let ?a' = "?a\<lparr>ap_db := snd (ps_Record (sv_pg sv) (sv_consumption sv) ?u ?tea ?now ?d3),
    ap_cache := cache_Set (sv_offset sv) ?u v ?now (ap_cache ?a)\<rparr>"
  have there: "?tea \<in> t_id ` set (db_teas ?d3)" "?u \<in> u_id ` set (db_users ?d3)"
  proof -
    have "?tea \<in> t_id ` set (db_teas (ap_db a))"
      using x(1) join_item(5,6) [OF assms(2)] unfolding own_item_def by (metis image_eqI)
    moreover have "?u \<in> u_id ` set (db_users (ap_db a))"
      using x(1) assms(2) unfolding own_item_def db_ok_def refs_ok_def by metis
    ultimately show "?tea \<in> t_id ` set (db_teas ?d3)" "?u \<in> u_id ` set (db_users ?d3)"
      by simp_all
  qed
  have "(env_round (sv_pg sv) ?now, ?tea) \<in>
      pg_events (snd (ps_Record (sv_pg sv) (sv_consumption sv) ?u ?tea ?now ?d3)) ?u"
    if q: "ps_queries (sv_consumption sv)"
      "next_ok (sv_pg sv) 2 ((ap_db a)\<lparr>db_stmts := db_stmts (ap_db a) + tod_reads (ap_db a) ?u + 1\<rparr>)"
      "env_round (sv_pg sv) (?now - ps_retention (sv_consumption sv)) \<le> env_round (sv_pg sv) ?now"
    using ps_Record_succeeds [OF _ _ q(1) there(2,1), of "sv_pg sv" ?now] q
      ps_Record_events [of "sv_pg sv" "sv_consumption sv" ?u ?tea ?now ?d3]
    by (cases "ps_Record (sv_pg sv) (sv_consumption sv) ?u ?tea ?now ?d3") (auto simp: next_ok_simps)
  moreover have "r_TeaOfTheDay te sv ctx wd a = tod_choose te sv wd user ?a"
    using assms(4)
    by (cases "cache_Get ?u ?now (ap_cache a)")
      (simp add: r_TeaOfTheDay_def as_user_def checkR_def assms(3) bindR_def tod_get_def)
  ultimately have
    "r_TeaOfTheDay te sv ctx wd a = (Reply (Inr v), ?a')"
    "ps_queries (sv_consumption sv) \<longrightarrow>
       next_ok (sv_pg sv) 2 ((ap_db a)\<lparr>db_stmts := db_stmts (ap_db a) + tod_reads (ap_db a) ?u + 1\<rparr>) \<longrightarrow>
       env_round (sv_pg sv) (?now - ps_retention (sv_consumption sv)) \<le> env_round (sv_pg sv) ?now \<longrightarrow>
       (env_round (sv_pg sv) ?now, ?tea) \<in> pg_events (ap_db ?a') ?u"
    using run by simp_all
  moreover have "ap_cache ?a' ?u = Some \<lparr>ce_val = v, ce_expiresAt = nextMidnight (sv_offset sv) ?now\<rparr>"
    by (simp add: cache_Set_def)
  ultimately show ?thesis using x by blast
qed

definition demo_tod_env :: "int tod_env" where
  "demo_tod_env = \<lparr>te_norm = id, te_order = (\<lambda>_. []), te_zero = 0, te_log = True, te_show_id = (\<lambda>_. ''''),
     te_fmt = (\<lambda>_. '''')\<rparr>"

text \<open>A moment at which neither the weather service nor the model answers.\<close>

definition bad_day :: "time \<Rightarrow> int world" where
  "bad_day t = \<lparr>wd_now = t, wd_weather = Inl (ExtErr ''down''), wd_chat = (\<lambda>_ _. Inl (ExtErr ''down'')),
     wd_stream = (\<lambda>_ _. Inl (ExtErr ''down''))\<rparr>"

lemma bad_day_sel [simp]: "wd_now (bad_day t) = t" "wd_chat (bad_day t) m p = Inl (ExtErr ''down'')"
  by (simp_all add: bad_day_def)

lemma cache_Get_empty: "cache_Get u t Map.empty = (None, Map.empty)"
  by (simp add: cache_Get_def cache_Get_with_def cache_read_def)

lemma db_two_records_items:
  "own_item db_two_records 1 x \<longleftrightarrow> x = 3 \<or> x = 4"
  "the_qr db_two_records 3 = \<lparr>r_id = 3, r_tea = 7, r_temp = 90, r_exp = 2000, r_created = 0\<rparr>"
  "the_qr db_two_records 4 = \<lparr>r_id = 4, r_tea = 7, r_temp = 80, r_exp = 1000, r_created = 0\<rparr>"
  "uuid_Nil \<notin> t_id ` set (db_teas db_two_records)"
  by (auto simp: own_item_def the_qr_def db_two_records_def db_one_tea_simps)

lemma demo_hyps:
  "next_ok (sv_pg demo_server) (tod_reads (ap_db (demo_app db_two_records)) (user_ID (the (ctx_user (user_ctx 1)))))
     (ap_db (demo_app db_two_records))" "db_ok (sv_pg demo_server) (ap_db (demo_app db_two_records))"
  "fst (cache_Get (user_ID (the (ctx_user (user_ctx 1)))) (wd_now (bad_day 5000)) (ap_cache (demo_app db_two_records))) = None"
  "wd_chat (bad_day 5000) m p \<noteq> Inr []"
  "own_item (ap_db (demo_app db_two_records)) (user_ID (the (ctx_user (user_ctx 1)))) 3"
  "uuid_Nil \<notin> t_id ` set (db_teas (ap_db (demo_app db_two_records)))"
  by (simp_all add: db_two_records_ok cache_Get_empty db_two_records_items next_ok_no_faults del: image_iff)

lemma demo_day:
  "\<exists>v a'. r_TeaOfTheDay demo_tod_env demo_server (user_ctx 1) (bad_day 5000) (demo_app db_two_records) = (Reply (Inr v), a')"
proof -
  have "r_TeaOfTheDay demo_tod_env demo_server (user_ctx 1) (bad_day 5000) (demo_app db_two_records) =
      tod_choose demo_tod_env demo_server (bad_day 5000) (the (ctx_user (user_ctx 1))) (demo_app db_two_records)"
    by (simp add: r_TeaOfTheDay_def as_user_def checkR_def bindR_def tod_get_def cache_Get_empty) (simp add: demo_app_def)
  with tod_choose_run [OF demo_hyps(1,2,4,5,6), of demo_tod_env] show ?thesis by auto
qed

theorem TeaOfTheDay_answers_witness:
  "\<exists>v a'. r_TeaOfTheDay demo_tod_env demo_server (user_ctx 1) (bad_day 5000) (demo_app db_two_records) =
      (Reply (Inr v), a') \<and> map_option qrr_ID (tod_Tea v) = Some 4"
proof -
  obtain x v a' where x: "own_item db_two_records 1 x"
      "v = \<lparr>tod_Tea = Some (graph_record (record_for db_two_records x)), tod_Date = 5000\<rparr>"
      "r_TeaOfTheDay demo_tod_env demo_server (user_ctx 1) (bad_day 5000) (demo_app db_two_records) = (Reply (Inr v), a')"
      "\<And>y. own_item db_two_records 1 y \<Longrightarrow> r_tea (the_qr db_two_records y) = r_tea (the_qr db_two_records x) \<Longrightarrow>
         r_exp (the_qr db_two_records x) \<le> r_exp (the_qr db_two_records y)"
    using TeaOfTheDay_answers [OF demo_hyps(1,2) user_ctx_sel(2) demo_hyps(3-6), of demo_tod_env]
    by auto
  have "x = 4" using x(1) x(4) [of 4] by (auto simp: db_two_records_items)
  then have "map_option qrr_ID (tod_Tea v) = Some 4"
    by (simp add: x(2) graph_record_def record_for_def record_of_rows_def db_two_records_items)
  with x(3) show ?thesis by blast
qed

section \<open>One tea a day\<close>

lemma tod_cached_same: "tod_Tea v = Some rec \<Longrightarrow> qrr_Tea rec \<noteq> None \<Longrightarrow> tod_cached te v a = (Reply (Inr v), a)"
  by (simp add: tod_cached_def okR_def)

lemma collect_Inr:
  assumes "collect_teas norm sv user cols acc a = (Reply (Inr acc'), a')" and "tod_inv norm recs acc"
  shows "\<exists>recs'. tod_inv norm (recs @ recs') acc'"
  using assms
proof (induction cols arbitrary: acc a recs)
  case Nil
  then show ?case by (auto simp: okR_def intro: exI [of _ "[]"])
next
  case (Cons c cols)
  obtain r d where l: "coll_ListRecords (sv_colls sv) (gcol_ID c) (user_ID user) (ap_db a) = (r, d)" by fastforce
  with Cons.prems(1) obtain recs1 where r: "r = Inr recs1"
      "collect_teas norm sv user cols (fold (tod_step norm) recs1 acc) (a\<lparr>ap_db := d\<rparr>) = (Reply (Inr acc'), a')"
    by (cases r) (simp_all add: bindR_def db_call_def)
  from Cons.IH [OF r(2) tod_inv_fold [OF Cons.prems(2)]] show ?case by auto
qed

lemma bindR_run_Inr:
  "bindR m f a = (Reply (Inr y), a2) \<longleftrightarrow> (\<exists>x a1. m a = (Reply (Inr x), a1) \<and> f x a1 = (Reply (Inr y), a2))"
  by (auto simp: bindR_def split: prod.splits reply.splits sum.splits)

text \<open>What a fresh answer leaves behind.\<close>

lemma tod_finish_Inr:
  assumes "tod_finish sv user now acc best a = (Reply (Inr v), a')"
  shows "\<exists>rec. acc_earliestRec acc best = Some rec \<and> v = \<lparr>tod_Tea = Some rec, tod_Date = now\<rparr> \<and>
    ap_cache a' (user_ID user) = Some \<lparr>ce_val = v, ce_expiresAt = nextMidnight (sv_offset sv) now\<rparr>"
  using assms
  by (auto simp: tod_finish_def failR_def bindR_run_Inr best_effort_run tod_set_def okR_def Let_def cache_Set_def
      split: if_splits option.splits)

lemma tod_choose_Inr:
  assumes "tod_choose te sv wd user a = (Reply (Inr v), a')"
  shows "\<exists>rec. tod_Tea v = Some rec \<and> qrr_Tea rec \<noteq> None \<and>
    ap_cache a' (user_ID user) = Some \<lparr>ce_val = v, ce_expiresAt = nextMidnight (sv_offset sv) (wd_now wd)\<rparr>"
proof -
  obtain cols a1 acc a2 best b where
    c: "collect_teas (te_norm te) sv user cols tod_empty a1 = (Reply (Inr acc), a2)"
    and f: "tod_finish sv user (wd_now wd) acc best b = (Reply (Inr v), a')"
    using assms unfolding tod_choose_def bindR_run_Inr
    by (auto simp: failR_def bindR_run_Inr split: if_splits)
  obtain recs where inv: "tod_inv (te_norm te) recs acc"
    using collect_Inr [OF c tod_inv_empty] by blast
  from tod_finish_Inr [OF f] obtain rec where rec: "acc_earliestRec acc best = Some rec"
      "v = \<lparr>tod_Tea = Some rec, tod_Date = wd_now wd\<rparr>"
      "ap_cache a' (user_ID user) = Some \<lparr>ce_val = v, ce_expiresAt = nextMidnight (sv_offset sv) (wd_now wd)\<rparr>"
    by blast
  have "earliest_of recs best rec" using inv rec(1) by (simp add: tod_inv_def)
  then have "qrr_Tea rec \<noteq> None" by (auto simp: earliest_of_def of_tea_def)
  with rec(2,3) show ?thesis by auto
qed

text \<open>
  C38. There is one tea of the day: once the query was answered for a user who had no answer yet, it
  is answered the same for the rest of the local day, whatever the weather service and the
  model say by then, even when the statements fail, and nothing is recorded or changed again.
\<close>

theorem TeaOfTheDay_same_all_day:
  assumes "GetUser ctx = Inr user"
    and "fst (cache_Get (user_ID user) (wd_now wd) (ap_cache a)) = None"
    and "r_TeaOfTheDay te sv ctx wd a = (Reply (Inr v), a')"
    and "local_day (sv_offset sv) (wd_now wd') = local_day (sv_offset sv) (wd_now wd)"
  shows "r_TeaOfTheDay te' sv' ctx wd' a' = (Reply (Inr v), a')"
proof -
  let ?u = "user_ID user"
  obtain items where get: "cache_Get ?u (wd_now wd) (ap_cache a) = (None, items)"
    using assms(2) by (cases "cache_Get ?u (wd_now wd) (ap_cache a)") simp
  have "tod_choose te sv wd user (a\<lparr>ap_cache := items\<rparr>) = (Reply (Inr v), a')"
    using assms(1,3) get by (simp add: r_TeaOfTheDay_def as_user_def checkR_def bindR_def tod_get_def)
  from tod_choose_Inr [OF this] obtain rec where rec: "tod_Tea v = Some rec" "qrr_Tea rec \<noteq> None"
      "ap_cache a' ?u = Some \<lparr>ce_val = v, ce_expiresAt = nextMidnight (sv_offset sv) (wd_now wd)\<rparr>" by blast
  have "wd_now wd' < nextMidnight (sv_offset sv) (wd_now wd)" using assms(4) by (simp add: before_nextMidnight_iff)
  then have "cache_Get ?u (wd_now wd') (ap_cache a') = (Some v, ap_cache a')"
    using rec(3) by (simp add: cache_Get_def cache_Get_with_def cache_read_def)
  then show ?thesis
    using assms(1) rec(1,2)
    by (simp add: r_TeaOfTheDay_def as_user_def checkR_def bindR_def tod_get_def tod_cached_same)
qed

theorem TeaOfTheDay_same_all_day_witness:
  "\<exists>v a'. r_TeaOfTheDay demo_tod_env demo_server (user_ctx 1) (bad_day 5000) (demo_app db_two_records) = (Reply (Inr v), a') \<and>
     r_TeaOfTheDay demo_tod_env demo_server (user_ctx 1) (bad_day 86399999999999) a' = (Reply (Inr v), a')"
proof -
  obtain v a' where run: "r_TeaOfTheDay demo_tod_env demo_server (user_ctx 1) (bad_day 5000) (demo_app db_two_records) =
      (Reply (Inr v), a')" using demo_day by blast
  have "local_day (sv_offset demo_server) (wd_now (bad_day 86399999999999)) =
      local_day (sv_offset demo_server) (wd_now (bad_day 5000))"
    by (simp add: local_day_def Day_def Hour_def)
  from TeaOfTheDay_same_all_day [OF user_ctx_sel(2) demo_hyps(3) run this] run show ?thesis by blast
qed

section \<open>Scores by name\<close>

lemma ai_scores_named:
  assumes "ai_scores te nameToID ctxScores i = Some s"
  shows "\<exists>n. nameToID n = Some i"
proof -
  let ?f = "\<lambda>name m. case ctxScores name of None \<Rightarrow> m | Some score \<Rightarrow>
      (case nameToID (te_norm te name) of None \<Rightarrow> m | Some i \<Rightarrow> m(i \<mapsto> score))"
  have step: "dom (?f name m) \<subseteq> dom m \<union> ran nameToID" for name m
    by (auto simp: ran_def split: option.splits)
  have "dom (fold ?f xs m) \<subseteq> dom m \<union> ran nameToID" for xs m
  proof (induction xs arbitrary: m)
    case (Cons x xs)
    show ?case using Cons.IH [of "?f x m"] step [where name = x and m = m] by (simp only: fold_Cons comp_apply) blast
  qed simp
  from this [of "te_order te ctxScores" Map.empty] assms have "i \<in> ran nameToID"
    by (auto simp: ai_scores_def)
  then show ?thesis by (simp add: ran_def)
qed

text \<open>
  Teas share the score of their name: of two teas of a user whose names agree up to spaces and
  case, whatever the model answers, at least one is scored as if the model had not mentioned it.
\<close>

theorem same_name_one_score:
  assumes "acc = fold (tod_step (te_norm te)) recs tod_empty"
    and "c1 \<in> set (acc_candidates acc)" and "c2 \<in> set (acc_candidates acc)" and "cand_ID c1 \<noteq> cand_ID c2"
    and "te_norm te (cand_Name c1) = te_norm te (cand_Name c2)"
  shows "clampedAIScore (ai_scores te (acc_nameToID acc) ctxScores) (cand_ID c1) = 0 \<or>
    clampedAIScore (ai_scores te (acc_nameToID acc) ctxScores) (cand_ID c2) = 0"
proof (rule ccontr)
  assume "\<not> ?thesis"
  then have "ai_scores te (acc_nameToID acc) ctxScores (cand_ID c1) \<noteq> None"
    "ai_scores te (acc_nameToID acc) ctxScores (cand_ID c2) \<noteq> None"
    by (auto simp: clampedAIScore_def split: option.splits)
  then obtain n1 n2 where n: "acc_nameToID acc n1 = Some (cand_ID c1)" "acc_nameToID acc n2 = Some (cand_ID c2)"
    using ai_scores_named by (metis not_None_eq)
  have inv: "tod_inv (te_norm te) recs acc" using tod_inv_fold [OF tod_inv_empty, of _ recs] assms(1) by simp
  then have dist: "distinct (map cand_ID (acc_candidates acc))" by (simp add: tod_inv_def)
  have inj: "inj_on cand_ID (set (acc_candidates acc))" using dist by (simp add: distinct_map)
  have named: "\<forall>n i. acc_nameToID acc n = Some i \<longrightarrow>
      (\<exists>c \<in> set (acc_candidates acc). cand_ID c = i \<and> te_norm te (cand_Name c) = n)"
    using inv by (simp add: tod_inv_def)
  have name: "te_norm te (cand_Name c) = n"
    if h: "acc_nameToID acc n = Some (cand_ID c)" "c \<in> set (acc_candidates acc)" for n c
  proof -
    obtain c' where c': "c' \<in> set (acc_candidates acc)" "cand_ID c' = cand_ID c" "te_norm te (cand_Name c') = n"
      using named h(1) by blast
    have "c' = c" using inj_onD [OF inj c'(2,1) h(2)] .
    with c'(3) show ?thesis by simp
  qed
  have "n1 = n2" using name [OF n(1) assms(2)] name [OF n(2) assms(3)] assms(5) by argo
  with n have "cand_ID c1 = cand_ID c2" by (metis option.inject)
  with assms(4) show False by contradiction
qed

definition two_green :: "QRRecord list" where
  "two_green = map (\<lambda>i. \<lparr>qrr_ID = i, qrr_Tea = Some \<lparr>gtea_ID = i, gtea_Name = ''green'', gtea_Type = TypeTea,
     gtea_Description = ''''\<rparr>, qrr_BowlingTemp = 80, qrr_ExpirationDate = 1000\<rparr>) [1, 2]"

theorem same_name_one_score_witness:
  "let te = demo_tod_env\<lparr>te_order := (\<lambda>_. [''green''])\<rparr>;
       acc = fold (tod_step id) two_green tod_empty;
       ai = ai_scores te (acc_nameToID acc) [''green'' \<mapsto> 9]
   in (clampedAIScore ai 1 = 0 \<or> clampedAIScore ai 2 = 0) \<and> acc_names acc = [''green'', ''green'']"
proof -
  let ?te = "demo_tod_env\<lparr>te_order := (\<lambda>_. [''green''])\<rparr>"
  let ?acc = "fold (tod_step id) two_green tod_empty"
  let ?c1 = "\<lparr>cand_ID = 1, cand_Name = ''green'', cand_Expiration = 1000\<rparr>"
  let ?c2 = "\<lparr>cand_ID = 2, cand_Name = ''green'', cand_Expiration = 1000\<rparr>"
  have cands: "acc_candidates ?acc = [?c1, ?c2]" "acc_names ?acc = [''green'', ''green'']"
    by (simp_all add: two_green_def tod_step_def tod_empty_def Let_def)
  have norm: "te_norm ?te = id" by (simp add: demo_tod_env_def)
  show ?thesis
    using same_name_one_score [of ?acc ?te two_green ?c1 ?c2 "[''green'' \<mapsto> 9]"]
    by (simp add: norm cands Let_def)
qed

end
