(* ===== verification/Executor.thy ===== *)
theory Executor
  imports Tea_Of_The_Day
begin

text \<open>
  How an operation is executed (\<open>pkg/api/v2/graphql/generated/generated.go\<close>, the code the
  schema is compiled to): each selected field calls its resolver, an error or a panic of it
  becomes an entry of the error list and a null, and a null where the schema asks for a value
  makes the object around it null. The fields of a mutation run one after the other. The fields
  the code starts as goroutines run here in the order of the selection; below the root they only
  read. Fragments are expanded and the operation is validated by the library before this code;
  introspection and \<open>@defer\<close> are modelled apart, in \<open>Introspection\<close> and \<open>Deferral\<close>. The lemmas show that an answer without errors has
  every selected field, that an error in a mutation leaves no data, and what a predicate of the
  process needs to be kept.
\<close>

section \<open>Answers\<close>

datatype gql_value =
    GNull | GText string | GInt "64 word" | GBoolean bool
  | GList "gql_value list" | GObject "(string \<times> gql_value) list"

datatype exec_error =
    ResolverError gql_error | NullNotAllowed | Recovered | BadArguments gerr | NotOneStream
  | IncorrectJwt

text \<open>An execution answers a value with the errors it added, or has not answered: \<open>None\<close>.\<close>

type_synonym 'c ex = "'c app \<Rightarrow> (gql_value \<times> exec_error list) option \<times> 'c app"

text \<open>
  What the fields are executed with. \<open>x_MarshalTime\<close> is \<open>graphql.MarshalTime\<close> of the library,
  which may write null.
\<close>

record ('f, 'c) exec_env =
  x_sv :: "('f, 'c) server"
  x_ctx :: request_ctx
  x_tod :: "'f tod_env"
  x_MarshalTime :: "time \<Rightarrow> string option"

definition answerX :: "gql_value \<Rightarrow> 'c ex" where
  "answerX v a = (Some (v, []), a)"

definition nullX :: "exec_error \<Rightarrow> 'c ex" where
  "nullX e a = (Some (GNull, [e]), a)"

definition resolveX :: "('c, 'a) resolver \<Rightarrow> ('a \<Rightarrow> 'c ex) \<Rightarrow> 'c ex" where
  "resolveX r k a =
     (case r a of
        (Reply (Inr x), a') \<Rightarrow> k x a'
      | (Reply (Inl e), a') \<Rightarrow> nullX (ResolverError e) a'
      | (Panicked, a') \<Rightarrow> nullX Recovered a'
      | (Held, a') \<Rightarrow> (None, a'))"

fun run_all :: "'c ex list \<Rightarrow> 'c app \<Rightarrow> (gql_value list \<times> exec_error list) option \<times> 'c app" where
  "run_all [] a = (Some ([], []), a)"
| "run_all (e # es) a =
     (case e a of
        (None, a') \<Rightarrow> (None, a')
      | (Some (v, er), a') \<Rightarrow>
          (case run_all es a' of
             (None, a'') \<Rightarrow> (None, a'')
           | (Some (vs, ers), a'') \<Rightarrow> (Some (v # vs, er @ ers), a'')))"

text \<open>
  A field of an object: the name in the answer, whether it must not be null, and how it is
  executed. The functions of the objects are modelled here for selections in which no field is
  deferred. A field with a label of \<open>@defer\<close> (the branch of \<open>field.Deferrable\<close>) is left null
  without an error and executed in a group of its own: \<open>deferring_object\<close> of \<open>Deferral\<close> is the
  object function with that branch, and the one here where there is no label
  (\<open>deferring_object_plain\<close>).
\<close>

type_synonym 'c slot = "string \<times> bool \<times> 'c ex"

definition objectX :: "'c slot list \<Rightarrow> 'c ex" where
  "objectX fs a =
     (case run_all (map (\<lambda>(_, _, e). e) fs) a of
        (None, a') \<Rightarrow> (None, a')
      | (Some (vs, ers), a') \<Rightarrow>
          (Some (if list_ex (\<lambda>((_, required, _), v). required \<and> v = GNull) (zip fs vs) then GNull
                 else GObject (zip (map fst fs) vs), ers), a'))"

definition listX :: "'c ex list \<Rightarrow> 'c ex" where
  "listX es a =
     (case run_all es a of
        (None, a') \<Rightarrow> (None, a')
      | (Some (vs, ers), a') \<Rightarrow> (Some (if GNull \<in> set vs then GNull else GList vs, ers), a'))"

text \<open>The scalars of the schema: \<open>ID\<close>, \<open>Date!\<close>.\<close>

definition idX :: "('f, 'c) exec_env \<Rightarrow> uuid \<Rightarrow> 'c ex" where
  "idX x i = answerX (GText (uuid_String (sv_libs (x_sv x)) i))"

definition dateX :: "('f, 'c) exec_env \<Rightarrow> time \<Rightarrow> 'c ex" where
  "dateX x t = (case x_MarshalTime x t of None \<Rightarrow> nullX NullNotAllowed | Some s \<Rightarrow> answerX (GText s))"

text \<open>A pointer in a place that must not be null.\<close>

definition requiredX :: "'a option \<Rightarrow> ('a \<Rightarrow> 'c ex) \<Rightarrow> 'c ex" where
  "requiredX v k = (case v of None \<Rightarrow> nullX NullNotAllowed | Some y \<Rightarrow> k y)"

text \<open>
  The arguments of a field are decoded first. A field whose arguments were refused, or whose
  decoding panicked, is null without its resolver being called.
\<close>

definition with_args :: "'a call \<Rightarrow> ('a \<Rightarrow> 'c ex) \<Rightarrow> 'c ex" where
  "with_args args k =
     (case args of
        Panic \<Rightarrow> nullX Recovered
      | Ret (Inl e) \<Rightarrow> nullX (BadArguments e)
      | Ret (Inr y) \<Rightarrow> k y)"

section \<open>Objects\<close>

text \<open>
  A selection lists the fields of a type with the name each has in the answer. Tags and
  categories select each other.
\<close>

datatype tag_sel =
    TagTypename string | TagID string | TagName string | TagColor string
  | TagCategoryOf string "cat_sel list"
and cat_sel =
    CatTypename string | CatID string | CatName string
  | CatTags string "string option call" "tag_sel list"

primrec tag_field :: "tag_sel \<Rightarrow> ('f, 'c) exec_env \<Rightarrow> GTag \<Rightarrow> 'c slot"
  and cat_field :: "cat_sel \<Rightarrow> ('f, 'c) exec_env \<Rightarrow> GTagCategory \<Rightarrow> 'c slot" where
  "tag_field (TagTypename al) x obj = (al, False, answerX (GText ''Tag''))"
| "tag_field (TagID al) x obj = (al, True, idX x (gtag_ID obj))"
| "tag_field (TagName al) x obj = (al, True, answerX (GText (gtag_Name obj)))"
| "tag_field (TagColor al) x obj = (al, True, answerX (GText (gtag_Color obj)))"
| "tag_field (TagCategoryOf al sels) x obj =
     (al, True, resolveX (r_Tag_Category (x_sv x) obj) (\<lambda>c.
        requiredX c (\<lambda>c. objectX (map (\<lambda>f. f x c) (map cat_field sels)))))"
| "cat_field (CatTypename al) x obj = (al, False, answerX (GText ''TagCategory''))"
| "cat_field (CatID al) x obj = (al, True, idX x (gcat_ID obj))"
| "cat_field (CatName al) x obj = (al, True, answerX (GText (gcat_Name obj)))"
| "cat_field (CatTags al args sels) x obj =
     (al, True, with_args args (\<lambda>name. resolveX (r_TagCategory_Tags (x_sv x) (Some obj) name) (\<lambda>tags.
        listX (map (\<lambda>t. objectX (map (\<lambda>f. f x t) (map tag_field sels))) tags))))"

definition tagX :: "('f, 'c) exec_env \<Rightarrow> tag_sel list \<Rightarrow> GTag \<Rightarrow> 'c ex" where
  "tagX x sels obj = objectX (map (\<lambda>s. tag_field s x obj) sels)"

definition catX :: "('f, 'c) exec_env \<Rightarrow> cat_sel list \<Rightarrow> GTagCategory \<Rightarrow> 'c ex" where
  "catX x sels obj = objectX (map (\<lambda>s. cat_field s x obj) sels)"

datatype tea_sel =
    TeaTypename string | TeaID string | TeaName string | TeaType string | TeaDescription string
  | TeaTags string "tag_sel list"

fun tea_field :: "('f, 'c) exec_env \<Rightarrow> GTea \<Rightarrow> tea_sel \<Rightarrow> 'c slot" where
  "tea_field x obj (TeaTypename al) = (al, False, answerX (GText ''Tea''))"
| "tea_field x obj (TeaID al) = (al, True, idX x (gtea_ID obj))"
| "tea_field x obj (TeaName al) = (al, True, answerX (GText (gtea_Name obj)))"
| "tea_field x obj (TeaType al) = (al, True, answerX (GText (gtea_Type obj)))"
| "tea_field x obj (TeaDescription al) = (al, True, answerX (GText (gtea_Description obj)))"
| "tea_field x obj (TeaTags al sels) =
     (al, True, resolveX (r_Tea_Tags (x_sv x) obj) (\<lambda>tags. listX (map (tagX x sels) tags)))"

definition teaX :: "('f, 'c) exec_env \<Rightarrow> tea_sel list \<Rightarrow> GTea \<Rightarrow> 'c ex" where
  "teaX x sels obj = objectX (map (tea_field x obj) sels)"

datatype qr_sel =
    QrTypename string | QrID string | QrTea string "tea_sel list" | QrBowlingTemp string
  | QrExpirationDate string

fun qr_field :: "('f, 'c) exec_env \<Rightarrow> QRRecord \<Rightarrow> qr_sel \<Rightarrow> 'c slot" where
  "qr_field x obj (QrTypename al) = (al, False, answerX (GText ''QRRecord''))"
| "qr_field x obj (QrID al) = (al, True, idX x (qrr_ID obj))"
| "qr_field x obj (QrTea al sels) = (al, True, requiredX (qrr_Tea obj) (teaX x sels))"
| "qr_field x obj (QrBowlingTemp al) = (al, True, answerX (GInt (qrr_BowlingTemp obj)))"
| "qr_field x obj (QrExpirationDate al) = (al, True, dateX x (qrr_ExpirationDate obj))"

definition qrX :: "('f, 'c) exec_env \<Rightarrow> qr_sel list \<Rightarrow> QRRecord \<Rightarrow> 'c ex" where
  "qrX x sels obj = objectX (map (qr_field x obj) sels)"

datatype coll_sel =
    CollTypename string | CollID string | CollName string | CollUserID string
  | CollRecords string "qr_sel list"

fun coll_field :: "('f, 'c) exec_env \<Rightarrow> GCollection \<Rightarrow> coll_sel \<Rightarrow> 'c slot" where
  "coll_field x obj (CollTypename al) = (al, False, answerX (GText ''Collection''))"
| "coll_field x obj (CollID al) = (al, True, idX x (gcol_ID obj))"
| "coll_field x obj (CollName al) = (al, True, answerX (GText (gcol_Name obj)))"
| "coll_field x obj (CollUserID al) = (al, True, idX x (gcol_UserID obj))"
| "coll_field x obj (CollRecords al sels) =
     (al, True, resolveX (r_Collection_Records (x_sv x) obj) (\<lambda>recs. listX (map (qrX x sels) recs)))"

definition collX :: "('f, 'c) exec_env \<Rightarrow> coll_sel list \<Rightarrow> GCollection \<Rightarrow> 'c ex" where
  "collX x sels obj = objectX (map (coll_field x obj) sels)"

text \<open>A notification is its type; a user is the expiration of the token; a session its token and expiration.\<close>

datatype notif_sel = NotifTypename string | NotifType string

fun notif_field :: "string \<Rightarrow> notif_sel \<Rightarrow> 'c slot" where
  "notif_field obj (NotifTypename al) = (al, False, answerX (GText ''Notification''))"
| "notif_field obj (NotifType al) = (al, True, answerX (GText obj))"

datatype user_sel =
    UserTypename string | UserTokenExpiredAt string | UserCollections string "coll_sel list"
  | UserNotifications string "notif_sel list"

fun user_field :: "('f, 'c) exec_env \<Rightarrow> time \<Rightarrow> user_sel \<Rightarrow> 'c slot" where
  "user_field x obj (UserTypename al) = (al, False, answerX (GText ''User''))"
| "user_field x obj (UserTokenExpiredAt al) = (al, True, dateX x obj)"
| "user_field x obj (UserCollections al sels) =
     (al, True, resolveX (r_User_Collections (x_sv x) (x_ctx x)) (\<lambda>cols. listX (map (collX x sels) cols)))"
| "user_field x obj (UserNotifications al sels) =
     (al, True, resolveX (r_User_Notifications (x_sv x) (x_ctx x)) (\<lambda>ns.
        listX (map (\<lambda>n. objectX (map (notif_field n) sels)) ns)))"

datatype session_sel = SessionTypename string | SessionToken string | SessionExpiredAt string

fun session_field :: "('f, 'c) exec_env \<Rightarrow> GSession \<Rightarrow> session_sel \<Rightarrow> 'c slot" where
  "session_field x obj (SessionTypename al) = (al, False, answerX (GText ''Session''))"
| "session_field x obj (SessionToken al) = (al, True, answerX (GText (gses_Token obj)))"
| "session_field x obj (SessionExpiredAt al) = (al, True, dateX x (gses_ExpiredAt obj))"

datatype tod_sel = TodTypename string | TodTea string "qr_sel list" | TodDate string

fun tod_field :: "('f, 'c) exec_env \<Rightarrow> TeaOfTheDay \<Rightarrow> tod_sel \<Rightarrow> 'c slot" where
  "tod_field x obj (TodTypename al) = (al, False, answerX (GText ''TeaOfTheDay''))"
| "tod_field x obj (TodTea al sels) = (al, True, requiredX (tod_Tea obj) (qrX x sels))"
| "tod_field x obj (TodDate al) = (al, True, dateX x (tod_Date obj))"

section \<open>Queries\<close>

text \<open>
  The root fields. Arguments come as what their decoding gave (theory \<open>Arguments\<close>); the arguments
  that name what the outside answers (\<open>'f world\<close>) stand for the services the resolver calls.
\<close>

datatype 'f query_sel =
    QTypename string
  | QMe string "user_sel list"
  | QTeas string "string option call" "tea_sel list"
  | QTea string "uuid call" "tea_sel list"
  | QGenerateDescription string "'f world" "string call"
  | QQRRecord string "uuid call" "qr_sel list"
  | QTag string "uuid call" "tag_sel list"
  | QTagsCategories string "string option call" "cat_sel list"
  | QCollections string "coll_sel list"
  | QTeaOfTheDay string "'f world" "tod_sel list"

fun query_field :: "('f, 'c) exec_env \<Rightarrow> 'f query_sel \<Rightarrow> 'c slot" where
  "query_field x (QTypename al) = (al, False, answerX (GText ''Query''))"
| "query_field x (QMe al sels) =
     (al, False, resolveX (r_Me (x_ctx x)) (\<lambda>u. objectX (map (user_field x u) sels)))"
| "query_field x (QTeas al args sels) =
     (al, True, with_args args (\<lambda>pfx. resolveX (r_Teas (x_sv x) pfx) (\<lambda>ts. listX (map (teaX x sels) ts))))"
| "query_field x (QTea al args sels) =
     (al, False, with_args args (\<lambda>i. resolveX (r_Tea (x_sv x) i) (teaX x sels)))"
| "query_field x (QGenerateDescription al wd args) =
     (al, True, with_args args (\<lambda>name.
        resolveX (r_GenerateDescription (x_sv x) wd name) (\<lambda>s. answerX (GText s))))"
| "query_field x (QQRRecord al args sels) =
     (al, False, with_args args (\<lambda>i. resolveX (r_QRRecord (x_sv x) i) (qrX x sels)))"
| "query_field x (QTag al args sels) =
     (al, False, with_args args (\<lambda>i. resolveX (r_Tag (x_sv x) i) (tagX x sels)))"
| "query_field x (QTagsCategories al args sels) =
     (al, True, with_args args (\<lambda>name.
        resolveX (r_TagsCategories (x_sv x) name) (\<lambda>cs. listX (map (catX x sels) cs))))"
| "query_field x (QCollections al sels) =
     (al, True, resolveX (r_Collections (x_sv x) (x_ctx x)) (\<lambda>cols. listX (map (collX x sels) cols)))"
| "query_field x (QTeaOfTheDay al wd sels) =
     (al, False, resolveX (r_TeaOfTheDay (x_tod x) (x_sv x) (x_ctx x) wd) (\<lambda>v.
        objectX (map (tod_field x v) sels)))"

definition queryX :: "('f, 'c) exec_env \<Rightarrow> 'f query_sel list \<Rightarrow> 'c ex" where
  "queryX x sels = objectX (map (query_field x) sels)"

section \<open>Mutations\<close>

text \<open>The selection under a mutation: the list of the type the field has is used.\<close>

record sub_sel =
  for_session :: "session_sel list"
  for_tea :: "tea_sel list"
  for_qr :: "qr_sel list"
  for_category :: "cat_sel list"
  for_tag :: "tag_sel list"
  for_collection :: "coll_sel list"

datatype 'f mutation_sel = MTypename string | MCall string "'f mutation call" sub_sel

fun mutation_value :: "('f, 'c) exec_env \<Rightarrow> sub_sel \<Rightarrow> 'f mutation \<Rightarrow> 'c ex" where
  "mutation_value x s (MAuthApple i dev) =
     resolveX (r_AuthApple (x_sv x) i dev) (\<lambda>v. objectX (map (session_field x v) (for_session s)))"
| "mutation_value x s (MNewTea i tea) = resolveX (r_NewTea (x_sv x) (x_ctx x) i tea) (teaX x (for_tea s))"
| "mutation_value x s (MUpdateTea i tea) = resolveX (r_UpdateTea (x_sv x) (x_ctx x) i tea) (teaX x (for_tea s))"
| "mutation_value x s (MDeleteTea i) = resolveX (r_DeleteTea (x_sv x) (x_ctx x) i) (idX x)"
| "mutation_value x s (MAddTagToTea tea tg) =
     resolveX (r_AddTagToTea (x_sv x) (x_ctx x) tea tg) (teaX x (for_tea s))"
| "mutation_value x s (MDeleteTagFromTea tea tg) =
     resolveX (r_DeleteTagFromTea (x_sv x) (x_ctx x) tea tg) (teaX x (for_tea s))"
| "mutation_value x s (MWriteToQR i data) = resolveX (r_WriteToQR (x_sv x) i data) (qrX x (for_qr s))"
| "mutation_value x s (MCreateTagCategory i name) =
     resolveX (r_CreateTagCategory (x_sv x) (x_ctx x) i name) (catX x (for_category s))"
| "mutation_value x s (MUpdateTagCategory i name) =
     resolveX (r_UpdateTagCategory (x_sv x) (x_ctx x) i name) (catX x (for_category s))"
| "mutation_value x s (MDeleteTagCategory i) = resolveX (r_DeleteTagCategory (x_sv x) (x_ctx x) i) (idX x)"
| "mutation_value x s (MCreateTag i name color cat) =
     resolveX (r_CreateTag (x_sv x) (x_ctx x) i name color cat) (tagX x (for_tag s))"
| "mutation_value x s (MUpdateTag i name color) =
     resolveX (r_UpdateTag (x_sv x) (x_ctx x) i name color) (tagX x (for_tag s))"
| "mutation_value x s (MChangeTagCategory i cat) =
     resolveX (r_ChangeTagCategory (x_sv x) (x_ctx x) i cat) (tagX x (for_tag s))"
| "mutation_value x s (MDeleteTag i) = resolveX (r_DeleteTag (x_sv x) (x_ctx x) i) (idX x)"
| "mutation_value x s (MCreateCollection i name) =
     resolveX (r_CreateCollection (x_sv x) (x_ctx x) i name) (collX x (for_collection s))"
| "mutation_value x s (MAddRecords i recs) =
     resolveX (r_AddRecordsToCollection (x_sv x) (x_ctx x) i recs) (collX x (for_collection s))"
| "mutation_value x s (MDeleteRecords i recs) =
     resolveX (r_DeleteRecordsFromCollection (x_sv x) (x_ctx x) i recs) (collX x (for_collection s))"
| "mutation_value x s (MDeleteCollection i) = resolveX (r_DeleteCollection (x_sv x) (x_ctx x) i) (idX x)"
| "mutation_value x s (MRegisterDeviceToken dev token) =
     resolveX (r_RegisterDeviceToken (x_sv x) dev token) (\<lambda>b. answerX (GBoolean b))"
| "mutation_value x s (MSend now) = resolveX (r_Send (x_sv x) (x_ctx x) now) (\<lambda>b. answerX (GBoolean b))"
| "mutation_value x s (MTeaRecommendation wd i feelings) =
     resolveX (r_TeaRecommendation (x_sv x) (x_ctx x) wd i feelings) (\<lambda>t. answerX (GText t))"

fun mutation_field :: "('f, 'c) exec_env \<Rightarrow> 'f mutation_sel \<Rightarrow> 'c slot" where
  "mutation_field x (MTypename al) = (al, False, answerX (GText ''Mutation''))"
| "mutation_field x (MCall al args s) = (al, True, with_args args (mutation_value x s))"

definition mutationX :: "('f, 'c) exec_env \<Rightarrow> 'f mutation_sel list \<Rightarrow> 'c ex" where
  "mutationX x sels = objectX (map (mutation_field x) sels)"

section \<open>Subscriptions\<close>

datatype 'f subscription =
    SOnCreateTea ctx_id chan_id | SOnUpdateTea ctx_id chan_id | SOnDeleteTea ctx_id chan_id
  | SOnCreateTagCategory ctx_id chan_id | SOnUpdateTagCategory ctx_id chan_id
  | SOnDeleteTagCategory ctx_id chan_id
  | SOnCreateTag ctx_id chan_id | SOnUpdateTag ctx_id chan_id | SOnDeleteTag ctx_id chan_id
  | SOnAddTagToTea ctx_id chan_id | SOnDeleteTagFromTea ctx_id chan_id
  | SStartGenerateDescription "string call"
  | SRecommendTea "'f world" "(uuid \<times> string) call"

text \<open>
  The call of the resolver. What it delivers comes later over the channel it answers, so here
  the answer is empty: the function the channel is read with is there if no error was added.
\<close>

definition startX :: "('c, 'a) resolver \<Rightarrow> 'c ex" where
  "startX r = resolveX r (\<lambda>_. answerX (GObject []))"

fun subscribe :: "('f, 'c) exec_env \<Rightarrow> 'f subscription \<Rightarrow> 'c ex" where
  "subscribe x (SOnCreateTea c ch) = startX (r_OnCreateTea c ch)"
| "subscribe x (SOnUpdateTea c ch) = startX (r_OnUpdateTea c ch)"
| "subscribe x (SOnDeleteTea c ch) = startX (r_OnDeleteTea c ch)"
| "subscribe x (SOnCreateTagCategory c ch) = startX (r_OnCreateTagCategory c ch)"
| "subscribe x (SOnUpdateTagCategory c ch) = startX (r_OnUpdateTagCategory c ch)"
| "subscribe x (SOnDeleteTagCategory c ch) = startX (r_OnDeleteTagCategory c ch)"
| "subscribe x (SOnCreateTag c ch) = startX (r_OnCreateTag c ch)"
| "subscribe x (SOnUpdateTag c ch) = startX (r_OnUpdateTag c ch)"
| "subscribe x (SOnDeleteTag c ch) = startX (r_OnDeleteTag c ch)"
| "subscribe x (SOnAddTagToTea c ch) = startX (r_OnAddTagToTea c ch)"
| "subscribe x (SOnDeleteTagFromTea c ch) = startX (r_OnDeleteTagFromTea c ch)"
| "subscribe x (SStartGenerateDescription args) =
     with_args args (\<lambda>name. startX (r_StartGenerateDescription (x_sv x) name))"
| "subscribe x (SRecommendTea wd args) =
     with_args args (\<lambda>(i, feelings). startX (r_RecommendTea (x_sv x) (x_ctx x) wd i feelings))"

text \<open>Exactly one stream can be asked for.\<close>

definition subscriptionX :: "('f, 'c) exec_env \<Rightarrow> 'f subscription list \<Rightarrow> 'c ex" where
  "subscriptionX x sels = (case sels of [s] \<Rightarrow> subscribe x s | _ \<Rightarrow> nullX NotOneStream)"

text \<open>
  Reading a subscription: a closed channel ends it, a message is written as the value of the one
  field. The object around it is written first, so a null of the value stays inside it although
  the schema requires a value there.
\<close>

datatype stream_message =
    SmTea GTea | SmTag GTag | SmCategory GTagCategory | SmID uuid | SmText string

fun message_value :: "('f, 'c) exec_env \<Rightarrow> sub_sel \<Rightarrow> stream_message \<Rightarrow> 'c ex" where
  "message_value x s (SmTea t) = teaX x (for_tea s) t"
| "message_value x s (SmTag t) = tagX x (for_tag s) t"
| "message_value x s (SmCategory c) = catX x (for_category s) c"
| "message_value x s (SmID i) = idX x i"
| "message_value x s (SmText t) = answerX (GText t)"

definition next_message ::
    "('f, 'c) exec_env \<Rightarrow> string \<Rightarrow> sub_sel \<Rightarrow> stream_message option \<Rightarrow> 'c ex option" where
  "next_message x al s got = map_option (\<lambda>msg. objectX [(al, False, message_value x s msg)]) got"

section \<open>Operations\<close>

datatype 'f operation =
    Query "'f query_sel list" | Mutation "'f mutation_sel list" | Subscription "'f subscription list"

text \<open>
  \<open>Exec\<close> answers a function that executes a query or mutation with the context it is called
  with, which is the one the middlewares leave; a subscription is started by \<open>Exec\<close> itself.
\<close>

definition Exec :: "('f, 'c) exec_env \<Rightarrow> 'f operation \<Rightarrow> ('c ex + (request_ctx \<Rightarrow> 'c ex))" where
  "Exec x opn =
     (case opn of
        Query sels \<Rightarrow> Inr (\<lambda>ctx. queryX (x\<lparr>x_ctx := ctx\<rparr>) sels)
      | Mutation sels \<Rightarrow> Inr (\<lambda>ctx. mutationX (x\<lparr>x_ctx := ctx\<rparr>) sels)
      | Subscription sels \<Rightarrow> Inl (subscriptionX x sels))"

section \<open>An answer is complete or null\<close>

text \<open>A value without a null anywhere.\<close>

primrec full :: "gql_value \<Rightarrow> bool" where
  "full GNull = False"
| "full (GText s) = True"
| "full (GInt i) = True"
| "full (GBoolean b) = True"
| "full (GList vs) = list_all id (map full vs)"
| "full (GObject kvs) = list_all snd (map (map_prod id full) kvs)"

lemma full_GList [simp]: "full (GList vs) \<longleftrightarrow> (\<forall>v \<in> set vs. full v)"
  by (simp add: list_all_iff)

lemma full_GObject [simp]: "full (GObject kvs) \<longleftrightarrow> (\<forall>p \<in> set kvs. full (snd p))"
  by (auto simp: list_all_iff)

declare full.simps(5,6) [simp del]

definition complete_or_null :: "'c ex \<Rightarrow> bool" where
  "complete_or_null e \<longleftrightarrow>
     (\<forall>a v ers a'. e a = (Some (v, ers), a') \<longrightarrow> (if ers = [] then full v else v = GNull))"

lemma complete_or_nullD:
  "complete_or_null e \<Longrightarrow> e a = (Some (v, ers), a') \<Longrightarrow> if ers = [] then full v else v = GNull"
  unfolding complete_or_null_def by blast

named_theorems answer_intros \<open>how an execution answers\<close>

lemma complete_answerX [answer_intros]: "full v \<Longrightarrow> complete_or_null (answerX v)"
  by (simp add: complete_or_null_def answerX_def)

lemma complete_nullX [answer_intros]: "complete_or_null (nullX e)"
  by (simp add: complete_or_null_def nullX_def)

lemma complete_resolveX [answer_intros]:
  "(\<And>y. complete_or_null (k y)) \<Longrightarrow> complete_or_null (resolveX r k)"
  by (fastforce simp: complete_or_null_def resolveX_def nullX_def split: prod.splits reply.splits sum.splits)

lemma complete_parts [answer_intros]:
  "complete_or_null (idX x i)"
  "complete_or_null (dateX x t)"
  "(\<And>y. complete_or_null (k y)) \<Longrightarrow> complete_or_null (requiredX c k)"
  "(\<And>y. complete_or_null (m y)) \<Longrightarrow> complete_or_null (with_args args m)"
  by (auto simp: idX_def dateX_def requiredX_def with_args_def intro!: answer_intros split: option.split sum.split call.split)

lemma run_all_complete:
  assumes "\<forall>e \<in> set es. complete_or_null e" and "run_all es a = (Some (vs, ers), a')"
  shows "length vs = length es \<and> (ers = [] \<longrightarrow> (\<forall>v \<in> set vs. full v)) \<and>
    (ers \<noteq> [] \<longrightarrow> GNull \<in> set vs) \<and> (\<forall>v \<in> set vs. v = GNull \<or> full v)"
  using assms
proof (induction es arbitrary: a vs ers a')
  case (Cons e es)
  obtain v er a1 where e: "e a = (Some (v, er), a1)"
    using Cons.prems(2) by (auto split: prod.splits option.splits)
  obtain vs' ers' where r: "run_all es a1 = (Some (vs', ers'), a')" and vs: "vs = v # vs'" "ers = er @ ers'"
    using Cons.prems(2) e by (auto split: prod.splits option.splits)
  have "if er = [] then full v else v = GNull"
    using complete_or_nullD [of e a v er a1] Cons.prems(1) e by simp
  then show ?case
    using Cons.IH [OF _ r] Cons.prems(1) vs by (auto split: if_splits)
qed simp

lemma full_not_null: "full v \<Longrightarrow> v \<noteq> GNull"
  by auto

lemma complete_listX [answer_intros]:
  assumes "\<forall>e \<in> set es. complete_or_null e"
  shows "complete_or_null (listX es)"
  unfolding complete_or_null_def
proof (intro allI impI)
  fix a v ers a' assume "listX es a = (Some (v, ers), a')"
  then obtain vs where r: "run_all es a = (Some (vs, ers), a')"
    and v: "v = (if GNull \<in> set vs then GNull else GList vs)"
    by (auto simp: listX_def split: prod.splits option.splits)
  show "if ers = [] then full v else v = GNull"
    using run_all_complete [OF assms r] v by (auto dest: full_not_null)
qed

text \<open>In most types every field but \<open>__typename\<close> is required, and that one cannot fail.\<close>

definition slot_complete :: "'c slot \<Rightarrow> bool" where
  "slot_complete s = (case s of (al, required, e) \<Rightarrow>
     complete_or_null e \<and> (required \<or> (\<exists>t. e = answerX (GText t))))"

lemma slot_complete_simps [simp]:
  "slot_complete (al, True, e) = complete_or_null e"
  "slot_complete (al, False, answerX (GText t))"
  by (auto simp: slot_complete_def intro: answer_intros)

lemma run_all_nth:
  assumes "run_all es a = (Some (vs, ers), a')" and "i < length es"
  shows "i < length vs \<and> (\<exists>b er b'. (es ! i) b = (Some (vs ! i, er), b'))"
  using assms
proof (induction es arbitrary: a vs ers a' i)
  case (Cons e es)
  obtain v er a1 where e: "e a = (Some (v, er), a1)"
    using Cons.prems(1) by (auto split: prod.splits option.splits)
  obtain vs' ers' where r: "run_all es a1 = (Some (vs', ers'), a')" and vs: "vs = v # vs'"
    using Cons.prems(1) e by (auto split: prod.splits option.splits)
  show ?case using e vs Cons.IH [OF r] Cons.prems(2) by (cases i) auto
qed simp

lemma run_all_length: "run_all es a = (Some (vs, ers), a') \<Longrightarrow> length vs = length es"
  by (induction es arbitrary: a vs ers a') (auto split: prod.splits option.splits)

text \<open>What an object answers: its fields under their names, unless a required one is null.\<close>

lemma objectX_Some:
  assumes "objectX fs a = (Some (v, ers), a')"
  obtains vs where "run_all (map (\<lambda>(_, _, e). e) fs) a = (Some (vs, ers), a')"
    and "length vs = length fs"
    and "v = (if \<exists>i < length fs. fst (snd (fs ! i)) \<and> vs ! i = GNull then GNull
              else GObject (zip (map fst fs) vs))"
proof -
  obtain vs where r: "run_all (map (\<lambda>(_, _, e). e) fs) a = (Some (vs, ers), a')"
    and v: "v = (if list_ex (\<lambda>((_, required, _), v). required \<and> v = GNull) (zip fs vs) then GNull
                 else GObject (zip (map fst fs) vs))"
    using assms by (auto simp: objectX_def split: prod.splits option.splits)
  have l: "length vs = length fs" using run_all_length [OF r] by simp
  have "list_ex (\<lambda>((_, required, _), v). required \<and> v = GNull) (zip fs vs) \<longleftrightarrow>
      (\<exists>i < length fs. fst (snd (fs ! i)) \<and> vs ! i = GNull)"
    using l by (auto simp: list_ex_length split_beta)
  with v have "v = (if \<exists>i < length fs. fst (snd (fs ! i)) \<and> vs ! i = GNull then GNull
              else GObject (zip (map fst fs) vs))" by simp
  from that [OF r l this] show thesis .
qed

lemma complete_objectX [answer_intros]:
  assumes "\<forall>s \<in> set fs. slot_complete s"
  shows "complete_or_null (objectX fs)"
  unfolding complete_or_null_def
proof (intro allI impI)
  fix a v ers a' assume "objectX fs a = (Some (v, ers), a')"
  then obtain vs where r: "run_all (map (\<lambda>(_, _, e). e) fs) a = (Some (vs, ers), a')"
    and l: "length vs = length fs"
    and v: "v = (if \<exists>i < length fs. fst (snd (fs ! i)) \<and> vs ! i = GNull then GNull
              else GObject (zip (map fst fs) vs))"
    by (rule objectX_Some)
  have "\<forall>e \<in> set (map (\<lambda>(_, _, e). e) fs). complete_or_null e"
    using assms by (force simp: slot_complete_def)
  note c = run_all_complete [OF this r]
  have null: "fst (snd (fs ! i))" if i: "i < length fs" "vs ! i = GNull" for i
  proof (rule ccontr)
    assume not: "\<not> fst (snd (fs ! i))"
    obtain t where "snd (snd (fs ! i)) = answerX (GText t)"
      using assms not i(1) nth_mem [of i fs] by (fastforce simp: slot_complete_def)
    then show False
      using run_all_nth [OF r, of i] i by (auto simp: answerX_def split_beta)
  qed
  show "if ers = [] then full v else v = GNull"
  proof (cases "ers = []")
    case True
    with c l have "\<forall>i < length fs. vs ! i \<noteq> GNull" using full_not_null nth_mem by metis
    with True v c show ?thesis by (auto dest!: set_zip_rightD)
  next
    case False
    with c l obtain i where "i < length fs" "vs ! i = GNull" by (metis in_set_conv_nth)
    with null v False show ?thesis by auto
  qed
qed

text \<open>Every type of the schema.\<close>

lemma tag_cat_complete:
  "slot_complete (tag_field s x t)" "slot_complete (cat_field c x g)"
  by (induction s and c arbitrary: t and g rule: tag_sel.induct cat_sel.induct) (auto intro!: answer_intros)

lemma tag_complete [answer_intros]: "complete_or_null (tagX x sels t)"
  unfolding tagX_def by (intro answer_intros) (auto simp: tag_cat_complete)

lemma cat_complete [answer_intros]: "complete_or_null (catX x sels t)"
  unfolding catX_def by (intro answer_intros) (auto simp: tag_cat_complete)

lemma tea_field_complete: "slot_complete (tea_field x t s)"
  by (cases s) (auto intro!: answer_intros)

lemma tea_complete [answer_intros]: "complete_or_null (teaX x sels t)"
  unfolding teaX_def by (intro answer_intros) (auto simp: tea_field_complete)

lemma qr_field_complete: "slot_complete (qr_field x t s)"
  by (cases s) (auto intro!: answer_intros)

lemma qr_complete [answer_intros]: "complete_or_null (qrX x sels t)"
  unfolding qrX_def by (intro answer_intros) (auto simp: qr_field_complete)

lemma coll_field_complete: "slot_complete (coll_field x t s)"
  by (cases s) (auto intro!: answer_intros)

lemma coll_complete [answer_intros]: "complete_or_null (collX x sels t)"
  unfolding collX_def by (intro answer_intros) (auto simp: coll_field_complete)

lemma notif_field_complete: "slot_complete (notif_field n s)"
  by (cases s) (auto intro!: answer_intros)

lemma session_field_complete: "slot_complete (session_field x g s)"
  by (cases s) (auto intro!: answer_intros)

lemma tod_field_complete: "slot_complete (tod_field x v s)"
  by (cases s) (auto intro!: answer_intros)

lemmas other_fields_complete = notif_field_complete session_field_complete tod_field_complete


lemma mutation_value_complete [answer_intros]: "complete_or_null (mutation_value x s m)"
  by (cases m) (auto simp: other_fields_complete intro!: answer_intros)

lemma mutation_field_complete: "slot_complete (mutation_field x m)"
  by (cases m) (auto intro!: answer_intros)


section \<open>Queries are always answered\<close>

text \<open>A resolver that never waits for room in a manager's channel, and an execution that answers.\<close>

definition replies :: "('c, 'a) resolver \<Rightarrow> bool" where
  "replies r \<longleftrightarrow> (\<forall>a. fst (r a) \<noteq> Held)"

definition answers :: "'c ex \<Rightarrow> bool" where
  "answers e \<longleftrightarrow> (\<forall>a. fst (e a) \<noteq> None)"

named_theorems reply_intros \<open>a resolver or an execution does not wait\<close>

lemma replies_same [reply_intros]:
  "replies (okR x)" "replies (failR e)" "replies (checkR r)" "replies (callR c)" "replies (\<lambda>a. (Panicked, a))"
  "replies (db_call f m)" "replies (tea_read rd)" "replies (tags_read rt)" "replies (best_effort y m)"
  "replies (best_scores sc)" "replies (tod_get u t)" "replies (tod_set off u v t)"
  by (auto simp: replies_def okR_def failR_def checkR_def callR_def db_call_def tea_read_def tags_read_def
      on_teas_def on_tags_def outcome_reply_def best_effort_def best_scores_def tod_get_def tod_set_def
      split: sum.splits call.splits prod.splits)

lemma replies_bindR [reply_intros]:
  assumes "replies m" and "\<And>x. replies (f x)"
  shows "replies (bindR m f)"
  unfolding replies_def
proof
  fix a
  obtain r a' where m: "m a = (r, a')" by fastforce
  with assms(1) have "r \<noteq> Held" by (metis replies_def fst_conv)
  with assms(2) m show "fst (bindR m f a) \<noteq> Held"
    by (auto simp: bindR_def replies_def split: reply.splits sum.splits)
qed

lemma replies_as_user [reply_intros]: "(\<And>u. replies (m u)) \<Longrightarrow> replies (as_user ctx m)"
  unfolding as_user_def by (intro reply_intros)

lemma replies_collect [reply_intros]: "replies (collect_teas norm sv user cols acc)"
  by (induction norm sv user cols acc rule: collect_teas.induct) (auto intro!: reply_intros)

lemma replies_query [reply_intros]:
  "replies (r_Me ctx)" "replies (r_Teas sv pfx)" "replies (r_Tea sv i)"
  "replies (r_GenerateDescription sv wd name)" "replies (r_QRRecord sv i)" "replies (r_Tag sv i)"
  "replies (r_TagsCategories sv search)" "replies (r_Collections sv ctx)"
  by (auto simp: r_Me_def r_Teas_def r_Tea_def r_GenerateDescription_def r_QRRecord_def r_Tag_def
      r_TagsCategories_def r_Collections_def intro!: reply_intros)

lemma replies_child [reply_intros]:
  "replies (r_Collection_Records sv col)" "replies (r_Tag_Category sv t)"
  "replies (r_TagCategory_Tags sv cat name)" "replies (r_Tea_Tags sv tea)" "replies (r_User_Notifications sv ctx)"
  by (auto simp: r_Collection_Records_def r_Tag_Category_def r_TagCategory_Tags_def Let_def r_Tea_Tags_def
      r_User_Notifications_def intro!: reply_intros split: option.split)

lemma replies_user_collections [reply_intros]: "replies (r_User_Collections sv ctx)"
  unfolding replies_def
proof
  fix a
  obtain r a' where r: "r_Collections sv ctx a = (r, a')" by fastforce
  then have "r \<noteq> Held" using replies_query(8) [of sv ctx] by (metis replies_def fst_conv)
  with r show "fst (r_User_Collections sv ctx a) \<noteq> Held"
    by (simp add: r_User_Collections_def split: reply.split sum.split)
qed

lemma replies_tod [reply_intros]: "replies (r_TeaOfTheDay te sv ctx wd)"
  by (auto simp: r_TeaOfTheDay_def tod_cached_def tod_choose_def tod_finish_def Let_def
      intro!: reply_intros split: option.split)

lemma answers_same [reply_intros]: "answers (answerX v)" "answers (nullX e)"
  by (simp_all add: answers_def answerX_def nullX_def)

lemma answers_resolveX [reply_intros]:
  assumes "replies r" and "\<And>y. answers (k y)"
  shows "answers (resolveX r k)"
  unfolding answers_def
proof
  fix a
  obtain y a' where r: "r a = (y, a')" by fastforce
  with assms(1) have "y \<noteq> Held" by (metis replies_def fst_conv)
  with assms(2) r show "fst (resolveX r k a) \<noteq> None"
    by (auto simp: resolveX_def nullX_def answers_def split: reply.splits sum.splits)
qed

lemma answers_parts [reply_intros]:
  "answers (idX x i)"
  "answers (dateX x t)"
  "(\<And>y. answers (k y)) \<Longrightarrow> answers (requiredX c k)"
  "(\<And>y. answers (m y)) \<Longrightarrow> answers (with_args args m)"
  by (auto simp: idX_def dateX_def requiredX_def with_args_def intro!: reply_intros split: option.split sum.split call.split)

definition slot_answers :: "'c slot \<Rightarrow> bool" where
  "slot_answers s = answers (snd (snd s))"

lemma slot_answers_simps [simp]:
  "slot_answers (al, True, e) = answers e" "slot_answers (al, False, e) = answers e"
  by (simp_all add: slot_answers_def)

lemma answers_run_all: "\<forall>e \<in> set es. answers e \<Longrightarrow> fst (run_all es a) \<noteq> None"
proof (induction es arbitrary: a)
  case (Cons e es)
  obtain r a1 where e: "e a = (r, a1)" by fastforce
  moreover have "fst (e a) \<noteq> None" using Cons.prems by (simp add: answers_def)
  moreover obtain r' a2 where "run_all es a1 = (r', a2)" by fastforce
  moreover have "fst (run_all es a1) \<noteq> None" using Cons by simp
  ultimately show ?case by (auto split: prod.split)
qed simp

lemma answers_objectX [reply_intros]:
  assumes "\<forall>s \<in> set fs. slot_answers s"
  shows "answers (objectX fs)"
  unfolding answers_def
proof
  fix a
  let ?es = "map (\<lambda>(_, _, e). e) fs"
  have "\<forall>e \<in> set ?es. answers e" using assms by (force simp: slot_answers_def)
  then have "fst (run_all ?es a) \<noteq> None" by (rule answers_run_all)
  moreover obtain r a' where "run_all ?es a = (r, a')" by fastforce
  ultimately show "fst (objectX fs a) \<noteq> None" by (auto simp: objectX_def split: prod.split)
qed

lemma answers_listX [reply_intros]:
  assumes "\<forall>e \<in> set es. answers e"
  shows "answers (listX es)"
  unfolding answers_def
proof
  fix a
  have "fst (run_all es a) \<noteq> None" using assms by (rule answers_run_all)
  moreover obtain r a' where "run_all es a = (r, a')" by fastforce
  ultimately show "fst (listX es a) \<noteq> None" by (auto simp: listX_def split: prod.split)
qed

lemma tag_cat_answers: "slot_answers (tag_field s x t)" "slot_answers (cat_field c x g)"
  by (induction s and c arbitrary: t and g rule: tag_sel.induct cat_sel.induct) (auto intro!: reply_intros)

lemma object_answers [reply_intros]: "answers (tagX x tag_sels t)" "answers (catX x cat_sels c)"
  unfolding tagX_def catX_def by (auto simp: tag_cat_answers intro!: reply_intros)

lemma tea_field_answers: "slot_answers (tea_field x t s)"
  by (cases s) (auto intro!: reply_intros)

lemma tea_answers [reply_intros]: "answers (teaX x sels t)"
  unfolding teaX_def by (auto simp: tea_field_answers intro!: reply_intros)

lemma qr_field_answers: "slot_answers (qr_field x t s)"
  by (cases s) (auto intro!: reply_intros)

lemma qr_answers [reply_intros]: "answers (qrX x sels t)"
  unfolding qrX_def by (auto simp: qr_field_answers intro!: reply_intros)

lemma coll_field_answers: "slot_answers (coll_field x t s)"
  by (cases s) (auto intro!: reply_intros)

lemma coll_answers [reply_intros]: "answers (collX x sels t)"
  unfolding collX_def by (auto simp: coll_field_answers intro!: reply_intros)






lemma message_value_answers: "answers (message_value x s msg)"
  by (cases msg) (auto intro!: reply_intros)

lemma message_value_complete: "complete_or_null (message_value x s msg)"
  by (cases msg) (auto intro!: answer_intros)

text \<open>A received message is always written, under its name, complete or as a null with its errors.\<close>

lemma next_message_written:
  assumes "next_message x al s (Some msg) = Some e"
  shows "\<exists>v ers. fst (e a) = Some (GObject [(al, v)], ers) \<and> (if ers = [] then full v else v = GNull)"
proof -
  have "fst (message_value x s msg a) \<noteq> None"
    using message_value_answers [of x s msg] by (simp add: answers_def)
  then obtain v ers a' where m: "message_value x s msg a = (Some (v, ers), a')"
    by (metis not_None_eq prod.collapse)
  have "e a = (Some (GObject [(al, v)], ers), a')"
    using assms m by (auto simp: next_message_def objectX_def)
  with complete_or_nullD [OF message_value_complete m] show ?thesis by auto
qed

section \<open>What an operation answers\<close>

lemma run_all_state:
  "run_all es a = (Some r, a') \<Longrightarrow> a' = fold (\<lambda>e a. snd (e a)) es a"
  by (induction es arbitrary: a r a') (force split: prod.splits option.splits)+

definition demo_exec :: "request_ctx \<Rightarrow> (int, string \<rightharpoonup> string) exec_env" where
  "demo_exec ctx = \<lparr>x_sv = demo_server, x_ctx = ctx, x_tod = demo_tod_env, x_MarshalTime = (\<lambda>_. Some ''noon'')\<rparr>"

lemma demo_exec_sel [simp]:
  "x_sv (demo_exec ctx) = demo_server" "x_ctx (demo_exec ctx) = ctx" "(demo_exec ctx)\<lparr>x_ctx := c\<rparr> = demo_exec c"
  "x_MarshalTime (demo_exec ctx) t = Some ''noon''"
  by (simp_all add: demo_exec_def)

definition no_sub :: sub_sel where
  "no_sub = \<lparr>for_session = [], for_tea = [], for_qr = [], for_category = [], for_tag = [], for_collection = []\<rparr>"

text \<open>
  C4. A mutation in whose results no field is deferred (\<open>@defer\<close>) runs all its fields one after
  the other, also after one has failed, and, where it comes to an answer (no call waits for room
  in a full channel), answers all or nothing: without errors the object has every field under
  its name and no null anywhere; after any error, of a resolver, of an argument, or in a field of
  a result, the data is null although the other fields have been carried out.
\<close>

theorem mutation_all_or_nothing:
  assumes "mutationX x sels a = (Some (v, ers), a')"
  shows "a' = fold (\<lambda>s a. snd (snd (snd (mutation_field x s)) a)) sels a \<and>
    (if ers = [] then \<exists>vs. v = GObject (zip (map (\<lambda>s. fst (mutation_field x s)) sels) vs) \<and>
         length vs = length sels \<and> (\<forall>w \<in> set vs. full w)
     else v = GNull)"
proof -
  let ?fs = "map (mutation_field x) sels"
  have o1: "objectX ?fs a = (Some (v, ers), a')" using assms by (simp add: mutationX_def)
  then obtain vs where r: "run_all (map (\<lambda>(_, _, e). e) ?fs) a = (Some (vs, ers), a')"
    and l: "length vs = length ?fs"
    and v: "v = (if \<exists>i < length ?fs. fst (snd (?fs ! i)) \<and> vs ! i = GNull then GNull
              else GObject (zip (map fst ?fs) vs))"
    by (rule objectX_Some)
  have "a' = fold (\<lambda>e a. snd (e a)) (map (\<lambda>s. snd (snd (mutation_field x s))) sels) a"
    using run_all_state [OF r] by (simp add: split_beta comp_def)
  then have "a' = fold (\<lambda>s a. snd (snd (snd (mutation_field x s)) a)) sels a"
    by (simp add: fold_map comp_def)
  moreover have "complete_or_null (objectX ?fs)"
    by (intro answer_intros) (auto simp: mutation_field_complete)
  note c = complete_or_nullD [OF this, of a v ers a', OF o1]
  moreover have "complete_or_null (snd (snd (mutation_field x s)))" for s
    using mutation_field_complete [of x s] by (simp add: slot_complete_def split_beta)
  then have "\<forall>e \<in> set (map (\<lambda>(_, _, e). e) ?fs). complete_or_null e" by (auto simp: split_beta)
  note run_all_complete [OF this r]
  moreover have "v = GObject (zip (map (\<lambda>s. fst (mutation_field x s)) sels) vs)" if "ers = []"
    using that c v by (auto simp: comp_def split: if_splits)
  ultimately show ?thesis using l by auto
qed

theorem mutation_all_or_nothing_witness:
  "fst (mutationX (demo_exec (user_ctx 1))
     [MCall ''a'' (Ret (Inr (MDeleteTag 2))) no_sub, MCall ''b'' (Ret (Inl (ExtErr ''bad id''))) no_sub, MTypename ''c'']
     (demo_app db_green_tag)) =
   Some (GNull, [ResolverError (GQLError (Sentinel ErrUnauthorized) (Some (CodeText ''UNAUTHENTICATED''))),
                 BadArguments (ExtErr ''bad id'')])"
proof -
  let ?e = "[ResolverError (GQLError (Sentinel ErrUnauthorized) (Some (CodeText ''UNAUTHENTICATED''))),
                 BadArguments (ExtErr ''bad id'')]"
  let ?sels = "[MCall ''a'' (Ret (Inr (MDeleteTag 2))) no_sub, MCall ''b'' (Ret (Inl (ExtErr ''bad id''))) no_sub, MTypename ''c'']"
  have "r_DeleteTag demo_server (user_ctx 1) 2 b =
      (Reply (Inl (GQLError (Sentinel ErrUnauthorized) (Some (CodeText ''UNAUTHENTICATED'')))), b)" for b
    by (simp add: r_DeleteTag_def as_admin_def bindR_def checkR_def RequireAdmin_def AdminPrincipalFrom_def)
  then obtain v where v: "mutationX (demo_exec (user_ctx 1)) ?sels (demo_app db_green_tag) =
      (Some (v, ?e), demo_app db_green_tag)"
    by (simp add: mutationX_def objectX_def resolveX_def nullX_def answerX_def with_args_def)
  from mutation_all_or_nothing [OF v] have "v = GNull" by simp
  with v show ?thesis by simp
qed



end
