(* ===== verification/Graphql_Server.thy ===== *)
theory Graphql_Server
  imports Executor
begin

text \<open>
  The server of the API as its clients see it: HTTP requests and WebSocket connections with
  their tokens, the two middlewares that turn a token into the context of the resolvers
  (\<open>internal/auth\<close>), the execution of the operation (\<open>generated.go\<close>) and the process behind it,
  wired as in \<open>internal/server\<close> and \<open>cmd/server\<close>. The lemmas follow a predicate of the database
  through queries and subscriptions as \<open>Resolver_Laws\<close> does for mutations, and conclude what no
  sequence of requests can do without the right token.
\<close>

section \<open>Requests\<close>

text \<open>
  The times at which the parser, the expiration check and the check of the admin token read
  the clock. A WebSocket operation comes with the headers of the connection's upgrade request,
  which may hold a token of their own.
\<close>

record reading =
  rd_parse :: time
  rd_check :: time
  rd_admin :: time

type_synonym conn_id = nat

datatype 'f request =
    HttpOperation string reading "'f operation"
  | WsConnect conn_id string reading
  | WsOperation conn_id string reading "'f operation"
  | WsClose conn_id

record 'c host =
  ho_app :: "'c app"
  ho_conns :: "conn_id \<rightharpoonup> request_ctx"

text \<open>
  The library calls \<open>Exec\<close> with the transport's context and hands what it answers to the
  middleware as \<open>next\<close>; it recovers a panic of the middleware. The error of the middleware is
  added to those of the answer.
\<close>

definition operate :: "('f, 'c) exec_env \<Rightarrow> string \<Rightarrow> reading \<Rightarrow> 'f operation \<Rightarrow> 'c ex" where
  "operate x header t opn a =
     (case Exec x opn of
        Inl start \<Rightarrow> start a
      | Inr next \<Rightarrow>
          (case InterceptResponse (sv_libs (x_sv x)) (sv_auth (x_sv x)) header
                  (rd_parse t) (rd_check t) (rd_admin t) (x_ctx x) of
             Ret (Inr (ctx, bad)) \<Rightarrow>
               (case next ctx a of
                  (None, a') \<Rightarrow> (None, a')
                | (Some (v, ers), a') \<Rightarrow> (Some (v, (if bad then [IncorrectJwt] else []) @ ers), a'))
           | _ \<Rightarrow> nullX Recovered a))"

definition in_ctx :: "('f, 'c) exec_env \<Rightarrow> request_ctx \<Rightarrow> ('f, 'c) exec_env" where
  "in_ctx x ctx = x\<lparr>x_ctx := ctx\<rparr>"

text \<open>One request; a connection that is refused is not there.\<close>

fun serve :: "('f, 'c) exec_env \<Rightarrow> 'f request \<Rightarrow> 'c host \<Rightarrow> (gql_value \<times> exec_error list) option \<times> 'c host" where
  "serve x (HttpOperation header t opn) s =
     (case operate (in_ctx x empty_ctx) header t opn (ho_app s) of (r, a) \<Rightarrow> (r, s\<lparr>ho_app := a\<rparr>))"
| "serve x (WsConnect c header t) s =
     (case WsInitFunc (sv_libs (x_sv x)) (sv_auth (x_sv x)) header
             (rd_parse t) (rd_check t) (rd_admin t) empty_ctx of
        Ret (Inr ctx) \<Rightarrow> (None, s\<lparr>ho_conns := (ho_conns s)(c \<mapsto> ctx)\<rparr>)
      | _ \<Rightarrow> (None, s))"
| "serve x (WsOperation c header t opn) s =
     (case ho_conns s c of
        None \<Rightarrow> (None, s)
      | Some ctx \<Rightarrow>
          (case operate (in_ctx x ctx) header t opn (ho_app s) of (r, a) \<Rightarrow> (r, s\<lparr>ho_app := a\<rparr>)))"
| "serve x (WsClose c) s = (None, s\<lparr>ho_conns := (ho_conns s)(c := None)\<rparr>)"

definition serve_all :: "('f, 'c) exec_env \<Rightarrow> 'f request list \<Rightarrow> 'c host \<Rightarrow> 'c host" where
  "serve_all x reqs s = fold (\<lambda>r s. snd (serve x r s)) reqs s"

text \<open>The token a request carries, and when it is read.\<close>

fun token_of :: "'f request \<Rightarrow> string" where
  "token_of (HttpOperation header t opn) = remove_first bearerPrefix header"
| "token_of (WsConnect c header t) = remove_first bearerPrefix header"
| "token_of (WsOperation c header t opn) = remove_first bearerPrefix header"
| "token_of (WsClose c) = ''''"

fun reading_of :: "'f request \<Rightarrow> reading" where
  "reading_of (HttpOperation header t opn) = t"
| "reading_of (WsConnect c header t) = t"
| "reading_of (WsOperation c header t opn) = t"
| "reading_of (WsClose c) = \<lparr>rd_parse = 0, rd_check = 0, rd_admin = 0\<rparr>"

section \<open>Following a predicate through an execution\<close>

definition keepsX :: "('c app \<Rightarrow> bool) \<Rightarrow> 'c ex \<Rightarrow> bool" where
  "keepsX P e \<longleftrightarrow> (\<forall>a. P a \<longrightarrow> P (snd (e a)))"

definition slot_keeps :: "('c app \<Rightarrow> bool) \<Rightarrow> 'c slot \<Rightarrow> bool" where
  "slot_keeps P s = keepsX P (snd (snd s))"

lemma slot_keeps_simps [simp]:
  "slot_keeps P (al, True, e) = keepsX P e" "slot_keeps P (al, False, e) = keepsX P e"
  by (simp_all add: slot_keeps_def)

lemma keepsX_same [keeps_intros]: "keepsX P (answerX v)" "keepsX P (nullX e)"
  by (simp_all add: keepsX_def answerX_def nullX_def)

lemma keepsX_resolveX [keeps_intros]:
  assumes "keeps P r" and "\<And>y. keepsX P (k y)"
  shows "keepsX P (resolveX r k)"
  unfolding keepsX_def
proof (intro allI impI)
  fix a assume "P a"
  obtain y a' where r: "r a = (y, a')" by fastforce
  with assms(1) \<open>P a\<close> have "P a'" by (metis keeps_def snd_conv)
  with assms(2) r show "P (snd (resolveX r k a))"
    by (auto simp: resolveX_def nullX_def keepsX_def split: reply.splits sum.splits)
qed

lemma keepsX_parts [keeps_intros]:
  "keepsX P (idX x i)"
  "keepsX P (dateX x t)"
  "(\<And>y. keepsX P (k y)) \<Longrightarrow> keepsX P (requiredX c k)"
  "(\<And>y. keepsX P (m y)) \<Longrightarrow> keepsX P (with_args args m)"
  by (auto simp: idX_def dateX_def requiredX_def with_args_def intro!: keeps_intros split: option.split sum.split call.split)

lemma keepsX_run_all:
  "\<forall>e \<in> set es. keepsX P e \<Longrightarrow> P a \<Longrightarrow> P (snd (run_all es a))"
proof (induction es arbitrary: a)
  case (Cons e es)
  obtain r a1 where e: "e a = (r, a1)" by fastforce
  then have a1: "P a1" using Cons.prems by (metis keepsX_def list.set_intros(1) snd_conv)
  obtain r' a2 where "run_all es a1 = (r', a2)" by fastforce
  moreover have "P (snd (run_all es a1))" using Cons a1 by simp
  ultimately show ?case using e a1 by (auto split: option.split)
qed simp

lemma keepsX_objectX [keeps_intros]:
  assumes "\<forall>s \<in> set fs. slot_keeps P s"
  shows "keepsX P (objectX fs)"
  unfolding keepsX_def
proof (intro allI impI)
  fix a assume "P a"
  let ?es = "map (\<lambda>(_, _, e). e) fs"
  have "\<forall>e \<in> set ?es. keepsX P e" using assms by (force simp: slot_keeps_def)
  then have "P (snd (run_all ?es a))" using \<open>P a\<close> by (rule keepsX_run_all)
  moreover obtain r a' where "run_all ?es a = (r, a')" by fastforce
  ultimately show "P (snd (objectX fs a))" by (auto simp: objectX_def split: option.split)
qed

lemma keepsX_listX [keeps_intros]:
  assumes "\<forall>e \<in> set es. keepsX P e"
  shows "keepsX P (listX es)"
  unfolding keepsX_def
proof (intro allI impI)
  fix a assume "P a"
  with assms have "P (snd (run_all es a))" by (rule keepsX_run_all)
  moreover obtain r a' where "run_all es a = (r, a')" by fastforce
  ultimately show "P (snd (listX es a))" by (auto simp: listX_def split: option.split)
qed

lemma keeps_undrop: "keeps P (dropR m) \<Longrightarrow> keeps P m"
  unfolding keeps_def
proof (intro allI impI)
  fix a assume k: "\<forall>a. P a \<longrightarrow> P (snd (dropR m a))" and "P a"
  obtain r a' where "m a = (r, a')" by fastforce
  then have "snd (dropR m a) = snd (m a)"
    by (simp add: dropR_def bindR_def okR_def split: reply.split sum.split)
  with k \<open>P a\<close> show "P (snd (m a))" by metis
qed

section \<open>Reads\<close>

text \<open>A method of the adapter that changes no table: only the count of the statements moves.\<close>

definition only_reads :: "'a query \<Rightarrow> bool" where
  "only_reads m \<longleftrightarrow> (\<forall>d. tables (snd (m d)) = tables d)"

named_theorems read_intros \<open>a method of the adapter only reads\<close>

lemma tables_stmts [simp]: "tables (d\<lparr>db_stmts := n\<rparr>) = tables d"
  by (simp add: tables_def)

lemma reads_stmt [read_intros]:
  "only_reads (stmt env (select_rows f))" "only_reads (stmt env (select_one g))"
  by (simp_all add: only_reads_def stmt_def Let_def)

lemma reads_combinators [read_intros]:
  "only_reads m \<Longrightarrow> only_reads (mapE f m)"
  "only_reads m \<Longrightarrow> only_reads (wrapE msg m)"
  "only_reads m \<Longrightarrow> only_reads (not_found_or missing failed m)"
  "only_reads (returnE x)"
  "only_reads (throwE e)"
  by (simp_all add: only_reads_def mapE_def wrapE_def not_found_or_def split: prod.split sum.split)
    (metis snd_conv)+

lemma only_reads_bindE [read_intros]:
  assumes "only_reads m" and "\<And>x. only_reads (k x)"
  shows "only_reads (bindE m k)"
  using assms unfolding only_reads_def by (intro allI bindE_keeps) auto

lemma reads_adapter [read_intros]:
  "only_reads (db_ReadRecord env i)" "only_reads (db_ReadAllRecords env pfx)"
  "only_reads (db_GetTagCategory env i)" "only_reads (db_ListTagCategories env search)"
  "only_reads (db_GetTag env i)" "only_reads (db_ListTags env search cat)" "only_reads (db_ListByTea env i)"
  "only_reads (db_Collections env u)" "only_reads (db_Collection env i u)" "only_reads (db_CollectionRecords env i)"
  "only_reads (db_Notifications env u)"
  by (auto simp: db_ReadRecord_def db_ReadAllRecords_def db_GetTagCategory_def db_ListTagCategories_def
      db_GetTag_def db_ListTags_def db_ListByTea_def db_Collections_def db_Collection_def
      db_CollectionRecords_def db_Notifications_def q_GetTea_def q_ListTeas_def q_SearchTeasByPrefix_def
      q_GetTagCategory_def q_ListTagCategories_def q_SearchTagCategories_def q_GetTag_def q_ListTags_def
      q_ListTagsByCategoryFilter_def q_ListTagsByName_def q_ListTagsByNameCategory_def q_ListTagsByTea_def
      q_ListCollections_def q_GetCollection_def q_ListCollectionRecords_def q_ListNotifications_def
      intro!: read_intros split: option.split)

lemma reads_ReadQR [read_intros]: "only_reads (db_ReadQR env i)"
proof -
  have "snd (db_ReadQR env i d) = snd (q_GetQR env i d)" for d
    by (simp add: db_ReadQR_def split: prod.split sum.split)
  moreover have "only_reads (q_GetQR env i)" by (auto simp: q_GetQR_def intro: read_intros)
  ultimately show ?thesis by (simp add: only_reads_def)
qed

lemma reads_managers [read_intros]:
  "only_reads (coll_List (pg_collection_storage env) u)"
  "only_reads (coll_ListRecords (pg_collection_storage env) i u)"
  "only_reads (qr_Get (pg_qr_storage env) i)"
  "only_reads (dr_Notifications (pg_device_repository show_id env) u)"
  by (auto simp: coll_List_def coll_ListRecords_def pg_collection_storage_def qr_Get_def pg_qr_storage_def
      pg_device_repository_def intro!: read_intros)

lemma reads_Recent [read_intros]: "only_reads (ps_Recent env st u since)"
  by (simp add: only_reads_def ps_Recent_state)

text \<open>The manager of teas answers a read with what the store answers; so does that of tags.\<close>

lemma keeps_tea_reads:
  assumes "\<And>d. D d \<Longrightarrow> D (snd (ts_ReadAllRecords st (case search of None \<Rightarrow> [] | Some s \<Rightarrow> s) d))"
  shows "keeps (app_sat D Q) (tea_read (tea_List st search))"
  unfolding keeps_def
proof (intro allI impI)
  fix a :: "'c app" assume a: "app_sat D Q a"
  obtain r d where r: "ts_ReadAllRecords st (case search of None \<Rightarrow> [] | Some s \<Rightarrow> s) (ap_db a) = (r, d)" by fastforce
  then have "D d" using assms a by (metis app_sat_def snd_conv)
  with a r show "app_sat D Q (snd (tea_read (tea_List st search) a))"
    by (simp add: tea_read_def on_teas_def tea_List_def app_sat_def tea_queued_def)
qed

lemma keeps_tag_reads:
  assumes "\<And>d. D d \<Longrightarrow> D (snd (m d))"
  shows "keeps (app_sat D Q) (tags_read (tag_read m))"
  unfolding keeps_def
proof (intro allI impI)
  fix a :: "'c app" assume a: "app_sat D Q a"
  obtain r d where r: "m (ap_db a) = (r, d)" by fastforce
  then have "D d" using assms a by (metis app_sat_def snd_conv)
  with a r show "app_sat D Q (snd (tags_read (tag_read m) a))"
    by (simp add: tags_read_def on_tags_def tag_read_def app_sat_def tag_queued_def)
qed

section \<open>Requests that hold no key\<close>

text \<open>
  The interface of the server's theorems: besides what \<open>unprivileged\<close> asks of the predicate, it
  is one of the tables, and the store of consumptions keeps it.
\<close>

locale served = unprivileged env show_id D may
  for env show_id D may +
  assumes same_tables: "D (d\<lparr>db_stmts := n\<rparr>) = D d"
    and consumption: "D d \<Longrightarrow> D (snd (ps_Record env st u tea ts d))"
begin

lemma read_D: "only_reads m \<Longrightarrow> D d \<Longrightarrow> D (snd (m d))"
  using same_tables [where d = d and n = 0] same_tables [where d = "snd (m d)" and n = 0] by (simp add: only_reads_def tables_def)

lemma db_read [keeps_intros]: "only_reads m \<Longrightarrow> keeps (app_sat D Q) (db_call f m)"
  by (intro keeps_db_call read_D)

lemma tag_read_keeps [keeps_intros]: "only_reads m \<Longrightarrow> keeps (app_sat D Q) (tags_read (tag_read m))"
  by (intro keeps_tag_reads read_D)

lemma tea_reads_keep [keeps_intros]:
  "keeps (app_sat D Q) (tea_read (tea_Get (pg_tea_storage env) i))"
  "keeps (app_sat D Q) (tea_read (tea_List (pg_tea_storage env) search))"
  by (auto simp: pg_tea_storage_def intro!: keeps_tea_read keeps_tea_reads read_D read_intros)

lemma best_effort_keeps [keeps_intros]:
  assumes "\<And>d. D d \<Longrightarrow> D (snd (m d))"
  shows "keeps (app_sat D Q) (best_effort y m)"
  unfolding keeps_def
proof (intro allI impI)
  fix a :: "'b app" assume a: "app_sat D Q a"
  obtain r d where m: "m (ap_db a) = (r, d)" by fastforce
  with assms a have "D d" by (metis app_sat_def snd_conv)
  with a m show "app_sat D Q (snd (best_effort y m a))"
    by (cases r) (simp_all add: best_effort_def app_sat_def)
qed

lemma cache_keeps [keeps_intros]:
  "keeps (app_sat D Q) (tod_get u t)" "keeps (app_sat D Q) (tod_set off u v t)" "keeps P (best_scores sc)"
  by (auto simp: keeps_def tod_get_def tod_set_def best_scores_def app_sat_def
      split: prod.split call.split sum.split)

text \<open>The resolvers of queries and of the fields of objects.\<close>

lemma child_keeps:
  assumes "sv_pg sv = env"
  shows "keeps (app_sat D Q) (r_Collection_Records sv col)" and "keeps (app_sat D Q) (r_Tag_Category sv t)"
    and "keeps (app_sat D Q) (r_TagCategory_Tags sv cat name)" and "keeps (app_sat D Q) (r_Tea_Tags sv tea)"
    and "keeps (app_sat D Q) (r_User_Notifications sv ctx)"
  by (auto simp: assms r_Collection_Records_def r_Tag_Category_def r_TagCategory_Tags_def Let_def r_Tea_Tags_def
      r_User_Notifications_def tag_GetCategory_def tag_List_def tag_ListCategory_def tag_ListByTea_def
      pg_tag_storage_def intro!: keeps_intros read_intros split: option.split)

lemma query_keeps:
  assumes "sv_pg sv = env"
  shows "keeps (app_sat D Q) (r_Me ctx)" and "keeps (app_sat D Q) (r_Teas sv pfx)"
    and "keeps (app_sat D Q) (r_Tea sv i)" and "keeps (app_sat D Q) (r_GenerateDescription sv wd descr)"
    and "keeps (app_sat D Q) (r_QRRecord sv i)" and "keeps (app_sat D Q) (r_Tag sv i)"
    and "keeps (app_sat D Q) (r_TagsCategories sv search)" and "keeps (app_sat D Q) (r_Collections sv ctx)"
  by (auto simp: assms r_Me_def r_Teas_def r_Tea_def r_GenerateDescription_def r_QRRecord_def r_Tag_def
      r_TagsCategories_def r_Collections_def tag_Get_def tag_ListCategory_def pg_tag_storage_def
      intro!: keeps_intros read_intros)

lemma user_collections_keep:
  assumes "sv_pg sv = env"
  shows "keeps (app_sat D Q) (r_User_Collections sv ctx)"
  unfolding keeps_def
proof (intro allI impI)
  fix a :: "'b app" assume a: "app_sat D Q a"
  obtain r a' where r: "r_Collections sv ctx a = (r, a')" by fastforce
  with query_keeps(8) [OF assms] a have "app_sat D Q a'" by (metis keeps_def snd_conv)
  with r show "app_sat D Q (snd (r_User_Collections sv ctx a))"
    by (simp add: r_User_Collections_def split: reply.split sum.split)
qed

lemma collect_keeps: "sv_pg sv = env \<Longrightarrow> keeps (app_sat D Q) (collect_teas norm sv user cols acc)"
  by (induction norm sv user cols acc rule: collect_teas.induct) (auto intro!: keeps_intros read_intros)

lemma tod_keeps:
  assumes "sv_pg sv = env"
  shows "keeps (app_sat D Q) (r_TeaOfTheDay te sv ctx wd)"
  by (auto simp: r_TeaOfTheDay_def tod_cached_def tod_choose_def tod_finish_def Let_def assms
      intro!: keeps_intros collect_keeps consumption read_D read_intros split: option.split)

text \<open>The fields of every type, and the root fields.\<close>

lemma tag_cat_keep:
  assumes "sv_pg (x_sv x) = env"
  shows "slot_keeps (app_sat D Q) (tag_field s x t)" "slot_keeps (app_sat D Q) (cat_field c x g)"
  by (induction s and c arbitrary: t and g rule: tag_sel.induct cat_sel.induct)
    (auto intro!: keeps_intros child_keeps assms)

lemma tag_keeps: "sv_pg (x_sv x) = env \<Longrightarrow> keepsX (app_sat D Q) (tagX x sels t)"
  unfolding tagX_def by (auto simp: tag_cat_keep intro!: keeps_intros)

lemma cat_keeps: "sv_pg (x_sv x) = env \<Longrightarrow> keepsX (app_sat D Q) (catX x sels t)"
  unfolding catX_def by (auto simp: tag_cat_keep intro!: keeps_intros)

lemma tea_field_keeps: "sv_pg (x_sv x) = env \<Longrightarrow> slot_keeps (app_sat D Q) (tea_field x t s)"
  by (cases s) (auto intro!: keeps_intros child_keeps tag_keeps)

lemma tea_keeps: "sv_pg (x_sv x) = env \<Longrightarrow> keepsX (app_sat D Q) (teaX x sels t)"
  unfolding teaX_def by (auto simp: tea_field_keeps intro!: keeps_intros)

lemma qr_field_keeps: "sv_pg (x_sv x) = env \<Longrightarrow> slot_keeps (app_sat D Q) (qr_field x t s)"
  by (cases s) (auto intro!: keeps_intros tea_keeps)

lemma qr_keeps: "sv_pg (x_sv x) = env \<Longrightarrow> keepsX (app_sat D Q) (qrX x sels t)"
  unfolding qrX_def by (auto simp: qr_field_keeps intro!: keeps_intros)

lemma coll_field_keeps: "sv_pg (x_sv x) = env \<Longrightarrow> slot_keeps (app_sat D Q) (coll_field x t s)"
  by (cases s) (auto intro!: keeps_intros child_keeps qr_keeps)

lemma coll_keeps: "sv_pg (x_sv x) = env \<Longrightarrow> keepsX (app_sat D Q) (collX x sels t)"
  unfolding collX_def by (auto simp: coll_field_keeps intro!: keeps_intros)

lemma notif_session_keep:
  "slot_keeps (app_sat D Q) (notif_field n s)" "slot_keeps (app_sat D Q) (session_field x g w)"
  by (cases s; auto intro!: keeps_intros) (cases w; auto intro!: keeps_intros)

lemma user_field_keeps: "sv_pg (x_sv x) = env \<Longrightarrow> slot_keeps (app_sat D Q) (user_field x u s)"
  by (cases s) (auto simp: notif_session_keep intro!: keeps_intros user_collections_keep child_keeps coll_keeps)

lemma tod_field_keeps: "sv_pg (x_sv x) = env \<Longrightarrow> slot_keeps (app_sat D Q) (tod_field x v s)"
  by (cases s) (auto intro!: keeps_intros qr_keeps)

lemma query_field_keeps: "sv_pg (x_sv x) = env \<Longrightarrow> slot_keeps (app_sat D Q) (query_field x q)"
  by (cases q) (auto simp: user_field_keeps tod_field_keeps
      intro!: keeps_intros query_keeps tod_keeps tea_keeps tag_keeps cat_keeps qr_keeps coll_keeps)

lemma queryX_keeps: "sv_pg (x_sv x) = env \<Longrightarrow> keepsX (app_sat D Q) (queryX x sels)"
  unfolding queryX_def by (auto simp: query_field_keeps intro!: keeps_intros)

text \<open>A mutation keeps what its resolver keeps: the fields of its result only read.\<close>

lemma mutation_value_keeps:
  assumes env: "sv_pg (x_sv x) = env" and m: "keeps (app_sat D Q) (mutate (x_sv x) (x_ctx x) m)"
  shows "keepsX (app_sat D Q) (mutation_value x s m)"
  using m env
  by (cases m) (auto simp: notif_session_keep
      intro!: keepsX_resolveX keepsX_objectX keepsX_same keepsX_parts tea_keeps tag_keeps cat_keeps qr_keeps coll_keeps
      dest: keeps_undrop)

lemma mutationX_keeps:
  assumes "sv_pg (x_sv x) = env" and "\<And>m. keeps (app_sat D Q) (mutate (x_sv x) (x_ctx x) m)"
  shows "keepsX (app_sat D Q) (mutationX x sels)"
proof -
  have "slot_keeps (app_sat D Q) (mutation_field x s)" for s
    by (cases s) (auto intro!: keepsX_same keepsX_parts mutation_value_keeps assms)
  then show ?thesis unfolding mutationX_def by (auto intro!: keepsX_objectX)
qed

end

section \<open>Following a predicate through the server\<close>

text \<open>What a middleware makes of a context: the principal of a valid token, or the context itself.\<close>

lemma InterceptResponse_ctx:
  assumes "InterceptResponse L au header n0 n n2 ctx = Ret (Inr (ctx', bad))"
  shows "ctx' = ctx \<or>
    (\<exists>u. Validate L au (remove_first bearerPrefix header) n0 n = Ret (Inr u) \<and> ctx' = ctx\<lparr>ctx_user := Some u\<rparr>) \<or>
    (\<exists>p. ValidateAdmin L au (remove_first bearerPrefix header) n2 = Ret (Inr p) \<and> ctx' = ctx\<lparr>ctx_admin := Some p\<rparr>)"
  using assms by (auto simp: InterceptResponse_def Let_def split: if_splits call.splits sum.splits)

lemma WsInitFunc_ctx:
  assumes "WsInitFunc L au header n0 n n2 ctx = Ret (Inr ctx')"
  shows "ctx' = ctx \<or>
    (\<exists>u. Validate L au (remove_first bearerPrefix header) n0 n = Ret (Inr u) \<and> ctx' = ctx\<lparr>ctx_user := Some u\<rparr>) \<or>
    (\<exists>p. ValidateAdmin L au (remove_first bearerPrefix header) n2 = Ret (Inr p) \<and> ctx' = ctx\<lparr>ctx_admin := Some p\<rparr>)"
  using assms by (auto simp: WsInitFunc_def Let_def split: if_splits call.splits sum.splits)

text \<open>The principals a request can add to a context.\<close>

definition admits_user :: "('f, 'c) exec_env \<Rightarrow> 'f request \<Rightarrow> AuthUser \<Rightarrow> bool" where
  "admits_user x r u \<longleftrightarrow> Validate (sv_libs (x_sv x)) (sv_auth (x_sv x)) (token_of r)
     (rd_parse (reading_of r)) (rd_check (reading_of r)) = Ret (Inr u)"

definition admits_admin :: "('f, 'c) exec_env \<Rightarrow> 'f request \<Rightarrow> AdminPrincipal \<Rightarrow> bool" where
  "admits_admin x r p \<longleftrightarrow> ValidateAdmin (sv_libs (x_sv x)) (sv_auth (x_sv x)) (token_of r)
     (rd_admin (reading_of r)) = Ret (Inr p)"

definition keeps_ops :: "('c app \<Rightarrow> bool) \<Rightarrow> ('f, 'c) exec_env \<Rightarrow> request_ctx \<Rightarrow> bool" where
  "keeps_ops P x ctx \<longleftrightarrow>
     (\<forall>sels. keepsX P (queryX (in_ctx x ctx) sels)) \<and>
     (\<forall>sels. keepsX P (mutationX (in_ctx x ctx) sels)) \<and>
     (\<forall>sels. keepsX P (subscriptionX (in_ctx x ctx) sels))"

lemma in_ctx_sel [simp]: "x_sv (in_ctx x ctx) = x_sv x" "x_ctx (in_ctx x ctx) = ctx"
  "in_ctx (in_ctx x ctx) ctx' = in_ctx x ctx'"
  by (simp_all add: in_ctx_def)

text \<open>
  Contexts of which \<open>good\<close> holds do not break \<open>P\<close>, and the request's token makes only such
  contexts of them.
\<close>

lemma operate_keeps:
  assumes ops: "\<And>ctx. good ctx \<Longrightarrow> keeps_ops P x ctx" and ctx: "good ctx"
    and tok: "\<And>ctx' bad. InterceptResponse (sv_libs (x_sv x)) (sv_auth (x_sv x)) header
       (rd_parse t) (rd_check t) (rd_admin t) ctx = Ret (Inr (ctx', bad)) \<Longrightarrow> good ctx'"
  shows "keepsX P (operate (in_ctx x ctx) header t opn)"
  unfolding keepsX_def
proof (intro allI impI)
  fix a assume P: "P a"
  show "P (snd (operate (in_ctx x ctx) header t opn a))"
  proof (cases "Exec (in_ctx x ctx) opn")
    case (Inl start)
    then have "keepsX P start"
      using ops [OF ctx] by (auto simp: Exec_def keeps_ops_def split: operation.splits)
    with Inl P show ?thesis by (simp add: operate_def keepsX_def)
  next
    case (Inr nxt)
    show ?thesis
    proof (cases "\<exists>ctx' bad. InterceptResponse (sv_libs (x_sv x)) (sv_auth (x_sv x)) header
        (rd_parse t) (rd_check t) (rd_admin t) ctx = Ret (Inr (ctx', bad))")
      case True
      then obtain ctx' bad where i: "InterceptResponse (sv_libs (x_sv x)) (sv_auth (x_sv x)) header
        (rd_parse t) (rd_check t) (rd_admin t) ctx = Ret (Inr (ctx', bad))" by blast
      have "keepsX P (nxt ctx')"
        using Inr ops [OF tok [OF i]]
        by (auto simp: Exec_def keeps_ops_def simp flip: in_ctx_def split: operation.splits)
      then have "P (snd (nxt ctx' a))" using P by (simp add: keepsX_def)
      moreover obtain r a' where "nxt ctx' a = (r, a')" by fastforce
      ultimately show ?thesis using Inr i by (auto simp: operate_def split: option.split)
    next
      case False
      then show ?thesis using Inr P
        by (auto simp: operate_def nullX_def split: call.split sum.split)
    qed
  qed
qed

lemma serve_keeps:
  assumes ops: "\<And>ctx. good ctx \<Longrightarrow> keeps_ops P x ctx" and none: "good empty_ctx"
    and user: "\<And>ctx u. good ctx \<Longrightarrow> admits_user x r u \<Longrightarrow> good (ctx\<lparr>ctx_user := Some u\<rparr>)"
    and admin: "\<And>ctx p. good ctx \<Longrightarrow> admits_admin x r p \<Longrightarrow> good (ctx\<lparr>ctx_admin := Some p\<rparr>)"
    and s: "P (ho_app s)" "\<forall>ctx \<in> ran (ho_conns s). good ctx"
  shows "P (ho_app (snd (serve x r s))) \<and> (\<forall>ctx \<in> ran (ho_conns (snd (serve x r s))). good ctx)"
proof (cases r)
  case (HttpOperation header t opn)
  have "keepsX P (operate (in_ctx x empty_ctx) header t opn)"
  proof (rule operate_keeps [where good = good, OF ops none])
    fix ctx' bad assume i: "InterceptResponse (sv_libs (x_sv x)) (sv_auth (x_sv x)) header
      (rd_parse t) (rd_check t) (rd_admin t) empty_ctx = Ret (Inr (ctx', bad))"
    show "good ctx'"
      using InterceptResponse_ctx [OF i] none user [OF none] admin [OF none] HttpOperation
      by (auto simp: admits_user_def admits_admin_def)
  qed
  then have "P (snd (operate (in_ctx x empty_ctx) header t opn (ho_app s)))" using s by (simp add: keepsX_def)
  with HttpOperation s show ?thesis by (auto split: prod.split)
next
  case (WsConnect c header t)
  show ?thesis
  proof (cases "\<exists>ctx. WsInitFunc (sv_libs (x_sv x)) (sv_auth (x_sv x)) header
      (rd_parse t) (rd_check t) (rd_admin t) empty_ctx = Ret (Inr ctx)")
    case True
    then obtain ctx where i: "WsInitFunc (sv_libs (x_sv x)) (sv_auth (x_sv x)) header
      (rd_parse t) (rd_check t) (rd_admin t) empty_ctx = Ret (Inr ctx)" by blast
    then have "good ctx"
      using WsInitFunc_ctx [OF i] none user [OF none] admin [OF none] WsConnect
      by (auto simp: admits_user_def admits_admin_def)
    with i WsConnect s show ?thesis by (auto simp: ran_def)
  next
    case False
    with WsConnect s show ?thesis by (auto split: call.split sum.split)
  qed
next
  case (WsOperation c header t opn)
  show ?thesis
  proof (cases "ho_conns s c")
    case (Some ctx)
    then have ctx: "good ctx" using s by (auto simp: ran_def)
    have "keepsX P (operate (in_ctx x ctx) header t opn)"
    proof (rule operate_keeps [where good = good, OF ops ctx])
      fix ctx' bad assume i: "InterceptResponse (sv_libs (x_sv x)) (sv_auth (x_sv x)) header
        (rd_parse t) (rd_check t) (rd_admin t) ctx = Ret (Inr (ctx', bad))"
      show "good ctx'"
        using InterceptResponse_ctx [OF i] ctx user [OF ctx] admin [OF ctx] WsOperation
        by (auto simp: admits_user_def admits_admin_def)
    qed
    then have "P (snd (operate (in_ctx x ctx) header t opn (ho_app s)))" using s by (simp add: keepsX_def)
    with WsOperation Some s show ?thesis by (auto split: prod.split)
  qed (use WsOperation s in simp)
next
  case (WsClose c)
  with s show ?thesis by (auto simp: ran_def split: if_splits)
qed

lemma serve_all_keeps:
  assumes ops: "\<And>ctx. good ctx \<Longrightarrow> keeps_ops P x ctx" and none: "good empty_ctx"
    and user: "\<And>r ctx u. r \<in> set reqs \<Longrightarrow> good ctx \<Longrightarrow> admits_user x r u \<Longrightarrow> good (ctx\<lparr>ctx_user := Some u\<rparr>)"
    and admin: "\<And>r ctx p. r \<in> set reqs \<Longrightarrow> good ctx \<Longrightarrow> admits_admin x r p \<Longrightarrow> good (ctx\<lparr>ctx_admin := Some p\<rparr>)"
    and s: "P (ho_app s)" "\<forall>ctx \<in> ran (ho_conns s). good ctx"
  shows "P (ho_app (serve_all x reqs s))"
  using user admin s
proof (induction reqs arbitrary: s)
  case (Cons r reqs)
  have "P (ho_app (snd (serve x r s))) \<and> (\<forall>ctx \<in> ran (ho_conns (snd (serve x r s))). good ctx)"
    by (rule serve_keeps [where good = good and P = P, OF ops none])
      (use Cons.prems(3,4) in \<open>auto intro: Cons.prems(1,2)\<close>)
  then have "P (ho_app (serve_all x reqs (snd (serve x r s))))"
    by (intro Cons.IH) (auto intro: Cons.prems(1,2))
  then show ?case by (simp add: serve_all_def)
qed (simp add: serve_all_def)

section \<open>Subscribing announces nothing\<close>

lemma subs_keep:
  "keeps (app_sat D Q) (r_OnCreateTea c ch)" "keeps (app_sat D Q) (r_OnUpdateTea c ch)"
  "keeps (app_sat D Q) (r_OnDeleteTea c ch)" "keeps (app_sat D Q) (r_OnCreateTagCategory c ch)"
  "keeps (app_sat D Q) (r_OnUpdateTagCategory c ch)" "keeps (app_sat D Q) (r_OnDeleteTagCategory c ch)"
  "keeps (app_sat D Q) (r_OnCreateTag c ch)" "keeps (app_sat D Q) (r_OnUpdateTag c ch)"
  "keeps (app_sat D Q) (r_OnDeleteTag c ch)" "keeps (app_sat D Q) (r_OnAddTagToTea c ch)"
  "keeps (app_sat D Q) (r_OnDeleteTagFromTea c ch)"
  by (simp_all add: keeps_def app_sat_def r_OnCreateTea_def r_OnUpdateTea_def r_OnDeleteTea_def
      r_OnCreateTagCategory_def r_OnUpdateTagCategory_def r_OnDeleteTagCategory_def r_OnCreateTag_def
      r_OnUpdateTag_def r_OnDeleteTag_def r_OnAddTagToTea_def r_OnDeleteTagFromTea_def sub_teas_def
      sub_tags_def tea_SubscribeOnCreate_def tea_SubscribeOnUpdate_def tea_SubscribeOnDelete_def
      tag_SubscribeOnCreateCategory_def tag_SubscribeOnUpdateCategory_def tag_SubscribeOnDeleteCategory_def
      tag_SubscribeOnCreate_def tag_SubscribeOnUpdate_def tag_SubscribeOnDelete_def
      tag_SubscribeOnAddTagToTea_def tag_SubscribeOnDeleteTagToTea_def tea_queued_def tag_queued_def)

lemma generation_keeps: "keeps (app_sat D Q) (r_StartGenerateDescription sv descr)"
  by (auto simp: keeps_def app_sat_def r_StartGenerateDescription_def split: prod.split description_start.split)

context served
begin

lemma RecommendTea_keeps:
  assumes "sv_pg sv = env"
  shows "keeps (app_sat D Q) (r_RecommendTea sv ctx wd i feelings)"
  by (auto simp: r_RecommendTea_def own_teas_def assms intro!: keeps_intros read_intros split: option.split)

lemma subscriptionX_keeps:
  assumes "sv_pg (x_sv x) = env"
  shows "keepsX (app_sat D Q) (subscriptionX x sels)"
proof -
  have "keepsX (app_sat D Q) (subscribe x s)" for s
    by (cases s) (auto simp: startX_def intro!: keepsX_resolveX keepsX_same keepsX_parts subs_keep
        generation_keeps RecommendTea_keeps assms)
  then show ?thesis by (auto simp: subscriptionX_def intro!: keepsX_same split: list.split)
qed

text \<open>A context that does not act as admin, nor as a user the predicate is about.\<close>

lemma keeps_ops:
  assumes "sv_pg (x_sv x) = env" "sv_show_id (x_sv x) = show_id"
    and "ctx_admin ctx = None" "\<And>user. ctx_user ctx = Some user \<Longrightarrow> may (user_ID user)"
  shows "keeps_ops (app_sat D Q) x ctx"
  unfolding keeps_ops_def
  using assms
  by (auto intro!: queryX_keeps mutationX_keeps mutate_keeps subscriptionX_keeps)

lemma requests_keep:
  assumes env: "sv_pg (x_sv x) = env" "sv_show_id (x_sv x) = show_id"
    and tokens: "\<And>r u. r \<in> set reqs \<Longrightarrow> admits_user x r u \<Longrightarrow> may (user_ID u)"
      "\<And>r p. r \<in> set reqs \<Longrightarrow> \<not> admits_admin x r p"
    and s: "app_sat D Q (ho_app s)" "ho_conns s = Map.empty"
  shows "app_sat D Q (ho_app (serve_all x reqs s))"
proof (rule serve_all_keeps
    [where good = "\<lambda>ctx. ctx_admin ctx = None \<and> (\<forall>u. ctx_user ctx = Some u \<longrightarrow> may (user_ID u))"])
  show "keeps_ops (app_sat D Q) x ctx"
    if "ctx_admin ctx = None \<and> (\<forall>u. ctx_user ctx = Some u \<longrightarrow> may (user_ID u))" for ctx
    using that by (intro keeps_ops env) auto
qed (use tokens s in \<open>auto simp: empty_ctx_def\<close>)

end

text \<open>Where the predicate is kept for every principal, no token matters.\<close>

lemma any_requests_keep:
  fixes P :: "pgdb \<Rightarrow> bool"
  assumes ops: "\<And>ctx. keeps_ops (app_sat P (\<lambda>_ _. True)) x ctx"
    and s: "P (ap_db (ho_app s))"
  shows "P (ap_db (ho_app (serve_all x reqs s)))"
proof -
  have "app_sat P (\<lambda>_ _. True) (ho_app (serve_all x reqs s))"
    by (rule serve_all_keeps [where good = "\<lambda>_. True", OF ops]) (use s in \<open>auto simp: app_sat_def\<close>)
  then show ?thesis by (simp add: app_sat_def)
qed

section \<open>The three predicates\<close>

lemma Record_catalogue: "catalogue (snd (ps_Record env st u tea ts d)) = catalogue d"
  by (auto simp: ps_Record_def q_InsertConsumption_def q_DeleteConsumptionsBefore_def stmt_def Let_def
      catalogue_def intro!: bindE_keeps)

lemma consumption_collections:
  "pg_coll_view (snd (q_InsertConsumption env u ts tea d)) = pg_coll_view d"
  "pg_coll_view (snd (q_DeleteConsumptionsBefore env u ts d)) = pg_coll_view d"
  by (simp_all add: q_InsertConsumption_def q_DeleteConsumptionsBefore_def stmt_def Let_def pg_coll_view_def)

lemma Record_collections: "pg_coll_view (snd (ps_Record env st u tea ts d)) = pg_coll_view d"
  by (auto simp: ps_Record_def consumption_collections intro!: bindE_keeps)

lemma Record_ok: "db_ok env d \<Longrightarrow> db_ok env (snd (ps_Record env st u tea ts d))"
  by (auto simp: ps_Record_def intro!: db_ok_bindE db_ok_intros)

interpretation catalogue_served: served env show_id "\<lambda>d. catalogue d = C" "\<lambda>_. True"
  by unfold_locales (simp_all add: Record_catalogue)

interpretation ok_served: served env show_id "db_ok env" "\<lambda>_. True"
  by unfold_locales (simp_all add: Record_ok)

interpretation collection_served: served env show_id
    "\<lambda>d. db_ok env d \<and> holds c owner name X d" "\<lambda>u. u \<noteq> owner"
  by unfold_locales (simp_all add: Record_ok holds_def Record_collections)

section \<open>Tokens\<close>

text \<open>
  A token of a user: signed under the server's key, unexpired, its issuer the user. A token of
  the editor: signed under the key of the configured file, issued by the editor for this API
  with the admin claim true.
\<close>

definition user_token ::
    "libraries \<Rightarrow> auth \<Rightarrow> (string \<Rightarrow> gokey \<Rightarrow> bool) \<Rightarrow> string \<Rightarrow> reading \<Rightarrow> uuid \<Rightarrow> bool" where
  "user_token L au sig_ok tok t user \<longleftrightarrow>
     (\<exists>key c jt exp. getSecret L au = Inr key \<and> sig_ok tok (public_part key) \<and>
        jwt_Parse L tok (verificationKey L au) no_options (rd_parse t) = Inr jt \<and> tok_Claims jt = Some c \<and>
        issuerUUID L c = Inr user \<and> GetExpirationTime L c = Inr (Some exp) \<and>
        rd_parse t < exp \<and> rd_check t \<le> exp)"

definition editor_token ::
    "libraries \<Rightarrow> auth \<Rightarrow> (string \<Rightarrow> gokey \<Rightarrow> bool) \<Rightarrow> (claims \<Rightarrow> string \<Rightarrow> bool) \<Rightarrow> Configuration \<Rightarrow>
       string \<Rightarrow> reading \<Rightarrow> bool" where
  "editor_token L au sig_ok aud cfg tok t \<longleftrightarrow>
     (\<exists>k c jt. loadPublicKeyFromFile L (cfg_AdminPublicKeyPath cfg) = Inr k \<and> sig_ok tok (KeyPublic k) \<and>
        jwt_Parse L tok (adminVerificationKey au) admin_options (rd_admin t) = Inr jt \<and> tok_Claims jt = Some c \<and>
        GetIssuer L c = Inr AdminIssuer \<and> aud c AdminAudience \<and> c AdminClaimKey = Some (GBool True))"

lemma admits_user_token:
  assumes "parse_checks (sv_libs (x_sv x)) sig_ok aud" and "admits_user x r u"
  shows "user_token (sv_libs (x_sv x)) (sv_auth (x_sv x)) sig_ok (token_of r) (reading_of r) (user_ID u)"
proof -
  let ?L = "sv_libs (x_sv x)" and ?a = "sv_auth (x_sv x)"
  let ?now = "rd_parse (reading_of r)" and ?exp = "ses_ExpiredAt (usr_Session u)"
  obtain t c where t: "jwt_Parse ?L (token_of r) (verificationKey ?L ?a) no_options ?now = Inr t"
    and c: "tok_Claims t = Some c" "GetExpirationTime ?L c = Inr (Some ?exp)"
      "rd_check (reading_of r) \<le> ?exp" "issuerUUID ?L c = Inr (user_ID u)"
    using Validate_Inr [OF assms(2) [unfolded admits_user_def]] by metis
  note checks = assms(1) [unfolded parse_checks_def, rule_format, OF t]
  obtain k where k: "verificationKey ?L ?a (t\<lparr>tok_Valid := False\<rparr>) = Inr k" "sig_ok (token_of r) k"
    using checks by blast
  then obtain key where "getSecret ?L ?a = Inr key" "k = public_part key"
    by (auto simp: verificationKey_def split: if_splits sum.splits)
  moreover have "?now < ?exp" using checks c by (auto simp: no_options_def)
  ultimately show ?thesis unfolding user_token_def using t c k(2) by blast
qed

lemma admits_editor_token:
  assumes "parse_checks (sv_libs (x_sv x)) sig_ok aud"
    and start: "Start (sv_libs (x_sv x)) (NewAuth cfg) = (Inr (), sv_auth (x_sv x))"
    and "admits_admin x r p"
  shows "editor_token (sv_libs (x_sv x)) (sv_auth (x_sv x)) sig_ok aud cfg (token_of r) (reading_of r)"
proof -
  obtain k where k: "loadPublicKeyFromFile (sv_libs (x_sv x)) (cfg_AdminPublicKeyPath cfg) = Inr k"
      "au_adminKeys (sv_auth (x_sv x)) = ['''' \<mapsto> k]"
    using Start_keys [OF start] by blast
  obtain k1 c t t' where v: "adminVerificationKey (sv_auth (x_sv x)) t' = Inr (KeyPublic k1)"
      and rest: "sig_ok (token_of r) (KeyPublic k1)"
      "jwt_Parse (sv_libs (x_sv x)) (token_of r) (adminVerificationKey (sv_auth (x_sv x))) admin_options
         (rd_admin (reading_of r)) = Inr t"
      "tok_Claims t = Some c" "GetIssuer (sv_libs (x_sv x)) c = Inr AdminIssuer"
      "aud c AdminAudience" "c AdminClaimKey = Some (GBool True)"
    using ValidateAdmin_sound [OF assms(1) assms(3) [unfolded admits_admin_def]] by blast
  have "k1 = k" using v by (auto simp: adminVerificationKey_any_kid [OF k(2)] split: if_splits)
  with k(1) rest show ?thesis unfolding editor_token_def by blast
qed

section \<open>What requests cannot do\<close>

lemma catalogue_kept:
  assumes "parse_checks (sv_libs (x_sv x)) sig_ok aud"
    and "Start (sv_libs (x_sv x)) (NewAuth cfg) = (Inr (), sv_auth (x_sv x))"
    and "ho_conns s = Map.empty"
    and "\<forall>r \<in> set reqs. \<not> editor_token (sv_libs (x_sv x)) (sv_auth (x_sv x)) sig_ok aud cfg
           (token_of r) (reading_of r)"
  shows "app_sat (\<lambda>d. catalogue d = catalogue (ap_db (ho_app s)))
      (\<lambda>q r. q = tea_queued (ap_teas (ho_app s)) \<and> r = tag_queued (ap_tags (ho_app s)))
      (ho_app (serve_all x reqs s))"
  using admits_editor_token [OF assms(1,2)] assms(3,4)
  by (intro catalogue_served.requests_keep [OF refl refl]) (auto simp: app_sat_def)

lemma integrity_kept:
  assumes "db_ok (sv_pg (x_sv x)) (ap_db (ho_app s))"
  shows "db_ok (sv_pg (x_sv x)) (ap_db (ho_app (serve_all x reqs s)))"
proof (rule any_requests_keep [where P = "db_ok (sv_pg (x_sv x))"])
  show "keeps_ops (app_sat (db_ok (sv_pg (x_sv x))) (\<lambda>_ _. True)) x ctx" for ctx
    unfolding keeps_ops_def
    by (auto intro!: ok_served.queryX_keeps ok_served.mutationX_keeps ok_served.subscriptionX_keeps
        kept_ok.mutate_keeps_any [OF refl refl])
qed (rule assms)

text \<open>
  C1. Nothing changes the catalogue without a token of the editor: whatever HTTP requests are made
  and connections opened, with whatever tokens, queries, mutations and subscriptions, in whatever
  order and with whatever faults of the database and the services, if none of the tokens was
  signed with the editor's key and issued for this API with the admin claim, then the teas, the
  categories, the tags and their links to teas stay as they are, and no change of them is
  announced to a subscriber.
\<close>

theorem catalogue_needs_editor_token:
  assumes "parse_checks (sv_libs (x_sv x)) sig_ok aud"
    and "Start (sv_libs (x_sv x)) (NewAuth cfg) = (Inr (), sv_auth (x_sv x))"
    and "ho_conns s = Map.empty"
    and "\<forall>r \<in> set reqs. \<not> editor_token (sv_libs (x_sv x)) (sv_auth (x_sv x)) sig_ok aud cfg
           (token_of r) (reading_of r)"
  shows "catalogue (ap_db (ho_app (serve_all x reqs s))) = catalogue (ap_db (ho_app s)) \<and>
    tea_queued (ap_teas (ho_app (serve_all x reqs s))) = tea_queued (ap_teas (ho_app s)) \<and>
    tag_queued (ap_tags (ho_app (serve_all x reqs s))) = tag_queued (ap_tags (ho_app s))"
  using catalogue_kept [OF assms] by (simp add: app_sat_def)

text \<open>
  C2. A collection needs its owner's token: from a state without open connections, whatever requests are made over whatever
  connections, if none of their tokens is an unexpired token of the owner under the server's key,
  and none is the editor's, then the collection is still there with its owner and its name, and
  the set of the identifiers of the records in it is the same: nobody else puts a record in or
  takes one out. What such a record says, its tea, temperature and date, is not protected:
  \<open>writeToQR\<close> asks for no token (lemma \<open>qr_write_needs_no_user\<close>).
\<close>

theorem collection_needs_owner_token:
  assumes "parse_checks (sv_libs (x_sv x)) sig_ok aud"
    and "Start (sv_libs (x_sv x)) (NewAuth cfg) = (Inr (), sv_auth (x_sv x))"
    and "ho_conns s = Map.empty" and "db_ok (sv_pg (x_sv x)) (ap_db (ho_app s))"
    and "cv_colls (pg_coll_view (ap_db (ho_app s))) c = Some (owner, name)"
    and "\<forall>r \<in> set reqs.
      \<not> editor_token (sv_libs (x_sv x)) (sv_auth (x_sv x)) sig_ok aud cfg (token_of r) (reading_of r) \<and>
      \<not> user_token (sv_libs (x_sv x)) (sv_auth (x_sv x)) sig_ok (token_of r) (reading_of r) owner"
  shows "cv_colls (pg_coll_view (ap_db (ho_app (serve_all x reqs s)))) c = Some (owner, name) \<and>
    (\<forall>i. (c, i) \<in> cv_items (pg_coll_view (ap_db (ho_app (serve_all x reqs s)))) \<longleftrightarrow>
      (c, i) \<in> cv_items (pg_coll_view (ap_db (ho_app s))))"
proof -
  let ?X = "{i. (c, i) \<in> cv_items (pg_coll_view (ap_db (ho_app s)))}"
  have "app_sat (\<lambda>d. db_ok (sv_pg (x_sv x)) d \<and> holds c owner name ?X d) (\<lambda>_ _. True)
      (ho_app (serve_all x reqs s))"
    using admits_editor_token [OF assms(1,2)] admits_user_token [OF assms(1)] assms(3-6)
    by (intro collection_served.requests_keep [OF refl refl]) (auto simp: app_sat_def holds_def)
  then show ?thesis by (auto simp: app_sat_def holds_def)
qed

text \<open>
  Whatever requests are served, also with the editor's token, in whatever order and with
  whatever faults and panics, the database stays consistent: unique keys, references to existing
  rows, valid types of teas.
\<close>

theorem requests_keep_integrity:
  assumes "db_ok (sv_pg (x_sv x)) (ap_db (ho_app s))"
  shows "db_ok (sv_pg (x_sv x)) (ap_db (ho_app (serve_all x reqs s)))"
  by (rule integrity_kept [OF assms])

section \<open>A connection outlives its token\<close>

lemma serve_conn:
  assumes "\<And>h t. r \<noteq> WsConnect c h t" and "r \<noteq> WsClose c"
  shows "ho_conns (snd (serve x r s)) c = ho_conns s c"
  using assms by (cases r) (auto split: prod.split option.split call.split sum.split)

lemma serve_all_conn:
  assumes "\<forall>r \<in> set reqs. r \<noteq> WsClose c \<and> (\<forall>h t. r \<noteq> WsConnect c h t)"
  shows "ho_conns (serve_all x reqs s) c = ho_conns s c"
  using assms
proof (induction reqs arbitrary: s)
  case (Cons r reqs)
  then have "ho_conns (snd (serve x r s)) c = ho_conns s c" by (intro serve_conn) auto
  with Cons show ?case by (simp add: serve_all_def)
qed (simp add: serve_all_def)

definition ask_me :: "'f operation" where
  "ask_me = Query [QMe ''me'' [UserTokenExpiredAt ''exp'']]"

lemma ask_me_answered:
  assumes "ctx_user ctx = Some u" and "x_MarshalTime x (ses_ExpiredAt (usr_Session u)) = Some e"
  shows "fst (operate (in_ctx x ctx) '''' t ask_me a) =
    Some (GObject [(''me'', GObject [(''exp'', GText e)])], [])"
  using assms
  by (simp add: operate_def ask_me_def Exec_def InterceptResponse_def queryX_def objectX_def resolveX_def
      r_Me_def as_user_def bindR_def checkR_def GetUser_def okR_def dateX_def answerX_def in_ctx_def)

text \<open>What \<open>Exec\<close> does with an operation in a context, without any middleware in between.\<close>

definition executed_as :: "('f, 'c) exec_env \<Rightarrow> request_ctx \<Rightarrow> 'f operation \<Rightarrow> 'c ex" where
  "executed_as x ctx opn a =
     (case Exec (in_ctx x ctx) opn of Inl start \<Rightarrow> start a | Inr next \<Rightarrow> next ctx a)"

lemma operate_no_header: "operate (in_ctx x ctx) '''' t opn = executed_as x ctx opn"
  by (rule ext) (simp add: operate_def executed_as_def InterceptResponse_def
      split: sum.split prod.split option.split)

text \<open>
  C11. A WebSocket connection outlives the token it was opened with: the token is checked when the
  connection is opened and never again. Every later operation on the connection that carries no
  header of its own, a query, a mutation or a subscription, is executed in the context of the
  user, with the answer and the effects it has there, at whatever time it comes and whatever was
  served in between, until the connection is closed. Asked for the user, the server answers with
  the expiration of the token, however long ago it was.
\<close>

theorem connection_outlives_token:
  assumes "Validate (sv_libs (x_sv x)) (sv_auth (x_sv x)) (remove_first bearerPrefix header)
      (rd_parse t) (rd_check t) = Ret (Inr u)"
    and "header \<noteq> ''''"
    and "\<forall>r \<in> set reqs. r \<noteq> WsClose c \<and> (\<forall>h t. r \<noteq> WsConnect c h t)"
    and "s' = serve_all x reqs (snd (serve x (WsConnect c header t) s))"
  shows "(\<forall>opn later. serve x (WsOperation c '''' later opn) s' =
      (case executed_as x (empty_ctx\<lparr>ctx_user := Some u\<rparr>) opn (ho_app s') of (r, a) \<Rightarrow> (r, s'\<lparr>ho_app := a\<rparr>))) \<and>
    (\<forall>e later. x_MarshalTime x (ses_ExpiredAt (usr_Session u)) = Some e \<longrightarrow>
      fst (serve x (WsOperation c '''' later ask_me) s') = Some (GObject [(''me'', GObject [(''exp'', GText e)])], []))"
proof -
  let ?s = "snd (serve x (WsConnect c header t) s)"
  have "ho_conns ?s c = Some (empty_ctx\<lparr>ctx_user := Some u\<rparr>)"
    using assms(1,2) by (simp add: WsInitFunc_def Let_def)
  then have conn: "ho_conns s' c = Some (empty_ctx\<lparr>ctx_user := Some u\<rparr>)"
    by (simp add: assms(4) serve_all_conn [OF assms(3)])
  show ?thesis
  proof (intro conjI allI impI)
    show "serve x (WsOperation c '''' later opn) s' =
      (case executed_as x (empty_ctx\<lparr>ctx_user := Some u\<rparr>) opn (ho_app s') of (r, a) \<Rightarrow> (r, s'\<lparr>ho_app := a\<rparr>))"
      for opn later by (simp add: conn operate_no_header)
    show "fst (serve x (WsOperation c '''' later ask_me) s') =
        Some (GObject [(''me'', GObject [(''exp'', GText e)])], [])"
      if "x_MarshalTime x (ses_ExpiredAt (usr_Session u)) = Some e" for e later
      using ask_me_answered [of "empty_ctx\<lparr>ctx_user := Some u\<rparr>" u x e, OF _ that] conn
      by (simp add: split_beta)
  qed
qed

section \<open>An instance\<close>

definition at_time :: "time \<Rightarrow> reading" where
  "at_time t = \<lparr>rd_parse = t, rd_check = t, rd_admin = t\<rparr>"

lemma at_time_sel [simp]: "rd_parse (at_time t) = t" "rd_check (at_time t) = t" "rd_admin (at_time t) = t"
  by (simp_all add: at_time_def)

definition demo_host :: "pgdb \<Rightarrow> (string \<rightharpoonup> string) host" where
  "demo_host d = \<lparr>ho_app = demo_app d, ho_conns = Map.empty\<rparr>"

lemma demo_host_sel [simp]: "ho_app (demo_host d) = demo_app d" "ho_conns (demo_host d) = Map.empty"
  by (simp_all add: demo_host_def)

lemma demo_server_auth [simp]: "sv_libs demo_server = demo_lib" "sv_auth demo_server = demo_auth"
  by (simp_all add: demo_server_def)

lemma demo_bearer: "remove_first bearerPrefix ''Bearer session'' = ''session''"
  by (simp add: bearerPrefix_def)

lemma demo_not_editor:
  assumes "tok = ''session'' \<or> tok = ''''"
  shows "\<not> editor_token demo_lib demo_auth demo_sig demo_aud demo_cfg tok t"
proof -
  have "loadPublicKeyFromFile demo_lib (cfg_AdminPublicKeyPath demo_cfg) = Inr (5, 6)"
    by (simp add: loadPublicKeyFromFile_def demo_lib_def)
  moreover have "\<not> demo_sig tok (KeyPublic (5, 6))" using assms by (auto simp: demo_sig_def demo_tokens_def)
  ultimately show ?thesis by (simp add: editor_token_def)
qed

lemma demo_not_owner:
  assumes "tok = ''session'' \<or> tok = ''''"
  shows "\<not> user_token demo_lib demo_auth demo_sig tok t 1"
proof
  assume "user_token demo_lib demo_auth demo_sig tok t 1"
  then obtain jt c where p: "demo_Parse tok (verificationKey demo_lib demo_auth) no_options (rd_parse t) = Inr jt"
    and c: "tok_Claims jt = Some c" "issuerUUID demo_lib c = Inr 1"
    by (auto simp: user_token_def)
  from assms p have "jt = demo_token demo_claims"
    by (auto simp: demo_Parse_def demo_tokens_def split: sum.splits option.splits if_splits)
  with c have "issuerUUID demo_lib demo_claims = Inr 1" by (simp add: demo_token_def)
  then show False by (simp add: issuerUUID_def demo_claims_def demo_issuer_def)
qed

text \<open>A user's requests over HTTP and over a connection without a token.\<close>

definition demo_requests :: "int mutation \<Rightarrow> int request list" where
  "demo_requests m =
     [HttpOperation ''Bearer session'' (at_time 0) (Mutation [MCall ''a'' (Ret (Inr m)) no_sub]),
      WsConnect 4 '''' (at_time 0),
      WsOperation 4 '''' (at_time 9) (Mutation [MTypename ''t'', MCall ''b'' (Ret (Inr m)) no_sub]),
      WsOperation 4 '''' (at_time 9) ask_me]"

lemma demo_requests_tokens: "r \<in> set (demo_requests m) \<Longrightarrow> token_of r = ''session'' \<or> token_of r = ''''"
  by (auto simp: demo_requests_def bearerPrefix_def)

theorem catalogue_needs_editor_token_witness:
  "catalogue (ap_db (ho_app (serve_all (demo_exec empty_ctx) (demo_requests (MDeleteTag 2))
     (demo_host db_green_tag)))) = catalogue db_green_tag"
  using catalogue_needs_editor_token [of "demo_exec empty_ctx" demo_sig demo_aud demo_cfg
      "demo_host db_green_tag" "demo_requests (MDeleteTag 2)"]
    demo_parse_checks demo_start demo_not_editor demo_requests_tokens
  by simp

theorem collection_needs_owner_token_witness:
  "(5, 3) \<in> cv_items (pg_coll_view (ap_db (ho_app (serve_all (demo_exec empty_ctx)
     (demo_requests (MDeleteCollection 5)) (demo_host db_two_records)))))"
proof -
  have "cv_colls (pg_coll_view db_two_records) 5 = Some (1, ''mine'')"
    "(5, 3) \<in> cv_items (pg_coll_view db_two_records)"
    by (simp_all add: pg_coll_view_def db_two_records_def coll_entry_def)
  then show ?thesis
    using collection_needs_owner_token [of "demo_exec empty_ctx" demo_sig demo_aud demo_cfg
        "demo_host db_two_records" 5 1 "''mine''" "demo_requests (MDeleteCollection 5)"]
      demo_parse_checks demo_start demo_not_editor demo_not_owner demo_requests_tokens db_two_records_ok
    by simp
qed

theorem requests_keep_integrity_witness:
  "db_ok env0 (ap_db (ho_app (serve_all (demo_exec empty_ctx)
     (HttpOperation ''Bearer editor'' (at_time 0) (Mutation [MCall ''a'' (Ret (Inr (MDeleteTea 7))) no_sub]) #
      demo_requests (MAddRecords 5 [3, 8])) (demo_host db_two_records))))"
  using requests_keep_integrity [of "demo_exec empty_ctx" "demo_host db_two_records"]
  by (simp add: db_two_records_ok)

lemma demo_parse_late:
  "demo_Parse ''session'' (verificationKey demo_lib demo_auth) no_options 86400000000001 = Inl (ExtErr ''expired'')"
  by (simp add: demo_Parse_def demo_tokens_def demo_user_key) (simp add: demo_parser no_options_def)

theorem connection_outlives_token_witness:
  "fst (serve (demo_exec empty_ctx) (WsOperation 4 '''' (at_time 86400000000001) ask_me)
      (serve_all (demo_exec empty_ctx) [HttpOperation '''' (at_time 5) ask_me]
        (snd (serve (demo_exec empty_ctx) (WsConnect 4 ''Bearer session'' (at_time 0)) (demo_host db_two_records))))) =
     Some (GObject [(''me'', GObject [(''exp'', GText ''noon'')])], []) \<and>
   Validate demo_lib demo_auth ''session'' 86400000000001 86400000000001 =
     Ret (Inl (Wrap ''parse jwt'' (ExtErr ''expired'')))"
proof -
  let ?x = "demo_exec empty_ctx" and ?r = "HttpOperation '''' (at_time 5) ask_me"
  have v: "Validate (sv_libs (x_sv ?x)) (sv_auth (x_sv ?x)) (remove_first bearerPrefix ''Bearer session'')
      (rd_parse (at_time 0)) (rd_check (at_time 0)) = Ret (Inr demo_user)"
    by (simp only: demo_exec_sel demo_server_auth demo_bearer at_time_sel demo_validate)
  have h: "''Bearer session'' \<noteq> ''''" by simp
  have e: "x_MarshalTime ?x (ses_ExpiredAt (usr_Session demo_user)) = Some ''noon''" by simp
  have r: "\<forall>r \<in> set [?r]. r \<noteq> WsClose 4 \<and> (\<forall>h t. r \<noteq> WsConnect 4 h t)" by simp
  have "Validate demo_lib demo_auth ''session'' 86400000000001 86400000000001 =
      Ret (Inl (Wrap ''parse jwt'' (ExtErr ''expired'')))"
    by (simp add: Validate_def demo_parse_late)
  with connection_outlives_token [OF v h r refl, of "demo_host db_two_records"] e
  show ?thesis by blast
qed

end
