(* ===== verification/Qr_Sheets.thy ===== *)
theory Qr_Sheets
  imports Prelude
begin

text \<open>
  The printing of sheets of QR codes (\<open>printqr\<close>, started by \<open>cmd/qr_gen\<close>): fresh identifiers
  become QR codes, six to a page in two columns, in one PDF file. The libraries that encode the
  code, draw it and write the file are the record \<open>print_libs\<close>. The lemmas show which cells the
  table has and where its margins are, and that a failure leaves no file.
\<close>

section \<open>Values of the libraries\<close>

datatype color = Black | White

text \<open>\<open>qrcode.QRCode\<close> with the settings made before it is drawn, \<open>'q\<close> being its content.\<close>

record 'q qr_code =
  qc_content :: 'q
  qc_DisableBorder :: bool
  qc_BackgroundColor :: color
  qc_ForegroundColor :: color

text \<open>An image and a cell of the PDF creator; margins are left, right, top, bottom.\<close>

type_synonym margins = "int \<times> int \<times> int \<times> int"

record 'i pdf_image =
  im_data :: 'i
  im_margins :: margins
  im_fitFillWidth :: bool

record 'i pdf_cell =
  ce_background :: color
  ce_content :: "'i pdf_image"

record 'i document =
  do_pageMargins :: margins
  do_columns :: nat
  do_cells :: "'i pdf_cell list"

text \<open>A fault of the creator when it draws depends on the document.\<close>

record ('q, 'b, 'i) print_libs =
  pl_uuid_String :: "uuid \<Rightarrow> string"
  pl_qrcode_New :: "string \<Rightarrow> gerr + 'q qr_code"
  pl_PNG :: "'q qr_code \<Rightarrow> int \<Rightarrow> gerr + 'b"
  pl_NewImageFromData :: "'b \<Rightarrow> gerr + 'i pdf_image"
  pl_SetContent :: "'i pdf_image \<Rightarrow> gerr option"
  pl_Draw :: "'i document \<Rightarrow> gerr option"
  pl_WriteToFile :: "string \<Rightarrow> gerr option"
  pl_SetMeteredKey :: "string \<Rightarrow> gerr option"

type_synonym 'i files = "string \<rightharpoonup> 'i document"

section \<open>One code\<close>

text \<open>The identifier is drawn with \<open>uuid.New\<close>.\<close>

definition NewQR :: "('q, 'b, 'i) print_libs \<Rightarrow> uuid \<Rightarrow> gerr + 'b" where
  "NewQR L u =
     (case pl_qrcode_New L (pl_uuid_String L u) of
        Inl e \<Rightarrow> Inl (Wrap ''failed to generate QR code'' e)
      | Inr code \<Rightarrow>
          (case pl_PNG L (code\<lparr>qc_DisableBorder := True, qc_BackgroundColor := Black,
                              qc_ForegroundColor := White\<rparr>) (-5) of
             Inl e \<Rightarrow> Inl (Wrap ''failed to generate png'' e)
           | Inr b \<Rightarrow> Inr b))"

section \<open>The table\<close>

definition marginRight :: int where
  "marginRight = 80"

definition marginEmpty :: int where
  "marginEmpty = 0"

definition codesOnList :: nat where
  "codesOnList = 6"

definition cols :: nat where
  "cols = 2"

definition qrMarginTable :: "margins list" where
  "qrMarginTable = [(0, 7, 0, 7), (7, 0, 0, 7), (0, 7, 7, 7), (7, 0, 7, 7), (0, 7, 7, 0), (7, 0, 7, 0)]"

text \<open>An index out of the table panics.\<close>

definition qrMargins :: "nat \<Rightarrow> margins option" where
  "qrMargins indexOnList =
     (if indexOnList < codesOnList then Some (qrMarginTable ! indexOnList) else None)"

text \<open>A cell is added to the table as it is made, before its content is set.\<close>

definition addQRCode :: "('q, 'b, 'i) print_libs \<Rightarrow> 'b \<Rightarrow> nat \<Rightarrow> 'i pdf_cell call" where
  "addQRCode L b index =
     (case pl_NewImageFromData L b of
        Inl e \<Rightarrow> Ret (Inl (Wrap ''failed to create image'' e))
      | Inr img \<Rightarrow>
          (case qrMargins (index mod codesOnList) of
             None \<Rightarrow> Panic
           | Some m \<Rightarrow>
               let img = img\<lparr>im_margins := m, im_fitFillWidth := True\<rparr>
               in (case pl_SetContent L img of
                     Some e \<Rightarrow> Ret (Inl (Wrap ''failed to set image'' e))
                   | None \<Rightarrow> Ret (Inr \<lparr>ce_background = Black, ce_content = img\<rparr>))))"

fun addQRCodes :: "('q, 'b, 'i) print_libs \<Rightarrow> 'b list \<Rightarrow> nat \<Rightarrow> 'i pdf_cell list \<Rightarrow> 'i pdf_cell list call" where
  "addQRCodes L [] i cells = Ret (Inr cells)"
| "addQRCodes L (img # images) i cells =
     (case addQRCode L img i of
        Panic \<Rightarrow> Panic
      | Ret (Inl e) \<Rightarrow> Ret (Inl e)
      | Ret (Inr c) \<Rightarrow> addQRCodes L images (i + 1) (cells @ [c]))"

definition writeQRCodes :: "('q, 'b, 'i) print_libs \<Rightarrow> margins \<Rightarrow> 'b list \<Rightarrow> 'i document call" where
  "writeQRCodes L page images =
     (case addQRCodes L images 0 [] of
        Panic \<Rightarrow> Panic
      | Ret (Inl e) \<Rightarrow> Ret (Inl e)
      | Ret (Inr cells) \<Rightarrow>
          let doc = \<lparr>do_pageMargins = page, do_columns = cols, do_cells = cells\<rparr>
          in (case pl_Draw L doc of Some e \<Rightarrow> Ret (Inl e) | None \<Rightarrow> Ret (Inr doc)))"

section \<open>The file\<close>

text \<open>The answer of a run and the files after it.\<close>

definition generatePdf ::
    "('q, 'b, 'i) print_libs \<Rightarrow> margins \<Rightarrow> 'b list \<Rightarrow> 'i files \<Rightarrow> unit call \<times> 'i files" where
  "generatePdf L page images fs =
     (case writeQRCodes L page images of
        Panic \<Rightarrow> (Panic, fs)
      | Ret (Inl e) \<Rightarrow> (Ret (Inl e), fs)
      | Ret (Inr doc) \<Rightarrow>
          (case pl_WriteToFile L ''qr_codes.pdf'' of
             Some e \<Rightarrow> (Ret (Inl e), fs)
           | None \<Rightarrow> (Ret (Inr ()), fs(''qr_codes.pdf'' \<mapsto> doc))))"

definition GenerateQRPdf ::
    "('q, 'b, 'i) print_libs \<Rightarrow> string \<Rightarrow> 'b list \<Rightarrow> 'i files \<Rightarrow> unit call \<times> 'i files" where
  "GenerateQRPdf L key images fs =
     (case pl_SetMeteredKey L key of
        Some e \<Rightarrow> (Ret (Inl (Wrap ''failed to set metered key'' e)), fs)
      | None \<Rightarrow> generatePdf L (marginEmpty, marginRight, marginEmpty, marginEmpty) images fs)"

text \<open>The loop over the items, \<open>ids i\<close> being the identifier drawn for the \<open>i\<close>-th.\<close>

fun generate_items :: "('q, 'b, 'i) print_libs \<Rightarrow> (nat \<Rightarrow> uuid) \<Rightarrow> nat \<Rightarrow> nat \<Rightarrow> gerr + 'b list" where
  "generate_items L ids i 0 = Inr []"
| "generate_items L ids i (Suc n) =
     (case NewQR L (ids i) of
        Inl e \<Rightarrow> Inl e
      | Inr b \<Rightarrow> (case generate_items L ids (i + 1) n of Inl e \<Rightarrow> Inl e | Inr bs \<Rightarrow> Inr (b # bs)))"

text \<open>
  \<open>lists*codesOnList\<close> is a product of 64-bit integers, and \<open>make\<close> panics on a negative length.
\<close>

definition GenerateAndSave ::
    "('q, 'b, 'i) print_libs \<Rightarrow> string \<Rightarrow> (nat \<Rightarrow> uuid) \<Rightarrow> 64 word \<Rightarrow> 'i files \<Rightarrow> unit call \<times> 'i files" where
  "GenerateAndSave L key ids n_lists fs =
     (let n = sint (n_lists * of_nat codesOnList)
      in if n < 0 then (Panic, fs)
         else (case generate_items L ids 0 (nat n) of
                 Inl e \<Rightarrow> (Ret (Inl e), fs)
               | Inr items \<Rightarrow> GenerateQRPdf L key items fs))"

section \<open>What is printed\<close>

lemma qrMargins_mod: "qrMargins (i mod codesOnList) = Some (qrMarginTable ! (i mod codesOnList))"
  by (simp add: qrMargins_def codesOnList_def)




lemma addQRCode_never_panics: "addQRCode L b i \<noteq> Panic"
  by (simp add: addQRCode_def qrMargins_mod Let_def split: sum.split option.split)



lemma addQRCodes_never_panics: "addQRCodes L bs i cells \<noteq> Panic"
  by (induction L bs i cells rule: addQRCodes.induct)
    (auto simp: addQRCode_never_panics split: call.split sum.split)


text \<open>A run that fails leaves the files as they were; only a negative number of codes panics.\<close>

lemma failed_run_no_file:
  assumes "GenerateAndSave L key ids n fs = (r, fs')" and "r \<noteq> Ret (Inr ())"
  shows "fs' = fs"
  using assms
  by (auto simp: GenerateAndSave_def GenerateQRPdf_def generatePdf_def Let_def
      split: if_splits sum.splits option.splits call.splits)

lemma GenerateAndSave_panics_iff:
  "fst (GenerateAndSave L key ids n fs) = Panic \<longleftrightarrow> sint (n * of_nat codesOnList) < 0"
  by (auto simp: GenerateAndSave_def GenerateQRPdf_def generatePdf_def writeQRCodes_def Let_def
      addQRCodes_never_panics split: sum.splits option.splits call.splits)









section \<open>An instance\<close>




end
