(* ===== verification/Startup.thy ===== *)
theory Startup
  imports Graphql_Server Qr_Sheets
begin

text \<open>
  How the process starts (\<open>cmd/server/main.go\<close>, \<open>internal/server/server.go\<close>,
  \<open>internal/auth/cfg.go\<close>, \<open>internal/openweather/config.go\<close> and the constructors they call): the
  variables it reads, the panics that stop it, and the state in which it serves the first
  request. The main lemma says exactly when it starts. The libraries (\<open>envconfig\<close>,
  \<open>database/sql\<close>, files, templates, the push client) are the record \<open>boot\<close>; what \<open>envconfig\<close>
  documents of the tags it reads is the predicate \<open>envconfig_reads\<close>.
\<close>

section \<open>Configuration\<close>

text \<open>
  A field of a configuration struct with its type and its tag, as \<open>envconfig.Process\<close> sees them
  by reflection. A field that \<open>Process\<close> does not set keeps its zero value.
\<close>

record struct_field =
  fld_Name :: string
  fld_Type :: string
  fld_Tag :: "(string \<times> string) list"

datatype cfg_value = CText string | CLevel nat

fun text_of :: "cfg_value option \<Rightarrow> string" where
  "text_of (Some (CText s)) = s"
| "text_of _ = ''''"

fun level_of :: "cfg_value option \<Rightarrow> nat" where
  "level_of (Some (CLevel l)) = l"
| "level_of _ = 0"

definition string_field :: "string \<Rightarrow> (string \<times> string) list \<Rightarrow> struct_field" where
  "string_field n tags = \<lparr>fld_Name = n, fld_Type = ''string'', fld_Tag = tags\<rparr>"

text \<open>The structs of \<open>main.go\<close>, of \<open>cfg.go\<close> and of \<open>config.go\<close>.\<close>

definition server_fields :: "struct_field list" where
  "server_fields =
     [\<lparr>fld_Name = ''LoggerLevel'', fld_Type = ''logrus.Level'',
       fld_Tag = [(''envconfig'', ''LOG_LEVEL''), (''default'', ''info'')]\<rparr>,
      string_field ''OpenAIToken'' [(''envconfig'', ''OPEN_AI_TOKEN''), (''require'', ''true'')],
      string_field ''PGDSN'' [(''envconfig'', ''PG_DSN''), (''default'', '''')]]"

definition appleCfg_fields :: "struct_field list" where
  "appleCfg_fields =
     [string_field ''SecretPath'' [(''envconfig'', ''SECRET_PATH''), (''default'', ''AuthKey_39D5B439QV.p8'')],
      string_field ''TeamID'' [(''envconfig'', ''TEAM_ID''), (''required'', ''true'')],
      string_field ''ClientID'' [(''envconfig'', ''CLIENT_ID''), (''required'', ''true'')],
      string_field ''KeyID'' [(''envconfig'', ''KEY_ID''), (''required'', ''true'')]]"

definition adminCfg_fields :: "struct_field list" where
  "adminCfg_fields =
     [string_field ''AdminPublicKeyPath''
        [(''envconfig'', ''ADMIN_PUBLIC_KEY_PATH''), (''default'', ''/keys/admin/admin_public_key.pem'')]]"

definition openweather_fields :: "struct_field list" where
  "openweather_fields = [string_field ''ApiKey'' [(''require'', ''true'')]]"

record configuration =
  LoggerLevel :: nat
  OpenAIToken :: string
  PGDSN :: string

section \<open>What the process starts with\<close>

text \<open>
  The libraries at start. \<open>bo_env\<close> is what the request's environment has from outside
  (\<open>bo_env\<close>'s own authentication, templates, push client and store are replaced).
\<close>

type_synonym 'f templates =
  "('f Template \<Rightarrow> gerr + string) \<times> (string list \<Rightarrow> 'f Weather \<Rightarrow> string \<Rightarrow> gerr + string)"

record ('f, 'c) boot =
  bo_Process :: "string \<Rightarrow> struct_field list \<Rightarrow> gerr + (string \<rightharpoonup> cfg_value)"
  bo_sql_Open :: "string \<Rightarrow> string \<Rightarrow> gerr option"
  bo_PingContext :: "string \<Rightarrow> gerr option"
  bo_AuthKeyFromFile :: "string \<Rightarrow> gerr + gokey"
  bo_NewTokenClient :: "gokey \<Rightarrow> string \<Rightarrow> string \<Rightarrow> push_client"
  bo_ristretto_NewCache :: "nat \<Rightarrow> nat \<Rightarrow> nat \<Rightarrow> gerr + 'c"
  bo_ParseFS :: "string \<Rightarrow> string \<Rightarrow> gerr + 'f templates"
  bo_ListenAndServe :: "string \<Rightarrow> gerr option"
  bo_env :: "('f, 'c) exec_env"

text \<open>A panic with an error, or going on with a value.\<close>

definition orPanic :: "gerr + 'a \<Rightarrow> ('a \<Rightarrow> gerr + 'b) \<Rightarrow> gerr + 'b" where
  "orPanic r k = (case r of Inl e \<Rightarrow> Inl e | Inr x \<Rightarrow> k x)"

definition checkErr :: "gerr option \<Rightarrow> gerr + 'b \<Rightarrow> gerr + 'b" where
  "checkErr e k = (case e of Some e \<Rightarrow> Inl e | None \<Rightarrow> k)"

text \<open>The same for a method of a part that leaves it changed.\<close>

definition startOrPanic :: "(gerr + unit) \<times> 's \<Rightarrow> ('s \<Rightarrow> gerr + 'b) \<Rightarrow> gerr + 'b" where
  "startOrPanic rs k = (case rs of (Inl e, _) \<Rightarrow> Inl e | (Inr _, s) \<Rightarrow> k s)"

lemma orPanic_simps [simp]: "orPanic (Inl e) k = Inl e" "orPanic (Inr x) k = k x"
  by (simp_all add: orPanic_def)

lemma checkErr_simps [simp]: "checkErr (Some e) k = Inl e" "checkErr None k = k"
  by (simp_all add: checkErr_def)

lemma orPanic_Inr_iff: "orPanic r k = Inr y \<longleftrightarrow> (\<exists>x. r = Inr x \<and> k x = Inr y)"
  by (cases r) auto

lemma checkErr_Inr_iff: "checkErr e k = Inr y \<longleftrightarrow> e = None \<and> k = Inr y"
  by (cases e) auto

lemma startOrPanic_simps [simp]: "startOrPanic (Inl e, s) k = Inl e" "startOrPanic (Inr (), s) k = k s"
  by (simp_all add: startOrPanic_def)

lemma startOrPanic_Inr_iff: "startOrPanic rs k = Inr y \<longleftrightarrow> (\<exists>s. rs = (Inr (), s) \<and> k s = Inr y)"
  by (cases rs; cases "fst rs") (auto simp: startOrPanic_def)

section \<open>The parts\<close>

text \<open>\<open>auth.Config\<close> and \<open>openweather.Config\<close>.\<close>

definition auth_Config :: "('f, 'c) boot \<Rightarrow> gerr + Configuration" where
  "auth_Config b =
     orPanic (bo_Process b ''APPLE_AUTH'' appleCfg_fields) (\<lambda>ac.
     orPanic (bo_Process b '''' adminCfg_fields) (\<lambda>adc.
     orPanic (os_ReadFile (sv_libs (x_sv (bo_env b))) (text_of (ac ''SecretPath''))) (\<lambda>contents.
     Inr \<lparr>cfg_SecretPath = text_of (ac ''SecretPath''), cfg_Secret = contents,
          cfg_TeamID = text_of (ac ''TeamID''), cfg_ClientID = text_of (ac ''ClientID''),
          cfg_KeyID = text_of (ac ''KeyID''),
          cfg_AdminPublicKeyPath = text_of (adc ''AdminPublicKeyPath'')\<rparr>)))"

definition openweather_Config :: "('f, 'c) boot \<Rightarrow> gerr + string" where
  "openweather_Config b =
     orPanic (bo_Process b ''OPENWEATHER'' openweather_fields) (\<lambda>m. Inr (text_of (m ''ApiKey'')))"

text \<open>\<open>descrgen.NewGenerator\<close>: the client is made of the token, whatever it is.\<close>

record 'c generator =
  ge_client :: string
  ge_cacheManager :: 'c

definition NewGenerator :: "('f, 'c) boot \<Rightarrow> string \<Rightarrow> gerr + 'c generator" where
  "NewGenerator b token =
     orPanic (bo_ristretto_NewCache b 1000 100000000 64) (\<lambda>ristrettoCache.
     Inr \<lparr>ge_client = token, ge_cacheManager = ristrettoCache\<rparr>)"

text \<open>\<open>apns.NewSender\<close>; \<open>expiration.NewAlerter\<close> and \<open>Start\<close>, which starts one loop at most.\<close>

record sender =
  se_client :: push_client
  se_topic :: string

definition NewSender :: "push_client \<Rightarrow> string \<Rightarrow> sender" where
  "NewSender client topic = \<lparr>se_client = client, se_topic = topic\<rparr>"

record alerter =
  at_sender :: sender
  at_startSync :: bool
  at_loops :: nat

definition NewAlerter :: "sender \<Rightarrow> alerter" where
  "NewAlerter se = \<lparr>at_sender = se, at_startSync = False, at_loops = 0\<rparr>"

definition alerter_Start :: "(alerter, unit) act" where
  "alerter_Start a =
     (Inr (), if at_startSync a then a else a\<lparr>at_startSync := True, at_loops := at_loops a + 1\<rparr>)"

text \<open>\<open>adviser.NewService\<close> and \<open>LoadPrompt\<close>.\<close>

record 'f adviser_service =
  ad_client :: string
  ad_tmpl :: "('f Template \<Rightarrow> gerr + string) option"
  ad_contextTmpl :: "(string list \<Rightarrow> 'f Weather \<Rightarrow> string \<Rightarrow> gerr + string) option"

definition adviser_NewService :: "string \<Rightarrow> 'f adviser_service" where
  "adviser_NewService client = \<lparr>ad_client = client, ad_tmpl = None, ad_contextTmpl = None\<rparr>"

definition LoadPrompt :: "('f, 'c) boot \<Rightarrow> ('f adviser_service, unit) act" where
  "LoadPrompt b s =
     (case bo_ParseFS b ''prompt.gotpl'' ''context_scoring.gotpl'' of
        Inl e \<Rightarrow> (Inl (Wrap ''parse templates'' e), s)
      | Inr (tmpl, contextTmpl) \<Rightarrow> (Inr (), s\<lparr>ad_tmpl := Some tmpl, ad_contextTmpl := Some contextTmpl\<rparr>))"

text \<open>\<open>openweather.NewService\<close>.\<close>

record weather_service =
  ws_key :: string

definition weather_NewService :: "string \<Rightarrow> weather_service" where
  "weather_NewService key = \<lparr>ws_key = key\<rparr>"

section \<open>The server\<close>

text \<open>
  \<open>InitV2Api\<close>: the GraphQL handler with its transports, caches and extensions, and the routes.
  The principals come from the middleware among the extensions and from \<open>wsInitFunc\<close>.
\<close>

datatype transport =
    Websocket nat nat nat
  | Options
  | GET
  | POST
  | MultipartForm

datatype extension = Tracer | Introspection | AutomaticPersistedQuery nat | AuthMiddleware

record graphql_handler =
  gh_transports :: "transport list"
  gh_queryCache :: nat
  gh_extensions :: "extension list"

datatype http_handler =
    Playground string string
  | GraphQL graphql_handler
  | Health
  | Metrics
  | ServeFile string

record Server =
  srv_router :: "(string \<times> http_handler) list"
  srv_middlewares :: "extension list"

definition v2QueryPath :: string where
  "v2QueryPath = ''/v2/query''"

definition staticIndexPath :: string where
  "staticIndexPath = ''./static/index.html''"

definition NewServer :: "extension list \<Rightarrow> Server" where
  "NewServer middlewares = \<lparr>srv_router = [], srv_middlewares = middlewares\<rparr>"

definition InitV2Api :: "Server \<Rightarrow> Server" where
  "InitV2Api s =
     (let srv = \<lparr>gh_transports = [Websocket 10 1024 1024, Options, GET, POST, MultipartForm],
            gh_queryCache = 1000,
            gh_extensions = [Tracer, Introspection, AutomaticPersistedQuery 100] @ srv_middlewares s\<rparr>
      in s\<lparr>srv_router := srv_router s @
           [(''/v2/'', Playground ''GraphQL playground'' v2QueryPath),
            (v2QueryPath, GraphQL srv),
            (''/health'', Health),
            (''/metrics'', Metrics),
            (''/.well-known/apple-app-site-association'', ServeFile ''./static/apple-app-site-association''),
            (''/index.html'', ServeFile staticIndexPath),
            (''/'', ServeFile staticIndexPath)]\<rparr>)"

definition server_Run :: "('f, 'c) boot \<Rightarrow> gerr option" where
  "server_Run b = map_option (Wrap ''listen and serve'') (bo_ListenAndServe b '':8080'')"

section \<open>The process\<close>

text \<open>
  \<open>graphql.NewResolver\<close> as far as the parts are values: what resolvers are built of, and the
  state they work on.
\<close>

definition NewResolver ::
    "('f, 'c) server \<Rightarrow> auth \<Rightarrow> alerter \<Rightarrow> 'f adviser_service \<Rightarrow> PGStore \<Rightarrow> ('f, 'c) server" where
  "NewResolver sv authM debug adv cons = sv
     \<lparr>sv_auth := authM,
      sv_alert := (sv_alert sv)\<lparr>ae_client := se_client (at_sender debug), ae_topic := se_topic (at_sender debug)\<rparr>,
      sv_prompt := the (ad_tmpl adv), sv_contextTmpl := the (ad_contextTmpl adv), sv_consumption := cons\<rparr>"

definition fresh_app :: "pgdb tea_manager \<Rightarrow> pgdb tag_manager \<Rightarrow> 'c generator \<Rightarrow> pgdb \<Rightarrow> 'c app" where
  "fresh_app teaManager tagManager ai d =
     \<lparr>ap_db = d, ap_teas = teaManager, ap_tags = tagManager, ap_cache = newTeaOfTheDayCache,
      ap_pushes = [], ap_descr = ge_cacheManager ai\<rparr>"

record ('f, 'c) process =
  pr_cfg :: configuration
  pr_authCfg :: Configuration
  pr_ai :: "'c generator"
  pr_alerter :: alerter
  pr_adv :: "'f adviser_service"
  pr_weather :: weather_service
  pr_server :: Server
  pr_env :: "('f, 'c) exec_env"
  pr_host :: "'c host"

text \<open>
  \<open>main\<close> up to \<open>s.Run()\<close>: a panic, or the process at its first request. The managers' loops and
  the alerter's are then running.
\<close>

definition main_cfg :: "('f, 'c) boot \<Rightarrow> gerr + configuration" where
  "main_cfg b =
     orPanic (bo_Process b '''' server_fields) (\<lambda>m.
     Inr \<lparr>LoggerLevel = level_of (m ''LoggerLevel''), OpenAIToken = text_of (m ''OpenAIToken''),
          PGDSN = text_of (m ''PGDSN'')\<rparr>)"

definition main :: "('f, 'c) boot \<Rightarrow> pgdb \<Rightarrow> gerr + ('f, 'c) process" where
  "main b d =
     orPanic (main_cfg b) (\<lambda>cfg.
     if PGDSN cfg = '''' then Inl (ExtErr ''PG_DSN is required'') else
     checkErr (bo_sql_Open b ''pgx'' (PGDSN cfg)) (
     checkErr (bo_PingContext b (PGDSN cfg)) (
     orPanic (auth_Config b) (\<lambda>authCfg.
     startOrPanic (Start (sv_libs (x_sv (bo_env b))) (NewAuth authCfg)) (\<lambda>authM.
     orPanic (NewGenerator b (OpenAIToken cfg)) (\<lambda>ai.
     orPanic (bo_AuthKeyFromFile b (cfg_SecretPath authCfg)) (\<lambda>authKey.
     let apnsClient = bo_NewTokenClient b authKey (cfg_KeyID authCfg) (cfg_TeamID authCfg);
         apnsSender = NewSender apnsClient (cfg_ClientID authCfg)
     in startOrPanic (alerter_Start (NewAlerter apnsSender)) (\<lambda>expirationAlerter.
     orPanic (openweather_Config b) (\<lambda>apiKey.
     startOrPanic (LoadPrompt b (adviser_NewService (OpenAIToken cfg))) (\<lambda>adv.
     let sv = NewResolver (x_sv (bo_env b)) authM expirationAlerter adv (NewPGStore 0);
         a = fresh_app (tea_NewManager d) (tag_NewManager d) ai d
     in Inr \<lparr>pr_cfg = cfg, pr_authCfg = authCfg, pr_ai = ai, pr_alerter = expirationAlerter,
             pr_adv = adv, pr_weather = weather_NewService apiKey,
             pr_server = InitV2Api (NewServer [AuthMiddleware]),
             pr_env = (bo_env b)\<lparr>x_sv := sv\<rparr>,
             pr_host = \<lparr>ho_app = a, ho_conns = Map.empty\<rparr>\<rparr>))))))))))"

text \<open>The whole life of the process: the requests it serves until \<open>ListenAndServe\<close> returns.\<close>

definition process_run :: "('f, 'c) boot \<Rightarrow> pgdb \<Rightarrow> 'f request list \<Rightarrow> gerr + 'c host \<times> gerr option" where
  "process_run b d reqs =
     orPanic (main b d) (\<lambda>p. Inr (serve_all (pr_env p) reqs (pr_host p), server_Run b))"

lemma alerter_Start_new [simp]:
  "alerter_Start (NewAlerter se) = (Inr (), \<lparr>at_sender = se, at_startSync = True, at_loops = 1\<rparr>)"
  by (simp add: alerter_Start_def NewAlerter_def)

lemma alerter_Start_twice: "alerter_Start (snd (alerter_Start a)) = (Inr (), snd (alerter_Start a))"
  by (simp add: alerter_Start_def)

text \<open>What holds of a process that has started, whatever the environment.\<close>

lemma main_started:
  assumes "main b d = Inr p"
  shows "auth_Config b = Inr (pr_authCfg p)"
    and "Start (sv_libs (x_sv (pr_env p))) (NewAuth (pr_authCfg p)) = (Inr (), sv_auth (x_sv (pr_env p)))"
    and "sv_libs (x_sv (pr_env p)) = sv_libs (x_sv (bo_env b))"
    and "sv_pg (x_sv (pr_env p)) = sv_pg (x_sv (bo_env b))"
    and "sv_consumption (x_sv (pr_env p)) = NewPGStore 0"
    and "ap_db (ho_app (pr_host p)) = d" and "ho_conns (pr_host p) = Map.empty"
    and "ap_cache (ho_app (pr_host p)) = Map.empty"
    and "tea_queued (ap_teas (ho_app (pr_host p))) = []"
    and "tag_queued (ap_tags (ho_app (pr_host p))) = []"
    and "at_loops (pr_alerter p) = 1"
  using assms
  by (auto simp: main_def orPanic_Inr_iff checkErr_Inr_iff startOrPanic_Inr_iff Let_def NewResolver_def fresh_app_def
      newTeaOfTheDayCache_def tea_NewManager_def tea_queued_def tag_NewManager_def tag_queued_def
      split: if_splits)

section \<open>What envconfig documents\<close>

text \<open>
  The variable of a field is named by its tag \<open>envconfig\<close>, else by the field, in upper case and
  after the prefix; where the prefixed one is not set and there is a tag, the variable named by
  the tag alone is read. Without a variable the tag \<open>default\<close> gives the value, and a field whose
  tag \<open>required\<close> is true and that has neither is an error. \<open>E\<close> is the environment, \<open>lvl\<close> decodes a level.
\<close>

definition upper_char :: "char \<Rightarrow> char" where
  "upper_char c = (let n = of_char c :: nat in if 97 \<le> n \<and> n \<le> 122 then char_of (n - 32) else c)"

definition tag :: "struct_field \<Rightarrow> string \<Rightarrow> string" where
  "tag f n = (case map_of (fld_Tag f) n of Some s \<Rightarrow> s | None \<Rightarrow> '''')"

definition env_key :: "string \<Rightarrow> struct_field \<Rightarrow> string" where
  "env_key pre f = map upper_char ((if pre = '''' then '''' else pre @ ''_'') @
     (if tag f ''envconfig'' = '''' then fld_Name f else tag f ''envconfig''))"

definition env_variable :: "(string \<rightharpoonup> string) \<Rightarrow> string \<Rightarrow> struct_field \<Rightarrow> string option" where
  "env_variable E pre f =
     (case E (env_key pre f) of
        Some v \<Rightarrow> Some v
      | None \<Rightarrow> if tag f ''envconfig'' = '''' then None else E (map upper_char (tag f ''envconfig'')))"

definition decode_field :: "(string \<Rightarrow> gerr + nat) \<Rightarrow> struct_field \<Rightarrow> string \<Rightarrow> gerr + cfg_value option" where
  "decode_field lvl f v =
     (if fld_Type f = ''logrus.Level'' then orPanic (lvl v) (\<lambda>l. Inr (Some (CLevel l))) else Inr (Some (CText v)))"

definition field_value ::
    "(string \<rightharpoonup> string) \<Rightarrow> (string \<Rightarrow> gerr + nat) \<Rightarrow> string \<Rightarrow> struct_field \<Rightarrow> gerr + cfg_value option" where
  "field_value E lvl pre f =
     (case env_variable E pre f of
        Some v \<Rightarrow> decode_field lvl f v
      | None \<Rightarrow>
          if tag f ''default'' \<noteq> '''' then decode_field lvl f (tag f ''default'')
          else if tag f ''required'' = ''true'' then Inl (ExtErr ''required key missing value'')
          else Inr None)"

definition envconfig_reads ::
    "(string \<rightharpoonup> string) \<Rightarrow> (string \<Rightarrow> gerr + nat) \<Rightarrow>
       (string \<Rightarrow> struct_field list \<Rightarrow> gerr + (string \<rightharpoonup> cfg_value)) \<Rightarrow> bool" where
  "envconfig_reads E lvl proc \<longleftrightarrow>
     (\<forall>pre fs. distinct (map fld_Name fs) \<and> set (map fld_Type fs) \<subseteq> {''string'', ''logrus.Level''} \<longrightarrow>
        (case proc pre fs of
           Inl e \<Rightarrow> \<exists>f \<in> set fs. isl (field_value E lvl pre f)
         | Inr m \<Rightarrow> \<forall>f \<in> set fs. field_value E lvl pre f = Inr (m (fld_Name f))))"

lemma envconfig_reads_value:
  assumes "envconfig_reads E lvl proc"
    and "distinct (map fld_Name fs)" and "set (map fld_Type fs) \<subseteq> {''string'', ''logrus.Level''}"
    and "proc pre fs = Inr m"
  shows "\<forall>f \<in> set fs. field_value E lvl pre f = Inr (m (fld_Name f))"
  using assms(1) [unfolded envconfig_reads_def, rule_format, OF conjI, OF assms(2,3), of pre] assms(4)
  by simp

lemma envconfig_reads_iff:
  assumes "envconfig_reads E lvl proc"
    and "distinct (map fld_Name fs)" and "set (map fld_Type fs) \<subseteq> {''string'', ''logrus.Level''}"
  shows "(\<exists>m. proc pre fs = Inr m) \<longleftrightarrow> (\<forall>f \<in> set fs. \<not> isl (field_value E lvl pre f))"
  using assms(1) [unfolded envconfig_reads_def, rule_format, OF conjI, OF assms(2,3), of pre]
  by (cases "proc pre fs") auto

lemma fields_ok:
  "distinct (map fld_Name server_fields)" "set (map fld_Type server_fields) \<subseteq> {''string'', ''logrus.Level''}"
  "distinct (map fld_Name appleCfg_fields)" "set (map fld_Type appleCfg_fields) \<subseteq> {''string'', ''logrus.Level''}"
  "distinct (map fld_Name adminCfg_fields)" "set (map fld_Type adminCfg_fields) \<subseteq> {''string'', ''logrus.Level''}"
  "distinct (map fld_Name openweather_fields)" "set (map fld_Type openweather_fields) \<subseteq> {''string'', ''logrus.Level''}"
  by (simp_all add: server_fields_def appleCfg_fields_def adminCfg_fields_def openweather_fields_def string_field_def)

text \<open>An Apple variable is also read without its prefix.\<close>

definition first_set :: "(string \<rightharpoonup> string) \<Rightarrow> string \<Rightarrow> string \<Rightarrow> string option" where
  "first_set E k l = (case E k of Some v \<Rightarrow> Some v | None \<Rightarrow> E l)"

definition or_else :: "string option \<Rightarrow> string \<Rightarrow> string" where
  "or_else o1 s = (case o1 of Some v \<Rightarrow> v | None \<Rightarrow> s)"

lemma first_set_same [simp]: "first_set E k k = E k"
  by (simp add: first_set_def split: option.split)

lemma or_else_simps [simp]: "or_else None s = s" "or_else (Some v) s = v"
  by (simp_all add: or_else_def)

lemma string_variable:
  "tag (string_field n tags) t = (case map_of tags t of Some s \<Rightarrow> s | None \<Rightarrow> '''')"
  "fld_Name (string_field n tags) = n"
  "decode_field lvl (string_field n tags) v = Inr (Some (CText v))"
  by (simp_all add: tag_def string_field_def decode_field_def)

lemma env_variable_tagged:
  "tag f ''envconfig'' \<noteq> '''' \<Longrightarrow>
     env_variable E pre f = first_set E (env_key pre f) (map upper_char (tag f ''envconfig''))"
  by (simp add: env_variable_def first_set_def)

lemma env_keys:
  "env_key ''APPLE_AUTH'' (string_field n ((''envconfig'', ''SECRET_PATH'') # t)) = ''APPLE_AUTH_SECRET_PATH''"
  "env_key ''APPLE_AUTH'' (string_field n ((''envconfig'', ''TEAM_ID'') # t)) = ''APPLE_AUTH_TEAM_ID''"
  "env_key ''APPLE_AUTH'' (string_field n ((''envconfig'', ''CLIENT_ID'') # t)) = ''APPLE_AUTH_CLIENT_ID''"
  "env_key ''APPLE_AUTH'' (string_field n ((''envconfig'', ''KEY_ID'') # t)) = ''APPLE_AUTH_KEY_ID''"
  "env_key '''' (string_field n ((''envconfig'', ''ADMIN_PUBLIC_KEY_PATH'') # t)) = ''ADMIN_PUBLIC_KEY_PATH''"
  "env_key '''' (string_field n ((''envconfig'', ''OPEN_AI_TOKEN'') # t)) = ''OPEN_AI_TOKEN''"
  "env_key '''' (string_field n ((''envconfig'', ''PG_DSN'') # t)) = ''PG_DSN''"
  "env_key ''OPENWEATHER'' (string_field ''ApiKey'' [(''require'', s)]) = ''OPENWEATHER_APIKEY''"
  by (simp_all add: env_key_def string_variable upper_char_def char_of_eq_iff)

lemma upper_keys:
  "map upper_char ''SECRET_PATH'' = ''SECRET_PATH''" "map upper_char ''TEAM_ID'' = ''TEAM_ID''"
  "map upper_char ''CLIENT_ID'' = ''CLIENT_ID''" "map upper_char ''KEY_ID'' = ''KEY_ID''"
  "map upper_char ''ADMIN_PUBLIC_KEY_PATH'' = ''ADMIN_PUBLIC_KEY_PATH''"
  "map upper_char ''OPEN_AI_TOKEN'' = ''OPEN_AI_TOKEN''" "map upper_char ''PG_DSN'' = ''PG_DSN''"
  "map upper_char ''LOG_LEVEL'' = ''LOG_LEVEL''"
  by (simp_all add: upper_char_def)

lemma level_key:
  "env_key '''' \<lparr>fld_Name = n, fld_Type = t, fld_Tag = (''envconfig'', ''LOG_LEVEL'') # r\<rparr> = ''LOG_LEVEL''"
  by (simp add: env_key_def tag_def upper_char_def)

text \<open>The value of each field.\<close>

definition apple_variable :: "(string \<rightharpoonup> string) \<Rightarrow> string \<Rightarrow> string option" where
  "apple_variable E k = first_set E (''APPLE_AUTH_'' @ k) k"

lemma tagged_value:
  assumes "k \<noteq> ''''"
  shows "field_value E lvl pre (string_field n [(''envconfig'', k), (''required'', ''true'')]) =
      (case first_set E (env_key pre (string_field n [(''envconfig'', k), (''required'', ''true'')])) (map upper_char k) of
         Some v \<Rightarrow> Inr (Some (CText v)) | None \<Rightarrow> Inl (ExtErr ''required key missing value''))"
    and "d \<noteq> '''' \<Longrightarrow> field_value E lvl pre (string_field n [(''envconfig'', k), (''default'', d)]) =
      Inr (Some (CText (or_else
        (first_set E (env_key pre (string_field n [(''envconfig'', k), (''default'', d)])) (map upper_char k)) d)))"
    and "field_value E lvl pre (string_field n [(''envconfig'', k), (''default'', '''')]) =
      Inr (map_option CText
        (first_set E (env_key pre (string_field n [(''envconfig'', k), (''default'', '''')])) (map upper_char k)))"
    and "field_value E lvl pre (string_field n [(''envconfig'', k), (''require'', r)]) =
      Inr (map_option CText
        (first_set E (env_key pre (string_field n [(''envconfig'', k), (''require'', r)])) (map upper_char k)))"
  using assms
  by (simp_all add: field_value_def env_variable_tagged string_variable split: option.split)

lemma apple_values:
  "field_value E lvl ''APPLE_AUTH'' (string_field ''SecretPath'' [(''envconfig'', ''SECRET_PATH''), (''default'', ''AuthKey_39D5B439QV.p8'')]) =
     Inr (Some (CText (or_else (apple_variable E ''SECRET_PATH'') ''AuthKey_39D5B439QV.p8'')))"
  "field_value E lvl ''APPLE_AUTH'' (string_field ''TeamID'' [(''envconfig'', ''TEAM_ID''), (''required'', ''true'')]) =
     (case apple_variable E ''TEAM_ID'' of Some v \<Rightarrow> Inr (Some (CText v)) | None \<Rightarrow> Inl (ExtErr ''required key missing value''))"
  "field_value E lvl ''APPLE_AUTH'' (string_field ''ClientID'' [(''envconfig'', ''CLIENT_ID''), (''required'', ''true'')]) =
     (case apple_variable E ''CLIENT_ID'' of Some v \<Rightarrow> Inr (Some (CText v)) | None \<Rightarrow> Inl (ExtErr ''required key missing value''))"
  "field_value E lvl ''APPLE_AUTH'' (string_field ''KeyID'' [(''envconfig'', ''KEY_ID''), (''required'', ''true'')]) =
     (case apple_variable E ''KEY_ID'' of Some v \<Rightarrow> Inr (Some (CText v)) | None \<Rightarrow> Inl (ExtErr ''required key missing value''))"
  by (simp_all only: tagged_value env_keys upper_keys apple_variable_def append_Cons append_Nil simp_thms list.distinct)

lemma other_values:
  "field_value E lvl '''' (string_field ''AdminPublicKeyPath''
       [(''envconfig'', ''ADMIN_PUBLIC_KEY_PATH''), (''default'', ''/keys/admin/admin_public_key.pem'')]) =
     Inr (Some (CText (or_else (E ''ADMIN_PUBLIC_KEY_PATH'') ''/keys/admin/admin_public_key.pem'')))"
  "field_value E lvl '''' (string_field ''OpenAIToken'' [(''envconfig'', ''OPEN_AI_TOKEN''), (''require'', ''true'')]) =
     Inr (map_option CText (E ''OPEN_AI_TOKEN''))"
  "field_value E lvl '''' (string_field ''PGDSN'' [(''envconfig'', ''PG_DSN''), (''default'', '''')]) =
     Inr (map_option CText (E ''PG_DSN''))"
  by (simp_all only: tagged_value env_keys upper_keys first_set_same simp_thms list.distinct)

lemma weather_value:
  "field_value E lvl ''OPENWEATHER'' (string_field ''ApiKey'' [(''require'', ''true'')]) =
     Inr (map_option CText (E ''OPENWEATHER_APIKEY''))"
  by (simp add: field_value_def env_variable_def env_keys string_variable split: option.split)

lemma level_value:
  "field_value E lvl '''' \<lparr>fld_Name = ''LoggerLevel'', fld_Type = ''logrus.Level'',
       fld_Tag = [(''envconfig'', ''LOG_LEVEL''), (''default'', ''info'')]\<rparr> =
     orPanic (lvl (or_else (E ''LOG_LEVEL'') ''info'')) (\<lambda>l. Inr (Some (CLevel l)))"
  by (simp add: field_value_def env_variable_tagged level_key upper_char_def tag_def decode_field_def split: option.split)

section \<open>When the server starts\<close>

text \<open>What the three configurations are, in terms of the variables.\<close>

lemma main_cfg_iff:
  assumes "envconfig_reads E lvl (bo_Process b)"
  shows "main_cfg b = Inr cfg \<longleftrightarrow>
    (\<exists>l. lvl (or_else (E ''LOG_LEVEL'') ''info'') = Inr l \<and>
      cfg = \<lparr>LoggerLevel = l, OpenAIToken = or_else (E ''OPEN_AI_TOKEN'') '''', PGDSN = or_else (E ''PG_DSN'') ''''\<rparr>)"
proof -
  have ex: "(\<exists>m. bo_Process b '''' server_fields = Inr m) \<longleftrightarrow> (\<exists>l. lvl (or_else (E ''LOG_LEVEL'') ''info'') = Inr l)"
    using envconfig_reads_iff [OF assms fields_ok(1,2)]
    by (cases "lvl (or_else (E ''LOG_LEVEL'') ''info'')") (simp_all add: server_fields_def level_value other_values)
  have "lvl (or_else (E ''LOG_LEVEL'') ''info'') = Inr (level_of (m ''LoggerLevel'')) \<and>
      text_of (m ''OpenAIToken'') = or_else (E ''OPEN_AI_TOKEN'') '''' \<and>
      text_of (m ''PGDSN'') = or_else (E ''PG_DSN'') ''''"
    if m: "bo_Process b '''' server_fields = Inr m" for m
  proof -
    from ex m obtain l where l: "lvl (or_else (E ''LOG_LEVEL'') ''info'') = Inr l" by blast
    have "m ''LoggerLevel'' = Some (CLevel l)" "m ''OpenAIToken'' = map_option CText (E ''OPEN_AI_TOKEN'')"
      "m ''PGDSN'' = map_option CText (E ''PG_DSN'')"
      using envconfig_reads_value [OF assms fields_ok(1,2) m] l
      by (simp_all add: server_fields_def level_value other_values string_variable)
    with l show ?thesis by (cases "E ''OPEN_AI_TOKEN''"; cases "E ''PG_DSN''") simp_all
  qed
  with ex show ?thesis by (auto simp: main_cfg_def orPanic_Inr_iff)
qed

lemma auth_Config_iff:
  assumes "envconfig_reads E lvl (bo_Process b)"
  shows "auth_Config b = Inr cfg \<longleftrightarrow>
    (\<exists>team client key contents. apple_variable E ''TEAM_ID'' = Some team \<and>
      apple_variable E ''CLIENT_ID'' = Some client \<and> apple_variable E ''KEY_ID'' = Some key \<and>
      os_ReadFile (sv_libs (x_sv (bo_env b)))
        (or_else (apple_variable E ''SECRET_PATH'') ''AuthKey_39D5B439QV.p8'') = Inr contents \<and>
      cfg = \<lparr>cfg_SecretPath = or_else (apple_variable E ''SECRET_PATH'') ''AuthKey_39D5B439QV.p8'',
        cfg_Secret = contents, cfg_TeamID = team, cfg_ClientID = client, cfg_KeyID = key,
        cfg_AdminPublicKeyPath = or_else (E ''ADMIN_PUBLIC_KEY_PATH'') ''/keys/admin/admin_public_key.pem''\<rparr>)"
proof -
  have ex: "(\<exists>m. bo_Process b ''APPLE_AUTH'' appleCfg_fields = Inr m) \<longleftrightarrow>
      (\<exists>team client key. apple_variable E ''TEAM_ID'' = Some team \<and>
        apple_variable E ''CLIENT_ID'' = Some client \<and> apple_variable E ''KEY_ID'' = Some key)"
    using envconfig_reads_iff [OF assms fields_ok(3,4)]
    by (simp add: appleCfg_fields_def apple_values split: option.split)
  have admin: "\<exists>m. bo_Process b '''' adminCfg_fields = Inr m"
    using envconfig_reads_iff [OF assms fields_ok(5,6)]
    by (simp add: adminCfg_fields_def other_values)
  have path: "text_of (m ''AdminPublicKeyPath'') = or_else (E ''ADMIN_PUBLIC_KEY_PATH'') ''/keys/admin/admin_public_key.pem''"
    if m: "bo_Process b '''' adminCfg_fields = Inr m" for m
    using envconfig_reads_value [OF assms fields_ok(5,6) m]
    by (simp add: adminCfg_fields_def other_values string_variable)
      (metis text_of.simps(1))
  have apple: "text_of (m ''SecretPath'') = or_else (apple_variable E ''SECRET_PATH'') ''AuthKey_39D5B439QV.p8'' \<and>
      apple_variable E ''TEAM_ID'' = Some (text_of (m ''TeamID'')) \<and>
      apple_variable E ''CLIENT_ID'' = Some (text_of (m ''ClientID'')) \<and>
      apple_variable E ''KEY_ID'' = Some (text_of (m ''KeyID''))"
    if m: "bo_Process b ''APPLE_AUTH'' appleCfg_fields = Inr m" for m
  proof -
    from ex m obtain team client key where v: "apple_variable E ''TEAM_ID'' = Some team"
      "apple_variable E ''CLIENT_ID'' = Some client" "apple_variable E ''KEY_ID'' = Some key" by blast
    have "Some (CText (or_else (apple_variable E ''SECRET_PATH'') ''AuthKey_39D5B439QV.p8'')) = m ''SecretPath''"
      "Some (CText team) = m ''TeamID''" "Some (CText client) = m ''ClientID''" "Some (CText key) = m ''KeyID''"
      using envconfig_reads_value [OF assms fields_ok(3,4) m] v
      by (simp_all add: appleCfg_fields_def apple_values string_variable)
    with v show ?thesis by (metis text_of.simps(1))
  qed
  show ?thesis
    unfolding auth_Config_def orPanic_Inr_iff
    using ex admin path apple by (auto 0 3)
qed

lemma openweather_Config_value:
  assumes "envconfig_reads E lvl (bo_Process b)"
  shows "openweather_Config b = Inr (or_else (E ''OPENWEATHER_APIKEY'') '''')"
proof -
  obtain m where m: "bo_Process b ''OPENWEATHER'' openweather_fields = Inr m"
    using envconfig_reads_iff [OF assms fields_ok(7,8), of "''OPENWEATHER''"]
    by (auto simp: openweather_fields_def weather_value)
  then have "m ''ApiKey'' = map_option CText (E ''OPENWEATHER_APIKEY'')"
    using envconfig_reads_value [OF assms fields_ok(7,8) m]
    by (simp add: openweather_fields_def weather_value string_variable)
  with m show ?thesis by (cases "E ''OPENWEATHER_APIKEY''") (simp_all add: openweather_Config_def)
qed

lemma Start_Inr_iff:
  "(\<exists>a. Start L (NewAuth cfg) = (Inr (), a)) \<longleftrightarrow>
     (\<exists>secret. GenerateClientSecret L (cfg_Secret cfg) (cfg_TeamID cfg) (cfg_ClientID cfg) (cfg_KeyID cfg) = (secret, None)) \<and>
     (\<exists>k. loadPublicKeyFromFile L (cfg_AdminPublicKeyPath cfg) = Inr k)"
  by (auto simp: Start_def NewAuth_def loadAdminKeys_def wrapE_def split: prod.splits option.splits sum.splits)

lemma LoadPrompt_Inr_iff:
  "LoadPrompt b a = (Inr (), s) \<longleftrightarrow>
     (\<exists>t. bo_ParseFS b ''prompt.gotpl'' ''context_scoring.gotpl'' = Inr t \<and>
       s = a\<lparr>ad_tmpl := Some (fst t), ad_contextTmpl := Some (snd t)\<rparr>)"
  by (auto simp: LoadPrompt_def split: sum.splits)

lemma if_Inl_Inr_iff: "(if c then Inl e else r) = Inr y \<longleftrightarrow> \<not> c \<and> r = Inr y"
  by simp

lemmas main_iffs = orPanic_Inr_iff checkErr_Inr_iff startOrPanic_Inr_iff LoadPrompt_Inr_iff if_Inl_Inr_iff

text \<open>\<open>main\<close> goes through all its calls.\<close>

lemma main_Inr_iff:
  "(\<exists>p. main b d = Inr p) \<longleftrightarrow>
     (\<exists>cfg authCfg.
        main_cfg b = Inr cfg \<and> PGDSN cfg \<noteq> '''' \<and> bo_sql_Open b ''pgx'' (PGDSN cfg) = None \<and>
        bo_PingContext b (PGDSN cfg) = None \<and> auth_Config b = Inr authCfg \<and>
        (\<exists>a. Start (sv_libs (x_sv (bo_env b))) (NewAuth authCfg) = (Inr (), a)) \<and>
        (\<exists>c. bo_ristretto_NewCache b 1000 100000000 64 = Inr c) \<and>
        (\<exists>k. bo_AuthKeyFromFile b (cfg_SecretPath authCfg) = Inr k) \<and>
        (\<exists>w. openweather_Config b = Inr w) \<and>
        (\<exists>t. bo_ParseFS b ''prompt.gotpl'' ''context_scoring.gotpl'' = Inr t))"
  unfolding main_def Let_def NewGenerator_def main_iffs alerter_Start_new by auto

lemma or_else_set: "or_else o1 '''' \<noteq> '''' \<and> P (or_else o1 '''') \<longleftrightarrow> (\<exists>v. o1 = Some v \<and> v \<noteq> '''' \<and> P v)"
  by (cases o1) auto

text \<open>What a start needs of the variables, the files and the services.\<close>

definition startable :: "(string \<rightharpoonup> string) \<Rightarrow> (string \<Rightarrow> gerr + nat) \<Rightarrow> ('f, 'c) boot \<Rightarrow> bool" where
  "startable E lvl b \<longleftrightarrow>
     (let L = sv_libs (x_sv (bo_env b));
          path = or_else (apple_variable E ''SECRET_PATH'') ''AuthKey_39D5B439QV.p8''
      in (\<exists>l. lvl (or_else (E ''LOG_LEVEL'') ''info'') = Inr l) \<and>
         (\<exists>dsn. E ''PG_DSN'' = Some dsn \<and> dsn \<noteq> '''' \<and>
            bo_sql_Open b ''pgx'' dsn = None \<and> bo_PingContext b dsn = None) \<and>
         (\<exists>team client key contents.
            apple_variable E ''TEAM_ID'' = Some team \<and> apple_variable E ''CLIENT_ID'' = Some client \<and>
            apple_variable E ''KEY_ID'' = Some key \<and> os_ReadFile L path = Inr contents \<and>
            (\<exists>secret. GenerateClientSecret L contents team client key = (secret, None))) \<and>
         (\<exists>k. bo_AuthKeyFromFile b path = Inr k) \<and>
         (\<exists>k. loadPublicKeyFromFile L
            (or_else (E ''ADMIN_PUBLIC_KEY_PATH'') ''/keys/admin/admin_public_key.pem'') = Inr k) \<and>
         (\<exists>c. bo_ristretto_NewCache b 1000 100000000 64 = Inr c) \<and>
         (\<exists>t. bo_ParseFS b ''prompt.gotpl'' ''context_scoring.gotpl'' = Inr t))"

lemma main_starts:
  assumes "envconfig_reads E lvl (bo_Process b)"
  shows "(\<exists>p. main b d = Inr p) \<longleftrightarrow> startable E lvl b"
  unfolding main_Inr_iff main_cfg_iff [OF assms] auth_Config_iff [OF assms]
    openweather_Config_value [OF assms] Start_Inr_iff startable_def Let_def
  by (cases "E ''PG_DSN''") auto

lemma main_keys:
  assumes "envconfig_reads E lvl (bo_Process b)" and "main b d = Inr p"
  shows "OpenAIToken (pr_cfg p) = or_else (E ''OPEN_AI_TOKEN'') ''''"
    and "ge_client (pr_ai p) = OpenAIToken (pr_cfg p)" and "ad_client (pr_adv p) = OpenAIToken (pr_cfg p)"
    and "ws_key (pr_weather p) = or_else (E ''OPENWEATHER_APIKEY'') ''''"
  using assms(2)
  unfolding main_def Let_def NewGenerator_def main_iffs main_cfg_iff [OF assms(1)]
    openweather_Config_value [OF assms(1)]
  by (auto simp: adviser_NewService_def weather_NewService_def)

text \<open>
  C39. The server starts exactly if the level decodes, \<open>PG_DSN\<close> is set and its database answers, the
  three Apple identifiers are set, with or without the prefix, the key file can be read and gives
  a client secret and a push key, the admin key file holds a public key, and the cache and the
  templates can be made. The keys of the language model and of the weather service are not
  among the conditions: without them the server starts with empty keys, although the fields
  are meant to be required.
\<close>

theorem server_starts_iff:
  assumes "envconfig_reads E lvl (bo_Process b)"
  shows "((\<exists>p. main b d = Inr p) \<longleftrightarrow> startable E lvl b) \<and>
    (\<forall>p. main b d = Inr p \<longrightarrow>
      ge_client (pr_ai p) = or_else (E ''OPEN_AI_TOKEN'') '''' \<and>
      ad_client (pr_adv p) = or_else (E ''OPEN_AI_TOKEN'') '''' \<and>
      ws_key (pr_weather p) = or_else (E ''OPENWEATHER_APIKEY'') '''')"
  using main_starts [OF assms] main_keys [OF assms] by simp

text \<open>
  C3. From the start of the process on: whatever the variables and files it started with, a
  consistent database stays consistent under whatever requests it serves, with any faults and panics:
  unique keys, references to existing rows, valid types of teas. If none of the requests has a
  token of the editor under the key file of its configuration, the teas, tags and categories are
  those it started on, and no change of them is announced.
\<close>

theorem served_since_start:
  assumes "main b d = Inr p" and "db_ok (sv_pg (x_sv (bo_env b))) d"
  shows "\<exists>h. process_run b d reqs = Inr (h, server_Run b) \<and>
    db_ok (sv_pg (x_sv (bo_env b))) (ap_db (ho_app h)) \<and>
    (parse_checks (sv_libs (x_sv (bo_env b))) sig_ok aud \<and>
     (\<forall>r \<in> set reqs. \<not> editor_token (sv_libs (x_sv (bo_env b))) (sv_auth (x_sv (pr_env p))) sig_ok aud
        (pr_authCfg p) (token_of r) (reading_of r)) \<longrightarrow>
     catalogue (ap_db (ho_app h)) = catalogue d \<and>
     tea_queued (ap_teas (ho_app h)) = [] \<and> tag_queued (ap_tags (ho_app h)) = [])"
proof -
  note started = main_started [OF assms(1)]
  let ?h = "serve_all (pr_env p) reqs (pr_host p)"
  have "app_sat (\<lambda>d'. catalogue d' = catalogue d) (\<lambda>q r. q = [] \<and> r = []) (ho_app ?h)"
    if "parse_checks (sv_libs (x_sv (bo_env b))) sig_ok aud"
      "\<forall>r \<in> set reqs. \<not> editor_token (sv_libs (x_sv (bo_env b))) (sv_auth (x_sv (pr_env p))) sig_ok aud
        (pr_authCfg p) (token_of r) (reading_of r)"
    using catalogue_kept [of "pr_env p" sig_ok aud "pr_authCfg p" "pr_host p" reqs] that started by simp
  moreover have "db_ok (sv_pg (x_sv (pr_env p))) (ap_db (ho_app ?h))"
    by (rule integrity_kept) (simp add: assms started)
  ultimately show ?thesis using assms(1) started by (simp add: process_run_def app_sat_def)
qed

section \<open>The printer\<close>

text \<open>\<open>cmd/qr_gen\<close>: the key of the PDF library has no tag for its name, and ten sheets are printed.\<close>

definition qr_gen_fields :: "struct_field list" where
  "qr_gen_fields = [string_field ''UnidocLicenseAPIKey'' [(''required'', ''true'')]]"

definition qr_gen_main ::
    "(string \<Rightarrow> struct_field list \<Rightarrow> gerr + (string \<rightharpoonup> cfg_value)) \<Rightarrow> ('q, 'b, 'i) print_libs \<Rightarrow>
       (nat \<Rightarrow> uuid) \<Rightarrow> 'i files \<Rightarrow> unit call \<times> 'i files" where
  "qr_gen_main proc L ids fs =
     (case proc '''' qr_gen_fields of
        Inl e \<Rightarrow> (Panic, fs)
      | Inr m \<Rightarrow>
          (case GenerateAndSave L (text_of (m ''UnidocLicenseAPIKey'')) ids 10 fs of
             (Ret (Inr _), fs') \<Rightarrow> (Ret (Inr ()), fs')
           | (_, fs') \<Rightarrow> (Panic, fs')))"

lemma qr_gen_key: "env_key '''' (string_field ''UnidocLicenseAPIKey'' t) = ''UNIDOCLICENSEAPIKEY''"
  if "map_of t ''envconfig'' = None"
  using that by (simp add: env_key_def string_variable upper_char_def char_of_eq_iff)

lemma qr_gen_value:
  "field_value E lvl '''' (string_field ''UnidocLicenseAPIKey'' [(''required'', ''true'')]) =
     (case E ''UNIDOCLICENSEAPIKEY'' of
        Some v \<Rightarrow> Inr (Some (CText v)) | None \<Rightarrow> Inl (ExtErr ''required key missing value''))"
  by (simp add: field_value_def env_variable_def qr_gen_key string_variable split: option.split)

text \<open>Without the key nothing is printed.\<close>

lemma qr_gen_needs_key:
  assumes "envconfig_reads E lvl proc" and "E ''UNIDOCLICENSEAPIKEY'' = None"
  shows "qr_gen_main proc L ids fs = (Panic, fs)"
proof -
  have "distinct (map fld_Name qr_gen_fields)" "set (map fld_Type qr_gen_fields) \<subseteq> {''string'', ''logrus.Level''}"
    by (simp_all add: qr_gen_fields_def string_field_def)
  from envconfig_reads_iff [OF assms(1) this, of "''''"] assms(2)
  have "\<nexists>m. proc '''' qr_gen_fields = Inr m" by (simp add: qr_gen_fields_def qr_gen_value)
  then show ?thesis by (cases "proc '''' qr_gen_fields") (auto simp: qr_gen_main_def)
qed

section \<open>An instance\<close>

definition env_Process ::
    "(string \<rightharpoonup> string) \<Rightarrow> (string \<Rightarrow> gerr + nat) \<Rightarrow> string \<Rightarrow> struct_field list \<Rightarrow> gerr + (string \<rightharpoonup> cfg_value)" where
  "env_Process E lvl pre fs =
     (case find (\<lambda>f. isl (field_value E lvl pre f)) fs of
        Some f \<Rightarrow> Inl (projl (field_value E lvl pre f))
      | None \<Rightarrow> Inr (\<lambda>n. Option.bind (find (\<lambda>f. fld_Name f = n) fs) (\<lambda>f. projr (field_value E lvl pre f))))"

lemma env_Process_reads: "envconfig_reads E lvl (env_Process E lvl)"
proof -
  have found: "find (\<lambda>g. fld_Name g = fld_Name f) fs = Some f"
    if "distinct (map fld_Name fs)" "f \<in> set fs" for f and fs :: "struct_field list"
    using that by (auto simp: find_Some_iff_distinct)
  show ?thesis
    unfolding envconfig_reads_def
  proof (intro allI impI)
    fix pre and fs :: "struct_field list"
    assume fs: "distinct (map fld_Name fs) \<and> set (map fld_Type fs) \<subseteq> {''string'', ''logrus.Level''}"
    show "case env_Process E lvl pre fs of
        Inl e \<Rightarrow> \<exists>f \<in> set fs. isl (field_value E lvl pre f)
      | Inr m \<Rightarrow> \<forall>f \<in> set fs. field_value E lvl pre f = Inr (m (fld_Name f))"
    proof (cases "find (\<lambda>f. isl (field_value E lvl pre f)) fs")
      case None
      then have "\<not> isl (field_value E lvl pre f)" if "f \<in> set fs" for f
        using that by (auto simp: find_None_iff)
      then show ?thesis using None fs found by (auto simp: env_Process_def)
    next
      case (Some f)
      then have "f \<in> set fs" "isl (field_value E lvl pre f)" by (auto simp: find_Some_iff)
      with Some show ?thesis by (auto simp: env_Process_def)
    qed
  qed
qed

definition demo_variables :: "string \<rightharpoonup> string" where
  "demo_variables =
     [''PG_DSN'' \<mapsto> ''postgres'', ''APPLE_AUTH_TEAM_ID'' \<mapsto> ''t'', ''CLIENT_ID'' \<mapsto> ''c'',
      ''APPLE_AUTH_KEY_ID'' \<mapsto> ''k'', ''APPLE_AUTH_SECRET_PATH'' \<mapsto> ''pem'', ''ADMIN_PUBLIC_KEY_PATH'' \<mapsto> ''path'']"

definition demo_level :: "string \<Rightarrow> gerr + nat" where
  "demo_level s = (if s = ''info'' then Inr 4 else Inl (ExtErr ''not a valid logrus Level''))"

definition demo_boot :: "(int, string \<rightharpoonup> string) boot" where
  "demo_boot =
     \<lparr>bo_Process = env_Process demo_variables demo_level, bo_sql_Open = (\<lambda>_ _. None),
      bo_PingContext = (\<lambda>_. None), bo_AuthKeyFromFile = (\<lambda>_. Inr (KeyPrivate demo_key)),
      bo_NewTokenClient = (\<lambda>_ _ _ _ _. Inr True), bo_ristretto_NewCache = (\<lambda>_ _ _. Inr Map.empty),
      bo_ParseFS = (\<lambda>_ _. Inr (\<lambda>_. Inr ''prompt'', \<lambda>_ _ _. Inr ''context'')),
      bo_ListenAndServe = (\<lambda>_. Some (ExtErr ''address in use'')), bo_env = demo_exec empty_ctx\<rparr>"

lemma demo_boot_reads: "envconfig_reads demo_variables demo_level (bo_Process demo_boot)"
  by (simp add: demo_boot_def env_Process_reads)

lemma demo_boot_libs: "sv_libs (x_sv (bo_env demo_boot)) = demo_lib" "sv_pg (x_sv (bo_env demo_boot)) = env0"
  by (simp_all add: demo_boot_def)

lemma demo_startable: "startable demo_variables demo_level demo_boot"
  unfolding startable_def Let_def demo_boot_libs
  by (simp add: demo_variables_def demo_level_def demo_boot_def apple_variable_def first_set_def
      loadPublicKeyFromFile_def demo_lib_def)

lemma demo_auth_Config: "auth_Config demo_boot = Inr demo_cfg"
  unfolding auth_Config_iff [OF demo_boot_reads] demo_boot_libs
  by (simp add: demo_variables_def apple_variable_def first_set_def demo_cfg_def demo_lib_def)

text \<open>A server without the keys of the two services; one of the identifiers is set without its prefix.\<close>

theorem server_starts_iff_witness:
  "\<exists>p. main demo_boot db_green_tag = Inr p \<and> ge_client (pr_ai p) = '''' \<and> ws_key (pr_weather p) = ''''"
  using server_starts_iff [OF demo_boot_reads, of db_green_tag] demo_startable
  by (auto simp: demo_variables_def)

lemma demo_main:
  obtains p where "main demo_boot d = Inr p" "pr_authCfg p = demo_cfg" "sv_auth (x_sv (pr_env p)) = demo_auth"
proof -
  obtain p where p: "main demo_boot d = Inr p" using main_starts [OF demo_boot_reads] demo_startable by blast
  note started = main_started [OF p]
  have cfg: "pr_authCfg p = demo_cfg" using started(1) by (simp add: demo_auth_Config)
  with started(2,3) demo_start show ?thesis by (intro that [OF p]) (simp_all add: demo_boot_libs)
qed

theorem served_since_start_witness:
  "\<exists>h. process_run demo_boot db_green_tag (demo_requests (MDeleteTag 2)) =
       Inr (h, Some (Wrap ''listen and serve'' (ExtErr ''address in use''))) \<and>
     db_ok env0 (ap_db (ho_app h)) \<and> catalogue (ap_db (ho_app h)) = catalogue db_green_tag"
proof -
  obtain p where p: "main demo_boot db_green_tag = Inr p" "pr_authCfg p = demo_cfg"
    "sv_auth (x_sv (pr_env p)) = demo_auth" by (rule demo_main)
  have "server_Run demo_boot = Some (Wrap ''listen and serve'' (ExtErr ''address in use''))"
    by (simp add: server_Run_def demo_boot_def)
  with served_since_start [OF p(1), of "demo_requests (MDeleteTag 2)" demo_sig demo_aud] p(2,3)
  show ?thesis
    using demo_parse_checks demo_not_editor demo_requests_tokens db_green_tag_ok
    by (auto simp: demo_boot_libs)
qed

end
