(* ===== verification/Arguments.thy ===== *)
theory Arguments
  imports Executor
begin

text \<open>
  From the document of a request to the operation that is executed: the generated decoders of
  arguments and input objects (\<open>field_..._args\<close>, \<open>unmarshalInput...\<close> and \<open>unmarshalN...\<close> of
  \<open>generated.go\<close>, the \<open>ID\<close> scalar of \<open>pkg/api/v2/common/uuid.go\<close>), and the \<open>switch field.Name\<close>
  of every object with its \<open>unknown field\<close> panic. The schema the library validates a document
  against is a table here. The lemmas show that a document that is valid against it is always
  dispatched, that every mutation of the model can be asked for over the wire, and that refused
  arguments leave everything as it was.
\<close>

section \<open>Raw values and the library\<close>

text \<open>
  What the decoders get is a Go \<open>any\<close>: \<open>nil\<close>, a string, a number, a boolean, a slice, a map, or
  another value.
\<close>

datatype go_any =
    ANil | AString string | AInt int | ABool bool | AOther string
  | AList "go_any list" | AMap "(string \<times> go_any) list"

type_synonym raw_args = "(string \<times> go_any) list"

text \<open>
  The functions of \<open>gqlgen/graphql\<close> and \<open>google/uuid\<close> the decoders call. \<open>ProcessArg\<close> answers the
  raw value \<open>ProcessArgField\<close> hands to the decoder it is given, or nothing where it answers the
  zero value; \<open>ErrorOnPath\<close> adds the path of an error, which is left out.
\<close>

record gql_libs =
  ProcessArg :: "raw_args \<Rightarrow> string \<Rightarrow> go_any option"
  UnmarshalString :: "go_any \<Rightarrow> gerr + string"
  UnmarshalInt :: "go_any \<Rightarrow> gerr + 64 word"
  UnmarshalTime :: "go_any \<Rightarrow> gerr + time"
  CoerceList :: "go_any \<Rightarrow> go_any list"
  gl_Parse :: "string \<Rightarrow> gerr + uuid"

definition bindC :: "'a call \<Rightarrow> ('a \<Rightarrow> 'b call) \<Rightarrow> 'b call" where
  "bindC m k =
     (case m of Panic \<Rightarrow> Panic | Ret (Inl e) \<Rightarrow> Ret (Inl e) | Ret (Inr x) \<Rightarrow> k x)"

lemma bindC_simps [simp]:
  "bindC Panic k = Panic" "bindC (Ret (Inl e)) k = Ret (Inl e)" "bindC (Ret (Inr x)) k = k x"
  by (simp_all add: bindC_def)

section \<open>Scalars\<close>

fun ID_UnmarshalGQL :: "gql_libs \<Rightarrow> go_any \<Rightarrow> gerr + uuid" where
  "ID_UnmarshalGQL lb (AString v) =
     (case gl_Parse lb v of Inl e \<Rightarrow> Inl (Wrap ''parse uuid'' e) | Inr u \<Rightarrow> Inr u)"
| "ID_UnmarshalGQL lb v = Inl (Wrap ''%T'' (Sentinel ErrNotString))"

definition unmarshalNID :: "gql_libs \<Rightarrow> go_any \<Rightarrow> uuid call" where
  "unmarshalNID lb v = Ret (ID_UnmarshalGQL lb v)"

fun unmarshal_IDs :: "gql_libs \<Rightarrow> go_any list \<Rightarrow> gerr + uuid list" where
  "unmarshal_IDs lb [] = Inr []"
| "unmarshal_IDs lb (v # vs) =
     (case ID_UnmarshalGQL lb v of
        Inl e \<Rightarrow> Inl e
      | Inr u \<Rightarrow> (case unmarshal_IDs lb vs of Inl e \<Rightarrow> Inl e | Inr us \<Rightarrow> Inr (u # us)))"

definition unmarshalNIDs :: "gql_libs \<Rightarrow> go_any \<Rightarrow> uuid list call" where
  "unmarshalNIDs lb v = Ret (unmarshal_IDs lb (CoerceList lb v))"

definition unmarshalNString :: "gql_libs \<Rightarrow> go_any \<Rightarrow> string call" where
  "unmarshalNString lb v = Ret (UnmarshalString lb v)"

definition unmarshalOString :: "gql_libs \<Rightarrow> go_any \<Rightarrow> string option call" where
  "unmarshalOString lb v =
     (if v = ANil then Ret (Inr None)
      else Ret (case UnmarshalString lb v of Inl e \<Rightarrow> Inl e | Inr s \<Rightarrow> Inr (Some s)))"

definition unmarshalNInt :: "gql_libs \<Rightarrow> go_any \<Rightarrow> 64 word call" where
  "unmarshalNInt lb v = Ret (UnmarshalInt lb v)"

definition unmarshalNDate :: "gql_libs \<Rightarrow> go_any \<Rightarrow> time call" where
  "unmarshalNDate lb v = Ret (UnmarshalTime lb v)"

definition unmarshalNType :: "go_any \<Rightarrow> GType call" where
  "unmarshalNType v = Ret (Type_UnmarshalGQL (case v of AString s \<Rightarrow> Some s | _ \<Rightarrow> None))"

lemmas unmarshal_defs =
  unmarshalNID_def unmarshalNIDs_def unmarshalNString_def unmarshalOString_def unmarshalNInt_def
  unmarshalNDate_def unmarshalNType_def

section \<open>Input objects\<close>

text \<open>
  The loop over the fields in order: a field that is not in the map keeps the zero value of the
  struct, the first refused value ends the loop. A value that is not a map panics.
\<close>

fun tea_data_loop :: "gql_libs \<Rightarrow> raw_args \<Rightarrow> string list \<Rightarrow> GTeaData \<Rightarrow> GTeaData call" where
  "tea_data_loop lb asMap [] it = Ret (Inr it)"
| "tea_data_loop lb asMap (k # ks) it =
     (case map_of asMap k of
        None \<Rightarrow> tea_data_loop lb asMap ks it
      | Some v \<Rightarrow>
          if k = ''name'' then
            bindC (unmarshalNString lb v) (\<lambda>data. tea_data_loop lb asMap ks (it\<lparr>gtd_Name := data\<rparr>))
          else if k = ''type'' then
            bindC (unmarshalNType v) (\<lambda>data. tea_data_loop lb asMap ks (it\<lparr>gtd_Type := data\<rparr>))
          else if k = ''description'' then
            bindC (unmarshalNString lb v) (\<lambda>data. tea_data_loop lb asMap ks (it\<lparr>gtd_Description := data\<rparr>))
          else tea_data_loop lb asMap ks it)"

fun unmarshalInputTeaData :: "gql_libs \<Rightarrow> go_any \<Rightarrow> GTeaData call" where
  "unmarshalInputTeaData lb (AMap obj) =
     tea_data_loop lb obj [''name'', ''type'', ''description'']
       \<lparr>gtd_Name = '''', gtd_Type = '''', gtd_Description = ''''\<rparr>"
| "unmarshalInputTeaData lb obj = Panic"

fun qr_data_loop :: "gql_libs \<Rightarrow> raw_args \<Rightarrow> string list \<Rightarrow> QRRecordData \<Rightarrow> QRRecordData call" where
  "qr_data_loop lb asMap [] it = Ret (Inr it)"
| "qr_data_loop lb asMap (k # ks) it =
     (case map_of asMap k of
        None \<Rightarrow> qr_data_loop lb asMap ks it
      | Some v \<Rightarrow>
          if k = ''tea'' then
            bindC (unmarshalNID lb v) (\<lambda>data. qr_data_loop lb asMap ks (it\<lparr>qrd_Tea := data\<rparr>))
          else if k = ''bowlingTemp'' then
            bindC (unmarshalNInt lb v) (\<lambda>data. qr_data_loop lb asMap ks (it\<lparr>qrd_BowlingTemp := data\<rparr>))
          else if k = ''expirationDate'' then
            bindC (unmarshalNDate lb v) (\<lambda>data. qr_data_loop lb asMap ks (it\<lparr>qrd_ExpirationDate := data\<rparr>))
          else qr_data_loop lb asMap ks it)"

fun unmarshalInputQRRecordData :: "gql_libs \<Rightarrow> go_any \<Rightarrow> QRRecordData call" where
  "unmarshalInputQRRecordData lb (AMap obj) =
     qr_data_loop lb obj [''tea'', ''bowlingTemp'', ''expirationDate'']
       \<lparr>qrd_Tea = uuid_Nil, qrd_BowlingTemp = 0, qrd_ExpirationDate = 0\<rparr>"
| "unmarshalInputQRRecordData lb obj = Panic"

section \<open>The arguments of the fields\<close>

definition arg_field :: "gql_libs \<Rightarrow> 'a \<Rightarrow> (go_any \<Rightarrow> 'a call) \<Rightarrow> raw_args \<Rightarrow> string \<Rightarrow> 'a call" where
  "arg_field lb zero unmarshal raw name =
     (case ProcessArg lb raw name of None \<Rightarrow> Ret (Inr zero) | Some v \<Rightarrow> unmarshal v)"

abbreviation "argID lb \<equiv> arg_field lb uuid_Nil (unmarshalNID lb)"
abbreviation "argIDs lb \<equiv> arg_field lb [] (unmarshalNIDs lb)"
abbreviation "argString lb \<equiv> arg_field lb '''' (unmarshalNString lb)"
abbreviation "argOString lb \<equiv> arg_field lb None (unmarshalOString lb)"
abbreviation "argTeaData lb \<equiv>
  arg_field lb \<lparr>gtd_Name = '''', gtd_Type = '''', gtd_Description = ''''\<rparr> (unmarshalInputTeaData lb)"
abbreviation "argQRData lb \<equiv>
  arg_field lb \<lparr>qrd_Tea = uuid_Nil, qrd_BowlingTemp = 0, qrd_ExpirationDate = 0\<rparr>
    (unmarshalInputQRRecordData lb)"

definition Mutation_addRecordsToCollection_args :: "gql_libs \<Rightarrow> raw_args \<Rightarrow> (uuid \<times> uuid list) call" where
  "Mutation_addRecordsToCollection_args lb raw =
     bindC (argID lb raw ''id'') (\<lambda>arg0.
     bindC (argIDs lb raw ''records'') (\<lambda>arg1. Ret (Inr (arg0, arg1))))"

definition Mutation_addTagToTea_args :: "gql_libs \<Rightarrow> raw_args \<Rightarrow> (uuid \<times> uuid) call" where
  "Mutation_addTagToTea_args lb raw =
     bindC (argID lb raw ''teaID'') (\<lambda>arg0.
     bindC (argID lb raw ''tagID'') (\<lambda>arg1. Ret (Inr (arg0, arg1))))"

definition Mutation_authApple_args :: "gql_libs \<Rightarrow> raw_args \<Rightarrow> (string \<times> uuid) call" where
  "Mutation_authApple_args lb raw =
     bindC (argString lb raw ''appleCode'') (\<lambda>arg0.
     bindC (argID lb raw ''deviceID'') (\<lambda>arg1. Ret (Inr (arg0, arg1))))"

definition Mutation_changeTagCategory_args :: "gql_libs \<Rightarrow> raw_args \<Rightarrow> (uuid \<times> uuid) call" where
  "Mutation_changeTagCategory_args lb raw =
     bindC (argID lb raw ''id'') (\<lambda>arg0.
     bindC (argID lb raw ''category'') (\<lambda>arg1. Ret (Inr (arg0, arg1))))"

definition Mutation_createCollection_args :: "gql_libs \<Rightarrow> raw_args \<Rightarrow> string call" where
  "Mutation_createCollection_args lb raw =
     argString lb raw ''name''"

definition Mutation_createTagCategory_args :: "gql_libs \<Rightarrow> raw_args \<Rightarrow> string call" where
  "Mutation_createTagCategory_args lb raw =
     argString lb raw ''name''"

definition Mutation_createTag_args :: "gql_libs \<Rightarrow> raw_args \<Rightarrow> (string \<times> string \<times> uuid) call" where
  "Mutation_createTag_args lb raw =
     bindC (argString lb raw ''name'') (\<lambda>arg0.
     bindC (argString lb raw ''color'') (\<lambda>arg1.
     bindC (argID lb raw ''category'') (\<lambda>arg2. Ret (Inr (arg0, arg1, arg2)))))"

definition Mutation_deleteCollection_args :: "gql_libs \<Rightarrow> raw_args \<Rightarrow> uuid call" where
  "Mutation_deleteCollection_args lb raw =
     argID lb raw ''id''"

definition Mutation_deleteRecordsFromCollection_args :: "gql_libs \<Rightarrow> raw_args \<Rightarrow> (uuid \<times> uuid list) call" where
  "Mutation_deleteRecordsFromCollection_args lb raw =
     bindC (argID lb raw ''id'') (\<lambda>arg0.
     bindC (argIDs lb raw ''records'') (\<lambda>arg1. Ret (Inr (arg0, arg1))))"

definition Mutation_deleteTagCategory_args :: "gql_libs \<Rightarrow> raw_args \<Rightarrow> uuid call" where
  "Mutation_deleteTagCategory_args lb raw =
     argID lb raw ''id''"

definition Mutation_deleteTagFromTea_args :: "gql_libs \<Rightarrow> raw_args \<Rightarrow> (uuid \<times> uuid) call" where
  "Mutation_deleteTagFromTea_args lb raw =
     bindC (argID lb raw ''teaID'') (\<lambda>arg0.
     bindC (argID lb raw ''tagID'') (\<lambda>arg1. Ret (Inr (arg0, arg1))))"

definition Mutation_deleteTag_args :: "gql_libs \<Rightarrow> raw_args \<Rightarrow> uuid call" where
  "Mutation_deleteTag_args lb raw =
     argID lb raw ''id''"

definition Mutation_deleteTea_args :: "gql_libs \<Rightarrow> raw_args \<Rightarrow> uuid call" where
  "Mutation_deleteTea_args lb raw =
     argID lb raw ''id''"

definition Mutation_newTea_args :: "gql_libs \<Rightarrow> raw_args \<Rightarrow> GTeaData call" where
  "Mutation_newTea_args lb raw =
     argTeaData lb raw ''tea''"

definition Mutation_registerDeviceToken_args :: "gql_libs \<Rightarrow> raw_args \<Rightarrow> (uuid \<times> string) call" where
  "Mutation_registerDeviceToken_args lb raw =
     bindC (argID lb raw ''deviceID'') (\<lambda>arg0.
     bindC (argString lb raw ''deviceToken'') (\<lambda>arg1. Ret (Inr (arg0, arg1))))"

definition Mutation_teaRecommendation_args :: "gql_libs \<Rightarrow> raw_args \<Rightarrow> (uuid \<times> string) call" where
  "Mutation_teaRecommendation_args lb raw =
     bindC (argID lb raw ''collectionID'') (\<lambda>arg0.
     bindC (argString lb raw ''feelings'') (\<lambda>arg1. Ret (Inr (arg0, arg1))))"

definition Mutation_updateTagCategory_args :: "gql_libs \<Rightarrow> raw_args \<Rightarrow> (uuid \<times> string) call" where
  "Mutation_updateTagCategory_args lb raw =
     bindC (argID lb raw ''id'') (\<lambda>arg0.
     bindC (argString lb raw ''name'') (\<lambda>arg1. Ret (Inr (arg0, arg1))))"

definition Mutation_updateTag_args :: "gql_libs \<Rightarrow> raw_args \<Rightarrow> (uuid \<times> string \<times> string) call" where
  "Mutation_updateTag_args lb raw =
     bindC (argID lb raw ''id'') (\<lambda>arg0.
     bindC (argString lb raw ''name'') (\<lambda>arg1.
     bindC (argString lb raw ''color'') (\<lambda>arg2. Ret (Inr (arg0, arg1, arg2)))))"

definition Mutation_updateTea_args :: "gql_libs \<Rightarrow> raw_args \<Rightarrow> (uuid \<times> GTeaData) call" where
  "Mutation_updateTea_args lb raw =
     bindC (argID lb raw ''id'') (\<lambda>arg0.
     bindC (argTeaData lb raw ''tea'') (\<lambda>arg1. Ret (Inr (arg0, arg1))))"

definition Mutation_writeToQR_args :: "gql_libs \<Rightarrow> raw_args \<Rightarrow> (uuid \<times> QRRecordData) call" where
  "Mutation_writeToQR_args lb raw =
     bindC (argID lb raw ''id'') (\<lambda>arg0.
     bindC (argQRData lb raw ''data'') (\<lambda>arg1. Ret (Inr (arg0, arg1))))"

definition Query_generateDescription_args :: "gql_libs \<Rightarrow> raw_args \<Rightarrow> string call" where
  "Query_generateDescription_args lb raw =
     argString lb raw ''name''"

definition Query_qrRecord_args :: "gql_libs \<Rightarrow> raw_args \<Rightarrow> uuid call" where
  "Query_qrRecord_args lb raw =
     argID lb raw ''id''"

definition Query_tag_args :: "gql_libs \<Rightarrow> raw_args \<Rightarrow> uuid call" where
  "Query_tag_args lb raw =
     argID lb raw ''id''"

definition Query_tagsCategories_args :: "gql_libs \<Rightarrow> raw_args \<Rightarrow> (string option) call" where
  "Query_tagsCategories_args lb raw =
     argOString lb raw ''name''"

definition Query_tea_args :: "gql_libs \<Rightarrow> raw_args \<Rightarrow> uuid call" where
  "Query_tea_args lb raw =
     argID lb raw ''id''"

definition Query_teas_args :: "gql_libs \<Rightarrow> raw_args \<Rightarrow> (string option) call" where
  "Query_teas_args lb raw =
     argOString lb raw ''prefix''"

definition Subscription_recommendTea_args :: "gql_libs \<Rightarrow> raw_args \<Rightarrow> (uuid \<times> string) call" where
  "Subscription_recommendTea_args lb raw =
     bindC (argID lb raw ''collectionID'') (\<lambda>arg0.
     bindC (argString lb raw ''feelings'') (\<lambda>arg1. Ret (Inr (arg0, arg1))))"

definition Subscription_startGenerateDescription_args :: "gql_libs \<Rightarrow> raw_args \<Rightarrow> string call" where
  "Subscription_startGenerateDescription_args lb raw =
     argString lb raw ''name''"

definition TagCategory_tags_args :: "gql_libs \<Rightarrow> raw_args \<Rightarrow> (string option) call" where
  "TagCategory_tags_args lb raw =
     argOString lb raw ''name''"

lemmas args_defs =
  Mutation_addRecordsToCollection_args_def Mutation_addTagToTea_args_def
  Mutation_authApple_args_def Mutation_changeTagCategory_args_def
  Mutation_createCollection_args_def Mutation_createTagCategory_args_def
  Mutation_createTag_args_def Mutation_deleteCollection_args_def
  Mutation_deleteRecordsFromCollection_args_def Mutation_deleteTagCategory_args_def
  Mutation_deleteTagFromTea_args_def Mutation_deleteTag_args_def Mutation_deleteTea_args_def
  Mutation_newTea_args_def Mutation_registerDeviceToken_args_def
  Mutation_teaRecommendation_args_def Mutation_updateTagCategory_args_def
  Mutation_updateTag_args_def Mutation_updateTea_args_def Mutation_writeToQR_args_def
  Query_generateDescription_args_def Query_qrRecord_args_def Query_tag_args_def
  Query_tagsCategories_args_def Query_tea_args_def Query_teas_args_def
  Subscription_recommendTea_args_def Subscription_startGenerateDescription_args_def
  TagCategory_tags_args_def

section \<open>Documents\<close>

text \<open>
  A selected field after fragments, directives and variables are resolved: its name, the name in
  the answer, its arguments and its own selection. The decoders below are the \<open>switch field.Name\<close>
  of the objects; \<open>None\<close> is the panic on a name the object does not have.
\<close>

datatype raw_field =
    RawField (rf_name: string) (rf_alias: string) (rf_args: raw_args) (rf_sub: "raw_field list")

fun raw_tag :: "gql_libs \<Rightarrow> raw_field \<Rightarrow> tag_sel option"
  and raw_cat :: "gql_libs \<Rightarrow> raw_field \<Rightarrow> cat_sel option" where
  "raw_tag lb (RawField n al args sub) =
     (if n = ''__typename'' then Some (TagTypename al)
      else if n = ''id'' then Some (TagID al)
      else if n = ''name'' then Some (TagName al)
      else if n = ''color'' then Some (TagColor al)
      else if n = ''category'' then map_option (TagCategoryOf al) (those (map (raw_cat lb) sub))
      else None)"
| "raw_cat lb (RawField n al args sub) =
     (if n = ''__typename'' then Some (CatTypename al)
      else if n = ''id'' then Some (CatID al)
      else if n = ''name'' then Some (CatName al)
      else if n = ''tags'' then
        map_option (CatTags al (TagCategory_tags_args lb args)) (those (map (raw_tag lb) sub))
      else None)"

fun raw_tea :: "gql_libs \<Rightarrow> raw_field \<Rightarrow> tea_sel option" where
  "raw_tea lb (RawField n al args sub) =
     (if n = ''__typename'' then Some (TeaTypename al)
      else if n = ''id'' then Some (TeaID al)
      else if n = ''name'' then Some (TeaName al)
      else if n = ''type'' then Some (TeaType al)
      else if n = ''description'' then Some (TeaDescription al)
      else if n = ''tags'' then map_option (TeaTags al) (those (map (raw_tag lb) sub))
      else None)"

fun raw_qr :: "gql_libs \<Rightarrow> raw_field \<Rightarrow> qr_sel option" where
  "raw_qr lb (RawField n al args sub) =
     (if n = ''__typename'' then Some (QrTypename al)
      else if n = ''id'' then Some (QrID al)
      else if n = ''tea'' then map_option (QrTea al) (those (map (raw_tea lb) sub))
      else if n = ''bowlingTemp'' then Some (QrBowlingTemp al)
      else if n = ''expirationDate'' then Some (QrExpirationDate al)
      else None)"

fun raw_coll :: "gql_libs \<Rightarrow> raw_field \<Rightarrow> coll_sel option" where
  "raw_coll lb (RawField n al args sub) =
     (if n = ''__typename'' then Some (CollTypename al)
      else if n = ''id'' then Some (CollID al)
      else if n = ''name'' then Some (CollName al)
      else if n = ''userID'' then Some (CollUserID al)
      else if n = ''records'' then map_option (CollRecords al) (those (map (raw_qr lb) sub))
      else None)"

fun raw_notif :: "raw_field \<Rightarrow> notif_sel option" where
  "raw_notif (RawField n al args sub) =
     (if n = ''__typename'' then Some (NotifTypename al)
      else if n = ''type'' then Some (NotifType al)
      else None)"

fun raw_user :: "gql_libs \<Rightarrow> raw_field \<Rightarrow> user_sel option" where
  "raw_user lb (RawField n al args sub) =
     (if n = ''__typename'' then Some (UserTypename al)
      else if n = ''tokenExpiredAt'' then Some (UserTokenExpiredAt al)
      else if n = ''collections'' then map_option (UserCollections al) (those (map (raw_coll lb) sub))
      else if n = ''notifications'' then map_option (UserNotifications al) (those (map raw_notif sub))
      else None)"

fun raw_session :: "raw_field \<Rightarrow> session_sel option" where
  "raw_session (RawField n al args sub) =
     (if n = ''__typename'' then Some (SessionTypename al)
      else if n = ''token'' then Some (SessionToken al)
      else if n = ''expiredAt'' then Some (SessionExpiredAt al)
      else None)"

fun raw_tod :: "gql_libs \<Rightarrow> raw_field \<Rightarrow> tod_sel option" where
  "raw_tod lb (RawField n al args sub) =
     (if n = ''__typename'' then Some (TodTypename al)
      else if n = ''tea'' then map_option (TodTea al) (those (map (raw_qr lb) sub))
      else if n = ''date'' then Some (TodDate al)
      else None)"

section \<open>Operations\<close>

text \<open>
  What the resolver of a root field obtains outside of the request: the identifier it makes, the
  fresh values of a sign-in, the clock, the answers of services, and the connection of a
  subscription.
\<close>

record 'f outside =
  os_id :: uuid
  os_signin :: signin
  os_now :: time
  os_world :: "'f world"
  os_ctx :: ctx_id
  os_chan :: chan_id

type_synonym 'f root_field = "'f outside \<times> raw_field"

definition mapC :: "('a \<Rightarrow> 'b) \<Rightarrow> 'a call \<Rightarrow> 'b call" where
  "mapC f m = bindC m (\<lambda>x. Ret (Inr (f x)))"

lemma mapC_simps [simp]:
  "mapC f Panic = Panic" "mapC f (Ret (Inl e)) = Ret (Inl e)" "mapC f (Ret (Inr x)) = Ret (Inr (f x))"
  by (simp_all add: mapC_def)

fun raw_query :: "gql_libs \<Rightarrow> 'f root_field \<Rightarrow> 'f query_sel option" where
  "raw_query lb (os, RawField n al args sub) =
     (if n = ''me'' then map_option (QMe al) (those (map (raw_user lb) sub))
      else if n = ''teas'' then map_option (QTeas al (Query_teas_args lb args)) (those (map (raw_tea lb) sub))
      else if n = ''tea'' then map_option (QTea al (Query_tea_args lb args)) (those (map (raw_tea lb) sub))
      else if n = ''generateDescription'' then
        Some (QGenerateDescription al (os_world os) (Query_generateDescription_args lb args))
      else if n = ''qrRecord'' then
        map_option (QQRRecord al (Query_qrRecord_args lb args)) (those (map (raw_qr lb) sub))
      else if n = ''tag'' then map_option (QTag al (Query_tag_args lb args)) (those (map (raw_tag lb) sub))
      else if n = ''tagsCategories'' then
        map_option (QTagsCategories al (Query_tagsCategories_args lb args)) (those (map (raw_cat lb) sub))
      else if n = ''collections'' then map_option (QCollections al) (those (map (raw_coll lb) sub))
      else if n = ''teaOfTheDay'' then
        map_option (QTeaOfTheDay al (os_world os)) (those (map (raw_tod lb) sub))
      else if n = ''__typename'' then Some (QTypename al)
      else None)"

text \<open>The selection below a field of the given type.\<close>

definition raw_sub :: "gql_libs \<Rightarrow> string \<Rightarrow> raw_field list \<Rightarrow> sub_sel option" where
  "raw_sub lb t sub =
     (if t = ''Session'' then map_option (\<lambda>l. no_sub\<lparr>for_session := l\<rparr>) (those (map raw_session sub))
      else if t = ''Tea'' then map_option (\<lambda>l. no_sub\<lparr>for_tea := l\<rparr>) (those (map (raw_tea lb) sub))
      else if t = ''QRRecord'' then map_option (\<lambda>l. no_sub\<lparr>for_qr := l\<rparr>) (those (map (raw_qr lb) sub))
      else if t = ''TagCategory'' then map_option (\<lambda>l. no_sub\<lparr>for_category := l\<rparr>) (those (map (raw_cat lb) sub))
      else if t = ''Tag'' then map_option (\<lambda>l. no_sub\<lparr>for_tag := l\<rparr>) (those (map (raw_tag lb) sub))
      else if t = ''Collection'' then map_option (\<lambda>l. no_sub\<lparr>for_collection := l\<rparr>) (those (map (raw_coll lb) sub))
      else Some no_sub)"

text \<open>The cases of \<open>_Mutation\<close>: the call of the resolver with its arguments, and the type of its result.\<close>

definition mutation_case :: "gql_libs \<Rightarrow> 'f outside \<Rightarrow> string \<Rightarrow> raw_args \<Rightarrow> ('f mutation call \<times> string) option" where
  "mutation_case lb os n args =
     (if n = ''authApple'' then
        Some (mapC (\<lambda>(code, dev). MAuthApple (os_signin os\<lparr>si_code := code\<rparr>) dev) (Mutation_authApple_args lb args), ''Session'')
      else if n = ''newTea'' then Some (mapC (MNewTea (os_id os)) (Mutation_newTea_args lb args), ''Tea'')
      else if n = ''updateTea'' then Some (mapC (\<lambda>(i, tea). MUpdateTea i tea) (Mutation_updateTea_args lb args), ''Tea'')
      else if n = ''addTagToTea'' then
        Some (mapC (\<lambda>(tea, tg). MAddTagToTea tea tg) (Mutation_addTagToTea_args lb args), ''Tea'')
      else if n = ''deleteTagFromTea'' then
        Some (mapC (\<lambda>(tea, tg). MDeleteTagFromTea tea tg) (Mutation_deleteTagFromTea_args lb args), ''Tea'')
      else if n = ''deleteTea'' then Some (mapC MDeleteTea (Mutation_deleteTea_args lb args), ''ID'')
      else if n = ''writeToQR'' then
        Some (mapC (\<lambda>(i, data). MWriteToQR i data) (Mutation_writeToQR_args lb args), ''QRRecord'')
      else if n = ''createTagCategory'' then
        Some (mapC (MCreateTagCategory (os_id os)) (Mutation_createTagCategory_args lb args), ''TagCategory'')
      else if n = ''updateTagCategory'' then
        Some (mapC (\<lambda>(i, name). MUpdateTagCategory i name) (Mutation_updateTagCategory_args lb args), ''TagCategory'')
      else if n = ''deleteTagCategory'' then
        Some (mapC MDeleteTagCategory (Mutation_deleteTagCategory_args lb args), ''ID'')
      else if n = ''createTag'' then
        Some (mapC (\<lambda>(name, color, cat). MCreateTag (os_id os) name color cat) (Mutation_createTag_args lb args), ''Tag'')
      else if n = ''updateTag'' then
        Some (mapC (\<lambda>(i, name, color). MUpdateTag i name color) (Mutation_updateTag_args lb args), ''Tag'')
      else if n = ''changeTagCategory'' then
        Some (mapC (\<lambda>(i, cat). MChangeTagCategory i cat) (Mutation_changeTagCategory_args lb args), ''Tag'')
      else if n = ''deleteTag'' then Some (mapC MDeleteTag (Mutation_deleteTag_args lb args), ''ID'')
      else if n = ''createCollection'' then
        Some (mapC (MCreateCollection (os_id os)) (Mutation_createCollection_args lb args), ''Collection'')
      else if n = ''addRecordsToCollection'' then
        Some (mapC (\<lambda>(i, recs). MAddRecords i recs) (Mutation_addRecordsToCollection_args lb args), ''Collection'')
      else if n = ''deleteRecordsFromCollection'' then
        Some (mapC (\<lambda>(i, recs). MDeleteRecords i recs) (Mutation_deleteRecordsFromCollection_args lb args), ''Collection'')
      else if n = ''deleteCollection'' then
        Some (mapC MDeleteCollection (Mutation_deleteCollection_args lb args), ''ID'')
      else if n = ''registerDeviceToken'' then
        Some (mapC (\<lambda>(dev, token). MRegisterDeviceToken dev token) (Mutation_registerDeviceToken_args lb args), ''Boolean'')
      else if n = ''send'' then Some (Ret (Inr (MSend (os_now os))), ''Boolean'')
      else if n = ''teaRecommendation'' then
        Some (mapC (\<lambda>(i, feelings). MTeaRecommendation (os_world os) i feelings)
                (Mutation_teaRecommendation_args lb args), ''String'')
      else None)"

fun raw_mutation :: "gql_libs \<Rightarrow> 'f root_field \<Rightarrow> 'f mutation_sel option" where
  "raw_mutation lb (os, RawField n al args sub) =
     (if n = ''__typename'' then Some (MTypename al)
      else
        (case mutation_case lb os n args of
           None \<Rightarrow> None
         | Some (c, t) \<Rightarrow> map_option (MCall al c) (raw_sub lb t sub)))"


fun raw_subscription :: "gql_libs \<Rightarrow> 'f root_field \<Rightarrow> ('f subscription \<times> sub_sel) option" where
  "raw_subscription lb (os, RawField n al args sub) =
     (let c = os_ctx os; ch = os_chan os;
          on = (\<lambda>t s. map_option (Pair s) (raw_sub lb t sub))
      in if n = ''onCreateTea'' then on ''Tea'' (SOnCreateTea c ch)
         else if n = ''onUpdateTea'' then on ''Tea'' (SOnUpdateTea c ch)
         else if n = ''onDeleteTea'' then on ''ID'' (SOnDeleteTea c ch)
         else if n = ''onCreateTagCategory'' then on ''TagCategory'' (SOnCreateTagCategory c ch)
         else if n = ''onUpdateTagCategory'' then on ''TagCategory'' (SOnUpdateTagCategory c ch)
         else if n = ''onDeleteTagCategory'' then on ''ID'' (SOnDeleteTagCategory c ch)
         else if n = ''onCreateTag'' then on ''Tag'' (SOnCreateTag c ch)
         else if n = ''onUpdateTag'' then on ''Tag'' (SOnUpdateTag c ch)
         else if n = ''onDeleteTag'' then on ''ID'' (SOnDeleteTag c ch)
         else if n = ''onAddTagToTea'' then on ''Tea'' (SOnAddTagToTea c ch)
         else if n = ''onDeleteTagFromTea'' then on ''Tea'' (SOnDeleteTagFromTea c ch)
         else if n = ''startGenerateDescription'' then
           on ''String'' (SStartGenerateDescription (Subscription_startGenerateDescription_args lb args))
         else if n = ''recommendTea'' then
           on ''String'' (SRecommendTea (os_world os) (Subscription_recommendTea_args lb args))
         else None)"

datatype 'f document =
    QueryDoc "'f root_field list" | MutationDoc "'f root_field list" | SubscriptionDoc "'f root_field list"

text \<open>A subscription of several fields is refused before their names are looked at.\<close>

definition dispatch :: "gql_libs \<Rightarrow> 'f document \<Rightarrow> 'f operation option" where
  "dispatch lb doc =
     (case doc of
        QueryDoc fs \<Rightarrow> map_option Query (those (map (raw_query lb) fs))
      | MutationDoc fs \<Rightarrow> map_option Mutation (those (map (raw_mutation lb) fs))
      | SubscriptionDoc [f] \<Rightarrow> map_option (\<lambda>(s, _). Subscription [s]) (raw_subscription lb f)
      | SubscriptionDoc fs \<Rightarrow> Some (Subscription []))"

section \<open>The schema\<close>

datatype type_ref = Named string | ListOf type_ref | Required type_ref

abbreviation "one n \<equiv> Required (Named n)"
abbreviation "many n \<equiv> Required (ListOf (Required (Named n)))"

text \<open>The types of \<open>schema.graphql\<close> with their fields.\<close>

definition schema :: "(string \<times> (string \<times> type_ref) list) list" where
  "schema =
    [
     (''Query'',
       [(''me'', Named ''User''), (''teas'', many ''Tea''), (''tea'', Named ''Tea''),
        (''generateDescription'', one ''String''), (''qrRecord'', Named ''QRRecord''),
        (''tag'', Named ''Tag''), (''tagsCategories'', many ''TagCategory''),
        (''collections'', many ''Collection''), (''teaOfTheDay'', Named ''TeaOfTheDay'')]),
     (''Mutation'',
       [(''authApple'', one ''Session''), (''newTea'', one ''Tea''),
        (''updateTea'', one ''Tea''), (''addTagToTea'', one ''Tea''),
        (''deleteTagFromTea'', one ''Tea''), (''deleteTea'', one ''ID''),
        (''writeToQR'', one ''QRRecord''), (''createTagCategory'', one ''TagCategory''),
        (''updateTagCategory'', one ''TagCategory''), (''deleteTagCategory'', one ''ID''),
        (''createTag'', one ''Tag''), (''updateTag'', one ''Tag''),
        (''changeTagCategory'', one ''Tag''), (''deleteTag'', one ''ID''),
        (''createCollection'', one ''Collection''),
        (''addRecordsToCollection'', one ''Collection''),
        (''deleteRecordsFromCollection'', one ''Collection''),
        (''deleteCollection'', one ''ID''), (''registerDeviceToken'', one ''Boolean''),
        (''send'', one ''Boolean''), (''teaRecommendation'', one ''String'')]),
     (''TeaOfTheDay'',
       [(''tea'', one ''QRRecord''), (''date'', one ''Date'')]),
     (''Subscription'',
       [(''onCreateTea'', one ''Tea''), (''onUpdateTea'', one ''Tea''),
        (''onDeleteTea'', one ''ID''), (''onCreateTagCategory'', one ''TagCategory''),
        (''onUpdateTagCategory'', one ''TagCategory''), (''onDeleteTagCategory'', one ''ID''),
        (''onCreateTag'', one ''Tag''), (''onUpdateTag'', one ''Tag''),
        (''onDeleteTag'', one ''ID''), (''onAddTagToTea'', one ''Tea''),
        (''onDeleteTagFromTea'', one ''Tea''), (''startGenerateDescription'', one ''String''),
        (''recommendTea'', one ''String'')]),
     (''TagCategory'',
       [(''id'', one ''ID''), (''name'', one ''String''), (''tags'', many ''Tag'')]),
     (''QRRecord'',
       [(''id'', one ''ID''), (''tea'', one ''Tea''), (''bowlingTemp'', one ''Int''),
        (''expirationDate'', one ''Date'')]),
     (''Tea'',
       [(''id'', one ''ID''), (''name'', one ''String''), (''type'', one ''Type''),
        (''description'', one ''String''), (''tags'', many ''Tag'')]),
     (''Tag'',
       [(''id'', one ''ID''), (''name'', one ''String''), (''color'', one ''String''),
        (''category'', one ''TagCategory'')]),
     (''Collection'',
       [(''id'', one ''ID''), (''name'', one ''String''), (''userID'', one ''ID''),
        (''records'', many ''QRRecord'')]),
     (''Session'',
       [(''token'', one ''String''), (''expiredAt'', one ''Date'')]),
     (''User'',
       [(''tokenExpiredAt'', one ''Date''), (''collections'', many ''Collection''),
        (''notifications'', many ''Notification'')]),
     (''Notification'',
       [(''type'', one ''NotificationType'')])]"

definition object_type :: "string \<Rightarrow> bool" where
  "object_type n \<longleftrightarrow> map_of schema n \<noteq> None"

definition field_type :: "string \<Rightarrow> string \<Rightarrow> type_ref option" where
  "field_type n f =
     (if f = ''__typename'' then Some (one ''String'')
      else case map_of schema n of None \<Rightarrow> None | Some fs \<Rightarrow> map_of fs f)"

fun base_type :: "type_ref \<Rightarrow> string" where
  "base_type (Named n) = n"
| "base_type (ListOf t) = base_type t"
| "base_type (Required t) = base_type t"

text \<open>
  A field is valid on a type that has it, with a selection exactly where its type is an object.
  The documents here are those that ask for data: \<open>__schema\<close> and \<open>__type\<close>, which the schema also
  gives \<open>Query\<close>, answer with objects of the library and are the subject of \<open>Introspection\<close>
  (\<open>ec_Query\<close> executes both kinds side by side), and a raw field carries no \<open>@defer\<close>, the subject
  of \<open>Deferral\<close>.
\<close>

fun conforms :: "string \<Rightarrow> raw_field \<Rightarrow> bool" where
  "conforms n (RawField f al args sub) =
     (case field_type n f of
        None \<Rightarrow> False
      | Some t \<Rightarrow>
          if object_type (base_type t) then sub \<noteq> [] \<and> (\<forall>s \<in> set sub. conforms (base_type t) s)
          else sub = [])"

definition valid_document :: "'f document \<Rightarrow> bool" where
  "valid_document doc =
     (case doc of
        QueryDoc fs \<Rightarrow> list_all (conforms ''Query'') (map snd fs)
      | MutationDoc fs \<Rightarrow> list_all (conforms ''Mutation'') (map snd fs)
      | SubscriptionDoc fs \<Rightarrow>
          length fs = 1 \<and> list_all (\<lambda>f. conforms ''Subscription'' f \<and> rf_name f \<noteq> ''__typename'') (map snd fs))"

text \<open>What the schema allows as the value of a field with a given selection.\<close>

definition scalar_ok :: "string \<Rightarrow> gql_value \<Rightarrow> bool" where
  "scalar_ok n v =
     (case v of
        GText s \<Rightarrow> n \<in> {''ID'', ''String'', ''Date'', ''Type'', ''NotificationType''}
      | GInt i \<Rightarrow> n = ''Int''
      | GBoolean b \<Rightarrow> n = ''Boolean''
      | _ \<Rightarrow> False)"

function value_ok :: "type_ref \<Rightarrow> raw_field list \<Rightarrow> gql_value \<Rightarrow> bool" where
  "value_ok (Required t) sub v = (v \<noteq> GNull \<and> value_ok t sub v)"
| "value_ok (ListOf t) sub v =
     (case v of GNull \<Rightarrow> True | GList vs \<Rightarrow> \<forall>w \<in> set vs. value_ok t sub w | _ \<Rightarrow> False)"
| "value_ok (Named n) sub v =
     (case v of
        GNull \<Rightarrow> True
      | GObject kvs \<Rightarrow>
          object_type n \<and> length kvs = length sub \<and>
          (\<forall>p \<in> set (zip sub kvs).
             fst (snd p) = rf_alias (fst p) \<and>
             (case field_type n (rf_name (fst p)) of
                None \<Rightarrow> False
              | Some t \<Rightarrow> value_ok t (rf_sub (fst p)) (snd (snd p))))
      | _ \<Rightarrow> scalar_ok n v)"
  by pat_completeness auto
termination
proof (relation "measures [\<lambda>(t, sub, v). size v, \<lambda>(t, sub, v). size t]", goal_cases)
  case (4 n sub v kvs p t)
  then have "snd p \<in> set kvs" by (metis prod.collapse set_zip_rightD)
  then have "size (snd (snd p)) < size (GObject kvs)"
    by (induction kvs) (auto simp: size_prod_def)
  with 4 show ?case by simp
qed (auto simp: less_Suc_eq_le intro: size_list_estimation')

section \<open>Valid documents are dispatched\<close>

lemma those_map: "those (map f xs) = Some ys \<longleftrightarrow> list_all2 (\<lambda>x y. f x = Some y) xs ys"
  by (induction xs arbitrary: ys) (auto simp: list_all2_Cons1 split: option.splits)

lemma those_map_Some: "\<forall>x \<in> set xs. f x \<noteq> None \<Longrightarrow> \<exists>ys. those (map f xs) = Some ys"
  by (induction xs) auto

lemma object_type_names [simp]:
  "object_type ''Query''" "object_type ''Mutation''" "object_type ''Subscription''"
  "object_type ''TeaOfTheDay''" "object_type ''TagCategory''" "object_type ''QRRecord''"
  "object_type ''Tea''" "object_type ''Tag''" "object_type ''Collection''" "object_type ''Session''"
  "object_type ''User''" "object_type ''Notification''"
  "\<not> object_type ''ID''" "\<not> object_type ''String''" "\<not> object_type ''Date''" "\<not> object_type ''Int''"
  "\<not> object_type ''Boolean''" "\<not> object_type ''Type''" "\<not> object_type ''NotificationType''"
  by (simp_all add: object_type_def schema_def)

lemma field_type_of:
  "field_type ''Tag'' f =
     map_of [(''__typename'', one ''String''), (''id'', one ''ID''), (''name'', one ''String''),
       (''color'', one ''String''), (''category'', one ''TagCategory'')] f"
  "field_type ''TagCategory'' f =
     map_of [(''__typename'', one ''String''), (''id'', one ''ID''), (''name'', one ''String''), (''tags'', many ''Tag'')] f"
  "field_type ''Tea'' f =
     map_of [(''__typename'', one ''String''), (''id'', one ''ID''), (''name'', one ''String''), (''type'', one ''Type''),
       (''description'', one ''String''), (''tags'', many ''Tag'')] f"
  "field_type ''QRRecord'' f =
     map_of [(''__typename'', one ''String''), (''id'', one ''ID''), (''tea'', one ''Tea''), (''bowlingTemp'', one ''Int''),
       (''expirationDate'', one ''Date'')] f"
  "field_type ''Collection'' f =
     map_of [(''__typename'', one ''String''), (''id'', one ''ID''), (''name'', one ''String''), (''userID'', one ''ID''),
       (''records'', many ''QRRecord'')] f"
  "field_type ''Notification'' f =
     map_of [(''__typename'', one ''String''), (''type'', one ''NotificationType'')] f"
  "field_type ''User'' f =
     map_of [(''__typename'', one ''String''), (''tokenExpiredAt'', one ''Date''),
       (''collections'', many ''Collection''), (''notifications'', many ''Notification'')] f"
  "field_type ''Session'' f =
     map_of [(''__typename'', one ''String''), (''token'', one ''String''), (''expiredAt'', one ''Date'')] f"
  "field_type ''TeaOfTheDay'' f =
     map_of [(''__typename'', one ''String''), (''tea'', one ''QRRecord''), (''date'', one ''Date'')] f"
  by (simp_all add: field_type_def schema_def)

text \<open>One step of the walk: a selection below a field of an object type is dispatched as a whole.\<close>

lemma conforms_sub:
  assumes "conforms n (RawField f al args sub)" and "field_type n f = Some t" and "base_type t = m"
    and "object_type m" and "\<And>s. s \<in> set sub \<Longrightarrow> conforms m s \<Longrightarrow> g s \<noteq> None"
  shows "\<exists>ys. those (map g sub) = Some ys"
  using assms by (intro those_map_Some) auto

lemma raw_tag_valid:
  "conforms ''Tag'' f \<Longrightarrow> raw_tag lb f \<noteq> None"
  "conforms ''TagCategory'' f' \<Longrightarrow> raw_cat lb f' \<noteq> None"
proof (induction lb f and lb f' rule: raw_tag_raw_cat.induct)
  case (1 lb n al args sub)
  have "\<exists>ys. those (map (raw_cat lb) sub) = Some ys" if "n = ''category''"
    using that 1 by (intro conforms_sub [OF 1(2)]) (auto simp: field_type_of)
  with 1(2) show ?case by (auto simp: field_type_of split: if_splits)
next
  case (2 lb n al args sub)
  have "\<exists>ys. those (map (raw_tag lb) sub) = Some ys" if "n = ''tags''"
    using that 2 by (intro conforms_sub [OF 2(2)]) (auto simp: field_type_of)
  with 2(2) show ?case by (auto simp: field_type_of split: if_splits)
qed

lemma raw_tea_valid: "conforms ''Tea'' f \<Longrightarrow> raw_tea lb f \<noteq> None"
proof (induction lb f rule: raw_tea.induct)
  case (1 lb n al args sub)
  have "\<exists>ys. those (map (raw_tag lb) sub) = Some ys" if "n = ''tags''"
    using that by (intro conforms_sub [OF 1]) (auto simp: field_type_of raw_tag_valid [unfolded not_None_eq])
  with 1 show ?case by (auto simp: field_type_of split: if_splits)
qed

lemma raw_qr_valid: "conforms ''QRRecord'' f \<Longrightarrow> raw_qr lb f \<noteq> None"
proof (induction lb f rule: raw_qr.induct)
  case (1 lb n al args sub)
  have "\<exists>ys. those (map (raw_tea lb) sub) = Some ys" if "n = ''tea''"
    using that by (intro conforms_sub [OF 1]) (auto simp: field_type_of raw_tea_valid [unfolded not_None_eq])
  with 1 show ?case by (auto simp: field_type_of split: if_splits)
qed

lemma raw_coll_valid: "conforms ''Collection'' f \<Longrightarrow> raw_coll lb f \<noteq> None"
proof (induction lb f rule: raw_coll.induct)
  case (1 lb n al args sub)
  have "\<exists>ys. those (map (raw_qr lb) sub) = Some ys" if "n = ''records''"
    using that by (intro conforms_sub [OF 1]) (auto simp: field_type_of raw_qr_valid [unfolded not_None_eq])
  with 1 show ?case by (auto simp: field_type_of split: if_splits)
qed

lemma raw_leaf_valid:
  "conforms ''Notification'' f \<Longrightarrow> raw_notif f \<noteq> None"
  "conforms ''Session'' f \<Longrightarrow> raw_session f \<noteq> None"
  by (cases f; auto simp: field_type_of split: if_splits)+

lemma raw_user_valid: "conforms ''User'' f \<Longrightarrow> raw_user lb f \<noteq> None"
proof (induction lb f rule: raw_user.induct)
  case (1 lb n al args sub)
  have "\<exists>ys. those (map (raw_coll lb) sub) = Some ys" if "n = ''collections''"
    using that by (intro conforms_sub [OF 1]) (auto simp: field_type_of raw_coll_valid [unfolded not_None_eq])
  moreover have "\<exists>ys. those (map raw_notif sub) = Some ys" if "n = ''notifications''"
    using that by (intro conforms_sub [OF 1]) (auto simp: field_type_of raw_leaf_valid [unfolded not_None_eq])
  ultimately show ?case using 1 by (auto simp: field_type_of split: if_splits)
qed

lemma raw_tod_valid: "conforms ''TeaOfTheDay'' f \<Longrightarrow> raw_tod lb f \<noteq> None"
proof (induction lb f rule: raw_tod.induct)
  case (1 lb n al args sub)
  have "\<exists>ys. those (map (raw_qr lb) sub) = Some ys" if "n = ''tea''"
    using that by (intro conforms_sub [OF 1]) (auto simp: field_type_of raw_qr_valid [unfolded not_None_eq])
  with 1 show ?case by (auto simp: field_type_of split: if_splits)
qed

lemmas raw_valid =
  raw_tag_valid [unfolded not_None_eq] raw_tea_valid [unfolded not_None_eq]
  raw_qr_valid [unfolded not_None_eq] raw_coll_valid [unfolded not_None_eq]
  raw_leaf_valid [unfolded not_None_eq] raw_user_valid [unfolded not_None_eq]
  raw_tod_valid [unfolded not_None_eq]

lemma those_sub:
  assumes "\<forall>s \<in> set sub. conforms t s" and "\<And>s. conforms t s \<Longrightarrow> \<exists>y. g s = Some y"
  shows "\<exists>ys. those (map g sub) = Some ys"
  using assms by (intro those_map_Some) auto

lemma raw_sub_valid:
  assumes "if object_type t then \<forall>s \<in> set sub. conforms t s else True"
  shows "\<exists>s. raw_sub lb t sub = Some s"
proof -
  consider "t = ''Session''" | "t = ''Tea''" | "t = ''QRRecord''" | "t = ''TagCategory''" | "t = ''Tag''"
    | "t = ''Collection''"
    | "t \<noteq> ''Session''" "t \<noteq> ''Tea''" "t \<noteq> ''QRRecord''" "t \<noteq> ''TagCategory''" "t \<noteq> ''Tag''" "t \<noteq> ''Collection''"
    by metis
  then show ?thesis
  proof cases
    case 1
    with assms have "\<exists>ys. those (map raw_session sub) = Some ys" by (intro those_sub) (auto simp: raw_valid)
    with 1 show ?thesis by (auto simp: raw_sub_def)
  next
    case 2
    with assms have "\<exists>ys. those (map (raw_tea lb) sub) = Some ys" by (intro those_sub) (auto simp: raw_valid)
    with 2 show ?thesis by (auto simp: raw_sub_def)
  next
    case 3
    with assms have "\<exists>ys. those (map (raw_qr lb) sub) = Some ys" by (intro those_sub) (auto simp: raw_valid)
    with 3 show ?thesis by (auto simp: raw_sub_def)
  next
    case 4
    with assms have "\<exists>ys. those (map (raw_cat lb) sub) = Some ys" by (intro those_sub) (auto simp: raw_valid)
    with 4 show ?thesis by (auto simp: raw_sub_def)
  next
    case 5
    with assms have "\<exists>ys. those (map (raw_tag lb) sub) = Some ys" by (intro those_sub) (auto simp: raw_valid)
    with 5 show ?thesis by (auto simp: raw_sub_def)
  next
    case 6
    with assms have "\<exists>ys. those (map (raw_coll lb) sub) = Some ys" by (intro those_sub) (auto simp: raw_valid)
    with 6 show ?thesis by (auto simp: raw_sub_def)
  qed (simp add: raw_sub_def)
qed

lemma root_fields:
  "field_type ''Query'' f =
     map_of [(''__typename'', one ''String''), (''me'', Named ''User''), (''teas'', many ''Tea''), (''tea'', Named ''Tea''),
       (''generateDescription'', one ''String''), (''qrRecord'', Named ''QRRecord''), (''tag'', Named ''Tag''),
       (''tagsCategories'', many ''TagCategory''), (''collections'', many ''Collection''),
       (''teaOfTheDay'', Named ''TeaOfTheDay'')] f"
  by (simp add: field_type_def schema_def)

lemma mutation_case_type:
  "field_type ''Mutation'' n = Some t \<Longrightarrow> n \<noteq> ''__typename'' \<Longrightarrow>
     \<exists>c. mutation_case lb os n args = Some (c, base_type t) \<and> t = one (base_type t)"
  by (auto simp: field_type_def schema_def mutation_case_def split: if_splits)

lemma raw_query_valid: "conforms ''Query'' (snd f) \<Longrightarrow> \<exists>y. raw_query lb f = Some y"
proof (induction lb f rule: raw_query.induct)
  case (1 lb os n al args sub)
  then have v: "conforms ''Query'' (RawField n al args sub)" by simp
  have me: "\<exists>ys. those (map (raw_user lb) sub) = Some ys" if "n = ''me''"
    using v that by (intro those_sub) (auto simp: root_fields raw_valid)
  have teas: "\<exists>ys. those (map (raw_tea lb) sub) = Some ys" if "n = ''teas'' \<or> n = ''tea''"
    using v that by (intro those_sub) (auto simp: root_fields raw_valid)
  have qr: "\<exists>ys. those (map (raw_qr lb) sub) = Some ys" if "n = ''qrRecord''"
    using v that by (intro those_sub) (auto simp: root_fields raw_valid)
  have tag: "\<exists>ys. those (map (raw_tag lb) sub) = Some ys" if "n = ''tag''"
    using v that by (intro those_sub) (auto simp: root_fields raw_valid)
  have cats: "\<exists>ys. those (map (raw_cat lb) sub) = Some ys" if "n = ''tagsCategories''"
    using v that by (intro those_sub) (auto simp: root_fields raw_valid)
  have cols: "\<exists>ys. those (map (raw_coll lb) sub) = Some ys" if "n = ''collections''"
    using v that by (intro those_sub) (auto simp: root_fields raw_valid)
  have tod: "\<exists>ys. those (map (raw_tod lb) sub) = Some ys" if "n = ''teaOfTheDay''"
    using v that by (intro those_sub) (auto simp: root_fields raw_valid)
  from v have "n \<in> {''__typename'', ''me'', ''teas'', ''tea'', ''generateDescription'', ''qrRecord'', ''tag'',
      ''tagsCategories'', ''collections'', ''teaOfTheDay''}"
    by (auto simp: root_fields split: if_splits)
  with me teas qr tag cats cols tod show ?case by auto
qed

lemma raw_mutation_valid:
  assumes "conforms ''Mutation'' (snd f)"
  shows "\<exists>y. raw_mutation lb f = Some y"
proof (cases f)
  case (Pair os r)
  obtain n al args sub where r: "r = RawField n al args sub" by (cases r)
  show ?thesis
  proof (cases "n = ''__typename''")
    case False
    obtain t where t: "field_type ''Mutation'' n = Some t"
      and s: "if object_type (base_type t) then \<forall>s \<in> set sub. conforms (base_type t) s else True"
      using assms by (auto simp: Pair r split: option.splits if_splits)
    from mutation_case_type [OF t False] obtain c where "mutation_case lb os n args = Some (c, base_type t)"
      by blast
    with raw_sub_valid [OF s, of lb] False show ?thesis by (auto simp: Pair r)
  qed (simp add: Pair r)
qed

lemma subscription_fields:
  "field_type ''Subscription'' f =
     map_of ((''__typename'', one ''String'') # the (map_of schema ''Subscription'')) f"
  by (simp add: field_type_def schema_def)

lemma raw_subscription_valid:
  assumes "conforms ''Subscription'' (snd f)" and "rf_name (snd f) \<noteq> ''__typename''"
  shows "\<exists>y. raw_subscription lb f = Some y"
proof (cases f)
  case (Pair os r)
  obtain n al args sub where r: "r = RawField n al args sub" by (cases r)
  obtain t where t: "field_type ''Subscription'' n = Some t"
    and s: "if object_type (base_type t) then \<forall>s \<in> set sub. conforms (base_type t) s else True"
    using assms by (auto simp: Pair r split: option.splits if_splits)
  from raw_sub_valid [OF s, of lb] t assms(2) show ?thesis
    by (auto simp: Pair r field_type_def schema_def split: if_splits)
qed

lemma valid_document_dispatched: "valid_document doc \<Longrightarrow> \<exists>opn. dispatch lb doc = Some opn"
proof (cases doc)
  case (SubscriptionDoc fs)
  assume "valid_document doc"
  then obtain f where "fs = [f]" "conforms ''Subscription'' (snd f)" "rf_name (snd f) \<noteq> ''__typename''"
    by (auto simp: valid_document_def SubscriptionDoc length_Suc_conv)
  then show ?thesis
    using raw_subscription_valid [of f lb] by (auto simp: dispatch_def SubscriptionDoc)
qed (auto simp: valid_document_def dispatch_def list_all_iff those_map_Some raw_query_valid raw_mutation_valid)

section \<open>Answers conform to the schema\<close>

text \<open>Every value an execution answers satisfies a predicate.\<close>

definition gives :: "(gql_value \<Rightarrow> bool) \<Rightarrow> 'c ex \<Rightarrow> bool" where
  "gives P e \<longleftrightarrow> (\<forall>a v ers a'. e a = (Some (v, ers), a') \<longrightarrow> P v)"

lemma givesD: "gives P e \<Longrightarrow> e a = (Some (v, ers), a') \<Longrightarrow> P v"
  unfolding gives_def by blast

lemma gives_basic:
  "P v \<Longrightarrow> gives P (answerX v)"
  "P GNull \<Longrightarrow> gives P (nullX er)"
  by (simp_all add: gives_def answerX_def nullX_def)

lemma gives_resolveX:
  assumes "P GNull" and "\<And>y. gives P (k y)"
  shows "gives P (resolveX r k)"
  using assms by (auto simp: gives_def resolveX_def nullX_def split: prod.splits reply.splits sum.splits)

lemma gives_parts:
  "(\<And>t. P (GText t)) \<Longrightarrow> gives P (idX x i)"
  "(\<And>t. P (GText t)) \<Longrightarrow> P GNull \<Longrightarrow> gives P (dateX x t)"
  "P GNull \<Longrightarrow> (\<And>y. gives P (m y)) \<Longrightarrow> gives P (requiredX c m)"
  "P GNull \<Longrightarrow> (\<And>y. gives P (m y)) \<Longrightarrow> gives P (with_args args m)"
  by (auto simp: idX_def dateX_def requiredX_def with_args_def intro!: gives_basic
      split: option.split sum.split call.split)

lemma run_all_each:
  "run_all es a = (Some (vs, ers), a') \<Longrightarrow>
     list_all2 (\<lambda>e v. \<exists>a ers a'. e a = (Some (v, ers), a')) es vs"
proof (induction es arbitrary: a vs ers a')
  case (Cons e es)
  then show ?case by (fastforce split: prod.splits option.splits)
qed simp

fun nullable :: "type_ref \<Rightarrow> type_ref" where
  "nullable (Required t) = t"
| "nullable t = t"

text \<open>A slot of an object executes the field of its selection.\<close>

definition slot_ok :: "string \<Rightarrow> raw_field \<Rightarrow> 'c slot \<Rightarrow> bool" where
  "slot_ok n f s \<longleftrightarrow>
     fst s = rf_alias f \<and>
     (\<exists>t. field_type n (rf_name f) = Some t \<and>
        gives (value_ok (if fst (snd s) then nullable t else t) (rf_sub f)) (snd (snd s)))"

lemma value_ok_nullable: "v \<noteq> GNull \<Longrightarrow> value_ok (nullable t) sub v \<Longrightarrow> value_ok t sub v"
  by (cases t) auto

lemma slot_value:
  assumes "slot_ok n f s" and "snd (snd s) a = (Some (v, ers), a')" and "fst (snd s) \<longrightarrow> v \<noteq> GNull"
  shows "\<exists>t. field_type n (rf_name f) = Some t \<and> value_ok t (rf_sub f) v"
proof -
  obtain t where t: "field_type n (rf_name f) = Some t"
    and g: "gives (value_ok (if fst (snd s) then nullable t else t) (rf_sub f)) (snd (snd s))"
    using assms(1) by (auto simp: slot_ok_def)
  from givesD [OF g assms(2)] assms(3) have "value_ok t (rf_sub f) v"
    by (cases "fst (snd s)") (simp_all add: value_ok_nullable)
  with t show ?thesis by blast
qed

lemma gives_objectX:
  assumes n: "object_type n" and fs: "list_all2 (slot_ok n) sub fs"
  shows "gives (value_ok (Named n) sub) (objectX fs)"
  unfolding gives_def
proof (intro allI impI)
  fix a v ers a'
  assume "objectX fs a = (Some (v, ers), a')"
  then obtain vs where run: "run_all (map (\<lambda>(_, _, e). e) fs) a = (Some (vs, ers), a')"
    and v: "v = (if list_ex (\<lambda>((_, required, _), v). required \<and> v = GNull) (zip fs vs) then GNull
        else GObject (zip (map fst fs) vs))"
    by (auto simp: objectX_def split: prod.splits option.splits)
  from run_all_each [OF run] have each: "list_all2 (\<lambda>s v. \<exists>a ers a'. snd (snd s) a = (Some (v, ers), a')) fs vs"
    by (simp add: list_all2_map1 case_prod_beta)
  show "value_ok (Named n) sub v"
  proof (cases "list_ex (\<lambda>((_, required, _), v). required \<and> v = GNull) (zip fs vs)")
    case False
    have len: "length fs = length vs" "length sub = length fs"
      using each fs by (auto dest: list_all2_lengthD)
    have "fst (snd p) = rf_alias (fst p) \<and>
        (\<exists>t. field_type n (rf_name (fst p)) = Some t \<and> value_ok t (rf_sub (fst p)) (snd (snd p)))"
      if p: "p \<in> set (zip sub (zip (map fst fs) vs))" for p
    proof -
      from p len obtain i where i: "i < length fs" and p: "p = (sub ! i, fst (fs ! i), vs ! i)"
        by (auto simp: in_set_conv_nth)
      have ok: "slot_ok n (sub ! i) (fs ! i)" using fs i len by (simp add: list_all2_conv_all_nth)
      moreover obtain b ers' b' where "snd (snd (fs ! i)) b = (Some (vs ! i, ers'), b')"
        using each i by (auto simp: list_all2_conv_all_nth)
      moreover have "(fs ! i, vs ! i) \<in> set (zip fs vs)" using i len by (auto simp: in_set_conv_nth)
      with False have "fst (snd (fs ! i)) \<longrightarrow> vs ! i \<noteq> GNull"
        by (auto simp: list_ex_iff case_prod_beta)
      ultimately show ?thesis using slot_value ok unfolding slot_ok_def p by fastforce
    qed
    with False v n len show ?thesis by fastforce
  qed (simp add: v)
qed

lemma gives_listX:
  assumes "\<forall>e \<in> set es. gives (value_ok t sub) e"
  shows "gives (value_ok (ListOf (Required t)) sub) (listX es)"
  unfolding gives_def
proof (intro allI impI)
  fix a v ers a'
  assume "listX es a = (Some (v, ers), a')"
  then obtain vs where run: "run_all es a = (Some (vs, ers), a')"
    and v: "v = (if GNull \<in> set vs then GNull else GList vs)"
    by (auto simp: listX_def split: prod.splits option.splits)
  have "value_ok t sub w" if w: "w \<in> set vs" for w
  proof -
    from w obtain i where i: "i < length vs" "w = vs ! i" by (auto simp: in_set_conv_nth)
    with run_all_each [OF run] obtain b er b' where "(es ! i) b = (Some (w, er), b')" "i < length es"
      by (auto simp: list_all2_conv_all_nth)
    with assms show ?thesis by (metis givesD nth_mem)
  qed
  with v show "value_ok (ListOf (Required t)) sub v" by auto
qed

named_theorems gives_intros "rules that show that an execution answers values of a type"

lemma slot_ok_eq [simp]:
  "slot_ok n (RawField f al args sub) (al, req, e) \<longleftrightarrow>
     (case field_type n f of
        None \<Rightarrow> False
      | Some t \<Rightarrow> gives (value_ok (if req then nullable t else t) sub) e)"
  by (auto simp: slot_ok_def split: option.split)

lemma value_ok_basic [simp]: "value_ok (Named n) sub GNull" "value_ok (ListOf t) sub GNull"
  by simp_all

lemma scalar_ok_simps [simp]:
  "scalar_ok n (GText s) \<longleftrightarrow> n \<in> {''ID'', ''String'', ''Date'', ''Type'', ''NotificationType''}"
  "scalar_ok n (GInt i) \<longleftrightarrow> n = ''Int''"
  "scalar_ok n (GBoolean b) \<longleftrightarrow> n = ''Boolean''"
  by (simp_all add: scalar_ok_def)

declare gives_basic [gives_intros] gives_resolveX [gives_intros] gives_parts [gives_intros]

lemma gives_list_map [gives_intros]:
  "(\<And>y. y \<in> set ys \<Longrightarrow> gives (value_ok t sub) (g y)) \<Longrightarrow>
     gives (value_ok (ListOf (Required t)) sub) (listX (map g ys))"
  by (rule gives_listX) auto

lemma gives_object_map:
  assumes "object_type n" and "those (map raw sub) = Some sels"
    and "\<And>f s. f \<in> set sub \<Longrightarrow> raw f = Some s \<Longrightarrow> slot_ok n f (g s)"
  shows "gives (value_ok (Named n) sub) (objectX (map g sels))"
proof (rule gives_objectX [OF assms(1)])
  show "list_all2 (slot_ok n) sub (map g sels)"
    using assms(2,3) by (auto simp: those_map list_all2_conv_all_nth)
qed

lemma raw_tag_slot:
  "raw_tag lb f = Some s \<Longrightarrow> slot_ok ''Tag'' f (tag_field s x obj)"
  "raw_cat lb f' = Some s' \<Longrightarrow> slot_ok ''TagCategory'' f' (cat_field s' x obj')"
proof (induction lb f and lb f' arbitrary: s obj and s' obj' rule: raw_tag_raw_cat.induct)
  case (1 lb n al args sub)
  have cat: "gives (value_ok (Named ''TagCategory'') sub) (objectX (map ((\<lambda>f. f x c) \<circ> cat_field) sels))"
    if "n = ''category''" "those (map (raw_cat lb) sub) = Some sels" for sels c
    using gives_object_map [OF _ that(2), of "''TagCategory''" "\<lambda>s. cat_field s x c"] 1(1) that(1)
    by (simp add: comp_def)
  from 1(2) show ?case
    by (auto simp: field_type_of cat split: if_splits intro!: gives_intros)
next
  case (2 lb n al args sub)
  have tag: "gives (value_ok (Named ''Tag'') sub) (objectX (map ((\<lambda>f. f x c) \<circ> tag_field) sels))"
    if "n = ''tags''" "those (map (raw_tag lb) sub) = Some sels" for sels c
    using gives_object_map [OF _ that(2), of "''Tag''" "\<lambda>s. tag_field s x c"] 2(1) that(1)
    by (simp add: comp_def)
  from 2(2) show ?case
    by (auto simp: field_type_of tag split: if_splits intro!: gives_intros)
qed

lemma tagX_conforms [gives_intros]:
  "those (map (raw_tag lb) sub) = Some sels \<Longrightarrow> gives (value_ok (Named ''Tag'') sub) (tagX x sels obj)"
  unfolding tagX_def by (rule gives_object_map) (auto simp: raw_tag_slot)

lemma catX_conforms [gives_intros]:
  "those (map (raw_cat lb) sub) = Some sels \<Longrightarrow> gives (value_ok (Named ''TagCategory'') sub) (catX x sels obj)"
  unfolding catX_def by (rule gives_object_map) (auto simp: raw_tag_slot)

lemma raw_tea_slot: "raw_tea lb f = Some s \<Longrightarrow> slot_ok ''Tea'' f (tea_field x obj s)"
  by (cases f) (auto simp: field_type_of split: if_splits intro!: gives_intros)

lemma teaX_conforms [gives_intros]:
  "those (map (raw_tea lb) sub) = Some sels \<Longrightarrow> gives (value_ok (Named ''Tea'') sub) (teaX x sels obj)"
  unfolding teaX_def by (rule gives_object_map) (auto simp: raw_tea_slot)

lemma raw_qr_slot: "raw_qr lb f = Some s \<Longrightarrow> slot_ok ''QRRecord'' f (qr_field x obj s)"
  by (cases f) (auto simp: field_type_of split: if_splits intro!: gives_intros)

lemma qrX_conforms [gives_intros]:
  "those (map (raw_qr lb) sub) = Some sels \<Longrightarrow> gives (value_ok (Named ''QRRecord'') sub) (qrX x sels obj)"
  unfolding qrX_def by (rule gives_object_map) (auto simp: raw_qr_slot)

lemma raw_coll_slot: "raw_coll lb f = Some s \<Longrightarrow> slot_ok ''Collection'' f (coll_field x obj s)"
  by (cases f) (auto simp: field_type_of split: if_splits intro!: gives_intros)

lemma collX_conforms [gives_intros]:
  "those (map (raw_coll lb) sub) = Some sels \<Longrightarrow> gives (value_ok (Named ''Collection'') sub) (collX x sels obj)"
  unfolding collX_def by (rule gives_object_map) (auto simp: raw_coll_slot)

lemma raw_notif_slot: "raw_notif f = Some s \<Longrightarrow> slot_ok ''Notification'' f (notif_field n s)"
  by (cases f) (auto simp: field_type_of split: if_splits intro!: gives_intros)

lemma notifs_conform [gives_intros]:
  "those (map raw_notif sub) = Some sels \<Longrightarrow>
     gives (value_ok (Named ''Notification'') sub) (objectX (map (notif_field n) sels))"
  by (rule gives_object_map) (auto simp: raw_notif_slot)

lemma raw_user_slot: "raw_user lb f = Some s \<Longrightarrow> slot_ok ''User'' f (user_field x obj s)"
  by (cases f) (auto simp: field_type_of split: if_splits intro!: gives_intros)

lemma user_conforms [gives_intros]:
  "those (map (raw_user lb) sub) = Some sels \<Longrightarrow>
     gives (value_ok (Named ''User'') sub) (objectX (map (user_field x u) sels))"
  by (rule gives_object_map) (auto simp: raw_user_slot)

lemma raw_session_slot: "raw_session f = Some s \<Longrightarrow> slot_ok ''Session'' f (session_field x obj s)"
  by (cases f) (auto simp: field_type_of split: if_splits intro!: gives_intros)

lemma session_conforms [gives_intros]:
  "those (map raw_session sub) = Some sels \<Longrightarrow>
     gives (value_ok (Named ''Session'') sub) (objectX (map (session_field x u) sels))"
  by (rule gives_object_map) (auto simp: raw_session_slot)

lemma raw_tod_slot: "raw_tod lb f = Some s \<Longrightarrow> slot_ok ''TeaOfTheDay'' f (tod_field x obj s)"
  by (cases f) (auto simp: field_type_of split: if_splits intro!: gives_intros)

lemma tod_conforms [gives_intros]:
  "those (map (raw_tod lb) sub) = Some sels \<Longrightarrow>
     gives (value_ok (Named ''TeaOfTheDay'') sub) (objectX (map (tod_field x u) sels))"
  by (rule gives_object_map) (auto simp: raw_tod_slot)

lemma raw_query_slot: "raw_query lb f = Some s \<Longrightarrow> slot_ok ''Query'' (snd f) (query_field x s)"
  by (cases "(lb, f)" rule: raw_query.cases)
    (auto simp: root_fields split: if_splits intro!: gives_intros)

lemma with_args_mapC [simp]: "with_args (mapC f c) k = with_args c (\<lambda>y. k (f y))"
  by (cases c rule: call.exhaust [case_product sum.exhaust])
    (auto simp: with_args_def mapC_def bindC_def split: call.split sum.split)

lemma raw_sub_of:
  "raw_sub lb ''Session'' sub = map_option (\<lambda>l. no_sub\<lparr>for_session := l\<rparr>) (those (map raw_session sub))"
  "raw_sub lb ''Tea'' sub = map_option (\<lambda>l. no_sub\<lparr>for_tea := l\<rparr>) (those (map (raw_tea lb) sub))"
  "raw_sub lb ''QRRecord'' sub = map_option (\<lambda>l. no_sub\<lparr>for_qr := l\<rparr>) (those (map (raw_qr lb) sub))"
  "raw_sub lb ''TagCategory'' sub = map_option (\<lambda>l. no_sub\<lparr>for_category := l\<rparr>) (those (map (raw_cat lb) sub))"
  "raw_sub lb ''Tag'' sub = map_option (\<lambda>l. no_sub\<lparr>for_tag := l\<rparr>) (those (map (raw_tag lb) sub))"
  "raw_sub lb ''Collection'' sub = map_option (\<lambda>l. no_sub\<lparr>for_collection := l\<rparr>) (those (map (raw_coll lb) sub))"
  "raw_sub lb ''ID'' sub = Some no_sub"
  "raw_sub lb ''Boolean'' sub = Some no_sub"
  "raw_sub lb ''String'' sub = Some no_sub"
  by (simp_all add: raw_sub_def)

text \<open>The mutations by the type of their result.\<close>

fun result_type :: "'f mutation \<Rightarrow> string" where
  "result_type (MAuthApple i dev) = ''Session''"
| "result_type (MNewTea i tea) = ''Tea''"
| "result_type (MUpdateTea i tea) = ''Tea''"
| "result_type (MDeleteTea i) = ''ID''"
| "result_type (MAddTagToTea tea tg) = ''Tea''"
| "result_type (MDeleteTagFromTea tea tg) = ''Tea''"
| "result_type (MWriteToQR i data) = ''QRRecord''"
| "result_type (MCreateTagCategory i name) = ''TagCategory''"
| "result_type (MUpdateTagCategory i name) = ''TagCategory''"
| "result_type (MDeleteTagCategory i) = ''ID''"
| "result_type (MCreateTag i name color cat) = ''Tag''"
| "result_type (MUpdateTag i name color) = ''Tag''"
| "result_type (MChangeTagCategory i cat) = ''Tag''"
| "result_type (MDeleteTag i) = ''ID''"
| "result_type (MCreateCollection i name) = ''Collection''"
| "result_type (MAddRecords i recs) = ''Collection''"
| "result_type (MDeleteRecords i recs) = ''Collection''"
| "result_type (MDeleteCollection i) = ''ID''"
| "result_type (MRegisterDeviceToken dev token) = ''Boolean''"
| "result_type (MSend now) = ''Boolean''"
| "result_type (MTeaRecommendation wd i feelings) = ''String''"

lemma mutation_value_conforms:
  "raw_sub lb (result_type m) sub = Some s \<Longrightarrow>
     gives (value_ok (Named (result_type m)) sub) (mutation_value x s m)"
  by (cases m) (auto simp: raw_sub_of intro!: gives_intros)

lemma mapC_Ret: "mapC f c = Ret (Inr y) \<longleftrightarrow> (\<exists>z. c = Ret (Inr z) \<and> y = f z)"
  by (cases c rule: call.exhaust [case_product sum.exhaust])
    (auto simp: mapC_def bindC_def split: call.split sum.split)

lemma mutation_case_result:
  "mutation_case lb os n args = Some (Ret (Inr m), t) \<Longrightarrow> t = result_type m"
  unfolding mutation_case_def by (auto simp: mapC_Ret split: if_split_asm)

lemma mutation_args_conform:
  assumes c: "mutation_case lb os n args = Some (c, t)" and s: "raw_sub lb t sub = Some s"
  shows "gives (value_ok (Named t) sub) (with_args c (mutation_value x s))"
proof (cases "\<exists>m. c = Ret (Inr m)")
  case True
  then obtain m where m: "c = Ret (Inr m)" by blast
  with c have "t = result_type m" by (auto intro: mutation_case_result)
  with mutation_value_conforms [of lb m sub s x] s m show ?thesis
    by (simp add: with_args_def)
next
  case False
  then have "with_args c (mutation_value x s) = with_args c (\<lambda>_. nullX Recovered)"
    by (auto simp: with_args_def split: call.split sum.split)
  then show ?thesis by (auto intro!: gives_intros)
qed

lemma raw_mutation_slot:
  assumes "raw_mutation lb f = Some s"
  shows "slot_ok ''Mutation'' (snd f) (mutation_field x s)"
proof (cases f)
  case (Pair os r)
  obtain n al args sub where r: "r = RawField n al args sub" by (cases r)
  show ?thesis
  proof (cases "n = ''__typename''")
    case True
    with assms show ?thesis by (auto simp: Pair r field_type_def intro!: gives_intros)
  next
    case False
    with assms obtain c t s' where c: "mutation_case lb os n args = Some (c, t)"
      and s': "raw_sub lb t sub = Some s'" "s = MCall al c s'"
      by (auto simp: Pair r split: option.splits)
    have "field_type ''Mutation'' n = Some (one t)"
      using c False by (auto simp: mutation_case_def field_type_def schema_def split: if_split_asm)
    with mutation_args_conform [OF c s'(1), of x] s'(2) show ?thesis by (simp add: Pair r)
  qed
qed


lemma query_document_conforms:
  "those (map (raw_query lb) fs) = Some sels \<Longrightarrow> gives (value_ok (Named ''Query'') (map snd fs)) (queryX x sels)"
  unfolding queryX_def
  by (rule gives_objectX) (auto simp: those_map list_all2_conv_all_nth raw_query_slot)

lemma mutation_document_conforms:
  "those (map (raw_mutation lb) fs) = Some sels \<Longrightarrow> gives (value_ok (Named ''Mutation'') (map snd fs)) (mutationX x sels)"
  unfolding mutationX_def
  by (rule gives_objectX) (auto simp: those_map list_all2_conv_all_nth raw_mutation_slot)

text \<open>The type a document selects from, and its root fields.\<close>

fun root_type :: "'f document \<Rightarrow> string" where
  "root_type (QueryDoc fs) = ''Query''"
| "root_type (MutationDoc fs) = ''Mutation''"
| "root_type (SubscriptionDoc fs) = ''Subscription''"

fun root_selection :: "'f document \<Rightarrow> raw_field list" where
  "root_selection (QueryDoc fs) = map snd fs"
| "root_selection (MutationDoc fs) = map snd fs"
| "root_selection (SubscriptionDoc fs) = map snd fs"

text \<open>
  C6. Every document without \<open>@defer\<close>, \<open>__schema\<close> and \<open>__type\<close> that is valid against the schema is
  dispatched, without the panic on an unknown field, and the data that a query or a mutation
  answers conforms to the schema: it has exactly the selected fields at every level under their
  names, lists where the schema has lists, values of the right kinds, and null only where the
  schema allows it.
\<close>

theorem answers_conform_to_schema:
  assumes "valid_document doc"
  shows "\<exists>opn. dispatch lb doc = Some opn \<and>
    (\<forall>run ctx a v ers a'. Exec x opn = Inr run \<longrightarrow> run ctx a = (Some (v, ers), a') \<longrightarrow>
       value_ok (Named (root_type doc)) (root_selection doc) v)"
proof -
  obtain opn where opn: "dispatch lb doc = Some opn"
    using valid_document_dispatched [OF assms] by blast
  have "value_ok (Named (root_type doc)) (root_selection doc) v"
    if "Exec x opn = Inr run" "run ctx a = (Some (v, ers), a')" for run ctx a v ers a'
  proof (cases doc)
    case (QueryDoc fs)
    with opn that obtain sels where "those (map (raw_query lb) fs) = Some sels"
      "queryX (x\<lparr>x_ctx := ctx\<rparr>) sels a = (Some (v, ers), a')"
      by (auto simp: dispatch_def Exec_def)
    from givesD [OF query_document_conforms [OF this(1)] this(2)] QueryDoc show ?thesis by simp
  next
    case (MutationDoc fs)
    with opn that obtain sels where "those (map (raw_mutation lb) fs) = Some sels"
      "mutationX (x\<lparr>x_ctx := ctx\<rparr>) sels a = (Some (v, ers), a')"
      by (auto simp: dispatch_def Exec_def)
    from givesD [OF mutation_document_conforms [OF this(1)] this(2)] MutationDoc show ?thesis by simp
  next
    case (SubscriptionDoc fs)
    with opn that show ?thesis
      by (auto simp: dispatch_def Exec_def split: list.splits)
  qed
  with opn show ?thesis by blast
qed


text \<open>A library that reads the raw values directly, and a document it is used on.\<close>

definition demo_gql :: gql_libs where
  "demo_gql =
     \<lparr>ProcessArg = map_of,
      UnmarshalString = (\<lambda>v. case v of AString s \<Rightarrow> Inr s | _ \<Rightarrow> Inl (ExtErr ''not a string'')),
      UnmarshalInt = (\<lambda>v. case v of AInt i \<Rightarrow> Inr (word_of_int i) | _ \<Rightarrow> Inl (ExtErr ''not an int'')),
      UnmarshalTime = (\<lambda>v. case v of AString s \<Rightarrow> Inr (int (length s)) | _ \<Rightarrow> Inl (ExtErr ''not a time'')),
      CoerceList = (\<lambda>v. case v of AList vs \<Rightarrow> vs | ANil \<Rightarrow> [] | _ \<Rightarrow> [v]),
      gl_Parse = (\<lambda>s. Inr (word_of_nat (length s)))\<rparr>"

definition demo_outside :: "int outside" where
  "demo_outside =
     \<lparr>os_id = 7, os_signin = \<lparr>si_user = 1, si_jti = 2, si_now = 3, si_code = ''''\<rparr>, os_now = 3,
      os_world = bad_day 5000, os_ctx = 1, os_chan = 1\<rparr>"

definition demo_document :: "int document" where
  "demo_document =
     QueryDoc
       [(demo_outside, RawField ''teas'' ''all'' []
           [RawField ''name'' ''label'' [] [],
            RawField ''tags'' ''tags'' [] [RawField ''category'' ''of'' [] [RawField ''id'' ''id'' [] []]]]),
        (demo_outside, RawField ''__typename'' ''kind'' [] [])]"

theorem answers_conform_to_schema_witness:
  "valid_document demo_document \<and>
   (\<exists>opn. dispatch demo_gql demo_document = Some opn \<and>
     (\<forall>run a v ers a'. Exec (demo_exec empty_ctx) opn = Inr run \<longrightarrow> run empty_ctx a = (Some (v, ers), a') \<longrightarrow>
        value_ok (Named ''Query'') (root_selection demo_document) v))"
proof -
  have v: "valid_document demo_document"
    by (simp add: demo_document_def valid_document_def root_fields field_type_of)
  with answers_conform_to_schema [OF v, of demo_gql "demo_exec empty_ctx"] show ?thesis
    by (simp add: demo_document_def) blast
qed

section \<open>Mutations over the wire\<close>

text \<open>
  How a client asks for a mutation: the field and its arguments, with identifiers written by
  \<open>ustr\<close> and times by \<open>tstr\<close>. \<open>wire_ok\<close> states that the library reads what was written so.
\<close>

fun wire :: "(uuid \<Rightarrow> string) \<Rightarrow> (time \<Rightarrow> string) \<Rightarrow> 'f mutation \<Rightarrow> string \<times> raw_args" where
  "wire ustr tstr (MAuthApple i dev) =
     (''authApple'', [(''appleCode'', AString (si_code i)), (''deviceID'', AString (ustr dev))])"
| "wire ustr tstr (MNewTea i tea) =
     (''newTea'', [(''tea'', AMap [(''name'', AString (gtd_Name tea)), (''type'', AString (gtd_Type tea)),
                                   (''description'', AString (gtd_Description tea))])])"
| "wire ustr tstr (MUpdateTea i tea) =
     (''updateTea'', [(''id'', AString (ustr i)),
                      (''tea'', AMap [(''name'', AString (gtd_Name tea)), (''type'', AString (gtd_Type tea)),
                                      (''description'', AString (gtd_Description tea))])])"
| "wire ustr tstr (MDeleteTea i) = (''deleteTea'', [(''id'', AString (ustr i))])"
| "wire ustr tstr (MAddTagToTea tea tg) =
     (''addTagToTea'', [(''teaID'', AString (ustr tea)), (''tagID'', AString (ustr tg))])"
| "wire ustr tstr (MDeleteTagFromTea tea tg) =
     (''deleteTagFromTea'', [(''teaID'', AString (ustr tea)), (''tagID'', AString (ustr tg))])"
| "wire ustr tstr (MWriteToQR i data) =
     (''writeToQR'', [(''id'', AString (ustr i)),
                      (''data'', AMap [(''tea'', AString (ustr (qrd_Tea data))),
                                       (''bowlingTemp'', AInt (sint (qrd_BowlingTemp data))),
                                       (''expirationDate'', AString (tstr (qrd_ExpirationDate data)))])])"
| "wire ustr tstr (MCreateTagCategory i name) = (''createTagCategory'', [(''name'', AString name)])"
| "wire ustr tstr (MUpdateTagCategory i name) =
     (''updateTagCategory'', [(''id'', AString (ustr i)), (''name'', AString name)])"
| "wire ustr tstr (MDeleteTagCategory i) = (''deleteTagCategory'', [(''id'', AString (ustr i))])"
| "wire ustr tstr (MCreateTag i name color cat) =
     (''createTag'', [(''name'', AString name), (''color'', AString color), (''category'', AString (ustr cat))])"
| "wire ustr tstr (MUpdateTag i name color) =
     (''updateTag'', [(''id'', AString (ustr i)), (''name'', AString name), (''color'', AString color)])"
| "wire ustr tstr (MChangeTagCategory i cat) =
     (''changeTagCategory'', [(''id'', AString (ustr i)), (''category'', AString (ustr cat))])"
| "wire ustr tstr (MDeleteTag i) = (''deleteTag'', [(''id'', AString (ustr i))])"
| "wire ustr tstr (MCreateCollection i name) = (''createCollection'', [(''name'', AString name)])"
| "wire ustr tstr (MAddRecords i recs) =
     (''addRecordsToCollection'', [(''id'', AString (ustr i)), (''records'', AList (map (\<lambda>r. AString (ustr r)) recs))])"
| "wire ustr tstr (MDeleteRecords i recs) =
     (''deleteRecordsFromCollection'', [(''id'', AString (ustr i)), (''records'', AList (map (\<lambda>r. AString (ustr r)) recs))])"
| "wire ustr tstr (MDeleteCollection i) = (''deleteCollection'', [(''id'', AString (ustr i))])"
| "wire ustr tstr (MRegisterDeviceToken dev token) =
     (''registerDeviceToken'', [(''deviceID'', AString (ustr dev)), (''deviceToken'', AString token)])"
| "wire ustr tstr (MSend now) = (''send'', [])"
| "wire ustr tstr (MTeaRecommendation wd i feelings) =
     (''teaRecommendation'', [(''collectionID'', AString (ustr i)), (''feelings'', AString feelings)])"

definition wire_ok :: "gql_libs \<Rightarrow> (uuid \<Rightarrow> string) \<Rightarrow> (time \<Rightarrow> string) \<Rightarrow> time set \<Rightarrow> bool" where
  "wire_ok lb ustr tstr T \<longleftrightarrow>
     (\<forall>raw n. ProcessArg lb raw n = map_of raw n) \<and>
     (\<forall>s. UnmarshalString lb (AString s) = Inr s) \<and>
     (\<forall>i. UnmarshalInt lb (AInt (sint i)) = Inr i) \<and>
     (\<forall>t \<in> T. UnmarshalTime lb (AString (tstr t)) = Inr t) \<and>
     (\<forall>vs. CoerceList lb (AList vs) = vs) \<and>
     (\<forall>u. gl_Parse lb (ustr u) = Inr u)"

lemma wire_okD:
  assumes "wire_ok lb ustr tstr T"
  shows "ProcessArg lb raw n = map_of raw n" "UnmarshalString lb (AString s) = Inr s"
    "UnmarshalInt lb (AInt (sint i)) = Inr i" "t \<in> T \<Longrightarrow> UnmarshalTime lb (AString (tstr t)) = Inr t"
    "CoerceList lb (AList vs) = vs" "gl_Parse lb (ustr u) = Inr u"
  using assms by (auto simp: wire_ok_def)

text \<open>
  A tea of the call has a type of the schema and the date can be written; the rest of the
  mutation is what its resolver obtains outside of the request.
\<close>

fun asked_for :: "time set \<Rightarrow> 'f outside \<Rightarrow> 'f mutation \<Rightarrow> bool" where
  "asked_for T os (MAuthApple i dev) = (i = os_signin os\<lparr>si_code := si_code i\<rparr>)"
| "asked_for T os (MNewTea i tea) = (i = os_id os \<and> Type_IsValid (gtd_Type tea))"
| "asked_for T os (MUpdateTea i tea) = Type_IsValid (gtd_Type tea)"
| "asked_for T os (MWriteToQR i data) = (qrd_ExpirationDate data \<in> T)"
| "asked_for T os (MCreateTagCategory i name) = (i = os_id os)"
| "asked_for T os (MCreateTag i name color cat) = (i = os_id os)"
| "asked_for T os (MCreateCollection i name) = (i = os_id os)"
| "asked_for T os (MSend now) = (now = os_now os)"
| "asked_for T os (MTeaRecommendation wd i feelings) = (wd = os_world os)"
| "asked_for T os m = True"

lemma unmarshal_IDs_written:
  "wire_ok lb ustr tstr T \<Longrightarrow> unmarshal_IDs lb (map (\<lambda>r. AString (ustr r)) us) = Inr us"
  by (induction us) (auto simp: wire_okD)

lemma mutation_case_wire:
  assumes "wire_ok lb ustr tstr T" and "asked_for T os m"
  shows "mutation_case lb os (fst (wire ustr tstr m)) (snd (wire ustr tstr m)) = Some (Ret (Inr m), result_type m)"
  using assms(2)
  by (cases m)
    (auto simp: mutation_case_def args_defs arg_field_def unmarshal_defs Type_UnmarshalGQL_def
      wire_okD [OF assms(1)] unmarshal_IDs_written [OF assms(1)])


text \<open>
  C10. Every mutation can be asked for: written as a client writes it, with the library reading
  what was written, its field is decoded into exactly that mutation with the selection of its
  result, for all 21 mutations and every value of their arguments.
\<close>

theorem mutation_over_the_wire:
  assumes "wire_ok lb ustr tstr T" and "asked_for T os m" and "raw_sub lb (result_type m) sub = Some s"
  shows "raw_mutation lb (os, RawField (fst (wire ustr tstr m)) al (snd (wire ustr tstr m)) sub) =
    Some (MCall al (Ret (Inr m)) s)"
proof -
  have "fst (wire ustr tstr m) \<noteq> ''__typename''" by (cases m) auto
  with mutation_case_wire [OF assms(1,2)] assms(3) show ?thesis by simp
qed

lemma demo_wire_ok:
  "wire_ok demo_gql (\<lambda>u. replicate (unat u) (CHR ''x'')) (\<lambda>t. replicate (nat t) (CHR ''t'')) {t. 0 \<le> t}"
  by (simp add: wire_ok_def demo_gql_def)

theorem mutation_over_the_wire_witness:
  "raw_mutation demo_gql
     (demo_outside,
      RawField ''writeToQR'' ''w''
        [(''id'', AString ''xxxxx''),
         (''data'', AMap [(''tea'', AString ''xxx''), (''bowlingTemp'', AInt (- 4)), (''expirationDate'', AString ''tt'')])]
        [RawField ''id'' ''key'' [] []]) =
   Some (MCall ''w''
     (Ret (Inr (MWriteToQR 5 \<lparr>qrd_Tea = 3, qrd_BowlingTemp = - 4, qrd_ExpirationDate = 2\<rparr>)))
     (no_sub\<lparr>for_qr := [QrID ''key'']\<rparr>))"
proof -
  have "replicate 5 (CHR ''x'') = ''xxxxx''" "replicate 3 (CHR ''x'') = ''xxx''" "replicate 2 (CHR ''t'') = ''tt''"
    by (simp_all add: eval_nat_numeral)
  then show ?thesis
    using mutation_over_the_wire [OF demo_wire_ok, of demo_outside
      "MWriteToQR 5 \<lparr>qrd_Tea = 3, qrd_BowlingTemp = - 4, qrd_ExpirationDate = 2\<rparr>"
      "[RawField ''id'' ''key'' [] []]" "no_sub\<lparr>for_qr := [QrID ''key'']\<rparr>" "''w''"]
    by (simp add: raw_sub_of)
qed

section \<open>Refused arguments\<close>

lemma bindC_Ret: "bindC m k = Ret (Inr y) \<longleftrightarrow> (\<exists>z. m = Ret (Inr z) \<and> k z = Ret (Inr y))"
  by (auto simp: bindC_def split: call.split sum.split)

text \<open>The arguments of type \<open>ID!\<close> of the mutations.\<close>

definition id_args :: "(string \<times> string) list" where
  "id_args =
     [(''authApple'', ''deviceID''), (''updateTea'', ''id''), (''addTagToTea'', ''teaID''),
      (''addTagToTea'', ''tagID''), (''deleteTagFromTea'', ''teaID''), (''deleteTagFromTea'', ''tagID''),
      (''deleteTea'', ''id''), (''writeToQR'', ''id''), (''updateTagCategory'', ''id''),
      (''deleteTagCategory'', ''id''), (''createTag'', ''category''), (''updateTag'', ''id''),
      (''changeTagCategory'', ''id''), (''changeTagCategory'', ''category''), (''deleteTag'', ''id''),
      (''addRecordsToCollection'', ''id''), (''deleteRecordsFromCollection'', ''id''),
      (''deleteCollection'', ''id''), (''registerDeviceToken'', ''deviceID''),
      (''teaRecommendation'', ''collectionID'')]"

lemma bad_id_refused:
  assumes "(n, k) \<in> set id_args" and "ProcessArg lb args k = Some v" and "\<forall>u. ID_UnmarshalGQL lb v \<noteq> Inr u"
    and "mutation_case lb os n args = Some (c, t)"
  shows "c \<noteq> Ret (Inr m)"
  using assms
  by (auto simp: id_args_def mutation_case_def args_defs arg_field_def unmarshalNID_def mapC_Ret bindC_Ret
      split: option.splits)

lemma refused_field:
  assumes "raw_mutation lb (os, RawField n al args sub) = Some s" and "n \<noteq> ''__typename''"
    and "\<And>c t m. mutation_case lb os n args = Some (c, t) \<Longrightarrow> c \<noteq> Ret (Inr m)"
  shows "\<exists>er. snd (snd (mutation_field x s)) a = (Some (GNull, [er]), a)"
proof -
  obtain c t s' where c: "mutation_case lb os n args = Some (c, t)" and s: "s = MCall al c s'"
    using assms(1,2) by (auto split: option.splits)
  from assms(3) [OF c] s show ?thesis
    by (auto simp: with_args_def nullX_def split: call.split sum.split)
qed

text \<open>
  A mutation with an identifier that is no UUID, or not even a string, calls no resolver:
  its field is null with one error, and neither the database nor any channel, cache or store has
  changed, whoever sent it.
\<close>

theorem bad_id_changes_nothing:
  assumes "(n, k) \<in> set id_args" and "ProcessArg lb args k = Some v" and "\<forall>u. ID_UnmarshalGQL lb v \<noteq> Inr u"
    and "raw_mutation lb (os, RawField n al args sub) = Some s"
  shows "\<exists>er. snd (snd (mutation_field x s)) a = (Some (GNull, [er]), a)"
proof (rule refused_field [OF assms(4)])
  show "n \<noteq> ''__typename''" using assms(1) by (auto simp: id_args_def)
  show "c \<noteq> Ret (Inr m)" if "mutation_case lb os n args = Some (c, t)" for c t m
    using bad_id_refused [OF assms(1-3) that] .
qed

theorem bad_id_changes_nothing_witness:
  "\<exists>s er. raw_mutation demo_gql (demo_outside, RawField ''deleteTag'' ''d'' [(''id'', AInt 3)] []) = Some s \<and>
     snd (snd (mutation_field (demo_exec empty_ctx) s)) (demo_app db_green_tag) =
       (Some (GNull, [er]), demo_app db_green_tag)"
proof -
  obtain s where s: "raw_mutation demo_gql (demo_outside, RawField ''deleteTag'' ''d'' [(''id'', AInt 3)] []) = Some s"
    by (simp add: mutation_case_def raw_sub_of)
  have "(''deleteTag'', ''id'') \<in> set id_args" by (simp add: id_args_def)
  from bad_id_changes_nothing [OF this _ _ s, of "AInt 3" "demo_exec empty_ctx" "demo_app db_green_tag"] s
  show ?thesis by (auto simp: demo_gql_def)
qed

end
