(* ===== verification/Field_Contexts.thy ===== *)
theory Field_Contexts
  imports Arguments
begin

text \<open>
  The contexts of the fields (\<open>fieldContext_T_f\<close> in the generated code): the object a field is on,
  whether it is a method and a resolver, its decoded arguments, and which fields may be selected
  below it. A field whose arguments are refused has no context. The lemmas show that the contexts
  of all fields agree with the schema.
\<close>

section \<open>Contexts\<close>

record 'p field_context =
  fc_Object :: string
  fc_IsMethod :: bool
  fc_IsResolver :: bool
  fc_Child :: "string \<Rightarrow> gerr + (string \<times> string)"
  fc_Args :: 'p

text \<open>
  The two shapes of \<open>Child\<close>: no field of a scalar, and the named fields of an object, each with
  the context of that field of that type.
\<close>

definition scalar_child :: "string \<Rightarrow> string \<Rightarrow> gerr + (string \<times> string)" where
  "scalar_child t n = Inl (ExtErr (''field of type '' @ t @ '' does not have child fields''))"

definition object_child :: "string \<Rightarrow> string list \<Rightarrow> string \<Rightarrow> gerr + (string \<times> string)" where
  "object_child t fs n =
     (if n \<in> set fs then Inr (t, n) else Inl (ExtErr (''no field named %q was found under type '' @ t)))"

section \<open>Fields of Collection\<close>

definition fieldContext_Collection_id :: "unit field_context call" where
  "fieldContext_Collection_id = Ret (Inr
     \<lparr>fc_Object = ''Collection'', fc_IsMethod = False, fc_IsResolver = False,
      fc_Child = scalar_child ''ID'',
      fc_Args = ()\<rparr>)"

definition fieldContext_Collection_name :: "unit field_context call" where
  "fieldContext_Collection_name = Ret (Inr
     \<lparr>fc_Object = ''Collection'', fc_IsMethod = False, fc_IsResolver = False,
      fc_Child = scalar_child ''String'',
      fc_Args = ()\<rparr>)"

definition fieldContext_Collection_userID :: "unit field_context call" where
  "fieldContext_Collection_userID = Ret (Inr
     \<lparr>fc_Object = ''Collection'', fc_IsMethod = False, fc_IsResolver = False,
      fc_Child = scalar_child ''ID'',
      fc_Args = ()\<rparr>)"

definition fieldContext_Collection_records :: "unit field_context call" where
  "fieldContext_Collection_records = Ret (Inr
     \<lparr>fc_Object = ''Collection'', fc_IsMethod = True, fc_IsResolver = True,
      fc_Child = object_child ''QRRecord'' [''id'', ''tea'', ''bowlingTemp'', ''expirationDate''],
      fc_Args = ()\<rparr>)"

section \<open>Fields of Mutation\<close>

definition fieldContext_Mutation_authApple :: "gql_libs \<Rightarrow> raw_field \<Rightarrow> (string \<times> uuid) field_context call" where
  "fieldContext_Mutation_authApple lb f = mapC (\<lambda>args.
     \<lparr>fc_Object = ''Mutation'', fc_IsMethod = True, fc_IsResolver = True,
      fc_Child = object_child ''Session'' [''token'', ''expiredAt''],
      fc_Args = args\<rparr>)
     (Mutation_authApple_args lb (rf_args f))"

definition fieldContext_Mutation_newTea :: "gql_libs \<Rightarrow> raw_field \<Rightarrow> GTeaData field_context call" where
  "fieldContext_Mutation_newTea lb f = mapC (\<lambda>args.
     \<lparr>fc_Object = ''Mutation'', fc_IsMethod = True, fc_IsResolver = True,
      fc_Child = object_child ''Tea'' [''id'', ''name'', ''type'', ''description'', ''tags''],
      fc_Args = args\<rparr>)
     (Mutation_newTea_args lb (rf_args f))"

definition fieldContext_Mutation_updateTea :: "gql_libs \<Rightarrow> raw_field \<Rightarrow> (uuid \<times> GTeaData) field_context call" where
  "fieldContext_Mutation_updateTea lb f = mapC (\<lambda>args.
     \<lparr>fc_Object = ''Mutation'', fc_IsMethod = True, fc_IsResolver = True,
      fc_Child = object_child ''Tea'' [''id'', ''name'', ''type'', ''description'', ''tags''],
      fc_Args = args\<rparr>)
     (Mutation_updateTea_args lb (rf_args f))"

definition fieldContext_Mutation_addTagToTea :: "gql_libs \<Rightarrow> raw_field \<Rightarrow> (uuid \<times> uuid) field_context call" where
  "fieldContext_Mutation_addTagToTea lb f = mapC (\<lambda>args.
     \<lparr>fc_Object = ''Mutation'', fc_IsMethod = True, fc_IsResolver = True,
      fc_Child = object_child ''Tea'' [''id'', ''name'', ''type'', ''description'', ''tags''],
      fc_Args = args\<rparr>)
     (Mutation_addTagToTea_args lb (rf_args f))"

definition fieldContext_Mutation_deleteTagFromTea :: "gql_libs \<Rightarrow> raw_field \<Rightarrow> (uuid \<times> uuid) field_context call" where
  "fieldContext_Mutation_deleteTagFromTea lb f = mapC (\<lambda>args.
     \<lparr>fc_Object = ''Mutation'', fc_IsMethod = True, fc_IsResolver = True,
      fc_Child = object_child ''Tea'' [''id'', ''name'', ''type'', ''description'', ''tags''],
      fc_Args = args\<rparr>)
     (Mutation_deleteTagFromTea_args lb (rf_args f))"

definition fieldContext_Mutation_deleteTea :: "gql_libs \<Rightarrow> raw_field \<Rightarrow> uuid field_context call" where
  "fieldContext_Mutation_deleteTea lb f = mapC (\<lambda>args.
     \<lparr>fc_Object = ''Mutation'', fc_IsMethod = True, fc_IsResolver = True,
      fc_Child = scalar_child ''ID'',
      fc_Args = args\<rparr>)
     (Mutation_deleteTea_args lb (rf_args f))"

definition fieldContext_Mutation_writeToQR :: "gql_libs \<Rightarrow> raw_field \<Rightarrow> (uuid \<times> QRRecordData) field_context call" where
  "fieldContext_Mutation_writeToQR lb f = mapC (\<lambda>args.
     \<lparr>fc_Object = ''Mutation'', fc_IsMethod = True, fc_IsResolver = True,
      fc_Child = object_child ''QRRecord'' [''id'', ''tea'', ''bowlingTemp'', ''expirationDate''],
      fc_Args = args\<rparr>)
     (Mutation_writeToQR_args lb (rf_args f))"

definition fieldContext_Mutation_createTagCategory :: "gql_libs \<Rightarrow> raw_field \<Rightarrow> string field_context call" where
  "fieldContext_Mutation_createTagCategory lb f = mapC (\<lambda>args.
     \<lparr>fc_Object = ''Mutation'', fc_IsMethod = True, fc_IsResolver = True,
      fc_Child = object_child ''TagCategory'' [''id'', ''name'', ''tags''],
      fc_Args = args\<rparr>)
     (Mutation_createTagCategory_args lb (rf_args f))"

definition fieldContext_Mutation_updateTagCategory :: "gql_libs \<Rightarrow> raw_field \<Rightarrow> (uuid \<times> string) field_context call" where
  "fieldContext_Mutation_updateTagCategory lb f = mapC (\<lambda>args.
     \<lparr>fc_Object = ''Mutation'', fc_IsMethod = True, fc_IsResolver = True,
      fc_Child = object_child ''TagCategory'' [''id'', ''name'', ''tags''],
      fc_Args = args\<rparr>)
     (Mutation_updateTagCategory_args lb (rf_args f))"

definition fieldContext_Mutation_deleteTagCategory :: "gql_libs \<Rightarrow> raw_field \<Rightarrow> uuid field_context call" where
  "fieldContext_Mutation_deleteTagCategory lb f = mapC (\<lambda>args.
     \<lparr>fc_Object = ''Mutation'', fc_IsMethod = True, fc_IsResolver = True,
      fc_Child = scalar_child ''ID'',
      fc_Args = args\<rparr>)
     (Mutation_deleteTagCategory_args lb (rf_args f))"

definition fieldContext_Mutation_createTag :: "gql_libs \<Rightarrow> raw_field \<Rightarrow> (string \<times> string \<times> uuid) field_context call" where
  "fieldContext_Mutation_createTag lb f = mapC (\<lambda>args.
     \<lparr>fc_Object = ''Mutation'', fc_IsMethod = True, fc_IsResolver = True,
      fc_Child = object_child ''Tag'' [''id'', ''name'', ''color'', ''category''],
      fc_Args = args\<rparr>)
     (Mutation_createTag_args lb (rf_args f))"

definition fieldContext_Mutation_updateTag :: "gql_libs \<Rightarrow> raw_field \<Rightarrow> (uuid \<times> string \<times> string) field_context call" where
  "fieldContext_Mutation_updateTag lb f = mapC (\<lambda>args.
     \<lparr>fc_Object = ''Mutation'', fc_IsMethod = True, fc_IsResolver = True,
      fc_Child = object_child ''Tag'' [''id'', ''name'', ''color'', ''category''],
      fc_Args = args\<rparr>)
     (Mutation_updateTag_args lb (rf_args f))"

definition fieldContext_Mutation_changeTagCategory :: "gql_libs \<Rightarrow> raw_field \<Rightarrow> (uuid \<times> uuid) field_context call" where
  "fieldContext_Mutation_changeTagCategory lb f = mapC (\<lambda>args.
     \<lparr>fc_Object = ''Mutation'', fc_IsMethod = True, fc_IsResolver = True,
      fc_Child = object_child ''Tag'' [''id'', ''name'', ''color'', ''category''],
      fc_Args = args\<rparr>)
     (Mutation_changeTagCategory_args lb (rf_args f))"

definition fieldContext_Mutation_deleteTag :: "gql_libs \<Rightarrow> raw_field \<Rightarrow> uuid field_context call" where
  "fieldContext_Mutation_deleteTag lb f = mapC (\<lambda>args.
     \<lparr>fc_Object = ''Mutation'', fc_IsMethod = True, fc_IsResolver = True,
      fc_Child = scalar_child ''ID'',
      fc_Args = args\<rparr>)
     (Mutation_deleteTag_args lb (rf_args f))"

definition fieldContext_Mutation_createCollection :: "gql_libs \<Rightarrow> raw_field \<Rightarrow> string field_context call" where
  "fieldContext_Mutation_createCollection lb f = mapC (\<lambda>args.
     \<lparr>fc_Object = ''Mutation'', fc_IsMethod = True, fc_IsResolver = True,
      fc_Child = object_child ''Collection'' [''id'', ''name'', ''userID'', ''records''],
      fc_Args = args\<rparr>)
     (Mutation_createCollection_args lb (rf_args f))"

definition fieldContext_Mutation_addRecordsToCollection :: "gql_libs \<Rightarrow> raw_field \<Rightarrow> (uuid \<times> uuid list) field_context call" where
  "fieldContext_Mutation_addRecordsToCollection lb f = mapC (\<lambda>args.
     \<lparr>fc_Object = ''Mutation'', fc_IsMethod = True, fc_IsResolver = True,
      fc_Child = object_child ''Collection'' [''id'', ''name'', ''userID'', ''records''],
      fc_Args = args\<rparr>)
     (Mutation_addRecordsToCollection_args lb (rf_args f))"

definition fieldContext_Mutation_deleteRecordsFromCollection :: "gql_libs \<Rightarrow> raw_field \<Rightarrow> (uuid \<times> uuid list) field_context call" where
  "fieldContext_Mutation_deleteRecordsFromCollection lb f = mapC (\<lambda>args.
     \<lparr>fc_Object = ''Mutation'', fc_IsMethod = True, fc_IsResolver = True,
      fc_Child = object_child ''Collection'' [''id'', ''name'', ''userID'', ''records''],
      fc_Args = args\<rparr>)
     (Mutation_deleteRecordsFromCollection_args lb (rf_args f))"

definition fieldContext_Mutation_deleteCollection :: "gql_libs \<Rightarrow> raw_field \<Rightarrow> uuid field_context call" where
  "fieldContext_Mutation_deleteCollection lb f = mapC (\<lambda>args.
     \<lparr>fc_Object = ''Mutation'', fc_IsMethod = True, fc_IsResolver = True,
      fc_Child = scalar_child ''ID'',
      fc_Args = args\<rparr>)
     (Mutation_deleteCollection_args lb (rf_args f))"

definition fieldContext_Mutation_registerDeviceToken :: "gql_libs \<Rightarrow> raw_field \<Rightarrow> (uuid \<times> string) field_context call" where
  "fieldContext_Mutation_registerDeviceToken lb f = mapC (\<lambda>args.
     \<lparr>fc_Object = ''Mutation'', fc_IsMethod = True, fc_IsResolver = True,
      fc_Child = scalar_child ''Boolean'',
      fc_Args = args\<rparr>)
     (Mutation_registerDeviceToken_args lb (rf_args f))"

definition fieldContext_Mutation_send :: "unit field_context call" where
  "fieldContext_Mutation_send = Ret (Inr
     \<lparr>fc_Object = ''Mutation'', fc_IsMethod = True, fc_IsResolver = True,
      fc_Child = scalar_child ''Boolean'',
      fc_Args = ()\<rparr>)"

definition fieldContext_Mutation_teaRecommendation :: "gql_libs \<Rightarrow> raw_field \<Rightarrow> (uuid \<times> string) field_context call" where
  "fieldContext_Mutation_teaRecommendation lb f = mapC (\<lambda>args.
     \<lparr>fc_Object = ''Mutation'', fc_IsMethod = True, fc_IsResolver = True,
      fc_Child = scalar_child ''String'',
      fc_Args = args\<rparr>)
     (Mutation_teaRecommendation_args lb (rf_args f))"

section \<open>Fields of Notification\<close>

definition fieldContext_Notification_type :: "unit field_context call" where
  "fieldContext_Notification_type = Ret (Inr
     \<lparr>fc_Object = ''Notification'', fc_IsMethod = False, fc_IsResolver = False,
      fc_Child = scalar_child ''NotificationType'',
      fc_Args = ()\<rparr>)"

section \<open>Fields of QRRecord\<close>

definition fieldContext_QRRecord_id :: "unit field_context call" where
  "fieldContext_QRRecord_id = Ret (Inr
     \<lparr>fc_Object = ''QRRecord'', fc_IsMethod = False, fc_IsResolver = False,
      fc_Child = scalar_child ''ID'',
      fc_Args = ()\<rparr>)"

definition fieldContext_QRRecord_tea :: "unit field_context call" where
  "fieldContext_QRRecord_tea = Ret (Inr
     \<lparr>fc_Object = ''QRRecord'', fc_IsMethod = False, fc_IsResolver = False,
      fc_Child = object_child ''Tea'' [''id'', ''name'', ''type'', ''description'', ''tags''],
      fc_Args = ()\<rparr>)"

definition fieldContext_QRRecord_bowlingTemp :: "unit field_context call" where
  "fieldContext_QRRecord_bowlingTemp = Ret (Inr
     \<lparr>fc_Object = ''QRRecord'', fc_IsMethod = False, fc_IsResolver = False,
      fc_Child = scalar_child ''Int'',
      fc_Args = ()\<rparr>)"

definition fieldContext_QRRecord_expirationDate :: "unit field_context call" where
  "fieldContext_QRRecord_expirationDate = Ret (Inr
     \<lparr>fc_Object = ''QRRecord'', fc_IsMethod = False, fc_IsResolver = False,
      fc_Child = scalar_child ''Date'',
      fc_Args = ()\<rparr>)"

section \<open>Fields of Query\<close>

definition fieldContext_Query_me :: "unit field_context call" where
  "fieldContext_Query_me = Ret (Inr
     \<lparr>fc_Object = ''Query'', fc_IsMethod = True, fc_IsResolver = True,
      fc_Child = object_child ''User'' [''tokenExpiredAt'', ''collections'', ''notifications''],
      fc_Args = ()\<rparr>)"

definition fieldContext_Query_teas :: "gql_libs \<Rightarrow> raw_field \<Rightarrow> (string option) field_context call" where
  "fieldContext_Query_teas lb f = mapC (\<lambda>args.
     \<lparr>fc_Object = ''Query'', fc_IsMethod = True, fc_IsResolver = True,
      fc_Child = object_child ''Tea'' [''id'', ''name'', ''type'', ''description'', ''tags''],
      fc_Args = args\<rparr>)
     (Query_teas_args lb (rf_args f))"

definition fieldContext_Query_tea :: "gql_libs \<Rightarrow> raw_field \<Rightarrow> uuid field_context call" where
  "fieldContext_Query_tea lb f = mapC (\<lambda>args.
     \<lparr>fc_Object = ''Query'', fc_IsMethod = True, fc_IsResolver = True,
      fc_Child = object_child ''Tea'' [''id'', ''name'', ''type'', ''description'', ''tags''],
      fc_Args = args\<rparr>)
     (Query_tea_args lb (rf_args f))"

definition fieldContext_Query_generateDescription :: "gql_libs \<Rightarrow> raw_field \<Rightarrow> string field_context call" where
  "fieldContext_Query_generateDescription lb f = mapC (\<lambda>args.
     \<lparr>fc_Object = ''Query'', fc_IsMethod = True, fc_IsResolver = True,
      fc_Child = scalar_child ''String'',
      fc_Args = args\<rparr>)
     (Query_generateDescription_args lb (rf_args f))"

definition fieldContext_Query_qrRecord :: "gql_libs \<Rightarrow> raw_field \<Rightarrow> uuid field_context call" where
  "fieldContext_Query_qrRecord lb f = mapC (\<lambda>args.
     \<lparr>fc_Object = ''Query'', fc_IsMethod = True, fc_IsResolver = True,
      fc_Child = object_child ''QRRecord'' [''id'', ''tea'', ''bowlingTemp'', ''expirationDate''],
      fc_Args = args\<rparr>)
     (Query_qrRecord_args lb (rf_args f))"

definition fieldContext_Query_tag :: "gql_libs \<Rightarrow> raw_field \<Rightarrow> uuid field_context call" where
  "fieldContext_Query_tag lb f = mapC (\<lambda>args.
     \<lparr>fc_Object = ''Query'', fc_IsMethod = True, fc_IsResolver = True,
      fc_Child = object_child ''Tag'' [''id'', ''name'', ''color'', ''category''],
      fc_Args = args\<rparr>)
     (Query_tag_args lb (rf_args f))"

definition fieldContext_Query_tagsCategories :: "gql_libs \<Rightarrow> raw_field \<Rightarrow> (string option) field_context call" where
  "fieldContext_Query_tagsCategories lb f = mapC (\<lambda>args.
     \<lparr>fc_Object = ''Query'', fc_IsMethod = True, fc_IsResolver = True,
      fc_Child = object_child ''TagCategory'' [''id'', ''name'', ''tags''],
      fc_Args = args\<rparr>)
     (Query_tagsCategories_args lb (rf_args f))"

definition fieldContext_Query_collections :: "unit field_context call" where
  "fieldContext_Query_collections = Ret (Inr
     \<lparr>fc_Object = ''Query'', fc_IsMethod = True, fc_IsResolver = True,
      fc_Child = object_child ''Collection'' [''id'', ''name'', ''userID'', ''records''],
      fc_Args = ()\<rparr>)"

definition fieldContext_Query_teaOfTheDay :: "unit field_context call" where
  "fieldContext_Query_teaOfTheDay = Ret (Inr
     \<lparr>fc_Object = ''Query'', fc_IsMethod = True, fc_IsResolver = True,
      fc_Child = object_child ''TeaOfTheDay'' [''tea'', ''date''],
      fc_Args = ()\<rparr>)"

section \<open>Fields of Session\<close>

definition fieldContext_Session_token :: "unit field_context call" where
  "fieldContext_Session_token = Ret (Inr
     \<lparr>fc_Object = ''Session'', fc_IsMethod = False, fc_IsResolver = False,
      fc_Child = scalar_child ''String'',
      fc_Args = ()\<rparr>)"

definition fieldContext_Session_expiredAt :: "unit field_context call" where
  "fieldContext_Session_expiredAt = Ret (Inr
     \<lparr>fc_Object = ''Session'', fc_IsMethod = False, fc_IsResolver = False,
      fc_Child = scalar_child ''Date'',
      fc_Args = ()\<rparr>)"

section \<open>Fields of Subscription\<close>

definition fieldContext_Subscription_onCreateTea :: "unit field_context call" where
  "fieldContext_Subscription_onCreateTea = Ret (Inr
     \<lparr>fc_Object = ''Subscription'', fc_IsMethod = True, fc_IsResolver = True,
      fc_Child = object_child ''Tea'' [''id'', ''name'', ''type'', ''description'', ''tags''],
      fc_Args = ()\<rparr>)"

definition fieldContext_Subscription_onUpdateTea :: "unit field_context call" where
  "fieldContext_Subscription_onUpdateTea = Ret (Inr
     \<lparr>fc_Object = ''Subscription'', fc_IsMethod = True, fc_IsResolver = True,
      fc_Child = object_child ''Tea'' [''id'', ''name'', ''type'', ''description'', ''tags''],
      fc_Args = ()\<rparr>)"

definition fieldContext_Subscription_onDeleteTea :: "unit field_context call" where
  "fieldContext_Subscription_onDeleteTea = Ret (Inr
     \<lparr>fc_Object = ''Subscription'', fc_IsMethod = True, fc_IsResolver = True,
      fc_Child = scalar_child ''ID'',
      fc_Args = ()\<rparr>)"

definition fieldContext_Subscription_onCreateTagCategory :: "unit field_context call" where
  "fieldContext_Subscription_onCreateTagCategory = Ret (Inr
     \<lparr>fc_Object = ''Subscription'', fc_IsMethod = True, fc_IsResolver = True,
      fc_Child = object_child ''TagCategory'' [''id'', ''name'', ''tags''],
      fc_Args = ()\<rparr>)"

definition fieldContext_Subscription_onUpdateTagCategory :: "unit field_context call" where
  "fieldContext_Subscription_onUpdateTagCategory = Ret (Inr
     \<lparr>fc_Object = ''Subscription'', fc_IsMethod = True, fc_IsResolver = True,
      fc_Child = object_child ''TagCategory'' [''id'', ''name'', ''tags''],
      fc_Args = ()\<rparr>)"

definition fieldContext_Subscription_onDeleteTagCategory :: "unit field_context call" where
  "fieldContext_Subscription_onDeleteTagCategory = Ret (Inr
     \<lparr>fc_Object = ''Subscription'', fc_IsMethod = True, fc_IsResolver = True,
      fc_Child = scalar_child ''ID'',
      fc_Args = ()\<rparr>)"

definition fieldContext_Subscription_onCreateTag :: "unit field_context call" where
  "fieldContext_Subscription_onCreateTag = Ret (Inr
     \<lparr>fc_Object = ''Subscription'', fc_IsMethod = True, fc_IsResolver = True,
      fc_Child = object_child ''Tag'' [''id'', ''name'', ''color'', ''category''],
      fc_Args = ()\<rparr>)"

definition fieldContext_Subscription_onUpdateTag :: "unit field_context call" where
  "fieldContext_Subscription_onUpdateTag = Ret (Inr
     \<lparr>fc_Object = ''Subscription'', fc_IsMethod = True, fc_IsResolver = True,
      fc_Child = object_child ''Tag'' [''id'', ''name'', ''color'', ''category''],
      fc_Args = ()\<rparr>)"

definition fieldContext_Subscription_onDeleteTag :: "unit field_context call" where
  "fieldContext_Subscription_onDeleteTag = Ret (Inr
     \<lparr>fc_Object = ''Subscription'', fc_IsMethod = True, fc_IsResolver = True,
      fc_Child = scalar_child ''ID'',
      fc_Args = ()\<rparr>)"

definition fieldContext_Subscription_onAddTagToTea :: "unit field_context call" where
  "fieldContext_Subscription_onAddTagToTea = Ret (Inr
     \<lparr>fc_Object = ''Subscription'', fc_IsMethod = True, fc_IsResolver = True,
      fc_Child = object_child ''Tea'' [''id'', ''name'', ''type'', ''description'', ''tags''],
      fc_Args = ()\<rparr>)"

definition fieldContext_Subscription_onDeleteTagFromTea :: "unit field_context call" where
  "fieldContext_Subscription_onDeleteTagFromTea = Ret (Inr
     \<lparr>fc_Object = ''Subscription'', fc_IsMethod = True, fc_IsResolver = True,
      fc_Child = object_child ''Tea'' [''id'', ''name'', ''type'', ''description'', ''tags''],
      fc_Args = ()\<rparr>)"

definition fieldContext_Subscription_startGenerateDescription :: "gql_libs \<Rightarrow> raw_field \<Rightarrow> string field_context call" where
  "fieldContext_Subscription_startGenerateDescription lb f = mapC (\<lambda>args.
     \<lparr>fc_Object = ''Subscription'', fc_IsMethod = True, fc_IsResolver = True,
      fc_Child = scalar_child ''String'',
      fc_Args = args\<rparr>)
     (Subscription_startGenerateDescription_args lb (rf_args f))"

definition fieldContext_Subscription_recommendTea :: "gql_libs \<Rightarrow> raw_field \<Rightarrow> (uuid \<times> string) field_context call" where
  "fieldContext_Subscription_recommendTea lb f = mapC (\<lambda>args.
     \<lparr>fc_Object = ''Subscription'', fc_IsMethod = True, fc_IsResolver = True,
      fc_Child = scalar_child ''String'',
      fc_Args = args\<rparr>)
     (Subscription_recommendTea_args lb (rf_args f))"

section \<open>Fields of Tag\<close>

definition fieldContext_Tag_id :: "unit field_context call" where
  "fieldContext_Tag_id = Ret (Inr
     \<lparr>fc_Object = ''Tag'', fc_IsMethod = False, fc_IsResolver = False,
      fc_Child = scalar_child ''ID'',
      fc_Args = ()\<rparr>)"

definition fieldContext_Tag_name :: "unit field_context call" where
  "fieldContext_Tag_name = Ret (Inr
     \<lparr>fc_Object = ''Tag'', fc_IsMethod = False, fc_IsResolver = False,
      fc_Child = scalar_child ''String'',
      fc_Args = ()\<rparr>)"

definition fieldContext_Tag_color :: "unit field_context call" where
  "fieldContext_Tag_color = Ret (Inr
     \<lparr>fc_Object = ''Tag'', fc_IsMethod = False, fc_IsResolver = False,
      fc_Child = scalar_child ''String'',
      fc_Args = ()\<rparr>)"

definition fieldContext_Tag_category :: "unit field_context call" where
  "fieldContext_Tag_category = Ret (Inr
     \<lparr>fc_Object = ''Tag'', fc_IsMethod = True, fc_IsResolver = True,
      fc_Child = object_child ''TagCategory'' [''id'', ''name'', ''tags''],
      fc_Args = ()\<rparr>)"

section \<open>Fields of TagCategory\<close>

definition fieldContext_TagCategory_id :: "unit field_context call" where
  "fieldContext_TagCategory_id = Ret (Inr
     \<lparr>fc_Object = ''TagCategory'', fc_IsMethod = False, fc_IsResolver = False,
      fc_Child = scalar_child ''ID'',
      fc_Args = ()\<rparr>)"

definition fieldContext_TagCategory_name :: "unit field_context call" where
  "fieldContext_TagCategory_name = Ret (Inr
     \<lparr>fc_Object = ''TagCategory'', fc_IsMethod = False, fc_IsResolver = False,
      fc_Child = scalar_child ''String'',
      fc_Args = ()\<rparr>)"

definition fieldContext_TagCategory_tags :: "gql_libs \<Rightarrow> raw_field \<Rightarrow> (string option) field_context call" where
  "fieldContext_TagCategory_tags lb f = mapC (\<lambda>args.
     \<lparr>fc_Object = ''TagCategory'', fc_IsMethod = True, fc_IsResolver = True,
      fc_Child = object_child ''Tag'' [''id'', ''name'', ''color'', ''category''],
      fc_Args = args\<rparr>)
     (TagCategory_tags_args lb (rf_args f))"

section \<open>Fields of Tea\<close>

definition fieldContext_Tea_id :: "unit field_context call" where
  "fieldContext_Tea_id = Ret (Inr
     \<lparr>fc_Object = ''Tea'', fc_IsMethod = False, fc_IsResolver = False,
      fc_Child = scalar_child ''ID'',
      fc_Args = ()\<rparr>)"

definition fieldContext_Tea_name :: "unit field_context call" where
  "fieldContext_Tea_name = Ret (Inr
     \<lparr>fc_Object = ''Tea'', fc_IsMethod = False, fc_IsResolver = False,
      fc_Child = scalar_child ''String'',
      fc_Args = ()\<rparr>)"

definition fieldContext_Tea_type :: "unit field_context call" where
  "fieldContext_Tea_type = Ret (Inr
     \<lparr>fc_Object = ''Tea'', fc_IsMethod = False, fc_IsResolver = False,
      fc_Child = scalar_child ''Type'',
      fc_Args = ()\<rparr>)"

definition fieldContext_Tea_description :: "unit field_context call" where
  "fieldContext_Tea_description = Ret (Inr
     \<lparr>fc_Object = ''Tea'', fc_IsMethod = False, fc_IsResolver = False,
      fc_Child = scalar_child ''String'',
      fc_Args = ()\<rparr>)"

definition fieldContext_Tea_tags :: "unit field_context call" where
  "fieldContext_Tea_tags = Ret (Inr
     \<lparr>fc_Object = ''Tea'', fc_IsMethod = True, fc_IsResolver = True,
      fc_Child = object_child ''Tag'' [''id'', ''name'', ''color'', ''category''],
      fc_Args = ()\<rparr>)"

section \<open>Fields of TeaOfTheDay\<close>

definition fieldContext_TeaOfTheDay_tea :: "unit field_context call" where
  "fieldContext_TeaOfTheDay_tea = Ret (Inr
     \<lparr>fc_Object = ''TeaOfTheDay'', fc_IsMethod = False, fc_IsResolver = False,
      fc_Child = object_child ''QRRecord'' [''id'', ''tea'', ''bowlingTemp'', ''expirationDate''],
      fc_Args = ()\<rparr>)"

definition fieldContext_TeaOfTheDay_date :: "unit field_context call" where
  "fieldContext_TeaOfTheDay_date = Ret (Inr
     \<lparr>fc_Object = ''TeaOfTheDay'', fc_IsMethod = False, fc_IsResolver = False,
      fc_Child = scalar_child ''Date'',
      fc_Args = ()\<rparr>)"

section \<open>Fields of User\<close>

definition fieldContext_User_tokenExpiredAt :: "unit field_context call" where
  "fieldContext_User_tokenExpiredAt = Ret (Inr
     \<lparr>fc_Object = ''User'', fc_IsMethod = False, fc_IsResolver = False,
      fc_Child = scalar_child ''Date'',
      fc_Args = ()\<rparr>)"

definition fieldContext_User_collections :: "unit field_context call" where
  "fieldContext_User_collections = Ret (Inr
     \<lparr>fc_Object = ''User'', fc_IsMethod = True, fc_IsResolver = True,
      fc_Child = object_child ''Collection'' [''id'', ''name'', ''userID'', ''records''],
      fc_Args = ()\<rparr>)"

definition fieldContext_User_notifications :: "unit field_context call" where
  "fieldContext_User_notifications = Ret (Inr
     \<lparr>fc_Object = ''User'', fc_IsMethod = True, fc_IsResolver = True,
      fc_Child = object_child ''Notification'' [''type''],
      fc_Args = ()\<rparr>)"

section \<open>The contexts and the schema\<close>

lemmas field_context_defs =
  fieldContext_Collection_id_def fieldContext_Collection_name_def
  fieldContext_Collection_userID_def fieldContext_Collection_records_def
  fieldContext_Mutation_authApple_def fieldContext_Mutation_newTea_def
  fieldContext_Mutation_updateTea_def fieldContext_Mutation_addTagToTea_def
  fieldContext_Mutation_deleteTagFromTea_def fieldContext_Mutation_deleteTea_def
  fieldContext_Mutation_writeToQR_def fieldContext_Mutation_createTagCategory_def
  fieldContext_Mutation_updateTagCategory_def fieldContext_Mutation_deleteTagCategory_def
  fieldContext_Mutation_createTag_def fieldContext_Mutation_updateTag_def
  fieldContext_Mutation_changeTagCategory_def fieldContext_Mutation_deleteTag_def
  fieldContext_Mutation_createCollection_def fieldContext_Mutation_addRecordsToCollection_def
  fieldContext_Mutation_deleteRecordsFromCollection_def fieldContext_Mutation_deleteCollection_def
  fieldContext_Mutation_registerDeviceToken_def fieldContext_Mutation_send_def
  fieldContext_Mutation_teaRecommendation_def fieldContext_Notification_type_def
  fieldContext_QRRecord_id_def fieldContext_QRRecord_tea_def fieldContext_QRRecord_bowlingTemp_def
  fieldContext_QRRecord_expirationDate_def fieldContext_Query_me_def fieldContext_Query_teas_def
  fieldContext_Query_tea_def fieldContext_Query_generateDescription_def
  fieldContext_Query_qrRecord_def fieldContext_Query_tag_def fieldContext_Query_tagsCategories_def
  fieldContext_Query_collections_def fieldContext_Query_teaOfTheDay_def
  fieldContext_Session_token_def fieldContext_Session_expiredAt_def
  fieldContext_Subscription_onCreateTea_def fieldContext_Subscription_onUpdateTea_def
  fieldContext_Subscription_onDeleteTea_def fieldContext_Subscription_onCreateTagCategory_def
  fieldContext_Subscription_onUpdateTagCategory_def
  fieldContext_Subscription_onDeleteTagCategory_def fieldContext_Subscription_onCreateTag_def
  fieldContext_Subscription_onUpdateTag_def fieldContext_Subscription_onDeleteTag_def
  fieldContext_Subscription_onAddTagToTea_def fieldContext_Subscription_onDeleteTagFromTea_def
  fieldContext_Subscription_startGenerateDescription_def fieldContext_Subscription_recommendTea_def
  fieldContext_Tag_id_def fieldContext_Tag_name_def fieldContext_Tag_color_def
  fieldContext_Tag_category_def fieldContext_TagCategory_id_def fieldContext_TagCategory_name_def
  fieldContext_TagCategory_tags_def fieldContext_Tea_id_def fieldContext_Tea_name_def
  fieldContext_Tea_type_def fieldContext_Tea_description_def fieldContext_Tea_tags_def
  fieldContext_TeaOfTheDay_tea_def fieldContext_TeaOfTheDay_date_def
  fieldContext_User_tokenExpiredAt_def fieldContext_User_collections_def
  fieldContext_User_notifications_def

text \<open>
  A context is right for a field of the schema: it is on the type, resolved by a method exactly if it
  is a resolver, and below it exactly the fields can be selected that its type has.
\<close>

definition context_ok :: "string \<Rightarrow> string \<Rightarrow> 'p field_context call \<Rightarrow> bool" where
  "context_ok t f c \<longleftrightarrow>
     (\<forall>fc. c = Ret (Inr fc) \<longrightarrow>
        fc_Object fc = t \<and> (fc_IsMethod fc \<longleftrightarrow> fc_IsResolver fc) \<and>
        (case map_of schema t of
           None \<Rightarrow> False
         | Some fs \<Rightarrow>
             (case map_of fs f of
                None \<Rightarrow> False
              | Some r \<Rightarrow>
                  (\<forall>n. fc_Child fc n =
                     (case map_of schema (base_type r) of
                        None \<Rightarrow> scalar_child (base_type r) n
                      | Some gs \<Rightarrow> object_child (base_type r) (map fst gs) n)))))"

lemma context_ok_Ret:
  "context_ok t f (Ret (Inr fc)) \<longleftrightarrow>
     fc_Object fc = t \<and> (fc_IsMethod fc \<longleftrightarrow> fc_IsResolver fc) \<and>
     (case map_of schema t of
        None \<Rightarrow> False
      | Some fs \<Rightarrow>
          (case map_of fs f of
             None \<Rightarrow> False
           | Some r \<Rightarrow>
               (\<forall>n. fc_Child fc n =
                  (case map_of schema (base_type r) of
                     None \<Rightarrow> scalar_child (base_type r) n
                   | Some gs \<Rightarrow> object_child (base_type r) (map fst gs) n))))"
  by (simp add: context_ok_def)

lemma context_ok_mapC:
  assumes "\<And>p. context_ok t f (Ret (Inr (g p)))"
  shows "context_ok t f (mapC g c)"
proof -
  have "\<exists>p. fc = g p" if "mapC g c = Ret (Inr fc)" for fc
    using that by (auto simp: mapC_def bindC_def split: call.splits sum.splits)
  with assms show ?thesis unfolding context_ok_def by blast
qed

lemma Collection_contexts_ok:
  "context_ok ''Collection'' ''id'' fieldContext_Collection_id"
  "context_ok ''Collection'' ''name'' fieldContext_Collection_name"
  "context_ok ''Collection'' ''userID'' fieldContext_Collection_userID"
  "context_ok ''Collection'' ''records'' fieldContext_Collection_records"
  by (simp_all add: field_context_defs context_ok_Ret schema_def)

lemma Mutation_contexts_ok:
  "context_ok ''Mutation'' ''authApple'' (fieldContext_Mutation_authApple lb f)"
  "context_ok ''Mutation'' ''newTea'' (fieldContext_Mutation_newTea lb f)"
  "context_ok ''Mutation'' ''updateTea'' (fieldContext_Mutation_updateTea lb f)"
  "context_ok ''Mutation'' ''addTagToTea'' (fieldContext_Mutation_addTagToTea lb f)"
  "context_ok ''Mutation'' ''deleteTagFromTea'' (fieldContext_Mutation_deleteTagFromTea lb f)"
  "context_ok ''Mutation'' ''deleteTea'' (fieldContext_Mutation_deleteTea lb f)"
  "context_ok ''Mutation'' ''writeToQR'' (fieldContext_Mutation_writeToQR lb f)"
  "context_ok ''Mutation'' ''createTagCategory'' (fieldContext_Mutation_createTagCategory lb f)"
  "context_ok ''Mutation'' ''updateTagCategory'' (fieldContext_Mutation_updateTagCategory lb f)"
  "context_ok ''Mutation'' ''deleteTagCategory'' (fieldContext_Mutation_deleteTagCategory lb f)"
  "context_ok ''Mutation'' ''createTag'' (fieldContext_Mutation_createTag lb f)"
  "context_ok ''Mutation'' ''updateTag'' (fieldContext_Mutation_updateTag lb f)"
  "context_ok ''Mutation'' ''changeTagCategory'' (fieldContext_Mutation_changeTagCategory lb f)"
  "context_ok ''Mutation'' ''deleteTag'' (fieldContext_Mutation_deleteTag lb f)"
  "context_ok ''Mutation'' ''createCollection'' (fieldContext_Mutation_createCollection lb f)"
  "context_ok ''Mutation'' ''addRecordsToCollection'' (fieldContext_Mutation_addRecordsToCollection lb f)"
  "context_ok ''Mutation'' ''deleteRecordsFromCollection'' (fieldContext_Mutation_deleteRecordsFromCollection lb f)"
  "context_ok ''Mutation'' ''deleteCollection'' (fieldContext_Mutation_deleteCollection lb f)"
  "context_ok ''Mutation'' ''registerDeviceToken'' (fieldContext_Mutation_registerDeviceToken lb f)"
  "context_ok ''Mutation'' ''send'' fieldContext_Mutation_send"
  "context_ok ''Mutation'' ''teaRecommendation'' (fieldContext_Mutation_teaRecommendation lb f)"
  by (simp_all add: field_context_defs context_ok_mapC context_ok_Ret schema_def)

lemma Notification_contexts_ok:
  "context_ok ''Notification'' ''type'' fieldContext_Notification_type"
  by (simp_all add: field_context_defs context_ok_Ret schema_def)

lemma QRRecord_contexts_ok:
  "context_ok ''QRRecord'' ''id'' fieldContext_QRRecord_id"
  "context_ok ''QRRecord'' ''tea'' fieldContext_QRRecord_tea"
  "context_ok ''QRRecord'' ''bowlingTemp'' fieldContext_QRRecord_bowlingTemp"
  "context_ok ''QRRecord'' ''expirationDate'' fieldContext_QRRecord_expirationDate"
  by (simp_all add: field_context_defs context_ok_Ret schema_def)

lemma Query_contexts_ok:
  "context_ok ''Query'' ''me'' fieldContext_Query_me"
  "context_ok ''Query'' ''teas'' (fieldContext_Query_teas lb f)"
  "context_ok ''Query'' ''tea'' (fieldContext_Query_tea lb f)"
  "context_ok ''Query'' ''generateDescription'' (fieldContext_Query_generateDescription lb f)"
  "context_ok ''Query'' ''qrRecord'' (fieldContext_Query_qrRecord lb f)"
  "context_ok ''Query'' ''tag'' (fieldContext_Query_tag lb f)"
  "context_ok ''Query'' ''tagsCategories'' (fieldContext_Query_tagsCategories lb f)"
  "context_ok ''Query'' ''collections'' fieldContext_Query_collections"
  "context_ok ''Query'' ''teaOfTheDay'' fieldContext_Query_teaOfTheDay"
  by (simp_all add: field_context_defs context_ok_mapC context_ok_Ret schema_def)

lemma Session_contexts_ok:
  "context_ok ''Session'' ''token'' fieldContext_Session_token"
  "context_ok ''Session'' ''expiredAt'' fieldContext_Session_expiredAt"
  by (simp_all add: field_context_defs context_ok_Ret schema_def)

lemma Subscription_contexts_ok:
  "context_ok ''Subscription'' ''onCreateTea'' fieldContext_Subscription_onCreateTea"
  "context_ok ''Subscription'' ''onUpdateTea'' fieldContext_Subscription_onUpdateTea"
  "context_ok ''Subscription'' ''onDeleteTea'' fieldContext_Subscription_onDeleteTea"
  "context_ok ''Subscription'' ''onCreateTagCategory'' fieldContext_Subscription_onCreateTagCategory"
  "context_ok ''Subscription'' ''onUpdateTagCategory'' fieldContext_Subscription_onUpdateTagCategory"
  "context_ok ''Subscription'' ''onDeleteTagCategory'' fieldContext_Subscription_onDeleteTagCategory"
  "context_ok ''Subscription'' ''onCreateTag'' fieldContext_Subscription_onCreateTag"
  "context_ok ''Subscription'' ''onUpdateTag'' fieldContext_Subscription_onUpdateTag"
  "context_ok ''Subscription'' ''onDeleteTag'' fieldContext_Subscription_onDeleteTag"
  "context_ok ''Subscription'' ''onAddTagToTea'' fieldContext_Subscription_onAddTagToTea"
  "context_ok ''Subscription'' ''onDeleteTagFromTea'' fieldContext_Subscription_onDeleteTagFromTea"
  "context_ok ''Subscription'' ''startGenerateDescription'' (fieldContext_Subscription_startGenerateDescription lb f)"
  "context_ok ''Subscription'' ''recommendTea'' (fieldContext_Subscription_recommendTea lb f)"
  by (simp_all add: field_context_defs context_ok_mapC context_ok_Ret schema_def)

lemma Tag_contexts_ok:
  "context_ok ''Tag'' ''id'' fieldContext_Tag_id"
  "context_ok ''Tag'' ''name'' fieldContext_Tag_name"
  "context_ok ''Tag'' ''color'' fieldContext_Tag_color"
  "context_ok ''Tag'' ''category'' fieldContext_Tag_category"
  by (simp_all add: field_context_defs context_ok_Ret schema_def)

lemma TagCategory_contexts_ok:
  "context_ok ''TagCategory'' ''id'' fieldContext_TagCategory_id"
  "context_ok ''TagCategory'' ''name'' fieldContext_TagCategory_name"
  "context_ok ''TagCategory'' ''tags'' (fieldContext_TagCategory_tags lb f)"
  by (simp_all add: field_context_defs context_ok_mapC context_ok_Ret schema_def)

lemma Tea_contexts_ok:
  "context_ok ''Tea'' ''id'' fieldContext_Tea_id"
  "context_ok ''Tea'' ''name'' fieldContext_Tea_name"
  "context_ok ''Tea'' ''type'' fieldContext_Tea_type"
  "context_ok ''Tea'' ''description'' fieldContext_Tea_description"
  "context_ok ''Tea'' ''tags'' fieldContext_Tea_tags"
  by (simp_all add: field_context_defs context_ok_Ret schema_def)

lemma TeaOfTheDay_contexts_ok:
  "context_ok ''TeaOfTheDay'' ''tea'' fieldContext_TeaOfTheDay_tea"
  "context_ok ''TeaOfTheDay'' ''date'' fieldContext_TeaOfTheDay_date"
  by (simp_all add: field_context_defs context_ok_Ret schema_def)

lemma User_contexts_ok:
  "context_ok ''User'' ''tokenExpiredAt'' fieldContext_User_tokenExpiredAt"
  "context_ok ''User'' ''collections'' fieldContext_User_collections"
  "context_ok ''User'' ''notifications'' fieldContext_User_notifications"
  by (simp_all add: field_context_defs context_ok_Ret schema_def)

end
