(* ===== verification/Field_Execution.thy ===== *)
theory Field_Execution
  imports Field_Contexts
begin

text \<open>
  What every function of the generated code is made of (\<open>pkg/api/v2/graphql/generated/generated.go\<close>):
  an object written field by field that may panic on an unknown field, the \<open>recover\<close> of fields and
  of the elements of slices, the body of the function of a field, and the scalars all objects
  share.
\<close>

section \<open>Panics and null\<close>

text \<open>
  Writing an object completes, or panics on a field the object does not have. What was run before
  the panic has had its effects and its errors; its value is dropped.
\<close>

datatype 'c body = Completes "'c ex" | Panics "'c ex"

text \<open>The deferred \<open>recover\<close> of a field or of an element of a slice.\<close>

definition recovered :: "'c body \<Rightarrow> 'c ex" where
  "recovered b =
     (case b of
        Completes e \<Rightarrow> e
      | Panics e \<Rightarrow> (\<lambda>a.
          (case e a of
             (None, a') \<Rightarrow> (None, a')
           | (Some (_, ers), a') \<Rightarrow> (Some (GNull, ers @ [Recovered]), a'))))"

text \<open>
  The fields of an object in their order, each with whether it is run concurrently after the
  loop. \<open>None\<close> is the panic of the \<open>default\<close> case: the fields before it that are run in the loop
  itself have been run.
\<close>

type_synonym 'c entry = "bool \<times> 'c slot"

definition run_before :: "'c entry option list \<Rightarrow> 'c ex" where
  "run_before es a =
     (case run_all (map (\<lambda>(_, _, _, e). e) (filter (Not \<circ> fst) (map the (takeWhile (\<lambda>e. e \<noteq> None) es)))) a of
        (None, a') \<Rightarrow> (None, a')
      | (Some (_, ers), a') \<Rightarrow> (Some (GNull, ers), a'))"

definition object_body :: "'c entry option list \<Rightarrow> 'c body" where
  "object_body es =
     (if None \<in> set es then Panics (run_before es) else Completes (objectX (map (snd \<circ> the) es)))"

text \<open>
  The elements of a slice, each with a \<open>recover\<close> of its own that drops the whole slice: a slice
  of which an element panicked is empty.
\<close>

definition slice_body :: "'c body list \<Rightarrow> 'c body" where
  "slice_body bs = Completes
     (if \<forall>b \<in> set bs. \<exists>e. b = Completes e then listX (map recovered bs)
      else (\<lambda>a. (case run_all (map recovered bs) a of
                  (None, a') \<Rightarrow> (None, a')
                | (Some (_, ers), a') \<Rightarrow> (Some (GList [], ers), a'))))"

text \<open>The body of the function of a field: its context, its resolver, the marshalling of the result.\<close>

definition fieldX :: "'p field_context call \<Rightarrow> ('p \<Rightarrow> ('c, 'a) resolver) \<Rightarrow> ('a \<Rightarrow> 'c body) \<Rightarrow> 'c ex" where
  "fieldX fc res marshal = with_args fc (\<lambda>fc. resolveX (res (fc_Args fc)) (\<lambda>v. recovered (marshal v)))"

section \<open>Scalars\<close>

definition marshalNString :: "string \<Rightarrow> 'c body" where
  "marshalNString v = Completes (answerX (GText v))"

definition marshalNBoolean :: "bool \<Rightarrow> 'c body" where
  "marshalNBoolean v = Completes (answerX (GBoolean v))"

section \<open>Running them\<close>

lemma recovered_Completes [simp]: "recovered (Completes e) = e"
  by (simp add: recovered_def)

lemma recovered_option [simp]:
  "recovered (case v of None \<Rightarrow> Completes e | Some y \<Rightarrow> Completes (g y)) = (case v of None \<Rightarrow> e | Some y \<Rightarrow> g y)"
  by (simp split: option.split)

lemma fieldX_Ret: "fieldX (Ret (Inr fc)) res m = resolveX (res (fc_Args fc)) (\<lambda>v. recovered (m v))"
  by (simp add: fieldX_def with_args_def)

lemma fieldX_mapC:
  "fieldX (mapC g c) res m = with_args c (\<lambda>p. resolveX (res (fc_Args (g p))) (\<lambda>v. recovered (m v)))"
  by (simp add: fieldX_def with_args_def mapC_def bindC_def fun_eq_iff split: call.split sum.split)

lemma resolveX_okR [simp]: "resolveX (okR v) k = k v"
  by (simp add: resolveX_def okR_def fun_eq_iff)

lemma slice_body_Completes: "slice_body (map (\<lambda>v. Completes (g v)) vs) = Completes (listX (map g vs))"
  by (simp add: slice_body_def comp_def)

lemma object_body_Completes:
  assumes "those (map r sel) = Some ss"
    and "\<And>f s. f \<in> set sel \<Longrightarrow> r f = Some s \<Longrightarrow> \<exists>d. g f = Some (d, h s)"
  shows "object_body (map g sel) = Completes (objectX (map h ss))"
proof -
  have "None \<notin> set (map g sel) \<and> map (snd \<circ> the) (map g sel) = map h ss"
    using assms
  proof (induction sel arbitrary: ss)
    case (Cons f sel)
    from Cons.prems(1) obtain s ts where s: "r f = Some s" "those (map r sel) = Some ts" "ss = s # ts"
      by (auto split: option.splits)
    moreover obtain d where "g f = Some (d, h s)" using Cons.prems(2) [of f s] s(1) by auto
    ultimately show ?case using Cons.IH [OF s(2)] Cons.prems(2) by auto
  qed simp
  then show ?thesis by (simp add: object_body_def)
qed

end
