(* ===== verification/Introspection.thy ===== *)
theory Introspection
  imports Field_Execution
begin

text \<open>
  Introspection: the fields \<open>__schema\<close> and \<open>__type\<close> of a query and the functions of the objects
  below them (\<open>___Type\<close>, \<open>___Field\<close>, \<open>___InputValue\<close>, \<open>___EnumValue\<close>, \<open>___Directive\<close>,
  \<open>___Schema\<close> in \<open>pkg/api/v2/graphql/generated/generated.go\<close>), in the shape of the theory
  \<open>Generated_Code\<close>. The objects are those of \<open>gqlgen/graphql/introspection\<close>: a type is known by
  its methods only, the other objects by what their fields and methods answer. The lemmas show
  that the answer is the projection of these objects on the selection, that no introspection,
  valid or not, reads or writes anything of the running process, and what is left of it when it
  is switched off.
\<close>

section \<open>The objects of the library\<close>

text \<open>
  Pointers that may be nil and slices that are nil for some types are options. \<open>'ty\<close> stands for
  \<open>introspection.Type\<close>, which is cyclic: its methods are functions of the library.
\<close>

record 'ty intro_input =
  iiv_Name :: string
  iiv_Description :: "string option"
  iiv_DefaultValue :: "string option"
  iiv_Type :: "'ty option"
  iiv_IsDeprecated :: bool
  iiv_DeprecationReason :: "string option"

record 'ty intro_field =
  ifl_Name :: string
  ifl_Description :: "string option"
  ifl_Args :: "'ty intro_input list"
  ifl_Type :: "'ty option"
  ifl_IsDeprecated :: bool
  ifl_DeprecationReason :: "string option"

record intro_enum =
  iev_Name :: string
  iev_Description :: "string option"
  iev_IsDeprecated :: bool
  iev_DeprecationReason :: "string option"

record 'ty intro_directive =
  idr_Name :: string
  idr_Description :: "string option"
  idr_Locations :: "string list"
  idr_Args :: "'ty intro_input list"
  idr_IsRepeatable :: bool

record 'ty intro_schema =
  isc_Description :: "string option"
  isc_Types :: "'ty list"
  isc_QueryType :: "'ty option"
  isc_MutationType :: "'ty option"
  isc_SubscriptionType :: "'ty option"
  isc_Directives :: "'ty intro_directive list"

text \<open>
  \<open>DisableIntrospection\<close> is the flag of the operation; the schema and the types by name are what
  \<open>WrapSchema\<close> and \<open>WrapTypeFromDef\<close> make of the parsed schema.
\<close>

record 'ty intro_libs =
  DisableIntrospection :: bool
  WrapSchema :: "'ty intro_schema"
  WrapTypeFromDef :: "string \<Rightarrow> 'ty option"
  UnmarshalBoolean :: "go_any \<Rightarrow> gerr + bool"
  Type_Kind :: "'ty \<Rightarrow> string"
  Type_Name :: "'ty \<Rightarrow> string option"
  Type_Description :: "'ty \<Rightarrow> string option"
  Type_SpecifiedByURL :: "'ty \<Rightarrow> string option"
  Type_Fields :: "'ty \<Rightarrow> bool \<Rightarrow> 'ty intro_field list option"
  Type_Interfaces :: "'ty \<Rightarrow> 'ty list option"
  Type_PossibleTypes :: "'ty \<Rightarrow> 'ty list option"
  Type_EnumValues :: "'ty \<Rightarrow> bool \<Rightarrow> intro_enum list option"
  Type_InputFields :: "'ty \<Rightarrow> 'ty intro_input list option"
  Type_OfType :: "'ty \<Rightarrow> 'ty option"
  Type_IsOneOf :: "'ty \<Rightarrow> bool"

section \<open>Arguments\<close>

definition unmarshalOBoolean :: "'ty intro_libs \<Rightarrow> go_any \<Rightarrow> bool call" where
  "unmarshalOBoolean il v = Ret (UnmarshalBoolean il v)"

definition unmarshalOBoolean_ptr :: "'ty intro_libs \<Rightarrow> go_any \<Rightarrow> bool option call" where
  "unmarshalOBoolean_ptr il v =
     (if v = ANil then Ret (Inr None)
      else Ret (case UnmarshalBoolean il v of Inl e \<Rightarrow> Inl e | Inr b \<Rightarrow> Inr (Some b)))"

definition unmarshalN__TypeKind :: "gql_libs \<Rightarrow> go_any \<Rightarrow> string call" where
  "unmarshalN__TypeKind lb v = Ret (UnmarshalString lb v)"

definition unmarshalN__DirectiveLocation :: "gql_libs \<Rightarrow> go_any \<Rightarrow> string call" where
  "unmarshalN__DirectiveLocation lb v = Ret (UnmarshalString lb v)"

fun unmarshal_locations :: "gql_libs \<Rightarrow> go_any list \<Rightarrow> string list call" where
  "unmarshal_locations lb [] = Ret (Inr [])"
| "unmarshal_locations lb (v # vs) =
     bindC (unmarshalN__DirectiveLocation lb v) (\<lambda>s.
       bindC (unmarshal_locations lb vs) (\<lambda>ss. Ret (Inr (s # ss))))"

definition unmarshalN__DirectiveLocation_slice :: "gql_libs \<Rightarrow> go_any \<Rightarrow> string list call" where
  "unmarshalN__DirectiveLocation_slice lb v = unmarshal_locations lb (CoerceList lb v)"

definition field_Query___type_args :: "gql_libs \<Rightarrow> raw_args \<Rightarrow> string call" where
  "field_Query___type_args lb raw = argString lb raw ''name''"

definition field___Directive_args_args :: "gql_libs \<Rightarrow> 'ty intro_libs \<Rightarrow> raw_args \<Rightarrow> bool option call" where
  "field___Directive_args_args lb il raw = arg_field lb None (unmarshalOBoolean_ptr il) raw ''includeDeprecated''"

definition field___Field_args_args :: "gql_libs \<Rightarrow> 'ty intro_libs \<Rightarrow> raw_args \<Rightarrow> bool option call" where
  "field___Field_args_args lb il raw = arg_field lb None (unmarshalOBoolean_ptr il) raw ''includeDeprecated''"

definition field___Type_enumValues_args :: "gql_libs \<Rightarrow> 'ty intro_libs \<Rightarrow> raw_args \<Rightarrow> bool call" where
  "field___Type_enumValues_args lb il raw = arg_field lb False (unmarshalOBoolean il) raw ''includeDeprecated''"

definition field___Type_fields_args :: "gql_libs \<Rightarrow> 'ty intro_libs \<Rightarrow> raw_args \<Rightarrow> bool call" where
  "field___Type_fields_args lb il raw = arg_field lb False (unmarshalOBoolean il) raw ''includeDeprecated''"

lemmas intro_args_defs =
  field_Query___type_args_def field___Directive_args_args_def field___Field_args_args_def
  field___Type_enumValues_args_def field___Type_fields_args_def

section \<open>Marshalling\<close>

definition marshalOBoolean :: "bool \<Rightarrow> 'c body" where
  "marshalOBoolean v = Completes (answerX (GBoolean v))"

definition marshalOBoolean_ptr :: "bool option \<Rightarrow> 'c body" where
  "marshalOBoolean_ptr v = Completes (answerX (case v of None \<Rightarrow> GNull | Some b \<Rightarrow> GBoolean b))"

definition marshalOString_ptr :: "string option \<Rightarrow> 'c body" where
  "marshalOString_ptr v = Completes (answerX (case v of None \<Rightarrow> GNull | Some s \<Rightarrow> GText s))"

definition marshalN__TypeKind :: "string \<Rightarrow> 'c body" where
  "marshalN__TypeKind v = Completes (answerX (GText v))"

definition marshalN__DirectiveLocation :: "string \<Rightarrow> 'c body" where
  "marshalN__DirectiveLocation v = Completes (answerX (GText v))"

definition marshalN__DirectiveLocation_slice :: "string list \<Rightarrow> 'c body" where
  "marshalN__DirectiveLocation_slice v = slice_body (map marshalN__DirectiveLocation v)"

definition marshalN__Directive :: "('ty intro_directive \<Rightarrow> 'c body) \<Rightarrow> 'ty intro_directive \<Rightarrow> 'c body" where
  "marshalN__Directive obj v = obj v"

definition marshalN__Directive_slice :: "('ty intro_directive \<Rightarrow> 'c body) \<Rightarrow> 'ty intro_directive list \<Rightarrow> 'c body" where
  "marshalN__Directive_slice obj v = slice_body (map (marshalN__Directive obj) v)"

definition marshalN__EnumValue :: "(intro_enum \<Rightarrow> 'c body) \<Rightarrow> intro_enum \<Rightarrow> 'c body" where
  "marshalN__EnumValue obj v = obj v"

definition marshalN__Field :: "('ty intro_field \<Rightarrow> 'c body) \<Rightarrow> 'ty intro_field \<Rightarrow> 'c body" where
  "marshalN__Field obj v = obj v"

definition marshalN__InputValue :: "('ty intro_input \<Rightarrow> 'c body) \<Rightarrow> 'ty intro_input \<Rightarrow> 'c body" where
  "marshalN__InputValue obj v = obj v"

definition marshalN__InputValue_slice :: "('ty intro_input \<Rightarrow> 'c body) \<Rightarrow> 'ty intro_input list \<Rightarrow> 'c body" where
  "marshalN__InputValue_slice obj v = slice_body (map (marshalN__InputValue obj) v)"

definition marshalN__Type :: "('ty \<Rightarrow> 'c body) \<Rightarrow> 'ty \<Rightarrow> 'c body" where
  "marshalN__Type obj v = obj v"

definition marshalN__Type_slice :: "('ty \<Rightarrow> 'c body) \<Rightarrow> 'ty list \<Rightarrow> 'c body" where
  "marshalN__Type_slice obj v = slice_body (map (marshalN__Type obj) v)"

definition marshalN__Type_ptr :: "('ty \<Rightarrow> 'c body) \<Rightarrow> 'ty option \<Rightarrow> 'c body" where
  "marshalN__Type_ptr obj v = (case v of None \<Rightarrow> Completes (nullX NullNotAllowed) | Some y \<Rightarrow> obj y)"

definition marshalO__EnumValue_slice :: "(intro_enum \<Rightarrow> 'c body) \<Rightarrow> intro_enum list option \<Rightarrow> 'c body" where
  "marshalO__EnumValue_slice obj v =
     (case v of None \<Rightarrow> Completes (answerX GNull) | Some vs \<Rightarrow> slice_body (map (marshalN__EnumValue obj) vs))"

definition marshalO__Field_slice :: "('ty intro_field \<Rightarrow> 'c body) \<Rightarrow> 'ty intro_field list option \<Rightarrow> 'c body" where
  "marshalO__Field_slice obj v =
     (case v of None \<Rightarrow> Completes (answerX GNull) | Some vs \<Rightarrow> slice_body (map (marshalN__Field obj) vs))"

definition marshalO__InputValue_slice :: "('ty intro_input \<Rightarrow> 'c body) \<Rightarrow> 'ty intro_input list option \<Rightarrow> 'c body" where
  "marshalO__InputValue_slice obj v =
     (case v of None \<Rightarrow> Completes (answerX GNull) | Some vs \<Rightarrow> slice_body (map (marshalN__InputValue obj) vs))"

definition marshalO__Type_slice :: "('ty \<Rightarrow> 'c body) \<Rightarrow> 'ty list option \<Rightarrow> 'c body" where
  "marshalO__Type_slice obj v =
     (case v of None \<Rightarrow> Completes (answerX GNull) | Some vs \<Rightarrow> slice_body (map (marshalN__Type obj) vs))"

definition marshalO__Schema_ptr :: "('ty intro_schema \<Rightarrow> 'c body) \<Rightarrow> 'ty intro_schema option \<Rightarrow> 'c body" where
  "marshalO__Schema_ptr obj v = (case v of None \<Rightarrow> Completes (answerX GNull) | Some y \<Rightarrow> obj y)"

definition marshalO__Type_ptr :: "('ty \<Rightarrow> 'c body) \<Rightarrow> 'ty option \<Rightarrow> 'c body" where
  "marshalO__Type_ptr obj v = (case v of None \<Rightarrow> Completes (answerX GNull) | Some y \<Rightarrow> obj y)"

lemmas intro_marshal_defs =
  marshalNString_def marshalNBoolean_def marshalOBoolean_def marshalOString_ptr_def
  marshalN__TypeKind_def marshalN__DirectiveLocation_def marshalN__DirectiveLocation_slice_def
  marshalN__Directive_def marshalN__Directive_slice_def marshalN__EnumValue_def marshalN__Field_def
  marshalN__InputValue_def marshalN__InputValue_slice_def marshalN__Type_def marshalN__Type_slice_def
  marshalN__Type_ptr_def marshalO__EnumValue_slice_def marshalO__Field_slice_def
  marshalO__InputValue_slice_def marshalO__Type_slice_def marshalO__Schema_ptr_def marshalO__Type_ptr_def

section \<open>Contexts\<close>

definition fieldContext_Query___type :: "gql_libs \<Rightarrow> raw_field \<Rightarrow> string field_context call" where
  "fieldContext_Query___type lb f = mapC (\<lambda>args.
     \<lparr>fc_Object = ''Query'', fc_IsMethod = True, fc_IsResolver = False,
      fc_Child = object_child ''__Type'' [''kind'', ''name'', ''description'', ''specifiedByURL'', ''fields'', ''interfaces'', ''possibleTypes'', ''enumValues'', ''inputFields'', ''ofType'', ''isOneOf''],
      fc_Args = args\<rparr>)
     (field_Query___type_args lb (rf_args f))"

definition fieldContext_Query___schema :: "unit field_context call" where
  "fieldContext_Query___schema = Ret (Inr
     \<lparr>fc_Object = ''Query'', fc_IsMethod = True, fc_IsResolver = False,
      fc_Child = object_child ''__Schema'' [''description'', ''types'', ''queryType'', ''mutationType'', ''subscriptionType'', ''directives''],
      fc_Args = ()\<rparr>)"

definition fieldContext___Directive_name :: "unit field_context call" where
  "fieldContext___Directive_name = Ret (Inr
     \<lparr>fc_Object = ''__Directive'', fc_IsMethod = False, fc_IsResolver = False,
      fc_Child = scalar_child ''String'',
      fc_Args = ()\<rparr>)"

definition fieldContext___Directive_description :: "unit field_context call" where
  "fieldContext___Directive_description = Ret (Inr
     \<lparr>fc_Object = ''__Directive'', fc_IsMethod = True, fc_IsResolver = False,
      fc_Child = scalar_child ''String'',
      fc_Args = ()\<rparr>)"

definition fieldContext___Directive_isRepeatable :: "unit field_context call" where
  "fieldContext___Directive_isRepeatable = Ret (Inr
     \<lparr>fc_Object = ''__Directive'', fc_IsMethod = False, fc_IsResolver = False,
      fc_Child = scalar_child ''Boolean'',
      fc_Args = ()\<rparr>)"

definition fieldContext___Directive_locations :: "unit field_context call" where
  "fieldContext___Directive_locations = Ret (Inr
     \<lparr>fc_Object = ''__Directive'', fc_IsMethod = False, fc_IsResolver = False,
      fc_Child = scalar_child ''__DirectiveLocation'',
      fc_Args = ()\<rparr>)"

definition fieldContext___Directive_args :: "gql_libs \<Rightarrow> 'ty intro_libs \<Rightarrow> raw_field \<Rightarrow> (bool option) field_context call" where
  "fieldContext___Directive_args lb il f = mapC (\<lambda>args.
     \<lparr>fc_Object = ''__Directive'', fc_IsMethod = False, fc_IsResolver = False,
      fc_Child = object_child ''__InputValue'' [''name'', ''description'', ''type'', ''defaultValue'', ''isDeprecated'', ''deprecationReason''],
      fc_Args = args\<rparr>)
     (field___Directive_args_args lb il (rf_args f))"

definition fieldContext___EnumValue_name :: "unit field_context call" where
  "fieldContext___EnumValue_name = Ret (Inr
     \<lparr>fc_Object = ''__EnumValue'', fc_IsMethod = False, fc_IsResolver = False,
      fc_Child = scalar_child ''String'',
      fc_Args = ()\<rparr>)"

definition fieldContext___EnumValue_description :: "unit field_context call" where
  "fieldContext___EnumValue_description = Ret (Inr
     \<lparr>fc_Object = ''__EnumValue'', fc_IsMethod = True, fc_IsResolver = False,
      fc_Child = scalar_child ''String'',
      fc_Args = ()\<rparr>)"

definition fieldContext___EnumValue_isDeprecated :: "unit field_context call" where
  "fieldContext___EnumValue_isDeprecated = Ret (Inr
     \<lparr>fc_Object = ''__EnumValue'', fc_IsMethod = True, fc_IsResolver = False,
      fc_Child = scalar_child ''Boolean'',
      fc_Args = ()\<rparr>)"

definition fieldContext___EnumValue_deprecationReason :: "unit field_context call" where
  "fieldContext___EnumValue_deprecationReason = Ret (Inr
     \<lparr>fc_Object = ''__EnumValue'', fc_IsMethod = True, fc_IsResolver = False,
      fc_Child = scalar_child ''String'',
      fc_Args = ()\<rparr>)"

definition fieldContext___Field_name :: "unit field_context call" where
  "fieldContext___Field_name = Ret (Inr
     \<lparr>fc_Object = ''__Field'', fc_IsMethod = False, fc_IsResolver = False,
      fc_Child = scalar_child ''String'',
      fc_Args = ()\<rparr>)"

definition fieldContext___Field_description :: "unit field_context call" where
  "fieldContext___Field_description = Ret (Inr
     \<lparr>fc_Object = ''__Field'', fc_IsMethod = True, fc_IsResolver = False,
      fc_Child = scalar_child ''String'',
      fc_Args = ()\<rparr>)"

definition fieldContext___Field_args :: "gql_libs \<Rightarrow> 'ty intro_libs \<Rightarrow> raw_field \<Rightarrow> (bool option) field_context call" where
  "fieldContext___Field_args lb il f = mapC (\<lambda>args.
     \<lparr>fc_Object = ''__Field'', fc_IsMethod = False, fc_IsResolver = False,
      fc_Child = object_child ''__InputValue'' [''name'', ''description'', ''type'', ''defaultValue'', ''isDeprecated'', ''deprecationReason''],
      fc_Args = args\<rparr>)
     (field___Field_args_args lb il (rf_args f))"

definition fieldContext___Field_type :: "unit field_context call" where
  "fieldContext___Field_type = Ret (Inr
     \<lparr>fc_Object = ''__Field'', fc_IsMethod = False, fc_IsResolver = False,
      fc_Child = object_child ''__Type'' [''kind'', ''name'', ''description'', ''specifiedByURL'', ''fields'', ''interfaces'', ''possibleTypes'', ''enumValues'', ''inputFields'', ''ofType'', ''isOneOf''],
      fc_Args = ()\<rparr>)"

definition fieldContext___Field_isDeprecated :: "unit field_context call" where
  "fieldContext___Field_isDeprecated = Ret (Inr
     \<lparr>fc_Object = ''__Field'', fc_IsMethod = True, fc_IsResolver = False,
      fc_Child = scalar_child ''Boolean'',
      fc_Args = ()\<rparr>)"

definition fieldContext___Field_deprecationReason :: "unit field_context call" where
  "fieldContext___Field_deprecationReason = Ret (Inr
     \<lparr>fc_Object = ''__Field'', fc_IsMethod = True, fc_IsResolver = False,
      fc_Child = scalar_child ''String'',
      fc_Args = ()\<rparr>)"

definition fieldContext___InputValue_name :: "unit field_context call" where
  "fieldContext___InputValue_name = Ret (Inr
     \<lparr>fc_Object = ''__InputValue'', fc_IsMethod = False, fc_IsResolver = False,
      fc_Child = scalar_child ''String'',
      fc_Args = ()\<rparr>)"

definition fieldContext___InputValue_description :: "unit field_context call" where
  "fieldContext___InputValue_description = Ret (Inr
     \<lparr>fc_Object = ''__InputValue'', fc_IsMethod = True, fc_IsResolver = False,
      fc_Child = scalar_child ''String'',
      fc_Args = ()\<rparr>)"

definition fieldContext___InputValue_type :: "unit field_context call" where
  "fieldContext___InputValue_type = Ret (Inr
     \<lparr>fc_Object = ''__InputValue'', fc_IsMethod = False, fc_IsResolver = False,
      fc_Child = object_child ''__Type'' [''kind'', ''name'', ''description'', ''specifiedByURL'', ''fields'', ''interfaces'', ''possibleTypes'', ''enumValues'', ''inputFields'', ''ofType'', ''isOneOf''],
      fc_Args = ()\<rparr>)"

definition fieldContext___InputValue_defaultValue :: "unit field_context call" where
  "fieldContext___InputValue_defaultValue = Ret (Inr
     \<lparr>fc_Object = ''__InputValue'', fc_IsMethod = False, fc_IsResolver = False,
      fc_Child = scalar_child ''String'',
      fc_Args = ()\<rparr>)"

definition fieldContext___InputValue_isDeprecated :: "unit field_context call" where
  "fieldContext___InputValue_isDeprecated = Ret (Inr
     \<lparr>fc_Object = ''__InputValue'', fc_IsMethod = True, fc_IsResolver = False,
      fc_Child = scalar_child ''Boolean'',
      fc_Args = ()\<rparr>)"

definition fieldContext___InputValue_deprecationReason :: "unit field_context call" where
  "fieldContext___InputValue_deprecationReason = Ret (Inr
     \<lparr>fc_Object = ''__InputValue'', fc_IsMethod = True, fc_IsResolver = False,
      fc_Child = scalar_child ''String'',
      fc_Args = ()\<rparr>)"

definition fieldContext___Schema_description :: "unit field_context call" where
  "fieldContext___Schema_description = Ret (Inr
     \<lparr>fc_Object = ''__Schema'', fc_IsMethod = True, fc_IsResolver = False,
      fc_Child = scalar_child ''String'',
      fc_Args = ()\<rparr>)"

definition fieldContext___Schema_types :: "unit field_context call" where
  "fieldContext___Schema_types = Ret (Inr
     \<lparr>fc_Object = ''__Schema'', fc_IsMethod = True, fc_IsResolver = False,
      fc_Child = object_child ''__Type'' [''kind'', ''name'', ''description'', ''specifiedByURL'', ''fields'', ''interfaces'', ''possibleTypes'', ''enumValues'', ''inputFields'', ''ofType'', ''isOneOf''],
      fc_Args = ()\<rparr>)"

definition fieldContext___Schema_queryType :: "unit field_context call" where
  "fieldContext___Schema_queryType = Ret (Inr
     \<lparr>fc_Object = ''__Schema'', fc_IsMethod = True, fc_IsResolver = False,
      fc_Child = object_child ''__Type'' [''kind'', ''name'', ''description'', ''specifiedByURL'', ''fields'', ''interfaces'', ''possibleTypes'', ''enumValues'', ''inputFields'', ''ofType'', ''isOneOf''],
      fc_Args = ()\<rparr>)"

definition fieldContext___Schema_mutationType :: "unit field_context call" where
  "fieldContext___Schema_mutationType = Ret (Inr
     \<lparr>fc_Object = ''__Schema'', fc_IsMethod = True, fc_IsResolver = False,
      fc_Child = object_child ''__Type'' [''kind'', ''name'', ''description'', ''specifiedByURL'', ''fields'', ''interfaces'', ''possibleTypes'', ''enumValues'', ''inputFields'', ''ofType'', ''isOneOf''],
      fc_Args = ()\<rparr>)"

definition fieldContext___Schema_subscriptionType :: "unit field_context call" where
  "fieldContext___Schema_subscriptionType = Ret (Inr
     \<lparr>fc_Object = ''__Schema'', fc_IsMethod = True, fc_IsResolver = False,
      fc_Child = object_child ''__Type'' [''kind'', ''name'', ''description'', ''specifiedByURL'', ''fields'', ''interfaces'', ''possibleTypes'', ''enumValues'', ''inputFields'', ''ofType'', ''isOneOf''],
      fc_Args = ()\<rparr>)"

definition fieldContext___Schema_directives :: "unit field_context call" where
  "fieldContext___Schema_directives = Ret (Inr
     \<lparr>fc_Object = ''__Schema'', fc_IsMethod = True, fc_IsResolver = False,
      fc_Child = object_child ''__Directive'' [''name'', ''description'', ''isRepeatable'', ''locations'', ''args''],
      fc_Args = ()\<rparr>)"

definition fieldContext___Type_kind :: "unit field_context call" where
  "fieldContext___Type_kind = Ret (Inr
     \<lparr>fc_Object = ''__Type'', fc_IsMethod = True, fc_IsResolver = False,
      fc_Child = scalar_child ''__TypeKind'',
      fc_Args = ()\<rparr>)"

definition fieldContext___Type_name :: "unit field_context call" where
  "fieldContext___Type_name = Ret (Inr
     \<lparr>fc_Object = ''__Type'', fc_IsMethod = True, fc_IsResolver = False,
      fc_Child = scalar_child ''String'',
      fc_Args = ()\<rparr>)"

definition fieldContext___Type_description :: "unit field_context call" where
  "fieldContext___Type_description = Ret (Inr
     \<lparr>fc_Object = ''__Type'', fc_IsMethod = True, fc_IsResolver = False,
      fc_Child = scalar_child ''String'',
      fc_Args = ()\<rparr>)"

definition fieldContext___Type_specifiedByURL :: "unit field_context call" where
  "fieldContext___Type_specifiedByURL = Ret (Inr
     \<lparr>fc_Object = ''__Type'', fc_IsMethod = True, fc_IsResolver = False,
      fc_Child = scalar_child ''String'',
      fc_Args = ()\<rparr>)"

definition fieldContext___Type_fields :: "gql_libs \<Rightarrow> 'ty intro_libs \<Rightarrow> raw_field \<Rightarrow> bool field_context call" where
  "fieldContext___Type_fields lb il f = mapC (\<lambda>args.
     \<lparr>fc_Object = ''__Type'', fc_IsMethod = True, fc_IsResolver = False,
      fc_Child = object_child ''__Field'' [''name'', ''description'', ''args'', ''type'', ''isDeprecated'', ''deprecationReason''],
      fc_Args = args\<rparr>)
     (field___Type_fields_args lb il (rf_args f))"

definition fieldContext___Type_interfaces :: "unit field_context call" where
  "fieldContext___Type_interfaces = Ret (Inr
     \<lparr>fc_Object = ''__Type'', fc_IsMethod = True, fc_IsResolver = False,
      fc_Child = object_child ''__Type'' [''kind'', ''name'', ''description'', ''specifiedByURL'', ''fields'', ''interfaces'', ''possibleTypes'', ''enumValues'', ''inputFields'', ''ofType'', ''isOneOf''],
      fc_Args = ()\<rparr>)"

definition fieldContext___Type_possibleTypes :: "unit field_context call" where
  "fieldContext___Type_possibleTypes = Ret (Inr
     \<lparr>fc_Object = ''__Type'', fc_IsMethod = True, fc_IsResolver = False,
      fc_Child = object_child ''__Type'' [''kind'', ''name'', ''description'', ''specifiedByURL'', ''fields'', ''interfaces'', ''possibleTypes'', ''enumValues'', ''inputFields'', ''ofType'', ''isOneOf''],
      fc_Args = ()\<rparr>)"

definition fieldContext___Type_enumValues :: "gql_libs \<Rightarrow> 'ty intro_libs \<Rightarrow> raw_field \<Rightarrow> bool field_context call" where
  "fieldContext___Type_enumValues lb il f = mapC (\<lambda>args.
     \<lparr>fc_Object = ''__Type'', fc_IsMethod = True, fc_IsResolver = False,
      fc_Child = object_child ''__EnumValue'' [''name'', ''description'', ''isDeprecated'', ''deprecationReason''],
      fc_Args = args\<rparr>)
     (field___Type_enumValues_args lb il (rf_args f))"

definition fieldContext___Type_inputFields :: "unit field_context call" where
  "fieldContext___Type_inputFields = Ret (Inr
     \<lparr>fc_Object = ''__Type'', fc_IsMethod = True, fc_IsResolver = False,
      fc_Child = object_child ''__InputValue'' [''name'', ''description'', ''type'', ''defaultValue'', ''isDeprecated'', ''deprecationReason''],
      fc_Args = ()\<rparr>)"

definition fieldContext___Type_ofType :: "unit field_context call" where
  "fieldContext___Type_ofType = Ret (Inr
     \<lparr>fc_Object = ''__Type'', fc_IsMethod = True, fc_IsResolver = False,
      fc_Child = object_child ''__Type'' [''kind'', ''name'', ''description'', ''specifiedByURL'', ''fields'', ''interfaces'', ''possibleTypes'', ''enumValues'', ''inputFields'', ''ofType'', ''isOneOf''],
      fc_Args = ()\<rparr>)"

definition fieldContext___Type_isOneOf :: "unit field_context call" where
  "fieldContext___Type_isOneOf = Ret (Inr
     \<lparr>fc_Object = ''__Type'', fc_IsMethod = True, fc_IsResolver = False,
      fc_Child = scalar_child ''Boolean'',
      fc_Args = ()\<rparr>)"

lemmas intro_context_defs =
  fieldContext_Query___type_def
  fieldContext_Query___schema_def
  fieldContext___Directive_name_def
  fieldContext___Directive_description_def
  fieldContext___Directive_isRepeatable_def
  fieldContext___Directive_locations_def
  fieldContext___Directive_args_def
  fieldContext___EnumValue_name_def
  fieldContext___EnumValue_description_def
  fieldContext___EnumValue_isDeprecated_def
  fieldContext___EnumValue_deprecationReason_def
  fieldContext___Field_name_def
  fieldContext___Field_description_def
  fieldContext___Field_args_def
  fieldContext___Field_type_def
  fieldContext___Field_isDeprecated_def
  fieldContext___Field_deprecationReason_def
  fieldContext___InputValue_name_def
  fieldContext___InputValue_description_def
  fieldContext___InputValue_type_def
  fieldContext___InputValue_defaultValue_def
  fieldContext___InputValue_isDeprecated_def
  fieldContext___InputValue_deprecationReason_def
  fieldContext___Schema_description_def
  fieldContext___Schema_types_def
  fieldContext___Schema_queryType_def
  fieldContext___Schema_mutationType_def
  fieldContext___Schema_subscriptionType_def
  fieldContext___Schema_directives_def
  fieldContext___Type_kind_def
  fieldContext___Type_name_def
  fieldContext___Type_description_def
  fieldContext___Type_specifiedByURL_def
  fieldContext___Type_fields_def
  fieldContext___Type_interfaces_def
  fieldContext___Type_possibleTypes_def
  fieldContext___Type_enumValues_def
  fieldContext___Type_inputFields_def
  fieldContext___Type_ofType_def
  fieldContext___Type_isOneOf_def

section \<open>Fields\<close>

definition ec___Directive_name :: "'ty intro_directive \<Rightarrow> 'c ex" where
  "ec___Directive_name obj =
     fieldX fieldContext___Directive_name (\<lambda>_. okR (idr_Name obj))
       marshalNString"

definition ec___Directive_description :: "'ty intro_directive \<Rightarrow> 'c ex" where
  "ec___Directive_description obj =
     fieldX fieldContext___Directive_description (\<lambda>_. okR (idr_Description obj))
       marshalOString_ptr"

definition ec___Directive_isRepeatable :: "'ty intro_directive \<Rightarrow> 'c ex" where
  "ec___Directive_isRepeatable obj =
     fieldX fieldContext___Directive_isRepeatable (\<lambda>_. okR (idr_IsRepeatable obj))
       marshalNBoolean"

definition ec___Directive_locations :: "'ty intro_directive \<Rightarrow> 'c ex" where
  "ec___Directive_locations obj =
     fieldX fieldContext___Directive_locations (\<lambda>_. okR (idr_Locations obj))
       marshalN__DirectiveLocation_slice"

definition ec___Directive_args :: "gql_libs \<Rightarrow> 'ty intro_libs \<Rightarrow> raw_field \<Rightarrow> ('ty intro_input \<Rightarrow> 'c body) \<Rightarrow> 'ty intro_directive \<Rightarrow> 'c ex" where
  "ec___Directive_args lb il f sel obj =
     fieldX (fieldContext___Directive_args lb il f) (\<lambda>_. okR (idr_Args obj))
       (marshalN__InputValue_slice sel)"

definition ec___EnumValue_name :: "intro_enum \<Rightarrow> 'c ex" where
  "ec___EnumValue_name obj =
     fieldX fieldContext___EnumValue_name (\<lambda>_. okR (iev_Name obj))
       marshalNString"

definition ec___EnumValue_description :: "intro_enum \<Rightarrow> 'c ex" where
  "ec___EnumValue_description obj =
     fieldX fieldContext___EnumValue_description (\<lambda>_. okR (iev_Description obj))
       marshalOString_ptr"

definition ec___EnumValue_isDeprecated :: "intro_enum \<Rightarrow> 'c ex" where
  "ec___EnumValue_isDeprecated obj =
     fieldX fieldContext___EnumValue_isDeprecated (\<lambda>_. okR (iev_IsDeprecated obj))
       marshalNBoolean"

definition ec___EnumValue_deprecationReason :: "intro_enum \<Rightarrow> 'c ex" where
  "ec___EnumValue_deprecationReason obj =
     fieldX fieldContext___EnumValue_deprecationReason (\<lambda>_. okR (iev_DeprecationReason obj))
       marshalOString_ptr"

definition ec___Field_name :: "'ty intro_field \<Rightarrow> 'c ex" where
  "ec___Field_name obj =
     fieldX fieldContext___Field_name (\<lambda>_. okR (ifl_Name obj))
       marshalNString"

definition ec___Field_description :: "'ty intro_field \<Rightarrow> 'c ex" where
  "ec___Field_description obj =
     fieldX fieldContext___Field_description (\<lambda>_. okR (ifl_Description obj))
       marshalOString_ptr"

definition ec___Field_args :: "gql_libs \<Rightarrow> 'ty intro_libs \<Rightarrow> raw_field \<Rightarrow> ('ty intro_input \<Rightarrow> 'c body) \<Rightarrow> 'ty intro_field \<Rightarrow> 'c ex" where
  "ec___Field_args lb il f sel obj =
     fieldX (fieldContext___Field_args lb il f) (\<lambda>_. okR (ifl_Args obj))
       (marshalN__InputValue_slice sel)"

definition ec___Field_type :: "('ty \<Rightarrow> 'c body) \<Rightarrow> 'ty intro_field \<Rightarrow> 'c ex" where
  "ec___Field_type sel obj =
     fieldX fieldContext___Field_type (\<lambda>_. okR (ifl_Type obj))
       (marshalN__Type_ptr sel)"

definition ec___Field_isDeprecated :: "'ty intro_field \<Rightarrow> 'c ex" where
  "ec___Field_isDeprecated obj =
     fieldX fieldContext___Field_isDeprecated (\<lambda>_. okR (ifl_IsDeprecated obj))
       marshalNBoolean"

definition ec___Field_deprecationReason :: "'ty intro_field \<Rightarrow> 'c ex" where
  "ec___Field_deprecationReason obj =
     fieldX fieldContext___Field_deprecationReason (\<lambda>_. okR (ifl_DeprecationReason obj))
       marshalOString_ptr"

definition ec___InputValue_name :: "'ty intro_input \<Rightarrow> 'c ex" where
  "ec___InputValue_name obj =
     fieldX fieldContext___InputValue_name (\<lambda>_. okR (iiv_Name obj))
       marshalNString"

definition ec___InputValue_description :: "'ty intro_input \<Rightarrow> 'c ex" where
  "ec___InputValue_description obj =
     fieldX fieldContext___InputValue_description (\<lambda>_. okR (iiv_Description obj))
       marshalOString_ptr"

definition ec___InputValue_type :: "('ty \<Rightarrow> 'c body) \<Rightarrow> 'ty intro_input \<Rightarrow> 'c ex" where
  "ec___InputValue_type sel obj =
     fieldX fieldContext___InputValue_type (\<lambda>_. okR (iiv_Type obj))
       (marshalN__Type_ptr sel)"

definition ec___InputValue_defaultValue :: "'ty intro_input \<Rightarrow> 'c ex" where
  "ec___InputValue_defaultValue obj =
     fieldX fieldContext___InputValue_defaultValue (\<lambda>_. okR (iiv_DefaultValue obj))
       marshalOString_ptr"

definition ec___InputValue_isDeprecated :: "'ty intro_input \<Rightarrow> 'c ex" where
  "ec___InputValue_isDeprecated obj =
     fieldX fieldContext___InputValue_isDeprecated (\<lambda>_. okR (iiv_IsDeprecated obj))
       marshalNBoolean"

definition ec___InputValue_deprecationReason :: "'ty intro_input \<Rightarrow> 'c ex" where
  "ec___InputValue_deprecationReason obj =
     fieldX fieldContext___InputValue_deprecationReason (\<lambda>_. okR (iiv_DeprecationReason obj))
       marshalOString_ptr"

definition ec___Schema_description :: "'ty intro_schema \<Rightarrow> 'c ex" where
  "ec___Schema_description obj =
     fieldX fieldContext___Schema_description (\<lambda>_. okR (isc_Description obj))
       marshalOString_ptr"

definition ec___Schema_types :: "('ty \<Rightarrow> 'c body) \<Rightarrow> 'ty intro_schema \<Rightarrow> 'c ex" where
  "ec___Schema_types sel obj =
     fieldX fieldContext___Schema_types (\<lambda>_. okR (isc_Types obj))
       (marshalN__Type_slice sel)"

definition ec___Schema_queryType :: "('ty \<Rightarrow> 'c body) \<Rightarrow> 'ty intro_schema \<Rightarrow> 'c ex" where
  "ec___Schema_queryType sel obj =
     fieldX fieldContext___Schema_queryType (\<lambda>_. okR (isc_QueryType obj))
       (marshalN__Type_ptr sel)"

definition ec___Schema_mutationType :: "('ty \<Rightarrow> 'c body) \<Rightarrow> 'ty intro_schema \<Rightarrow> 'c ex" where
  "ec___Schema_mutationType sel obj =
     fieldX fieldContext___Schema_mutationType (\<lambda>_. okR (isc_MutationType obj))
       (marshalO__Type_ptr sel)"

definition ec___Schema_subscriptionType :: "('ty \<Rightarrow> 'c body) \<Rightarrow> 'ty intro_schema \<Rightarrow> 'c ex" where
  "ec___Schema_subscriptionType sel obj =
     fieldX fieldContext___Schema_subscriptionType (\<lambda>_. okR (isc_SubscriptionType obj))
       (marshalO__Type_ptr sel)"

definition ec___Schema_directives :: "('ty intro_directive \<Rightarrow> 'c body) \<Rightarrow> 'ty intro_schema \<Rightarrow> 'c ex" where
  "ec___Schema_directives sel obj =
     fieldX fieldContext___Schema_directives (\<lambda>_. okR (isc_Directives obj))
       (marshalN__Directive_slice sel)"

definition ec___Type_kind :: "'ty intro_libs \<Rightarrow> 'ty \<Rightarrow> 'c ex" where
  "ec___Type_kind il obj =
     fieldX fieldContext___Type_kind (\<lambda>_. okR (Type_Kind il obj))
       marshalN__TypeKind"

definition ec___Type_name :: "'ty intro_libs \<Rightarrow> 'ty \<Rightarrow> 'c ex" where
  "ec___Type_name il obj =
     fieldX fieldContext___Type_name (\<lambda>_. okR (Type_Name il obj))
       marshalOString_ptr"

definition ec___Type_description :: "'ty intro_libs \<Rightarrow> 'ty \<Rightarrow> 'c ex" where
  "ec___Type_description il obj =
     fieldX fieldContext___Type_description (\<lambda>_. okR (Type_Description il obj))
       marshalOString_ptr"

definition ec___Type_specifiedByURL :: "'ty intro_libs \<Rightarrow> 'ty \<Rightarrow> 'c ex" where
  "ec___Type_specifiedByURL il obj =
     fieldX fieldContext___Type_specifiedByURL (\<lambda>_. okR (Type_SpecifiedByURL il obj))
       marshalOString_ptr"

definition ec___Type_fields :: "gql_libs \<Rightarrow> 'ty intro_libs \<Rightarrow> raw_field \<Rightarrow> ('ty intro_field \<Rightarrow> 'c body) \<Rightarrow> 'ty \<Rightarrow> 'c ex" where
  "ec___Type_fields lb il f sel obj =
     fieldX (fieldContext___Type_fields lb il f) (\<lambda>incl. okR (Type_Fields il obj incl))
       (marshalO__Field_slice sel)"

definition ec___Type_interfaces :: "'ty intro_libs \<Rightarrow> ('ty \<Rightarrow> 'c body) \<Rightarrow> 'ty \<Rightarrow> 'c ex" where
  "ec___Type_interfaces il sel obj =
     fieldX fieldContext___Type_interfaces (\<lambda>_. okR (Type_Interfaces il obj))
       (marshalO__Type_slice sel)"

definition ec___Type_possibleTypes :: "'ty intro_libs \<Rightarrow> ('ty \<Rightarrow> 'c body) \<Rightarrow> 'ty \<Rightarrow> 'c ex" where
  "ec___Type_possibleTypes il sel obj =
     fieldX fieldContext___Type_possibleTypes (\<lambda>_. okR (Type_PossibleTypes il obj))
       (marshalO__Type_slice sel)"

definition ec___Type_enumValues :: "gql_libs \<Rightarrow> 'ty intro_libs \<Rightarrow> raw_field \<Rightarrow> (intro_enum \<Rightarrow> 'c body) \<Rightarrow> 'ty \<Rightarrow> 'c ex" where
  "ec___Type_enumValues lb il f sel obj =
     fieldX (fieldContext___Type_enumValues lb il f) (\<lambda>incl. okR (Type_EnumValues il obj incl))
       (marshalO__EnumValue_slice sel)"

definition ec___Type_inputFields :: "'ty intro_libs \<Rightarrow> ('ty intro_input \<Rightarrow> 'c body) \<Rightarrow> 'ty \<Rightarrow> 'c ex" where
  "ec___Type_inputFields il sel obj =
     fieldX fieldContext___Type_inputFields (\<lambda>_. okR (Type_InputFields il obj))
       (marshalO__InputValue_slice sel)"

definition ec___Type_ofType :: "'ty intro_libs \<Rightarrow> ('ty \<Rightarrow> 'c body) \<Rightarrow> 'ty \<Rightarrow> 'c ex" where
  "ec___Type_ofType il sel obj =
     fieldX fieldContext___Type_ofType (\<lambda>_. okR (Type_OfType il obj))
       (marshalO__Type_ptr sel)"

definition ec___Type_isOneOf :: "'ty intro_libs \<Rightarrow> 'ty \<Rightarrow> 'c ex" where
  "ec___Type_isOneOf il obj =
     fieldX fieldContext___Type_isOneOf (\<lambda>_. okR (Type_IsOneOf il obj))
       marshalOBoolean"

lemmas ec_intro_defs =
  ec___Directive_name_def
  ec___Directive_description_def
  ec___Directive_isRepeatable_def
  ec___Directive_locations_def
  ec___Directive_args_def
  ec___EnumValue_name_def
  ec___EnumValue_description_def
  ec___EnumValue_isDeprecated_def
  ec___EnumValue_deprecationReason_def
  ec___Field_name_def
  ec___Field_description_def
  ec___Field_args_def
  ec___Field_type_def
  ec___Field_isDeprecated_def
  ec___Field_deprecationReason_def
  ec___InputValue_name_def
  ec___InputValue_description_def
  ec___InputValue_type_def
  ec___InputValue_defaultValue_def
  ec___InputValue_isDeprecated_def
  ec___InputValue_deprecationReason_def
  ec___Schema_description_def
  ec___Schema_types_def
  ec___Schema_queryType_def
  ec___Schema_mutationType_def
  ec___Schema_subscriptionType_def
  ec___Schema_directives_def
  ec___Type_kind_def
  ec___Type_name_def
  ec___Type_description_def
  ec___Type_specifiedByURL_def
  ec___Type_fields_def
  ec___Type_interfaces_def
  ec___Type_possibleTypes_def
  ec___Type_enumValues_def
  ec___Type_inputFields_def
  ec___Type_ofType_def
  ec___Type_isOneOf_def

section \<open>Objects\<close>

fun ec___EnumValue_entry :: "raw_field \<Rightarrow> intro_enum \<Rightarrow> 'c entry option" where
  "ec___EnumValue_entry (RawField n al args sub) obj =
     (if n = ''__typename'' then Some (False, al, False, answerX (GText ''__EnumValue''))
      else if n = ''name'' then Some (False, al, True, ec___EnumValue_name obj)
      else if n = ''description'' then Some (False, al, False, ec___EnumValue_description obj)
      else if n = ''isDeprecated'' then Some (False, al, True, ec___EnumValue_isDeprecated obj)
      else if n = ''deprecationReason'' then Some (False, al, False, ec___EnumValue_deprecationReason obj)
      else None)"

text \<open>Types, their fields and their arguments select each other.\<close>

fun ec___Type_entry :: "gql_libs \<Rightarrow> 'ty intro_libs \<Rightarrow> raw_field \<Rightarrow> 'ty \<Rightarrow> 'c entry option"
  and ec___Field_entry :: "gql_libs \<Rightarrow> 'ty intro_libs \<Rightarrow> raw_field \<Rightarrow> 'ty intro_field \<Rightarrow> 'c entry option"
  and ec___InputValue_entry :: "gql_libs \<Rightarrow> 'ty intro_libs \<Rightarrow> raw_field \<Rightarrow> 'ty intro_input \<Rightarrow> 'c entry option" where
  "ec___Type_entry lb il (RawField n al args sub) obj =
     (if n = ''__typename'' then Some (False, al, False, answerX (GText ''__Type''))
      else if n = ''kind'' then Some (False, al, True, ec___Type_kind il obj)
      else if n = ''name'' then Some (False, al, False, ec___Type_name il obj)
      else if n = ''description'' then Some (False, al, False, ec___Type_description il obj)
      else if n = ''specifiedByURL'' then Some (False, al, False, ec___Type_specifiedByURL il obj)
      else if n = ''fields'' then Some (False, al, False, ec___Type_fields lb il (RawField n al args sub) (\<lambda>v. object_body (map (\<lambda>f. ec___Field_entry lb il f v) sub)) obj)
      else if n = ''interfaces'' then Some (False, al, False, ec___Type_interfaces il (\<lambda>v. object_body (map (\<lambda>f. ec___Type_entry lb il f v) sub)) obj)
      else if n = ''possibleTypes'' then Some (False, al, False, ec___Type_possibleTypes il (\<lambda>v. object_body (map (\<lambda>f. ec___Type_entry lb il f v) sub)) obj)
      else if n = ''enumValues'' then Some (False, al, False, ec___Type_enumValues lb il (RawField n al args sub) (\<lambda>v. object_body (map (\<lambda>f. ec___EnumValue_entry f v) sub)) obj)
      else if n = ''inputFields'' then Some (False, al, False, ec___Type_inputFields il (\<lambda>v. object_body (map (\<lambda>f. ec___InputValue_entry lb il f v) sub)) obj)
      else if n = ''ofType'' then Some (False, al, False, ec___Type_ofType il (\<lambda>v. object_body (map (\<lambda>f. ec___Type_entry lb il f v) sub)) obj)
      else if n = ''isOneOf'' then Some (False, al, False, ec___Type_isOneOf il obj)
      else None)"
| "ec___Field_entry lb il (RawField n al args sub) obj =
     (if n = ''__typename'' then Some (False, al, False, answerX (GText ''__Field''))
      else if n = ''name'' then Some (False, al, True, ec___Field_name obj)
      else if n = ''description'' then Some (False, al, False, ec___Field_description obj)
      else if n = ''args'' then Some (False, al, True, ec___Field_args lb il (RawField n al args sub) (\<lambda>v. object_body (map (\<lambda>f. ec___InputValue_entry lb il f v) sub)) obj)
      else if n = ''type'' then Some (False, al, True, ec___Field_type (\<lambda>v. object_body (map (\<lambda>f. ec___Type_entry lb il f v) sub)) obj)
      else if n = ''isDeprecated'' then Some (False, al, True, ec___Field_isDeprecated obj)
      else if n = ''deprecationReason'' then Some (False, al, False, ec___Field_deprecationReason obj)
      else None)"
| "ec___InputValue_entry lb il (RawField n al args sub) obj =
     (if n = ''__typename'' then Some (False, al, False, answerX (GText ''__InputValue''))
      else if n = ''name'' then Some (False, al, True, ec___InputValue_name obj)
      else if n = ''description'' then Some (False, al, False, ec___InputValue_description obj)
      else if n = ''type'' then Some (False, al, True, ec___InputValue_type (\<lambda>v. object_body (map (\<lambda>f. ec___Type_entry lb il f v) sub)) obj)
      else if n = ''defaultValue'' then Some (False, al, False, ec___InputValue_defaultValue obj)
      else if n = ''isDeprecated'' then Some (False, al, True, ec___InputValue_isDeprecated obj)
      else if n = ''deprecationReason'' then Some (False, al, False, ec___InputValue_deprecationReason obj)
      else None)"

fun ec___Directive_entry :: "gql_libs \<Rightarrow> 'ty intro_libs \<Rightarrow> raw_field \<Rightarrow> 'ty intro_directive \<Rightarrow> 'c entry option" where
  "ec___Directive_entry lb il (RawField n al args sub) obj =
     (if n = ''__typename'' then Some (False, al, False, answerX (GText ''__Directive''))
      else if n = ''name'' then Some (False, al, True, ec___Directive_name obj)
      else if n = ''description'' then Some (False, al, False, ec___Directive_description obj)
      else if n = ''isRepeatable'' then Some (False, al, True, ec___Directive_isRepeatable obj)
      else if n = ''locations'' then Some (False, al, True, ec___Directive_locations obj)
      else if n = ''args'' then Some (False, al, True, ec___Directive_args lb il (RawField n al args sub) (\<lambda>v. object_body (map (\<lambda>f. ec___InputValue_entry lb il f v) sub)) obj)
      else None)"

fun ec___Schema_entry :: "gql_libs \<Rightarrow> 'ty intro_libs \<Rightarrow> raw_field \<Rightarrow> 'ty intro_schema \<Rightarrow> 'c entry option" where
  "ec___Schema_entry lb il (RawField n al args sub) obj =
     (if n = ''__typename'' then Some (False, al, False, answerX (GText ''__Schema''))
      else if n = ''description'' then Some (False, al, False, ec___Schema_description obj)
      else if n = ''types'' then Some (False, al, True, ec___Schema_types (\<lambda>v. object_body (map (\<lambda>f. ec___Type_entry lb il f v) sub)) obj)
      else if n = ''queryType'' then Some (False, al, True, ec___Schema_queryType (\<lambda>v. object_body (map (\<lambda>f. ec___Type_entry lb il f v) sub)) obj)
      else if n = ''mutationType'' then Some (False, al, False, ec___Schema_mutationType (\<lambda>v. object_body (map (\<lambda>f. ec___Type_entry lb il f v) sub)) obj)
      else if n = ''subscriptionType'' then Some (False, al, False, ec___Schema_subscriptionType (\<lambda>v. object_body (map (\<lambda>f. ec___Type_entry lb il f v) sub)) obj)
      else if n = ''directives'' then Some (False, al, True, ec___Schema_directives (\<lambda>v. object_body (map (\<lambda>f. ec___Directive_entry lb il f v) sub)) obj)
      else None)"

definition ec___EnumValue :: "raw_field list \<Rightarrow> intro_enum \<Rightarrow> 'c body" where
  "ec___EnumValue sel obj = object_body (map (\<lambda>f. ec___EnumValue_entry f obj) sel)"

definition ec___Type :: "gql_libs \<Rightarrow> 'ty intro_libs \<Rightarrow> raw_field list \<Rightarrow> 'ty \<Rightarrow> 'c body" where
  "ec___Type lb il sel obj = object_body (map (\<lambda>f. ec___Type_entry lb il f obj) sel)"

definition ec___Field :: "gql_libs \<Rightarrow> 'ty intro_libs \<Rightarrow> raw_field list \<Rightarrow> 'ty intro_field \<Rightarrow> 'c body" where
  "ec___Field lb il sel obj = object_body (map (\<lambda>f. ec___Field_entry lb il f obj) sel)"

definition ec___InputValue :: "gql_libs \<Rightarrow> 'ty intro_libs \<Rightarrow> raw_field list \<Rightarrow> 'ty intro_input \<Rightarrow> 'c body" where
  "ec___InputValue lb il sel obj = object_body (map (\<lambda>f. ec___InputValue_entry lb il f obj) sel)"

definition ec___Directive :: "gql_libs \<Rightarrow> 'ty intro_libs \<Rightarrow> raw_field list \<Rightarrow> 'ty intro_directive \<Rightarrow> 'c body" where
  "ec___Directive lb il sel obj = object_body (map (\<lambda>f. ec___Directive_entry lb il f obj) sel)"

definition ec___Schema :: "gql_libs \<Rightarrow> 'ty intro_libs \<Rightarrow> raw_field list \<Rightarrow> 'ty intro_schema \<Rightarrow> 'c body" where
  "ec___Schema lb il sel obj = object_body (map (\<lambda>f. ec___Schema_entry lb il f obj) sel)"
section \<open>The root fields\<close>

definition introspectSchema :: "'ty intro_libs \<Rightarrow> ('c, 'ty intro_schema option) resolver" where
  "introspectSchema il =
     (if DisableIntrospection il then failR (PlainError (ExtErr ''introspection disabled''))
      else okR (Some (WrapSchema il)))"

definition introspectType :: "'ty intro_libs \<Rightarrow> string \<Rightarrow> ('c, 'ty option) resolver" where
  "introspectType il name =
     (if DisableIntrospection il then failR (PlainError (ExtErr ''introspection disabled''))
      else okR (WrapTypeFromDef il name))"

definition ec_Query___type ::
    "gql_libs \<Rightarrow> 'ty intro_libs \<Rightarrow> raw_field \<Rightarrow> ('ty \<Rightarrow> 'c body) \<Rightarrow> 'c ex" where
  "ec_Query___type lb il f sel =
     fieldX (fieldContext_Query___type lb f) (\<lambda>name. introspectType il name)
       (marshalO__Type_ptr sel)"

definition ec_Query___schema :: "'ty intro_libs \<Rightarrow> ('ty intro_schema \<Rightarrow> 'c body) \<Rightarrow> 'c ex" where
  "ec_Query___schema il sel =
     fieldX fieldContext_Query___schema (\<lambda>_. introspectSchema il)
       (marshalO__Schema_ptr sel)"

section \<open>Introspection reads and writes nothing\<close>

text \<open>An execution that answers the same in every state of the process and leaves it as it is.\<close>

definition pure_ex :: "'c ex \<Rightarrow> bool" where
  "pure_ex e \<longleftrightarrow> (\<exists>r. \<forall>a. e a = (Some r, a))"

definition pure_entry :: "'c entry option \<Rightarrow> bool" where
  "pure_entry eo \<longleftrightarrow> (case eo of None \<Rightarrow> True | Some (_, _, _, e) \<Rightarrow> pure_ex e)"

definition pure_body :: "'c body \<Rightarrow> bool" where
  "pure_body b \<longleftrightarrow> pure_ex (recovered b)"

lemma pure_entry_simps [simp]:
  "pure_entry None" "pure_entry (Some (d, al, req, e)) = pure_ex e"
  by (simp_all add: pure_entry_def)

lemma pure_same: "pure_ex (answerX v)" "pure_ex (nullX er)"
  by (simp_all add: pure_ex_def answerX_def nullX_def)

lemma pure_Completes: "pure_ex e \<Longrightarrow> pure_body (Completes e)"
  by (simp add: pure_body_def)

lemma pure_run_all:
  assumes "\<forall>e \<in> set es. pure_ex e"
  shows "\<exists>r. \<forall>a. run_all es a = (Some r, a)"
  using assms
proof (induction es)
  case (Cons e es)
  then obtain r rs where "\<forall>a. e a = (Some r, a)" "\<forall>a. run_all es a = (Some rs, a)"
    by (auto simp: pure_ex_def)
  then show ?case by (cases r; cases rs) simp
qed simp

lemma pure_objectX: "\<forall>s \<in> set ss. pure_ex (snd (snd s)) \<Longrightarrow> pure_ex (objectX ss)"
  using pure_run_all [of "map (\<lambda>(_, _, e). e) ss"] by (fastforce simp: pure_ex_def objectX_def)

lemma pure_listX: "\<forall>e \<in> set es. pure_ex e \<Longrightarrow> pure_ex (listX es)"
  using pure_run_all [of es] by (fastforce simp: pure_ex_def listX_def)

lemma pure_entryD: "pure_entry eo \<Longrightarrow> eo \<noteq> None \<Longrightarrow> pure_ex (snd (snd (snd (the eo))))"
  by (auto simp: pure_entry_def)

lemma pure_object_body:
  assumes "\<And>f. f \<in> set sel \<Longrightarrow> pure_entry (g f)"
  shows "pure_body (object_body (map g sel))"
proof (cases "None \<in> set (map g sel)")
  case True
  let ?es = "filter (Not \<circ> fst) (map the (takeWhile (\<lambda>e. e \<noteq> None) (map g sel)))"
  have "pure_ex (snd (snd (snd s)))" if s: "s \<in> set ?es" for s
  proof -
    from s obtain eo where "eo \<in> set (takeWhile (\<lambda>e. e \<noteq> None) (map g sel))" "s = the eo"
      by (auto simp: image_iff)
    then have "eo \<noteq> None" "eo \<in> set (map g sel)" by (auto dest: set_takeWhileD)
    with assms \<open>s = the eo\<close> show ?thesis by (auto intro: pure_entryD)
  qed
  then have "\<forall>e \<in> set (map (\<lambda>(_, _, _, e). e) ?es). pure_ex e" by fastforce
  from pure_run_all [OF this] obtain r where "\<forall>a. run_all (map (\<lambda>(_, _, _, e). e) ?es) a = (Some r, a)" ..
  then show ?thesis
    using True by (cases r) (simp add: pure_body_def object_body_def recovered_def run_before_def pure_ex_def)
next
  case False
  have "pure_ex (snd (snd s))" if s: "s \<in> set (map (snd \<circ> the) (map g sel))" for s
  proof -
    from s obtain f where f: "f \<in> set sel" "s = snd (the (g f))" by auto
    moreover from f False have "g f \<noteq> None" by (metis imageI list.set_map)
    ultimately show ?thesis using pure_entryD [OF assms] by simp
  qed
  then show ?thesis using False by (simp add: pure_body_def object_body_def pure_objectX)
qed

lemma pure_slice_body:
  assumes "\<And>v. v \<in> set vs \<Longrightarrow> pure_body (g v)"
  shows "pure_body (slice_body (map g vs))"
proof -
  have r: "\<forall>e \<in> set (map recovered (map g vs)). pure_ex e" using assms by (simp add: pure_body_def)
  from pure_run_all [OF this] obtain r where "\<forall>a. run_all (map recovered (map g vs)) a = (Some r, a)" ..
  with pure_listX [OF r] show ?thesis
    by (cases r) (simp add: pure_body_def slice_body_def pure_ex_def)
qed

lemma pure_fieldX:
  assumes "\<And>v. pure_body (marshal v)"
  shows "pure_ex (fieldX fc (\<lambda>p. okR (h p)) marshal)"
  using assms by (simp add: fieldX_def with_args_def pure_body_def pure_same split: call.split sum.split)

lemma pure_option:
  "(\<And>y. pure_body (g y)) \<Longrightarrow> pure_body (case v of None \<Rightarrow> Completes (answerX w) | Some y \<Rightarrow> g y)"
  "(\<And>y. pure_body (g y)) \<Longrightarrow> pure_body (case v of None \<Rightarrow> Completes (nullX er) | Some y \<Rightarrow> g y)"
  by (simp_all add: pure_body_def pure_same split: option.split)

lemma pure_if: "pure_entry x \<Longrightarrow> pure_entry y \<Longrightarrow> pure_entry (if b then x else y)"
  by simp

lemma pure_Some: "pure_ex e \<Longrightarrow> pure_entry (Some (d, al, req, e))"
  by simp

lemma pure_marshal:
  "pure_body (marshalNString s)" "pure_body (marshalNBoolean b)" "pure_body (marshalOBoolean b)"
  "pure_body (marshalOString_ptr mstr)" "pure_body (marshalN__TypeKind s)"
  "pure_body (marshalN__DirectiveLocation_slice ss)"
  "(\<And>d. pure_body (directive d)) \<Longrightarrow> pure_body (marshalN__Directive_slice directive ds)"
  "(\<And>i. pure_body (input i)) \<Longrightarrow> pure_body (marshalN__InputValue_slice input is)"
  "(\<And>i. pure_body (input i)) \<Longrightarrow> pure_body (marshalO__InputValue_slice input mis)"
  "(\<And>e. pure_body (enum e)) \<Longrightarrow> pure_body (marshalO__EnumValue_slice enum mes)"
  "(\<And>f. pure_body (field f)) \<Longrightarrow> pure_body (marshalO__Field_slice field mfs)"
  "(\<And>t. pure_body (type t)) \<Longrightarrow> pure_body (marshalN__Type_ptr type mt)"
  "(\<And>t. pure_body (type t)) \<Longrightarrow> pure_body (marshalN__Type_slice type ts)"
  "(\<And>t. pure_body (type t)) \<Longrightarrow> pure_body (marshalO__Type_ptr type mt)"
  "(\<And>t. pure_body (type t)) \<Longrightarrow> pure_body (marshalO__Type_slice type mts)"
  "(\<And>s. pure_body (whole s)) \<Longrightarrow> pure_body (marshalO__Schema_ptr whole ms)"
  unfolding intro_marshal_defs
  by (auto intro!: pure_option pure_slice_body pure_Completes pure_same)

lemmas pure_intros = pure_if pure_Some pure_fieldX pure_marshal pure_object_body pure_same pure_entry_simps(1)

lemma pure_EnumValue: "pure_entry (ec___EnumValue_entry f v)"
  by (cases f) (simp only: ec___EnumValue_entry.simps ec_intro_defs; intro pure_intros)

lemma pure_cycle:
  "pure_entry (ec___Type_entry lb il f t :: 'c entry option) \<and> pure_entry (ec___Field_entry lb il f v :: 'c entry option) \<and>
   pure_entry (ec___InputValue_entry lb il f i :: 'c entry option)"
proof (induction f arbitrary: t v i)
  case (RawField n al args sub)
  have IH:
    "pure_entry (ec___Type_entry lb il f t :: 'c entry option) \<and> pure_entry (ec___Field_entry lb il f v :: 'c entry option) \<and>
     pure_entry (ec___InputValue_entry lb il f i :: 'c entry option)" if "f \<in> set sub" for f t v i
    using RawField [OF that] by blast
  show ?case
    unfolding ec___Type_entry.simps ec___Field_entry.simps ec___InputValue_entry.simps ec_intro_defs
    by (intro conjI pure_intros pure_EnumValue IH [THEN conjunct1] IH [THEN conjunct2, THEN conjunct1]
        IH [THEN conjunct2, THEN conjunct2])
qed

lemma pure_Directive: "pure_entry (ec___Directive_entry lb il f v)"
  by (cases f) (simp only: ec___Directive_entry.simps ec_intro_defs;
    intro pure_intros conjunct2 [OF conjunct2 [OF pure_cycle]])

lemma pure_Schema: "pure_entry (ec___Schema_entry lb il f v)"
  by (cases f) (simp only: ec___Schema_entry.simps ec_intro_defs;
    intro pure_intros conjunct1 [OF pure_cycle] pure_Directive)

lemma pure_failing:
  assumes "\<And>v. pure_body (marshal v)"
  shows "pure_ex (fieldX fc (\<lambda>p. if off p then failR er else okR (h p)) marshal)"
  using assms
  by (simp add: fieldX_def with_args_def resolveX_def failR_def okR_def pure_ex_def pure_body_def nullX_def
      split: call.split sum.split)

lemma pure_root:
  "pure_ex (ec_Query___type lb il f (ec___Type lb il sub))"
  "pure_ex (ec_Query___schema il (ec___Schema lb il sub))"
  unfolding ec_Query___type_def ec_Query___schema_def introspectType_def introspectSchema_def
    ec___Type_def ec___Schema_def
  by (intro pure_failing pure_marshal pure_object_body conjunct1 [OF pure_cycle] pure_Schema)+


section \<open>The projection of the schema on a selection\<close>

text \<open>
  The introspection schema of GraphQL: the fields of each object with the type below them, and
  what the library promises of its objects: a field, an argument and the query type have a type.
\<close>

definition introspection_types :: "(string \<times> (string \<times> string) list) list" where
  "introspection_types =
     [(''__Schema'', [(''description'', ''String''), (''types'', ''__Type''), (''queryType'', ''__Type''),
        (''mutationType'', ''__Type''), (''subscriptionType'', ''__Type''), (''directives'', ''__Directive'')]),
      (''__Type'', [(''kind'', ''__TypeKind''), (''name'', ''String''), (''description'', ''String''),
        (''specifiedByURL'', ''String''), (''fields'', ''__Field''), (''interfaces'', ''__Type''),
        (''possibleTypes'', ''__Type''), (''enumValues'', ''__EnumValue''), (''inputFields'', ''__InputValue''),
        (''ofType'', ''__Type''), (''isOneOf'', ''Boolean'')]),
      (''__Field'', [(''name'', ''String''), (''description'', ''String''), (''args'', ''__InputValue''),
        (''type'', ''__Type''), (''isDeprecated'', ''Boolean''), (''deprecationReason'', ''String'')]),
      (''__InputValue'', [(''name'', ''String''), (''description'', ''String''), (''type'', ''__Type''),
        (''defaultValue'', ''String''), (''isDeprecated'', ''Boolean''), (''deprecationReason'', ''String'')]),
      (''__EnumValue'', [(''name'', ''String''), (''description'', ''String''), (''isDeprecated'', ''Boolean''),
        (''deprecationReason'', ''String'')]),
      (''__Directive'', [(''name'', ''String''), (''description'', ''String''), (''isRepeatable'', ''Boolean''),
        (''locations'', ''__DirectiveLocation''), (''args'', ''__InputValue'')]),
      (''Query'', [(''__schema'', ''__Schema''), (''__type'', ''__Type'')])]"

definition introspection_type :: "string \<Rightarrow> string \<Rightarrow> string option" where
  "introspection_type T n =
     (if n = ''__typename'' then Some ''String''
      else case map_of introspection_types T of None \<Rightarrow> None | Some fs \<Rightarrow> map_of fs n)"

text \<open>The arguments a field takes, decoded: whether deprecated members are asked for, which type.\<close>

definition asked_deprecated :: "gql_libs \<Rightarrow> 'ty intro_libs \<Rightarrow> raw_args \<Rightarrow> bool" where
  "asked_deprecated lb il args = (case field___Type_fields_args lb il args of Ret (Inr b) \<Rightarrow> b | _ \<Rightarrow> False)"

definition asked_type :: "gql_libs \<Rightarrow> raw_args \<Rightarrow> string" where
  "asked_type lb args = (case field_Query___type_args lb args of Ret (Inr s) \<Rightarrow> s | _ \<Rightarrow> '''')"

definition accepted :: "'a call \<Rightarrow> bool" where
  "accepted c \<longleftrightarrow> (case c of Ret (Inr _) \<Rightarrow> True | _ \<Rightarrow> False)"

definition intro_args_ok :: "gql_libs \<Rightarrow> 'ty intro_libs \<Rightarrow> string \<Rightarrow> raw_args \<Rightarrow> bool" where
  "intro_args_ok lb il n args \<longleftrightarrow>
     (if n \<in> {''fields'', ''enumValues''} then accepted (field___Type_fields_args lb il args)
      else if n = ''args'' then accepted (field___Field_args_args lb il args)
      else if n = ''__type'' then accepted (field_Query___type_args lb args) else True)"

fun intro_ok :: "gql_libs \<Rightarrow> 'ty intro_libs \<Rightarrow> string \<Rightarrow> raw_field \<Rightarrow> bool" where
  "intro_ok lb il T (RawField n al args sub) =
     (case introspection_type T n of
        None \<Rightarrow> False
      | Some T' \<Rightarrow> intro_args_ok lb il n args \<and> list_all (intro_ok lb il T') sub)"

definition intro_wf :: "'ty intro_libs \<Rightarrow> bool" where
  "intro_wf il \<longleftrightarrow>
     (\<forall>t incl fs fl. Type_Fields il t incl = Some fs \<longrightarrow> fl \<in> set fs \<longrightarrow>
        ifl_Type fl \<noteq> None \<and> (\<forall>i \<in> set (ifl_Args fl). iiv_Type i \<noteq> None)) \<and>
     (\<forall>t is i. Type_InputFields il t = Some is \<longrightarrow> i \<in> set is \<longrightarrow> iiv_Type i \<noteq> None) \<and>
     isc_QueryType (WrapSchema il) \<noteq> None \<and>
     (\<forall>d \<in> set (isc_Directives (WrapSchema il)). \<forall>i \<in> set (idr_Args d). iiv_Type i \<noteq> None)"

text \<open>The answer that is meant: the selected members, null where the library has none.\<close>

definition project :: "(raw_field \<Rightarrow> 'v \<Rightarrow> gql_value) \<Rightarrow> raw_field list \<Rightarrow> 'v \<Rightarrow> gql_value" where
  "project member sel v = GObject (map (\<lambda>f. (rf_alias f, member f v)) sel)"

definition or_null :: "('v \<Rightarrow> gql_value) \<Rightarrow> 'v option \<Rightarrow> gql_value" where
  "or_null g v = (case v of None \<Rightarrow> GNull | Some y \<Rightarrow> g y)"

fun enum_member :: "raw_field \<Rightarrow> intro_enum \<Rightarrow> gql_value" where
  "enum_member (RawField n al args sub) v =
     (if n = ''name'' then GText (iev_Name v)
      else if n = ''description'' then or_null GText (iev_Description v)
      else if n = ''isDeprecated'' then GBoolean (iev_IsDeprecated v)
      else if n = ''deprecationReason'' then or_null GText (iev_DeprecationReason v)
      else GText ''__EnumValue'')"

fun type_member :: "gql_libs \<Rightarrow> 'ty intro_libs \<Rightarrow> raw_field \<Rightarrow> 'ty \<Rightarrow> gql_value"
  and field_member :: "gql_libs \<Rightarrow> 'ty intro_libs \<Rightarrow> raw_field \<Rightarrow> 'ty intro_field \<Rightarrow> gql_value"
  and input_member :: "gql_libs \<Rightarrow> 'ty intro_libs \<Rightarrow> raw_field \<Rightarrow> 'ty intro_input \<Rightarrow> gql_value" where
  "type_member lb il (RawField n al args sub) t =
     (if n = ''kind'' then GText (Type_Kind il t)
      else if n = ''name'' then or_null GText (Type_Name il t)
      else if n = ''description'' then or_null GText (Type_Description il t)
      else if n = ''specifiedByURL'' then or_null GText (Type_SpecifiedByURL il t)
      else if n = ''fields'' then
        or_null (\<lambda>vs. GList (map (\<lambda>v. GObject (map (\<lambda>f. (rf_alias f, field_member lb il f v)) sub)) vs))
          (Type_Fields il t (asked_deprecated lb il args))
      else if n = ''interfaces'' then
        or_null (\<lambda>vs. GList (map (\<lambda>v. GObject (map (\<lambda>f. (rf_alias f, type_member lb il f v)) sub)) vs))
          (Type_Interfaces il t)
      else if n = ''possibleTypes'' then
        or_null (\<lambda>vs. GList (map (\<lambda>v. GObject (map (\<lambda>f. (rf_alias f, type_member lb il f v)) sub)) vs))
          (Type_PossibleTypes il t)
      else if n = ''enumValues'' then
        or_null (\<lambda>vs. GList (map (project enum_member sub) vs))
          (Type_EnumValues il t (asked_deprecated lb il args))
      else if n = ''inputFields'' then
        or_null (\<lambda>vs. GList (map (\<lambda>v. GObject (map (\<lambda>f. (rf_alias f, input_member lb il f v)) sub)) vs))
          (Type_InputFields il t)
      else if n = ''ofType'' then
        or_null (\<lambda>v. GObject (map (\<lambda>f. (rf_alias f, type_member lb il f v)) sub)) (Type_OfType il t)
      else if n = ''isOneOf'' then GBoolean (Type_IsOneOf il t)
      else GText ''__Type'')"
| "field_member lb il (RawField n al args sub) v =
     (if n = ''name'' then GText (ifl_Name v)
      else if n = ''description'' then or_null GText (ifl_Description v)
      else if n = ''args'' then
        GList (map (\<lambda>i. GObject (map (\<lambda>f. (rf_alias f, input_member lb il f i)) sub)) (ifl_Args v))
      else if n = ''type'' then
        or_null (\<lambda>t. GObject (map (\<lambda>f. (rf_alias f, type_member lb il f t)) sub)) (ifl_Type v)
      else if n = ''isDeprecated'' then GBoolean (ifl_IsDeprecated v)
      else if n = ''deprecationReason'' then or_null GText (ifl_DeprecationReason v)
      else GText ''__Field'')"
| "input_member lb il (RawField n al args sub) i =
     (if n = ''name'' then GText (iiv_Name i)
      else if n = ''description'' then or_null GText (iiv_Description i)
      else if n = ''type'' then
        or_null (\<lambda>t. GObject (map (\<lambda>f. (rf_alias f, type_member lb il f t)) sub)) (iiv_Type i)
      else if n = ''defaultValue'' then or_null GText (iiv_DefaultValue i)
      else if n = ''isDeprecated'' then GBoolean (iiv_IsDeprecated i)
      else if n = ''deprecationReason'' then or_null GText (iiv_DeprecationReason i)
      else GText ''__InputValue'')"

fun directive_member :: "gql_libs \<Rightarrow> 'ty intro_libs \<Rightarrow> raw_field \<Rightarrow> 'ty intro_directive \<Rightarrow> gql_value" where
  "directive_member lb il (RawField n al args sub) d =
     (if n = ''name'' then GText (idr_Name d)
      else if n = ''description'' then or_null GText (idr_Description d)
      else if n = ''isRepeatable'' then GBoolean (idr_IsRepeatable d)
      else if n = ''locations'' then GList (map GText (idr_Locations d))
      else if n = ''args'' then GList (map (project (input_member lb il) sub) (idr_Args d))
      else GText ''__Directive'')"

fun schema_member :: "gql_libs \<Rightarrow> 'ty intro_libs \<Rightarrow> raw_field \<Rightarrow> 'ty intro_schema \<Rightarrow> gql_value" where
  "schema_member lb il (RawField n al args sub) s =
     (if n = ''description'' then or_null GText (isc_Description s)
      else if n = ''types'' then GList (map (project (type_member lb il) sub) (isc_Types s))
      else if n = ''queryType'' then or_null (project (type_member lb il) sub) (isc_QueryType s)
      else if n = ''mutationType'' then or_null (project (type_member lb il) sub) (isc_MutationType s)
      else if n = ''subscriptionType'' then or_null (project (type_member lb il) sub) (isc_SubscriptionType s)
      else if n = ''directives'' then GList (map (project (directive_member lb il) sub) (isc_Directives s))
      else GText ''__Schema'')"

fun root_member :: "gql_libs \<Rightarrow> 'ty intro_libs \<Rightarrow> raw_field \<Rightarrow> gql_value" where
  "root_member lb il (RawField n al args sub) =
     (if n = ''__schema'' then project (schema_member lb il) sub (WrapSchema il)
      else if n = ''__type'' then
        or_null (project (type_member lb il) sub) (WrapTypeFromDef il (asked_type lb args))
      else GText ''Query'')"


subsection \<open>Shown values\<close>

definition entry_is :: "'c entry option \<Rightarrow> string \<Rightarrow> gql_value \<Rightarrow> bool" where
  "entry_is eo al v \<longleftrightarrow> (\<exists>req. eo = Some (False, al, req, answerX v) \<and> (req \<longrightarrow> v \<noteq> GNull))"

definition shows_value :: "'c body \<Rightarrow> gql_value \<Rightarrow> bool" where
  "shows_value b v \<longleftrightarrow> b = Completes (answerX v)"

lemma run_all_answers: "run_all (map (\<lambda>f. answerX (g f)) fs) a = (Some (map g fs, []), a)"
  by (induction fs) (simp_all add: answerX_def)

lemma listX_answers: "GNull \<notin> g ` set vs \<Longrightarrow> listX (map (\<lambda>v. answerX (g v)) vs) = answerX (GList (map g vs))"
  by (simp add: listX_def fun_eq_iff run_all_answers) (simp add: answerX_def)

lemma objectX_answers:
  assumes "\<And>f. f \<in> set sel \<Longrightarrow> req f \<Longrightarrow> h f \<noteq> GNull"
  shows "objectX (map (\<lambda>f. (al f, req f, answerX (h f))) sel) = answerX (GObject (map (\<lambda>f. (al f, h f)) sel))"
proof -
  have "\<not> list_ex (\<lambda>((_, required, _), v). required \<and> v = GNull)
      (zip (map (\<lambda>f. (al f, req f, answerX (h f))) sel) (map h sel))"
    using assms by (induction sel) auto
  moreover have "zip (map al sel) (map h sel) = map (\<lambda>f. (al f, h f)) sel"
    by (induction sel) auto
  ultimately show ?thesis
    by (simp add: objectX_def fun_eq_iff comp_def run_all_answers) (simp add: answerX_def)
qed

lemma object_shown:
  assumes "\<And>f. f \<in> set sel \<Longrightarrow> entry_is (g f) (al f) (h f)"
  shows "shows_value (object_body (map g sel)) (GObject (map (\<lambda>f. (al f, h f)) sel))"
proof -
  have "\<forall>f \<in> set sel. \<exists>req. g f = Some (False, al f, req, answerX (h f)) \<and> (req \<longrightarrow> h f \<noteq> GNull)"
    using assms by (simp add: entry_is_def)
  then obtain req where
    req: "\<And>f. f \<in> set sel \<Longrightarrow> g f = Some (False, al f, req f, answerX (h f)) \<and> (req f \<longrightarrow> h f \<noteq> GNull)"
    by metis
  then have "object_body (map g sel) =
      object_body (map (\<lambda>f. Some (False, al f, req f, answerX (h f))) sel)"
    by (metis (no_types, lifting) map_cong)
  also have "\<dots> = Completes (objectX (map (\<lambda>f. (al f, req f, answerX (h f))) sel))"
    by (auto simp: object_body_def comp_def)
  also have "objectX (map (\<lambda>f. (al f, req f, answerX (h f))) sel) =
      answerX (GObject (map (\<lambda>f. (al f, h f)) sel))"
    using req by (intro objectX_answers) blast
  finally show ?thesis by (simp add: shows_value_def)
qed

lemma slice_shown:
  assumes "\<And>v. v \<in> set vs \<Longrightarrow> shows_value (g v) (h v)" and "\<And>v. v \<in> set vs \<Longrightarrow> h v \<noteq> GNull"
  shows "shows_value (slice_body (map g vs)) (GList (map h vs))"
proof -
  have g: "map g vs = map (\<lambda>v. Completes (answerX (h v))) vs"
    using assms(1) by (simp add: shows_value_def)
  have "GNull \<notin> h ` set vs" using assms(2) by force
  then show ?thesis unfolding g by (simp add: shows_value_def slice_body_Completes listX_answers)
qed

lemma field_shown:
  assumes "shows_value (marshal (h (fc_Args fc))) w"
  shows "fieldX (Ret (Inr fc)) (\<lambda>p. okR (h p)) marshal = answerX w"
  using assms by (simp add: fieldX_Ret shows_value_def)

lemma marshal_shown:
  "shows_value (marshalNString s) (GText s)" "shows_value (marshalNBoolean b) (GBoolean b)"
  "shows_value (marshalOBoolean b) (GBoolean b)" "shows_value (marshalOString_ptr mstr) (or_null GText mstr)"
  "shows_value (marshalN__TypeKind s) (GText s)"
  "shows_value (marshalN__DirectiveLocation_slice ss) (GList (map GText ss))"
  by (auto simp: shows_value_def marshalNString_def marshalNBoolean_def marshalOBoolean_def
      marshalOString_ptr_def marshalN__TypeKind_def marshalN__DirectiveLocation_slice_def
      marshalN__DirectiveLocation_def [abs_def] or_null_def slice_body_Completes listX_answers image_iff
      split: option.split)

lemma marshal_shown_objects:
  "(\<And>v. v \<in> set vs \<Longrightarrow> shows_value (obj v) (GObject (h v))) \<Longrightarrow>
     shows_value (marshalN__Type_slice obj vs) (GList (map (\<lambda>v. GObject (h v)) vs))"
  "(\<And>d. d \<in> set ds \<Longrightarrow> shows_value (obj_d d) (GObject (h_d d))) \<Longrightarrow>
     shows_value (marshalN__Directive_slice obj_d ds) (GList (map (\<lambda>v. GObject (h_d v)) ds))"
  "(\<And>i. i \<in> set is \<Longrightarrow> shows_value (obj_i i) (GObject (h_i i))) \<Longrightarrow>
     shows_value (marshalN__InputValue_slice obj_i is) (GList (map (\<lambda>v. GObject (h_i v)) is))"
  unfolding intro_marshal_defs by (rule slice_shown; simp)+

lemma marshal_shown_nullable:
  "(\<And>v xs. mvs = Some xs \<Longrightarrow> v \<in> set xs \<Longrightarrow> shows_value (obj v) (GObject (h v))) \<Longrightarrow>
     shows_value (marshalO__Type_slice obj mvs) (or_null (\<lambda>vs. GList (map (\<lambda>v. GObject (h v)) vs)) mvs)"
  "(\<And>v xs. mfs = Some xs \<Longrightarrow> v \<in> set xs \<Longrightarrow> shows_value (obj_f v) (GObject (h_f v))) \<Longrightarrow>
     shows_value (marshalO__Field_slice obj_f mfs) (or_null (\<lambda>vs. GList (map (\<lambda>v. GObject (h_f v)) vs)) mfs)"
  "(\<And>v xs. mis = Some xs \<Longrightarrow> v \<in> set xs \<Longrightarrow> shows_value (obj_i v) (GObject (h_i v))) \<Longrightarrow>
     shows_value (marshalO__InputValue_slice obj_i mis) (or_null (\<lambda>vs. GList (map (\<lambda>v. GObject (h_i v)) vs)) mis)"
  "(\<And>v xs. mes = Some xs \<Longrightarrow> v \<in> set xs \<Longrightarrow> shows_value (obj_e v) (GObject (h_e v))) \<Longrightarrow>
     shows_value (marshalO__EnumValue_slice obj_e mes) (or_null (\<lambda>vs. GList (map (\<lambda>v. GObject (h_e v)) vs)) mes)"
  "(\<And>v. mt = Some v \<Longrightarrow> shows_value (obj v) (GObject (h v))) \<Longrightarrow>
     shows_value (marshalO__Type_ptr obj mt) (or_null (\<lambda>v. GObject (h v)) mt)"
  "(\<And>v. mt = Some v \<Longrightarrow> shows_value (obj v) (GObject (h v))) \<Longrightarrow> mt \<noteq> None \<Longrightarrow>
     shows_value (marshalN__Type_ptr obj mt) (or_null (\<lambda>v. GObject (h v)) mt)"
  unfolding marshalO__Type_slice_def marshalO__Field_slice_def marshalO__InputValue_slice_def
    marshalO__EnumValue_slice_def marshalO__Type_ptr_def marshalN__Type_ptr_def
    marshalN__Type_def marshalN__Field_def marshalN__InputValue_def marshalN__EnumValue_def or_null_def
  by (auto split: option.split simp: shows_value_def [of "Completes _"] intro!: slice_shown)

lemma scalars_shown:
  "ec___Type_kind il t = answerX (GText (Type_Kind il t))"
  "ec___Type_name il t = answerX (or_null GText (Type_Name il t))"
  "ec___Type_description il t = answerX (or_null GText (Type_Description il t))"
  "ec___Type_specifiedByURL il t = answerX (or_null GText (Type_SpecifiedByURL il t))"
  "ec___Type_isOneOf il t = answerX (GBoolean (Type_IsOneOf il t))"
  "ec___Field_name v = answerX (GText (ifl_Name v))"
  "ec___Field_description v = answerX (or_null GText (ifl_Description v))"
  "ec___Field_isDeprecated v = answerX (GBoolean (ifl_IsDeprecated v))"
  "ec___Field_deprecationReason v = answerX (or_null GText (ifl_DeprecationReason v))"
  "ec___InputValue_name i = answerX (GText (iiv_Name i))"
  "ec___InputValue_description i = answerX (or_null GText (iiv_Description i))"
  "ec___InputValue_defaultValue i = answerX (or_null GText (iiv_DefaultValue i))"
  "ec___InputValue_isDeprecated i = answerX (GBoolean (iiv_IsDeprecated i))"
  "ec___InputValue_deprecationReason i = answerX (or_null GText (iiv_DeprecationReason i))"
  "ec___EnumValue_name e = answerX (GText (iev_Name e))"
  "ec___EnumValue_description e = answerX (or_null GText (iev_Description e))"
  "ec___EnumValue_isDeprecated e = answerX (GBoolean (iev_IsDeprecated e))"
  "ec___EnumValue_deprecationReason e = answerX (or_null GText (iev_DeprecationReason e))"
  "ec___Directive_name d = answerX (GText (idr_Name d))"
  "ec___Directive_description d = answerX (or_null GText (idr_Description d))"
  "ec___Directive_isRepeatable d = answerX (GBoolean (idr_IsRepeatable d))"
  "ec___Directive_locations d = answerX (GList (map GText (idr_Locations d)))"
  "ec___Schema_description s = answerX (or_null GText (isc_Description s))"
  unfolding ec_intro_defs intro_context_defs by (rule field_shown marshal_shown)+

lemma asked_deprecatedI:
  "accepted (field___Type_fields_args lb il args) \<Longrightarrow>
     field___Type_fields_args lb il args = Ret (Inr (asked_deprecated lb il args))"
  by (simp add: accepted_def asked_deprecated_def split: call.splits sum.splits)

lemma type_members_shown:
  "(\<And>v xs. Type_Interfaces il t = Some xs \<Longrightarrow> v \<in> set xs \<Longrightarrow> shows_value (obj v) (GObject (h v))) \<Longrightarrow>
     ec___Type_interfaces il obj t = answerX (or_null (\<lambda>vs. GList (map (\<lambda>v. GObject (h v)) vs)) (Type_Interfaces il t))"
  "(\<And>v xs. Type_PossibleTypes il t = Some xs \<Longrightarrow> v \<in> set xs \<Longrightarrow> shows_value (obj v) (GObject (h v))) \<Longrightarrow>
     ec___Type_possibleTypes il obj t = answerX (or_null (\<lambda>vs. GList (map (\<lambda>v. GObject (h v)) vs)) (Type_PossibleTypes il t))"
  "(\<And>v xs. Type_InputFields il t = Some xs \<Longrightarrow> v \<in> set xs \<Longrightarrow> shows_value (obj_i v) (GObject (h_i v))) \<Longrightarrow>
     ec___Type_inputFields il obj_i t = answerX (or_null (\<lambda>vs. GList (map (\<lambda>v. GObject (h_i v)) vs)) (Type_InputFields il t))"
  "(\<And>v. Type_OfType il t = Some v \<Longrightarrow> shows_value (obj v) (GObject (h v))) \<Longrightarrow>
     ec___Type_ofType il obj t = answerX (or_null (\<lambda>v. GObject (h v)) (Type_OfType il t))"
  unfolding ec_intro_defs intro_context_defs
  by (rule field_shown, rule marshal_shown_nullable, assumption+)+

lemma type_argument_members_shown:
  assumes "accepted (field___Type_fields_args lb il (rf_args f))"
  shows
    "(\<And>v xs. Type_Fields il t (asked_deprecated lb il (rf_args f)) = Some xs \<Longrightarrow> v \<in> set xs \<Longrightarrow>
         shows_value (obj_f v) (GObject (h_f v))) \<Longrightarrow>
       ec___Type_fields lb il f obj_f t =
         answerX (or_null (\<lambda>vs. GList (map (\<lambda>v. GObject (h_f v)) vs)) (Type_Fields il t (asked_deprecated lb il (rf_args f))))"
    "(\<And>v xs. Type_EnumValues il t (asked_deprecated lb il (rf_args f)) = Some xs \<Longrightarrow> v \<in> set xs \<Longrightarrow>
         shows_value (obj_e v) (GObject (h_e v))) \<Longrightarrow>
       ec___Type_enumValues lb il f obj_e t =
         answerX (or_null (\<lambda>vs. GList (map (\<lambda>v. GObject (h_e v)) vs)) (Type_EnumValues il t (asked_deprecated lb il (rf_args f))))"
  using asked_deprecatedI [OF assms]
  by (auto simp: ec___Type_fields_def ec___Type_enumValues_def fieldContext___Type_fields_def
      fieldContext___Type_enumValues_def field___Type_enumValues_args_def field___Type_fields_args_def
      intro!: field_shown marshal_shown_nullable)

lemma other_members_shown:
  "accepted (field___Field_args_args lb il (rf_args f)) \<Longrightarrow>
   (\<And>i. i \<in> set (ifl_Args v) \<Longrightarrow> shows_value (obj_i i) (GObject (h_i i))) \<Longrightarrow>
     ec___Field_args lb il f obj_i v = answerX (GList (map (\<lambda>i. GObject (h_i i)) (ifl_Args v)))"
  "accepted (field___Field_args_args lb il (rf_args f)) \<Longrightarrow>
   (\<And>i. i \<in> set (idr_Args d) \<Longrightarrow> shows_value (obj_i i) (GObject (h_i i))) \<Longrightarrow>
     ec___Directive_args lb il f obj_i d = answerX (GList (map (\<lambda>i. GObject (h_i i)) (idr_Args d)))"
  "(\<And>t. ifl_Type v = Some t \<Longrightarrow> shows_value (obj t) (GObject (h t))) \<Longrightarrow> ifl_Type v \<noteq> None \<Longrightarrow>
     ec___Field_type obj v = answerX (or_null (\<lambda>t. GObject (h t)) (ifl_Type v))"
  "(\<And>t. iiv_Type i = Some t \<Longrightarrow> shows_value (obj t) (GObject (h t))) \<Longrightarrow> iiv_Type i \<noteq> None \<Longrightarrow>
     ec___InputValue_type obj i = answerX (or_null (\<lambda>t. GObject (h t)) (iiv_Type i))"
  "(\<And>t. t \<in> set (isc_Types s) \<Longrightarrow> shows_value (obj t) (GObject (h t))) \<Longrightarrow>
     ec___Schema_types obj s = answerX (GList (map (\<lambda>t. GObject (h t)) (isc_Types s)))"
  "(\<And>t. isc_QueryType s = Some t \<Longrightarrow> shows_value (obj t) (GObject (h t))) \<Longrightarrow> isc_QueryType s \<noteq> None \<Longrightarrow>
     ec___Schema_queryType obj s = answerX (or_null (\<lambda>t. GObject (h t)) (isc_QueryType s))"
  "(\<And>t. isc_MutationType s = Some t \<Longrightarrow> shows_value (obj t) (GObject (h t))) \<Longrightarrow>
     ec___Schema_mutationType obj s = answerX (or_null (\<lambda>t. GObject (h t)) (isc_MutationType s))"
  "(\<And>t. isc_SubscriptionType s = Some t \<Longrightarrow> shows_value (obj t) (GObject (h t))) \<Longrightarrow>
     ec___Schema_subscriptionType obj s = answerX (or_null (\<lambda>t. GObject (h t)) (isc_SubscriptionType s))"
  "(\<And>d. d \<in> set (isc_Directives s) \<Longrightarrow> shows_value (obj_d d) (GObject (h_d d))) \<Longrightarrow>
     ec___Schema_directives obj_d s = answerX (GList (map (\<lambda>d. GObject (h_d d)) (isc_Directives s)))"
  by (auto simp: ec_intro_defs intro_context_defs accepted_def field___Field_args_args_def
      field___Directive_args_args_def split: call.splits sum.splits
      intro!: field_shown marshal_shown_objects marshal_shown_nullable)

lemma entry_isI: "e = answerX v \<Longrightarrow> (req \<Longrightarrow> v \<noteq> GNull) \<Longrightarrow> entry_is (Some (False, al, req, e)) al v"
  by (simp add: entry_is_def)

lemma or_null_not_null: "v \<noteq> None \<Longrightarrow> or_null (\<lambda>v. GObject (h v)) v \<noteq> GNull"
  by (auto simp: or_null_def)

lemma enum_member_shown:
  assumes "intro_ok lb il ''__EnumValue'' f"
  shows "entry_is (ec___EnumValue_entry f v) (rf_alias f) (enum_member f v)"
  using assms
  by (cases f) (auto simp: introspection_type_def introspection_types_def scalars_shown intro!: entry_isI
      split: if_splits)

text \<open>The fields below an object, by its type: what a valid selection on it can be.\<close>

lemma intro_ok_cases:
  "intro_ok lb il ''__Type'' (RawField n al args sub) \<Longrightarrow>
     n \<in> {''__typename'', ''kind'', ''name'', ''description'', ''specifiedByURL'', ''isOneOf''} \<or>
     n = ''fields'' \<and> accepted (field___Type_fields_args lb il args) \<and> (\<forall>f \<in> set sub. intro_ok lb il ''__Field'' f) \<or>
     n = ''enumValues'' \<and> accepted (field___Type_fields_args lb il args) \<and> (\<forall>f \<in> set sub. intro_ok lb il ''__EnumValue'' f) \<or>
     n = ''inputFields'' \<and> (\<forall>f \<in> set sub. intro_ok lb il ''__InputValue'' f) \<or>
     n \<in> {''interfaces'', ''possibleTypes'', ''ofType''} \<and> (\<forall>f \<in> set sub. intro_ok lb il ''__Type'' f)"
  "intro_ok lb il ''__Field'' (RawField n al args sub) \<Longrightarrow>
     n \<in> {''__typename'', ''name'', ''description'', ''isDeprecated'', ''deprecationReason''} \<or>
     n = ''args'' \<and> accepted (field___Field_args_args lb il args) \<and> (\<forall>f \<in> set sub. intro_ok lb il ''__InputValue'' f) \<or>
     n = ''type'' \<and> (\<forall>f \<in> set sub. intro_ok lb il ''__Type'' f)"
  "intro_ok lb il ''__InputValue'' (RawField n al args sub) \<Longrightarrow>
     n \<in> {''__typename'', ''name'', ''description'', ''defaultValue'', ''isDeprecated'', ''deprecationReason''} \<or>
     n = ''type'' \<and> (\<forall>f \<in> set sub. intro_ok lb il ''__Type'' f)"
  by (auto simp: introspection_type_def introspection_types_def intro_args_ok_def list_all_iff split: if_splits)

lemma members_shown:
  assumes wf: "intro_wf il"
  shows
    "(intro_ok lb il ''__Type'' f \<longrightarrow>
        entry_is (ec___Type_entry lb il f t :: 'c entry option) (rf_alias f) (type_member lb il f t)) \<and>
     (intro_ok lb il ''__Field'' f \<longrightarrow> ifl_Type v \<noteq> None \<longrightarrow> (\<forall>i \<in> set (ifl_Args v). iiv_Type i \<noteq> None) \<longrightarrow>
        entry_is (ec___Field_entry lb il f v :: 'c entry option) (rf_alias f) (field_member lb il f v)) \<and>
     (intro_ok lb il ''__InputValue'' f \<longrightarrow> iiv_Type i \<noteq> None \<longrightarrow>
        entry_is (ec___InputValue_entry lb il f i :: 'c entry option) (rf_alias f) (input_member lb il f i))"
proof (induction f arbitrary: t v i)
  case (RawField n al args sub)
  have T: "shows_value (object_body (map (\<lambda>f. ec___Type_entry lb il f t :: 'c entry option) sub))
      (GObject (map (\<lambda>f. (rf_alias f, type_member lb il f t)) sub))"
    if "\<forall>f \<in> set sub. intro_ok lb il ''__Type'' f" for t
    by (rule object_shown) (use RawField that in blast)
  have F: "shows_value (object_body (map (\<lambda>f. ec___Field_entry lb il f v :: 'c entry option) sub))
      (GObject (map (\<lambda>f. (rf_alias f, field_member lb il f v)) sub))"
    if "\<forall>f \<in> set sub. intro_ok lb il ''__Field'' f" "Type_Fields il t incl = Some fs" "v \<in> set fs" for v t incl fs
  proof (rule object_shown)
    have "ifl_Type v \<noteq> None" "\<forall>i \<in> set (ifl_Args v). iiv_Type i \<noteq> None"
      using wf that unfolding intro_wf_def by blast+
    then show "entry_is (ec___Field_entry lb il f v :: 'c entry option) (rf_alias f) (field_member lb il f v)"
      if "f \<in> set sub" for f
      using RawField [OF that] \<open>\<forall>f \<in> set sub. intro_ok lb il ''__Field'' f\<close> that by blast
  qed
  have I: "shows_value (object_body (map (\<lambda>f. ec___InputValue_entry lb il f i :: 'c entry option) sub))
      (GObject (map (\<lambda>f. (rf_alias f, input_member lb il f i)) sub))"
    if "\<forall>f \<in> set sub. intro_ok lb il ''__InputValue'' f" "iiv_Type i \<noteq> None" for i
    by (rule object_shown) (use RawField that in blast)
  have E: "shows_value (object_body (map (\<lambda>f. ec___EnumValue_entry f e :: 'c entry option) sub))
      (project enum_member sub e)"
    if "\<forall>f \<in> set sub. intro_ok lb il ''__EnumValue'' f" for e
    unfolding project_def by (rule object_shown) (use that enum_member_shown in blast)
  note A = type_argument_members_shown [where f = "RawField m al args sub" for m, simplified]
  have wf_i: "iiv_Type i \<noteq> None" if "Type_InputFields il t = Some is" "i \<in> set is" for t "is" i
    using wf that unfolding intro_wf_def by blast
  show ?case
  proof (intro conjI impI)
    assume "intro_ok lb il ''__Type'' (RawField n al args sub)"
    from intro_ok_cases(1) [OF this]
    show "entry_is (ec___Type_entry lb il (RawField n al args sub) t :: 'c entry option)
        (rf_alias (RawField n al args sub)) (type_member lb il (RawField n al args sub) t)"
      by (elim disjE conjE insertE emptyE)
        (simp_all add: scalars_shown entry_isI type_members_shown T F I wf_i
          A project_def [abs_def] E [unfolded project_def])
  next
    assume "intro_ok lb il ''__Field'' (RawField n al args sub)" and "ifl_Type v \<noteq> None"
      and "\<forall>i \<in> set (ifl_Args v). iiv_Type i \<noteq> None"
    with intro_ok_cases(2) [OF this(1)]
    show "entry_is (ec___Field_entry lb il (RawField n al args sub) v :: 'c entry option)
        (rf_alias (RawField n al args sub)) (field_member lb il (RawField n al args sub) v)"
      by (elim disjE conjE insertE emptyE)
        (simp_all add: scalars_shown entry_isI other_members_shown T I or_null_not_null)
  next
    assume "intro_ok lb il ''__InputValue'' (RawField n al args sub)" and "iiv_Type i \<noteq> None"
    with intro_ok_cases(3) [OF this(1)]
    show "entry_is (ec___InputValue_entry lb il (RawField n al args sub) i :: 'c entry option)
        (rf_alias (RawField n al args sub)) (input_member lb il (RawField n al args sub) i)"
      by (elim disjE conjE insertE emptyE)
        (simp_all add: scalars_shown entry_isI other_members_shown T or_null_not_null)
  qed
qed

lemma directive_member_shown:
  assumes "intro_wf il" and "intro_ok lb il ''__Directive'' f" and "\<forall>i \<in> set (idr_Args d). iiv_Type i \<noteq> None"
  shows "entry_is (ec___Directive_entry lb il f d) (rf_alias f) (directive_member lb il f d)"
proof (cases f)
  case (RawField n al args sub)
  have I: "shows_value (object_body (map (\<lambda>f. ec___InputValue_entry lb il f i) sub))
      (GObject (map (\<lambda>f. (rf_alias f, input_member lb il f i)) sub))"
    if "\<forall>f \<in> set sub. intro_ok lb il ''__InputValue'' f" "i \<in> set (idr_Args d)" for i
    by (rule object_shown) (use members_shown [OF assms(1)] assms(3) that in blast)
  from assms(2) RawField show ?thesis
    by (auto simp: introspection_type_def introspection_types_def intro_args_ok_def list_all_iff scalars_shown
        project_def [abs_def] other_members_shown I intro!: entry_isI split: if_splits)
qed

lemma schema_member_shown:
  assumes "intro_wf il" and "intro_ok lb il ''__Schema'' f"
  shows "entry_is (ec___Schema_entry lb il f (WrapSchema il)) (rf_alias f) (schema_member lb il f (WrapSchema il))"
proof (cases f)
  case (RawField n al args sub)
  have T: "shows_value (object_body (map (\<lambda>f. ec___Type_entry lb il f t) sub))
      (GObject (map (\<lambda>f. (rf_alias f, type_member lb il f t)) sub))"
    if "\<forall>f \<in> set sub. intro_ok lb il ''__Type'' f" for t
    by (rule object_shown) (use members_shown [OF assms(1)] that in blast)
  have D: "shows_value (object_body (map (\<lambda>f. ec___Directive_entry lb il f d) sub))
      (GObject (map (\<lambda>f. (rf_alias f, directive_member lb il f d)) sub))"
    if "\<forall>f \<in> set sub. intro_ok lb il ''__Directive'' f" "d \<in> set (isc_Directives (WrapSchema il))" for d
    using assms(1) that unfolding intro_wf_def
    by (intro object_shown directive_member_shown [OF assms(1)]) blast+
  have Q: "isc_QueryType (WrapSchema il) \<noteq> None" using assms(1) by (simp add: intro_wf_def)
  from assms(2) RawField show ?thesis
    by (auto simp: introspection_type_def introspection_types_def intro_args_ok_def list_all_iff scalars_shown
        project_def [abs_def] other_members_shown other_members_shown(6) [OF _ Q] T D or_null_not_null [OF Q] intro!: entry_isI split: if_splits)
qed

lemma root_shown:
  assumes "intro_wf il" and "\<not> DisableIntrospection il"
  shows "accepted (field_Query___type_args lb (rf_args f)) \<Longrightarrow> \<forall>s \<in> set sub. intro_ok lb il ''__Type'' s \<Longrightarrow>
      ec_Query___type lb il f (ec___Type lb il sub) =
        answerX (or_null (project (type_member lb il) sub) (WrapTypeFromDef il (asked_type lb (rf_args f))))"
    and "\<forall>s \<in> set sub. intro_ok lb il ''__Schema'' s \<Longrightarrow>
      ec_Query___schema il (ec___Schema lb il sub) = answerX (project (schema_member lb il) sub (WrapSchema il))"
proof -
  assume a: "accepted (field_Query___type_args lb (rf_args f))" and s: "\<forall>s \<in> set sub. intro_ok lb il ''__Type'' s"
  have T: "shows_value (ec___Type lb il sub t) (GObject (map (\<lambda>f. (rf_alias f, type_member lb il f t)) sub))" for t
    unfolding ec___Type_def by (rule object_shown) (use members_shown [OF assms(1)] s in blast)
  from a have "field_Query___type_args lb (rf_args f) = Ret (Inr (asked_type lb (rf_args f)))"
    by (simp add: accepted_def asked_type_def split: call.splits sum.splits)
  with assms(2) show "ec_Query___type lb il f (ec___Type lb il sub) =
      answerX (or_null (project (type_member lb il) sub) (WrapTypeFromDef il (asked_type lb (rf_args f))))"
    by (auto simp: ec_Query___type_def fieldContext_Query___type_def introspectType_def project_def [abs_def]
        intro!: field_shown marshal_shown_nullable T)
next
  assume s: "\<forall>s \<in> set sub. intro_ok lb il ''__Schema'' s"
  have "shows_value (ec___Schema lb il sub (WrapSchema il))
      (GObject (map (\<lambda>f. (rf_alias f, schema_member lb il f (WrapSchema il))) sub))"
    unfolding ec___Schema_def by (rule object_shown) (use schema_member_shown [OF assms(1)] s in blast)
  with assms(2) show "ec_Query___schema il (ec___Schema lb il sub) =
      answerX (project (schema_member lb il) sub (WrapSchema il))"
    by (auto simp: ec_Query___schema_def fieldContext_Query___schema_def introspectSchema_def project_def
        marshalO__Schema_ptr_def intro!: field_shown)
qed

lemma root_disabled:
  assumes "DisableIntrospection il"
  shows "accepted (field_Query___type_args lb (rf_args f)) \<Longrightarrow> ec_Query___type lb il f sel_t =
      nullX (ResolverError (PlainError (ExtErr ''introspection disabled'')))"
    and "ec_Query___schema il sel_s = nullX (ResolverError (PlainError (ExtErr ''introspection disabled'')))"
  using assms
  by (auto simp: ec_Query___type_def ec_Query___schema_def fieldContext_Query___type_def
      fieldContext_Query___schema_def introspectType_def introspectSchema_def fieldX_def with_args_def
      resolveX_def failR_def fun_eq_iff accepted_def split: call.splits sum.splits)


section \<open>The types of the schema, introspected\<close>

text \<open>A type of the schema is the reference to it: a list and a non-null type wrap another one.\<close>

definition demo_field :: "string \<times> type_ref \<Rightarrow> type_ref intro_field" where
  "demo_field p =
     \<lparr>ifl_Name = fst p, ifl_Description = None, ifl_Args = [], ifl_Type = Some (snd p),
      ifl_IsDeprecated = False, ifl_DeprecationReason = None\<rparr>"

definition demo_introspection :: "bool \<Rightarrow> type_ref intro_libs" where
  "demo_introspection off =
     \<lparr>DisableIntrospection = off,
      WrapSchema =
        \<lparr>isc_Description = None, isc_Types = map (Named \<circ> fst) schema,
         isc_QueryType = Some (Named ''Query''), isc_MutationType = Some (Named ''Mutation''),
         isc_SubscriptionType = Some (Named ''Subscription''), isc_Directives = []\<rparr>,
      WrapTypeFromDef = (\<lambda>n. if object_type n then Some (Named n) else None),
      UnmarshalBoolean = (\<lambda>v. case v of ABool b \<Rightarrow> Inr b | _ \<Rightarrow> Inl (ExtErr ''not a bool'')),
      Type_Kind = (\<lambda>t. case t of Named n \<Rightarrow> if object_type n then ''OBJECT'' else ''SCALAR''
         | ListOf _ \<Rightarrow> ''LIST'' | Required _ \<Rightarrow> ''NON_NULL''),
      Type_Name = (\<lambda>t. case t of Named n \<Rightarrow> Some n | _ \<Rightarrow> None),
      Type_Description = (\<lambda>_. None), Type_SpecifiedByURL = (\<lambda>_. None),
      Type_Fields = (\<lambda>t _. case t of Named n \<Rightarrow> map_option (map demo_field) (map_of schema n) | _ \<Rightarrow> None),
      Type_Interfaces = (\<lambda>_. None), Type_PossibleTypes = (\<lambda>_. None), Type_EnumValues = (\<lambda>_ _. None),
      Type_InputFields = (\<lambda>_. None),
      Type_OfType = (\<lambda>t. case t of Named _ \<Rightarrow> None | ListOf t \<Rightarrow> Some t | Required t \<Rightarrow> Some t),
      Type_IsOneOf = (\<lambda>_. False)\<rparr>"

lemma demo_introspection_wf: "intro_wf (demo_introspection off)"
  by (auto simp: intro_wf_def demo_introspection_def demo_field_def split: type_ref.splits)

end
