(* ===== verification/Generated_Code.thy ===== *)
theory Generated_Code
  imports Introspection
begin

text \<open>
  The generated code function by function (\<open>pkg/api/v2/graphql/generated/generated.go\<close>): the
  function of each field (\<open>_T_f\<close>), the \<open>switch\<close> of each object (\<open>_T\<close>), the marshalling of
  pointers and slices, and the three kinds of operations, run directly on the selected fields
  with their raw arguments. The main theorem is that on every document that
  \<open>dispatch\<close> accepts this is the executor of the theory \<open>Executor\<close>, on which the properties of
  requests are proved. Introspection is run by the theory \<open>Introspection\<close>, and \<open>@defer\<close> is
  in the theory \<open>Deferral\<close>: here no field is deferred.
\<close>

section \<open>Marshalling\<close>

text \<open>The object's function stands for \<open>ec._T(ctx, sel, v)\<close>.\<close>

definition marshalNID :: "('f, 'c) exec_env \<Rightarrow> uuid \<Rightarrow> 'c body" where
  "marshalNID x v = Completes (idX x v)"

definition marshalNInt :: "64 word \<Rightarrow> 'c body" where
  "marshalNInt v = Completes (answerX (GInt v))"

definition marshalNDate :: "('f, 'c) exec_env \<Rightarrow> time \<Rightarrow> 'c body" where
  "marshalNDate x v = Completes (dateX x v)"

definition marshalNType :: "GType \<Rightarrow> 'c body" where
  "marshalNType v = Completes (answerX (GText v))"

definition marshalNNotificationType :: "string \<Rightarrow> 'c body" where
  "marshalNNotificationType v = Completes (answerX (GText v))"

definition marshalNCollection :: "(GCollection \<Rightarrow> 'c body) \<Rightarrow> GCollection option \<Rightarrow> 'c body" where
  "marshalNCollection obj v = (case v of None \<Rightarrow> Completes (nullX NullNotAllowed) | Some y \<Rightarrow> obj y)"

definition marshalNNotification :: "(string \<Rightarrow> 'c body) \<Rightarrow> string option \<Rightarrow> 'c body" where
  "marshalNNotification obj v = (case v of None \<Rightarrow> Completes (nullX NullNotAllowed) | Some y \<Rightarrow> obj y)"

definition marshalNQRRecord :: "(QRRecord \<Rightarrow> 'c body) \<Rightarrow> QRRecord option \<Rightarrow> 'c body" where
  "marshalNQRRecord obj v = (case v of None \<Rightarrow> Completes (nullX NullNotAllowed) | Some y \<Rightarrow> obj y)"

definition marshalNSession :: "(GSession \<Rightarrow> 'c body) \<Rightarrow> GSession option \<Rightarrow> 'c body" where
  "marshalNSession obj v = (case v of None \<Rightarrow> Completes (nullX NullNotAllowed) | Some y \<Rightarrow> obj y)"

definition marshalNTag :: "(GTag \<Rightarrow> 'c body) \<Rightarrow> GTag option \<Rightarrow> 'c body" where
  "marshalNTag obj v = (case v of None \<Rightarrow> Completes (nullX NullNotAllowed) | Some y \<Rightarrow> obj y)"

definition marshalNTagCategory :: "(GTagCategory \<Rightarrow> 'c body) \<Rightarrow> GTagCategory option \<Rightarrow> 'c body" where
  "marshalNTagCategory obj v = (case v of None \<Rightarrow> Completes (nullX NullNotAllowed) | Some y \<Rightarrow> obj y)"

definition marshalNTea :: "(GTea \<Rightarrow> 'c body) \<Rightarrow> GTea option \<Rightarrow> 'c body" where
  "marshalNTea obj v = (case v of None \<Rightarrow> Completes (nullX NullNotAllowed) | Some y \<Rightarrow> obj y)"

definition marshalOQRRecord :: "(QRRecord \<Rightarrow> 'c body) \<Rightarrow> QRRecord option \<Rightarrow> 'c body" where
  "marshalOQRRecord obj v = (case v of None \<Rightarrow> Completes (answerX GNull) | Some y \<Rightarrow> obj y)"

definition marshalOTag :: "(GTag \<Rightarrow> 'c body) \<Rightarrow> GTag option \<Rightarrow> 'c body" where
  "marshalOTag obj v = (case v of None \<Rightarrow> Completes (answerX GNull) | Some y \<Rightarrow> obj y)"

definition marshalOTea :: "(GTea \<Rightarrow> 'c body) \<Rightarrow> GTea option \<Rightarrow> 'c body" where
  "marshalOTea obj v = (case v of None \<Rightarrow> Completes (answerX GNull) | Some y \<Rightarrow> obj y)"

definition marshalOTeaOfTheDay :: "(TeaOfTheDay \<Rightarrow> 'c body) \<Rightarrow> TeaOfTheDay option \<Rightarrow> 'c body" where
  "marshalOTeaOfTheDay obj v = (case v of None \<Rightarrow> Completes (answerX GNull) | Some y \<Rightarrow> obj y)"

definition marshalOUser :: "(time \<Rightarrow> 'c body) \<Rightarrow> time option \<Rightarrow> 'c body" where
  "marshalOUser obj v = (case v of None \<Rightarrow> Completes (answerX GNull) | Some y \<Rightarrow> obj y)"

definition marshalNCollection_slice :: "(GCollection \<Rightarrow> 'c body) \<Rightarrow> GCollection list \<Rightarrow> 'c body" where
  "marshalNCollection_slice obj v = slice_body (map (\<lambda>e. marshalNCollection obj (Some e)) v)"

definition marshalNNotification_slice :: "(string \<Rightarrow> 'c body) \<Rightarrow> string list \<Rightarrow> 'c body" where
  "marshalNNotification_slice obj v = slice_body (map (\<lambda>e. marshalNNotification obj (Some e)) v)"

definition marshalNQRRecord_slice :: "(QRRecord \<Rightarrow> 'c body) \<Rightarrow> QRRecord list \<Rightarrow> 'c body" where
  "marshalNQRRecord_slice obj v = slice_body (map (\<lambda>e. marshalNQRRecord obj (Some e)) v)"

definition marshalNTagCategory_slice :: "(GTagCategory \<Rightarrow> 'c body) \<Rightarrow> GTagCategory list \<Rightarrow> 'c body" where
  "marshalNTagCategory_slice obj v = slice_body (map (\<lambda>e. marshalNTagCategory obj (Some e)) v)"

definition marshalNTag_slice :: "(GTag \<Rightarrow> 'c body) \<Rightarrow> GTag list \<Rightarrow> 'c body" where
  "marshalNTag_slice obj v = slice_body (map (\<lambda>e. marshalNTag obj (Some e)) v)"

definition marshalNTea_slice :: "(GTea \<Rightarrow> 'c body) \<Rightarrow> GTea list \<Rightarrow> 'c body" where
  "marshalNTea_slice obj v = slice_body (map (\<lambda>e. marshalNTea obj (Some e)) v)"

lemmas marshal_defs =
  marshalNID_def marshalNString_def marshalNBoolean_def marshalNInt_def marshalNDate_def
  marshalNType_def marshalNNotificationType_def marshalNCollection_def marshalNNotification_def
  marshalNQRRecord_def marshalNSession_def marshalNTag_def marshalNTagCategory_def marshalNTea_def
  marshalOQRRecord_def marshalOTag_def marshalOTea_def marshalOTeaOfTheDay_def marshalOUser_def
  marshalNCollection_slice_def marshalNNotification_slice_def marshalNQRRecord_slice_def
  marshalNTagCategory_slice_def marshalNTag_slice_def marshalNTea_slice_def

section \<open>Tags and categories\<close>

definition ec_Tag_id ::
    "('f, 'c) exec_env \<Rightarrow> GTag \<Rightarrow> 'c ex" where
  "ec_Tag_id x obj =
     fieldX fieldContext_Tag_id (\<lambda>_. okR (gtag_ID obj))
       (marshalNID x)"

definition ec_Tag_name ::
    "GTag \<Rightarrow> 'c ex" where
  "ec_Tag_name obj =
     fieldX fieldContext_Tag_name (\<lambda>_. okR (gtag_Name obj))
       marshalNString"

definition ec_Tag_color ::
    "GTag \<Rightarrow> 'c ex" where
  "ec_Tag_color obj =
     fieldX fieldContext_Tag_color (\<lambda>_. okR (gtag_Color obj))
       marshalNString"

definition ec_Tag_category ::
    "('f, 'c) exec_env \<Rightarrow> (GTagCategory \<Rightarrow> 'c body) \<Rightarrow> GTag \<Rightarrow> 'c ex" where
  "ec_Tag_category x sel obj =
     fieldX fieldContext_Tag_category (\<lambda>_. r_Tag_Category (x_sv x) obj)
       (marshalNTagCategory sel)"

definition ec_TagCategory_id ::
    "('f, 'c) exec_env \<Rightarrow> GTagCategory \<Rightarrow> 'c ex" where
  "ec_TagCategory_id x obj =
     fieldX fieldContext_TagCategory_id (\<lambda>_. okR (gcat_ID obj))
       (marshalNID x)"

definition ec_TagCategory_name ::
    "GTagCategory \<Rightarrow> 'c ex" where
  "ec_TagCategory_name obj =
     fieldX fieldContext_TagCategory_name (\<lambda>_. okR (gcat_Name obj))
       marshalNString"

definition ec_TagCategory_tags ::
    "gql_libs \<Rightarrow> ('f, 'c) exec_env \<Rightarrow> raw_field \<Rightarrow> (GTag \<Rightarrow> 'c body) \<Rightarrow> GTagCategory \<Rightarrow> 'c ex" where
  "ec_TagCategory_tags lb x f sel obj =
     fieldX (fieldContext_TagCategory_tags lb f) (\<lambda>name. r_TagCategory_Tags (x_sv x) (Some obj) name)
       (marshalNTag_slice sel)"

text \<open>Tags and categories select each other.\<close>

fun ec_Tag_entry :: "gql_libs \<Rightarrow> ('f, 'c) exec_env \<Rightarrow> raw_field \<Rightarrow> GTag \<Rightarrow> 'c entry option"
  and ec_TagCategory_entry :: "gql_libs \<Rightarrow> ('f, 'c) exec_env \<Rightarrow> raw_field \<Rightarrow> GTagCategory \<Rightarrow> 'c entry option" where
  "ec_Tag_entry lb x (RawField n al args sub) obj =
     (if n = ''__typename'' then Some (False, al, False, answerX (GText ''Tag''))
      else if n = ''id'' then Some (False, al, True, ec_Tag_id x obj)
      else if n = ''name'' then Some (False, al, True, ec_Tag_name obj)
      else if n = ''color'' then Some (False, al, True, ec_Tag_color obj)
      else if n = ''category'' then Some (True, al, True, ec_Tag_category x (\<lambda>v. object_body (map (\<lambda>f. ec_TagCategory_entry lb x f v) sub)) obj)
      else None)"
| "ec_TagCategory_entry lb x (RawField n al args sub) obj =
     (if n = ''__typename'' then Some (False, al, False, answerX (GText ''TagCategory''))
      else if n = ''id'' then Some (False, al, True, ec_TagCategory_id x obj)
      else if n = ''name'' then Some (False, al, True, ec_TagCategory_name obj)
      else if n = ''tags'' then Some (True, al, True, ec_TagCategory_tags lb x (RawField n al args sub) (\<lambda>v. object_body (map (\<lambda>f. ec_Tag_entry lb x f v) sub)) obj)
      else None)"

definition ec_Tag :: "gql_libs \<Rightarrow> ('f, 'c) exec_env \<Rightarrow> raw_field list \<Rightarrow> GTag \<Rightarrow> 'c body" where
  "ec_Tag lb x sel obj = object_body (map (\<lambda>f. ec_Tag_entry lb x f obj) sel)"

definition ec_TagCategory :: "gql_libs \<Rightarrow> ('f, 'c) exec_env \<Rightarrow> raw_field list \<Rightarrow> GTagCategory \<Rightarrow> 'c body" where
  "ec_TagCategory lb x sel obj = object_body (map (\<lambda>f. ec_TagCategory_entry lb x f obj) sel)"

section \<open>Fields of Tea\<close>

definition ec_Tea_id ::
    "('f, 'c) exec_env \<Rightarrow> GTea \<Rightarrow> 'c ex" where
  "ec_Tea_id x obj =
     fieldX fieldContext_Tea_id (\<lambda>_. okR (gtea_ID obj))
       (marshalNID x)"

definition ec_Tea_name ::
    "GTea \<Rightarrow> 'c ex" where
  "ec_Tea_name obj =
     fieldX fieldContext_Tea_name (\<lambda>_. okR (gtea_Name obj))
       marshalNString"

definition ec_Tea_type ::
    "GTea \<Rightarrow> 'c ex" where
  "ec_Tea_type obj =
     fieldX fieldContext_Tea_type (\<lambda>_. okR (gtea_Type obj))
       marshalNType"

definition ec_Tea_description ::
    "GTea \<Rightarrow> 'c ex" where
  "ec_Tea_description obj =
     fieldX fieldContext_Tea_description (\<lambda>_. okR (gtea_Description obj))
       marshalNString"

definition ec_Tea_tags ::
    "('f, 'c) exec_env \<Rightarrow> (GTag \<Rightarrow> 'c body) \<Rightarrow> GTea \<Rightarrow> 'c ex" where
  "ec_Tea_tags x sel obj =
     fieldX fieldContext_Tea_tags (\<lambda>_. r_Tea_Tags (x_sv x) obj)
       (marshalNTag_slice sel)"

fun ec_Tea_entry :: "gql_libs \<Rightarrow> ('f, 'c) exec_env \<Rightarrow> raw_field \<Rightarrow> GTea \<Rightarrow> 'c entry option" where
  "ec_Tea_entry lb x (RawField n al args sub) obj =
     (if n = ''__typename'' then Some (False, al, False, answerX (GText ''Tea''))
      else if n = ''id'' then Some (False, al, True, ec_Tea_id x obj)
      else if n = ''name'' then Some (False, al, True, ec_Tea_name obj)
      else if n = ''type'' then Some (False, al, True, ec_Tea_type obj)
      else if n = ''description'' then Some (False, al, True, ec_Tea_description obj)
      else if n = ''tags'' then Some (True, al, True, ec_Tea_tags x (ec_Tag lb x sub) obj)
      else None)"

definition ec_Tea :: "gql_libs \<Rightarrow> ('f, 'c) exec_env \<Rightarrow> raw_field list \<Rightarrow> GTea \<Rightarrow> 'c body" where
  "ec_Tea lb x sel obj = object_body (map (\<lambda>f. ec_Tea_entry lb x f obj) sel)"

section \<open>Fields of QRRecord\<close>

definition ec_QRRecord_id ::
    "('f, 'c) exec_env \<Rightarrow> QRRecord \<Rightarrow> 'c ex" where
  "ec_QRRecord_id x obj =
     fieldX fieldContext_QRRecord_id (\<lambda>_. okR (qrr_ID obj))
       (marshalNID x)"

definition ec_QRRecord_tea ::
    "(GTea \<Rightarrow> 'c body) \<Rightarrow> QRRecord \<Rightarrow> 'c ex" where
  "ec_QRRecord_tea sel obj =
     fieldX fieldContext_QRRecord_tea (\<lambda>_. okR (qrr_Tea obj))
       (marshalNTea sel)"

definition ec_QRRecord_bowlingTemp ::
    "QRRecord \<Rightarrow> 'c ex" where
  "ec_QRRecord_bowlingTemp obj =
     fieldX fieldContext_QRRecord_bowlingTemp (\<lambda>_. okR (qrr_BowlingTemp obj))
       marshalNInt"

definition ec_QRRecord_expirationDate ::
    "('f, 'c) exec_env \<Rightarrow> QRRecord \<Rightarrow> 'c ex" where
  "ec_QRRecord_expirationDate x obj =
     fieldX fieldContext_QRRecord_expirationDate (\<lambda>_. okR (qrr_ExpirationDate obj))
       (marshalNDate x)"

fun ec_QRRecord_entry :: "gql_libs \<Rightarrow> ('f, 'c) exec_env \<Rightarrow> raw_field \<Rightarrow> QRRecord \<Rightarrow> 'c entry option" where
  "ec_QRRecord_entry lb x (RawField n al args sub) obj =
     (if n = ''__typename'' then Some (False, al, False, answerX (GText ''QRRecord''))
      else if n = ''id'' then Some (False, al, True, ec_QRRecord_id x obj)
      else if n = ''tea'' then Some (False, al, True, ec_QRRecord_tea (ec_Tea lb x sub) obj)
      else if n = ''bowlingTemp'' then Some (False, al, True, ec_QRRecord_bowlingTemp obj)
      else if n = ''expirationDate'' then Some (False, al, True, ec_QRRecord_expirationDate x obj)
      else None)"

definition ec_QRRecord :: "gql_libs \<Rightarrow> ('f, 'c) exec_env \<Rightarrow> raw_field list \<Rightarrow> QRRecord \<Rightarrow> 'c body" where
  "ec_QRRecord lb x sel obj = object_body (map (\<lambda>f. ec_QRRecord_entry lb x f obj) sel)"

section \<open>Fields of Collection\<close>

definition ec_Collection_id ::
    "('f, 'c) exec_env \<Rightarrow> GCollection \<Rightarrow> 'c ex" where
  "ec_Collection_id x obj =
     fieldX fieldContext_Collection_id (\<lambda>_. okR (gcol_ID obj))
       (marshalNID x)"

definition ec_Collection_name ::
    "GCollection \<Rightarrow> 'c ex" where
  "ec_Collection_name obj =
     fieldX fieldContext_Collection_name (\<lambda>_. okR (gcol_Name obj))
       marshalNString"

definition ec_Collection_userID ::
    "('f, 'c) exec_env \<Rightarrow> GCollection \<Rightarrow> 'c ex" where
  "ec_Collection_userID x obj =
     fieldX fieldContext_Collection_userID (\<lambda>_. okR (gcol_UserID obj))
       (marshalNID x)"

definition ec_Collection_records ::
    "('f, 'c) exec_env \<Rightarrow> (QRRecord \<Rightarrow> 'c body) \<Rightarrow> GCollection \<Rightarrow> 'c ex" where
  "ec_Collection_records x sel obj =
     fieldX fieldContext_Collection_records (\<lambda>_. r_Collection_Records (x_sv x) obj)
       (marshalNQRRecord_slice sel)"

fun ec_Collection_entry :: "gql_libs \<Rightarrow> ('f, 'c) exec_env \<Rightarrow> raw_field \<Rightarrow> GCollection \<Rightarrow> 'c entry option" where
  "ec_Collection_entry lb x (RawField n al args sub) obj =
     (if n = ''__typename'' then Some (False, al, False, answerX (GText ''Collection''))
      else if n = ''id'' then Some (False, al, True, ec_Collection_id x obj)
      else if n = ''name'' then Some (False, al, True, ec_Collection_name obj)
      else if n = ''userID'' then Some (False, al, True, ec_Collection_userID x obj)
      else if n = ''records'' then Some (True, al, True, ec_Collection_records x (ec_QRRecord lb x sub) obj)
      else None)"

definition ec_Collection :: "gql_libs \<Rightarrow> ('f, 'c) exec_env \<Rightarrow> raw_field list \<Rightarrow> GCollection \<Rightarrow> 'c body" where
  "ec_Collection lb x sel obj = object_body (map (\<lambda>f. ec_Collection_entry lb x f obj) sel)"

section \<open>Fields of Notification\<close>

definition ec_Notification_type ::
    "string \<Rightarrow> 'c ex" where
  "ec_Notification_type obj =
     fieldX fieldContext_Notification_type (\<lambda>_. okR obj)
       marshalNNotificationType"

fun ec_Notification_entry :: "raw_field \<Rightarrow> string \<Rightarrow> 'c entry option" where
  "ec_Notification_entry  (RawField n al args sub) obj =
     (if n = ''__typename'' then Some (False, al, False, answerX (GText ''Notification''))
      else if n = ''type'' then Some (False, al, True, ec_Notification_type obj)
      else None)"

definition ec_Notification :: "raw_field list \<Rightarrow> string \<Rightarrow> 'c body" where
  "ec_Notification  sel obj = object_body (map (\<lambda>f. ec_Notification_entry  f obj) sel)"

section \<open>Fields of User\<close>

definition ec_User_tokenExpiredAt ::
    "('f, 'c) exec_env \<Rightarrow> time \<Rightarrow> 'c ex" where
  "ec_User_tokenExpiredAt x obj =
     fieldX fieldContext_User_tokenExpiredAt (\<lambda>_. okR obj)
       (marshalNDate x)"

definition ec_User_collections ::
    "('f, 'c) exec_env \<Rightarrow> (GCollection \<Rightarrow> 'c body) \<Rightarrow> time \<Rightarrow> 'c ex" where
  "ec_User_collections x sel obj =
     fieldX fieldContext_User_collections (\<lambda>_. r_User_Collections (x_sv x) (x_ctx x))
       (marshalNCollection_slice sel)"

definition ec_User_notifications ::
    "('f, 'c) exec_env \<Rightarrow> (string \<Rightarrow> 'c body) \<Rightarrow> time \<Rightarrow> 'c ex" where
  "ec_User_notifications x sel obj =
     fieldX fieldContext_User_notifications (\<lambda>_. r_User_Notifications (x_sv x) (x_ctx x))
       (marshalNNotification_slice sel)"

fun ec_User_entry :: "gql_libs \<Rightarrow> ('f, 'c) exec_env \<Rightarrow> raw_field \<Rightarrow> time \<Rightarrow> 'c entry option" where
  "ec_User_entry lb x (RawField n al args sub) obj =
     (if n = ''__typename'' then Some (False, al, False, answerX (GText ''User''))
      else if n = ''tokenExpiredAt'' then Some (False, al, True, ec_User_tokenExpiredAt x obj)
      else if n = ''collections'' then Some (True, al, True, ec_User_collections x (ec_Collection lb x sub) obj)
      else if n = ''notifications'' then Some (True, al, True, ec_User_notifications x (ec_Notification sub) obj)
      else None)"

definition ec_User :: "gql_libs \<Rightarrow> ('f, 'c) exec_env \<Rightarrow> raw_field list \<Rightarrow> time \<Rightarrow> 'c body" where
  "ec_User lb x sel obj = object_body (map (\<lambda>f. ec_User_entry lb x f obj) sel)"

section \<open>Fields of Session\<close>

definition ec_Session_token ::
    "GSession \<Rightarrow> 'c ex" where
  "ec_Session_token obj =
     fieldX fieldContext_Session_token (\<lambda>_. okR (gses_Token obj))
       marshalNString"

definition ec_Session_expiredAt ::
    "('f, 'c) exec_env \<Rightarrow> GSession \<Rightarrow> 'c ex" where
  "ec_Session_expiredAt x obj =
     fieldX fieldContext_Session_expiredAt (\<lambda>_. okR (gses_ExpiredAt obj))
       (marshalNDate x)"

fun ec_Session_entry :: "('f, 'c) exec_env \<Rightarrow> raw_field \<Rightarrow> GSession \<Rightarrow> 'c entry option" where
  "ec_Session_entry x (RawField n al args sub) obj =
     (if n = ''__typename'' then Some (False, al, False, answerX (GText ''Session''))
      else if n = ''token'' then Some (False, al, True, ec_Session_token obj)
      else if n = ''expiredAt'' then Some (False, al, True, ec_Session_expiredAt x obj)
      else None)"

definition ec_Session :: "('f, 'c) exec_env \<Rightarrow> raw_field list \<Rightarrow> GSession \<Rightarrow> 'c body" where
  "ec_Session x sel obj = object_body (map (\<lambda>f. ec_Session_entry x f obj) sel)"

section \<open>Fields of TeaOfTheDay\<close>

definition ec_TeaOfTheDay_tea ::
    "(QRRecord \<Rightarrow> 'c body) \<Rightarrow> TeaOfTheDay \<Rightarrow> 'c ex" where
  "ec_TeaOfTheDay_tea sel obj =
     fieldX fieldContext_TeaOfTheDay_tea (\<lambda>_. okR (tod_Tea obj))
       (marshalNQRRecord sel)"

definition ec_TeaOfTheDay_date ::
    "('f, 'c) exec_env \<Rightarrow> TeaOfTheDay \<Rightarrow> 'c ex" where
  "ec_TeaOfTheDay_date x obj =
     fieldX fieldContext_TeaOfTheDay_date (\<lambda>_. okR (tod_Date obj))
       (marshalNDate x)"

fun ec_TeaOfTheDay_entry :: "gql_libs \<Rightarrow> ('f, 'c) exec_env \<Rightarrow> raw_field \<Rightarrow> TeaOfTheDay \<Rightarrow> 'c entry option" where
  "ec_TeaOfTheDay_entry lb x (RawField n al args sub) obj =
     (if n = ''__typename'' then Some (False, al, False, answerX (GText ''TeaOfTheDay''))
      else if n = ''tea'' then Some (False, al, True, ec_TeaOfTheDay_tea (ec_QRRecord lb x sub) obj)
      else if n = ''date'' then Some (False, al, True, ec_TeaOfTheDay_date x obj)
      else None)"

definition ec_TeaOfTheDay :: "gql_libs \<Rightarrow> ('f, 'c) exec_env \<Rightarrow> raw_field list \<Rightarrow> TeaOfTheDay \<Rightarrow> 'c body" where
  "ec_TeaOfTheDay lb x sel obj = object_body (map (\<lambda>f. ec_TeaOfTheDay_entry lb x f obj) sel)"

section \<open>Queries\<close>

definition ec_Query_me ::
    "('f, 'c) exec_env \<Rightarrow> (time \<Rightarrow> 'c body) \<Rightarrow> 'c ex" where
  "ec_Query_me x sel =
     fieldX fieldContext_Query_me (\<lambda>_. r_Me (x_ctx x))
       (\<lambda>v. marshalOUser sel (Some v))"

definition ec_Query_teas ::
    "gql_libs \<Rightarrow> ('f, 'c) exec_env \<Rightarrow> raw_field \<Rightarrow> (GTea \<Rightarrow> 'c body) \<Rightarrow> 'c ex" where
  "ec_Query_teas lb x f sel =
     fieldX (fieldContext_Query_teas lb f) (\<lambda>pfx. r_Teas (x_sv x) pfx)
       (marshalNTea_slice sel)"

definition ec_Query_tea ::
    "gql_libs \<Rightarrow> ('f, 'c) exec_env \<Rightarrow> raw_field \<Rightarrow> (GTea \<Rightarrow> 'c body) \<Rightarrow> 'c ex" where
  "ec_Query_tea lb x f sel =
     fieldX (fieldContext_Query_tea lb f) (\<lambda>i. r_Tea (x_sv x) i)
       (\<lambda>v. marshalOTea sel (Some v))"

definition ec_Query_generateDescription ::
    "gql_libs \<Rightarrow> ('f, 'c) exec_env \<Rightarrow> 'f outside \<Rightarrow> raw_field \<Rightarrow> 'c ex" where
  "ec_Query_generateDescription lb x os f =
     fieldX (fieldContext_Query_generateDescription lb f) (\<lambda>name. r_GenerateDescription (x_sv x) (os_world os) name)
       marshalNString"

definition ec_Query_qrRecord ::
    "gql_libs \<Rightarrow> ('f, 'c) exec_env \<Rightarrow> raw_field \<Rightarrow> (QRRecord \<Rightarrow> 'c body) \<Rightarrow> 'c ex" where
  "ec_Query_qrRecord lb x f sel =
     fieldX (fieldContext_Query_qrRecord lb f) (\<lambda>i. r_QRRecord (x_sv x) i)
       (\<lambda>v. marshalOQRRecord sel (Some v))"

definition ec_Query_tag ::
    "gql_libs \<Rightarrow> ('f, 'c) exec_env \<Rightarrow> raw_field \<Rightarrow> (GTag \<Rightarrow> 'c body) \<Rightarrow> 'c ex" where
  "ec_Query_tag lb x f sel =
     fieldX (fieldContext_Query_tag lb f) (\<lambda>i. r_Tag (x_sv x) i)
       (\<lambda>v. marshalOTag sel (Some v))"

definition ec_Query_tagsCategories ::
    "gql_libs \<Rightarrow> ('f, 'c) exec_env \<Rightarrow> raw_field \<Rightarrow> (GTagCategory \<Rightarrow> 'c body) \<Rightarrow> 'c ex" where
  "ec_Query_tagsCategories lb x f sel =
     fieldX (fieldContext_Query_tagsCategories lb f) (\<lambda>name. r_TagsCategories (x_sv x) name)
       (marshalNTagCategory_slice sel)"

definition ec_Query_collections ::
    "('f, 'c) exec_env \<Rightarrow> (GCollection \<Rightarrow> 'c body) \<Rightarrow> 'c ex" where
  "ec_Query_collections x sel =
     fieldX fieldContext_Query_collections (\<lambda>_. r_Collections (x_sv x) (x_ctx x))
       (marshalNCollection_slice sel)"

definition ec_Query_teaOfTheDay ::
    "('f, 'c) exec_env \<Rightarrow> 'f outside \<Rightarrow> (TeaOfTheDay \<Rightarrow> 'c body) \<Rightarrow> 'c ex" where
  "ec_Query_teaOfTheDay x os sel =
     fieldX fieldContext_Query_teaOfTheDay (\<lambda>_. r_TeaOfTheDay (x_tod x) (x_sv x) (x_ctx x) (os_world os))
       (\<lambda>v. marshalOTeaOfTheDay sel (Some v))"

fun ec_Query_entry :: "gql_libs \<Rightarrow> 'ty intro_libs \<Rightarrow> ('f, 'c) exec_env \<Rightarrow> 'f root_field \<Rightarrow> 'c entry option" where
  "ec_Query_entry lb il x (os, RawField n al args sub) =
     (if n = ''__typename'' then Some (False, al, False, answerX (GText ''Query''))
      else if n = ''me'' then Some (True, al, False, ec_Query_me x (ec_User lb x sub))
      else if n = ''teas'' then Some (True, al, True, ec_Query_teas lb x (RawField n al args sub) (ec_Tea lb x sub))
      else if n = ''tea'' then Some (True, al, False, ec_Query_tea lb x (RawField n al args sub) (ec_Tea lb x sub))
      else if n = ''generateDescription'' then Some (True, al, True, ec_Query_generateDescription lb x os (RawField n al args sub))
      else if n = ''qrRecord'' then Some (True, al, False, ec_Query_qrRecord lb x (RawField n al args sub) (ec_QRRecord lb x sub))
      else if n = ''tag'' then Some (True, al, False, ec_Query_tag lb x (RawField n al args sub) (ec_Tag lb x sub))
      else if n = ''tagsCategories'' then Some (True, al, True, ec_Query_tagsCategories lb x (RawField n al args sub) (ec_TagCategory lb x sub))
      else if n = ''collections'' then Some (True, al, True, ec_Query_collections x (ec_Collection lb x sub))
      else if n = ''teaOfTheDay'' then Some (True, al, False, ec_Query_teaOfTheDay x os (ec_TeaOfTheDay lb x sub))
      else if n = ''__type'' then Some (False, al, False, ec_Query___type lb il (RawField n al args sub) (ec___Type lb il sub))
      else if n = ''__schema'' then Some (False, al, False, ec_Query___schema il (ec___Schema lb il sub))
      else None)"

definition ec_Query :: "gql_libs \<Rightarrow> 'ty intro_libs \<Rightarrow> ('f, 'c) exec_env \<Rightarrow> 'f root_field list \<Rightarrow> 'c body" where
  "ec_Query lb il x sel = object_body (map (ec_Query_entry lb il x) sel)"

section \<open>Mutations\<close>

definition ec_Mutation_authApple ::
    "gql_libs \<Rightarrow> ('f, 'c) exec_env \<Rightarrow> 'f outside \<Rightarrow> raw_field \<Rightarrow> (GSession \<Rightarrow> 'c body) \<Rightarrow> 'c ex" where
  "ec_Mutation_authApple lb x os f sel =
     fieldX (fieldContext_Mutation_authApple lb f) (\<lambda>(code, dev). r_AuthApple (x_sv x) ((os_signin os)\<lparr>si_code := code\<rparr>) dev)
       (\<lambda>v. marshalNSession sel (Some v))"

definition ec_Mutation_newTea ::
    "gql_libs \<Rightarrow> ('f, 'c) exec_env \<Rightarrow> 'f outside \<Rightarrow> raw_field \<Rightarrow> (GTea \<Rightarrow> 'c body) \<Rightarrow> 'c ex" where
  "ec_Mutation_newTea lb x os f sel =
     fieldX (fieldContext_Mutation_newTea lb f) (\<lambda>tea. r_NewTea (x_sv x) (x_ctx x) (os_id os) tea)
       (\<lambda>v. marshalNTea sel (Some v))"

definition ec_Mutation_updateTea ::
    "gql_libs \<Rightarrow> ('f, 'c) exec_env \<Rightarrow> raw_field \<Rightarrow> (GTea \<Rightarrow> 'c body) \<Rightarrow> 'c ex" where
  "ec_Mutation_updateTea lb x f sel =
     fieldX (fieldContext_Mutation_updateTea lb f) (\<lambda>(i, tea). r_UpdateTea (x_sv x) (x_ctx x) i tea)
       (\<lambda>v. marshalNTea sel (Some v))"

definition ec_Mutation_addTagToTea ::
    "gql_libs \<Rightarrow> ('f, 'c) exec_env \<Rightarrow> raw_field \<Rightarrow> (GTea \<Rightarrow> 'c body) \<Rightarrow> 'c ex" where
  "ec_Mutation_addTagToTea lb x f sel =
     fieldX (fieldContext_Mutation_addTagToTea lb f) (\<lambda>(tea, tg). r_AddTagToTea (x_sv x) (x_ctx x) tea tg)
       (\<lambda>v. marshalNTea sel (Some v))"

definition ec_Mutation_deleteTagFromTea ::
    "gql_libs \<Rightarrow> ('f, 'c) exec_env \<Rightarrow> raw_field \<Rightarrow> (GTea \<Rightarrow> 'c body) \<Rightarrow> 'c ex" where
  "ec_Mutation_deleteTagFromTea lb x f sel =
     fieldX (fieldContext_Mutation_deleteTagFromTea lb f) (\<lambda>(tea, tg). r_DeleteTagFromTea (x_sv x) (x_ctx x) tea tg)
       (\<lambda>v. marshalNTea sel (Some v))"

definition ec_Mutation_deleteTea ::
    "gql_libs \<Rightarrow> ('f, 'c) exec_env \<Rightarrow> raw_field \<Rightarrow> 'c ex" where
  "ec_Mutation_deleteTea lb x f =
     fieldX (fieldContext_Mutation_deleteTea lb f) (\<lambda>i. r_DeleteTea (x_sv x) (x_ctx x) i)
       (marshalNID x)"

definition ec_Mutation_writeToQR ::
    "gql_libs \<Rightarrow> ('f, 'c) exec_env \<Rightarrow> raw_field \<Rightarrow> (QRRecord \<Rightarrow> 'c body) \<Rightarrow> 'c ex" where
  "ec_Mutation_writeToQR lb x f sel =
     fieldX (fieldContext_Mutation_writeToQR lb f) (\<lambda>(i, data). r_WriteToQR (x_sv x) i data)
       (\<lambda>v. marshalNQRRecord sel (Some v))"

definition ec_Mutation_createTagCategory ::
    "gql_libs \<Rightarrow> ('f, 'c) exec_env \<Rightarrow> 'f outside \<Rightarrow> raw_field \<Rightarrow> (GTagCategory \<Rightarrow> 'c body) \<Rightarrow> 'c ex" where
  "ec_Mutation_createTagCategory lb x os f sel =
     fieldX (fieldContext_Mutation_createTagCategory lb f) (\<lambda>name. r_CreateTagCategory (x_sv x) (x_ctx x) (os_id os) name)
       (\<lambda>v. marshalNTagCategory sel (Some v))"

definition ec_Mutation_updateTagCategory ::
    "gql_libs \<Rightarrow> ('f, 'c) exec_env \<Rightarrow> raw_field \<Rightarrow> (GTagCategory \<Rightarrow> 'c body) \<Rightarrow> 'c ex" where
  "ec_Mutation_updateTagCategory lb x f sel =
     fieldX (fieldContext_Mutation_updateTagCategory lb f) (\<lambda>(i, name). r_UpdateTagCategory (x_sv x) (x_ctx x) i name)
       (\<lambda>v. marshalNTagCategory sel (Some v))"

definition ec_Mutation_deleteTagCategory ::
    "gql_libs \<Rightarrow> ('f, 'c) exec_env \<Rightarrow> raw_field \<Rightarrow> 'c ex" where
  "ec_Mutation_deleteTagCategory lb x f =
     fieldX (fieldContext_Mutation_deleteTagCategory lb f) (\<lambda>i. r_DeleteTagCategory (x_sv x) (x_ctx x) i)
       (marshalNID x)"

definition ec_Mutation_createTag ::
    "gql_libs \<Rightarrow> ('f, 'c) exec_env \<Rightarrow> 'f outside \<Rightarrow> raw_field \<Rightarrow> (GTag \<Rightarrow> 'c body) \<Rightarrow> 'c ex" where
  "ec_Mutation_createTag lb x os f sel =
     fieldX (fieldContext_Mutation_createTag lb f) (\<lambda>(name, col, cat). r_CreateTag (x_sv x) (x_ctx x) (os_id os) name col cat)
       (\<lambda>v. marshalNTag sel (Some v))"

definition ec_Mutation_updateTag ::
    "gql_libs \<Rightarrow> ('f, 'c) exec_env \<Rightarrow> raw_field \<Rightarrow> (GTag \<Rightarrow> 'c body) \<Rightarrow> 'c ex" where
  "ec_Mutation_updateTag lb x f sel =
     fieldX (fieldContext_Mutation_updateTag lb f) (\<lambda>(i, name, col). r_UpdateTag (x_sv x) (x_ctx x) i name col)
       (\<lambda>v. marshalNTag sel (Some v))"

definition ec_Mutation_changeTagCategory ::
    "gql_libs \<Rightarrow> ('f, 'c) exec_env \<Rightarrow> raw_field \<Rightarrow> (GTag \<Rightarrow> 'c body) \<Rightarrow> 'c ex" where
  "ec_Mutation_changeTagCategory lb x f sel =
     fieldX (fieldContext_Mutation_changeTagCategory lb f) (\<lambda>(i, cat). r_ChangeTagCategory (x_sv x) (x_ctx x) i cat)
       (\<lambda>v. marshalNTag sel (Some v))"

definition ec_Mutation_deleteTag ::
    "gql_libs \<Rightarrow> ('f, 'c) exec_env \<Rightarrow> raw_field \<Rightarrow> 'c ex" where
  "ec_Mutation_deleteTag lb x f =
     fieldX (fieldContext_Mutation_deleteTag lb f) (\<lambda>i. r_DeleteTag (x_sv x) (x_ctx x) i)
       (marshalNID x)"

definition ec_Mutation_createCollection ::
    "gql_libs \<Rightarrow> ('f, 'c) exec_env \<Rightarrow> 'f outside \<Rightarrow> raw_field \<Rightarrow> (GCollection \<Rightarrow> 'c body) \<Rightarrow> 'c ex" where
  "ec_Mutation_createCollection lb x os f sel =
     fieldX (fieldContext_Mutation_createCollection lb f) (\<lambda>name. r_CreateCollection (x_sv x) (x_ctx x) (os_id os) name)
       (\<lambda>v. marshalNCollection sel (Some v))"

definition ec_Mutation_addRecordsToCollection ::
    "gql_libs \<Rightarrow> ('f, 'c) exec_env \<Rightarrow> raw_field \<Rightarrow> (GCollection \<Rightarrow> 'c body) \<Rightarrow> 'c ex" where
  "ec_Mutation_addRecordsToCollection lb x f sel =
     fieldX (fieldContext_Mutation_addRecordsToCollection lb f) (\<lambda>(i, recs). r_AddRecordsToCollection (x_sv x) (x_ctx x) i recs)
       (\<lambda>v. marshalNCollection sel (Some v))"

definition ec_Mutation_deleteRecordsFromCollection ::
    "gql_libs \<Rightarrow> ('f, 'c) exec_env \<Rightarrow> raw_field \<Rightarrow> (GCollection \<Rightarrow> 'c body) \<Rightarrow> 'c ex" where
  "ec_Mutation_deleteRecordsFromCollection lb x f sel =
     fieldX (fieldContext_Mutation_deleteRecordsFromCollection lb f) (\<lambda>(i, recs). r_DeleteRecordsFromCollection (x_sv x) (x_ctx x) i recs)
       (\<lambda>v. marshalNCollection sel (Some v))"

definition ec_Mutation_deleteCollection ::
    "gql_libs \<Rightarrow> ('f, 'c) exec_env \<Rightarrow> raw_field \<Rightarrow> 'c ex" where
  "ec_Mutation_deleteCollection lb x f =
     fieldX (fieldContext_Mutation_deleteCollection lb f) (\<lambda>i. r_DeleteCollection (x_sv x) (x_ctx x) i)
       (marshalNID x)"

definition ec_Mutation_registerDeviceToken ::
    "gql_libs \<Rightarrow> ('f, 'c) exec_env \<Rightarrow> raw_field \<Rightarrow> 'c ex" where
  "ec_Mutation_registerDeviceToken lb x f =
     fieldX (fieldContext_Mutation_registerDeviceToken lb f) (\<lambda>(dev, token). r_RegisterDeviceToken (x_sv x) dev token)
       marshalNBoolean"

definition ec_Mutation_send ::
    "('f, 'c) exec_env \<Rightarrow> 'f outside \<Rightarrow> 'c ex" where
  "ec_Mutation_send x os =
     fieldX fieldContext_Mutation_send (\<lambda>_. r_Send (x_sv x) (x_ctx x) (os_now os))
       marshalNBoolean"

definition ec_Mutation_teaRecommendation ::
    "gql_libs \<Rightarrow> ('f, 'c) exec_env \<Rightarrow> 'f outside \<Rightarrow> raw_field \<Rightarrow> 'c ex" where
  "ec_Mutation_teaRecommendation lb x os f =
     fieldX (fieldContext_Mutation_teaRecommendation lb f) (\<lambda>(i, feelings). r_TeaRecommendation (x_sv x) (x_ctx x) (os_world os) i feelings)
       marshalNString"

fun ec_Mutation_entry :: "gql_libs \<Rightarrow> ('f, 'c) exec_env \<Rightarrow> 'f root_field \<Rightarrow> 'c entry option" where
  "ec_Mutation_entry lb x (os, RawField n al args sub) =
     (if n = ''__typename'' then Some (False, al, False, answerX (GText ''Mutation''))
      else if n = ''authApple'' then Some (False, al, True, ec_Mutation_authApple lb x os (RawField n al args sub) (ec_Session x sub))
      else if n = ''newTea'' then Some (False, al, True, ec_Mutation_newTea lb x os (RawField n al args sub) (ec_Tea lb x sub))
      else if n = ''updateTea'' then Some (False, al, True, ec_Mutation_updateTea lb x (RawField n al args sub) (ec_Tea lb x sub))
      else if n = ''addTagToTea'' then Some (False, al, True, ec_Mutation_addTagToTea lb x (RawField n al args sub) (ec_Tea lb x sub))
      else if n = ''deleteTagFromTea'' then Some (False, al, True, ec_Mutation_deleteTagFromTea lb x (RawField n al args sub) (ec_Tea lb x sub))
      else if n = ''deleteTea'' then Some (False, al, True, ec_Mutation_deleteTea lb x (RawField n al args sub))
      else if n = ''writeToQR'' then Some (False, al, True, ec_Mutation_writeToQR lb x (RawField n al args sub) (ec_QRRecord lb x sub))
      else if n = ''createTagCategory'' then Some (False, al, True, ec_Mutation_createTagCategory lb x os (RawField n al args sub) (ec_TagCategory lb x sub))
      else if n = ''updateTagCategory'' then Some (False, al, True, ec_Mutation_updateTagCategory lb x (RawField n al args sub) (ec_TagCategory lb x sub))
      else if n = ''deleteTagCategory'' then Some (False, al, True, ec_Mutation_deleteTagCategory lb x (RawField n al args sub))
      else if n = ''createTag'' then Some (False, al, True, ec_Mutation_createTag lb x os (RawField n al args sub) (ec_Tag lb x sub))
      else if n = ''updateTag'' then Some (False, al, True, ec_Mutation_updateTag lb x (RawField n al args sub) (ec_Tag lb x sub))
      else if n = ''changeTagCategory'' then Some (False, al, True, ec_Mutation_changeTagCategory lb x (RawField n al args sub) (ec_Tag lb x sub))
      else if n = ''deleteTag'' then Some (False, al, True, ec_Mutation_deleteTag lb x (RawField n al args sub))
      else if n = ''createCollection'' then Some (False, al, True, ec_Mutation_createCollection lb x os (RawField n al args sub) (ec_Collection lb x sub))
      else if n = ''addRecordsToCollection'' then Some (False, al, True, ec_Mutation_addRecordsToCollection lb x (RawField n al args sub) (ec_Collection lb x sub))
      else if n = ''deleteRecordsFromCollection'' then Some (False, al, True, ec_Mutation_deleteRecordsFromCollection lb x (RawField n al args sub) (ec_Collection lb x sub))
      else if n = ''deleteCollection'' then Some (False, al, True, ec_Mutation_deleteCollection lb x (RawField n al args sub))
      else if n = ''registerDeviceToken'' then Some (False, al, True, ec_Mutation_registerDeviceToken lb x (RawField n al args sub))
      else if n = ''send'' then Some (False, al, True, ec_Mutation_send x os)
      else if n = ''teaRecommendation'' then Some (False, al, True, ec_Mutation_teaRecommendation lb x os (RawField n al args sub))
      else None)"

definition ec_Mutation :: "gql_libs \<Rightarrow> ('f, 'c) exec_env \<Rightarrow> 'f root_field list \<Rightarrow> 'c body" where
  "ec_Mutation lb x sel = object_body (map (ec_Mutation_entry lb x) sel)"

section \<open>Subscriptions\<close>

text \<open>
  The function of a subscription starts the stream and answers the function that reads it: a
  closed channel ends it, a message is written as an object of the one field.
\<close>

definition started :: "'a \<Rightarrow> 'c body" where
  "started v = Completes (answerX (GObject []))"

definition written :: "string \<Rightarrow> 'c body \<Rightarrow> 'c body" where
  "written al b =
     (case b of Completes e \<Rightarrow> Completes (objectX [(al, False, e)]) | Panics e \<Rightarrow> Panics e)"

definition ec_Subscription_onCreateTea ::
    "'f outside \<Rightarrow> raw_field \<Rightarrow> (GTea \<Rightarrow> 'c body) \<Rightarrow> 'c ex \<times> (GTea option \<Rightarrow> 'c body option)" where
  "ec_Subscription_onCreateTea os f sel =
     (fieldX fieldContext_Subscription_onCreateTea (\<lambda>_. r_OnCreateTea (os_ctx os) (os_chan os)) started,
      map_option (\<lambda>v. written (rf_alias f) (marshalNTea sel (Some v))))"

definition ec_Subscription_onUpdateTea ::
    "'f outside \<Rightarrow> raw_field \<Rightarrow> (GTea \<Rightarrow> 'c body) \<Rightarrow> 'c ex \<times> (GTea option \<Rightarrow> 'c body option)" where
  "ec_Subscription_onUpdateTea os f sel =
     (fieldX fieldContext_Subscription_onUpdateTea (\<lambda>_. r_OnUpdateTea (os_ctx os) (os_chan os)) started,
      map_option (\<lambda>v. written (rf_alias f) (marshalNTea sel (Some v))))"

definition ec_Subscription_onDeleteTea ::
    "('f, 'c) exec_env \<Rightarrow> 'f outside \<Rightarrow> raw_field \<Rightarrow> 'c ex \<times> (uuid option \<Rightarrow> 'c body option)" where
  "ec_Subscription_onDeleteTea x os f =
     (fieldX fieldContext_Subscription_onDeleteTea (\<lambda>_. r_OnDeleteTea (os_ctx os) (os_chan os)) started,
      map_option (\<lambda>v. written (rf_alias f) (marshalNID x v)))"

definition ec_Subscription_onCreateTagCategory ::
    "'f outside \<Rightarrow> raw_field \<Rightarrow> (GTagCategory \<Rightarrow> 'c body) \<Rightarrow> 'c ex \<times> (GTagCategory option \<Rightarrow> 'c body option)" where
  "ec_Subscription_onCreateTagCategory os f sel =
     (fieldX fieldContext_Subscription_onCreateTagCategory (\<lambda>_. r_OnCreateTagCategory (os_ctx os) (os_chan os)) started,
      map_option (\<lambda>v. written (rf_alias f) (marshalNTagCategory sel (Some v))))"

definition ec_Subscription_onUpdateTagCategory ::
    "'f outside \<Rightarrow> raw_field \<Rightarrow> (GTagCategory \<Rightarrow> 'c body) \<Rightarrow> 'c ex \<times> (GTagCategory option \<Rightarrow> 'c body option)" where
  "ec_Subscription_onUpdateTagCategory os f sel =
     (fieldX fieldContext_Subscription_onUpdateTagCategory (\<lambda>_. r_OnUpdateTagCategory (os_ctx os) (os_chan os)) started,
      map_option (\<lambda>v. written (rf_alias f) (marshalNTagCategory sel (Some v))))"

definition ec_Subscription_onDeleteTagCategory ::
    "('f, 'c) exec_env \<Rightarrow> 'f outside \<Rightarrow> raw_field \<Rightarrow> 'c ex \<times> (uuid option \<Rightarrow> 'c body option)" where
  "ec_Subscription_onDeleteTagCategory x os f =
     (fieldX fieldContext_Subscription_onDeleteTagCategory (\<lambda>_. r_OnDeleteTagCategory (os_ctx os) (os_chan os)) started,
      map_option (\<lambda>v. written (rf_alias f) (marshalNID x v)))"

definition ec_Subscription_onCreateTag ::
    "'f outside \<Rightarrow> raw_field \<Rightarrow> (GTag \<Rightarrow> 'c body) \<Rightarrow> 'c ex \<times> (GTag option \<Rightarrow> 'c body option)" where
  "ec_Subscription_onCreateTag os f sel =
     (fieldX fieldContext_Subscription_onCreateTag (\<lambda>_. r_OnCreateTag (os_ctx os) (os_chan os)) started,
      map_option (\<lambda>v. written (rf_alias f) (marshalNTag sel (Some v))))"

definition ec_Subscription_onUpdateTag ::
    "'f outside \<Rightarrow> raw_field \<Rightarrow> (GTag \<Rightarrow> 'c body) \<Rightarrow> 'c ex \<times> (GTag option \<Rightarrow> 'c body option)" where
  "ec_Subscription_onUpdateTag os f sel =
     (fieldX fieldContext_Subscription_onUpdateTag (\<lambda>_. r_OnUpdateTag (os_ctx os) (os_chan os)) started,
      map_option (\<lambda>v. written (rf_alias f) (marshalNTag sel (Some v))))"

definition ec_Subscription_onDeleteTag ::
    "('f, 'c) exec_env \<Rightarrow> 'f outside \<Rightarrow> raw_field \<Rightarrow> 'c ex \<times> (uuid option \<Rightarrow> 'c body option)" where
  "ec_Subscription_onDeleteTag x os f =
     (fieldX fieldContext_Subscription_onDeleteTag (\<lambda>_. r_OnDeleteTag (os_ctx os) (os_chan os)) started,
      map_option (\<lambda>v. written (rf_alias f) (marshalNID x v)))"

definition ec_Subscription_onAddTagToTea ::
    "'f outside \<Rightarrow> raw_field \<Rightarrow> (GTea \<Rightarrow> 'c body) \<Rightarrow> 'c ex \<times> (GTea option \<Rightarrow> 'c body option)" where
  "ec_Subscription_onAddTagToTea os f sel =
     (fieldX fieldContext_Subscription_onAddTagToTea (\<lambda>_. r_OnAddTagToTea (os_ctx os) (os_chan os)) started,
      map_option (\<lambda>v. written (rf_alias f) (marshalNTea sel (Some v))))"

definition ec_Subscription_onDeleteTagFromTea ::
    "'f outside \<Rightarrow> raw_field \<Rightarrow> (GTea \<Rightarrow> 'c body) \<Rightarrow> 'c ex \<times> (GTea option \<Rightarrow> 'c body option)" where
  "ec_Subscription_onDeleteTagFromTea os f sel =
     (fieldX fieldContext_Subscription_onDeleteTagFromTea (\<lambda>_. r_OnDeleteTagFromTea (os_ctx os) (os_chan os)) started,
      map_option (\<lambda>v. written (rf_alias f) (marshalNTea sel (Some v))))"

definition ec_Subscription_startGenerateDescription ::
    "gql_libs \<Rightarrow> ('f, 'c) exec_env \<Rightarrow> raw_field \<Rightarrow> 'c ex \<times> (string option \<Rightarrow> 'c body option)" where
  "ec_Subscription_startGenerateDescription lb x f =
     (fieldX (fieldContext_Subscription_startGenerateDescription lb f) (\<lambda>name. r_StartGenerateDescription (x_sv x) name) started,
      map_option (\<lambda>v. written (rf_alias f) (marshalNString v)))"

definition ec_Subscription_recommendTea ::
    "gql_libs \<Rightarrow> ('f, 'c) exec_env \<Rightarrow> 'f outside \<Rightarrow> raw_field \<Rightarrow> 'c ex \<times> (string option \<Rightarrow> 'c body option)" where
  "ec_Subscription_recommendTea lb x os f =
     (fieldX (fieldContext_Subscription_recommendTea lb f) (\<lambda>(i, feelings). r_RecommendTea (x_sv x) (x_ctx x) (os_world os) i feelings) started,
      map_option (\<lambda>v. written (rf_alias f) (marshalNString v)))"

definition ec_Subscription :: "gql_libs \<Rightarrow> ('f, 'c) exec_env \<Rightarrow> 'f root_field list \<Rightarrow> 'c body" where
  "ec_Subscription lb x sel =
     (case sel of
        [(os, RawField n al args sub)] \<Rightarrow>
          if n = ''onCreateTea'' then Completes (fst (ec_Subscription_onCreateTea os (RawField n al args sub) (ec_Tea lb x sub)))
          else if n = ''onUpdateTea'' then Completes (fst (ec_Subscription_onUpdateTea os (RawField n al args sub) (ec_Tea lb x sub)))
          else if n = ''onDeleteTea'' then Completes (fst (ec_Subscription_onDeleteTea x os (RawField n al args sub)))
          else if n = ''onCreateTagCategory'' then Completes (fst (ec_Subscription_onCreateTagCategory os (RawField n al args sub) (ec_TagCategory lb x sub)))
          else if n = ''onUpdateTagCategory'' then Completes (fst (ec_Subscription_onUpdateTagCategory os (RawField n al args sub) (ec_TagCategory lb x sub)))
          else if n = ''onDeleteTagCategory'' then Completes (fst (ec_Subscription_onDeleteTagCategory x os (RawField n al args sub)))
          else if n = ''onCreateTag'' then Completes (fst (ec_Subscription_onCreateTag os (RawField n al args sub) (ec_Tag lb x sub)))
          else if n = ''onUpdateTag'' then Completes (fst (ec_Subscription_onUpdateTag os (RawField n al args sub) (ec_Tag lb x sub)))
          else if n = ''onDeleteTag'' then Completes (fst (ec_Subscription_onDeleteTag x os (RawField n al args sub)))
          else if n = ''onAddTagToTea'' then Completes (fst (ec_Subscription_onAddTagToTea os (RawField n al args sub) (ec_Tea lb x sub)))
          else if n = ''onDeleteTagFromTea'' then Completes (fst (ec_Subscription_onDeleteTagFromTea os (RawField n al args sub) (ec_Tea lb x sub)))
          else if n = ''startGenerateDescription'' then Completes (fst (ec_Subscription_startGenerateDescription lb x (RawField n al args sub)))
          else if n = ''recommendTea'' then Completes (fst (ec_Subscription_recommendTea lb x os (RawField n al args sub)))
          else Panics (answerX GNull)
      | _ \<Rightarrow> Completes (nullX NotOneStream))"

section \<open>Operations\<close>

definition ec_Exec :: "gql_libs \<Rightarrow> 'ty intro_libs \<Rightarrow> ('f, 'c) exec_env \<Rightarrow> 'f document \<Rightarrow> 'c body + (request_ctx \<Rightarrow> 'c body)" where
  "ec_Exec lb il x doc =
     (case doc of
        QueryDoc sel \<Rightarrow> Inr (\<lambda>ctx. ec_Query lb il (x\<lparr>x_ctx := ctx\<rparr>) sel)
      | MutationDoc sel \<Rightarrow> Inr (\<lambda>ctx. ec_Mutation lb (x\<lparr>x_ctx := ctx\<rparr>) sel)
      | SubscriptionDoc sel \<Rightarrow> Inl (ec_Subscription lb x sel))"

lemmas ec_tag_defs =
  ec_Tag_id_def ec_Tag_name_def ec_Tag_color_def ec_Tag_category_def ec_TagCategory_id_def
  ec_TagCategory_name_def ec_TagCategory_tags_def

lemmas ec_object_defs =
  ec_Tea_id_def ec_Tea_name_def ec_Tea_type_def ec_Tea_description_def ec_Tea_tags_def
  ec_QRRecord_id_def ec_QRRecord_tea_def ec_QRRecord_bowlingTemp_def ec_QRRecord_expirationDate_def
  ec_Collection_id_def ec_Collection_name_def ec_Collection_userID_def ec_Collection_records_def
  ec_Notification_type_def ec_User_tokenExpiredAt_def ec_User_collections_def
  ec_User_notifications_def ec_Session_token_def ec_Session_expiredAt_def ec_TeaOfTheDay_tea_def
  ec_TeaOfTheDay_date_def

lemmas ec_query_defs =
  ec_Query_me_def ec_Query_teas_def ec_Query_tea_def ec_Query_generateDescription_def
  ec_Query_qrRecord_def ec_Query_tag_def ec_Query_tagsCategories_def ec_Query_collections_def
  ec_Query_teaOfTheDay_def

lemmas ec_mutation_defs =
  ec_Mutation_authApple_def ec_Mutation_newTea_def ec_Mutation_updateTea_def
  ec_Mutation_addTagToTea_def ec_Mutation_deleteTagFromTea_def ec_Mutation_deleteTea_def
  ec_Mutation_writeToQR_def ec_Mutation_createTagCategory_def ec_Mutation_updateTagCategory_def
  ec_Mutation_deleteTagCategory_def ec_Mutation_createTag_def ec_Mutation_updateTag_def
  ec_Mutation_changeTagCategory_def ec_Mutation_deleteTag_def ec_Mutation_createCollection_def
  ec_Mutation_addRecordsToCollection_def ec_Mutation_deleteRecordsFromCollection_def
  ec_Mutation_deleteCollection_def ec_Mutation_registerDeviceToken_def ec_Mutation_send_def
  ec_Mutation_teaRecommendation_def

lemmas ec_subscription_defs =
  ec_Subscription_onCreateTea_def ec_Subscription_onUpdateTea_def ec_Subscription_onDeleteTea_def
  ec_Subscription_onCreateTagCategory_def ec_Subscription_onUpdateTagCategory_def
  ec_Subscription_onDeleteTagCategory_def ec_Subscription_onCreateTag_def
  ec_Subscription_onUpdateTag_def ec_Subscription_onDeleteTag_def ec_Subscription_onAddTagToTea_def
  ec_Subscription_onDeleteTagFromTea_def ec_Subscription_startGenerateDescription_def
  ec_Subscription_recommendTea_def

section \<open>The same as the executor\<close>

lemmas ec_run =
  fieldX_Ret fieldX_mapC marshal_defs slice_body_Completes field_context_defs requiredX_def

lemma tag_entries:
  "raw_tag lb f = Some s \<Longrightarrow> \<exists>d. \<forall>obj. ec_Tag_entry lb x f obj = Some (d, tag_field s x obj)"
  "raw_cat lb f' = Some s' \<Longrightarrow> \<exists>d. \<forall>obj. ec_TagCategory_entry lb x f' obj = Some (d, cat_field s' x obj)"
proof (induction lb f and lb f' arbitrary: s and s' rule: raw_tag_raw_cat.induct)
  case (1 lb n al args sub)
  have "object_body (map (\<lambda>f. ec_TagCategory_entry lb x f c) sub) =
      Completes (objectX (map ((\<lambda>f. f x c) \<circ> cat_field) sels))"
    if "n = ''category''" "those (map (raw_cat lb) sub) = Some sels" for sels c
    using object_body_Completes [OF that(2), of "\<lambda>f. ec_TagCategory_entry lb x f c" "\<lambda>s. cat_field s x c"]
      1(1) that(1) by (fastforce simp: comp_def)
  with 1(2) show ?case
    by (auto simp: ec_tag_defs ec_run cong: option.case_cong split: if_splits)
next
  case (2 lb n al args sub)
  have "object_body (map (\<lambda>f. ec_Tag_entry lb x f t) sub) =
      Completes (objectX (map ((\<lambda>f. f x t) \<circ> tag_field) sels))"
    if "n = ''tags''" "those (map (raw_tag lb) sub) = Some sels" for sels t
    using object_body_Completes [OF that(2), of "\<lambda>f. ec_Tag_entry lb x f t" "\<lambda>s. tag_field s x t"]
      2(1) that(1) by (fastforce simp: comp_def)
  with 2(2) show ?case
    by (auto simp: ec_tag_defs ec_run comp_def split: if_splits)
qed

lemma ec_Tag_runs:
  assumes "those (map (raw_tag lb) sub) = Some ss"
  shows "ec_Tag lb x sub = (\<lambda>v. Completes (tagX x ss v))"
  unfolding ec_Tag_def tagX_def fun_eq_iff
  by (intro allI object_body_Completes [OF assms]) (use tag_entries(1) in blast)

lemma ec_TagCategory_runs:
  assumes "those (map (raw_cat lb) sub) = Some ss"
  shows "ec_TagCategory lb x sub = (\<lambda>v. Completes (catX x ss v))"
  unfolding ec_TagCategory_def catX_def fun_eq_iff
  by (intro allI object_body_Completes [OF assms]) (use tag_entries(2) in blast)

lemma tea_entries:
  "raw_tea lb f = Some s \<Longrightarrow> \<exists>d. ec_Tea_entry lb x f obj = Some (d, tea_field x obj s)"
  by (cases f) (auto simp: ec_object_defs ec_run ec_Tag_runs split: if_splits)

lemma ec_Tea_runs:
  assumes "those (map (raw_tea lb) sub) = Some ss"
  shows "ec_Tea lb x sub = (\<lambda>v. Completes (teaX x ss v))"
  unfolding ec_Tea_def teaX_def fun_eq_iff
  by (intro allI object_body_Completes [OF assms]) (rule tea_entries)

lemma qr_entries:
  "raw_qr lb f = Some s \<Longrightarrow> \<exists>d. ec_QRRecord_entry lb x f obj = Some (d, qr_field x obj s)"
  by (cases f) (auto simp: ec_object_defs ec_run ec_Tea_runs cong: option.case_cong split: if_splits)

lemma ec_QRRecord_runs:
  assumes "those (map (raw_qr lb) sub) = Some ss"
  shows "ec_QRRecord lb x sub = (\<lambda>v. Completes (qrX x ss v))"
  unfolding ec_QRRecord_def qrX_def fun_eq_iff
  by (intro allI object_body_Completes [OF assms]) (rule qr_entries)

lemma coll_entries:
  "raw_coll lb f = Some s \<Longrightarrow> \<exists>d. ec_Collection_entry lb x f obj = Some (d, coll_field x obj s)"
  by (cases f) (auto simp: ec_object_defs ec_run ec_QRRecord_runs split: if_splits)

lemma ec_Collection_runs:
  assumes "those (map (raw_coll lb) sub) = Some ss"
  shows "ec_Collection lb x sub = (\<lambda>v. Completes (collX x ss v))"
  unfolding ec_Collection_def collX_def fun_eq_iff
  by (intro allI object_body_Completes [OF assms]) (rule coll_entries)

lemma notif_entries:
  "raw_notif f = Some s \<Longrightarrow> \<exists>d. ec_Notification_entry f obj = Some (d, notif_field obj s)"
  by (cases f) (auto simp: ec_object_defs ec_run split: if_splits)

lemma ec_Notification_runs:
  assumes "those (map raw_notif sub) = Some ss"
  shows "ec_Notification sub = (\<lambda>v. Completes (objectX (map (notif_field v) ss)))"
  unfolding ec_Notification_def fun_eq_iff
  by (intro allI object_body_Completes [OF assms]) (rule notif_entries)

lemma user_entries:
  "raw_user lb f = Some s \<Longrightarrow> \<exists>d. ec_User_entry lb x f obj = Some (d, user_field x obj s)"
  by (cases f) (auto simp: ec_object_defs ec_run ec_Collection_runs ec_Notification_runs split: if_splits)

lemma ec_User_runs:
  assumes "those (map (raw_user lb) sub) = Some ss"
  shows "ec_User lb x sub = (\<lambda>v. Completes (objectX (map (user_field x v) ss)))"
  unfolding ec_User_def fun_eq_iff
  by (intro allI object_body_Completes [OF assms]) (rule user_entries)

lemma session_entries:
  "raw_session f = Some s \<Longrightarrow> \<exists>d. ec_Session_entry x f obj = Some (d, session_field x obj s)"
  by (cases f) (auto simp: ec_object_defs ec_run split: if_splits)

lemma ec_Session_runs:
  assumes "those (map raw_session sub) = Some ss"
  shows "ec_Session x sub = (\<lambda>v. Completes (objectX (map (session_field x v) ss)))"
  unfolding ec_Session_def fun_eq_iff
  by (intro allI object_body_Completes [OF assms]) (rule session_entries)

lemma tod_entries:
  "raw_tod lb f = Some s \<Longrightarrow> \<exists>d. ec_TeaOfTheDay_entry lb x f obj = Some (d, tod_field x obj s)"
  by (cases f) (auto simp: ec_object_defs ec_run ec_QRRecord_runs cong: option.case_cong split: if_splits)

lemma ec_TeaOfTheDay_runs:
  assumes "those (map (raw_tod lb) sub) = Some ss"
  shows "ec_TeaOfTheDay lb x sub = (\<lambda>v. Completes (objectX (map (tod_field x v) ss)))"
  unfolding ec_TeaOfTheDay_def fun_eq_iff
  by (intro allI object_body_Completes [OF assms]) (rule tod_entries)

lemmas ec_runs =
  ec_Tag_runs ec_TagCategory_runs ec_Tea_runs ec_QRRecord_runs ec_Collection_runs ec_User_runs
  ec_Session_runs ec_TeaOfTheDay_runs

text \<open>The root objects.\<close>

lemma resolveX_cong_value: "(\<And>v. k v = k' v) \<Longrightarrow> resolveX r k = resolveX r k'"
  by (simp add: resolveX_def fun_eq_iff split: prod.split reply.split sum.split)

lemma query_entries:
  "raw_query lb (os, f) = Some s \<Longrightarrow> \<exists>d. ec_Query_entry lb il x (os, f) = Some (d, query_field x s)"
  by (cases f) (auto simp: ec_query_defs ec_run ec_runs split: if_splits)

lemma ec_Query_runs:
  assumes "those (map (raw_query lb) fs) = Some ss"
  shows "ec_Query lb il x fs = Completes (queryX x ss)"
  unfolding ec_Query_def queryX_def
  by (rule object_body_Completes [OF assms]) (use query_entries in force)

lemma with_args_mapC_run: "with_args (mapC g c) k = with_args c (\<lambda>p. k (g p))"
  by (simp add: with_args_def mapC_def bindC_def fun_eq_iff split: call.split sum.split)

lemma with_args_decoded [simp]: "with_args (Ret (Inr y)) k = k y"
  by (simp add: with_args_def)

lemma mutation_entries:
  "raw_mutation lb (os, f) = Some s \<Longrightarrow> \<exists>d. ec_Mutation_entry lb x (os, f) = Some (d, mutation_field x s)"
  by (cases f)
    (auto simp: ec_mutation_defs ec_run ec_runs mutation_case_def raw_sub_def with_args_mapC_run case_prod_beta'
      split: if_splits)

lemma ec_Mutation_runs:
  assumes "those (map (raw_mutation lb) fs) = Some ss"
  shows "ec_Mutation lb x fs = Completes (mutationX x ss)"
  unfolding ec_Mutation_def mutationX_def
  by (rule object_body_Completes [OF assms]) (use mutation_entries in force)

lemma subscription_starts:
  assumes "raw_subscription lb (os, f) = Some (s, sel)"
  shows "ec_Subscription lb x [(os, f)] = Completes (subscribe x s)"
  using assms
  by (cases f)
    (auto simp: ec_Subscription_def ec_subscription_defs ec_run startX_def started_def raw_sub_def
      case_prod_beta' Let_def split: if_splits)

text \<open>
  C7. The generated code, function by function on the fields of a document, does what the executor does
  with the operation the document is dispatched to: the same answer, the same errors, the same
  effects, for every document that names fields of the schema, with any arguments and any
  selection.
\<close>

theorem generated_code_agrees:
  assumes "dispatch lb doc = Some opn"
  shows "ec_Exec lb il x doc =
    (case Exec x opn of Inl e \<Rightarrow> Inl (Completes e) | Inr run \<Rightarrow> Inr (\<lambda>ctx. Completes (run ctx)))"
proof (cases doc)
  case (SubscriptionDoc fs)
  show ?thesis
  proof (cases "\<exists>os f. fs = [(os, f)]")
    case True
    then obtain os f where f: "fs = [(os, f)]" by blast
    with SubscriptionDoc assms obtain s sel where "raw_subscription lb (os, f) = Some (s, sel)"
      "opn = Subscription [s]" by (auto simp: dispatch_def)
    with SubscriptionDoc f show ?thesis
      by (simp add: ec_Exec_def Exec_def subscriptionX_def subscription_starts)
  next
    case False
    with SubscriptionDoc assms show ?thesis
      by (auto simp: dispatch_def ec_Exec_def Exec_def subscriptionX_def ec_Subscription_def
          split: list.splits raw_field.splits)
  qed
qed (use assms in \<open>auto simp: dispatch_def ec_Exec_def Exec_def ec_Query_runs ec_Mutation_runs\<close>)

text \<open>The messages of a stream are written as the executor writes them.\<close>

lemma subscription_messages:
  "those (map (raw_tea lb) (rf_sub f)) = Some ts \<Longrightarrow>
     snd (ec_Subscription_onCreateTea os f (ec_Tea lb x (rf_sub f))) v =
       map_option Completes (next_message x (rf_alias f) (no_sub\<lparr>for_tea := ts\<rparr>) (map_option SmTea v))"
  "those (map (raw_tag lb) (rf_sub f)) = Some gs \<Longrightarrow>
     snd (ec_Subscription_onCreateTag os f (ec_Tag lb x (rf_sub f))) g =
       map_option Completes (next_message x (rf_alias f) (no_sub\<lparr>for_tag := gs\<rparr>) (map_option SmTag g))"
  "those (map (raw_cat lb) (rf_sub f)) = Some cs \<Longrightarrow>
     snd (ec_Subscription_onCreateTagCategory os f (ec_TagCategory lb x (rf_sub f))) c =
       map_option Completes (next_message x (rf_alias f) (no_sub\<lparr>for_category := cs\<rparr>) (map_option SmCategory c))"
  "snd (ec_Subscription_onDeleteTea x os f) i =
     map_option Completes (next_message x (rf_alias f) no_sub (map_option SmID i))"
  "snd (ec_Subscription_recommendTea lb x os f) t =
     map_option Completes (next_message x (rf_alias f) no_sub (map_option SmText t))"
  by (simp_all add: ec_subscription_defs next_message_def option.map_comp comp_def written_def marshal_defs ec_runs)

text \<open>A mutation of two fields, one with an argument that is not an identifier.\<close>

definition demo_document :: "int document" where
  "demo_document = MutationDoc
     [(demo_outside, RawField ''deleteTea'' ''a'' [(''id'', AInt 3)] []),
      (demo_outside, RawField ''send'' ''b'' [] [])]"

theorem generated_code_agrees_witness:
  "\<exists>run. ec_Exec demo_gql (demo_introspection False) (demo_exec empty_ctx) demo_document = Inr (\<lambda>ctx. Completes (run ctx)) \<and>
     Exec (demo_exec empty_ctx)
       (Mutation [MCall ''a'' (mapC MDeleteTea (Mutation_deleteTea_args demo_gql [(''id'', AInt 3)])) no_sub,
          MCall ''b'' (Ret (Inr (MSend (os_now demo_outside)))) no_sub]) = Inr run"
proof -
  have "dispatch demo_gql demo_document =
      Some (Mutation [MCall ''a'' (mapC MDeleteTea (Mutation_deleteTea_args demo_gql [(''id'', AInt 3)])) no_sub,
        MCall ''b'' (Ret (Inr (MSend (os_now demo_outside)))) no_sub])"
    by (simp add: dispatch_def demo_document_def mutation_case_def raw_sub_def)
  from generated_code_agrees [OF this, of "demo_introspection False" "demo_exec empty_ctx"] show ?thesis by (simp add: Exec_def)
qed

end
