(* ===== verification/Introspection_Laws.thy ===== *)
theory Introspection_Laws
  imports Generated_Code
begin

text \<open>
  What a client sees of the schema through the endpoint (\<open>Introspection\<close>, run as a query by
  \<open>Generated_Code\<close>): the projection of the library's objects on the selection, the same for every
  caller and in every state, or nothing at all when introspection is switched off.
\<close>

section \<open>Queries of introspection\<close>

lemma query_entry_shown:
  assumes "intro_wf il" and "\<not> DisableIntrospection il" and "intro_ok lb il ''Query'' (snd p)"
  shows "entry_is (ec_Query_entry lb il x p) (rf_alias (snd p)) (root_member lb il (snd p))"
proof -
  obtain os n al args sub where p: "p = (os, RawField n al args sub)"
    by (metis raw_field.exhaust surj_pair)
  with assms(3) show ?thesis
    using root_shown(1) [OF assms(1,2), where lb = lb and f = "snd p" and sub = sub]
      root_shown(2) [OF assms(1,2), where lb = lb and sub = sub]
    by (auto simp: introspection_type_def introspection_types_def intro_args_ok_def list_all_iff
        intro!: entry_isI split: if_splits)
qed

text \<open>
  A query may select fields of introspection among others. \<open>weave\<close> puts the answers of the former
  at their places between the answers of the latter.
\<close>

fun weave :: "'b option list \<Rightarrow> 'b list \<Rightarrow> 'b list" where
  "weave [] ys = []"
| "weave (Some y # ps) ys = y # weave ps ys"
| "weave (None # ps) ys = hd ys # weave ps (tl ys)"

definition places :: "'b option list \<Rightarrow> nat" where
  "places ps = length (filter (\<lambda>p. p = None) ps)"

lemma places_simps [simp]:
  "places [] = 0" "places (Some y # ps) = places ps" "places (None # ps) = Suc (places ps)"
  "places (map (map_option f) ps) = places ps"
  by (simp_all add: places_def filter_map comp_def)

lemma weave_induct [consumes 1, case_names Nil Some None]:
  assumes "length ys = places ps" and "P [] []"
    and "\<And>y ps ys. length ys = places ps \<Longrightarrow> P ps ys \<Longrightarrow> P (Some y # ps) ys"
    and "\<And>ps y ys. length ys = places ps \<Longrightarrow> P ps ys \<Longrightarrow> P (None # ps) (y # ys)"
  shows "P ps ys"
  using assms(1)
proof (induction ps arbitrary: ys)
  case (Cons p ps)
  then show ?case by (cases p; cases ys) (auto intro: assms(3,4))
qed (use assms(2) in simp)

lemma map_weave:
  assumes "length ys = places ps"
  shows "map g (weave ps ys) = weave (map (map_option g) ps) (map g ys)"
  using assms by (induction rule: weave_induct) simp_all

lemma zip_weave:
  assumes "length ys = places ps" and "length zs = length ys"
  shows "zip (weave (map (map_option f) ps) ys) (weave (map (map_option g) ps) zs) =
    weave (map (map_option (\<lambda>y. (f y, g y))) ps) (zip ys zs)"
  using assms
proof (induction arbitrary: zs rule: weave_induct)
  case (None ps y ys)
  then show ?case by (cases zs) simp_all
qed simp_all

lemma list_ex_weave:
  assumes "length ys = places ps"
  shows "list_ex P (weave ps ys) \<longleftrightarrow> (\<exists>y. Some y \<in> set ps \<and> P y) \<or> list_ex P ys"
  using assms by (induction rule: weave_induct) auto

lemma run_all_weave:
  assumes "length es = places ps"
  shows "run_all (weave (map (map_option answerX) ps) es) a =
    (case run_all es a of
       (None, a') \<Rightarrow> (None, a')
     | (Some (vs, ers), a') \<Rightarrow> (Some (weave ps vs, ers), a'))"
  using assms
proof (induction arbitrary: a rule: weave_induct)
  case (Some y ps es)
  then show ?case by (simp add: answerX_def split: prod.splits option.splits)
next
  case (None ps e es)
  then show ?case by (auto split: prod.splits option.splits)
qed simp

definition introduced :: "(string \<times> gql_value) option list \<Rightarrow> (gql_value \<times> exec_error list) option \<times> 'c app
    \<Rightarrow> (gql_value \<times> exec_error list) option \<times> 'c app" where
  "introduced ps r =
     (case r of
        (Some (GObject kvs, ers), a) \<Rightarrow> (Some (GObject (weave ps kvs), ers), a)
      | other \<Rightarrow> other)"

lemma objectX_weave:
  assumes "length ss = places ps"
  shows "objectX (weave (map (map_option (\<lambda>(al, v). (al, False, answerX v))) ps) ss) a = introduced ps (objectX ss a)"
proof -
  let ?ss = "weave (map (map_option (\<lambda>(al, v). (al, False, answerX v))) ps) ss"
  have len: "length ss = places (map (map_option f) ps)" for f :: "string \<times> gql_value \<Rightarrow> 'd"
    using assms by simp
  have ex: "map (\<lambda>(_, _, e). e) ?ss =
      weave (map (map_option answerX) (map (map_option snd) ps)) (map (\<lambda>(_, _, e). e) ss)"
    using map_weave [OF len [of "\<lambda>(al, v). (al, False, answerX v)"], of "\<lambda>(_, _, e). e"]
    by (simp add: option.map_comp comp_def case_prod_beta')
  have run: "run_all (map (\<lambda>(_, _, e). e) ?ss) a =
      (case run_all (map (\<lambda>(_, _, e). e) ss) a of
         (None, a') \<Rightarrow> (None, a')
       | (Some (vs, ers), a') \<Rightarrow> (Some (weave (map (map_option snd) ps) vs, ers), a'))"
    unfolding ex by (rule run_all_weave) (use len in simp)
  show ?thesis
  proof (cases "run_all (map (\<lambda>(_, _, e). e) ss) a")
    case (Pair r a')
    show ?thesis
    proof (cases r)
      case None
      with Pair run show ?thesis by (simp add: objectX_def introduced_def)
    next
      case (Some vers)
      obtain vs ers where vers: "vers = (vs, ers)" by (cases vers)
      from Pair Some vers have "length vs = length ss" using run_all_length by fastforce
      then have zips:
          "zip ?ss (weave (map (map_option snd) ps) vs) =
          weave (map (map_option (\<lambda>y. ((\<lambda>(al, v). (al, False, answerX v)) y, snd y))) ps) (zip ss vs)"
        and names: "zip (map fst ?ss) (weave (map (map_option snd) ps) vs) = weave ps (zip (map fst ss) vs)"
        using zip_weave [OF assms, of vs "\<lambda>(al, v). (al, False, answerX v)" snd]
          zip_weave [of "map fst ss" ps vs fst snd]
          map_weave [OF len [of "\<lambda>(al, v). (al, False, answerX v)"], of fst]
        by (simp_all add: assms option.map_comp comp_def case_prod_beta' option.map_id0 [unfolded id_def])
      have "list_ex (\<lambda>((_, required, _), v). required \<and> v = GNull) (zip ?ss (weave (map (map_option snd) ps) vs)) \<longleftrightarrow>
          list_ex (\<lambda>((_, required, _), v). required \<and> v = GNull) (zip ss vs)"
        unfolding zips using \<open>length vs = length ss\<close>
        by (subst list_ex_weave, simp add: assms)
            (auto simp: case_prod_beta' map_option_eq_Some dest!: sym [of "Some _"] simp del: filter_map)
      with Pair Some vers run names show ?thesis by (simp add: objectX_def introduced_def)
    qed
  qed
qed

definition is_intro :: "'f root_field \<Rightarrow> bool" where
  "is_intro p \<longleftrightarrow> rf_name (snd p) \<in> {''__schema'', ''__type''}"

definition introspected :: "gql_libs \<Rightarrow> 'ty intro_libs \<Rightarrow> 'f root_field \<Rightarrow> (string \<times> gql_value) option" where
  "introspected lb il p =
     (if is_intro p then Some (rf_alias (snd p), root_member lb il (snd p)) else None)"

lemma mixed_entries:
  assumes "\<And>p. p \<in> set fs \<Longrightarrow> is_intro p \<Longrightarrow> \<exists>d. g p = Some (d, rf_alias (snd p), False, answerX (root_member lb il (snd p)))"
    and "\<And>p s. p \<in> set fs \<Longrightarrow> r p = Some s \<Longrightarrow> \<exists>d. g p = Some (d, h s)"
    and "those (map r (filter (Not \<circ> is_intro) fs)) = Some ops"
  shows "object_body (map g fs) =
      Completes (objectX (weave (map (map_option (\<lambda>(al, v). (al, False, answerX v))) (map (introspected lb il) fs)) (map h ops)))
    \<and> length (map h ops) = places (map (introspected lb il) fs)"
proof -
  have "None \<notin> set (map g fs) \<and>
      map (snd \<circ> the) (map g fs) =
        weave (map (map_option (\<lambda>(al, v). (al, False, answerX v))) (map (introspected lb il) fs)) (map h ops) \<and>
      length (map h ops) = places (map (introspected lb il) fs)"
    using assms
  proof (induction fs arbitrary: ops)
    case (Cons p fs)
    show ?case
    proof (cases "is_intro p")
      case True
      with Cons.prems(1) [of p] obtain d where
        d: "g p = Some (d, rf_alias (snd p), False, answerX (root_member lb il (snd p)))" by auto
      have "those (map r (filter (Not \<circ> is_intro) fs)) = Some ops"
        using Cons.prems(3) True by (simp add: comp_def)
      from Cons.IH [OF _ _ this] Cons.prems(1,2) True d show ?thesis
        by (simp add: introspected_def)
    next
      case False
      with Cons.prems(3) obtain s ts where s: "r p = Some s" "ops = s # ts"
        "those (map r (filter (Not \<circ> is_intro) fs)) = Some ts"
        by (auto simp: comp_def split: option.splits)
      moreover obtain d where "g p = Some (d, h s)" using Cons.prems(2) [of p s] s(1) by auto
      ultimately show ?thesis
        using False Cons.IH [OF _ _ s(3)] Cons.prems(1,2) by (simp add: introspected_def)
    qed
  qed simp
  then show ?thesis by (simp add: object_body_def)
qed

text \<open>
  C8. Fields of introspection in a query, valid against the introspection schema, are answered with exactly
  the selected members of the library's objects, null only where the library has nothing; the rest
  of the query is executed as if they were not there: the same values, errors and effects.
\<close>

theorem introspection_answers:
  assumes "intro_wf il" and "\<not> DisableIntrospection il"
    and "\<forall>p \<in> set fs. is_intro p \<longrightarrow> intro_ok lb il ''Query'' (snd p)"
    and "those (map (raw_query lb) (filter (Not \<circ> is_intro) fs)) = Some ops"
  shows "ec_Exec lb il x (QueryDoc fs) = Inr (\<lambda>ctx. Completes (\<lambda>a.
    case queryX (x\<lparr>x_ctx := ctx\<rparr>) ops a of
      (Some (GObject kvs, ers), a') \<Rightarrow> (Some (GObject (weave (map (introspected lb il) fs) kvs), ers), a')
    | other \<Rightarrow> other))"
proof -
  have "ec_Query lb il y fs = Completes (\<lambda>a. introduced (map (introspected lb il) fs) (queryX y ops a))"
    if y: "y = x\<lparr>x_ctx := ctx\<rparr>" for y ctx
  proof -
    have "\<exists>d. ec_Query_entry lb il y p = Some (d, rf_alias (snd p), False, answerX (root_member lb il (snd p)))"
      if "p \<in> set fs" "is_intro p" for p
      using assms(3) that query_entry_shown [OF assms(1,2), of lb p y]
      by (cases p; cases "snd p") (auto simp: is_intro_def entry_is_def)
    moreover have "\<exists>d. ec_Query_entry lb il y p = Some (d, query_field y s)" if "raw_query lb p = Some s" for p s
      using that query_entries [of lb "fst p" "snd p" s il y] by simp
    ultimately show ?thesis
      using mixed_entries [of fs "ec_Query_entry lb il y" lb il "raw_query lb" "query_field y" ops] assms(4)
      by (simp add: ec_Query_def queryX_def fun_eq_iff objectX_weave del: length_map map_map)
  qed
  then show ?thesis by (simp add: ec_Exec_def introduced_def)
qed

definition kind_query :: "(int outside \<times> raw_field) list" where
  "kind_query =
     [(demo_outside, RawField ''__type'' ''t'' [(''name'', AString ''Session'')]
        [RawField ''kind'' ''kind'' [] [],
         RawField ''fields'' ''fields'' []
           [RawField ''name'' ''name'' [] [],
            RawField ''type'' ''type'' [] [RawField ''kind'' ''kind'' [] [],
              RawField ''ofType'' ''ofType'' [] [RawField ''name'' ''name'' [] []]]]])]"

definition mixed_query :: "(int outside \<times> raw_field) list" where
  "mixed_query =
     (demo_outside, RawField ''__typename'' ''a'' [] []) # kind_query @
     [(demo_outside, RawField ''me'' ''b'' [] [])]"

theorem introspection_answers_witness:
  "ec_Exec demo_gql (demo_introspection False) (demo_exec empty_ctx) (QueryDoc mixed_query) =
     Inr (\<lambda>ctx. Completes (\<lambda>a.
       case queryX ((demo_exec empty_ctx)\<lparr>x_ctx := ctx\<rparr>) [QTypename ''a'', QMe ''b'' []] a of
         (Some (GObject kvs, ers), a') \<Rightarrow> (Some (GObject [hd kvs,
           (''t'', GObject
             [(''kind'', GText ''OBJECT''),
              (''fields'', GList
                [GObject [(''name'', GText ''token''),
                   (''type'', GObject [(''kind'', GText ''NON_NULL''), (''ofType'', GObject [(''name'', GText ''String'')])])],
                 GObject [(''name'', GText ''expiredAt''),
                   (''type'', GObject [(''kind'', GText ''NON_NULL''), (''ofType'', GObject [(''name'', GText ''Date'')])])]])]),
           hd (tl kvs)], ers), a')
       | other \<Rightarrow> other))"
proof -
  have "list_all (\<lambda>p. is_intro p \<longrightarrow> intro_ok demo_gql (demo_introspection False) ''Query'' (snd p)) mixed_query"
    by (simp add: mixed_query_def kind_query_def introspection_type_def introspection_types_def intro_args_ok_def
        accepted_def intro_args_defs arg_field_def demo_gql_def demo_introspection_def unmarshalNString_def is_intro_def)
  then have ok: "\<forall>p \<in> set mixed_query. is_intro p \<longrightarrow> intro_ok demo_gql (demo_introspection False) ''Query'' (snd p)"
    by (simp add: list_all_iff)
  have on: "\<not> DisableIntrospection (demo_introspection False)" by (simp add: demo_introspection_def)
  have rest: "those (map (raw_query demo_gql) (filter (Not \<circ> is_intro) mixed_query)) = Some [QTypename ''a'', QMe ''b'' []]"
    by (simp add: mixed_query_def kind_query_def is_intro_def)
  have shown: "map (introspected demo_gql (demo_introspection False)) mixed_query =
      [None, Some (''t'', GObject
         [(''kind'', GText ''OBJECT''),
          (''fields'', GList
            [GObject [(''name'', GText ''token''),
               (''type'', GObject [(''kind'', GText ''NON_NULL''), (''ofType'', GObject [(''name'', GText ''String'')])])],
             GObject [(''name'', GText ''expiredAt''),
               (''type'', GObject [(''kind'', GText ''NON_NULL''), (''ofType'', GObject [(''name'', GText ''Date'')])])]])]), None]"
    by (simp add: mixed_query_def kind_query_def is_intro_def introspected_def project_def or_null_def asked_type_def
        asked_deprecated_def intro_args_defs arg_field_def demo_gql_def demo_introspection_def unmarshalNString_def
        object_type_def schema_def demo_field_def)
  show ?thesis
    using introspection_answers [OF demo_introspection_wf on ok rest, of "demo_exec empty_ctx"]
    unfolding shown weave.simps .
qed

lemma introspection_entry:
  assumes "rf_name (snd p) \<in> {''__typename'', ''__schema'', ''__type''}"
  shows "\<exists>eo. pure_entry eo \<and> (\<forall>x. ec_Query_entry lb il x p = eo)"
proof -
  obtain os n al args sub where p: "p = (os, RawField n al args sub)"
    by (metis raw_field.exhaust surj_pair)
  with assms consider "n = ''__typename''" | "n = ''__schema''" | "n = ''__type''" by auto
  then show ?thesis by cases (simp_all add: p pure_root pure_same)
qed

text \<open>
  No introspection query, valid or not, with introspection on or off, reads or writes anything of the
  running process: the answer and its errors are the same for every server, caller and state, and
  the state is left as it is.
\<close>

lemma introspection_reads_nothing:
  assumes "\<forall>p \<in> set fs. rf_name (snd p) \<in> {''__typename'', ''__schema'', ''__type''}"
  shows "\<exists>b r. (\<forall>x :: ('f, 'c) exec_env. ec_Exec lb il x (QueryDoc fs) = Inr (\<lambda>ctx. b)) \<and>
    (\<forall>a. recovered b a = (Some r, a))"
proof -
  from assms introspection_entry [of _ lb il] obtain eo where
    eo: "\<And>p (x :: ('f, 'c) exec_env). p \<in> set fs \<Longrightarrow> ec_Query_entry lb il x p = eo p"
    and pure: "\<And>p. p \<in> set fs \<Longrightarrow> pure_entry (eo p)"
    by metis
  from eo have "ec_Query lb il x fs = object_body (map eo fs)" for x :: "('f, 'c) exec_env"
    unfolding ec_Query_def by (metis map_cong)
  moreover have "pure_body (object_body (map eo fs))" by (rule pure_object_body) (rule pure)
  ultimately show ?thesis by (auto simp: ec_Exec_def pure_body_def pure_ex_def)
qed

text \<open>Switched off, every field of introspection is null with the error that says so.\<close>

lemma introspection_disabled:
  assumes "DisableIntrospection il" and "rf_name (snd p) = ''__schema'' \<or>
      rf_name (snd p) = ''__type'' \<and> accepted (field_Query___type_args lb (rf_args (snd p)))"
  shows "ec_Query_entry lb il x p = Some (False, rf_alias (snd p), False,
    nullX (ResolverError (PlainError (ExtErr ''introspection disabled''))))"
proof -
  obtain os n al args sub where p: "p = (os, RawField n al args sub)"
    by (metis raw_field.exhaust surj_pair)
  with assms(2) show ?thesis
    using root_disabled(1) [OF assms(1), where lb = lb and f = "snd p"] root_disabled(2) [OF assms(1)]
    by auto
qed

end
