(* ===== verification/Deferral.thy ===== *)
theory Deferral
  imports Generated_Code
begin

text \<open>
  \<open>@defer\<close> in the generated code (\<open>pkg/api/v2/graphql/generated/generated.go\<close>): what the function of
  an object does with deferred fields, \<open>processDeferredGroup\<close> with its goroutine, and the responses
  \<open>Exec\<close> gives one after the other. The goroutines, the objects they write and the caller of the
  response handler are interleaved freely. Which fields are deferred and under which label is
  decided by the library when it collects the fields; a label is that of the field itself, fields
  below it are written as in the theory \<open>Generated_Code\<close>, and further groups they start are
  arbitrary. The main theorem is that a query answers every group exactly once and says truthfully
  whether more is to come; a lemma shows that after a mutation nothing ever answers them.
\<close>

section \<open>Objects with deferred fields\<close>

text \<open>
  A group is a field set with the label and the path of its object. \<open>GetPath\<close> is the library's, a
  path is only handed on.
\<close>

type_synonym gql_path = "(string + nat) list"

record 'c deferred_group =
  dg_Label :: string
  dg_Path :: gql_path
  dg_FieldSet :: "'c slot list"

text \<open>The map \<open>deferred\<close> of an object from labels to field sets.\<close>

fun add_field :: "string \<Rightarrow> 'c slot \<Rightarrow> (string \<times> 'c slot list) list \<Rightarrow> (string \<times> 'c slot list) list" where
  "add_field l f [] = [(l, [f])]"
| "add_field l f ((l', dfs) # gs) = (if l' = l then (l', dfs @ [f]) # gs else (l', dfs) # add_field l f gs)"

text \<open>
  The loop over the fields, each with the label of its \<open>Deferrable\<close>. Only a field that is run
  concurrently looks at it; a deferred field leaves a null in its place that is not counted in
  \<open>Invalids\<close>.
\<close>

fun object_loop :: "(string option \<times> 'c entry) list \<Rightarrow> 'c slot list \<Rightarrow> (string \<times> 'c slot list) list \<Rightarrow>
    'c slot list \<times> (string \<times> 'c slot list) list" where
  "object_loop [] out dfd = (out, dfd)"
| "object_loop ((deferrable, conc, al, required, e) # fs) out dfd =
     (case (conc, deferrable) of
        (True, Some l) \<Rightarrow> object_loop fs (out @ [(al, False, answerX GNull)]) (add_field l (al, required, e) dfd)
      | _ \<Rightarrow> object_loop fs (out @ [(al, required, e)]) dfd)"

text \<open>
  The function of an object: it writes the fields that are not deferred, and starts the groups
  unless the object is null.
\<close>

definition deferring_object :: "gql_path \<Rightarrow> (string option \<times> 'c entry) list \<Rightarrow> 'c app \<Rightarrow>
    (gql_value \<times> exec_error list \<times> 'c deferred_group list) option \<times> 'c app" where
  "deferring_object path fs a =
     (let (out, dfd) = object_loop fs [] [] in
      (case objectX out a of
         (None, a') \<Rightarrow> (None, a')
       | (Some (v, ers), a') \<Rightarrow>
           (Some (v, ers, if v = GNull then []
                          else map (\<lambda>(l, dfs). \<lparr>dg_Label = l, dg_Path = path, dg_FieldSet = dfs\<rparr>) dfd), a')))"

section \<open>Every field is answered in one place\<close>

definition group_of :: "string \<Rightarrow> (string option \<times> 'c entry) list \<Rightarrow> 'c slot list" where
  "group_of l fs = map (snd \<circ> snd) (filter (\<lambda>(d, conc, _). conc \<and> d = Some l) fs)"

definition kept_field :: "string option \<times> 'c entry \<Rightarrow> 'c slot" where
  "kept_field f = (case f of (d, conc, al, required, e) \<Rightarrow>
     if conc \<and> d \<noteq> None then (al, False, answerX GNull) else (al, required, e))"

definition fields_under :: "string \<Rightarrow> (string \<times> 'c slot list) list \<Rightarrow> 'c slot list" where
  "fields_under l dfd = (case map_of dfd l of None \<Rightarrow> [] | Some dfs \<Rightarrow> dfs)"

lemma add_field_under [simp]:
  "fields_under l (add_field k f dfd) = fields_under l dfd @ (if l = k then [f] else [])"
  by (induction k f dfd rule: add_field.induct) (auto simp: fields_under_def)

lemma add_field_labels: "set (map fst (add_field k f dfd)) = insert k (set (map fst dfd))"
  by (induction k f dfd rule: add_field.induct) auto

lemma add_field_distinct: "distinct (map fst dfd) \<Longrightarrow> distinct (map fst (add_field k f dfd))"
proof (induction k f dfd rule: add_field.induct)
  case (2 k f l dfs gs)
  then show ?case using add_field_labels [of k f gs] by auto
qed simp

lemma object_loop_out: "fst (object_loop fs out dfd) = out @ map kept_field fs"
  by (induction fs out dfd rule: object_loop.induct) (auto simp: kept_field_def split: bool.splits option.splits)

lemma object_loop_under:
  "fields_under l (snd (object_loop fs out dfd)) = fields_under l dfd @ group_of l fs"
  by (induction fs out dfd rule: object_loop.induct) (auto simp: group_of_def split: bool.splits option.splits)

lemma object_loop_distinct: "distinct (map fst dfd) \<Longrightarrow> distinct (map fst (snd (object_loop fs out dfd)))"
  by (induction fs out dfd rule: object_loop.induct) (auto simp: add_field_distinct split: bool.splits option.splits)

text \<open>
  The object keeps all its names in their order, and a label's group holds exactly the deferred
  fields with that label, in their order.
\<close>

lemma object_loop_exact:
  assumes "object_loop fs [] [] = (out, dfd)"
  shows "map fst out = map (\<lambda>(_, _, al, _). al) fs" and "distinct (map fst dfd)"
    and "fields_under l dfd = group_of l fs"
proof -
  show "map fst out = map (\<lambda>(_, _, al, _). al) fs"
    using object_loop_out [of fs "[]" "[]"] assms by (auto simp: kept_field_def)
  show "distinct (map fst dfd)" using object_loop_distinct [of "[]" fs "[]"] assms by simp
  show "fields_under l dfd = group_of l fs"
    using object_loop_under [of l fs "[]" "[]"] assms by (simp add: fields_under_def)
qed

text \<open>Without labels an object is written as in \<open>Generated_Code\<close> and starts nothing.\<close>

lemma object_loop_plain: "object_loop (map (Pair None) es) out dfd = (out @ map snd es, dfd)"
  by (induction es arbitrary: out) (auto split: bool.split)

lemma deferring_object_plain:
  "deferring_object path (map (Pair None) es) a =
     (case objectX (map snd es) a of
        (None, a') \<Rightarrow> (None, a') | (Some (v, ers), a') \<Rightarrow> (Some (v, ers, []), a'))"
  by (simp add: deferring_object_def object_loop_plain split: prod.split option.split)

text \<open>
  The functions of the objects that have a concurrent field, with the label of each selected field:
  the cases of the \<open>switch\<close> are those of \<open>Generated_Code\<close>. An unknown field panics before
  anything is dispatched (\<open>Inl\<close>).
\<close>

type_synonym 'c deferring_body =
  "'c ex + ('c app \<Rightarrow> (gql_value \<times> exec_error list \<times> 'c deferred_group list) option \<times> 'c app)"

type_synonym labelled_field = "string option \<times> raw_field"

definition deferring_body :: "gql_path \<Rightarrow> (string option \<times> 'c entry option) list \<Rightarrow> 'c deferring_body" where
  "deferring_body path fs =
     (if None \<in> snd ` set fs then Inl (run_before (map snd fs))
      else Inr (deferring_object path (map (map_prod id the) fs)))"

definition ec_Tag_deferring ::
    "gql_libs \<Rightarrow> ('f, 'c) exec_env \<Rightarrow> gql_path \<Rightarrow> labelled_field list \<Rightarrow> GTag \<Rightarrow> 'c deferring_body" where
  "ec_Tag_deferring lb x path sel obj =
     deferring_body path (map (\<lambda>(l, f). (l, ec_Tag_entry lb x f obj)) sel)"

definition ec_TagCategory_deferring ::
    "gql_libs \<Rightarrow> ('f, 'c) exec_env \<Rightarrow> gql_path \<Rightarrow> labelled_field list \<Rightarrow> GTagCategory \<Rightarrow> 'c deferring_body" where
  "ec_TagCategory_deferring lb x path sel obj =
     deferring_body path (map (\<lambda>(l, f). (l, ec_TagCategory_entry lb x f obj)) sel)"

definition ec_Tea_deferring ::
    "gql_libs \<Rightarrow> ('f, 'c) exec_env \<Rightarrow> gql_path \<Rightarrow> labelled_field list \<Rightarrow> GTea \<Rightarrow> 'c deferring_body" where
  "ec_Tea_deferring lb x path sel obj =
     deferring_body path (map (\<lambda>(l, f). (l, ec_Tea_entry lb x f obj)) sel)"

definition ec_Collection_deferring ::
    "gql_libs \<Rightarrow> ('f, 'c) exec_env \<Rightarrow> gql_path \<Rightarrow> labelled_field list \<Rightarrow> GCollection \<Rightarrow> 'c deferring_body" where
  "ec_Collection_deferring lb x path sel obj =
     deferring_body path (map (\<lambda>(l, f). (l, ec_Collection_entry lb x f obj)) sel)"

definition ec_User_deferring ::
    "gql_libs \<Rightarrow> ('f, 'c) exec_env \<Rightarrow> gql_path \<Rightarrow> labelled_field list \<Rightarrow> time \<Rightarrow> 'c deferring_body" where
  "ec_User_deferring lb x path sel obj =
     deferring_body path (map (\<lambda>(l, f). (l, ec_User_entry lb x f obj)) sel)"

lemmas deferring_defs = ec_Tag_deferring_def ec_TagCategory_deferring_def ec_Tea_deferring_def
  ec_Collection_deferring_def ec_User_deferring_def

text \<open>Without a label they do what the functions of \<open>Generated_Code\<close> do, and start no group.\<close>

definition no_groups :: "'c body \<Rightarrow> 'c deferring_body" where
  "no_groups b =
     (case b of
        Panics e \<Rightarrow> Inl e
      | Completes e \<Rightarrow> Inr (\<lambda>a.
          (case e a of (None, a') \<Rightarrow> (None, a') | (Some (v, ers), a') \<Rightarrow> (Some (v, ers, []), a'))))"

lemma deferring_body_plain: "deferring_body path (map (Pair None) es) = no_groups (object_body es)"
proof (cases "None \<in> set es")
  case True
  then have "None \<in> snd ` set (map (Pair None) es)" by force
  with True show ?thesis by (simp add: deferring_body_def object_body_def no_groups_def comp_def)
next
  case False
  have eq: "map (map_prod id the) (map (Pair None) es) = map (Pair None) (map the es)" by simp
  have whole: "deferring_object path (map (map_prod id the) (map (Pair None) es)) =
      (\<lambda>a. case objectX (map (snd \<circ> the) es) a of
         (None, a') \<Rightarrow> (None, a') | (Some (v, ers), a') \<Rightarrow> (Some (v, ers, []), a'))"
    by (rule ext) (unfold eq deferring_object_plain, simp add: comp_def)
  have known: "None \<notin> snd ` set (map (Pair None) es)" using False by auto
  show ?thesis
    unfolding deferring_body_def object_body_def no_groups_def whole
      if_not_P [OF known] if_not_P [OF False] body.case ..
qed

lemma objects_without_defer:
  "ec_Tag_deferring lb x path (map (Pair None) sel) tg = no_groups (ec_Tag lb x sel tg)"
  "ec_TagCategory_deferring lb x path (map (Pair None) sel) cat = no_groups (ec_TagCategory lb x sel cat)"
  "ec_Tea_deferring lb x path (map (Pair None) sel) tea = no_groups (ec_Tea lb x sel tea)"
  "ec_Collection_deferring lb x path (map (Pair None) sel) cl = no_groups (ec_Collection lb x sel cl)"
  "ec_User_deferring lb x path (map (Pair None) sel) u = no_groups (ec_User lb x sel u)"
proof -
  have "deferring_body path (map (\<lambda>(l, f). (l, g f)) (map (Pair None) sel)) = no_groups (object_body (map g sel))"
    for g :: "raw_field \<Rightarrow> 'd entry option" and sel
    using deferring_body_plain [of path "map g sel"] by (simp add: comp_def)
  then show
    "ec_Tag_deferring lb x path (map (Pair None) sel) tg = no_groups (ec_Tag lb x sel tg)"
    "ec_TagCategory_deferring lb x path (map (Pair None) sel) cat = no_groups (ec_TagCategory lb x sel cat)"
    "ec_Tea_deferring lb x path (map (Pair None) sel) tea = no_groups (ec_Tea lb x sel tea)"
    "ec_Collection_deferring lb x path (map (Pair None) sel) cl = no_groups (ec_Collection lb x sel cl)"
    "ec_User_deferring lb x path (map (Pair None) sel) u = no_groups (ec_User lb x sel u)"
    by (simp_all only: deferring_defs ec_Tag_def ec_TagCategory_def ec_Tea_def ec_Collection_def ec_User_def)
qed

text \<open>
  What deferring the tags of a tea means: the object is answered at once with a null in their place
  and without an error, and one group is started that will answer them.
\<close>

lemma deferred_tags:
  "ec_Tea_deferring lb x path [(Some l, RawField ''tags'' al args sub)] tea = Inr (\<lambda>a.
     (Some (GObject [(al, GNull)], [],
        [\<lparr>dg_Label = l, dg_Path = path,
          dg_FieldSet = [(al, True, ec_Tea_tags x (ec_Tag lb x sub) tea)]\<rparr>]), a))"
  by (simp add: deferring_defs deferring_body_def deferring_object_def objectX_def answerX_def
      fun_eq_iff)


section \<open>The responses of an operation\<close>

text \<open>
  The two counters are those of \<open>executionContext\<close>, 32 bits wide. The caller of the response
  handler is between two calls, executes the operation, waits for a result, or has been told that
  there are no more responses. \<open>dx_starting\<close> holds the groups the operation still has to hand to
  \<open>processDeferredGroup\<close>, each goroutine is paired with those it still has to hand over, and a
  goroutine that has dispatched its group waits until its result is taken. \<open>dx_announced\<close> is not
  in the code: the groups counted in \<open>deferred\<close> so far.
\<close>

datatype operation_kind = QueryOperation | MutationOperation

datatype caller_state = Between | Executing | Receiving | Told

record DeferredResult =
  dr_Path :: gql_path
  dr_Label :: string
  dr_Result :: gql_value
  dr_Errors :: "exec_error list"

record gql_response =
  rsp_Data :: gql_value
  rsp_Path :: gql_path
  rsp_Label :: string
  rsp_Errors :: "exec_error list"
  rsp_HasNext :: "bool option"

record 'c deferral =
  dx_first :: bool
  dx_deferred :: "32 word"
  dx_pending :: "32 word"
  dx_caller :: caller_state
  dx_starting :: "'c deferred_group multiset"
  dx_running :: "('c deferred_group \<times> 'c deferred_group multiset) multiset"
  dx_sending :: "DeferredResult multiset"
  dx_responses :: "gql_response list"
  dx_announced :: "'c deferred_group multiset"

definition dx_start :: "'c deferral" where
  "dx_start = \<lparr>dx_first = True, dx_deferred = 0, dx_pending = 0, dx_caller = Between,
     dx_starting = {#}, dx_running = {#}, dx_sending = {#}, dx_responses = [], dx_announced = {#}\<rparr>"

definition announce :: "'c deferred_group list \<Rightarrow> 'c deferral \<Rightarrow> 'c deferral" where
  "announce gs s = s\<lparr>dx_deferred := dx_deferred s + of_nat (length gs), dx_announced := dx_announced s + mset gs\<rparr>"

definition processDeferredGroup :: "'c deferred_group \<Rightarrow> 'c deferral \<Rightarrow> 'c deferral" where
  "processDeferredGroup g s =
     s\<lparr>dx_pending := dx_pending s + 1, dx_running := add_mset (g, {#}) (dx_running s)\<rparr>"

text \<open>The goroutine of a group, from its dispatch to the value it sends.\<close>

definition dispatched :: "'c deferred_group \<Rightarrow> 'c app \<Rightarrow> DeferredResult option" where
  "dispatched g a =
     map_option (\<lambda>(v, ers). \<lparr>dr_Path = dg_Path g, dr_Label = dg_Label g, dr_Result = v, dr_Errors = ers\<rparr>)
       (fst (objectX (dg_FieldSet g) a))"

text \<open>The response of a query, with whether more is to come if anything was deferred.\<close>

definition respond :: "operation_kind \<Rightarrow> gql_response \<Rightarrow> 'c deferral \<Rightarrow> 'c deferral" where
  "respond k r s =
     s\<lparr>dx_caller := Between,
       dx_responses := dx_responses s @
         [r\<lparr>rsp_HasNext := (if k = QueryOperation \<and> 0 <s dx_deferred s then Some (0 <s dx_pending s) else None)\<rparr>]\<rparr>"

definition first_response :: "gql_value \<Rightarrow> gql_response" where
  "first_response v = \<lparr>rsp_Data = v, rsp_Path = [], rsp_Label = '''', rsp_Errors = [], rsp_HasNext = None\<rparr>"

definition next_response :: "DeferredResult \<Rightarrow> gql_response" where
  "next_response r =
     \<lparr>rsp_Data = dr_Result r, rsp_Path = dr_Path r, rsp_Label = dr_Label r, rsp_Errors = dr_Errors r,
      rsp_HasNext = None\<rparr>"

text \<open>
  One step of anyone: the caller calls the handler; an object written by the operation or by a
  goroutine announces its groups; one of them is started; a goroutine that has started all its
  groups is done with its dispatch, under whatever state the process has by then; the operation is
  done; the caller is answered.
\<close>

inductive dx_step :: "operation_kind \<Rightarrow> 'c deferral \<Rightarrow> 'c deferral \<Rightarrow> bool" for k where
  first_call: "dx_caller s = Between \<Longrightarrow> dx_first s \<Longrightarrow>
    dx_step k s (s\<lparr>dx_first := False, dx_caller := Executing\<rparr>)"
| object_written: "dx_caller s = Executing \<Longrightarrow>
    dx_step k s (announce gs (s\<lparr>dx_starting := dx_starting s + mset gs\<rparr>))"
| group_started: "dx_caller s = Executing \<Longrightarrow> g \<in># dx_starting s \<Longrightarrow>
    dx_step k s (processDeferredGroup g (s\<lparr>dx_starting := dx_starting s - {#g#}\<rparr>))"
| object_of_group: "dx_running s = add_mset (h, q) rn \<Longrightarrow>
    dx_step k s (announce gs (s\<lparr>dx_running := add_mset (h, q + mset gs) rn\<rparr>))"
| group_of_group: "dx_running s = add_mset (h, add_mset g q) rn \<Longrightarrow>
    dx_step k s (processDeferredGroup g (s\<lparr>dx_running := add_mset (h, q) rn\<rparr>))"
| group_dispatched: "dx_running s = add_mset (h, {#}) rn \<Longrightarrow> dispatched h a = Some r \<Longrightarrow>
    dx_step k s (s\<lparr>dx_running := rn, dx_sending := add_mset r (dx_sending s)\<rparr>)"
| operation_done: "dx_caller s = Executing \<Longrightarrow> dx_starting s = {#} \<Longrightarrow>
    dx_step k s (respond k (first_response v) s)"
| next_call: "dx_caller s = Between \<Longrightarrow> \<not> dx_first s \<Longrightarrow> k = QueryOperation \<Longrightarrow> 0 <s dx_pending s \<Longrightarrow>
    dx_step k s (s\<lparr>dx_caller := Receiving\<rparr>)"
| received: "dx_caller s = Receiving \<Longrightarrow> dx_sending s = add_mset r sd \<Longrightarrow>
    dx_step k s (respond k (next_response r) (s\<lparr>dx_sending := sd, dx_pending := dx_pending s - 1\<rparr>))"
| no_more: "dx_caller s = Between \<Longrightarrow> \<not> dx_first s \<Longrightarrow> k = MutationOperation \<or> \<not> 0 <s dx_pending s \<Longrightarrow>
    dx_step k s (s\<lparr>dx_caller := Told\<rparr>)"

abbreviation dx_reaches :: "operation_kind \<Rightarrow> 'c deferral \<Rightarrow> bool" where
  "dx_reaches k \<equiv> (dx_step k)\<^sup>*\<^sup>* dx_start"

section \<open>No group is lost and none is answered twice\<close>

definition group_key :: "'c deferred_group \<Rightarrow> string \<times> gql_path" where
  "group_key g = (dg_Label g, dg_Path g)"

definition result_key :: "DeferredResult \<Rightarrow> string \<times> gql_path" where
  "result_key r = (dr_Label r, dr_Path r)"

definition response_key :: "gql_response \<Rightarrow> string \<times> gql_path" where
  "response_key r = (rsp_Label r, rsp_Path r)"

definition running_keys :: "'c deferral \<Rightarrow> (string \<times> gql_path) multiset" where
  "running_keys s = image_mset (\<lambda>(h, _). group_key h) (dx_running s)"

definition waiting_keys :: "'c deferral \<Rightarrow> (string \<times> gql_path) multiset" where
  "waiting_keys s = image_mset group_key (dx_starting s) +
     (\<Sum>(_, q) \<in># dx_running s. image_mset group_key q)"

definition in_flight :: "'c deferral \<Rightarrow> nat" where
  "in_flight s = size (dx_running s) + size (dx_sending s)"

definition answered_keys :: "'c deferral \<Rightarrow> (string \<times> gql_path) multiset" where
  "answered_keys s = mset (map response_key (tl (dx_responses s)))"

text \<open>
  The counters count, and every announced group waits to be started, runs, is being sent, or has
  been answered.
\<close>

definition dx_counts :: "'c deferral \<Rightarrow> bool" where
  "dx_counts s \<longleftrightarrow>
     dx_pending s = of_nat (in_flight s) \<and> dx_deferred s = of_nat (size (dx_announced s)) \<and>
     image_mset group_key (dx_announced s) =
       waiting_keys s + running_keys s + image_mset result_key (dx_sending s) + answered_keys s"

definition dx_control :: "operation_kind \<Rightarrow> 'c deferral \<Rightarrow> bool" where
  "dx_control k s \<longleftrightarrow>
     (dx_first s \<longrightarrow> dx_caller s = Between \<and> dx_announced s = {#}) \<and>
     (dx_responses s = [] \<longleftrightarrow> dx_first s \<or> dx_caller s = Executing) \<and>
     (dx_caller s \<noteq> Executing \<longrightarrow> dx_starting s = {#}) \<and>
     (dx_caller s = Receiving \<longrightarrow> k = QueryOperation \<and> 0 < in_flight s) \<and>
     (dx_caller s = Told \<longrightarrow> k = MutationOperation \<or> in_flight s = 0)"

definition dx_truthful :: "operation_kind \<Rightarrow> 'c deferral \<Rightarrow> bool" where
  "dx_truthful k s \<longleftrightarrow> (k = QueryOperation \<and> dx_responses s \<noteq> [] \<longrightarrow>
     (\<forall>r \<in> set (butlast (dx_responses s)). rsp_HasNext r = Some True) \<and>
     rsp_HasNext (last (dx_responses s)) = (if dx_announced s = {#} then None else Some (0 < in_flight s)))"

lemma announced_grows: "dx_step k s s' \<Longrightarrow> size (dx_announced s) \<le> size (dx_announced s')"
  by (induction rule: dx_step.induct) (auto simp: announce_def processDeferredGroup_def respond_def)


lemma dispatched_key: "dispatched h a = Some r \<Longrightarrow> result_key r = group_key h"
  by (auto simp: dispatched_def result_key_def group_key_def)

lemma response_key_next [simp]: "response_key (next_response r) = result_key r"
  by (simp add: response_key_def next_response_def result_key_def)

lemma response_key_HasNext [simp]: "response_key (r\<lparr>rsp_HasNext := h\<rparr>) = response_key r"
  by (simp add: response_key_def)

lemma answered_keys_respond [simp]:
  "answered_keys (respond k r s) =
     (if dx_responses s = [] then {#} else add_mset (response_key r) (answered_keys s))"
  by (cases "dx_responses s") (simp_all add: answered_keys_def respond_def)

lemma respond_sel [simp]:
  "dx_first (respond k r s) = dx_first s" "dx_deferred (respond k r s) = dx_deferred s"
  "dx_pending (respond k r s) = dx_pending s" "dx_caller (respond k r s) = Between"
  "dx_starting (respond k r s) = dx_starting s" "dx_running (respond k r s) = dx_running s"
  "dx_sending (respond k r s) = dx_sending s" "dx_announced (respond k r s) = dx_announced s"
  "(dx_responses (respond k r s) = []) = False"
  by (simp_all add: respond_def)

lemma counts_step:
  assumes "dx_step k s s'" and "dx_counts s" and "dx_control k s"
  shows "dx_counts s'"
  using assms
proof (induction rule: dx_step.induct)
  case (operation_done s v)
  then have "dx_responses s = []" by (simp add: dx_control_def)
  with operation_done show ?case
    by (simp add: dx_counts_def in_flight_def waiting_keys_def running_keys_def answered_keys_def respond_def)
next
  case (received s r sd)
  then have "dx_responses s \<noteq> []" by (auto simp: dx_control_def)
  with received show ?case
    by (simp add: dx_counts_def in_flight_def waiting_keys_def running_keys_def answered_keys_def
        respond_def)
next
  case (group_started s g)
  then obtain q where "dx_starting s = add_mset g q" by (metis insert_DiffM)
  with group_started show ?case
    by (simp add: dx_counts_def in_flight_def waiting_keys_def running_keys_def answered_keys_def
        processDeferredGroup_def)
next
  case (group_dispatched s h rn a r)
  then show ?case
    by (simp add: dx_counts_def in_flight_def waiting_keys_def running_keys_def answered_keys_def dispatched_key)
qed (simp_all add: dx_counts_def in_flight_def waiting_keys_def running_keys_def answered_keys_def
  processDeferredGroup_def announce_def)

lemma in_flight_le: "dx_counts s \<Longrightarrow> in_flight s \<le> size (dx_announced s)"
proof -
  assume "dx_counts s"
  then have "size (image_mset group_key (dx_announced s)) =
      size (waiting_keys s + running_keys s + image_mset result_key (dx_sending s) + answered_keys s)"
    by (simp only: dx_counts_def)
  then show ?thesis by (simp add: in_flight_def running_keys_def)
qed

lemma positive_of_nat: "n < 2 ^ 31 \<Longrightarrow> 0 <s (of_nat n :: 32 word) \<longleftrightarrow> 0 < n"
  using sint_of_int32 [of "int n"] by (simp add: word_sless_alt)

lemma pending_positive:
  "dx_counts s \<Longrightarrow> size (dx_announced s) < 2 ^ 31 \<Longrightarrow> 0 <s dx_pending s \<longleftrightarrow> 0 < in_flight s"
  using in_flight_le [of s] by (simp add: dx_counts_def positive_of_nat)

lemma deferred_positive:
  "dx_counts s \<Longrightarrow> size (dx_announced s) < 2 ^ 31 \<Longrightarrow> 0 <s dx_deferred s \<longleftrightarrow> dx_announced s \<noteq> {#}"
  by (simp add: dx_counts_def positive_of_nat nonempty_has_size)

lemma running_announced: "dx_counts s \<Longrightarrow> dx_running s = add_mset g rn \<Longrightarrow> dx_announced s \<noteq> {#}"
  using in_flight_le [of s] by (auto simp: in_flight_def)

lemma control_step:
  assumes "dx_step k s s'" and "dx_counts s" and "dx_control k s" and "size (dx_announced s) < 2 ^ 31"
  shows "dx_control k s'"
  using assms
  by (induction rule: dx_step.induct)
    (auto simp: dx_control_def pending_positive running_announced in_flight_def announce_def processDeferredGroup_def)

text \<open>What is written while nothing runs is written by the operation, before its response.\<close>

lemma truthful_quiet:
  assumes "dx_truthful k s" and "dx_responses s' = dx_responses s"
    and "dx_announced s' = {#} \<longleftrightarrow> dx_announced s = {#}" and "0 < in_flight s' \<longleftrightarrow> 0 < in_flight s"
  shows "dx_truthful k s'"
  using assms by (simp add: dx_truthful_def)

lemma truthful_respond:
  assumes "dx_truthful k s" and counts: "dx_counts s'" "size (dx_announced s') < 2 ^ 31"
    and s': "s' = respond k r t" and t: "dx_responses t = dx_responses s"
    and more: "dx_responses s \<noteq> [] \<Longrightarrow> dx_announced s \<noteq> {#} \<and> 0 < in_flight s"
  shows "dx_truthful k s'"
proof (cases "k = QueryOperation")
  case True
  have flight: "in_flight s' = in_flight t" by (simp add: s' in_flight_def)
  have "0 <s dx_deferred t \<longleftrightarrow> dx_announced s' \<noteq> {#}" "0 <s dx_pending t \<longleftrightarrow> 0 < in_flight t"
    using deferred_positive [OF counts] pending_positive [OF counts, unfolded flight] by (simp_all add: s')
  then have last: "dx_responses s' = dx_responses s @
      [r\<lparr>rsp_HasNext := (if dx_announced s' = {#} then None else Some (0 < in_flight s'))\<rparr>]"
    unfolding flight using True t by (simp add: s' respond_def)
  have "rsp_HasNext q = Some True" if "q \<in> set (dx_responses s)" for q
    using that more True assms(1) by (cases "dx_responses s" rule: rev_cases) (auto simp: dx_truthful_def)
  then show ?thesis by (simp add: dx_truthful_def last)
qed (simp add: dx_truthful_def)

lemma truthful_none: "dx_responses s = [] \<Longrightarrow> dx_truthful k s"
  by (simp add: dx_truthful_def)

lemma truthful_step:
  assumes "dx_step k s s'" and counts: "dx_counts s" "dx_counts s'" and "dx_control k s"
    and few: "size (dx_announced s') < 2 ^ 31" and "dx_truthful k s"
  shows "dx_truthful k s'"
  using assms(1)
proof cases
  case first_call
  with assms show ?thesis by (intro truthful_quiet [OF assms(6)]) (simp_all add: in_flight_def)
next
  case (object_written gs)
  then have "dx_responses s' = []" using assms(4) by (simp add: dx_control_def announce_def)
  then show ?thesis by (rule truthful_none)
next
  case (group_started g)
  then have "dx_responses s' = []" using assms(4) by (simp add: dx_control_def processDeferredGroup_def)
  then show ?thesis by (rule truthful_none)
next
  case (object_of_group h q rn gs)
  with assms show ?thesis
    by (intro truthful_quiet [OF assms(6)]) (auto simp: in_flight_def announce_def running_announced)
next
  case (group_of_group h g q rn)
  with assms show ?thesis
    by (intro truthful_quiet [OF assms(6)]) (auto simp: in_flight_def processDeferredGroup_def)
next
  case (group_dispatched h rn a r)
  with assms show ?thesis by (intro truthful_quiet [OF assms(6)]) (auto simp: in_flight_def)
next
  case (operation_done v)
  with assms show ?thesis
    by (intro truthful_respond [OF assms(6) counts(2) few operation_done(1)]) (simp_all add: dx_control_def)
next
  case next_call
  with assms show ?thesis by (intro truthful_quiet [OF assms(6)]) (auto simp: in_flight_def)
next
  case (received r sd)
  then have "0 < in_flight s" by (simp add: in_flight_def)
  with received assms in_flight_le [OF counts(1)] show ?thesis
    by (intro truthful_respond [OF assms(6) counts(2) few received(1)]) (auto simp: nonempty_has_size)
next
  case no_more
  with assms show ?thesis by (intro truthful_quiet [OF assms(6)]) (auto simp: in_flight_def)
qed

lemma dx_invariant:
  assumes "dx_reaches k s" and "size (dx_announced s) < 2 ^ 31"
  shows "dx_counts s \<and> dx_control k s \<and> dx_truthful k s"
  using assms
proof (induction rule: rtranclp_induct)
  case base
  show ?case
    by (simp add: dx_start_def dx_counts_def dx_control_def dx_truthful_def in_flight_def waiting_keys_def
        running_keys_def answered_keys_def)
next
  case (step s s')
  then have "size (dx_announced s) < 2 ^ 31" using announced_grows by (meson le_less_trans)
  then show ?case
    using step counts_step control_step truthful_step by blast
qed

text \<open>Whoever waits for a result waits for a group that still runs or for one that is ready.\<close>

lemma receiving_ready:
  assumes "dx_reaches k s" and "size (dx_announced s) < 2 ^ 31" and wait: "dx_caller s = Receiving"
  shows "dx_running s \<noteq> {#} \<or> (\<exists>s'. dx_step k s s' \<and> dx_caller s' = Between \<and>
    length (dx_responses s') = Suc (length (dx_responses s)))"
proof -
  have "0 < in_flight s" using dx_invariant [OF assms(1,2)] wait by (simp add: dx_control_def)
  then consider "dx_running s \<noteq> {#}" | r sd where "dx_sending s = add_mset r sd"
    by (cases "dx_sending s") (auto simp: in_flight_def nonempty_has_size)
  then show ?thesis
  proof cases
    case (2 r sd)
    from dx_step.received [OF wait 2, of k] show ?thesis
      by (intro disjI2 exI conjI) (auto simp: respond_def)
  qed simp
qed

lemma answered_le: "dx_counts s \<Longrightarrow> length (dx_responses s) \<le> Suc (size (dx_announced s))"
proof -
  assume "dx_counts s"
  then have "size (image_mset group_key (dx_announced s)) =
      size (waiting_keys s + running_keys s + image_mset result_key (dx_sending s) + answered_keys s)"
    by (simp only: dx_counts_def)
  then show ?thesis by (simp add: answered_keys_def)
qed

text \<open>
  A mutation is answered once. What its groups want to send stays unsent for good, and with it
  the goroutine of each group.
\<close>

lemma mutation_step:
  assumes "dx_step MutationOperation s s'" and "dx_caller s \<noteq> Receiving"
  shows "dx_caller s' \<noteq> Receiving" and "dx_sending s \<subseteq># dx_sending s'"
  using assms by (cases; simp add: announce_def processDeferredGroup_def)+

lemma mutation_sends_for_good:
  assumes "(dx_step MutationOperation)\<^sup>*\<^sup>* s s'" and "dx_caller s \<noteq> Receiving"
  shows "dx_caller s' \<noteq> Receiving \<and> dx_sending s \<subseteq># dx_sending s'"
  using assms
proof (induction rule: rtranclp_induct)
  case (step t u)
  then show ?case using mutation_step [of t u] subset_mset.order_trans by blast
qed simp

lemma mutation_answered_once:
  assumes "dx_reaches MutationOperation s"
  shows "length (dx_responses s) \<le> 1"
proof -
  have "dx_caller s \<noteq> Receiving \<and> length (dx_responses s) \<le> 1 \<and>
      (dx_first s \<or> dx_caller s = Executing \<longrightarrow> dx_responses s = []) \<and>
      (dx_first s \<longrightarrow> dx_caller s \<noteq> Executing)"
    using assms
  proof (induction rule: rtranclp_induct)
    case (step t u)
    from step.hyps(2) step.IH show ?case
      by cases (simp_all add: announce_def processDeferredGroup_def respond_def)
  qed (simp add: dx_start_def)
  then show ?thesis by simp
qed

section \<open>The responses of a query\<close>

text \<open>
  C9. Whatever the interleaving of the operation, the goroutines of its deferred groups and the
  caller, and whatever further groups they start: when the caller of a query is told that there
  are no more responses, every announced group has been answered under its label and path exactly
  once after the first response, and every response but the last said that more was to come, the
  last that it was the last; a caller that waits has a group that still runs or can be answered at
  once; and there is never more than one response per announced group beside the first. (The counters have 32 bits: fewer than 2^31 groups.)
\<close>

theorem deferred_groups_answered:
  assumes "dx_reaches QueryOperation s" and "size (dx_announced s) < 2 ^ 31"
  shows "case dx_caller s of
      Told \<Rightarrow> (\<exists>r rs. dx_responses s = r # rs \<and>
        mset (map response_key rs) = image_mset group_key (dx_announced s) \<and>
        list_all (\<lambda>r. rsp_HasNext r = Some True) (butlast (r # rs)) \<and>
        rsp_HasNext (last (r # rs)) = (if dx_announced s = {#} then None else Some False))
    | Receiving \<Rightarrow> dx_running s \<noteq> {#} \<or> (\<exists>s'. dx_step QueryOperation s s' \<and> dx_caller s' = Between \<and>
        length (dx_responses s') = Suc (length (dx_responses s)))
    | _ \<Rightarrow> length (dx_responses s) \<le> Suc (size (dx_announced s))"
proof (cases "dx_caller s")
  case Told
  with dx_invariant [OF assms] have control: "in_flight s = 0" "dx_starting s = {#}" "dx_responses s \<noteq> []"
    by (auto simp: dx_control_def)
  then obtain r rs where "dx_responses s = r # rs" by (cases "dx_responses s") simp_all
  with Told control dx_invariant [OF assms] show ?thesis
    by (auto simp: dx_counts_def dx_truthful_def in_flight_def waiting_keys_def running_keys_def
        answered_keys_def list_all_iff)
next
  case Receiving
  with receiving_ready [OF assms] show ?thesis by simp
qed (use dx_invariant [OF assms] answered_le [of s] in \<open>simp_all\<close>)

definition demo_group :: "(string \<rightharpoonup> string) deferred_group" where
  "demo_group = \<lparr>dg_Label = ''tags'', dg_Path = [Inl ''tea''],
     dg_FieldSet = [(''tags'', True, answerX (GList []))]\<rparr>"

definition demo_result :: DeferredResult where
  "demo_result = \<lparr>dr_Path = [Inl ''tea''], dr_Label = ''tags'', dr_Result = GObject [(''tags'', GList [])],
     dr_Errors = []\<rparr>"

lemma demo_dispatched: "dispatched demo_group a = Some demo_result"
  by (simp add: dispatched_def demo_group_def demo_result_def objectX_def answerX_def)

definition demo_told :: "(string \<rightharpoonup> string) deferral" where
  "demo_told = \<lparr>dx_first = False, dx_deferred = 1, dx_pending = 0, dx_caller = Told,
     dx_starting = {#}, dx_running = {#}, dx_sending = {#},
     dx_responses = [(first_response (GObject []))\<lparr>rsp_HasNext := Some True\<rparr>,
                     (next_response demo_result)\<lparr>rsp_HasNext := Some False\<rparr>],
     dx_announced = {#demo_group#}\<rparr>"

lemma demo_reached: "dx_reaches QueryOperation demo_told"
proof -
  let ?k = QueryOperation
  let ?s1 = "dx_start\<lparr>dx_first := False, dx_caller := Executing\<rparr>"
  let ?s2 = "announce [demo_group] (?s1\<lparr>dx_starting := dx_starting ?s1 + mset [demo_group]\<rparr>)"
  let ?s3 = "processDeferredGroup demo_group (?s2\<lparr>dx_starting := dx_starting ?s2 - {#demo_group#}\<rparr>)"
  let ?s4 = "respond ?k (first_response (GObject [])) ?s3"
  let ?s5 = "?s4\<lparr>dx_running := {#}, dx_sending := add_mset demo_result (dx_sending ?s4)\<rparr>"
  let ?s6 = "?s5\<lparr>dx_caller := Receiving\<rparr>"
  let ?s7 = "respond ?k (next_response demo_result)
      (?s6\<lparr>dx_sending := {#}, dx_pending := dx_pending ?s6 - 1\<rparr>)"
  have "0 <s (1 :: 32 word)" using positive_of_nat [of 1] by simp
  note defs = this dx_start_def announce_def processDeferredGroup_def respond_def
  have "dx_step ?k dx_start ?s1" by (rule first_call) (simp_all add: defs)
  moreover have "dx_step ?k ?s1 ?s2" by (rule object_written) (simp add: defs)
  moreover have "dx_step ?k ?s2 ?s3" by (rule group_started) (simp_all add: defs)
  moreover have "dx_step ?k ?s3 ?s4" by (rule operation_done) (simp_all add: defs)
  moreover have "dx_step ?k ?s4 ?s5"
    by (rule group_dispatched [OF _ demo_dispatched]) (simp add: defs)
  moreover have "dx_step ?k ?s5 ?s6" by (rule next_call) (simp_all add: defs)
  moreover have "dx_step ?k ?s6 ?s7" by (rule received) (simp_all add: defs)
  moreover have "dx_step ?k ?s7 (?s7\<lparr>dx_caller := Told\<rparr>)" by (rule no_more) (simp_all add: defs)
  moreover have "?s7\<lparr>dx_caller := Told\<rparr> = demo_told" by (simp add: defs demo_told_def)
  ultimately show ?thesis by (metis (no_types, lifting) rtranclp.rtrancl_into_rtrancl rtranclp.rtrancl_refl)
qed

theorem deferred_groups_answered_witness:
  "\<exists>r rs. dx_responses demo_told = r # rs \<and> mset (map response_key rs) = {#(''tags'', [Inl ''tea''])#} \<and>
     rsp_HasNext (last (r # rs)) = Some False"
  using deferred_groups_answered [OF demo_reached]
  by (simp add: demo_told_def demo_group_def group_key_def)

end
