(* ===== verification/Complexity.thy ===== *)
theory Complexity
  imports Arguments
begin

text \<open>
  The cost of a field (\<open>ComplexityRoot\<close> and \<open>executableSchema.Complexity\<close> in
  \<open>pkg/api/v2/graphql/generated/generated.go\<close>): a table of optional functions, one for each field of
  the schema, and the switch over type and field that calls them with the decoded arguments. The
  lemmas show that only fields of the schema have a cost of their own, and that with the table
  the server is started with (\<open>internal/server/server.go\<close> sets no function) every field is left to
  the library.
\<close>

section \<open>The table\<close>

record complexity_Collection =
  cx_Collection_ID :: "(64 word \<Rightarrow> 64 word) option"
  cx_Collection_Name :: "(64 word \<Rightarrow> 64 word) option"
  cx_Collection_Records :: "(64 word \<Rightarrow> 64 word) option"
  cx_Collection_UserID :: "(64 word \<Rightarrow> 64 word) option"

record complexity_Mutation =
  cx_Mutation_AddRecordsToCollection :: "(64 word \<Rightarrow> uuid \<Rightarrow> uuid list \<Rightarrow> 64 word) option"
  cx_Mutation_AddTagToTea :: "(64 word \<Rightarrow> uuid \<Rightarrow> uuid \<Rightarrow> 64 word) option"
  cx_Mutation_AuthApple :: "(64 word \<Rightarrow> string \<Rightarrow> uuid \<Rightarrow> 64 word) option"
  cx_Mutation_ChangeTagCategory :: "(64 word \<Rightarrow> uuid \<Rightarrow> uuid \<Rightarrow> 64 word) option"
  cx_Mutation_CreateCollection :: "(64 word \<Rightarrow> string \<Rightarrow> 64 word) option"
  cx_Mutation_CreateTag :: "(64 word \<Rightarrow> string \<Rightarrow> string \<Rightarrow> uuid \<Rightarrow> 64 word) option"
  cx_Mutation_CreateTagCategory :: "(64 word \<Rightarrow> string \<Rightarrow> 64 word) option"
  cx_Mutation_DeleteCollection :: "(64 word \<Rightarrow> uuid \<Rightarrow> 64 word) option"
  cx_Mutation_DeleteRecordsFromCollection :: "(64 word \<Rightarrow> uuid \<Rightarrow> uuid list \<Rightarrow> 64 word) option"
  cx_Mutation_DeleteTag :: "(64 word \<Rightarrow> uuid \<Rightarrow> 64 word) option"
  cx_Mutation_DeleteTagCategory :: "(64 word \<Rightarrow> uuid \<Rightarrow> 64 word) option"
  cx_Mutation_DeleteTagFromTea :: "(64 word \<Rightarrow> uuid \<Rightarrow> uuid \<Rightarrow> 64 word) option"
  cx_Mutation_DeleteTea :: "(64 word \<Rightarrow> uuid \<Rightarrow> 64 word) option"
  cx_Mutation_NewTea :: "(64 word \<Rightarrow> GTeaData \<Rightarrow> 64 word) option"
  cx_Mutation_RegisterDeviceToken :: "(64 word \<Rightarrow> uuid \<Rightarrow> string \<Rightarrow> 64 word) option"
  cx_Mutation_Send :: "(64 word \<Rightarrow> 64 word) option"
  cx_Mutation_TeaRecommendation :: "(64 word \<Rightarrow> uuid \<Rightarrow> string \<Rightarrow> 64 word) option"
  cx_Mutation_UpdateTag :: "(64 word \<Rightarrow> uuid \<Rightarrow> string \<Rightarrow> string \<Rightarrow> 64 word) option"
  cx_Mutation_UpdateTagCategory :: "(64 word \<Rightarrow> uuid \<Rightarrow> string \<Rightarrow> 64 word) option"
  cx_Mutation_UpdateTea :: "(64 word \<Rightarrow> uuid \<Rightarrow> GTeaData \<Rightarrow> 64 word) option"
  cx_Mutation_WriteToQR :: "(64 word \<Rightarrow> uuid \<Rightarrow> QRRecordData \<Rightarrow> 64 word) option"

record complexity_Notification =
  cx_Notification_Type :: "(64 word \<Rightarrow> 64 word) option"

record complexity_QRRecord =
  cx_QRRecord_BowlingTemp :: "(64 word \<Rightarrow> 64 word) option"
  cx_QRRecord_ExpirationDate :: "(64 word \<Rightarrow> 64 word) option"
  cx_QRRecord_ID :: "(64 word \<Rightarrow> 64 word) option"
  cx_QRRecord_Tea :: "(64 word \<Rightarrow> 64 word) option"

record complexity_Query =
  cx_Query_Collections :: "(64 word \<Rightarrow> 64 word) option"
  cx_Query_GenerateDescription :: "(64 word \<Rightarrow> string \<Rightarrow> 64 word) option"
  cx_Query_Me :: "(64 word \<Rightarrow> 64 word) option"
  cx_Query_QRRecord :: "(64 word \<Rightarrow> uuid \<Rightarrow> 64 word) option"
  cx_Query_Tag :: "(64 word \<Rightarrow> uuid \<Rightarrow> 64 word) option"
  cx_Query_TagsCategories :: "(64 word \<Rightarrow> string option \<Rightarrow> 64 word) option"
  cx_Query_Tea :: "(64 word \<Rightarrow> uuid \<Rightarrow> 64 word) option"
  cx_Query_TeaOfTheDay :: "(64 word \<Rightarrow> 64 word) option"
  cx_Query_Teas :: "(64 word \<Rightarrow> string option \<Rightarrow> 64 word) option"

record complexity_Session =
  cx_Session_ExpiredAt :: "(64 word \<Rightarrow> 64 word) option"
  cx_Session_Token :: "(64 word \<Rightarrow> 64 word) option"

record complexity_Subscription =
  cx_Subscription_OnAddTagToTea :: "(64 word \<Rightarrow> 64 word) option"
  cx_Subscription_OnCreateTag :: "(64 word \<Rightarrow> 64 word) option"
  cx_Subscription_OnCreateTagCategory :: "(64 word \<Rightarrow> 64 word) option"
  cx_Subscription_OnCreateTea :: "(64 word \<Rightarrow> 64 word) option"
  cx_Subscription_OnDeleteTag :: "(64 word \<Rightarrow> 64 word) option"
  cx_Subscription_OnDeleteTagCategory :: "(64 word \<Rightarrow> 64 word) option"
  cx_Subscription_OnDeleteTagFromTea :: "(64 word \<Rightarrow> 64 word) option"
  cx_Subscription_OnDeleteTea :: "(64 word \<Rightarrow> 64 word) option"
  cx_Subscription_OnUpdateTag :: "(64 word \<Rightarrow> 64 word) option"
  cx_Subscription_OnUpdateTagCategory :: "(64 word \<Rightarrow> 64 word) option"
  cx_Subscription_OnUpdateTea :: "(64 word \<Rightarrow> 64 word) option"
  cx_Subscription_RecommendTea :: "(64 word \<Rightarrow> uuid \<Rightarrow> string \<Rightarrow> 64 word) option"
  cx_Subscription_StartGenerateDescription :: "(64 word \<Rightarrow> string \<Rightarrow> 64 word) option"

record complexity_Tag =
  cx_Tag_Category :: "(64 word \<Rightarrow> 64 word) option"
  cx_Tag_Color :: "(64 word \<Rightarrow> 64 word) option"
  cx_Tag_ID :: "(64 word \<Rightarrow> 64 word) option"
  cx_Tag_Name :: "(64 word \<Rightarrow> 64 word) option"

record complexity_TagCategory =
  cx_TagCategory_ID :: "(64 word \<Rightarrow> 64 word) option"
  cx_TagCategory_Name :: "(64 word \<Rightarrow> 64 word) option"
  cx_TagCategory_Tags :: "(64 word \<Rightarrow> string option \<Rightarrow> 64 word) option"

record complexity_Tea =
  cx_Tea_Description :: "(64 word \<Rightarrow> 64 word) option"
  cx_Tea_ID :: "(64 word \<Rightarrow> 64 word) option"
  cx_Tea_Name :: "(64 word \<Rightarrow> 64 word) option"
  cx_Tea_Tags :: "(64 word \<Rightarrow> 64 word) option"
  cx_Tea_Type :: "(64 word \<Rightarrow> 64 word) option"

record complexity_TeaOfTheDay =
  cx_TeaOfTheDay_Date :: "(64 word \<Rightarrow> 64 word) option"
  cx_TeaOfTheDay_Tea :: "(64 word \<Rightarrow> 64 word) option"

record complexity_User =
  cx_User_Collections :: "(64 word \<Rightarrow> 64 word) option"
  cx_User_Notifications :: "(64 word \<Rightarrow> 64 word) option"
  cx_User_TokenExpiredAt :: "(64 word \<Rightarrow> 64 word) option"

record complexity_root =
  cx_Collection :: complexity_Collection
  cx_Mutation :: complexity_Mutation
  cx_Notification :: complexity_Notification
  cx_QRRecord :: complexity_QRRecord
  cx_Query :: complexity_Query
  cx_Session :: complexity_Session
  cx_Subscription :: complexity_Subscription
  cx_Tag :: complexity_Tag
  cx_TagCategory :: complexity_TagCategory
  cx_Tea :: complexity_Tea
  cx_TeaOfTheDay :: complexity_TeaOfTheDay
  cx_User :: complexity_User

text \<open>
  A field with a function of its own is counted by it, with the arguments of the field where it has
  some. A field without one, or with arguments that are refused, is left to the library: \<open>(0, False)\<close>.
  \<open>None\<close> is a panic of the decoder.
\<close>

definition counted :: "(64 word \<Rightarrow> 64 word) option \<Rightarrow> 64 word \<Rightarrow> (64 word \<times> bool) option" where
  "counted f child = Some (case f of None \<Rightarrow> (0, False) | Some g \<Rightarrow> (g child, True))"

definition counted_args ::
    "'g option \<Rightarrow> 'p call \<Rightarrow> ('g \<Rightarrow> 'p \<Rightarrow> 64 word) \<Rightarrow> (64 word \<times> bool) option" where
  "counted_args f args k =
     (case f of
        None \<Rightarrow> Some (0, False)
      | Some g \<Rightarrow>
          (case args of
             Panic \<Rightarrow> None
           | Ret (Inl e) \<Rightarrow> Some (0, False)
           | Ret (Inr p) \<Rightarrow> Some (k g p, True)))"

definition Complexity_Collection :: "complexity_Collection \<Rightarrow> 64 word \<Rightarrow> string \<Rightarrow> (64 word \<times> bool) option option" where
  "Complexity_Collection r child key =
     (if key = ''Collection.id'' then Some (counted (cx_Collection_ID r) child)
      else if key = ''Collection.name'' then Some (counted (cx_Collection_Name r) child)
      else if key = ''Collection.records'' then Some (counted (cx_Collection_Records r) child)
      else if key = ''Collection.userID'' then Some (counted (cx_Collection_UserID r) child)
      else None)"

definition Complexity_Mutation :: "gql_libs \<Rightarrow> raw_args \<Rightarrow> complexity_Mutation \<Rightarrow> 64 word \<Rightarrow> string \<Rightarrow> (64 word \<times> bool) option option" where
  "Complexity_Mutation lb raw r child key =
     (if key = ''Mutation.addRecordsToCollection'' then Some (counted_args (cx_Mutation_AddRecordsToCollection r) (Mutation_addRecordsToCollection_args lb raw) (\<lambda>g (p0, p1). g child p0 p1))
      else if key = ''Mutation.addTagToTea'' then Some (counted_args (cx_Mutation_AddTagToTea r) (Mutation_addTagToTea_args lb raw) (\<lambda>g (p0, p1). g child p0 p1))
      else if key = ''Mutation.authApple'' then Some (counted_args (cx_Mutation_AuthApple r) (Mutation_authApple_args lb raw) (\<lambda>g (p0, p1). g child p0 p1))
      else if key = ''Mutation.changeTagCategory'' then Some (counted_args (cx_Mutation_ChangeTagCategory r) (Mutation_changeTagCategory_args lb raw) (\<lambda>g (p0, p1). g child p0 p1))
      else if key = ''Mutation.createCollection'' then Some (counted_args (cx_Mutation_CreateCollection r) (Mutation_createCollection_args lb raw) (\<lambda>g p. g child p))
      else if key = ''Mutation.createTag'' then Some (counted_args (cx_Mutation_CreateTag r) (Mutation_createTag_args lb raw) (\<lambda>g (p0, p1, p2). g child p0 p1 p2))
      else if key = ''Mutation.createTagCategory'' then Some (counted_args (cx_Mutation_CreateTagCategory r) (Mutation_createTagCategory_args lb raw) (\<lambda>g p. g child p))
      else if key = ''Mutation.deleteCollection'' then Some (counted_args (cx_Mutation_DeleteCollection r) (Mutation_deleteCollection_args lb raw) (\<lambda>g p. g child p))
      else if key = ''Mutation.deleteRecordsFromCollection'' then Some (counted_args (cx_Mutation_DeleteRecordsFromCollection r) (Mutation_deleteRecordsFromCollection_args lb raw) (\<lambda>g (p0, p1). g child p0 p1))
      else if key = ''Mutation.deleteTag'' then Some (counted_args (cx_Mutation_DeleteTag r) (Mutation_deleteTag_args lb raw) (\<lambda>g p. g child p))
      else if key = ''Mutation.deleteTagCategory'' then Some (counted_args (cx_Mutation_DeleteTagCategory r) (Mutation_deleteTagCategory_args lb raw) (\<lambda>g p. g child p))
      else if key = ''Mutation.deleteTagFromTea'' then Some (counted_args (cx_Mutation_DeleteTagFromTea r) (Mutation_deleteTagFromTea_args lb raw) (\<lambda>g (p0, p1). g child p0 p1))
      else if key = ''Mutation.deleteTea'' then Some (counted_args (cx_Mutation_DeleteTea r) (Mutation_deleteTea_args lb raw) (\<lambda>g p. g child p))
      else if key = ''Mutation.newTea'' then Some (counted_args (cx_Mutation_NewTea r) (Mutation_newTea_args lb raw) (\<lambda>g p. g child p))
      else if key = ''Mutation.registerDeviceToken'' then Some (counted_args (cx_Mutation_RegisterDeviceToken r) (Mutation_registerDeviceToken_args lb raw) (\<lambda>g (p0, p1). g child p0 p1))
      else if key = ''Mutation.send'' then Some (counted (cx_Mutation_Send r) child)
      else if key = ''Mutation.teaRecommendation'' then Some (counted_args (cx_Mutation_TeaRecommendation r) (Mutation_teaRecommendation_args lb raw) (\<lambda>g (p0, p1). g child p0 p1))
      else if key = ''Mutation.updateTag'' then Some (counted_args (cx_Mutation_UpdateTag r) (Mutation_updateTag_args lb raw) (\<lambda>g (p0, p1, p2). g child p0 p1 p2))
      else if key = ''Mutation.updateTagCategory'' then Some (counted_args (cx_Mutation_UpdateTagCategory r) (Mutation_updateTagCategory_args lb raw) (\<lambda>g (p0, p1). g child p0 p1))
      else if key = ''Mutation.updateTea'' then Some (counted_args (cx_Mutation_UpdateTea r) (Mutation_updateTea_args lb raw) (\<lambda>g (p0, p1). g child p0 p1))
      else if key = ''Mutation.writeToQR'' then Some (counted_args (cx_Mutation_WriteToQR r) (Mutation_writeToQR_args lb raw) (\<lambda>g (p0, p1). g child p0 p1))
      else None)"

definition Complexity_Notification :: "complexity_Notification \<Rightarrow> 64 word \<Rightarrow> string \<Rightarrow> (64 word \<times> bool) option option" where
  "Complexity_Notification r child key =
     (if key = ''Notification.type'' then Some (counted (cx_Notification_Type r) child)
      else None)"

definition Complexity_QRRecord :: "complexity_QRRecord \<Rightarrow> 64 word \<Rightarrow> string \<Rightarrow> (64 word \<times> bool) option option" where
  "Complexity_QRRecord r child key =
     (if key = ''QRRecord.bowlingTemp'' then Some (counted (cx_QRRecord_BowlingTemp r) child)
      else if key = ''QRRecord.expirationDate'' then Some (counted (cx_QRRecord_ExpirationDate r) child)
      else if key = ''QRRecord.id'' then Some (counted (cx_QRRecord_ID r) child)
      else if key = ''QRRecord.tea'' then Some (counted (cx_QRRecord_Tea r) child)
      else None)"

definition Complexity_Query :: "gql_libs \<Rightarrow> raw_args \<Rightarrow> complexity_Query \<Rightarrow> 64 word \<Rightarrow> string \<Rightarrow> (64 word \<times> bool) option option" where
  "Complexity_Query lb raw r child key =
     (if key = ''Query.collections'' then Some (counted (cx_Query_Collections r) child)
      else if key = ''Query.generateDescription'' then Some (counted_args (cx_Query_GenerateDescription r) (Query_generateDescription_args lb raw) (\<lambda>g p. g child p))
      else if key = ''Query.me'' then Some (counted (cx_Query_Me r) child)
      else if key = ''Query.qrRecord'' then Some (counted_args (cx_Query_QRRecord r) (Query_qrRecord_args lb raw) (\<lambda>g p. g child p))
      else if key = ''Query.tag'' then Some (counted_args (cx_Query_Tag r) (Query_tag_args lb raw) (\<lambda>g p. g child p))
      else if key = ''Query.tagsCategories'' then Some (counted_args (cx_Query_TagsCategories r) (Query_tagsCategories_args lb raw) (\<lambda>g p. g child p))
      else if key = ''Query.tea'' then Some (counted_args (cx_Query_Tea r) (Query_tea_args lb raw) (\<lambda>g p. g child p))
      else if key = ''Query.teaOfTheDay'' then Some (counted (cx_Query_TeaOfTheDay r) child)
      else if key = ''Query.teas'' then Some (counted_args (cx_Query_Teas r) (Query_teas_args lb raw) (\<lambda>g p. g child p))
      else None)"

definition Complexity_Session :: "complexity_Session \<Rightarrow> 64 word \<Rightarrow> string \<Rightarrow> (64 word \<times> bool) option option" where
  "Complexity_Session r child key =
     (if key = ''Session.expiredAt'' then Some (counted (cx_Session_ExpiredAt r) child)
      else if key = ''Session.token'' then Some (counted (cx_Session_Token r) child)
      else None)"

definition Complexity_Subscription :: "gql_libs \<Rightarrow> raw_args \<Rightarrow> complexity_Subscription \<Rightarrow> 64 word \<Rightarrow> string \<Rightarrow> (64 word \<times> bool) option option" where
  "Complexity_Subscription lb raw r child key =
     (if key = ''Subscription.onAddTagToTea'' then Some (counted (cx_Subscription_OnAddTagToTea r) child)
      else if key = ''Subscription.onCreateTag'' then Some (counted (cx_Subscription_OnCreateTag r) child)
      else if key = ''Subscription.onCreateTagCategory'' then Some (counted (cx_Subscription_OnCreateTagCategory r) child)
      else if key = ''Subscription.onCreateTea'' then Some (counted (cx_Subscription_OnCreateTea r) child)
      else if key = ''Subscription.onDeleteTag'' then Some (counted (cx_Subscription_OnDeleteTag r) child)
      else if key = ''Subscription.onDeleteTagCategory'' then Some (counted (cx_Subscription_OnDeleteTagCategory r) child)
      else if key = ''Subscription.onDeleteTagFromTea'' then Some (counted (cx_Subscription_OnDeleteTagFromTea r) child)
      else if key = ''Subscription.onDeleteTea'' then Some (counted (cx_Subscription_OnDeleteTea r) child)
      else if key = ''Subscription.onUpdateTag'' then Some (counted (cx_Subscription_OnUpdateTag r) child)
      else if key = ''Subscription.onUpdateTagCategory'' then Some (counted (cx_Subscription_OnUpdateTagCategory r) child)
      else if key = ''Subscription.onUpdateTea'' then Some (counted (cx_Subscription_OnUpdateTea r) child)
      else if key = ''Subscription.recommendTea'' then Some (counted_args (cx_Subscription_RecommendTea r) (Subscription_recommendTea_args lb raw) (\<lambda>g (p0, p1). g child p0 p1))
      else if key = ''Subscription.startGenerateDescription'' then Some (counted_args (cx_Subscription_StartGenerateDescription r) (Subscription_startGenerateDescription_args lb raw) (\<lambda>g p. g child p))
      else None)"

definition Complexity_Tag :: "complexity_Tag \<Rightarrow> 64 word \<Rightarrow> string \<Rightarrow> (64 word \<times> bool) option option" where
  "Complexity_Tag r child key =
     (if key = ''Tag.category'' then Some (counted (cx_Tag_Category r) child)
      else if key = ''Tag.color'' then Some (counted (cx_Tag_Color r) child)
      else if key = ''Tag.id'' then Some (counted (cx_Tag_ID r) child)
      else if key = ''Tag.name'' then Some (counted (cx_Tag_Name r) child)
      else None)"

definition Complexity_TagCategory :: "gql_libs \<Rightarrow> raw_args \<Rightarrow> complexity_TagCategory \<Rightarrow> 64 word \<Rightarrow> string \<Rightarrow> (64 word \<times> bool) option option" where
  "Complexity_TagCategory lb raw r child key =
     (if key = ''TagCategory.id'' then Some (counted (cx_TagCategory_ID r) child)
      else if key = ''TagCategory.name'' then Some (counted (cx_TagCategory_Name r) child)
      else if key = ''TagCategory.tags'' then Some (counted_args (cx_TagCategory_Tags r) (TagCategory_tags_args lb raw) (\<lambda>g p. g child p))
      else None)"

definition Complexity_Tea :: "complexity_Tea \<Rightarrow> 64 word \<Rightarrow> string \<Rightarrow> (64 word \<times> bool) option option" where
  "Complexity_Tea r child key =
     (if key = ''Tea.description'' then Some (counted (cx_Tea_Description r) child)
      else if key = ''Tea.id'' then Some (counted (cx_Tea_ID r) child)
      else if key = ''Tea.name'' then Some (counted (cx_Tea_Name r) child)
      else if key = ''Tea.tags'' then Some (counted (cx_Tea_Tags r) child)
      else if key = ''Tea.type'' then Some (counted (cx_Tea_Type r) child)
      else None)"

definition Complexity_TeaOfTheDay :: "complexity_TeaOfTheDay \<Rightarrow> 64 word \<Rightarrow> string \<Rightarrow> (64 word \<times> bool) option option" where
  "Complexity_TeaOfTheDay r child key =
     (if key = ''TeaOfTheDay.date'' then Some (counted (cx_TeaOfTheDay_Date r) child)
      else if key = ''TeaOfTheDay.tea'' then Some (counted (cx_TeaOfTheDay_Tea r) child)
      else None)"

definition Complexity_User :: "complexity_User \<Rightarrow> 64 word \<Rightarrow> string \<Rightarrow> (64 word \<times> bool) option option" where
  "Complexity_User r child key =
     (if key = ''User.collections'' then Some (counted (cx_User_Collections r) child)
      else if key = ''User.notifications'' then Some (counted (cx_User_Notifications r) child)
      else if key = ''User.tokenExpiredAt'' then Some (counted (cx_User_TokenExpiredAt r) child)
      else None)"

definition or_switch :: "'a option \<Rightarrow> 'a option \<Rightarrow> 'a option" where
  "or_switch x y = (case x of None \<Rightarrow> y | Some v \<Rightarrow> Some v)"

definition Complexity ::
    "gql_libs \<Rightarrow> complexity_root \<Rightarrow> string \<Rightarrow> string \<Rightarrow> 64 word \<Rightarrow> raw_args \<Rightarrow> (64 word \<times> bool) option" where
  "Complexity lb r typeName field child raw =
     (let key = typeName @ ''.'' @ field in
      case or_switch (Complexity_Collection (cx_Collection r) child key)
        (or_switch (Complexity_Mutation lb raw (cx_Mutation r) child key)
        (or_switch (Complexity_Notification (cx_Notification r) child key)
        (or_switch (Complexity_QRRecord (cx_QRRecord r) child key)
        (or_switch (Complexity_Query lb raw (cx_Query r) child key)
        (or_switch (Complexity_Session (cx_Session r) child key)
        (or_switch (Complexity_Subscription lb raw (cx_Subscription r) child key)
        (or_switch (Complexity_Tag (cx_Tag r) child key)
        (or_switch (Complexity_TagCategory lb raw (cx_TagCategory r) child key)
        (or_switch (Complexity_Tea (cx_Tea r) child key)
        (or_switch (Complexity_TeaOfTheDay (cx_TeaOfTheDay r) child key)
        (Complexity_User (cx_User r) child key))))))))))) of
        None \<Rightarrow> Some (0, False)
      | Some answer \<Rightarrow> answer)"

definition no_complexity :: complexity_root where
  "no_complexity =
     \<lparr>cx_Collection = \<lparr>cx_Collection_ID = None, cx_Collection_Name = None, cx_Collection_Records = None, cx_Collection_UserID = None\<rparr>,
      cx_Mutation = \<lparr>cx_Mutation_AddRecordsToCollection = None, cx_Mutation_AddTagToTea = None, cx_Mutation_AuthApple = None, cx_Mutation_ChangeTagCategory = None, cx_Mutation_CreateCollection = None, cx_Mutation_CreateTag = None, cx_Mutation_CreateTagCategory = None, cx_Mutation_DeleteCollection = None, cx_Mutation_DeleteRecordsFromCollection = None, cx_Mutation_DeleteTag = None, cx_Mutation_DeleteTagCategory = None, cx_Mutation_DeleteTagFromTea = None, cx_Mutation_DeleteTea = None, cx_Mutation_NewTea = None, cx_Mutation_RegisterDeviceToken = None, cx_Mutation_Send = None, cx_Mutation_TeaRecommendation = None, cx_Mutation_UpdateTag = None, cx_Mutation_UpdateTagCategory = None, cx_Mutation_UpdateTea = None, cx_Mutation_WriteToQR = None\<rparr>,
      cx_Notification = \<lparr>cx_Notification_Type = None\<rparr>,
      cx_QRRecord = \<lparr>cx_QRRecord_BowlingTemp = None, cx_QRRecord_ExpirationDate = None, cx_QRRecord_ID = None, cx_QRRecord_Tea = None\<rparr>,
      cx_Query = \<lparr>cx_Query_Collections = None, cx_Query_GenerateDescription = None, cx_Query_Me = None, cx_Query_QRRecord = None, cx_Query_Tag = None, cx_Query_TagsCategories = None, cx_Query_Tea = None, cx_Query_TeaOfTheDay = None, cx_Query_Teas = None\<rparr>,
      cx_Session = \<lparr>cx_Session_ExpiredAt = None, cx_Session_Token = None\<rparr>,
      cx_Subscription = \<lparr>cx_Subscription_OnAddTagToTea = None, cx_Subscription_OnCreateTag = None, cx_Subscription_OnCreateTagCategory = None, cx_Subscription_OnCreateTea = None, cx_Subscription_OnDeleteTag = None, cx_Subscription_OnDeleteTagCategory = None, cx_Subscription_OnDeleteTagFromTea = None, cx_Subscription_OnDeleteTea = None, cx_Subscription_OnUpdateTag = None, cx_Subscription_OnUpdateTagCategory = None, cx_Subscription_OnUpdateTea = None, cx_Subscription_RecommendTea = None, cx_Subscription_StartGenerateDescription = None\<rparr>,
      cx_Tag = \<lparr>cx_Tag_Category = None, cx_Tag_Color = None, cx_Tag_ID = None, cx_Tag_Name = None\<rparr>,
      cx_TagCategory = \<lparr>cx_TagCategory_ID = None, cx_TagCategory_Name = None, cx_TagCategory_Tags = None\<rparr>,
      cx_Tea = \<lparr>cx_Tea_Description = None, cx_Tea_ID = None, cx_Tea_Name = None, cx_Tea_Tags = None, cx_Tea_Type = None\<rparr>,
      cx_TeaOfTheDay = \<lparr>cx_TeaOfTheDay_Date = None, cx_TeaOfTheDay_Tea = None\<rparr>,
      cx_User = \<lparr>cx_User_Collections = None, cx_User_Notifications = None, cx_User_TokenExpiredAt = None\<rparr>\<rparr>"

lemmas complexity_defs =
  Complexity_Collection_def Complexity_Mutation_def Complexity_Notification_def Complexity_QRRecord_def Complexity_Query_def Complexity_Session_def Complexity_Subscription_def Complexity_Tag_def Complexity_TagCategory_def Complexity_Tea_def Complexity_TeaOfTheDay_def Complexity_User_def
section \<open>Which fields are counted\<close>

lemma counted_None [simp]: "counted None child = Some (0, False)" "counted_args None args k = Some (0, False)"
  by (simp_all add: counted_def counted_args_def)

lemma or_switch_left:
  "x \<in> {None, Some v} \<Longrightarrow> y \<in> {None, Some v} \<Longrightarrow> or_switch x y \<in> {None, Some v}"
  by (auto simp: or_switch_def)

lemma if_left: "y \<in> {None, Some v} \<Longrightarrow> (if b then Some v else y) \<in> {None, Some v}"
  by simp

text \<open>The server is started with the zero value of the table: the library counts every field.\<close>

lemma complexity_left_to_library: "Complexity lb no_complexity typeName field child raw = Some (0, False)"
proof -
  have left: "(case x of None \<Rightarrow> Some (0, False) | Some answer \<Rightarrow> answer) = Some (0, False)"
    if "x \<in> {None, Some (Some (0, False))}" for x :: "(64 word \<times> bool) option option"
    using that by auto
  show ?thesis
    unfolding Complexity_def Let_def complexity_defs no_complexity_def
      complexity_root.simps complexity_Collection.simps complexity_Mutation.simps complexity_Notification.simps
      complexity_QRRecord.simps complexity_Query.simps complexity_Session.simps complexity_Subscription.simps
      complexity_Tag.simps complexity_TagCategory.simps complexity_Tea.simps complexity_TeaOfTheDay.simps
      complexity_User.simps counted_None
    by (intro left or_switch_left if_left insertI1)
qed

text \<open>A key of the switch has one dot: the type and the field can be read off it.\<close>

lemma key_parts:
  assumes "typeName @ CHR ''.'' # field = key" and "length (filter (\<lambda>c. c = CHR ''.'') key) = 1"
  shows "typeName = takeWhile (\<lambda>c. c \<noteq> CHR ''.'') key" and "field = tl (dropWhile (\<lambda>c. c \<noteq> CHR ''.'') key)"
proof -
  from assms have key: "key = typeName @ CHR ''.'' # field" by simp
  from assms(2) have "filter (\<lambda>c. c = CHR ''.'') typeName = []" unfolding key by simp
  then have "\<And>c. c \<in> set typeName \<Longrightarrow> c \<noteq> CHR ''.''" by (auto simp: filter_empty_conv)
  then show "typeName = takeWhile (\<lambda>c. c \<noteq> CHR ''.'') key" "field = tl (dropWhile (\<lambda>c. c \<noteq> CHR ''.'') key)"
    unfolding key by (simp_all add: takeWhile_append2 dropWhile_append2)
qed

definition schema_key :: "string \<Rightarrow> bool" where
  "schema_key key \<longleftrightarrow>
     length (filter (\<lambda>c. c = CHR ''.'') key) = 1 \<and>
     field_type (takeWhile (\<lambda>c. c \<noteq> CHR ''.'') key) (tl (dropWhile (\<lambda>c. c \<noteq> CHR ''.'') key)) \<noteq> None"

lemma schema_keys:
  "list_all schema_key
     [''Collection.id'', ''Collection.name'', ''Collection.records'', ''Collection.userID'',
      ''Mutation.addRecordsToCollection'', ''Mutation.addTagToTea'', ''Mutation.authApple'', ''Mutation.changeTagCategory'',
      ''Mutation.createCollection'', ''Mutation.createTag'', ''Mutation.createTagCategory'', ''Mutation.deleteCollection'',
      ''Mutation.deleteRecordsFromCollection'', ''Mutation.deleteTag'', ''Mutation.deleteTagCategory'', ''Mutation.deleteTagFromTea'',
      ''Mutation.deleteTea'', ''Mutation.newTea'', ''Mutation.registerDeviceToken'', ''Mutation.send'',
      ''Mutation.teaRecommendation'', ''Mutation.updateTag'', ''Mutation.updateTagCategory'', ''Mutation.updateTea'',
      ''Mutation.writeToQR'', ''Notification.type'', ''QRRecord.bowlingTemp'', ''QRRecord.expirationDate'',
      ''QRRecord.id'', ''QRRecord.tea'', ''Query.collections'', ''Query.generateDescription'',
      ''Query.me'', ''Query.qrRecord'', ''Query.tag'', ''Query.tagsCategories'',
      ''Query.tea'', ''Query.teaOfTheDay'', ''Query.teas'', ''Session.expiredAt'',
      ''Session.token'', ''Subscription.onAddTagToTea'', ''Subscription.onCreateTag'', ''Subscription.onCreateTagCategory'',
      ''Subscription.onCreateTea'', ''Subscription.onDeleteTag'', ''Subscription.onDeleteTagCategory'', ''Subscription.onDeleteTagFromTea'',
      ''Subscription.onDeleteTea'', ''Subscription.onUpdateTag'', ''Subscription.onUpdateTagCategory'', ''Subscription.onUpdateTea'',
      ''Subscription.recommendTea'', ''Subscription.startGenerateDescription'', ''Tag.category'', ''Tag.color'',
      ''Tag.id'', ''Tag.name'', ''TagCategory.id'', ''TagCategory.name'',
      ''TagCategory.tags'', ''Tea.description'', ''Tea.id'', ''Tea.name'',
      ''Tea.tags'', ''Tea.type'', ''TeaOfTheDay.date'', ''TeaOfTheDay.tea'',
      ''User.collections'', ''User.notifications'', ''User.tokenExpiredAt'']"
  by code_simp

lemma key_case:
  assumes "(if key = k then Some v else other) = Some y" and "schema_key k"
    and "other = Some y \<Longrightarrow> schema_key key"
  shows "schema_key key"
  using assms by (simp split: if_splits)

lemmas known_keys = schema_keys [unfolded list.pred_inject]

lemma keys_of_schema:
  "Complexity_Collection c child key = Some y \<Longrightarrow> schema_key key"
  "Complexity_Notification n child key = Some y \<Longrightarrow> schema_key key"
  "Complexity_QRRecord q child key = Some y \<Longrightarrow> schema_key key"
  "Complexity_Session s child key = Some y \<Longrightarrow> schema_key key"
  "Complexity_Tag t child key = Some y \<Longrightarrow> schema_key key"
  "Complexity_Tea e child key = Some y \<Longrightarrow> schema_key key"
  "Complexity_TeaOfTheDay d child key = Some y \<Longrightarrow> schema_key key"
  "Complexity_User u child key = Some y \<Longrightarrow> schema_key key"
  "Complexity_TagCategory lb raw g child key = Some y \<Longrightarrow> schema_key key"
  "Complexity_Query lb raw h child key = Some y \<Longrightarrow> schema_key key"
  "Complexity_Subscription lb raw j child key = Some y \<Longrightarrow> schema_key key"
  "Complexity_Mutation lb raw m child key = Some y \<Longrightarrow> schema_key key"
  unfolding complexity_defs
  by (((erule key_case, simp only: known_keys)+, simp)+)

lemma complexity_only_of_schema:
  assumes "Complexity lb r typeName field child raw = Some (cost, True)"
  shows "field_type typeName field \<noteq> None"
proof -
  let ?key = "typeName @ ''.'' @ field"
  from assms have "schema_key ?key"
    unfolding Complexity_def Let_def or_switch_def
    by (auto split: option.splits dest: keys_of_schema)
  then show ?thesis
    using key_parts [of typeName field ?key] by (simp add: schema_key_def)
qed

end
