(* ===== verification/Sqlc_Queries.thy ===== *)
theory Sqlc_Queries
  imports Pgstore_Integrity
begin

text \<open>
  The second query package, \<open>db/pkg/pgstore\<close>: what sqlc generates from \<open>db/queries\<close> and
  \<open>db/schema.sql\<close> for the pgx driver. No code imports it: the program
  uses \<open>pkg/pgstore\<close>. Here the schema is written as data, a table with its checks, unique columns and
  references, and one interpreter executes the statements over it; the queries are then the SQL
  text, clause by clause, with the Go code that scans the rows. The main result: on a consistent
  database every query does exactly what its counterpart of \<open>pkg/pgstore\<close> (theory \<open>Pgstore\<close>)
  does, with the same answer, the same error and the same new state.
\<close>

section \<open>The schema as data\<close>

text \<open>
  \<open>tb_same\<close> lists the unique constraints, each as the relation of the rows that collide;
  \<open>tb_refs\<close> holds if the foreign keys of a row refer to rows.
\<close>

record 'r table =
  tb_rows :: "pgdb \<Rightarrow> 'r list"
  tb_put :: "'r list \<Rightarrow> pgdb \<Rightarrow> pgdb"
  tb_check :: "'r \<Rightarrow> bool"
  tb_same :: "pg_env \<Rightarrow> ('r \<Rightarrow> 'r \<Rightarrow> bool) list"
  tb_refs :: "pgdb \<Rightarrow> 'r \<Rightarrow> bool"

definition on_column :: "('r \<Rightarrow> 'k) \<Rightarrow> 'r \<Rightarrow> 'r \<Rightarrow> bool" where
  "on_column k r s \<longleftrightarrow> k r = k s"

definition users_table :: "user_row table" where
  "users_table =
     \<lparr>tb_rows = db_users, tb_put = (\<lambda>rs d. d\<lparr>db_users := rs\<rparr>), tb_check = (\<lambda>r. True),
      tb_same = (\<lambda>env. [on_column u_id, on_column u_apple]), tb_refs = (\<lambda>d r. True)\<rparr>"

definition teas_table :: "tea_row table" where
  "teas_table =
     \<lparr>tb_rows = db_teas, tb_put = (\<lambda>rs d. d\<lparr>db_teas := rs\<rparr>),
      tb_check = (\<lambda>r. t_type r \<in> {''tea'', ''herb'', ''coffee'', ''other''}),
      tb_same = (\<lambda>env. [on_column t_id]), tb_refs = (\<lambda>d r. True)\<rparr>"

definition tag_categories_table :: "cat_row table" where
  "tag_categories_table =
     \<lparr>tb_rows = db_cats, tb_put = (\<lambda>rs d. d\<lparr>db_cats := rs\<rparr>), tb_check = (\<lambda>r. True),
      tb_same = (\<lambda>env. [on_column c_id, on_column c_name]), tb_refs = (\<lambda>d r. True)\<rparr>"

definition tags_table :: "tag_row table" where
  "tags_table =
     \<lparr>tb_rows = db_tags, tb_put = (\<lambda>rs d. d\<lparr>db_tags := rs\<rparr>), tb_check = (\<lambda>r. True),
      tb_same = (\<lambda>env. [on_column g_id, on_column (\<lambda>r. (g_cat r, env_lower env (g_name r)))]),
      tb_refs = (\<lambda>d r. g_cat r \<in> c_id ` set (db_cats d))\<rparr>"

definition tea_tags_table :: "(uuid \<times> uuid) table" where
  "tea_tags_table =
     \<lparr>tb_rows = db_tea_tags, tb_put = (\<lambda>rs d. d\<lparr>db_tea_tags := rs\<rparr>), tb_check = (\<lambda>r. True),
      tb_same = (\<lambda>env. [on_column id]),
      tb_refs = (\<lambda>d r. fst r \<in> t_id ` set (db_teas d) \<and> snd r \<in> g_id ` set (db_tags d))\<rparr>"

definition qr_records_table :: "qr_row table" where
  "qr_records_table =
     \<lparr>tb_rows = db_qrs, tb_put = (\<lambda>rs d. d\<lparr>db_qrs := rs\<rparr>), tb_check = (\<lambda>r. True),
      tb_same = (\<lambda>env. [on_column r_id]), tb_refs = (\<lambda>d r. r_tea r \<in> t_id ` set (db_teas d))\<rparr>"

definition collections_table :: "coll_row table" where
  "collections_table =
     \<lparr>tb_rows = db_colls, tb_put = (\<lambda>rs d. d\<lparr>db_colls := rs\<rparr>), tb_check = (\<lambda>r. True),
      tb_same = (\<lambda>env. [on_column k_id]), tb_refs = (\<lambda>d r. k_user r \<in> u_id ` set (db_users d))\<rparr>"

definition collection_qr_items_table :: "(uuid \<times> uuid) table" where
  "collection_qr_items_table =
     \<lparr>tb_rows = db_items, tb_put = (\<lambda>rs d. d\<lparr>db_items := rs\<rparr>), tb_check = (\<lambda>r. True),
      tb_same = (\<lambda>env. [on_column id]),
      tb_refs = (\<lambda>d r. fst r \<in> k_id ` set (db_colls d) \<and> snd r \<in> r_id ` set (db_qrs d))\<rparr>"

definition devices_table :: "device_row table" where
  "devices_table =
     \<lparr>tb_rows = db_devices, tb_put = (\<lambda>rs d. d\<lparr>db_devices := rs\<rparr>), tb_check = (\<lambda>r. True),
      tb_same = (\<lambda>env. [on_column d_id, on_column d_token]),
      tb_refs = (\<lambda>d r. d_user r \<in> u_id ` set (db_users d))\<rparr>"

definition consumptions_table :: "cons_row table" where
  "consumptions_table =
     \<lparr>tb_rows = db_cons, tb_put = (\<lambda>rs d. d\<lparr>db_cons := rs\<rparr>), tb_check = (\<lambda>r. True),
      tb_same = (\<lambda>env. [on_column id]),
      tb_refs = (\<lambda>d r. s_user r \<in> u_id ` set (db_users d) \<and> s_tea r \<in> t_id ` set (db_teas d))\<rparr>"

lemmas table_defs =
  users_table_def teas_table_def tag_categories_table_def tags_table_def tea_tags_table_def
  qr_records_table_def collections_table_def collection_qr_items_table_def devices_table_def
  consumptions_table_def

lemma on_column_eq: "on_column k r = (\<lambda>s. k s = k r)"
  by (auto simp: on_column_def)

text \<open>
  \<open>ON DELETE CASCADE\<close>: after rows are gone, the rows that refer to them go too, parents before
  children. \<open>ON DELETE RESTRICT\<close>: the category of a tag cannot go.
\<close>

definition cascade :: "pgdb \<Rightarrow> pgdb" where
  "cascade d =
     (let users = u_id ` set (db_users d); teas = t_id ` set (db_teas d); tags = g_id ` set (db_tags d);
          colls = filter (\<lambda>r. k_user r \<in> users) (db_colls d);
          qrs = filter (\<lambda>r. r_tea r \<in> teas) (db_qrs d)
      in d\<lparr>db_tea_tags := filter (\<lambda>p. fst p \<in> teas \<and> snd p \<in> tags) (db_tea_tags d),
           db_qrs := qrs,
           db_colls := colls,
           db_items := filter (\<lambda>p. fst p \<in> k_id ` set colls \<and> snd p \<in> r_id ` set qrs) (db_items d),
           db_devices := filter (\<lambda>r. d_user r \<in> users) (db_devices d),
           db_notifs := filter (\<lambda>r. n_user r \<in> users) (db_notifs d),
           db_cons := filter (\<lambda>r. s_user r \<in> users \<and> s_tea r \<in> teas) (db_cons d)\<rparr>)"

definition restricted :: "pgdb \<Rightarrow> bool" where
  "restricted d \<longleftrightarrow> (\<exists>r \<in> set (db_tags d). g_cat r \<notin> c_id ` set (db_cats d))"

section \<open>Statements\<close>

text \<open>The first constraint a row breaks, beside the other rows of its table.\<close>

definition broken :: "pg_env \<Rightarrow> 'r table \<Rightarrow> pgdb \<Rightarrow> 'r list \<Rightarrow> 'r \<Rightarrow> sqlstate option" where
  "broken env tb d others r =
     (if \<not> tb_check tb r then Some CheckViolation
      else if \<exists>same \<in> set (tb_same tb env). \<exists>s \<in> set others. same r s then Some UniqueViolation
      else if \<not> tb_refs tb d r then Some ForeignKeyViolation
      else None)"

text \<open>\<open>INSERT ... VALUES ... RETURNING\<close>.\<close>

definition insert_row :: "pg_env \<Rightarrow> 'r table \<Rightarrow> (pgdb \<Rightarrow> 'r) \<Rightarrow> 'r query" where
  "insert_row env tb row = stmt env (\<lambda>d.
     let r = row d; rs = tb_rows tb d
     in case broken env tb d rs r of
          Some c \<Rightarrow> sql_error c d
        | None \<Rightarrow> (Inr r, tb_put tb (rs @ [r]) d))"

text \<open>
  \<open>INSERT ... ON CONFLICT (columns) DO UPDATE SET ... RETURNING\<close> and \<open>DO NOTHING\<close>. The columns
  are given by the relation of the rows that collide on them; a conflict elsewhere is an error.
\<close>

definition upsert_row :: "pg_env \<Rightarrow> 'r table \<Rightarrow> ('r \<Rightarrow> 'r \<Rightarrow> bool) \<Rightarrow> (pgdb \<Rightarrow> 'r) \<Rightarrow> ('r \<Rightarrow> 'r \<Rightarrow> 'r) \<Rightarrow> 'r query" where
  "upsert_row env tb conflict row excluded = stmt env (\<lambda>d.
     let r = row d; rs = tb_rows tb d
     in case find (conflict r) rs of
          Some s \<Rightarrow>
            let t = excluded r s
            in (case broken env tb d (filter (\<lambda>s. \<not> conflict r s) rs) t of
                  Some c \<Rightarrow> sql_error c d
                | None \<Rightarrow> (Inr t, tb_put tb (map (\<lambda>s. if conflict r s then excluded r s else s) rs) d))
        | None \<Rightarrow>
            (case broken env tb d rs r of
               Some c \<Rightarrow> sql_error c d
             | None \<Rightarrow> (Inr r, tb_put tb (rs @ [r]) d)))"

definition insert_or_nothing :: "pg_env \<Rightarrow> 'r table \<Rightarrow> ('r \<Rightarrow> 'r \<Rightarrow> bool) \<Rightarrow> (pgdb \<Rightarrow> 'r) \<Rightarrow> unit query" where
  "insert_or_nothing env tb conflict row = stmt env (\<lambda>d.
     let r = row d; rs = tb_rows tb d
     in if \<exists>s \<in> set rs. conflict r s then (Inr (), d)
        else (case broken env tb d rs r of
                Some c \<Rightarrow> sql_error c d
              | None \<Rightarrow> (Inr (), tb_put tb (rs @ [r]) d)))"

text \<open>\<open>UPDATE ... SET ... WHERE\<close> of at most one row: the changed row, if there is one.\<close>

definition update_row :: "pg_env \<Rightarrow> 'r table \<Rightarrow> ('r \<Rightarrow> bool) \<Rightarrow> ('r \<Rightarrow> 'r) \<Rightarrow> 'r option query" where
  "update_row env tb p f = stmt env (\<lambda>d.
     let rs = tb_rows tb d
     in case find p rs of
          None \<Rightarrow> (Inr None, d)
        | Some r \<Rightarrow>
            (case broken env tb d (filter (\<lambda>s. \<not> p s) rs) (f r) of
               Some c \<Rightarrow> sql_error c d
             | None \<Rightarrow> (Inr (Some (f r)), tb_put tb (map (\<lambda>s. if p s then f s else s) rs) d)))"

text \<open>\<open>DELETE FROM ... WHERE\<close>, with what the foreign keys of other tables do.\<close>

definition delete_rows :: "pg_env \<Rightarrow> 'r table \<Rightarrow> ('r \<Rightarrow> bool) \<Rightarrow> unit query" where
  "delete_rows env tb p = stmt env (\<lambda>d.
     let d' = tb_put tb (filter (\<lambda>r. \<not> p r) (tb_rows tb d)) d
     in if restricted d' then sql_error ForeignKeyViolation d else (Inr (), cascade d'))"


section \<open>Rows in Go\<close>

text \<open>
  \<open>pgtype.Text\<close>: a null text is not valid. \<open>sq_cut\<close> tells after how many rows the connection is
  lost while the rows of a statement are read, if it is.
\<close>

record pg_Text =
  txt_String :: string
  txt_Valid :: bool

record sqlc_env =
  sq_pg :: pg_env
  sq_cut :: "nat \<Rightarrow> nat option"

record sq_Tea =
  sqt_ID :: uuid
  sqt_Name :: string
  sqt_Type :: string
  sqt_Description :: pg_Text
  sqt_CreatedAt :: time

definition text_of :: "string option \<Rightarrow> pg_Text" where
  "text_of s = (case s of None \<Rightarrow> \<lparr>txt_String = '''', txt_Valid = False\<rparr> | Some t \<Rightarrow> \<lparr>txt_String = t, txt_Valid = True\<rparr>)"

definition text_value :: "pg_Text \<Rightarrow> string option" where
  "text_value t = (if txt_Valid t then Some (txt_String t) else None)"

definition scan_tea :: "tea_row \<Rightarrow> sq_Tea" where
  "scan_tea r =
     \<lparr>sqt_ID = t_id r, sqt_Name = t_name r, sqt_Type = t_type r, sqt_Description = text_of (t_desc r),
      sqt_CreatedAt = t_created r\<rparr>"

text \<open>
  The loop \<open>for rows.Next()\<close> of a \<open>:many\<close> query, with \<open>rows.Err()\<close> after it: all rows, or the
  error and no list.
\<close>

fun scan_rows :: "('r \<Rightarrow> 'a) \<Rightarrow> 'r list \<Rightarrow> gerr option \<Rightarrow> 'a list \<Rightarrow> gerr + 'a list" where
  "scan_rows scan [] err items = (case err of Some e \<Rightarrow> Inl e | None \<Rightarrow> Inr items)"
| "scan_rows scan (r # rs) err items = scan_rows scan rs err (items @ [scan r])"

definition query_many :: "sqlc_env \<Rightarrow> (pgdb \<Rightarrow> 'r list) \<Rightarrow> ('r \<Rightarrow> 'a) \<Rightarrow> 'a list query" where
  "query_many se f scan d =
     stmt (sq_pg se) (\<lambda>d'.
       (case sq_cut se (db_stmts d) of
          None \<Rightarrow> scan_rows scan (f d') None []
        | Some k \<Rightarrow> scan_rows scan (take k (f d')) (Some (DbErr ConnFault)) [], d')) d"

text \<open>\<open>QueryRow(...).Scan\<close> of a query that may have no row.\<close>

definition query_row :: "sqlc_env \<Rightarrow> (pgdb \<Rightarrow> 'r option) \<Rightarrow> ('r \<Rightarrow> 'a) \<Rightarrow> 'a query" where
  "query_row se f scan =
     stmt (sq_pg se) (\<lambda>d. case f d of None \<Rightarrow> no_rows d | Some r \<Rightarrow> (Inr (scan r), d))"

definition one_row :: "('r \<Rightarrow> 'a) \<Rightarrow> 'r option query \<Rightarrow> 'a query" where
  "one_row scan q = bindE q (\<lambda>r. case r of None \<Rightarrow> no_rows | Some r \<Rightarrow> returnE (scan r))"

text \<open>\<open>ORDER BY c ASC\<close>, \<open>DESC\<close> and \<open>WHERE lower(name) LIKE lower($1) || '%'\<close>.\<close>

definition by_name :: "sqlc_env \<Rightarrow> ('r \<Rightarrow> string) \<Rightarrow> 'r list \<Rightarrow> 'r list" where
  "by_name se c = sort_key (\<lambda>r. env_collkey (sq_pg se) (c r))"

definition newest_first :: "('r \<Rightarrow> time) \<Rightarrow> 'r list \<Rightarrow> 'r list" where
  "newest_first c = sort_key (\<lambda>r. - c r)"

definition lower_like :: "sqlc_env \<Rightarrow> string \<Rightarrow> string \<Rightarrow> bool" where
  "lower_like se name arg = like (env_lower (sq_pg se) arg @ ''%'') (env_lower (sq_pg se) name)"

section \<open>teas.sql\<close>

record InsertTeaParams =
  itp_ID :: uuid
  itp_Name :: string
  itp_Type :: string
  itp_Description :: pg_Text

definition sq_InsertTea :: "sqlc_env \<Rightarrow> InsertTeaParams \<Rightarrow> sq_Tea query" where
  "sq_InsertTea se arg =
     mapE scan_tea (insert_row (sq_pg se) teas_table (\<lambda>d.
       \<lparr>t_id = itp_ID arg, t_name = itp_Name arg, t_type = itp_Type arg,
        t_desc = text_value (itp_Description arg), t_created = db_clock d\<rparr>))"

definition sq_UpdateTea :: "sqlc_env \<Rightarrow> InsertTeaParams \<Rightarrow> sq_Tea query" where
  "sq_UpdateTea se arg =
     one_row scan_tea (update_row (sq_pg se) teas_table (\<lambda>r. t_id r = itp_ID arg)
       (\<lambda>r. r\<lparr>t_name := itp_Name arg, t_type := itp_Type arg, t_desc := text_value (itp_Description arg)\<rparr>))"

definition sq_DeleteTea :: "sqlc_env \<Rightarrow> uuid \<Rightarrow> unit query" where
  "sq_DeleteTea se i = delete_rows (sq_pg se) teas_table (\<lambda>r. t_id r = i)"

definition sq_GetTea :: "sqlc_env \<Rightarrow> uuid \<Rightarrow> sq_Tea query" where
  "sq_GetTea se i = query_row se (\<lambda>d. find (\<lambda>r. t_id r = i) (db_teas d)) scan_tea"

definition sq_ListTeas :: "sqlc_env \<Rightarrow> sq_Tea list query" where
  "sq_ListTeas se = query_many se (\<lambda>d. newest_first t_created (db_teas d)) scan_tea"

definition sq_SearchTeasByPrefix :: "sqlc_env \<Rightarrow> string \<Rightarrow> nat \<Rightarrow> sq_Tea list query" where
  "sq_SearchTeasByPrefix se arg limit =
     query_many se (\<lambda>d. take limit (by_name se t_name (filter (\<lambda>r. lower_like se (t_name r) arg) (db_teas d)))) scan_tea"

section \<open>tags.sql\<close>

definition sq_InsertTagCategory :: "sqlc_env \<Rightarrow> uuid \<Rightarrow> string \<Rightarrow> cat_row query" where
  "sq_InsertTagCategory se i name =
     insert_row (sq_pg se) tag_categories_table (\<lambda>d. \<lparr>c_id = i, c_name = name\<rparr>)"

definition sq_UpdateTagCategory :: "sqlc_env \<Rightarrow> uuid \<Rightarrow> string \<Rightarrow> cat_row query" where
  "sq_UpdateTagCategory se i name =
     one_row id (update_row (sq_pg se) tag_categories_table (\<lambda>r. c_id r = i) (\<lambda>r. r\<lparr>c_name := name\<rparr>))"

definition sq_DeleteTagCategory :: "sqlc_env \<Rightarrow> uuid \<Rightarrow> unit query" where
  "sq_DeleteTagCategory se i = delete_rows (sq_pg se) tag_categories_table (\<lambda>r. c_id r = i)"

definition sq_GetTagCategory :: "sqlc_env \<Rightarrow> uuid \<Rightarrow> cat_row query" where
  "sq_GetTagCategory se i = query_row se (\<lambda>d. find (\<lambda>r. c_id r = i) (db_cats d)) id"

definition sq_ListTagCategories :: "sqlc_env \<Rightarrow> cat_row list query" where
  "sq_ListTagCategories se = query_many se (\<lambda>d. by_name se c_name (db_cats d)) id"

definition sq_SearchTagCategories :: "sqlc_env \<Rightarrow> string \<Rightarrow> cat_row list query" where
  "sq_SearchTagCategories se arg =
     query_many se (\<lambda>d. by_name se c_name (filter (\<lambda>r. lower_like se (c_name r) arg) (db_cats d))) id"

definition sq_InsertTag :: "sqlc_env \<Rightarrow> tag_row \<Rightarrow> tag_row query" where
  "sq_InsertTag se arg = insert_row (sq_pg se) tags_table (\<lambda>d. arg)"

definition sq_UpdateTag :: "sqlc_env \<Rightarrow> uuid \<Rightarrow> string \<Rightarrow> string \<Rightarrow> tag_row query" where
  "sq_UpdateTag se i name color =
     one_row id (update_row (sq_pg se) tags_table (\<lambda>r. g_id r = i) (\<lambda>r. r\<lparr>g_name := name, g_color := color\<rparr>))"

definition sq_ChangeTagCategory :: "sqlc_env \<Rightarrow> uuid \<Rightarrow> uuid \<Rightarrow> tag_row query" where
  "sq_ChangeTagCategory se i cat =
     one_row id (update_row (sq_pg se) tags_table (\<lambda>r. g_id r = i) (\<lambda>r. r\<lparr>g_cat := cat\<rparr>))"

definition sq_DeleteTag :: "sqlc_env \<Rightarrow> uuid \<Rightarrow> unit query" where
  "sq_DeleteTag se i = delete_rows (sq_pg se) tags_table (\<lambda>r. g_id r = i)"

definition sq_DeleteTagsByCategory :: "sqlc_env \<Rightarrow> uuid \<Rightarrow> unit query" where
  "sq_DeleteTagsByCategory se cat = delete_rows (sq_pg se) tags_table (\<lambda>r. g_cat r = cat)"

definition sq_GetTag :: "sqlc_env \<Rightarrow> uuid \<Rightarrow> tag_row query" where
  "sq_GetTag se i = query_row se (\<lambda>d. find (\<lambda>r. g_id r = i) (db_tags d)) id"

definition sq_ListTags :: "sqlc_env \<Rightarrow> tag_row list query" where
  "sq_ListTags se = query_many se (\<lambda>d. by_name se g_name (db_tags d)) id"

definition sq_ListTagsByCategory :: "sqlc_env \<Rightarrow> uuid \<Rightarrow> tag_row list query" where
  "sq_ListTagsByCategory se cat =
     query_many se (\<lambda>d. by_name se g_name (filter (\<lambda>r. g_cat r = cat) (db_tags d))) id"

definition sq_ListTagsByCategoryFilter :: "sqlc_env \<Rightarrow> uuid \<Rightarrow> tag_row list query" where
  "sq_ListTagsByCategoryFilter se cat =
     query_many se (\<lambda>d. by_name se g_name (filter (\<lambda>r. g_cat r = cat) (db_tags d))) id"

definition sq_ListTagsByName :: "sqlc_env \<Rightarrow> string \<Rightarrow> tag_row list query" where
  "sq_ListTagsByName se arg =
     query_many se (\<lambda>d. by_name se g_name (filter (\<lambda>r. lower_like se (g_name r) arg) (db_tags d))) id"

definition sq_ListTagsByNameCategory :: "sqlc_env \<Rightarrow> string \<Rightarrow> uuid \<Rightarrow> tag_row list query" where
  "sq_ListTagsByNameCategory se arg cat =
     query_many se (\<lambda>d. by_name se g_name (filter (\<lambda>r. lower_like se (g_name r) arg \<and> g_cat r = cat) (db_tags d))) id"

definition sq_AddTagToTea :: "sqlc_env \<Rightarrow> uuid \<Rightarrow> uuid \<Rightarrow> unit query" where
  "sq_AddTagToTea se tea tg = insert_or_nothing (sq_pg se) tea_tags_table (on_column id) (\<lambda>d. (tea, tg))"

definition sq_DeleteTagFromTea :: "sqlc_env \<Rightarrow> uuid \<Rightarrow> uuid \<Rightarrow> unit query" where
  "sq_DeleteTagFromTea se tea tg = delete_rows (sq_pg se) tea_tags_table (\<lambda>p. fst p = tea \<and> snd p = tg)"

definition sq_ListTagsByTea :: "sqlc_env \<Rightarrow> uuid \<Rightarrow> tag_row list query" where
  "sq_ListTagsByTea se tea =
     query_many se (\<lambda>d. by_name se g_name
       (concat (map (\<lambda>tt. filter (\<lambda>t. g_id t = snd tt) (db_tags d))
         (filter (\<lambda>tt. fst tt = tea) (db_tea_tags d))))) id"


section \<open>qr.sql\<close>

definition sq_UpsertQR :: "sqlc_env \<Rightarrow> uuid \<Rightarrow> uuid \<Rightarrow> 32 word \<Rightarrow> time \<Rightarrow> unit query" where
  "sq_UpsertQR se i tea temp ex =
     mapE (\<lambda>_. ()) (upsert_row (sq_pg se) qr_records_table (on_column r_id)
       (\<lambda>d. \<lparr>r_id = i, r_tea = tea, r_temp = temp, r_exp = env_round (sq_pg se) ex, r_created = db_clock d\<rparr>)
       (\<lambda>excluded r. r\<lparr>r_tea := r_tea excluded, r_temp := r_temp excluded, r_exp := r_exp excluded\<rparr>))"

definition sq_GetQR :: "sqlc_env \<Rightarrow> uuid \<Rightarrow> qr_row query" where
  "sq_GetQR se i = query_row se (\<lambda>d. find (\<lambda>r. r_id r = i) (db_qrs d)) id"

section \<open>collections.sql\<close>

record ListCollectionRecordsRow =
  lcr_QrID :: uuid
  lcr_TeaID :: uuid
  lcr_Name :: string
  lcr_Type :: string
  lcr_Description :: pg_Text
  lcr_BoilingTemp :: "32 word"
  lcr_ExpirationDate :: time

definition scan_record :: "qr_row \<times> tea_row \<Rightarrow> ListCollectionRecordsRow" where
  "scan_record p = (case p of (q, t) \<Rightarrow>
     \<lparr>lcr_QrID = r_id q, lcr_TeaID = t_id t, lcr_Name = t_name t, lcr_Type = t_type t,
      lcr_Description = text_of (t_desc t), lcr_BoilingTemp = r_temp q, lcr_ExpirationDate = r_exp q\<rparr>)"

definition sq_InsertCollection :: "sqlc_env \<Rightarrow> uuid \<Rightarrow> uuid \<Rightarrow> string \<Rightarrow> coll_row query" where
  "sq_InsertCollection se i user name =
     insert_row (sq_pg se) collections_table
       (\<lambda>d. \<lparr>k_id = i, k_user = user, k_name = name, k_created = db_clock d\<rparr>)"

definition sq_InsertCollectionItem :: "sqlc_env \<Rightarrow> uuid \<Rightarrow> uuid \<Rightarrow> unit query" where
  "sq_InsertCollectionItem se col qr =
     insert_or_nothing (sq_pg se) collection_qr_items_table (on_column id) (\<lambda>d. (col, qr))"

definition sq_DeleteCollectionItem :: "sqlc_env \<Rightarrow> uuid \<Rightarrow> uuid \<Rightarrow> unit query" where
  "sq_DeleteCollectionItem se col qr =
     delete_rows (sq_pg se) collection_qr_items_table (\<lambda>p. fst p = col \<and> snd p = qr)"

definition sq_DeleteCollection :: "sqlc_env \<Rightarrow> uuid \<Rightarrow> uuid \<Rightarrow> unit query" where
  "sq_DeleteCollection se i user =
     delete_rows (sq_pg se) collections_table (\<lambda>r. k_id r = i \<and> k_user r = user)"

definition sq_GetCollection :: "sqlc_env \<Rightarrow> uuid \<Rightarrow> uuid \<Rightarrow> coll_row query" where
  "sq_GetCollection se i user =
     query_row se (\<lambda>d. find (\<lambda>r. k_id r = i \<and> k_user r = user) (db_colls d)) id"

definition sq_ListCollections :: "sqlc_env \<Rightarrow> uuid \<Rightarrow> coll_row list query" where
  "sq_ListCollections se user =
     query_many se (\<lambda>d. newest_first k_created (filter (\<lambda>r. k_user r = user) (db_colls d))) id"

definition sq_ListCollectionRecords :: "sqlc_env \<Rightarrow> uuid \<Rightarrow> ListCollectionRecordsRow list query" where
  "sq_ListCollectionRecords se col =
     query_many se (\<lambda>d. sort_key (\<lambda>(q, t). r_exp q)
       (concat (map (\<lambda>c. concat (map (\<lambda>q. map (Pair q) (filter (\<lambda>t. t_id t = r_tea q) (db_teas d)))
                               (filter (\<lambda>q. r_id q = snd c) (db_qrs d))))
         (filter (\<lambda>c. fst c = col) (db_items d))))) scan_record"

section \<open>devices.sql, notifications.sql, users.sql, consumptions.sql\<close>

definition sq_InsertDevice :: "sqlc_env \<Rightarrow> uuid \<Rightarrow> uuid \<Rightarrow> string \<Rightarrow> unit query" where
  "sq_InsertDevice se i user token =
     insert_or_nothing (sq_pg se) devices_table (on_column d_id)
       (\<lambda>d. \<lparr>d_id = i, d_user = user, d_token = token, d_created = db_clock d\<rparr>)"

definition sq_UpdateDeviceToken :: "sqlc_env \<Rightarrow> uuid \<Rightarrow> string \<Rightarrow> unit query" where
  "sq_UpdateDeviceToken se i token =
     mapE (\<lambda>_. ()) (update_row (sq_pg se) devices_table (\<lambda>r. d_id r = i) (\<lambda>r. r\<lparr>d_token := token\<rparr>))"

definition sq_ListDeviceTokens :: "sqlc_env \<Rightarrow> uuid \<Rightarrow> string list query" where
  "sq_ListDeviceTokens se user =
     query_many se (\<lambda>d. newest_first d_created (filter (\<lambda>r. d_user r = user) (db_devices d))) d_token"

definition sq_ListNotifications :: "sqlc_env \<Rightarrow> uuid \<Rightarrow> notif_row list query" where
  "sq_ListNotifications se user =
     query_many se (\<lambda>d. newest_first n_created (filter (\<lambda>r. n_user r = user) (db_notifs d))) id"

definition sq_UpsertUser :: "sqlc_env \<Rightarrow> uuid \<Rightarrow> string \<Rightarrow> user_row query" where
  "sq_UpsertUser se i apple =
     upsert_row (sq_pg se) users_table (on_column u_apple)
       (\<lambda>d. \<lparr>u_id = i, u_apple = apple, u_created = db_clock d\<rparr>)
       (\<lambda>excluded r. r\<lparr>u_apple := u_apple excluded\<rparr>)"

definition sq_ListUsers :: "sqlc_env \<Rightarrow> user_row list query" where
  "sq_ListUsers se = query_many se (\<lambda>d. newest_first u_created (db_users d)) id"

definition sq_InsertConsumption :: "sqlc_env \<Rightarrow> uuid \<Rightarrow> time \<Rightarrow> uuid \<Rightarrow> unit query" where
  "sq_InsertConsumption se user ts tea =
     insert_or_nothing (sq_pg se) consumptions_table (on_column id)
       (\<lambda>d. \<lparr>s_user = user, s_ts = env_round (sq_pg se) ts, s_tea = tea\<rparr>)"

definition sq_DeleteConsumptionsBefore :: "sqlc_env \<Rightarrow> uuid \<Rightarrow> time \<Rightarrow> unit query" where
  "sq_DeleteConsumptionsBefore se user ts =
     delete_rows (sq_pg se) consumptions_table
       (\<lambda>r. s_user r = user \<and> s_ts r < env_round (sq_pg se) ts)"

text \<open>The columns of \<open>ListConsumptionsSinceRow\<close>: the time and the tea.\<close>

definition sq_ListConsumptionsSince :: "sqlc_env \<Rightarrow> uuid \<Rightarrow> time \<Rightarrow> (time \<times> uuid) list query" where
  "sq_ListConsumptionsSince se user ts =
     query_many se (\<lambda>d. newest_first s_ts
       (filter (\<lambda>r. s_user r = user \<and> env_round (sq_pg se) ts \<le> s_ts r) (db_cons d)))
       (\<lambda>r. (s_ts r, s_tea r))"

section \<open>The two packages agree\<close>

text \<open>A body of a statement matters only on consistent databases.\<close>

lemma stmt_cong:
  assumes "db_ok env d" and "\<And>d. db_ok env d \<Longrightarrow> body d = body' d"
  shows "stmt env body d = stmt env body' d"
  using assms by (simp add: stmt_def Let_def)

lemma mapE_stmt: "mapE f (stmt env body) = stmt env (mapE f body)"
  by (rule ext) (simp add: mapE_def stmt_def Let_def)

lemma one_row_stmt: "one_row f (stmt env body) = stmt env (one_row f body)"
  by (rule ext) (simp add: one_row_def bindE_def stmt_def Let_def)

lemma scan_rows_all [simp]: "scan_rows scan rs None items = Inr (items @ map scan rs)"
  by (induction rs arbitrary: items) simp_all

lemma scan_rows_cut [simp]: "scan_rows scan rs (Some e) items = Inl e"
  by (induction rs arbitrary: items) simp_all

text \<open>A list is never partial: a connection lost while it is read is an error.\<close>

lemma query_many_cut:
  "sq_cut se (db_stmts d) = Some k \<Longrightarrow> fst (query_many se f scan d) = Inl (DbErr ConnFault)"
  by (simp add: query_many_def stmt_def Let_def)

definition uncut :: "sqlc_env \<Rightarrow> bool" where
  "uncut se \<longleftrightarrow> (\<forall>n. sq_cut se n = None)"

lemma query_many_uncut:
  "uncut se \<Longrightarrow> query_many se f scan = mapE (map scan) (stmt (sq_pg se) (select_rows f))"
  by (rule ext) (simp add: query_many_def uncut_def mapE_stmt select_rows_def mapE_def stmt_def Let_def)

lemma query_row_mapE: "query_row se f scan = mapE scan (stmt (sq_pg se) (select_one f))"
  by (rule ext) (simp add: query_row_def mapE_stmt select_one_def mapE_def stmt_def Let_def split: option.split)

lemma mapE_id [simp]: "mapE id q = q" "map id = id"
  by (rule ext, simp add: mapE_def split: prod.split sum.split) (rule List.map.id)


named_theorems agree "queries of the two packages that agree"

lemmas sql_defs =
  by_name_def newest_first_def lower_like_def name_like_def

lemma reads_agree [agree]:
  assumes "uncut se"
  shows
  "sq_ListTeas se = mapE (map scan_tea) (q_ListTeas (sq_pg se))"
  "sq_SearchTeasByPrefix se n k = mapE (map scan_tea) (q_SearchTeasByPrefix (sq_pg se) n k)"
  "sq_ListTagCategories se = mapE (id) (q_ListTagCategories (sq_pg se))"
  "sq_SearchTagCategories se n = mapE (id) (q_SearchTagCategories (sq_pg se) n)"
  "sq_ListTags se = mapE (id) (q_ListTags (sq_pg se))"
  "sq_ListTagsByCategory se c = mapE (id) (q_ListTagsByCategory (sq_pg se) c)"
  "sq_ListTagsByCategoryFilter se c = mapE (id) (q_ListTagsByCategoryFilter (sq_pg se) c)"
  "sq_ListTagsByName se n = mapE (id) (q_ListTagsByName (sq_pg se) n)"
  "sq_ListTagsByNameCategory se n c = mapE (id) (q_ListTagsByNameCategory (sq_pg se) n c)"
  "sq_ListTagsByTea se i = mapE (id) (q_ListTagsByTea (sq_pg se) i)"
  "sq_ListCollections se u = mapE (id) (q_ListCollections (sq_pg se) u)"
  "sq_ListCollectionRecords se c = mapE (map scan_record) (q_ListCollectionRecords (sq_pg se) c)"
  "sq_ListNotifications se u = mapE (id) (q_ListNotifications (sq_pg se) u)"
  "sq_ListUsers se = mapE (id) (q_ListUsers (sq_pg se))"
  "sq_ListConsumptionsSince se u t = mapE (map (\<lambda>r. (s_ts r, s_tea r))) (q_ListConsumptionsSince (sq_pg se) u t)"
  "sq_GetTea se i = mapE scan_tea (q_GetTea (sq_pg se) i)"
  "sq_GetTagCategory se i = mapE id (q_GetTagCategory (sq_pg se) i)"
  "sq_GetTag se i = mapE id (q_GetTag (sq_pg se) i)"
  "sq_GetQR se i = mapE id (q_GetQR (sq_pg se) i)"
  "sq_GetCollection se i u = mapE id (q_GetCollection (sq_pg se) i u)"
  unfolding sq_ListTeas_def q_ListTeas_def sq_SearchTeasByPrefix_def q_SearchTeasByPrefix_def
    sq_ListTagCategories_def q_ListTagCategories_def sq_SearchTagCategories_def
    q_SearchTagCategories_def sq_ListTags_def q_ListTags_def sq_ListTagsByCategory_def
    q_ListTagsByCategory_def sq_ListTagsByCategoryFilter_def q_ListTagsByCategoryFilter_def
    sq_ListTagsByName_def q_ListTagsByName_def sq_ListTagsByNameCategory_def
    q_ListTagsByNameCategory_def sq_ListTagsByTea_def q_ListTagsByTea_def sq_ListCollections_def
    q_ListCollections_def sq_ListCollectionRecords_def q_ListCollectionRecords_def
    sq_ListNotifications_def q_ListNotifications_def sq_ListUsers_def q_ListUsers_def
    sq_ListConsumptionsSince_def q_ListConsumptionsSince_def sq_GetTea_def q_GetTea_def
    sq_GetTagCategory_def q_GetTagCategory_def sq_GetTag_def q_GetTag_def sq_GetQR_def q_GetQR_def
    sq_GetCollection_def q_GetCollection_def
  by (simp_all add: query_many_uncut [OF assms] query_row_mapE sql_defs)

lemma device_tokens_agree [agree]:
  "uncut se \<Longrightarrow> sq_ListDeviceTokens se u = q_ListDeviceTokens (sq_pg se) u"
  unfolding sq_ListDeviceTokens_def q_ListDeviceTokens_def
  by (rule ext) (simp add: query_many_uncut mapE_stmt sql_defs select_rows_def mapE_def stmt_def Let_def)

lemmas write_defs =
  insert_row_def update_row_def upsert_row_def insert_or_nothing_def mapE_stmt one_row_stmt

lemmas body_defs = broken_def table_defs mapE_def one_row_def bindE_def Let_def update_where_def

text \<open>Inserts: the constraints of the table are the ones the query of \<open>pkg/pgstore\<close> looks at.\<close>

lemma inserts_agree [agree]:
  assumes "db_ok (sq_pg se) d"
  shows
    "sq_InsertTea se arg d =
       mapE scan_tea (q_InsertTea (sq_pg se)
         \<lparr>tp_ID = itp_ID arg, tp_Name = itp_Name arg, tp_Type = itp_Type arg,
          tp_Description = text_value (itp_Description arg)\<rparr>) d"
    "sq_InsertTagCategory se i n d = q_InsertTagCategory (sq_pg se) i n d"
    "sq_InsertTag se tg d = q_InsertTag (sq_pg se) tg d"
    "sq_InsertCollection se i u n d = q_InsertCollection (sq_pg se) i u n d"
    "sq_AddTagToTea se i j d = q_AddTagToTea (sq_pg se) i j d"
    "sq_InsertCollectionItem se i j d = q_InsertCollectionItem (sq_pg se) i j d"
    "sq_InsertDevice se i u n d = q_InsertDevice (sq_pg se) i u n d"
    "sq_InsertConsumption se u t i d = q_InsertConsumption (sq_pg se) u t i d"
  unfolding sq_InsertTea_def q_InsertTea_def sq_InsertTagCategory_def q_InsertTagCategory_def
    sq_InsertTag_def q_InsertTag_def sq_InsertCollection_def q_InsertCollection_def
    sq_AddTagToTea_def q_AddTagToTea_def sq_InsertCollectionItem_def q_InsertCollectionItem_def
    sq_InsertDevice_def q_InsertDevice_def sq_InsertConsumption_def q_InsertConsumption_def write_defs
  by (rule stmt_cong [OF assms], auto simp: body_defs on_column_def tea_type_check_def tag_key_def image_iff)+


text \<open>Updates: a row changed by its primary key is compared with the others.\<close>

lemma others_of_key:
  "(\<exists>s \<in> set (filter (\<lambda>r. k r \<noteq> i) rs). P s) \<longleftrightarrow> (\<exists>s \<in> set rs. k s \<noteq> i \<and> P s)"
  by auto

lemma find_key: "find (\<lambda>r. k r = i) rs = Some r \<Longrightarrow> k r = i \<and> r \<in> set rs"
  by (auto simp: find_Some_iff)

lemma tag_has_category:
  "db_ok env d \<Longrightarrow> r \<in> set (db_tags d) \<Longrightarrow> g_cat r \<in> c_id ` set (db_cats d)"
  by (simp add: db_ok_defs)

lemma device_has_user:
  "db_ok env d \<Longrightarrow> r \<in> set (db_devices d) \<Longrightarrow> d_user r \<in> u_id ` set (db_users d)"
  by (simp add: db_ok_defs)

lemma one_user:
  "db_ok env d \<Longrightarrow> r \<in> set (db_users d) \<Longrightarrow> s \<in> set (db_users d) \<Longrightarrow> u_id r = u_id s \<Longrightarrow> r = s"
  by (auto simp: db_ok_defs distinct_map dest: inj_onD)

lemma map_unchanged: "\<forall>x. x \<in> set rs \<longrightarrow> k x \<noteq> i \<Longrightarrow> map (\<lambda>s. if k s = i then f s else s) rs = rs"
  by (auto intro: map_idI)

lemma tea_updates_agree [agree]:
  assumes "db_ok (sq_pg se) d"
  shows "sq_UpdateTea se arg d =
    mapE scan_tea (q_UpdateTea (sq_pg se)
      \<lparr>tp_ID = itp_ID arg, tp_Name = itp_Name arg, tp_Type = itp_Type arg,
       tp_Description = text_value (itp_Description arg)\<rparr>) d"
  unfolding sq_UpdateTea_def q_UpdateTea_def write_defs
  by (rule stmt_cong [OF assms])
    (auto simp: body_defs on_column_def tea_type_check_def dest!: find_key split: option.splits)

lemma category_updates_agree [agree]:
  assumes "db_ok (sq_pg se) d"
  shows "sq_UpdateTagCategory se i n d = q_UpdateTagCategory (sq_pg se) i n d"
  unfolding sq_UpdateTagCategory_def q_UpdateTagCategory_def write_defs
  by (rule stmt_cong [OF assms]) (auto simp: body_defs on_column_def dest!: find_key split: option.splits)

lemma tag_updates_agree [agree]:
  assumes "db_ok (sq_pg se) d"
  shows "sq_UpdateTag se i n c d = q_UpdateTag (sq_pg se) i n c d"
    "sq_ChangeTagCategory se i c' d = q_ChangeTagCategory (sq_pg se) i c' d"
  unfolding sq_UpdateTag_def q_UpdateTag_def sq_ChangeTagCategory_def q_ChangeTagCategory_def write_defs
  by (rule stmt_cong [OF assms],
      auto simp: body_defs on_column_eq tag_key_def tag_has_category dest!: find_key split: option.splits)+

lemma device_updates_agree [agree]:
  assumes "db_ok (sq_pg se) d"
  shows "sq_UpdateDeviceToken se i n d = mapE (\<lambda>_. ()) (q_UpdateDeviceToken (sq_pg se) i n) d"
  unfolding sq_UpdateDeviceToken_def q_UpdateDeviceToken_def write_defs
  by (rule stmt_cong [OF assms])
    (auto simp: body_defs on_column_def device_has_user find_None_iff map_unchanged
      dest!: find_key split: option.splits)

lemma record_upserts_agree [agree]:
  assumes "db_ok (sq_pg se) d"
  shows "sq_UpsertQR se i t w e d = q_UpsertQR (sq_pg se) i t w e d"
  unfolding sq_UpsertQR_def q_UpsertQR_def write_defs
  by (rule stmt_cong [OF assms])
    (auto simp: body_defs on_column_eq find_None_iff dest!: find_key split: option.splits)

lemma user_upserts_agree [agree]:
  assumes "db_ok (sq_pg se) d"
  shows "sq_UpsertUser se i n d = q_UpsertUser (sq_pg se) \<lparr>uup_ID = i, uup_AppleID = n\<rparr> d"
  unfolding sq_UpsertUser_def q_UpsertUser_def write_defs
  by (rule stmt_cong [OF assms])
    (auto simp: body_defs on_column_eq find_None_iff dest!: find_key dest: one_user split: option.splits)


text \<open>
  Deletes: on a consistent database the cascade takes exactly the rows that refer to a deleted
  row, level by level.
\<close>

lemma delete_rows_agree:
  assumes "db_ok env d"
    and "\<And>d. db_ok env d \<Longrightarrow>
      body d = (let d' = tb_put tb (filter (\<lambda>r. \<not> p r) (tb_rows tb d)) d
                in if restricted d' then sql_error ForeignKeyViolation d else (Inr (), cascade d'))"
  shows "delete_rows env tb p d = stmt env body d"
  unfolding delete_rows_def by (rule stmt_cong [OF assms(1)]) (simp add: assms(2))

lemma not_restricted: "refs_ok d \<Longrightarrow> \<not> restricted d"
  by (auto simp: refs_ok_def restricted_def)

lemma image_other_rows:
  assumes "distinct (map k rs)" and "x \<in> k ` set rs"
  shows "x \<in> k ` {r \<in> set rs. \<not> P r} \<longleftrightarrow> x \<notin> k ` {r \<in> set rs. P r}"
  using assms by (auto simp: distinct_map dest: inj_onD)

text \<open>The levels of the cascade, each for a database whose references were whole before.\<close>

lemma refs_kept:
  assumes "refs_ok d"
  shows "filter (\<lambda>r. k_user r \<in> u_id ` set (db_users d)) (db_colls d) = db_colls d"
    "filter (\<lambda>r. d_user r \<in> u_id ` set (db_users d)) (db_devices d) = db_devices d"
    "filter (\<lambda>r. n_user r \<in> u_id ` set (db_users d)) (db_notifs d) = db_notifs d"
    "filter (\<lambda>r. r_tea r \<in> t_id ` set (db_teas d)) (db_qrs d) = db_qrs d"
    "filter (\<lambda>r. s_user r \<in> u_id ` set (db_users d) \<and> s_tea r \<in> S) (db_cons d) =
       filter (\<lambda>r. s_tea r \<in> S) (db_cons d)"
    "filter (\<lambda>r. s_tea r \<in> t_id ` set (db_teas d)) (db_cons d) = db_cons d"
    "filter (\<lambda>p. fst p \<in> t_id ` set (db_teas d) \<and> snd p \<in> S) (db_tea_tags d) =
       filter (\<lambda>p. snd p \<in> S) (db_tea_tags d)"
    "filter (\<lambda>p. fst p \<in> S \<and> snd p \<in> g_id ` set (db_tags d)) (db_tea_tags d) =
       filter (\<lambda>p. fst p \<in> S) (db_tea_tags d)"
    "filter (\<lambda>p. snd p \<in> g_id ` set (db_tags d)) (db_tea_tags d) = db_tea_tags d"
    "filter (\<lambda>p. fst p \<in> k_id ` set (db_colls d) \<and> snd p \<in> S) (db_items d) =
       filter (\<lambda>p. snd p \<in> S) (db_items d)"
    "filter (\<lambda>p. fst p \<in> S \<and> snd p \<in> r_id ` set (db_qrs d)) (db_items d) =
       filter (\<lambda>p. fst p \<in> S) (db_items d)"
    "filter (\<lambda>p. fst p \<in> t_id ` set (db_teas d)) (db_tea_tags d) = db_tea_tags d"
    "filter (\<lambda>p. fst p \<in> k_id ` set (db_colls d)) (db_items d) = db_items d"
    "{r \<in> set (db_colls d). k_user r \<in> u_id ` set (db_users d)} = set (db_colls d)"
    "{r \<in> set (db_qrs d). r_tea r \<in> t_id ` set (db_teas d)} = set (db_qrs d)"
    "{r \<in> set (db_qrs d). r_tea r \<in> t_id ` set (db_teas d) \<and> r_tea r \<noteq> i} = {r \<in> set (db_qrs d). r_tea r \<noteq> i}"
    "filter (\<lambda>p. snd p \<in> r_id ` set (db_qrs d)) (db_items d) = db_items d"
  using assms unfolding refs_ok_def by (auto cong: filter_cong)

lemma tea_delete_agrees [agree]:
  assumes "db_ok (sq_pg se) d"
  shows "sq_DeleteTea se i d = q_DeleteTea (sq_pg se) i d"
  unfolding sq_DeleteTea_def q_DeleteTea_def
proof (rule delete_rows_agree [OF assms], goal_cases)
  case (1 d)
  then have refs: "refs_ok d" and ids: "distinct (map r_id (db_qrs d))" by (auto simp: db_ok_def keys_ok_def)
  let ?T = "t_id ` set (db_teas d)"
  have links: "filter (\<lambda>p. fst p \<in> ?T \<and> fst p \<noteq> i) (db_tea_tags d) =
      filter (\<lambda>p. fst p \<noteq> i) (db_tea_tags d)"
    and qrs: "filter (\<lambda>r. r_tea r \<in> ?T \<and> r_tea r \<noteq> i) (db_qrs d) = filter (\<lambda>r. r_tea r \<noteq> i) (db_qrs d)"
    and cons: "filter (\<lambda>r. s_user r \<in> u_id ` set (db_users d) \<and> s_tea r \<in> ?T \<and> s_tea r \<noteq> i) (db_cons d) =
      filter (\<lambda>r. s_tea r \<noteq> i) (db_cons d)"
    using refs unfolding refs_ok_def by (auto intro!: filter_cong)
  have items: "filter (\<lambda>p. snd p \<in> r_id ` {r \<in> set (db_qrs d). r_tea r \<noteq> i}) (db_items d) =
      filter (\<lambda>p. snd p \<notin> r_id ` {r \<in> set (db_qrs d). r_tea r = i}) (db_items d)"
    using refs unfolding refs_ok_def by (intro filter_cong) (auto simp: image_other_rows [OF ids])
  have "\<not> restricted (d\<lparr>db_teas := ts\<rparr>)" for ts using not_restricted [OF refs] by (simp add: restricted_def)
  then show ?case
    by (simp add: cascade_def table_defs on_column_def Let_def refs_kept [OF refs] links qrs cons items)
qed

lemma category_delete_agrees [agree]:
  assumes "db_ok (sq_pg se) d"
  shows "sq_DeleteTagCategory se i d = q_DeleteTagCategory (sq_pg se) i d"
  unfolding sq_DeleteTagCategory_def q_DeleteTagCategory_def
proof (rule delete_rows_agree [OF assms], goal_cases)
  case (1 d)
  then have refs: "refs_ok d" by (simp add: db_ok_def)
  have "restricted (d\<lparr>db_cats := filter (\<lambda>r. c_id r \<noteq> i) (db_cats d)\<rparr>) \<longleftrightarrow>
      i \<in> c_id ` set (db_cats d) \<and> i \<in> g_cat ` set (db_tags d)"
    using refs unfolding refs_ok_def restricted_def by auto
  then show ?case by (simp add: cascade_def table_defs Let_def refs_kept [OF refs])
qed

lemma tag_delete_agrees:
  assumes "db_ok (sq_pg se) d"
  shows "delete_rows (sq_pg se) tags_table p d = stmt (sq_pg se) (\<lambda>d. (Inr (), delete_tags p d)) d"
proof (rule delete_rows_agree [OF assms], goal_cases)
  case (1 d)
  then have refs: "refs_ok d" and ids: "distinct (map g_id (db_tags d))" by (auto simp: db_ok_def keys_ok_def)
  have links: "filter (\<lambda>q. snd q \<in> g_id ` {r \<in> set (db_tags d). \<not> p r}) (db_tea_tags d) =
      filter (\<lambda>q. snd q \<notin> g_id ` {r \<in> set (db_tags d). p r}) (db_tea_tags d)"
    using refs unfolding refs_ok_def by (intro filter_cong) (auto simp: image_other_rows [OF ids])
  have "\<not> restricted (d\<lparr>db_tags := filter q (db_tags d)\<rparr>)" for q
    using not_restricted [OF refs] by (auto simp: restricted_def)
  then show ?case
    by (simp add: cascade_def delete_tags_def table_defs Let_def refs_kept [OF refs] links)
qed

lemma tag_deletes_agree [agree]:
  assumes "db_ok (sq_pg se) d"
  shows "sq_DeleteTag se i d = q_DeleteTag (sq_pg se) i d"
    "sq_DeleteTagsByCategory se i d = q_DeleteTagsByCategory (sq_pg se) i d"
  unfolding sq_DeleteTag_def q_DeleteTag_def sq_DeleteTagsByCategory_def q_DeleteTagsByCategory_def
  by (rule tag_delete_agrees [OF assms])+

lemma collection_delete_agrees [agree]:
  assumes "db_ok (sq_pg se) d"
  shows "sq_DeleteCollection se i u d = q_DeleteCollection (sq_pg se) i u d"
  unfolding sq_DeleteCollection_def q_DeleteCollection_def
proof (rule delete_rows_agree [OF assms], goal_cases)
  case (1 d)
  then have refs: "refs_ok d" and ids: "distinct (map k_id (db_colls d))" by (auto simp: db_ok_def keys_ok_def)
  let ?p = "\<lambda>r. k_id r = i \<and> k_user r = u"
  have cols: "filter (\<lambda>r. (k_id r = i \<longrightarrow> k_user r \<noteq> u) \<and> k_user r \<in> u_id ` set (db_users d)) (db_colls d) =
      filter (\<lambda>r. k_id r = i \<longrightarrow> k_user r \<noteq> u) (db_colls d)"
    and set_cols: "{r \<in> set (db_colls d). (k_id r = i \<longrightarrow> k_user r \<noteq> u) \<and> k_user r \<in> u_id ` set (db_users d)} =
      {r \<in> set (db_colls d). k_id r = i \<longrightarrow> k_user r \<noteq> u}"
    using refs unfolding refs_ok_def by (auto intro!: filter_cong)
  have items: "filter (\<lambda>q. fst q \<in> k_id ` {r \<in> set (db_colls d). \<not> ?p r}) (db_items d) =
      filter (\<lambda>q. fst q \<notin> k_id ` {r \<in> set (db_colls d). ?p r}) (db_items d)"
    using refs image_other_rows [OF ids, of _ ?p] unfolding refs_ok_def by (intro filter_cong) auto
  have "\<not> restricted (d\<lparr>db_colls := cs\<rparr>)" for cs using not_restricted [OF refs] by (simp add: restricted_def)
  then show ?case
    using items by (simp add: cascade_def table_defs Let_def refs_kept [OF refs] cols set_cols)
qed


lemma cascade_leaf:
  assumes "refs_ok d"
  shows "cascade (d\<lparr>db_tea_tags := filter p (db_tea_tags d)\<rparr>) = d\<lparr>db_tea_tags := filter p (db_tea_tags d)\<rparr>"
    "cascade (d\<lparr>db_items := filter p (db_items d)\<rparr>) = d\<lparr>db_items := filter p (db_items d)\<rparr>"
    "cascade (d\<lparr>db_cons := filter q (db_cons d)\<rparr>) = d\<lparr>db_cons := filter q (db_cons d)\<rparr>"
proof -
  have "filter (\<lambda>x. p x \<and> fst x \<in> t_id ` set (db_teas d) \<and> snd x \<in> g_id ` set (db_tags d)) (db_tea_tags d) =
      filter p (db_tea_tags d)"
    "filter (\<lambda>x. p x \<and> fst x \<in> k_id ` set (db_colls d) \<and> snd x \<in> r_id ` set (db_qrs d)) (db_items d) =
      filter p (db_items d)"
    "filter (\<lambda>r. q r \<and> s_user r \<in> u_id ` set (db_users d) \<and> s_tea r \<in> t_id ` set (db_teas d)) (db_cons d) =
      filter q (db_cons d)"
    using assms unfolding refs_ok_def by (auto intro!: filter_cong)
  then show
    "cascade (d\<lparr>db_tea_tags := filter p (db_tea_tags d)\<rparr>) = d\<lparr>db_tea_tags := filter p (db_tea_tags d)\<rparr>"
    "cascade (d\<lparr>db_items := filter p (db_items d)\<rparr>) = d\<lparr>db_items := filter p (db_items d)\<rparr>"
    "cascade (d\<lparr>db_cons := filter q (db_cons d)\<rparr>) = d\<lparr>db_cons := filter q (db_cons d)\<rparr>"
    by (simp_all add: cascade_def Let_def refs_kept [OF assms])
qed

lemma leaf_deletes_agree [agree]:
  assumes "db_ok (sq_pg se) d"
  shows "sq_DeleteTagFromTea se i j d = q_DeleteTagFromTea (sq_pg se) i j d"
    "sq_DeleteCollectionItem se i j d = q_DeleteCollectionItem (sq_pg se) i j d"
    "sq_DeleteConsumptionsBefore se u t d = q_DeleteConsumptionsBefore (sq_pg se) u t d"
proof -
  have pairs: "filter (\<lambda>r. fst r = i \<longrightarrow> snd r \<noteq> j) ps = filter (\<lambda>p. p \<noteq> (i, j)) ps" for ps
    by (auto intro!: filter_cong)
  have whole: "refs_ok d" if "db_ok (sq_pg se) d" for d using that by (simp add: db_ok_def)
  have free: "\<not> restricted (d\<lparr>db_tea_tags := x\<rparr>)" "\<not> restricted (d\<lparr>db_items := y\<rparr>)"
    "\<not> restricted (d\<lparr>db_cons := z\<rparr>)" if "refs_ok d" for d x y z
    using not_restricted [OF that] by (simp_all add: restricted_def)
  note leaf = table_defs Let_def free [OF whole] cascade_leaf [OF whole] pairs
  show "sq_DeleteTagFromTea se i j d = q_DeleteTagFromTea (sq_pg se) i j d"
    unfolding sq_DeleteTagFromTea_def q_DeleteTagFromTea_def
    by (rule delete_rows_agree [OF assms]) (simp add: leaf)
  show "sq_DeleteCollectionItem se i j d = q_DeleteCollectionItem (sq_pg se) i j d"
    unfolding sq_DeleteCollectionItem_def q_DeleteCollectionItem_def
    by (rule delete_rows_agree [OF assms]) (simp add: leaf)
  show "sq_DeleteConsumptionsBefore se u t d = q_DeleteConsumptionsBefore (sq_pg se) u t d"
    unfolding sq_DeleteConsumptionsBefore_def q_DeleteConsumptionsBefore_def
    by (rule delete_rows_agree [OF assms]) (simp add: leaf)
qed

section \<open>All queries\<close>

text \<open>A call of a query that both packages have, and what it answers.\<close>

datatype sql_call =
    Call_InsertTea InsertTeaParams | Call_UpdateTea InsertTeaParams | Call_DeleteTea uuid
  | Call_GetTea uuid | Call_ListTeas | Call_SearchTeasByPrefix string nat
  | Call_InsertTagCategory uuid string | Call_UpdateTagCategory uuid string
  | Call_DeleteTagCategory uuid | Call_GetTagCategory uuid | Call_ListTagCategories
  | Call_SearchTagCategories string | Call_InsertTag tag_row | Call_UpdateTag uuid string string
  | Call_ChangeTagCategory uuid uuid | Call_DeleteTag uuid | Call_DeleteTagsByCategory uuid
  | Call_GetTag uuid | Call_ListTags | Call_ListTagsByCategory uuid
  | Call_ListTagsByCategoryFilter uuid | Call_ListTagsByName string
  | Call_ListTagsByNameCategory string uuid | Call_AddTagToTea uuid uuid
  | Call_DeleteTagFromTea uuid uuid | Call_ListTagsByTea uuid
  | Call_UpsertQR uuid uuid "32 word" time | Call_GetQR uuid
  | Call_InsertCollection uuid uuid string | Call_InsertCollectionItem uuid uuid
  | Call_DeleteCollectionItem uuid uuid | Call_DeleteCollection uuid uuid
  | Call_GetCollection uuid uuid | Call_ListCollections uuid | Call_ListCollectionRecords uuid
  | Call_InsertDevice uuid uuid string | Call_UpdateDeviceToken uuid string
  | Call_ListDeviceTokens uuid | Call_ListNotifications uuid | Call_UpsertUser uuid string
  | Call_ListUsers | Call_InsertConsumption uuid time uuid
  | Call_DeleteConsumptionsBefore uuid time | Call_ListConsumptionsSince uuid time

datatype sql_answer =
    ADone | ATea sq_Tea | ATeas "sq_Tea list" | ACat cat_row | ACats "cat_row list" | ATag tag_row
  | ATags "tag_row list" | ARecord qr_row | AColl coll_row | AColls "coll_row list"
  | ARecords "ListCollectionRecordsRow list" | ATokens "string list" | ANotifs "notif_row list"
  | AUser user_row | AUsers "user_row list" | AEvents "(time \<times> uuid) list"

definition tea_params :: "InsertTeaParams \<Rightarrow> TeaParams" where
  "tea_params arg =
     \<lparr>tp_ID = itp_ID arg, tp_Name = itp_Name arg, tp_Type = itp_Type arg,
      tp_Description = text_value (itp_Description arg)\<rparr>"

fun run_sqlc :: "sqlc_env \<Rightarrow> sql_call \<Rightarrow> sql_answer query" where
  "run_sqlc se (Call_InsertTea arg) = mapE ATea (sq_InsertTea se arg)"
| "run_sqlc se (Call_UpdateTea arg) = mapE ATea (sq_UpdateTea se arg)"
| "run_sqlc se (Call_DeleteTea i) = mapE (\<lambda>_. ADone) (sq_DeleteTea se i)"
| "run_sqlc se (Call_GetTea i) = mapE ATea (sq_GetTea se i)"
| "run_sqlc se Call_ListTeas = mapE ATeas (sq_ListTeas se)"
| "run_sqlc se (Call_SearchTeasByPrefix s k) = mapE ATeas (sq_SearchTeasByPrefix se s k)"
| "run_sqlc se (Call_InsertTagCategory i s) = mapE ACat (sq_InsertTagCategory se i s)"
| "run_sqlc se (Call_UpdateTagCategory i s) = mapE ACat (sq_UpdateTagCategory se i s)"
| "run_sqlc se (Call_DeleteTagCategory i) = mapE (\<lambda>_. ADone) (sq_DeleteTagCategory se i)"
| "run_sqlc se (Call_GetTagCategory i) = mapE ACat (sq_GetTagCategory se i)"
| "run_sqlc se Call_ListTagCategories = mapE ACats (sq_ListTagCategories se)"
| "run_sqlc se (Call_SearchTagCategories s) = mapE ACats (sq_SearchTagCategories se s)"
| "run_sqlc se (Call_InsertTag tg) = mapE ATag (sq_InsertTag se tg)"
| "run_sqlc se (Call_UpdateTag i s t) = mapE ATag (sq_UpdateTag se i s t)"
| "run_sqlc se (Call_ChangeTagCategory i j) = mapE ATag (sq_ChangeTagCategory se i j)"
| "run_sqlc se (Call_DeleteTag i) = mapE (\<lambda>_. ADone) (sq_DeleteTag se i)"
| "run_sqlc se (Call_DeleteTagsByCategory i) =
     mapE (\<lambda>_. ADone) (sq_DeleteTagsByCategory se i)"
| "run_sqlc se (Call_GetTag i) = mapE ATag (sq_GetTag se i)"
| "run_sqlc se Call_ListTags = mapE ATags (sq_ListTags se)"
| "run_sqlc se (Call_ListTagsByCategory i) = mapE ATags (sq_ListTagsByCategory se i)"
| "run_sqlc se (Call_ListTagsByCategoryFilter i) = mapE ATags (sq_ListTagsByCategoryFilter se i)"
| "run_sqlc se (Call_ListTagsByName s) = mapE ATags (sq_ListTagsByName se s)"
| "run_sqlc se (Call_ListTagsByNameCategory s i) = mapE ATags (sq_ListTagsByNameCategory se s i)"
| "run_sqlc se (Call_AddTagToTea i j) = mapE (\<lambda>_. ADone) (sq_AddTagToTea se i j)"
| "run_sqlc se (Call_DeleteTagFromTea i j) = mapE (\<lambda>_. ADone) (sq_DeleteTagFromTea se i j)"
| "run_sqlc se (Call_ListTagsByTea i) = mapE ATags (sq_ListTagsByTea se i)"
| "run_sqlc se (Call_UpsertQR i j w t) = mapE (\<lambda>_. ADone) (sq_UpsertQR se i j w t)"
| "run_sqlc se (Call_GetQR i) = mapE ARecord (sq_GetQR se i)"
| "run_sqlc se (Call_InsertCollection i j s) = mapE AColl (sq_InsertCollection se i j s)"
| "run_sqlc se (Call_InsertCollectionItem i j) =
     mapE (\<lambda>_. ADone) (sq_InsertCollectionItem se i j)"
| "run_sqlc se (Call_DeleteCollectionItem i j) =
     mapE (\<lambda>_. ADone) (sq_DeleteCollectionItem se i j)"
| "run_sqlc se (Call_DeleteCollection i j) = mapE (\<lambda>_. ADone) (sq_DeleteCollection se i j)"
| "run_sqlc se (Call_GetCollection i j) = mapE AColl (sq_GetCollection se i j)"
| "run_sqlc se (Call_ListCollections i) = mapE AColls (sq_ListCollections se i)"
| "run_sqlc se (Call_ListCollectionRecords i) = mapE ARecords (sq_ListCollectionRecords se i)"
| "run_sqlc se (Call_InsertDevice i j s) = mapE (\<lambda>_. ADone) (sq_InsertDevice se i j s)"
| "run_sqlc se (Call_UpdateDeviceToken i s) =
     mapE (\<lambda>_. ADone) (sq_UpdateDeviceToken se i s)"
| "run_sqlc se (Call_ListDeviceTokens i) = mapE ATokens (sq_ListDeviceTokens se i)"
| "run_sqlc se (Call_ListNotifications i) = mapE ANotifs (sq_ListNotifications se i)"
| "run_sqlc se (Call_UpsertUser i s) = mapE AUser (sq_UpsertUser se i s)"
| "run_sqlc se Call_ListUsers = mapE AUsers (sq_ListUsers se)"
| "run_sqlc se (Call_InsertConsumption i t j) =
     mapE (\<lambda>_. ADone) (sq_InsertConsumption se i t j)"
| "run_sqlc se (Call_DeleteConsumptionsBefore i t) =
     mapE (\<lambda>_. ADone) (sq_DeleteConsumptionsBefore se i t)"
| "run_sqlc se (Call_ListConsumptionsSince i t) = mapE AEvents (sq_ListConsumptionsSince se i t)"

fun run_pgstore :: "pg_env \<Rightarrow> sql_call \<Rightarrow> sql_answer query" where
  "run_pgstore env (Call_InsertTea arg) =
     mapE (ATea \<circ> scan_tea) (q_InsertTea env (tea_params arg))"
| "run_pgstore env (Call_UpdateTea arg) =
     mapE (ATea \<circ> scan_tea) (q_UpdateTea env (tea_params arg))"
| "run_pgstore env (Call_DeleteTea i) = mapE (\<lambda>_. ADone) (q_DeleteTea env i)"
| "run_pgstore env (Call_GetTea i) = mapE (ATea \<circ> scan_tea) (q_GetTea env i)"
| "run_pgstore env Call_ListTeas = mapE (ATeas \<circ> map scan_tea) (q_ListTeas env)"
| "run_pgstore env (Call_SearchTeasByPrefix s k) =
     mapE (ATeas \<circ> map scan_tea) (q_SearchTeasByPrefix env s k)"
| "run_pgstore env (Call_InsertTagCategory i s) = mapE ACat (q_InsertTagCategory env i s)"
| "run_pgstore env (Call_UpdateTagCategory i s) = mapE ACat (q_UpdateTagCategory env i s)"
| "run_pgstore env (Call_DeleteTagCategory i) =
     mapE (\<lambda>_. ADone) (q_DeleteTagCategory env i)"
| "run_pgstore env (Call_GetTagCategory i) = mapE ACat (q_GetTagCategory env i)"
| "run_pgstore env Call_ListTagCategories = mapE ACats (q_ListTagCategories env)"
| "run_pgstore env (Call_SearchTagCategories s) = mapE ACats (q_SearchTagCategories env s)"
| "run_pgstore env (Call_InsertTag tg) = mapE ATag (q_InsertTag env tg)"
| "run_pgstore env (Call_UpdateTag i s t) = mapE ATag (q_UpdateTag env i s t)"
| "run_pgstore env (Call_ChangeTagCategory i j) = mapE ATag (q_ChangeTagCategory env i j)"
| "run_pgstore env (Call_DeleteTag i) = mapE (\<lambda>_. ADone) (q_DeleteTag env i)"
| "run_pgstore env (Call_DeleteTagsByCategory i) =
     mapE (\<lambda>_. ADone) (q_DeleteTagsByCategory env i)"
| "run_pgstore env (Call_GetTag i) = mapE ATag (q_GetTag env i)"
| "run_pgstore env Call_ListTags = mapE ATags (q_ListTags env)"
| "run_pgstore env (Call_ListTagsByCategory i) = mapE ATags (q_ListTagsByCategory env i)"
| "run_pgstore env (Call_ListTagsByCategoryFilter i) =
     mapE ATags (q_ListTagsByCategoryFilter env i)"
| "run_pgstore env (Call_ListTagsByName s) = mapE ATags (q_ListTagsByName env s)"
| "run_pgstore env (Call_ListTagsByNameCategory s i) =
     mapE ATags (q_ListTagsByNameCategory env s i)"
| "run_pgstore env (Call_AddTagToTea i j) = mapE (\<lambda>_. ADone) (q_AddTagToTea env i j)"
| "run_pgstore env (Call_DeleteTagFromTea i j) =
     mapE (\<lambda>_. ADone) (q_DeleteTagFromTea env i j)"
| "run_pgstore env (Call_ListTagsByTea i) = mapE ATags (q_ListTagsByTea env i)"
| "run_pgstore env (Call_UpsertQR i j w t) = mapE (\<lambda>_. ADone) (q_UpsertQR env i j w t)"
| "run_pgstore env (Call_GetQR i) = mapE ARecord (q_GetQR env i)"
| "run_pgstore env (Call_InsertCollection i j s) = mapE AColl (q_InsertCollection env i j s)"
| "run_pgstore env (Call_InsertCollectionItem i j) =
     mapE (\<lambda>_. ADone) (q_InsertCollectionItem env i j)"
| "run_pgstore env (Call_DeleteCollectionItem i j) =
     mapE (\<lambda>_. ADone) (q_DeleteCollectionItem env i j)"
| "run_pgstore env (Call_DeleteCollection i j) =
     mapE (\<lambda>_. ADone) (q_DeleteCollection env i j)"
| "run_pgstore env (Call_GetCollection i j) = mapE AColl (q_GetCollection env i j)"
| "run_pgstore env (Call_ListCollections i) = mapE AColls (q_ListCollections env i)"
| "run_pgstore env (Call_ListCollectionRecords i) =
     mapE (ARecords \<circ> map scan_record) (q_ListCollectionRecords env i)"
| "run_pgstore env (Call_InsertDevice i j s) = mapE (\<lambda>_. ADone) (q_InsertDevice env i j s)"
| "run_pgstore env (Call_UpdateDeviceToken i s) =
     mapE (\<lambda>_. ADone) (q_UpdateDeviceToken env i s)"
| "run_pgstore env (Call_ListDeviceTokens i) = mapE ATokens (q_ListDeviceTokens env i)"
| "run_pgstore env (Call_ListNotifications i) = mapE ANotifs (q_ListNotifications env i)"
| "run_pgstore env (Call_UpsertUser i s) =
     mapE AUser (q_UpsertUser env \<lparr>uup_ID = i, uup_AppleID = s\<rparr>)"
| "run_pgstore env Call_ListUsers = mapE AUsers (q_ListUsers env)"
| "run_pgstore env (Call_InsertConsumption i t j) =
     mapE (\<lambda>_. ADone) (q_InsertConsumption env i t j)"
| "run_pgstore env (Call_DeleteConsumptionsBefore i t) =
     mapE (\<lambda>_. ADone) (q_DeleteConsumptionsBefore env i t)"
| "run_pgstore env (Call_ListConsumptionsSince i t) =
     mapE (AEvents \<circ> map (\<lambda>r. (s_ts r, s_tea r))) (q_ListConsumptionsSince env i t)"

lemma mapE_comp: "mapE g (mapE f q) = mapE (g \<circ> f) q"
  by (rule ext) (simp add: mapE_def split: prod.split sum.split)

lemma mapE_cong: "q d = q' d \<Longrightarrow> mapE f q d = mapE f q' d"
  by (simp add: mapE_def)

text \<open>
  C13. On every consistent database each of the 44 queries that both packages have does the same:
  the query sqlc generates, run by the declared constraints and cascades of the schema, answers
  what the query of the program answers, fails with the same error where it fails, and leaves the
  same database behind, whatever the arguments and whatever statements fail.
\<close>

theorem sqlc_queries_agree:
  assumes "db_ok (sq_pg se) d" and "uncut se"
  shows "run_sqlc se c d = run_pgstore (sq_pg se) c d"
  using assms by (cases c) (simp_all add: agree mapE_def tea_params_def split: prod.split sum.split)

definition demo_sqlc :: sqlc_env where
  "demo_sqlc = \<lparr>sq_pg = env0, sq_cut = (\<lambda>_. None)\<rparr>"

theorem sqlc_queries_agree_witness:
  "run_sqlc demo_sqlc (Call_DeleteTea 7) db_one_tea = run_pgstore env0 (Call_DeleteTea 7) db_one_tea \<and>
   db_teas (snd (run_sqlc demo_sqlc (Call_DeleteTea 7) db_one_tea)) = []"
proof -
  have "db_ok env0 db_one_tea"
    unfolding db_one_tea_def by (rule q_InsertTea_ok [OF db_ok_empty])
  then have same: "run_sqlc demo_sqlc (Call_DeleteTea 7) db_one_tea = run_pgstore env0 (Call_DeleteTea 7) db_one_tea"
    using sqlc_queries_agree [of demo_sqlc db_one_tea "Call_DeleteTea 7"] by (simp add: demo_sqlc_def uncut_def)
  have "db_teas (snd (run_pgstore env0 (Call_DeleteTea 7) db_one_tea)) = []"
    by (simp add: mapE_def q_DeleteTea_def db_one_tea_def q_InsertTea_def stmt_def env0_def empty_db_def
        tea_type_check_def Let_def)
  with same show ?thesis by simp
qed

end
