(* ===== verification/Spec2Isabelle.thy ===== *)
theory Spec2Isabelle
  imports Key_Builder Startup Introspection_Laws Deferral Complexity Sqlc_Queries
begin

text \<open>
  The server of TeaElephantMemory: a GraphQL API over a catalogue of teas and their tags, kept by
  an editor, and over the collections users make of the QR-coded tea tins they own.

  \<^bold>\<open>The program.\<close> \<open>cmd/server\<close> wires the parts together. A request comes over HTTP or a WebSocket
  connection; \<open>internal/auth\<close> turns its token into a user or an admin principal in the context;
  the code generated from the schema (\<open>pkg/api/v2/graphql/generated\<close>) executes the operation by
  calling the resolvers (\<open>pkg/api/v2/graphql\<close>); these call the managers (\<open>internal/managers\<close>),
  which write through one adapter (\<open>pkg/pg\<close>) and its queries (\<open>pkg/pgstore\<close>) to Postgres and
  announce what they wrote on channels, from which the managers' loops feed the subscribers
  (\<open>common/subscribers\<close>). Beside them run the alerter of expired teas (\<open>internal/expiration\<close>), which
  pushes over \<open>internal/apns\<close>, the adviser and the description generator over a language model
  (\<open>internal/adviser\<close>, \<open>internal/descrgen\<close>), and the selection of a tea of the day
  (\<open>internal/scoring\<close>, \<open>internal/consumption\<close>, \<open>internal/openweather\<close>, the cache).

  \<^bold>\<open>The theories, in the order of their imports.\<close>
  \<^item> \<open>Prelude\<close>: times, the error values of Go with wrapping, operations on a state (\<open>act\<close>) with
    their combinators, lists updated in place, the collections of lemmas the others fill.
  \<^item> \<open>Key_Builder\<close>: \<open>common/key_value/key_builder\<close>, the byte layout of the keys of the earlier
    key-value store; keys of different kinds do not collide and a consumption key is parsed back.
  \<^item> \<open>Common_Model\<close>: the records of \<open>common\<close> and \<open>pkg/api/v2/models\<close> and their conversions.
  \<^item> \<open>Pgstore\<close>, \<open>Pgstore_Integrity\<close>: every query of \<open>pkg/pgstore/queries.go\<close> as its SQL on lists of
    rows with the keys, foreign keys, checks and cascades of \<open>db/schema.sql\<close>; the integrity of
    every reachable database (\<open>db_step\<close>, \<open>db_reach\<close>).
  \<^item> \<open>Pg_Adapter\<close>, \<open>Pg_Adapter_Laws\<close>: the methods of \<open>pkg/pg/db.go\<close>; what is written is read back.
  \<^item> \<open>Subscribers\<close>: the lists of subscribers with the in-place compaction of \<open>CleanDone\<close>.
  \<^item> \<open>Tea_Manager\<close>, \<open>Tag_Manager\<close>, \<open>Collection_Manager\<close>, \<open>Qr_Notification\<close>: the managers. The tea
    manager with its concurrent callers, its loop, the receivers and clients that come and leave is
    a step relation (\<open>tea_step\<close>); the turn of the tag manager's loop over its eight channels is
    \<open>tag_loop\<close>.
  \<^item> \<open>Consumption\<close>: the memory and the Postgres store of consumptions, and that they agree at the
    resolution of the server's times.
  \<^item> \<open>Authentication\<close>: sign-in, session tokens, admin tokens, the two middlewares.
  \<^item> \<open>Tod_Cache\<close>, \<open>Scoring\<close>, \<open>Tea_Of_The_Day\<close>: the cache, the score, the weather, and the query
    that composes them.
  \<^item> \<open>Expiration\<close>, \<open>Ai_Services\<close>: the alerter with the sender of pushes; adviser and generator.
  \<^item> \<open>Resolvers\<close>, \<open>Resolver_Laws\<close>: every resolver on the state of the process (\<open>app\<close>), and what the
    mutations keep.
  \<^item> \<open>Executor\<close>: how the generated code executes queries, mutations and subscriptions over the
    types of the schema: errors, panics, nulls and how far a null spreads.
  \<^item> \<open>Graphql_Server\<close>: requests and connections with their tokens, end to end.
  \<^item> \<open>Arguments\<close>: documents as clients send them: the decoding of arguments and input objects, the
    dispatch of fields, the schema; valid documents are answered as the schema says.
  \<^item> \<open>Field_Contexts\<close>, \<open>Field_Execution\<close>, \<open>Generated_Code\<close>: the generated code function by function, on
    the raw fields of a document, and that it does what \<open>Executor\<close> does.
  \<^item> \<open>Introspection\<close>, \<open>Introspection_Laws\<close>: the introspection of the schema over the objects of the
    library; its answers are their projection on the selection and leave the rest of a query alone.
  \<^item> \<open>Deferral\<close>: \<open>@defer\<close>; the functions of the five types whose fields can be deferred with their
    \<open>Deferrable\<close> branches (\<open>ec_Tea_deferring\<close> and its like, which without a label do what those of
    \<open>Generated_Code\<close> do), \<open>processDeferredGroup\<close> with its goroutines and the responses of \<open>Exec\<close>,
    freely interleaved (\<open>dx_step\<close>). \<open>Executor\<close>, \<open>Arguments\<close> and \<open>Generated_Code\<close> are of documents
    without \<open>@defer\<close>.
  \<^item> \<open>Complexity\<close>: the cost of a field; only fields of the schema have one of their own.
  \<^item> \<open>Qr_Sheets\<close>: \<open>printqr\<close>, the sheets of QR codes.
  \<^item> \<open>Startup\<close>: \<open>cmd/server\<close>, \<open>internal/server\<close> and the configurations: when the process starts,
    and what holds of all it serves from then on; \<open>cmd/qr_gen\<close>.
  \<^item> \<open>Sqlc_Queries\<close>: the queries of \<open>db/pkg/pgstore\<close>, which no code imports, over the schema as
    data; they do the same as the queries of \<open>pkg/pgstore\<close>.

  \<^bold>\<open>How the code is represented.\<close> A struct is a record with the fields of the struct, an \<open>int\<close> a
  64-bit word and an \<open>int32\<close> column a 32-bit word, an identifier a 128-bit word, a time a number
  of nanoseconds, a Go map a map, \<open>nil\<close> the value \<open>None\<close>. A method that returns a value or an error
  maps the state to a sum and a new state; the sum's left side is the error with its chain of
  wrapped messages, and \<open>errors_Is\<close> is \<open>errors.Is\<close>. A call that waits for room in a full channel
  is a value of its own (\<open>Waiting\<close>, \<open>Held\<close>), a panic another (\<open>Panic\<close>, \<open>Panicked\<close>). Identifiers
  drawn with \<open>uuid.New\<close> and readings of the clock are arguments. What the code leaves open is an
  argument as well: the order in which \<open>range\<close> visits a map, the collation of the server, the
  resolution of its timestamps, and which statements fail: \<open>env_fault\<close> says of each statement by
  its number whether it fails before it takes effect, for any reason beside the declared
  constraints (the connection is lost, the context is cancelled, the server refuses a value, such
  as a string with a NUL byte or one too long for an index). A statement that takes effect and
  whose answer is lost is not modelled. Library code outside the repository
  (JWT, PEM and key parsing, Apple's client, the push service, the language model, JSON decoding,
  templates, the cache of descriptions, number formats, \<open>envconfig\<close>, gqlgen's coercions, the QR and
  PDF libraries) is a record of functions or an argument; what is relied on is a named hypothesis
  (\<open>parse_checks\<close>, \<open>session_reads_back\<close>, \<open>cache_keeps\<close>, \<open>envconfig_reads\<close>, \<open>wire_ok\<close>, \<open>libs_work\<close>,
  \<open>intro_wf\<close>)
  with an instance. Local time has a fixed offset from UTC.

  \<^bold>\<open>Interfaces.\<close> Where a component relies on another, the client calls a record of operations and
  its lemmas are proved in a locale from laws about it: \<open>tea_storage_laws\<close>, \<open>tag_storage_laws\<close>,
  \<open>collection_storage_laws\<close>, \<open>qr_storage_laws\<close>, \<open>device_repository_laws\<close>, \<open>user_storage_laws\<close> and
  \<open>alert_storage_laws\<close>, each interpreted on the Postgres adapter, and \<open>consumption_laws\<close>, interpreted
  on both stores. \<open>unprivileged\<close>, with its extensions \<open>privileged\<close> and \<open>served\<close>, is the interface
  between the adapter and the theorems about whole requests: a predicate of the database that the
  adapter's methods keep is kept by every mutation, query and subscription. It is interpreted on the
  integrity of the database, on the catalogue, and on a collection of another user.

  \<^bold>\<open>What is shown.\<close> End to end: the catalogue changes only with a token of the editor, a collection
  only with its owner's or the editor's, the database keeps its integrity under every sequence
  of requests; a query is always answered as the schema says, a mutation runs all its fields and
  answers all or nothing; introspection discloses the schema and nothing of the running process; the groups a query
  defers are each answered once;
  the token of a connection is not checked again. For the components: round
  trips of the adapter, of keys and of sign-in; the exact effect of compound operations, also when
  they fail half-way; refinement of the managers to what their subscribers are told, with the
  delivery, the draining and the blocking of the loops; agreement of the two consumption stores;
  bounds, maximality and tie-breaking of the score; the day's answer of the cache and of the query;
  whom the alerter pushes to. Properties that show a defect of the code state exactly what it
  does; the manifest lists them as findings.

  \<^bold>\<open>Loops and bounds.\<close> The loops over slices are structural recursions. The loops of the managers
  never end; one turn is a step, and \<open>tea_run\<close> iterates turns over an explicit list of the choices
  \<open>select\<close> makes, so no fuel is needed: \<open>tea_loop_drains\<close> shows that as many turns as there are
  announcements empty the channels. The alerter's loop is a recursion over the list of its events.
  Channels hold 100 announcements, as in the code. The counters of deferred groups have 32 bits;
  what is shown of them is for operations with fewer than 2^31 groups.

  \<^bold>\<open>Granularity.\<close> A request is one step of \<open>serve\<close>. In \<open>tea_step\<close> the write of a call and its
  announcement are two steps, and in the loop the choice of \<open>select\<close>, each delivery and each
  \<open>CleanDone\<close> are one step each, all freely interleaved. The alerter reads the clock once for each
  record and each push.
  The goroutines that the generated code starts for the fields of an object run in the order of the
  selection: below the root they only read.

  \<^bold>\<open>Not modelled.\<close> Of the generated code: the writing of JSON, which is the library's. Parsing and validation of documents, transports and
  HTTP routing: the library's. \<open>json.Marshal\<close> in the encoders of the key-value layout. Logging,
  metrics and static files.
\<close>

end
